(* ===== verification/Prelude.thy ===== *)
theory Prelude
  imports Main "HOL-Library.Word" "HOL-Library.List_Lexorder" "HOL-Library.Sublist"
begin

text \<open>
  Shared vocabulary of the development: the machine types of the Rust sources, results with
  errors and panics, fixed-size byte arrays (\<^verbatim>\<open>[u8; N]\<close>), big- and little-endian
  integer encodings, and the lexicographic order of byte strings on which every index of
  the store relies.
\<close>

section \<open>Machine types\<close>

type_synonym byte = "8 word"
type_synonym bytes = "8 word list"
type_synonym u32 = "32 word"
type_synonym u64 = "64 word"
type_synonym u192 = "192 word"

named_theorems codec_simps \<open>layouts of the fixed-width keys and values\<close>
named_theorems store_simps \<open>what a partition holds after a write\<close>

section \<open>Results\<close>

text \<open>
  An operation of the sources ends in a value, in an \<^verbatim>\<open>anyhow\<close> error that its caller
  propagates with \<^verbatim>\<open>?\<close>, or in a panic (\<^verbatim>\<open>unwrap\<close>, \<^verbatim>\<open>expect\<close>,
  \<^verbatim>\<open>assert!\<close>, \<^verbatim>\<open>unreachable!\<close>).
\<close>

datatype fault = Failure string | Panic string

type_synonym 'a res = "fault + 'a"

abbreviation Ok :: "'a \<Rightarrow> 'a res" where
  "Ok x \<equiv> Inr x"

abbreviation Err :: "string \<Rightarrow> 'a res" where
  "Err e \<equiv> Inl (Failure e)"

abbreviation Panics :: "string \<Rightarrow> 'a res" where
  "Panics e \<equiv> Inl (Panic e)"

definition rbind :: "'a res \<Rightarrow> ('a \<Rightarrow> 'b res) \<Rightarrow> 'b res" where
  "rbind m f = (case m of Inl e \<Rightarrow> Inl e | Inr x \<Rightarrow> f x)"

fun rfold :: "('a \<Rightarrow> 's \<Rightarrow> 's res) \<Rightarrow> 'a list \<Rightarrow> 's \<Rightarrow> 's res" where
  "rfold f [] s = Inr s"
| "rfold f (x # xs) s = rbind (f x s) (rfold f xs)"

fun rmap :: "('a \<Rightarrow> 'b res) \<Rightarrow> 'a list \<Rightarrow> 'b list res" where
  "rmap f [] = Inr []"
| "rmap f (x # xs) = rbind (f x) (\<lambda>y. rbind (rmap f xs) (\<lambda>ys. Inr (y # ys)))"

definition unwrap :: "string \<Rightarrow> 'a option \<Rightarrow> 'a res" where
  "unwrap msg v = (case v of None \<Rightarrow> Panics msg | Some x \<Rightarrow> Ok x)"

definition is_ok :: "'a res \<Rightarrow> bool" where
  "is_ok m = (case m of Inl _ \<Rightarrow> False | Inr _ \<Rightarrow> True)"

lemma rbind_simps [simp]:
  "rbind (Inl e) f = Inl e"
  "rbind (Inr x) f = f x"
  by (simp_all add: rbind_def)

lemma rbind_Inr_iff [simp]: "rbind m f = Inr y \<longleftrightarrow> (\<exists>x. m = Inr x \<and> f x = Inr y)"
  by (cases m) simp_all

lemma unwrap_simps [simp]:
  "unwrap msg None = Panics msg"
  "unwrap msg (Some x) = Ok x"
  by (simp_all add: unwrap_def)

lemma is_ok_simps [simp]:
  "is_ok (Inr x)" "\<not> is_ok (Inl e)"
  by (simp_all add: is_ok_def)

lemma rfold_append: "rfold f (xs @ ys) s = rbind (rfold f xs s) (rfold f ys)"
proof (induction xs arbitrary: s)
  case (Cons x xs)
  then show ?case by (cases "f x s") simp_all
qed simp

text \<open>An invariant of every step is an invariant of the fold.\<close>

lemma rfold_invariant:
  assumes step: "\<And>x s s'. x \<in> set xs \<Longrightarrow> P s \<Longrightarrow> f x s = Inr s' \<Longrightarrow> P s'"
    and run: "rfold f xs s = Inr s'" and init: "P s"
  shows "P s'"
  using assms
proof (induction xs arbitrary: s)
  case (Cons x xs)
  then obtain t where "f x s = Inr t" and "rfold f xs t = Inr s'" by auto
  with Cons show ?case by (metis list.set_intros)
qed simp

lemma rfold_total:
  assumes "\<And>x s. x \<in> set xs \<Longrightarrow> P s \<Longrightarrow> \<exists>s'. f x s = Inr s' \<and> P s'"
    and "P s"
  shows "\<exists>s'. rfold f xs s = Inr s' \<and> P s'"
  using assms
proof (induction xs arbitrary: s)
  case (Cons x xs)
  then obtain t where "f x s = Inr t" and "P t" by (metis list.set_intros(1))
  moreover have "\<exists>s'. rfold f xs t = Inr s' \<and> P s'"
    using Cons \<open>P t\<close> by (metis list.set_intros(2))
  ultimately show ?case by simp
qed simp

lemma rmap_length: "rmap f xs = Inr ys \<Longrightarrow> length ys = length xs"
  by (induction xs arbitrary: ys) auto

lemma rmap_nth:
  "rmap f xs = Inr ys \<Longrightarrow> i < length xs \<Longrightarrow> f (xs ! i) = Inr (ys ! i)"
proof (induction xs arbitrary: ys i)
  case (Cons x xs)
  then show ?case by (cases i) auto
qed simp

lemma distinct_singleton: "distinct xs \<Longrightarrow> set xs = {x} \<Longrightarrow> xs = [x]"
proof (cases xs)
  case (Cons y ys)
  assume "distinct xs" and "set xs = {x}"
  with Cons have "y = x" and "x \<notin> set ys" and "set ys \<subseteq> {x}" by auto
  then have "set ys = {}" by (auto simp: subset_singleton_iff)
  with Cons \<open>y = x\<close> show ?thesis by simp
qed simp

section \<open>Fixed-size byte arrays\<close>

typedef (overloaded) ('n::len) arr = "{xs :: bytes. length xs = LENGTH('n)}"
  morphisms list_of Abs_arr
  by (rule exI [of _ "replicate LENGTH('n) 0"]) simp

text \<open>
  \<open>of_list\<close> is the zero-padded copy of a slice into a fresh array that the sources write as
  \<^verbatim>\<open>b[..n].copy_from_slice(&s[..n])\<close> with \<^verbatim>\<open>n = min(N, s.len())\<close>.
\<close>

definition of_list :: "bytes \<Rightarrow> 'n::len arr" where
  "of_list xs = Abs_arr (take LENGTH('n) (xs @ replicate LENGTH('n) 0))"

lemma length_list_of [simp]: "length (list_of (a :: 'n::len arr)) = LENGTH('n)"
  using list_of [of a] by simp

lemma list_of_nonempty [simp]: "list_of (a :: 'n::len arr) \<noteq> []"
  using length_list_of [of a] by (metis len_gt_0 length_0_conv less_numeral_extra(3))

lemma list_of_of_list [simp]:
  "list_of (of_list xs :: 'n::len arr) = take LENGTH('n) (xs @ replicate LENGTH('n) 0)"
  by (simp add: of_list_def Abs_arr_inverse)

lemma of_list_list_of [simp]: "of_list (list_of a) = a"
  by (simp add: of_list_def list_of_inverse)

lemma list_of_eq_iff [simp]: "list_of a = list_of b \<longleftrightarrow> a = b"
  by (rule list_of_inject)

lemma of_list_append_list_of [simp]: "of_list (list_of (a :: 'n::len arr) @ xs) = a"
  by (simp add: of_list_def list_of_inverse)

lemma list_of_of_list_exact:
  "length xs = LENGTH('n) \<Longrightarrow> list_of (of_list xs :: 'n::len arr) = xs"
  by simp

lemma of_list_eq_iff:
  "length xs = LENGTH('n) \<Longrightarrow> length ys = LENGTH('n) \<Longrightarrow>
    (of_list xs :: 'n::len arr) = of_list ys \<longleftrightarrow> xs = ys"
  by (metis list_of_of_list_exact)

lemma take_list_of_append [simp]:
  "take LENGTH('n) (list_of (a :: 'n::len arr) @ xs) = list_of a"
  "drop LENGTH('n) (list_of (a :: 'n::len arr) @ xs) = xs"
  by simp_all

instantiation arr :: (len) equal
begin

definition equal_arr :: "'a arr \<Rightarrow> 'a arr \<Rightarrow> bool" where
  "equal_arr a b \<longleftrightarrow> list_of a = list_of b"

instance
  by standard (simp add: equal_arr_def)

end

instantiation arr :: (len) linorder
begin

definition less_eq_arr :: "'a arr \<Rightarrow> 'a arr \<Rightarrow> bool" where
  "less_eq_arr a b \<longleftrightarrow> list_of a \<le> list_of b"

definition less_arr :: "'a arr \<Rightarrow> 'a arr \<Rightarrow> bool" where
  "less_arr a b \<longleftrightarrow> list_of a < list_of b"

instance
proof
  fix x y :: "'a arr"
  show "x < y \<longleftrightarrow> x \<le> y \<and> \<not> y \<le> x"
    by (simp add: less_eq_arr_def less_arr_def less_le_not_le)
  show "x \<le> y \<Longrightarrow> y \<le> x \<Longrightarrow> x = y"
    by (metis less_eq_arr_def list_of_eq_iff order_antisym)
qed (auto simp: less_eq_arr_def)

end

type_synonym hash = "32 arr"

text \<open>Cutting a byte string into fields: nothing is lost.\<close>

fun chunks :: "nat list \<Rightarrow> bytes \<Rightarrow> bytes list" where
  "chunks [] bs = [bs]"
| "chunks (n # ns) bs = take n bs # chunks ns (drop n bs)"

lemma concat_chunks: "concat (chunks ns bs) = bs"
  by (induction ns arbitrary: bs) simp_all

section \<open>Integer encodings\<close>

fun be_nat :: "nat \<Rightarrow> nat \<Rightarrow> bytes" where
  "be_nat 0 v = []"
| "be_nat (Suc n) v = be_nat n (v div 256) @ [word_of_nat (v mod 256)]"

definition of_be_nat :: "bytes \<Rightarrow> nat" where
  "of_be_nat bs = foldl (\<lambda>a b. a * 256 + unat b) 0 bs"

definition to_be_bytes :: "'a::len word \<Rightarrow> bytes" where
  "to_be_bytes w = be_nat (LENGTH('a) div 8) (unat w)"

definition from_be_bytes :: "bytes \<Rightarrow> 'a::len word" where
  "from_be_bytes bs = word_of_nat (of_be_nat bs)"

definition to_le_bytes :: "'a::len word \<Rightarrow> bytes" where
  "to_le_bytes w = rev (to_be_bytes w)"

definition from_le_bytes :: "bytes \<Rightarrow> 'a::len word" where
  "from_le_bytes bs = from_be_bytes (rev bs)"

lemma length_be_nat [simp]: "length (be_nat n v) = n"
  by (induction n arbitrary: v) simp_all

lemma length_to_be_bytes: "length (to_be_bytes (w :: 'a::len word)) = LENGTH('a) div 8"
  by (simp add: to_be_bytes_def)

lemma length_to_be_bytes_sizes [simp]:
  "length (to_be_bytes (w64 :: u64)) = 8"
  "length (to_be_bytes (w192 :: u192)) = 24"
  "length (to_be_bytes (w32 :: u32)) = 4"
  by (simp_all add: length_to_be_bytes)

lemma length_to_le_bytes_sizes [simp]:
  "length (to_le_bytes (w64 :: u64)) = 8"
  "length (to_le_bytes (w192 :: u192)) = 24"
  "length (to_le_bytes (w32 :: u32)) = 4"
  by (simp_all add: to_le_bytes_def)

lemma of_be_nat_snoc: "of_be_nat (xs @ [b]) = of_be_nat xs * 256 + unat b"
  by (simp add: of_be_nat_def)

lemma unat_byte_of_mod [simp]: "unat (word_of_nat (v mod 256) :: byte) = v mod 256"
  by (simp add: unat_of_nat)

lemma of_be_nat_be_nat: "of_be_nat (be_nat n v) = v mod 256 ^ n"
proof (induction n arbitrary: v)
  case (Suc n)
  have "of_be_nat (be_nat (Suc n) v) = (v div 256 mod 256 ^ n) * 256 + v mod 256"
    by (simp only: be_nat.simps of_be_nat_snoc Suc unat_byte_of_mod)
  also have "\<dots> = v mod 256 ^ Suc n"
    by (simp only: power_Suc mod_mult2_eq)
  finally show ?case .
qed (simp add: of_be_nat_def)

lemma be_nat_of_be_nat: "be_nat (length bs) (of_be_nat bs) = bs"
proof (induction bs rule: rev_induct)
  case (snoc b bs)
  have b: "unat b < 256"
    using unsigned_less [of b] by simp
  then have "(of_be_nat bs * 256 + unat b) div 256 = of_be_nat bs"
    and "(of_be_nat bs * 256 + unat b) mod 256 = unat b"
    by simp_all
  with snoc show ?case by (simp add: of_be_nat_snoc)
qed simp

lemma pow256: "(256::nat) ^ n = 2 ^ (8 * n)"
  by (simp add: power_mult)

lemma from_to_be_bytes:
  assumes "8 dvd LENGTH('a)"
  shows "from_be_bytes (to_be_bytes w) = (w :: 'a::len word)"
proof -
  from assms have len: "8 * (LENGTH('a) div 8) = LENGTH('a)" by simp
  have "unat w < 256 ^ (LENGTH('a) div 8)"
    by (simp only: pow256 len unsigned_less)
  then show ?thesis
    by (simp add: from_be_bytes_def to_be_bytes_def of_be_nat_be_nat)
qed

lemma from_to_be_bytes_sizes [simp]:
  "from_be_bytes (to_be_bytes (w64 :: u64)) = w64"
  "from_be_bytes (to_be_bytes (w192 :: u192)) = w192"
  "from_be_bytes (to_be_bytes (w32 :: u32)) = w32"
  by (simp_all add: from_to_be_bytes)

lemma from_to_le_bytes_sizes [simp]:
  "from_le_bytes (to_le_bytes (w64 :: u64)) = w64"
  "from_le_bytes (to_le_bytes (w192 :: u192)) = w192"
  "from_le_bytes (to_le_bytes (w32 :: u32)) = w32"
  by (simp_all add: from_le_bytes_def to_le_bytes_def)

lemma of_be_nat_lt: "of_be_nat bs < 256 ^ length bs"
  by (metis be_nat_of_be_nat of_be_nat_be_nat mod_less_divisor zero_less_numeral zero_less_power)

lemma to_from_be_bytes:
  assumes "8 * length bs = LENGTH('a)"
  shows "to_be_bytes (from_be_bytes bs :: 'a::len word) = bs"
proof -
  have "of_be_nat bs < 2 ^ LENGTH('a)"
    using of_be_nat_lt [of bs] by (simp only: pow256 assms)
  then have "unat (word_of_nat (of_be_nat bs) :: 'a word) = of_be_nat bs"
    by (simp add: unat_of_nat)
  moreover have "LENGTH('a) div 8 = length bs"
    by (simp flip: assms)
  ultimately show ?thesis
    by (simp add: to_be_bytes_def from_be_bytes_def be_nat_of_be_nat)
qed

lemma to_from_be_bytes_sizes [simp]:
  "length bs = 8 \<Longrightarrow> to_be_bytes (from_be_bytes bs :: u64) = bs"
  "length bs = 24 \<Longrightarrow> to_be_bytes (from_be_bytes bs :: u192) = bs"
  by (simp_all add: to_from_be_bytes)

lemma to_from_le_bytes_sizes [simp]:
  "length bs = 8 \<Longrightarrow> to_le_bytes (from_le_bytes bs :: u64) = bs"
  "length bs = 4 \<Longrightarrow> to_le_bytes (from_le_bytes bs :: u32) = bs"
  by (simp_all add: to_le_bytes_def from_le_bytes_def to_from_be_bytes)

lemma to_be_bytes_inject_sizes [simp]:
  "to_be_bytes (v64 :: u64) = to_be_bytes w64 \<longleftrightarrow> v64 = w64"
  "to_be_bytes (v192 :: u192) = to_be_bytes w192 \<longleftrightarrow> v192 = w192"
  by (metis from_to_be_bytes_sizes(1), metis from_to_be_bytes_sizes(2))

lemma to_le_bytes_inject_u64 [simp]:
  "to_le_bytes (v64 :: u64) = to_le_bytes w64 \<longleftrightarrow> v64 = w64"
  by (metis from_to_le_bytes_sizes(1))

section \<open>The order of byte strings\<close>

lemma less_append_same_length:
  fixes xs ys :: "'a::linorder list"
  assumes "length xs = length ys"
  shows "xs @ as < ys @ bs \<longleftrightarrow> xs < ys \<or> xs = ys \<and> as < bs"
  using assms by (induction xs ys rule: list_induct2) auto

lemma le_append_same_length:
  fixes xs ys :: "'a::linorder list"
  assumes "length xs = length ys"
  shows "xs @ as \<le> ys @ bs \<longleftrightarrow> xs < ys \<or> xs = ys \<and> as \<le> bs"
  using assms by (induction xs ys rule: list_induct2) auto

lemma less_be_nat:
  "v < 256 ^ n \<Longrightarrow> w < 256 ^ n \<Longrightarrow> be_nat n v < be_nat n w \<longleftrightarrow> v < w"
proof (induction n arbitrary: v w)
  case (Suc n)
  have div: "v div 256 < 256 ^ n" "w div 256 < 256 ^ n"
    using Suc.prems by (simp_all add: less_mult_imp_div_less mult.commute)
  have eq: "be_nat n (v div 256) = be_nat n (w div 256) \<longleftrightarrow> v div 256 = w div 256"
    using div by (metis mod_less of_be_nat_be_nat)
  have low: "(word_of_nat (v mod 256) :: byte) < word_of_nat (w mod 256) \<longleftrightarrow> v mod 256 < w mod 256"
    by (simp add: word_less_nat_alt)
  have "be_nat (Suc n) v < be_nat (Suc n) w \<longleftrightarrow>
      v div 256 < w div 256 \<or> v div 256 = w div 256 \<and> v mod 256 < w mod 256"
    by (simp only: be_nat.simps less_append_same_length length_be_nat Suc.IH [OF div] eq
        Cons_less_Cons low) auto
  also have "\<dots> \<longleftrightarrow> v < w"
    using mult_div_mod_eq [of 256 v] mult_div_mod_eq [of 256 w]
      mod_less_divisor [of 256 v] mod_less_divisor [of 256 w] by linarith
  finally show ?case .
qed simp

lemma less_to_be_bytes:
  assumes "8 dvd LENGTH('a)"
  shows "to_be_bytes v < to_be_bytes (w :: 'a::len word) \<longleftrightarrow> v < w"
proof -
  from assms have "8 * (LENGTH('a) div 8) = LENGTH('a)" by simp
  then have "unat x < 256 ^ (LENGTH('a) div 8)" for x :: "'a word"
    by (simp only: pow256 unsigned_less)
  then show ?thesis
    by (simp add: to_be_bytes_def less_be_nat word_less_nat_alt)
qed

lemma less_to_be_bytes_sizes [simp]:
  "to_be_bytes (v64 :: u64) < to_be_bytes w64 \<longleftrightarrow> v64 < w64"
  "to_be_bytes (v192 :: u192) < to_be_bytes w192 \<longleftrightarrow> v192 < w192"
  by (simp_all add: less_to_be_bytes)

lemma le_to_be_bytes_u64 [simp]: "to_be_bytes (v :: u64) \<le> to_be_bytes w \<longleftrightarrow> v \<le> w"
  by (auto simp: le_less)

lemma to_be_bytes_max: "to_be_bytes (- 1 :: u64) = replicate 8 255"
proof -
  have eight: "replicate 8 (255 :: byte) = [255, 255, 255, 255, 255, 255, 255, 255]"
    by (simp add: eval_nat_numeral)
  have "of_be_nat (replicate 8 255) = 18446744073709551615"
    by (simp add: of_be_nat_def eight)
  then have "(- 1 :: u64) = from_be_bytes (replicate 8 255)"
    by (simp add: from_be_bytes_def)
  then show ?thesis by simp
qed

section \<open>Association lists\<close>

lemma map_of_filter_value:
  "distinct (map fst al) \<Longrightarrow> map_of (filter (\<lambda>(_, e). P e) al) k =
     (case map_of al k of None \<Rightarrow> None | Some e \<Rightarrow> if P e then Some e else None)"
  by (induction al) (auto split: option.splits dest: map_of_SomeD, force)

section \<open>Transition systems\<close>

text \<open>
  Actors that exchange messages are described as transition systems. A state is reachable from
  the initial ones; an invariant holds in all reachable states; a second property may rest on
  the invariant.
\<close>

inductive reachable :: "('s \<Rightarrow> bool) \<Rightarrow> ('s \<Rightarrow> 's \<Rightarrow> bool) \<Rightarrow> 's \<Rightarrow> bool" for init step where
  reachable_start: "init s \<Longrightarrow> reachable init step s"
| reachable_step: "reachable init step s \<Longrightarrow> step s s' \<Longrightarrow> reachable init step s'"

locale invariant_system =
  fixes init :: "'s \<Rightarrow> bool" and step :: "'s \<Rightarrow> 's \<Rightarrow> bool" and inv :: "'s \<Rightarrow> bool"
  assumes inv_init: "init s \<Longrightarrow> inv s"
    and inv_step: "inv s \<Longrightarrow> step s s' \<Longrightarrow> inv s'"
begin

lemma invariant: "reachable init step s \<Longrightarrow> inv s"
  by (induction rule: reachable.induct) (auto intro: inv_init inv_step)

end

locale layered_invariant = invariant_system +
  fixes inv2 :: "'a \<Rightarrow> bool"
  assumes inv2_init: "init s \<Longrightarrow> inv2 s"
    and inv2_step: "inv s \<Longrightarrow> inv2 s \<Longrightarrow> step s s' \<Longrightarrow> inv2 s'"
begin

lemma second_invariant: "reachable init step s \<Longrightarrow> inv2 s"
  by (induction rule: reachable.induct) (auto intro: inv2_init inv2_step invariant)

end

text \<open>A system whose states stand for states of a specification.\<close>

locale simulation = invariant_system init step inv
  for init :: "'s \<Rightarrow> bool" and step inv +
  fixes abs :: "'s \<Rightarrow> 'a" and spec_init :: "'a \<Rightarrow> bool" and spec_step :: "'a \<Rightarrow> 'a \<Rightarrow> bool"
  assumes abs_init: "init s \<Longrightarrow> spec_init (abs s)"
    and abs_step: "inv s \<Longrightarrow> step s s' \<Longrightarrow> spec_step (abs s) (abs s')"
begin

lemma refines: "reachable init step s \<Longrightarrow> reachable spec_init spec_step (abs s)"
proof (induction rule: reachable.induct)
  case (reachable_start s)
  then show ?case
    by (intro reachable.reachable_start abs_init)
next
  case (reachable_step s s')
  then show ?case
    using abs_step [OF invariant] by (blast intro: reachable.reachable_step)
qed

end

end
