(* ===== verification/Protocol.thy ===== *)
theory Protocol
  imports Prelude
begin

text \<open>
  The message protocol: \<^verbatim>\<open>protocol/src/operation.rs\<close> (the sealed operations) and
  \<^verbatim>\<open>protocol/src/operation/deserializer.rs\<close> (the payload parser). The lemmas relate the
  parser to the wire format that the sources document beside each operation.
\<close>

section \<open>Operations\<close>

record sealed_contextual_message_v1 =
  cm_alias :: bytes
  cm_sealed_hex :: bytes

record sealed_payment_v1 =
  pm_sealed_hex :: bytes

record sealed_handshake_v2 =
  hk2_sealed_hex :: bytes

record sealed_message_or_sealed_handshake_vnone =
  hk_sealed_hex :: bytes

record sealed_self_stash_v1 =
  ss_key :: "bytes option"
  ss_sealed_hex :: bytes

datatype sealed_operation =
    SealedMessageOrSealedHandshakeVNone sealed_message_or_sealed_handshake_vnone
  | ContextualMessageV1 sealed_contextual_message_v1
  | PaymentV1 sealed_payment_v1
  | SelfStashV1 sealed_self_stash_v1
  | SealedHandshakeV2 sealed_handshake_v2

fun op_type_name :: "sealed_operation \<Rightarrow> string" where
  "op_type_name (SealedMessageOrSealedHandshakeVNone _) = ''HandshakeVNone''"
| "op_type_name (ContextualMessageV1 _) = ''ContextualMessageV1''"
| "op_type_name (PaymentV1 _) = ''PaymentV1''"
| "op_type_name (SelfStashV1 _) = ''SelfStashV1''"
| "op_type_name (SealedHandshakeV2 _) = ''HandshakeV2''"

section \<open>The parser\<close>

text \<open>Byte-string literals, and the slice operations the parser uses.\<close>

definition ascii :: "string \<Rightarrow> bytes" where
  "ascii s = map of_char s"

definition strip_prefix :: "bytes \<Rightarrow> bytes \<Rightarrow> bytes option" where
  "strip_prefix p bs = (if prefix p bs then Some (drop (length p) bs) else None)"

fun position :: "byte \<Rightarrow> bytes \<Rightarrow> nat option" where
  "position b [] = None"
| "position b (x # xs) = (if x = b then Some 0 else map_option Suc (position b xs))"

definition PROTOCOL_PREFIX :: bytes where
  "PROTOCOL_PREFIX = ascii ''ciph_msg:''"

definition VERSION_1_PART :: bytes where
  "VERSION_1_PART = ascii ''1:''"

definition colon :: byte where
  "colon = of_char CHR '':''"

definition parse_comm :: "bytes \<Rightarrow> sealed_operation option" where
  "parse_comm remaining =
     (case position colon remaining of
        None \<Rightarrow> None
      | Some delimiter_idx \<Rightarrow>
          Some (ContextualMessageV1
            \<lparr>cm_alias = take delimiter_idx remaining,
             cm_sealed_hex = drop (delimiter_idx + 1) remaining\<rparr>))"

definition parse_self_stash :: "bytes \<Rightarrow> sealed_operation option" where
  "parse_self_stash remaining =
     (case position colon remaining of
        Some delimiter_idx \<Rightarrow>
          Some (SelfStashV1
            \<lparr>ss_key = Some (take delimiter_idx remaining),
             ss_sealed_hex = drop (delimiter_idx + 1) remaining\<rparr>)
      | None \<Rightarrow> Some (SelfStashV1 \<lparr>ss_key = None, ss_sealed_hex = remaining\<rparr>))"

text \<open>The slice patterns of the \<^verbatim>\<open>match\<close> on a version 1 payload, in the order of the source.\<close>

definition parse_v1 :: "bytes \<Rightarrow> sealed_operation option" where
  "parse_v1 m =
     (case strip_prefix (ascii ''payment:'') m of
        Some sealed_hex \<Rightarrow> Some (PaymentV1 \<lparr>pm_sealed_hex = sealed_hex\<rparr>)
      | None \<Rightarrow>
     (case strip_prefix (ascii ''pay:'') m of
        Some sealed_hex \<Rightarrow> Some (PaymentV1 \<lparr>pm_sealed_hex = sealed_hex\<rparr>)
      | None \<Rightarrow>
     (case strip_prefix (ascii ''handshake:'') m of
        Some sealed_hex \<Rightarrow> Some (SealedHandshakeV2 \<lparr>hk2_sealed_hex = sealed_hex\<rparr>)
      | None \<Rightarrow>
     (case strip_prefix (ascii ''comm:'') m of
        Some remaining \<Rightarrow> parse_comm remaining
      | None \<Rightarrow>
     (case strip_prefix (ascii ''self_stash:'') m of
        Some remaining \<Rightarrow> parse_self_stash remaining
      | None \<Rightarrow> None)))))"

definition parse_sealed_operation :: "bytes \<Rightarrow> sealed_operation option" where
  "parse_sealed_operation payload_bytes =
     (case strip_prefix PROTOCOL_PREFIX payload_bytes of
        None \<Rightarrow> None
      | Some payload_without_protocol \<Rightarrow>
          if payload_without_protocol = [] then None
          else case strip_prefix VERSION_1_PART payload_without_protocol of
              None \<Rightarrow> Some (SealedMessageOrSealedHandshakeVNone
                \<lparr>hk_sealed_hex = payload_without_protocol\<rparr>)
            | Some m \<Rightarrow> parse_v1 m)"

definition from_payload :: "bytes \<Rightarrow> sealed_operation option" where
  "from_payload payload = parse_sealed_operation payload"

section \<open>The wire format\<close>

text \<open>
  The format documented at each constructor of \<^verbatim>\<open>SealedOperation\<close>, and the side
  conditions under which it is unambiguous: an alias and a stash key hold no colon, a
  stash without a key holds none in its data, and an unversioned payload is not empty and
  does not start like a versioned one.
\<close>

fun render_op :: "sealed_operation \<Rightarrow> bytes" where
  "render_op (SealedMessageOrSealedHandshakeVNone hk) = PROTOCOL_PREFIX @ hk_sealed_hex hk"
| "render_op (ContextualMessageV1 cm) =
     PROTOCOL_PREFIX @ VERSION_1_PART @ ascii ''comm:'' @ cm_alias cm @ [colon] @ cm_sealed_hex cm"
| "render_op (PaymentV1 pm) =
     PROTOCOL_PREFIX @ VERSION_1_PART @ ascii ''payment:'' @ pm_sealed_hex pm"
| "render_op (SelfStashV1 ss) =
     PROTOCOL_PREFIX @ VERSION_1_PART @ ascii ''self_stash:'' @
       (case ss_key ss of None \<Rightarrow> [] | Some key \<Rightarrow> key @ [colon]) @ ss_sealed_hex ss"
| "render_op (SealedHandshakeV2 hk) =
     PROTOCOL_PREFIX @ VERSION_1_PART @ ascii ''handshake:'' @ hk2_sealed_hex hk"

fun wf_op :: "sealed_operation \<Rightarrow> bool" where
  "wf_op (SealedMessageOrSealedHandshakeVNone hk) \<longleftrightarrow>
     hk_sealed_hex hk \<noteq> [] \<and> \<not> prefix VERSION_1_PART (hk_sealed_hex hk)"
| "wf_op (ContextualMessageV1 cm) \<longleftrightarrow> colon \<notin> set (cm_alias cm)"
| "wf_op (PaymentV1 pm) \<longleftrightarrow> True"
| "wf_op (SelfStashV1 ss) \<longleftrightarrow>
     (case ss_key ss of None \<Rightarrow> colon \<notin> set (ss_sealed_hex ss) | Some key \<Rightarrow> colon \<notin> set key)"
| "wf_op (SealedHandshakeV2 hk) \<longleftrightarrow> True"

section \<open>Lemmas\<close>

lemma strip_prefix_append [simp]: "strip_prefix p (p @ bs) = Some bs"
  by (simp add: strip_prefix_def)

lemma strip_prefix_Some_iff: "strip_prefix p bs = Some r \<longleftrightarrow> bs = p @ r"
  by (auto simp: strip_prefix_def prefix_def)

lemma strip_prefix_None_iff: "strip_prefix p bs = None \<longleftrightarrow> \<not> prefix p bs"
  by (simp add: strip_prefix_def)

text \<open>Two literals that already differ inside both of them exclude each other.\<close>

lemma strip_prefix_clash:
  assumes "\<not> prefix p q" and "\<not> prefix q p"
  shows "strip_prefix p (q @ bs) = None"
  using assms prefix_same_cases [of p "q @ bs" q] by (auto simp: strip_prefix_None_iff)

lemma position_append: "b \<notin> set xs \<Longrightarrow> position b (xs @ b # ys) = Some (length xs)"
  by (induction xs) auto

lemma position_None_iff: "position b xs = None \<longleftrightarrow> b \<notin> set xs"
  by (induction xs) auto

lemma position_None: "b \<notin> set xs \<Longrightarrow> position b xs = None"
  by (simp add: position_None_iff)

lemma position_mem: "position b xs = Some i \<Longrightarrow> b \<in> set xs"
  by (metis position_None_iff option.distinct(1))

lemma position_Some:
  "position b xs = Some i \<Longrightarrow>
    i < length xs \<and> xs = take i xs @ b # drop (i + 1) xs \<and> b \<notin> set (take i xs)"
proof (induction xs arbitrary: i)
  case (Cons x xs)
  then show ?case by (cases "x = b") auto
qed simp

lemmas literals = ascii_def PROTOCOL_PREFIX_def VERSION_1_PART_def colon_def

lemma v1_clashes [simp]:
  "strip_prefix (ascii ''payment:'') (ascii ''handshake:'' @ bs) = None"
  "strip_prefix (ascii ''payment:'') (ascii ''comm:'' @ bs) = None"
  "strip_prefix (ascii ''payment:'') (ascii ''self_stash:'' @ bs) = None"
  "strip_prefix (ascii ''payment:'') (ascii ''pay:'' @ bs) = None"
  "strip_prefix (ascii ''pay:'') (ascii ''handshake:'' @ bs) = None"
  "strip_prefix (ascii ''pay:'') (ascii ''comm:'' @ bs) = None"
  "strip_prefix (ascii ''pay:'') (ascii ''self_stash:'' @ bs) = None"
  "strip_prefix (ascii ''handshake:'') (ascii ''comm:'' @ bs) = None"
  "strip_prefix (ascii ''handshake:'') (ascii ''self_stash:'' @ bs) = None"
  "strip_prefix (ascii ''comm:'') (ascii ''self_stash:'' @ bs) = None"
  by (rule strip_prefix_clash; simp add: ascii_def)+

lemma comm_distinct [simp]:
  "ascii ''payment:'' @ h \<noteq> ascii ''comm:'' @ r"
  "ascii ''pay:'' @ h \<noteq> ascii ''comm:'' @ r"
  "ascii ''handshake:'' @ h \<noteq> ascii ''comm:'' @ r"
  "ascii ''self_stash:'' @ h \<noteq> ascii ''comm:'' @ r"
  by (simp_all add: ascii_def)

lemma VERSION_1_PART_nonempty [simp]: "VERSION_1_PART \<noteq> []"
  by (simp add: literals)

lemma parse_v1_simps [simp]:
  "parse_v1 (ascii ''payment:'' @ h) = Some (PaymentV1 \<lparr>pm_sealed_hex = h\<rparr>)"
  "parse_v1 (ascii ''pay:'' @ h) = Some (PaymentV1 \<lparr>pm_sealed_hex = h\<rparr>)"
  "parse_v1 (ascii ''handshake:'' @ h) = Some (SealedHandshakeV2 \<lparr>hk2_sealed_hex = h\<rparr>)"
  "parse_v1 (ascii ''comm:'' @ r) = parse_comm r"
  "parse_v1 (ascii ''self_stash:'' @ r) = parse_self_stash r"
  by (simp_all add: parse_v1_def)

lemma parse_versioned [simp]:
  "parse_sealed_operation (PROTOCOL_PREFIX @ VERSION_1_PART @ m) = parse_v1 m"
  by (simp add: parse_sealed_operation_def)

lemma parse_v1_cases:
  assumes "parse_v1 m = Some op"
  obtains (payment) h where "m = ascii ''payment:'' @ h" "op = PaymentV1 \<lparr>pm_sealed_hex = h\<rparr>"
    | (pay) h where "m = ascii ''pay:'' @ h" "op = PaymentV1 \<lparr>pm_sealed_hex = h\<rparr>"
    | (handshake) h where "m = ascii ''handshake:'' @ h"
        "op = SealedHandshakeV2 \<lparr>hk2_sealed_hex = h\<rparr>"
    | (comm) r where "m = ascii ''comm:'' @ r" "parse_comm r = Some op"
    | (self_stash) r where "m = ascii ''self_stash:'' @ r" "parse_self_stash r = Some op"
  using assms
  by (auto simp: parse_v1_def strip_prefix_Some_iff split: option.splits)

lemma parse_comm_Some:
  "parse_comm r = Some op \<Longrightarrow>
    \<exists>a h. op = ContextualMessageV1 \<lparr>cm_alias = a, cm_sealed_hex = h\<rparr> \<and>
      r = a @ [colon] @ h \<and> colon \<notin> set a"
  by (auto simp: parse_comm_def split: option.splits dest: position_Some)

lemma parse_self_stash_Some:
  "parse_self_stash r = Some op \<Longrightarrow>
    (\<exists>k h. op = SelfStashV1 \<lparr>ss_key = Some k, ss_sealed_hex = h\<rparr> \<and>
      r = k @ [colon] @ h \<and> colon \<notin> set k) \<or>
    op = SelfStashV1 \<lparr>ss_key = None, ss_sealed_hex = r\<rparr> \<and> colon \<notin> set r"
  by (auto simp: parse_self_stash_def position_None_iff split: option.splits dest: position_Some)

section \<open>Properties\<close>

text \<open>
  C29. Printing and parsing: every operation that the wire format can express without
  ambiguity is read back exactly as it was written.
\<close>

theorem parse_render_op:
  "wf_op op \<Longrightarrow> parse_sealed_operation (render_op op) = Some op"
proof (cases op)
  case (SealedMessageOrSealedHandshakeVNone hk)
  assume "wf_op op"
  with SealedMessageOrSealedHandshakeVNone show ?thesis
    by (simp add: parse_sealed_operation_def strip_prefix_def [of VERSION_1_PART])
next
  case (ContextualMessageV1 cm)
  assume "wf_op op"
  with ContextualMessageV1 show ?thesis
    using position_append [of colon "cm_alias cm" "cm_sealed_hex cm"]
    by (simp add: parse_comm_def)
next
  case (SelfStashV1 ss)
  assume "wf_op op"
  with SelfStashV1 show ?thesis
    by (cases "ss_key ss")
      (simp_all add: parse_self_stash_def position_append position_None)
qed simp_all

theorem parse_render_op_witness:
  "wf_op (ContextualMessageV1 \<lparr>cm_alias = ascii ''al'', cm_sealed_hex = ascii ''a1:b2''\<rparr>) \<and>
   parse_sealed_operation (ascii ''ciph_msg:1:comm:al:a1:b2'') =
     Some (ContextualMessageV1 \<lparr>cm_alias = ascii ''al'', cm_sealed_hex = ascii ''a1:b2''\<rparr>)"
proof -
  let ?op = "ContextualMessageV1 \<lparr>cm_alias = ascii ''al'', cm_sealed_hex = ascii ''a1:b2''\<rparr>"
  have wf: "wf_op ?op" by (simp add: literals)
  moreover have "render_op ?op = ascii ''ciph_msg:1:comm:al:a1:b2''" by (simp add: literals)
  ultimately show ?thesis using parse_render_op [OF wf] by simp
qed

text \<open>
  The parser accepts nothing else: a payload that it reads as an operation is the wire
  form of that operation, or the legacy \<^verbatim>\<open>pay:\<close> form of a payment, and the operation
  it yields is always well formed.
\<close>

theorem parse_sealed_operation_sound:
  assumes "parse_sealed_operation payload = Some op"
  shows "wf_op op \<and>
    (payload = render_op op \<or>
      (\<exists>h. op = PaymentV1 \<lparr>pm_sealed_hex = h\<rparr> \<and>
        payload = PROTOCOL_PREFIX @ VERSION_1_PART @ ascii ''pay:'' @ h))"
proof -
  from assms obtain p where payload: "payload = PROTOCOL_PREFIX @ p" and "p \<noteq> []"
    by (auto simp: parse_sealed_operation_def strip_prefix_Some_iff split: option.splits if_splits)
  show ?thesis
  proof (cases "prefix VERSION_1_PART p")
    case False
    with assms payload \<open>p \<noteq> []\<close> show ?thesis
      by (auto simp: parse_sealed_operation_def strip_prefix_def)
  next
    case True
    then obtain m where "p = VERSION_1_PART @ m" by (auto simp: prefix_def)
    with assms payload have pm: "payload = PROTOCOL_PREFIX @ VERSION_1_PART @ m"
      and "parse_v1 m = Some op" by simp_all
    from this(2) show ?thesis
      by (cases rule: parse_v1_cases)
        (auto simp: pm dest!: parse_comm_Some parse_self_stash_Some)
  qed
qed

theorem parse_sealed_operation_sound_witness:
  "parse_sealed_operation (ascii ''ciph_msg:1:pay:a1'') = Some (PaymentV1 \<lparr>pm_sealed_hex = ascii ''a1''\<rparr>) \<and>
   wf_op (PaymentV1 \<lparr>pm_sealed_hex = ascii ''a1''\<rparr>)"
proof -
  have "ascii ''ciph_msg:1:pay:a1'' = PROTOCOL_PREFIX @ VERSION_1_PART @ ascii ''pay:'' @ ascii ''a1''"
    by (simp add: literals)
  then have p: "parse_sealed_operation (ascii ''ciph_msg:1:pay:a1'') =
      Some (PaymentV1 \<lparr>pm_sealed_hex = ascii ''a1''\<rparr>)" by simp
  then show ?thesis using parse_sealed_operation_sound [OF p] by simp
qed

text \<open>
  What the parser ignores: exactly the payloads without the protocol prefix, the bare
  prefix, version 1 payloads of no known type, and contextual messages whose alias is not
  terminated.
\<close>

theorem parse_sealed_operation_None_iff:
  "parse_sealed_operation payload = None \<longleftrightarrow>
    \<not> prefix PROTOCOL_PREFIX payload \<or> payload = PROTOCOL_PREFIX \<or>
    (\<exists>m. payload = PROTOCOL_PREFIX @ VERSION_1_PART @ m \<and>
      ((\<exists>r. m = ascii ''comm:'' @ r \<and> colon \<notin> set r) \<or>
       \<not> (\<exists>t \<in> {''payment:'', ''pay:'', ''handshake:'', ''comm:'', ''self_stash:''}.
            prefix (ascii t) m)))"
proof -
  have v1: "parse_v1 m = None \<longleftrightarrow>
      (\<exists>r. m = ascii ''comm:'' @ r \<and> colon \<notin> set r) \<or>
       \<not> (\<exists>t \<in> {''payment:'', ''pay:'', ''handshake:'', ''comm:'', ''self_stash:''}.
            prefix (ascii t) m)" for m
  proof (cases "\<exists>t \<in> {''payment:'', ''pay:'', ''handshake:'', ''comm:'', ''self_stash:''}. prefix (ascii t) m")
    case True
    then consider h where "m = ascii ''payment:'' @ h" | h where "m = ascii ''pay:'' @ h"
      | h where "m = ascii ''handshake:'' @ h" | h where "m = ascii ''comm:'' @ h"
      | h where "m = ascii ''self_stash:'' @ h"
      by (auto simp: prefix_def)
    then show ?thesis
      by cases (auto simp: parse_comm_def parse_self_stash_def position_None_iff
          split: option.splits dest: position_mem)
  next
    case False
    then show ?thesis by (auto simp: parse_v1_def strip_prefix_def)
  qed
  show ?thesis
  proof (cases "prefix (PROTOCOL_PREFIX @ VERSION_1_PART) payload")
    case True
    then obtain m where m: "payload = PROTOCOL_PREFIX @ VERSION_1_PART @ m"
      by (auto simp: prefix_def)
    show ?thesis by (simp add: m v1)
  next
    case False
    then show ?thesis
      by (auto simp: parse_sealed_operation_def strip_prefix_def prefix_def)
  qed
qed

theorem parse_sealed_operation_None_iff_witness:
  "parse_sealed_operation (ascii ''ciph_msg:1:comm:abc'') = None"
proof -
  have "ascii ''ciph_msg:1:comm:abc'' = PROTOCOL_PREFIX @ VERSION_1_PART @ ascii ''comm:'' @ ascii ''abc''"
    and "colon \<notin> set (ascii ''abc'')"
    by (simp_all add: literals)
  then show ?thesis unfolding parse_sealed_operation_None_iff by blast
qed

end
