(* ===== verification/Kv_Store.thy ===== *)
theory Kv_Store
  imports Prelude
begin

text \<open>
  The storage layer under \<^verbatim>\<open>indexer-db\<close>: an embedded key-value store (fjall with the
  \<^verbatim>\<open>ssi_tx\<close> feature) with named partitions, each an ordered map from byte strings to
  byte strings. A partition is a table of entries in key order; a write transaction is the
  snapshot it reads plus the list of its own writes, which the commit applies to the
  database that is current at that moment. Whether a commit meets a conflict is not
  determined here: the operations that retry take the conflicting interference as an input.

  Three interfaces are stated as locales: the laws of a partition (\<open>kv_table\<close>), fixed-width
  key and value layouts (\<open>fixed_codec\<close>), and keys ordered by a leading field and a
  big-endian time (\<open>time_index\<close>), which the range queries of the message partitions use.
\<close>

section \<open>Tables\<close>

fun alist_put :: "bytes \<Rightarrow> bytes \<Rightarrow> (bytes \<times> bytes) list \<Rightarrow> (bytes \<times> bytes) list" where
  "alist_put k v [] = [(k, v)]"
| "alist_put k v (e # es) =
     (if fst e < k then e # alist_put k v es
      else if fst e = k then (k, v) # es
      else (k, v) # e # es)"

definition alist_del :: "bytes \<Rightarrow> (bytes \<times> bytes) list \<Rightarrow> (bytes \<times> bytes) list" where
  "alist_del k es = filter (\<lambda>e. fst e \<noteq> k) es"

abbreviation key_sorted :: "(bytes \<times> bytes) list \<Rightarrow> bool" where
  "key_sorted es \<equiv> sorted_wrt (<) (map fst es)"

lemma keys_alist_put: "fst ` set (alist_put k v es) = insert k (fst ` set es)"
  by (induction es) auto

lemma key_sorted_put: "key_sorted es \<Longrightarrow> key_sorted (alist_put k v es)"
proof (induction es)
  case (Cons e es)
  then show ?case
    using keys_alist_put [of k v es] by (auto simp: order_less_trans)
qed simp

lemma map_of_alist_put:
  "key_sorted es \<Longrightarrow> map_of (alist_put k v es) = (map_of es)(k \<mapsto> v)"
  by (induction es) (auto simp: fun_eq_iff)

lemma key_sorted_filter: "key_sorted es \<Longrightarrow> key_sorted (filter P es)"
  by (induction es) auto

lemma map_of_alist_del: "map_of (alist_del k es) = (map_of es)(k := None)"
  by (induction es) (auto simp: alist_del_def fun_eq_iff)

lemma key_sorted_distinct: "key_sorted es \<Longrightarrow> distinct (map fst es)"
  using strict_sorted_iff by blast

typedef table = "{es :: (bytes \<times> bytes) list. key_sorted es}"
  morphisms items Abs_table
  by (rule exI [of _ "[]"]) simp

setup_lifting type_definition_table

lift_definition tempty :: table is "[]"
  by simp

lift_definition tput :: "bytes \<Rightarrow> bytes \<Rightarrow> table \<Rightarrow> table" is alist_put
  by (rule key_sorted_put)

lift_definition tdel :: "bytes \<Rightarrow> table \<Rightarrow> table" is alist_del
  by (simp add: alist_del_def key_sorted_filter)

definition tget :: "table \<Rightarrow> bytes \<Rightarrow> bytes option" where
  "tget t k = map_of (items t) k"

definition trange :: "bytes \<Rightarrow> bytes \<Rightarrow> table \<Rightarrow> (bytes \<times> bytes) list" where
  "trange lo hi t = filter (\<lambda>e. lo \<le> fst e \<and> fst e \<le> hi) (items t)"

definition trange_lt :: "bytes \<Rightarrow> table \<Rightarrow> (bytes \<times> bytes) list" where
  "trange_lt hi t = filter (\<lambda>e. fst e < hi) (items t)"

definition tprefix :: "bytes \<Rightarrow> table \<Rightarrow> (bytes \<times> bytes) list" where
  "tprefix p t = filter (\<lambda>e. prefix p (fst e)) (items t)"

text \<open>
  The bounds that every time query builds: the searched fields with the first block time, and
  the same fields with eight \<^verbatim>\<open>0xFF\<close> bytes.
\<close>

definition scan_from :: "bytes \<Rightarrow> u64 \<Rightarrow> table \<Rightarrow> (bytes \<times> bytes) list" where
  "scan_from lead block_time t = trange (lead @ to_be_bytes block_time) (lead @ replicate 8 255) t"

lemma items_sorted [simp]: "key_sorted (items t)"
  using items [of t] by simp

lemma items_simps [simp]:
  "items tempty = []"
  "items (tput k v t) = alist_put k v (items t)"
  "items (tdel k t) = alist_del k (items t)"
  by (simp_all add: tempty.rep_eq tput.rep_eq tdel.rep_eq)

lemma tget_simps [simp, store_simps]:
  "tget tempty k = None"
  "tget (tput k' v t) k = (if k = k' then Some v else tget t k)"
  "tget (tdel k' t) k = (if k = k' then None else tget t k)"
  by (simp_all add: tget_def map_of_alist_put map_of_alist_del)

lemma tget_items: "tget t k = Some v \<longleftrightarrow> (k, v) \<in> set (items t)"
  by (simp add: tget_def key_sorted_distinct)

lemma table_eqI:
  assumes "\<And>k. tget t k = tget t' k"
  shows "t = t'"
proof -
  have "set (items t) = set (items t')"
    using assms by (auto simp flip: tget_items)
  then have "map fst (items t) = map fst (items t')"
    by (metis items_sorted list.set_map strict_sorted_equal)
  moreover have "distinct (map fst (items t))"
    by (simp add: key_sorted_distinct)
  ultimately have "items t = items t'"
    using \<open>set (items t) = set (items t')\<close> by (metis map_of_inject_set distinct_map inj_on_def
        map_inj_on subset_Un_eq sup.idem)
  then show ?thesis by (simp add: items_inject)
qed

lemma tput_commute:
  "k \<noteq> k' \<Longrightarrow> tput k v (tput k' v' t) = tput k' v' (tput k v t)"
  by (rule table_eqI) simp

section \<open>The laws of a partition\<close>

locale kv_table =
  fixes get :: "'t \<Rightarrow> bytes \<Rightarrow> bytes option"
    and put :: "bytes \<Rightarrow> bytes \<Rightarrow> 't \<Rightarrow> 't"
    and del :: "bytes \<Rightarrow> 't \<Rightarrow> 't"
    and entries :: "'t \<Rightarrow> (bytes \<times> bytes) list"
  assumes get_put: "get (put k v t) k' = (if k' = k then Some v else get t k')"
    and get_del: "get (del k t) k' = (if k' = k then None else get t k')"
    and entries_get: "(k, v) \<in> set (entries t) \<longleftrightarrow> get t k = Some v"
    and entries_sorted: "key_sorted (entries t)"
begin

lemma scan_mem: "(k, v) \<in> set (filter P (entries t)) \<longleftrightarrow> get t k = Some v \<and> P (k, v)"
  by (simp add: entries_get)

lemma scan_sorted: "key_sorted (filter P (entries t))"
  by (simp add: key_sorted_filter entries_sorted)

lemma entry_of_key: "get t k \<noteq> None \<longleftrightarrow> k \<in> fst ` set (entries t)"
proof
  assume "get t k \<noteq> None"
  then obtain v where "(k, v) \<in> set (entries t)" by (auto simp: entries_get)
  then show "k \<in> fst ` set (entries t)" by force
next
  assume "k \<in> fst ` set (entries t)"
  then show "get t k \<noteq> None" by (auto simp: entries_get)
qed

lemma key_unique: "(k, v) \<in> set (entries t) \<Longrightarrow> (k, v') \<in> set (entries t) \<Longrightarrow> v = v'"
  by (simp add: entries_get)

lemma scan_single:
  assumes "get t k = Some v" and "P (k, v)"
    and "\<And>k' v'. get t k' = Some v' \<Longrightarrow> P (k', v') \<Longrightarrow> k' = k"
  shows "filter P (entries t) = [(k, v)]"
proof -
  have "e \<in> set (filter P (entries t)) \<longleftrightarrow> e = (k, v)" for e
    by (cases e) (metis assms scan_mem option.inject prod.inject)
  then have "set (filter P (entries t)) = {(k, v)}" by blast
  moreover have "distinct (filter P (entries t))"
    using key_sorted_distinct [OF scan_sorted] by (simp add: distinct_map)
  ultimately show ?thesis
    by (simp add: distinct_singleton)
qed

lemma scan_empty:
  assumes "\<And>k v. get t k = Some v \<Longrightarrow> \<not> P (k, v)"
  shows "filter P (entries t) = []"
  using assms by (auto simp: filter_empty_conv entries_get)

end

interpretation kv: kv_table tget tput tdel items
  by unfold_locales (simp_all add: tget_items)

section \<open>Fixed-width layouts\<close>

text \<open>
  The keys of \<^verbatim>\<open>indexer-db\<close> are \<^verbatim>\<open>repr(C)\<close> structs of byte-aligned fields, written
  with \<^verbatim>\<open>as_bytes\<close> and read back with \<^verbatim>\<open>try_read_from_bytes\<close>, which fails
  exactly when the length is not the size of the struct.
\<close>

text \<open>The keys with a property from a time on, each once and in the order of time.\<close>

definition is_window :: "('k \<Rightarrow> bool) \<Rightarrow> ('k \<Rightarrow> u64) \<Rightarrow> u64 \<Rightarrow> 'k list \<Rightarrow> bool" where
  "is_window P stamp t ks \<longleftrightarrow>
     set ks = {k. P k \<and> t \<le> stamp k \<and> stamp k \<noteq> - 1} \<and> distinct ks \<and> sorted (map stamp ks)"

lemma strict_order_distinct:
  "sorted_wrt (\<lambda>x y. (f x :: bytes) < f y) xs \<Longrightarrow> distinct xs"
  by (induction xs) auto

text \<open>
  \<^verbatim>\<open>SharedImmutable::deref\<close>: the bytes are read as a \<^verbatim>\<open>T\<close> when they are used, and
  a wrong length panics.
\<close>

definition deref :: "(bytes \<Rightarrow> 'k option) \<Rightarrow> bytes \<Rightarrow> 'k res" where
  "deref from_bytes bs = unwrap ''ref_from_bytes failed'' (from_bytes bs)"

locale fixed_codec =
  fixes enc :: "'k \<Rightarrow> bytes" and dec :: "bytes \<Rightarrow> 'k option" and width :: nat
  assumes dec_enc: "dec (enc k) = Some k"
    and enc_dec: "dec bs = Some k \<Longrightarrow> enc k = bs"
    and width: "length (enc k) = width"
    and total: "length bs = width \<Longrightarrow> dec bs \<noteq> None"
begin

lemma enc_inject: "enc k = enc k' \<longleftrightarrow> k = k'"
  by (metis dec_enc option.inject)

lemma dec_iff: "dec bs = Some k \<longleftrightarrow> bs = enc k"
  by (metis dec_enc enc_dec)

lemma dec_None_iff: "dec bs = None \<longleftrightarrow> length bs \<noteq> width"
  by (metis enc_dec width total not_None_eq)

lemma deref_enc: "deref dec (enc k) = Inr k"
  by (simp add: deref_def dec_enc)

lemma typed_put:
  "tget (tput (enc k) v t) (enc k') = (if k' = k then Some v else tget t (enc k'))"
  by (simp add: enc_inject)

end

locale time_index = fixed_codec enc dec width
  for enc :: "'k \<Rightarrow> bytes" and dec width +
  fixes lead :: "'k \<Rightarrow> bytes" and stamp :: "'k \<Rightarrow> u64" and rest :: "'k \<Rightarrow> bytes"
    and lead_len :: nat
  assumes layout: "enc k = lead k @ to_be_bytes (stamp k) @ rest k"
    and lead_len: "length (lead k) = lead_len"
    and rest_nonempty: "rest k \<noteq> []"
begin

lemma in_window:
  assumes "length p = lead_len"
  shows "p @ to_be_bytes t \<le> enc k \<and> enc k \<le> p @ replicate 8 255 \<longleftrightarrow>
    lead k = p \<and> t \<le> stamp k \<and> stamp k \<noteq> - 1"
proof -
  have hi: "to_be_bytes (stamp k) < replicate 8 255 \<longleftrightarrow> stamp k \<noteq> - 1"
    by (metis less_to_be_bytes_sizes(1) to_be_bytes_max word_not_simps(3) word_order.not_eq_extremum)
  have lo: "p @ to_be_bytes t \<le> enc k \<longleftrightarrow>
      p < lead k \<or> p = lead k \<and> (t < stamp k \<or> t = stamp k)"
    using rest_nonempty [of k]
    by (simp add: layout le_append_same_length assms lead_len
        le_append_same_length [where as = "[]", simplified])
  have "enc k \<le> p @ replicate 8 255 \<longleftrightarrow>
      lead k < p \<or> lead k = p \<and> to_be_bytes (stamp k) < replicate 8 255"
    using rest_nonempty [of k]
    by (simp add: layout le_append_same_length assms lead_len
        le_append_same_length [where bs = "[]", simplified])
  then show ?thesis
    unfolding lo hi by (auto simp: le_less)
qed

text \<open>The window scan returns exactly the stored keys with that leading field from time \<open>t\<close> on.\<close>

lemma window_mem:
  assumes "length p = lead_len"
  shows "(enc k, v) \<in> set (trange (p @ to_be_bytes t) (p @ replicate 8 255) T) \<longleftrightarrow>
    tget T (enc k) = Some v \<and> lead k = p \<and> t \<le> stamp k \<and> stamp k \<noteq> - 1"
  by (simp add: trange_def tget_items in_window [OF assms] conj_commute)

lemma stamp_mono:
  assumes "enc k < enc k'" and "lead k = lead k'"
  shows "stamp k \<le> stamp k'"
  using assms
  by (simp add: layout less_append_same_length lead_len) (auto simp: le_less)

text \<open>\<dots> and it returns each of them once, in the order of their time.\<close>

lemma window_keys:
  assumes len: "length p = lead_len"
    and typed: "\<forall>b. tget T b \<noteq> None \<longrightarrow> length b = width"
  shows "\<exists>ks. scan_from p t T = map (\<lambda>k. (enc k, the (tget T (enc k)))) ks \<and>
    set ks = {k. tget T (enc k) \<noteq> None \<and> lead k = p \<and> t \<le> stamp k \<and> stamp k \<noteq> - 1} \<and>
    distinct ks \<and> sorted (map stamp ks)"
proof -
  let ?w = "scan_from p t T"
  let ?ks = "map (\<lambda>e. the (dec (fst e))) ?w"
  have stored: "tget T b = Some v" if "(b, v) \<in> set ?w" for b v
    using that by (simp add: scan_from_def trange_def tget_items)
  have key: "b = enc (the (dec b))" if "(b, v) \<in> set ?w" for b v
    using typed stored [OF that] by (metis total dec_iff option.collapse option.distinct(1))
  have w: "?w = map (\<lambda>k. (enc k, the (tget T (enc k)))) ?ks"
    using key stored by (auto simp: comp_def intro!: map_idI [symmetric])
  have mem: "(enc k, v) \<in> set ?w \<longleftrightarrow>
      tget T (enc k) = Some v \<and> lead k = p \<and> t \<le> stamp k \<and> stamp k \<noteq> - 1" for k v
    unfolding scan_from_def by (rule window_mem [OF len])
  have set: "set ?ks = {k. tget T (enc k) \<noteq> None \<and> lead k = p \<and> t \<le> stamp k \<and> stamp k \<noteq> - 1}"
  proof (intro set_eqI iffI)
    fix k
    assume "k \<in> set ?ks"
    then obtain b v where "(b, v) \<in> set ?w" "k = the (dec b)" by auto
    then have "(enc k, v) \<in> set ?w" using key by metis
    then show "k \<in> {k. tget T (enc k) \<noteq> None \<and> lead k = p \<and> t \<le> stamp k \<and> stamp k \<noteq> - 1}"
      by (simp add: mem)
  next
    fix k
    assume "k \<in> {k. tget T (enc k) \<noteq> None \<and> lead k = p \<and> t \<le> stamp k \<and> stamp k \<noteq> - 1}"
    then obtain v where "(enc k, v) \<in> set ?w" by (auto simp: mem)
    then show "k \<in> set ?ks" by (force simp: dec_enc)
  qed
  have "sorted_wrt (\<lambda>e e'. fst e < fst e') ?w"
    using kv.scan_sorted by (simp add: scan_from_def trange_def sorted_wrt_map)
  then have ord: "sorted_wrt (\<lambda>k k'. enc k < enc k') ?ks"
    by (subst (asm) w) (simp add: sorted_wrt_map)
  then have "distinct ?ks"
    by (rule strict_order_distinct)
  moreover have "sorted (map stamp ?ks)"
    unfolding sorted_map
    by (rule sorted_wrt_mono_rel [OF _ ord]) (metis (mono_tags, lifting) set mem_Collect_eq stamp_mono)
  ultimately show ?thesis
    using w set by blast
qed

lemma window_query:
  assumes "length p = lead_len" and "\<forall>b. tget T b \<noteq> None \<longrightarrow> length b = width"
  shows "\<exists>ks. map (deref dec \<circ> fst) (scan_from p t T) = map Inr ks \<and>
    is_window (\<lambda>k. tget T (enc k) \<noteq> None \<and> lead k = p) stamp t ks"
proof -
  obtain ks where "scan_from p t T = map (\<lambda>k. (enc k, the (tget T (enc k)))) ks"
    "set ks = {k. tget T (enc k) \<noteq> None \<and> lead k = p \<and> t \<le> stamp k \<and> stamp k \<noteq> - 1}"
    "distinct ks" "sorted (map stamp ks)"
    using window_keys [OF assms] by blast
  then have "map (deref dec \<circ> fst) (scan_from p t T) = map Inr ks \<and>
      is_window (\<lambda>k. tget T (enc k) \<noteq> None \<and> lead k = p) stamp t ks"
    by (simp add: deref_enc is_window_def)
  then show ?thesis by blast
qed

lemma window_query_values:
  assumes "length p = lead_len" and "\<forall>b. tget T b \<noteq> None \<longrightarrow> length b = width"
    and "\<forall>b v. tget T b = Some v \<longrightarrow> vdec v \<noteq> None"
  shows "\<exists>ks. map (\<lambda>(k, v). rbind (deref dec k) (\<lambda>key. rbind (deref vdec v) (\<lambda>x. Inr (key, x))))
      (scan_from p t T) = map (\<lambda>k. Inr (k, the (vdec (the (tget T (enc k)))))) ks \<and>
    is_window (\<lambda>k. tget T (enc k) \<noteq> None \<and> lead k = p) stamp t ks"
proof -
  obtain ks where ks: "scan_from p t T = map (\<lambda>k. (enc k, the (tget T (enc k)))) ks"
    "set ks = {k. tget T (enc k) \<noteq> None \<and> lead k = p \<and> t \<le> stamp k \<and> stamp k \<noteq> - 1}"
    "distinct ks" "sorted (map stamp ks)"
    using window_keys [OF assms(1,2)] by blast
  have "deref vdec (the (tget T (enc k))) = Inr (the (vdec (the (tget T (enc k)))))"
    if "k \<in> set ks" for k
    using that assms(3) ks(2) by (force simp: deref_def)
  with ks have "map (\<lambda>(k, v). rbind (deref dec k) (\<lambda>key. rbind (deref vdec v) (\<lambda>x. Inr (key, x))))
      (scan_from p t T) = map (\<lambda>k. Inr (k, the (vdec (the (tget T (enc k)))))) ks \<and>
    is_window (\<lambda>k. tget T (enc k) \<noteq> None \<and> lead k = p) stamp t ks"
    by (simp add: deref_enc is_window_def)
  then show ?thesis by blast
qed

text \<open>A stored key is found from its own leading fields and any time up to its own.\<close>

lemma window_hit:
  assumes "tget T (enc k) = Some v" and "t \<le> stamp k" and "stamp k \<noteq> - 1"
  shows "(enc k, v) \<in> set (scan_from (lead k) t T)"
  using assms window_mem [OF lead_len, of k v k t T] by (simp add: scan_from_def)

lemma query_hit:
  assumes "tget T (enc k) = Some v" and "t \<le> stamp k" and "stamp k \<noteq> - 1"
  shows "Inr k \<in> set (map (deref dec \<circ> fst) (scan_from (lead k) t T))"
  unfolding set_map using window_hit [OF assms]
  by (intro image_eqI [of _ _ "(enc k, v)"]) (simp_all add: deref_enc)

lemma query_hit_value:
  assumes "tget T (enc k) = Some v" and "t \<le> stamp k" and "stamp k \<noteq> - 1" and "vdec v = Some x"
  shows "Inr (k, x) \<in> set (map (\<lambda>(k, v). rbind (deref dec k) (\<lambda>key.
    rbind (deref vdec v) (\<lambda>x. Inr (key, x)))) (scan_from (lead k) t T))"
  unfolding set_map using window_hit [OF assms(1-3)] assms(4)
  by (intro image_eqI [of _ _ "(enc k, v)"]) (simp_all add: deref_def dec_enc)

end

section \<open>The database and its transactions\<close>

datatype part =
    PMetadata | PBlockCompactHeader | PDaaIndex | PBlockGaps
  | PHandshakeByReceiver | PHandshakeBySender | PTxIdToHandshake
  | PContextualMessageBySender | PTxIdToContextualMessage
  | PPaymentByReceiver | PPaymentBySender | PTxIdToPayment
  | PAcceptingBlockToTxId | PTxIdToAcceptance | PPendingSenderResolution
  | PSelfStashByOwner | PSelfStashByScope | PTxIdToSelfStash
  | PBoardPostById | PBoardPostByCreatedAt | PBoardClientGeneratedIdToPostId
  | PBoardReplyByParentCreatedAt | PBoardReactionByPostActorEmoji
  | PBoardFollowByFollowerTarget | PBoardFollowByTargetFollower | PBoardReportByPostActor

type_synonym db = "part \<Rightarrow> table"

type_synonym kv_write = "part \<times> bytes \<times> bytes option"

record wtx =
  snapshot :: db
  writes :: "kv_write list"

fun apply_write :: "kv_write \<Rightarrow> db \<Rightarrow> db" where
  "apply_write (p, k, Some v) d = d(p := tput k v (d p))"
| "apply_write (p, k, None) d = d(p := tdel k (d p))"

definition begin_wtx :: "db \<Rightarrow> wtx" where
  "begin_wtx d = \<lparr>snapshot = d, writes = []\<rparr>"

definition view :: "wtx \<Rightarrow> db" where
  "view w = fold apply_write (writes w) (snapshot w)"

definition commit :: "wtx \<Rightarrow> db \<Rightarrow> db" where
  "commit w d = fold apply_write (writes w) d"

definition wtx_get :: "part \<Rightarrow> bytes \<Rightarrow> wtx \<Rightarrow> bytes option" where
  "wtx_get p k w = tget (view w p) k"

definition wtx_write :: "kv_write \<Rightarrow> wtx \<Rightarrow> wtx" where
  "wtx_write c w = w\<lparr>writes := writes w @ [c]\<rparr>"

definition wtx_insert :: "part \<Rightarrow> bytes \<Rightarrow> bytes \<Rightarrow> wtx \<Rightarrow> wtx" where
  "wtx_insert p k v w = wtx_write (p, k, Some v) w"

definition wtx_remove :: "part \<Rightarrow> bytes \<Rightarrow> wtx \<Rightarrow> wtx" where
  "wtx_remove p k w = wtx_write (p, k, None) w"

definition wtx_fetch_update ::
    "part \<Rightarrow> bytes \<Rightarrow> (bytes option \<Rightarrow> bytes option) \<Rightarrow> wtx \<Rightarrow> bytes option \<times> wtx" where
  "wtx_fetch_update p k f w =
     (let old = wtx_get p k w in (old, wtx_write (p, k, f old) w))"

definition db_insert :: "part \<Rightarrow> bytes \<Rightarrow> bytes \<Rightarrow> db \<Rightarrow> db" where
  "db_insert p k v d = apply_write (p, k, Some v) d"

definition db_remove :: "part \<Rightarrow> bytes \<Rightarrow> db \<Rightarrow> db" where
  "db_remove p k d = apply_write (p, k, None) d"

definition write_value :: "kv_write \<Rightarrow> bytes option" where
  "write_value c = snd (snd c)"

lemma apply_write_get:
  "tget (apply_write (p, k, v) d q) k' = (if q = p \<and> k' = k then v else tget (d q) k')"
  by (cases v) simp_all

lemma view_simps [simp, store_simps]:
  "view (begin_wtx d) = d"
  "view (wtx_write c w) = apply_write c (view w)"
  "snapshot (wtx_write c w) = snapshot w"
  "writes (wtx_write c w) = writes w @ [c]"
  by (simp_all add: begin_wtx_def view_def wtx_write_def)

lemma begin_wtx_simps [simp]:
  "snapshot (begin_wtx d) = d"
  "writes (begin_wtx d) = []"
  by (simp_all add: begin_wtx_def)

lemma wtx_get_simps [simp, store_simps]:
  "wtx_get q k' (begin_wtx d) = tget (d q) k'"
  "wtx_get q k' (wtx_insert p k v w) = (if q = p \<and> k' = k then Some v else wtx_get q k' w)"
  "wtx_get q k' (wtx_remove p k w) = (if q = p \<and> k' = k then None else wtx_get q k' w)"
  by (simp_all add: wtx_get_def wtx_insert_def wtx_remove_def apply_write_get
      del: apply_write.simps)

lemma wtx_fetch_update_simps [simp, store_simps]:
  "fst (wtx_fetch_update p k f w) = wtx_get p k w"
  "wtx_get q k' (snd (wtx_fetch_update p k f w)) =
     (if q = p \<and> k' = k then f (wtx_get p k w) else wtx_get q k' w)"
  by (simp_all add: wtx_fetch_update_def Let_def wtx_get_def apply_write_get
      del: apply_write.simps)

lemma db_simps [simp, store_simps]:
  "tget (db_insert p k v d q) k' = (if q = p \<and> k' = k then Some v else tget (d q) k')"
  "tget (db_remove p k d q) k' = (if q = p \<and> k' = k then None else tget (d q) k')"
  by (simp_all add: db_insert_def db_remove_def)

lemma db_other [simp]:
  "q \<noteq> p \<Longrightarrow> db_insert p k v d q = d q"
  "q \<noteq> p \<Longrightarrow> db_remove p k d q = d q"
  by (simp_all add: db_insert_def db_remove_def)

text \<open>
  What a key holds after a sequence of writes: the last write to it, or what it held before.
\<close>

definition last_write :: "part \<Rightarrow> bytes \<Rightarrow> kv_write list \<Rightarrow> bytes option option" where
  "last_write p k cs = map_option write_value (List.find (\<lambda>c. fst c = p \<and> fst (snd c) = k) (rev cs))"

lemma fold_apply_write_get:
  "tget (fold apply_write cs d p) k =
     (case last_write p k cs of None \<Rightarrow> tget (d p) k | Some v \<Rightarrow> v)"
proof (induction cs rule: rev_induct)
  case (snoc c cs)
  obtain q k' v where c: "c = (q, k', v)" by (cases c)
  show ?case
    using snoc by (simp add: c last_write_def write_value_def apply_write_get del: apply_write.simps)
qed (simp add: last_write_def)

text \<open>
  A transaction that meets no interference commits what it saw: the committed database is
  its own view.
\<close>

lemma commit_view: "snapshot w = d \<Longrightarrow> commit w d = view w"
  by (simp add: commit_def view_def)

text \<open>
  Serialisation over disjoint writes: a commit over a database changed elsewhere gives, on
  every key the transaction wrote, what the transaction saw.
\<close>

lemma commit_get_written:
  "last_write p k (writes w) = Some v \<Longrightarrow> tget (commit w d p) k = v"
  by (simp add: commit_def fold_apply_write_get)

lemma commit_get_unwritten:
  "last_write p k (writes w) = None \<Longrightarrow> tget (commit w d p) k = tget (d p) k"
  by (simp add: commit_def fold_apply_write_get)

text \<open>The view of a transaction changes as the database would.\<close>

lemma view_writes [simp]:
  "view (wtx_insert p k v w) = db_insert p k v (view w)"
  "view (wtx_remove p k w) = db_remove p k (view w)"
  "snapshot (wtx_insert p k v w) = snapshot w"
  "snapshot (wtx_remove p k w) = snapshot w"
  by (simp_all add: wtx_insert_def wtx_remove_def db_insert_def db_remove_def)

lemma view_fetch_update [simp]:
  "view (snd (wtx_fetch_update p k f w)) = apply_write (p, k, f (tget (view w p) k)) (view w)"
  "snapshot (snd (wtx_fetch_update p k f w)) = snapshot w"
  by (simp_all add: wtx_fetch_update_def Let_def wtx_get_def)

lemma db_eqI: "(\<And>p k. tget (d p) k = tget (d' p) k) \<Longrightarrow> d = d'"
  by (intro ext table_eqI) blast

text \<open>The partitions a transaction writes; it leaves the others as they are.\<close>

definition touched :: "wtx \<Rightarrow> part set" where
  "touched w = fst ` set (writes w)"

lemma touched_simps [simp]:
  "touched (begin_wtx d) = {}"
  "touched (wtx_insert p k v w) = insert p (touched w)"
  "touched (wtx_remove p k w) = insert p (touched w)"
  "touched (wtx_write (p, k, x) w) = insert p (touched w)"
  "touched (snd (wtx_fetch_update p k f w)) = insert p (touched w)"
  by (auto simp: touched_def wtx_insert_def wtx_remove_def wtx_fetch_update_def Let_def)

lemma apply_write_other: "q \<noteq> fst c \<Longrightarrow> apply_write c d q = d q"
  by (cases c; cases "snd (snd c)") auto

lemma fold_apply_write_other:
  "p \<notin> fst ` set cs \<Longrightarrow> fold apply_write cs d p = d p"
  by (induction cs arbitrary: d) (auto simp: apply_write_other)

lemma apply_write_cong: "d p = d' p \<Longrightarrow> apply_write c d p = apply_write c d' p"
  by (cases c; cases "snd (snd c)") auto

lemma fold_apply_write_cong:
  "d p = d' p \<Longrightarrow> fold apply_write cs d p = fold apply_write cs d' p"
proof (induction cs arbitrary: d d')
  case (Cons c cs)
  then have "apply_write c d p = apply_write c d' p" using apply_write_cong [of d p d' c] by blast
  then show ?case using Cons.IH [of "apply_write c d" "apply_write c d'"] by simp
qed simp

lemma commit_part: "d p = snapshot w p \<Longrightarrow> commit w d p = view w p"
  using fold_apply_write_cong [of d p "snapshot w" "writes w"] by (simp add: commit_def view_def)

lemma commit_untouched: "p \<notin> touched w \<Longrightarrow> commit w d p = d p"
  by (simp add: commit_def touched_def fold_apply_write_other)

lemma view_untouched: "p \<notin> touched w \<Longrightarrow> view w p = snapshot w p"
  by (simp add: view_def touched_def fold_apply_write_other)

section \<open>Retried transactions\<close>

text \<open>
  The actors write with \<^verbatim>\<open>loop { let wtx = write_tx(); body; if commit().is_ok() { break } }\<close>.
  A body reads and writes the database directly (\<open>d\<close>), writes through its transaction, and
  has other effects (\<open>s\<close>). Each attempt that fails to commit loses its transaction but neither
  its direct writes nor its other effects; the list holds, for every failed attempt, what the
  other actors committed meanwhile. The last attempt commits.
\<close>

fun transact ::
    "(db \<Rightarrow> 's \<Rightarrow> (db \<times> 's \<times> wtx \<times> 'a) res) \<Rightarrow> (db \<Rightarrow> db) list \<Rightarrow> db \<Rightarrow> 's \<Rightarrow> (db \<times> 's \<times> 'a) res"
  where
  "transact body [] d s =
     (case body d s of Inl e \<Rightarrow> Inl e | Inr (d', s', w, a) \<Rightarrow> Ok (commit w d', s', a))"
| "transact body (other # others) d s =
     (case body d s of Inl e \<Rightarrow> Inl e
      | Inr (d', s', w, a) \<Rightarrow> transact body others (other d') s')"

text \<open>
  A body that writes only through its transaction: its last attempt alone determines the
  database, whatever the conflicts before it.
\<close>

lemma transact_pure:
  assumes pure: "\<And>d s d' s' w a. body d s = Ok (d', s', w, a) \<Longrightarrow> d' = d"
    and run: "transact body others d s = Ok (d', s', a)"
  shows "\<exists>t t' w. body (foldl (\<lambda>x f. f x) d others) t = Ok (foldl (\<lambda>x f. f x) d others, t', w, a) \<and>
    s' = t' \<and> d' = commit w (foldl (\<lambda>x f. f x) d others)"
  using run
proof (induction others arbitrary: d s)
  case Nil
  then show ?case using pure by (force split: sum.splits)
next
  case (Cons f others)
  from Cons.prems obtain d1 s1 w1 a1 where "body d s = Ok (d1, s1, w1, a1)"
    and "transact body others (f d1) s1 = Ok (d', s', a)"
    by (auto split: sum.splits)
  moreover from this pure have "d1 = d" by blast
  ultimately show ?case using Cons.IH [of "f d" s1] by simp
qed

end
