(* ===== verification/Addresses.thy ===== *)
theory Addresses
  imports Kv_Store
begin

text \<open>
  Addresses as the store keeps them: \<^verbatim>\<open>AddressPayload\<close> of
  \<^verbatim>\<open>indexer-db/src/lib.rs\<close>, its construction from a script public key or an address,
  and the way back in \<^verbatim>\<open>indexer/src/api.rs\<close>. The Kaspa crates that classify scripts
  and build addresses are a parameter (\<open>kaspa_lib\<close>).
\<close>

section \<open>The Kaspa crates\<close>

type_synonym u16 = "16 word"

record script_public_key =
  spk_version :: u16
  spk_script :: bytes

datatype script_class = NonStandard | PubKeyScript | PubKeyECDSAScript | ScriptHashScript

datatype addr_version = PubKey | PubKeyECDSA | ScriptHash

record 'addr kaspa_lib =
  from_script :: "script_public_key \<Rightarrow> script_class"
  class_version :: "script_class \<Rightarrow> u16"
  version_as_u8 :: "addr_version \<Rightarrow> byte"
  version_try_from :: "byte \<Rightarrow> addr_version option"
  address_new :: "addr_version \<Rightarrow> bytes \<Rightarrow> 'addr"
  pay_to_address_script :: "'addr \<Rightarrow> script_public_key"

text \<open>
  What the sources rely on: the discriminants of \<^verbatim>\<open>Version\<close> are decoded by
  \<^verbatim>\<open>Version::try_from\<close> and none is \<^verbatim>\<open>0xFF\<close>; a script of a standard class has the
  length of its template (34 bytes for a public key, 35 for an ECDSA key, 35 for a script hash).
\<close>

definition kaspa_versions_ok :: "('addr, 'x) kaspa_lib_scheme \<Rightarrow> bool" where
  "kaspa_versions_ok L \<longleftrightarrow>
     (\<forall>v. version_try_from L (version_as_u8 L v) = Some v \<and> version_as_u8 L v \<noteq> 255)"

fun class_length :: "script_class \<Rightarrow> nat" where
  "class_length NonStandard = 0"
| "class_length PubKeyScript = 34"
| "class_length PubKeyECDSAScript = 35"
| "class_length ScriptHashScript = 35"

definition kaspa_scripts_ok :: "('addr, 'x) kaspa_lib_scheme \<Rightarrow> bool" where
  "kaspa_scripts_ok L \<longleftrightarrow>
     (\<forall>spk. from_script L spk \<noteq> NonStandard \<longrightarrow>
        length (spk_script spk) = class_length (from_script L spk))"

section \<open>Address payloads\<close>

definition EMPTY_VERSION :: byte where
  "EMPTY_VERSION = 0"

record address_payload =
  inverse_version :: byte
  payload :: "33 arr"

definition address_default :: address_payload where
  "address_default = \<lparr>inverse_version = EMPTY_VERSION, payload = of_list []\<rparr>"

definition addr_bytes :: "address_payload \<Rightarrow> bytes" where
  "addr_bytes a = inverse_version a # list_of (payload a)"

definition addr_of :: "bytes \<Rightarrow> address_payload" where
  "addr_of bs = \<lparr>inverse_version = hd bs, payload = of_list (tl bs)\<rparr>"

definition addr_from_bytes :: "bytes \<Rightarrow> address_payload option" where
  "addr_from_bytes bs = (if length bs = 34 then Some (addr_of bs) else None)"

text \<open>Slicing: a range outside the slice panics.\<close>

definition slice :: "nat \<Rightarrow> nat \<Rightarrow> bytes \<Rightarrow> bytes res" where
  "slice i j bs =
     (if i \<le> j \<and> j \<le> length bs then Ok (take (j - i) (drop i bs))
      else Panics ''range end index out of range for slice'')"

definition address_payload_from_script ::
    "('addr, 'x) kaspa_lib_scheme \<Rightarrow> script_public_key \<Rightarrow> address_payload res" where
  "address_payload_from_script L spk =
     (let cls = from_script L spk in
      if class_version L cls < spk_version spk then Err ''Invalid version for script class''
      else case cls of
          NonStandard \<Rightarrow> Err ''Invalid script class''
        | PubKeyScript \<Rightarrow> rbind (slice 1 33 (spk_script spk)) (\<lambda>p.
            Ok \<lparr>inverse_version = 255 - version_as_u8 L PubKey, payload = of_list p\<rparr>)
        | PubKeyECDSAScript \<Rightarrow> rbind (slice 1 34 (spk_script spk)) (\<lambda>p.
            Ok \<lparr>inverse_version = 255 - version_as_u8 L PubKeyECDSA, payload = of_list p\<rparr>)
        | ScriptHashScript \<Rightarrow> rbind (slice 2 34 (spk_script spk)) (\<lambda>p.
            Ok \<lparr>inverse_version = 255 - version_as_u8 L ScriptHash, payload = of_list p\<rparr>))"

definition address_payload_from_address ::
    "('addr, 'x) kaspa_lib_scheme \<Rightarrow> 'addr \<Rightarrow> address_payload res" where
  "address_payload_from_address L a = address_payload_from_script L (pay_to_address_script L a)"

definition to_rpc_address ::
    "('addr, 'x) kaspa_lib_scheme \<Rightarrow> address_payload \<Rightarrow> 'addr option res" where
  "to_rpc_address L a =
     (if inverse_version a = EMPTY_VERSION then Ok None
      else case version_try_from L (255 - inverse_version a) of
          None \<Rightarrow> Err ''unknown address version''
        | Some v \<Rightarrow> Ok (Some (case v of
              PubKey \<Rightarrow> address_new L v (take 32 (list_of (payload a)))
            | ScriptHash \<Rightarrow> address_new L v (take 32 (list_of (payload a)))
            | PubKeyECDSA \<Rightarrow> address_new L v (list_of (payload a)))))"

section \<open>Lemmas\<close>

lemma length_addr_bytes [simp, codec_simps]: "length (addr_bytes a) = 34"
  by (simp add: addr_bytes_def)

lemma addr_of_bytes [simp]:
  "addr_of (addr_bytes a) = a"
  "addr_of (addr_bytes a @ bs) = a"
  by (simp_all add: addr_of_def addr_bytes_def)

lemma addr_bytes_of [simp]: "length bs = 34 \<Longrightarrow> addr_bytes (addr_of bs) = bs"
  by (cases bs) (simp_all add: addr_of_def addr_bytes_def)

interpretation addr: fixed_codec addr_bytes addr_from_bytes 34
proof
  fix bs :: bytes and k
  show "addr_from_bytes (addr_bytes k) = Some k"
    by (simp add: addr_from_bytes_def)
  show "addr_from_bytes bs = Some k \<Longrightarrow> addr_bytes k = bs"
    by (auto simp: addr_from_bytes_def split: if_splits)
  show "length bs = 34 \<Longrightarrow> addr_from_bytes bs \<noteq> None"
    by (simp add: addr_from_bytes_def)
qed simp

lemma addr_bytes_inject [simp]: "addr_bytes a = addr_bytes b \<longleftrightarrow> a = b"
  by (rule addr.enc_inject)

lemma addr_from_to_bytes [simp]: "addr_from_bytes (addr_bytes a) = Some a"
  by (rule addr.dec_enc)

lemma sub_255_eq_0_iff: "(255 :: byte) - v = 0 \<longleftrightarrow> v = 255"
  by simp

lemma slice_ok: "i \<le> j \<Longrightarrow> j \<le> length bs \<Longrightarrow> slice i j bs = Ok (take (j - i) (drop i bs))"
  by (simp add: slice_def)

text \<open>The version and the address bytes of a script of each standard class.\<close>

fun class_addr_version :: "script_class \<Rightarrow> addr_version" where
  "class_addr_version PubKeyECDSAScript = PubKeyECDSA"
| "class_addr_version ScriptHashScript = ScriptHash"
| "class_addr_version _ = PubKey"

fun class_payload :: "script_class \<Rightarrow> bytes \<Rightarrow> bytes" where
  "class_payload PubKeyECDSAScript s = take 33 (drop 1 s)"
| "class_payload ScriptHashScript s = take 32 (drop 2 s)"
| "class_payload _ s = take 32 (drop 1 s)"

lemma address_payload_from_script_eq:
  assumes "kaspa_scripts_ok L"
  shows "address_payload_from_script L spk =
    (let cls = from_script L spk in
     if class_version L cls < spk_version spk then Err ''Invalid version for script class''
     else if cls = NonStandard then Err ''Invalid script class''
     else Ok \<lparr>inverse_version = 255 - version_as_u8 L (class_addr_version cls),
              payload = of_list (class_payload cls (spk_script spk))\<rparr>)"
proof -
  have "length (spk_script spk) = class_length (from_script L spk)"
    if "from_script L spk \<noteq> NonStandard"
    using assms that by (auto simp: kaspa_scripts_ok_def)
  then show ?thesis
    by (cases "from_script L spk")
      (auto simp: address_payload_from_script_def Let_def slice_ok)
qed

section \<open>Properties\<close>

text \<open>
  Deriving an address from an output script never panics; it fails exactly for
  non-standard scripts and for scripts of a version newer than their class, and an address
  it yields is never the empty one that stands for an unknown sender.
\<close>

theorem address_payload_from_script_total:
  assumes "kaspa_versions_ok L" and "kaspa_scripts_ok L"
  shows "(if class_version L (from_script L spk) < spk_version spk \<or> from_script L spk = NonStandard
     then \<exists>e. address_payload_from_script L spk = Err e
     else \<exists>a. address_payload_from_script L spk = Ok a \<and> inverse_version a \<noteq> EMPTY_VERSION)"
  using assms(1)
  by (auto simp: address_payload_from_script_eq [OF assms(2)] Let_def kaspa_versions_ok_def
      EMPTY_VERSION_def split: if_splits)

definition example_lib :: "(addr_version \<times> bytes) kaspa_lib" where
  "example_lib =
     \<lparr>from_script = (\<lambda>spk. if length (spk_script spk) = 34 then PubKeyScript else NonStandard),
      class_version = (\<lambda>_. 0),
      version_as_u8 = (\<lambda>v. case v of PubKey \<Rightarrow> 0 | PubKeyECDSA \<Rightarrow> 1 | ScriptHash \<Rightarrow> 8),
      version_try_from = (\<lambda>b. if b = 0 then Some PubKey else if b = 1 then Some PubKeyECDSA
        else if b = 8 then Some ScriptHash else None),
      address_new = (\<lambda>v p. (v, p)),
      pay_to_address_script = (\<lambda>(v, p). \<lparr>spk_version = 0, spk_script = 32 # p @ [172]\<rparr>)\<rparr>"

lemma example_lib_ok: "kaspa_versions_ok example_lib" "kaspa_scripts_ok example_lib"
  by (auto simp: kaspa_versions_ok_def kaspa_scripts_ok_def example_lib_def
      split: addr_version.splits)

theorem address_payload_from_script_total_witness:
  "\<exists>a. address_payload_from_script example_lib
      \<lparr>spk_version = 0, spk_script = 32 # replicate 32 7 @ [172]\<rparr> = Ok a \<and>
    inverse_version a \<noteq> EMPTY_VERSION"
  using address_payload_from_script_total [OF example_lib_ok,
      of "\<lparr>spk_version = 0, spk_script = 32 # replicate 32 7 @ [172]\<rparr>"]
  by (simp add: example_lib_def)

text \<open>
  Addresses survive storage: the address that the API reports for a stored payload is
  the one with the version and the key bytes of the script it was derived from.
\<close>

theorem to_rpc_address_of_script:
  assumes "kaspa_versions_ok L" and "kaspa_scripts_ok L"
    and "address_payload_from_script L spk = Ok a"
  shows "to_rpc_address L a =
    Ok (Some (address_new L (class_addr_version (from_script L spk))
      (class_payload (from_script L spk) (spk_script spk))))"
proof -
  let ?cls = "from_script L spk"
  from assms(3) have std: "?cls \<noteq> NonStandard"
    and a: "a = \<lparr>inverse_version = 255 - version_as_u8 L (class_addr_version ?cls),
        payload = of_list (class_payload ?cls (spk_script spk))\<rparr>"
    by (auto simp: address_payload_from_script_eq [OF assms(2)] Let_def split: if_splits)
  have v: "version_try_from L (version_as_u8 L u) = Some u"
    and nz: "version_as_u8 L u \<noteq> 255" for u
    using assms(1) by (auto simp: kaspa_versions_ok_def)
  have "length (spk_script spk) = class_length ?cls"
    using assms(2) std by (auto simp: kaspa_scripts_ok_def)
  with std show ?thesis
    by (cases ?cls) (simp_all add: a to_rpc_address_def EMPTY_VERSION_def v nz)
qed

theorem to_rpc_address_of_script_witness:
  "to_rpc_address example_lib \<lparr>inverse_version = 255, payload = of_list (replicate 32 7)\<rparr> =
     Ok (Some (PubKey, replicate 32 7))"
proof -
  let ?spk = "\<lparr>spk_version = 0, spk_script = 32 # replicate 32 7 @ [172]\<rparr>"
  have spk: "address_payload_from_script example_lib ?spk =
      Ok \<lparr>inverse_version = 255, payload = of_list (replicate 32 7)\<rparr>"
    by (simp add: address_payload_from_script_def example_lib_def slice_def Let_def)
  show ?thesis
    using to_rpc_address_of_script [OF example_lib_ok spk] by (simp add: example_lib_def)
qed

end
