(* ===== verification/Metadata.thy ===== *)
theory Metadata
  imports Kv_Store
begin

text \<open>
  The metadata partition of \<^verbatim>\<open>indexer-db/src/metadata.rs\<close>: the cursor of the latest
  block, the cursor of the latest accepting block, and the version of the database.
  A read transaction is the database it snapshots, so the \<^verbatim>\<open>_rtx\<close> readers take a
  \<open>db\<close> and the \<^verbatim>\<open>_wtx\<close> readers a \<open>wtx\<close>.
\<close>

section \<open>Keys and cursors\<close>

datatype metadata_key = LatestBlockCursor | LatestAcceptingBlockCursor | DBVersion

fun metadata_key_byte :: "metadata_key \<Rightarrow> byte" where
  "metadata_key_byte LatestBlockCursor = 0"
| "metadata_key_byte LatestAcceptingBlockCursor = 1"
| "metadata_key_byte DBVersion = 2"

abbreviation mkey :: "metadata_key \<Rightarrow> bytes" where
  "mkey k \<equiv> [metadata_key_byte k]"

record cursor =
  cur_blue_work :: "24 arr"
  cur_block_hash :: hash
  cur_daa_score :: u64

definition cursor_default :: cursor where
  "cursor_default = \<lparr>cur_blue_work = of_list [], cur_block_hash = of_list [], cur_daa_score = 0\<rparr>"

definition cursor_bytes :: "cursor \<Rightarrow> bytes" where
  "cursor_bytes c =
     list_of (cur_blue_work c) @ list_of (cur_block_hash c) @ to_le_bytes (cur_daa_score c)"

definition cursor_from_bytes :: "bytes \<Rightarrow> cursor option" where
  "cursor_from_bytes bs =
     (if length bs = 64
      then Some \<lparr>cur_blue_work = of_list (take 24 bs),
                 cur_block_hash = of_list (take 32 (drop 24 bs)),
                 cur_daa_score = from_le_bytes (drop 56 bs)\<rparr>
      else None)"

section \<open>Operations\<close>

definition hash_from_bytes :: "bytes \<Rightarrow> hash option" where
  "hash_from_bytes bs = (if length bs = 32 then Some (of_list bs) else None)"

definition read_hash :: "bytes option \<Rightarrow> hash option res" where
  "read_hash v = (case v of
       None \<Rightarrow> Ok None
     | Some bs \<Rightarrow> (case hash_from_bytes bs of
           None \<Rightarrow> Err ''could not convert slice to array''
         | Some h \<Rightarrow> Ok (Some h)))"

definition read_cursor :: "bytes option \<Rightarrow> cursor option res" where
  "read_cursor v = (case v of
       None \<Rightarrow> Ok None
     | Some bs \<Rightarrow> (case cursor_from_bytes bs of
           None \<Rightarrow> Err ''db corrupted, failed to read cursor''
         | Some c \<Rightarrow> Ok (Some c)))"

definition set_latest_block_cursor :: "hash \<Rightarrow> wtx \<Rightarrow> wtx" where
  "set_latest_block_cursor h w = wtx_insert PMetadata (mkey LatestBlockCursor) (list_of h) w"

definition get_latest_block_cursor :: "db \<Rightarrow> hash option res" where
  "get_latest_block_cursor d = read_hash (tget (d PMetadata) (mkey LatestBlockCursor))"

definition get_latest_block_cursor_rtx :: "db \<Rightarrow> hash option res" where
  "get_latest_block_cursor_rtx rtx = read_hash (tget (rtx PMetadata) (mkey LatestBlockCursor))"

definition get_latest_block_cursor_wtx :: "wtx \<Rightarrow> hash option res" where
  "get_latest_block_cursor_wtx w = read_hash (wtx_get PMetadata (mkey LatestBlockCursor) w)"

text \<open>
  The update keeps the cursor of the larger blue work. The closure passed to
  \<^verbatim>\<open>fetch_update\<close> panics when the stored value is not a cursor.
\<close>

definition newer_cursor :: "cursor \<Rightarrow> bytes option \<Rightarrow> bytes res" where
  "newer_cursor c old = (case old of
       None \<Rightarrow> Ok (cursor_bytes c)
     | Some old_bytes \<Rightarrow> (case cursor_from_bytes old_bytes of
           None \<Rightarrow> Panics ''db corrupted, failed to read cursor''
         | Some old_value \<Rightarrow>
             Ok (if cur_blue_work old_value < cur_blue_work c then cursor_bytes c else old_bytes)))"

definition set_latest_accepting_block_cursor :: "cursor \<Rightarrow> wtx \<Rightarrow> wtx res" where
  "set_latest_accepting_block_cursor c w =
     rbind (newer_cursor c (wtx_get PMetadata (mkey LatestAcceptingBlockCursor) w)) (\<lambda>v.
       Ok (wtx_insert PMetadata (mkey LatestAcceptingBlockCursor) v w))"

definition get_latest_accepting_block_cursor :: "db \<Rightarrow> cursor option res" where
  "get_latest_accepting_block_cursor d =
     read_cursor (tget (d PMetadata) (mkey LatestAcceptingBlockCursor))"

definition get_latest_accepting_block_cursor_rtx :: "db \<Rightarrow> cursor option res" where
  "get_latest_accepting_block_cursor_rtx rtx =
     read_cursor (tget (rtx PMetadata) (mkey LatestAcceptingBlockCursor))"

definition get_latest_accepting_block_cursor_wtx :: "wtx \<Rightarrow> cursor option res" where
  "get_latest_accepting_block_cursor_wtx w =
     read_cursor (wtx_get PMetadata (mkey LatestAcceptingBlockCursor) w)"

definition remove_latest_block_cursor :: "wtx \<Rightarrow> wtx" where
  "remove_latest_block_cursor w = wtx_remove PMetadata (mkey LatestBlockCursor) w"

definition remove_latest_accepting_block_cursor :: "wtx \<Rightarrow> wtx" where
  "remove_latest_accepting_block_cursor w =
     wtx_remove PMetadata (mkey LatestAcceptingBlockCursor) w"

definition db_version :: "db \<Rightarrow> u32 res" where
  "db_version d = (case tget (d PMetadata) (mkey DBVersion) of
       None \<Rightarrow> Ok 0
     | Some bs \<Rightarrow>
         if length bs = 4 then Ok (from_le_bytes bs)
         else Err ''db corrupted, failed to read db version'')"

definition set_db_version_wtx :: "u32 \<Rightarrow> wtx \<Rightarrow> wtx" where
  "set_db_version_wtx v w = wtx_insert PMetadata (mkey DBVersion) (to_le_bytes v) w"

definition set_db_version :: "u32 \<Rightarrow> db \<Rightarrow> db" where
  "set_db_version v d = db_insert PMetadata (mkey DBVersion) (to_le_bytes v) d"

section \<open>Lemmas\<close>

lemma length_cursor_bytes [simp, codec_simps]: "length (cursor_bytes c) = 64"
  by (simp add: cursor_bytes_def)

interpretation cursor: fixed_codec cursor_bytes cursor_from_bytes 64
proof
  fix bs :: bytes and c
  show "cursor_from_bytes (cursor_bytes c) = Some c"
    by (simp add: cursor_from_bytes_def) (simp add: cursor_bytes_def)
  show "cursor_from_bytes bs = Some c \<Longrightarrow> cursor_bytes c = bs"
    using concat_chunks [of "[24, 32]" bs]
    by (auto simp: cursor_from_bytes_def cursor_bytes_def split: if_splits)
  show "length bs = 64 \<Longrightarrow> cursor_from_bytes bs \<noteq> None"
    by (simp add: cursor_from_bytes_def)
qed simp

interpretation hash: fixed_codec "list_of :: hash \<Rightarrow> bytes" hash_from_bytes 32
  by unfold_locales (auto simp: hash_from_bytes_def split: if_splits)

lemma read_hash_list_of [simp]: "read_hash (Some (list_of h)) = Ok (Some h)"
  by (simp add: read_hash_def hash.dec_enc)

lemma read_simps [simp]:
  "read_hash None = Ok None"
  "read_cursor None = Ok None"
  "read_cursor (Some (cursor_bytes c)) = Ok (Some c)"
  by (simp_all add: read_hash_def read_cursor_def cursor.dec_enc)

lemma latest_block_cursor_set [simp]:
  "get_latest_block_cursor_wtx (set_latest_block_cursor h w) = Ok (Some h)"
  by (simp add: get_latest_block_cursor_wtx_def set_latest_block_cursor_def)

text \<open>The byte order of big-endian blue work is its numeric order.\<close>

lemma blue_work_less_iff:
  "(of_list (to_be_bytes (v :: u192)) :: 24 arr) < of_list (to_be_bytes w) \<longleftrightarrow> v < w"
  by (simp add: less_arr_def)

section \<open>Properties\<close>

text \<open>
  The accepting cursor never moves back: writing a cursor over a readable one leaves the
  one of the larger blue work, the older one on a tie, and whatever was stored before has at
  most the blue work of what is stored after.
\<close>

theorem accepting_cursor_monotone:
  assumes "get_latest_accepting_block_cursor_wtx w = Ok old"
  shows "\<exists>w' new. set_latest_accepting_block_cursor c w = Ok w' \<and>
    get_latest_accepting_block_cursor_wtx w' = Ok (Some new) \<and>
    new = (case old of None \<Rightarrow> c
      | Some c0 \<Rightarrow> if cur_blue_work c0 < cur_blue_work c then c else c0) \<and>
    cur_blue_work c \<le> cur_blue_work new \<and>
    (\<forall>c0. old = Some c0 \<longrightarrow> cur_blue_work c0 \<le> cur_blue_work new)"
proof -
  let ?v = "wtx_get PMetadata (mkey LatestAcceptingBlockCursor) w"
  show ?thesis
  proof (cases ?v)
    case None
    with assms have "old = None"
      by (simp add: get_latest_accepting_block_cursor_wtx_def)
    with None show ?thesis
      by (simp add: set_latest_accepting_block_cursor_def newer_cursor_def
          get_latest_accepting_block_cursor_wtx_def)
  next
    case (Some bs)
    with assms obtain oldc where bs: "bs = cursor_bytes oldc" and "old = Some oldc"
      by (auto simp: get_latest_accepting_block_cursor_wtx_def read_cursor_def cursor.dec_iff
          split: option.splits)
    with Some show ?thesis
      by (auto simp: set_latest_accepting_block_cursor_def newer_cursor_def cursor.dec_enc
          get_latest_accepting_block_cursor_wtx_def)
  qed
qed

theorem accepting_cursor_monotone_witness:
  "\<exists>w' new. set_latest_accepting_block_cursor cursor_default (begin_wtx (\<lambda>_. tempty)) = Ok w' \<and>
    get_latest_accepting_block_cursor_wtx w' = Ok (Some new) \<and> new = cursor_default"
proof -
  have start: "get_latest_accepting_block_cursor_wtx (begin_wtx (\<lambda>_. tempty)) = Ok None"
    by (simp add: get_latest_accepting_block_cursor_wtx_def)
  show ?thesis using accepting_cursor_monotone [OF start, of cursor_default] by auto
qed

end
