(* ===== verification/Headers.thy ===== *)
theory Headers
  imports Metadata
begin

text \<open>
  The header partitions of \<^verbatim>\<open>indexer-db/src/headers\<close>: compact headers by block hash,
  the gaps that still have to be filled, and the index of blocks by DAA score that pruning
  walks.
\<close>

section \<open>Compact headers\<close>

record db_compact_header =
  dch_blue_work :: "24 arr"
  dch_daa_score :: u64

definition compact_header_bytes :: "db_compact_header \<Rightarrow> bytes" where
  "compact_header_bytes h = list_of (dch_blue_work h) @ to_le_bytes (dch_daa_score h)"

definition compact_header_from_bytes :: "bytes \<Rightarrow> db_compact_header option" where
  "compact_header_from_bytes bs =
     (if length bs = 32
      then Some \<lparr>dch_blue_work = of_list (take 24 bs), dch_daa_score = from_le_bytes (drop 24 bs)\<rparr>
      else None)"

definition read_compact_header :: "bytes option \<Rightarrow> db_compact_header option res" where
  "read_compact_header v = (case v of
       None \<Rightarrow> Ok None
     | Some bs \<Rightarrow> (case compact_header_from_bytes bs of
           None \<Rightarrow> Err ''Invalid CompactHeader length''
         | Some h \<Rightarrow> Ok (Some h)))"

text \<open>The insertion is not part of a transaction: it reports whether the block was known.\<close>

definition insert_compact_header :: "hash \<Rightarrow> 24 arr \<Rightarrow> u64 \<Rightarrow> db \<Rightarrow> bool \<times> db" where
  "insert_compact_header block_hash blue_work daa_score d =
     (tget (d PBlockCompactHeader) (list_of block_hash) \<noteq> None,
      db_insert PBlockCompactHeader (list_of block_hash)
        (compact_header_bytes \<lparr>dch_blue_work = blue_work, dch_daa_score = daa_score\<rparr>) d)"

definition get_compact_header :: "hash \<Rightarrow> db \<Rightarrow> db_compact_header option res" where
  "get_compact_header block_hash d =
     read_compact_header (tget (d PBlockCompactHeader) (list_of block_hash))"

definition get_compact_header_rtx :: "hash \<Rightarrow> db \<Rightarrow> db_compact_header option res" where
  "get_compact_header_rtx block_hash rtx =
     read_compact_header (tget (rtx PBlockCompactHeader) (list_of block_hash))"

definition get_compact_header_wtx :: "hash \<Rightarrow> wtx \<Rightarrow> db_compact_header option res" where
  "get_compact_header_wtx block_hash w =
     read_compact_header (wtx_get PBlockCompactHeader (list_of block_hash) w)"

definition compact_header_len :: "db \<Rightarrow> nat" where
  "compact_header_len d = length (items (d PBlockCompactHeader))"

definition compact_header_is_empty :: "db \<Rightarrow> bool" where
  "compact_header_is_empty d \<longleftrightarrow> items (d PBlockCompactHeader) = []"

definition compact_header_remove :: "hash \<Rightarrow> db \<Rightarrow> db" where
  "compact_header_remove block_hash d = db_remove PBlockCompactHeader (list_of block_hash) d"

section \<open>Block gaps\<close>

record block_gap =
  gap_to :: hash
  gap_from :: hash

definition add_gap_wtx :: "block_gap \<Rightarrow> wtx \<Rightarrow> wtx" where
  "add_gap_wtx g w = wtx_insert PBlockGaps (list_of (gap_to g)) (list_of (gap_from g)) w"

definition add_gap :: "block_gap \<Rightarrow> db \<Rightarrow> db" where
  "add_gap g d = db_insert PBlockGaps (list_of (gap_to g)) (list_of (gap_from g)) d"

definition remove_gap_wtx :: "hash \<Rightarrow> wtx \<Rightarrow> wtx" where
  "remove_gap_wtx to w = wtx_remove PBlockGaps (list_of to) w"

definition update_gap_wtx :: "block_gap \<Rightarrow> wtx \<Rightarrow> wtx" where
  "update_gap_wtx g w = wtx_insert PBlockGaps (list_of (gap_to g)) (list_of (gap_from g)) w"

definition gap_of_entry :: "bytes \<times> bytes \<Rightarrow> block_gap res" where
  "gap_of_entry e =
     (if length (fst e) = 32 \<and> length (snd e) = 32
      then Ok \<lparr>gap_to = of_list (fst e), gap_from = of_list (snd e)\<rparr>
      else Err ''Invalid key and value lengths in block_gaps partition'')"

definition get_all_gaps :: "db \<Rightarrow> block_gap res list" where
  "get_all_gaps d = map gap_of_entry (items (d PBlockGaps))"

definition get_all_gaps_rtx :: "db \<Rightarrow> block_gap res list" where
  "get_all_gaps_rtx rtx = map gap_of_entry (items (rtx PBlockGaps))"

section \<open>The DAA index\<close>

record daa_index_key =
  dk_daa_score :: u64
  dk_blue_work :: "24 arr"
  dk_block_hash :: hash

definition daa_key_bytes :: "daa_index_key \<Rightarrow> bytes" where
  "daa_key_bytes k =
     to_be_bytes (dk_daa_score k) @ list_of (dk_blue_work k) @ list_of (dk_block_hash k)"

definition daa_key_from_bytes :: "bytes \<Rightarrow> daa_index_key option" where
  "daa_key_from_bytes bs =
     (if length bs = 64
      then Some \<lparr>dk_daa_score = from_be_bytes (take 8 bs),
                 dk_blue_work = of_list (take 24 (drop 8 bs)),
                 dk_block_hash = of_list (drop 32 bs)\<rparr>
      else None)"

definition make_key :: "u64 \<Rightarrow> hash \<Rightarrow> 24 arr \<Rightarrow> daa_index_key" where
  "make_key daa_score block_hash blue_work_be =
     \<lparr>dk_daa_score = daa_score, dk_blue_work = blue_work_be, dk_block_hash = block_hash\<rparr>"

definition daa_index_insert :: "u64 \<Rightarrow> hash \<Rightarrow> 24 arr \<Rightarrow> db \<Rightarrow> db" where
  "daa_index_insert daa_score block_hash blue_work_be d =
     db_insert PDaaIndex (daa_key_bytes (make_key daa_score block_hash blue_work_be)) [] d"

definition daa_index_delete :: "u64 \<Rightarrow> hash \<Rightarrow> 24 arr \<Rightarrow> db \<Rightarrow> db" where
  "daa_index_delete daa_score block_hash blue_work_be d =
     db_remove PDaaIndex (daa_key_bytes (make_key daa_score block_hash blue_work_be)) d"

definition daa_key_of_entry :: "bytes \<times> bytes \<Rightarrow> daa_index_key res" where
  "daa_key_of_entry e =
     (if snd e \<noteq> [] then Err ''Unexpected non-empty value''
      else case daa_key_from_bytes (fst e) of
          None \<Rightarrow> Err ''db corrupted, failed to read daa index key''
        | Some k \<Rightarrow> Ok k)"

definition iter_lt :: "db \<Rightarrow> u64 \<Rightarrow> daa_index_key res list" where
  "iter_lt rtx max_daa = map daa_key_of_entry (trange_lt (to_be_bytes max_daa) (rtx PDaaIndex))"

definition daa_index_len :: "db \<Rightarrow> nat" where
  "daa_index_len d = length (items (d PDaaIndex))"

definition daa_index_is_empty :: "db \<Rightarrow> bool" where
  "daa_index_is_empty d \<longleftrightarrow> items (d PDaaIndex) = []"

section \<open>Lemmas\<close>

lemma length_compact_header_bytes [simp, codec_simps]: "length (compact_header_bytes h) = 32"
  by (simp add: compact_header_bytes_def)

interpretation chdr: fixed_codec compact_header_bytes compact_header_from_bytes 32
proof
  fix bs :: bytes and h
  show "compact_header_from_bytes (compact_header_bytes h) = Some h"
    by (simp add: compact_header_from_bytes_def) (simp add: compact_header_bytes_def)
  show "compact_header_from_bytes bs = Some h \<Longrightarrow> compact_header_bytes h = bs"
    by (auto simp: compact_header_from_bytes_def compact_header_bytes_def split: if_splits)
  show "length bs = 32 \<Longrightarrow> compact_header_from_bytes bs \<noteq> None"
    by (simp add: compact_header_from_bytes_def)
qed simp

lemma length_daa_key_bytes [simp, codec_simps]: "length (daa_key_bytes k) = 64"
  by (simp add: daa_key_bytes_def)

interpretation daa: time_index daa_key_bytes daa_key_from_bytes 64
  "\<lambda>_. []" dk_daa_score "\<lambda>k. list_of (dk_blue_work k) @ list_of (dk_block_hash k)" 0
proof
  fix bs :: bytes and k
  show "daa_key_from_bytes (daa_key_bytes k) = Some k"
    by (simp add: daa_key_from_bytes_def) (simp add: daa_key_bytes_def)
  show "daa_key_from_bytes bs = Some k \<Longrightarrow> daa_key_bytes k = bs"
    using concat_chunks [of "[8, 24]" bs]
    by (auto simp: daa_key_from_bytes_def daa_key_bytes_def split: if_splits)
  show "length bs = 64 \<Longrightarrow> daa_key_from_bytes bs \<noteq> None"
    by (simp add: daa_key_from_bytes_def)
  show "list_of (dk_blue_work k) @ list_of (dk_block_hash k) \<noteq> []"
    using length_list_of [of "dk_block_hash k"] by (metis append_is_Nil_conv length_0_conv
        len_gt_0 less_numeral_extra(3))
qed (simp_all add: daa_key_bytes_def)

lemma daa_key_less_iff:
  "daa_key_bytes k < to_be_bytes max_daa \<longleftrightarrow> dk_daa_score k < max_daa"
proof -
  have "\<not> xs < ([] :: bytes)" for xs by simp
  then show ?thesis
    using less_append_same_length [of "to_be_bytes (dk_daa_score k)" "to_be_bytes max_daa"
        "list_of (dk_blue_work k) @ list_of (dk_block_hash k)" "[]"]
    by (simp add: daa_key_bytes_def)
qed

text \<open>The DAA index is well formed when its keys are full keys and its values empty.\<close>

definition wf_daa_index :: "db \<Rightarrow> bool" where
  "wf_daa_index d \<longleftrightarrow> (\<forall>e \<in> set (items (d PDaaIndex)). length (fst e) = 64 \<and> snd e = [])"

lemma wf_daa_index_get:
  "wf_daa_index d \<longleftrightarrow> (\<forall>k v. tget (d PDaaIndex) k = Some v \<longrightarrow> length k = 64 \<and> v = [])"
  by (auto simp: wf_daa_index_def tget_items)

lemma wf_daa_index_insert:
  "wf_daa_index d \<Longrightarrow> wf_daa_index (daa_index_insert s h b d)"
  by (auto simp: wf_daa_index_get daa_index_insert_def split: if_splits)

lemma wf_daa_index_delete:
  "wf_daa_index d \<Longrightarrow> wf_daa_index (daa_index_delete s h b d)"
  by (auto simp: wf_daa_index_get daa_index_delete_def split: if_splits)

definition daa_keys_lt :: "db \<Rightarrow> u64 \<Rightarrow> daa_index_key list" where
  "daa_keys_lt d m =
     map (\<lambda>e. the (daa_key_from_bytes (fst e))) (trange_lt (to_be_bytes m) (d PDaaIndex))"

lemma daa_keys_lt_bytes:
  assumes "wf_daa_index d"
  shows "map daa_key_bytes (daa_keys_lt d m) = map fst (trange_lt (to_be_bytes m) (d PDaaIndex))"
proof -
  have "daa_key_bytes (the (daa_key_from_bytes (fst e))) = fst e"
    if "e \<in> set (trange_lt (to_be_bytes m) (d PDaaIndex))" for e
  proof -
    from that assms have "length (fst e) = 64"
      by (auto simp: trange_lt_def wf_daa_index_def)
    then show ?thesis
      by (metis daa.total daa.enc_dec option.collapse)
  qed
  then show ?thesis by (simp add: daa_keys_lt_def)
qed

lemma iter_lt_keys:
  assumes "wf_daa_index d"
  shows "iter_lt d m = map Ok (daa_keys_lt d m)"
proof -
  have "daa_key_of_entry e = Ok (the (daa_key_from_bytes (fst e)))"
    if "e \<in> set (trange_lt (to_be_bytes m) (d PDaaIndex))" for e
  proof -
    from that assms have "length (fst e) = 64" "snd e = []"
      by (auto simp: trange_lt_def wf_daa_index_def)
    then show ?thesis
      using daa.total [of "fst e"] by (auto simp: daa_key_of_entry_def)
  qed
  then show ?thesis by (simp add: iter_lt_def daa_keys_lt_def)
qed

lemma set_daa_keys_lt:
  assumes "wf_daa_index d"
  shows "set (daa_keys_lt d m) =
    {k. tget (d PDaaIndex) (daa_key_bytes k) \<noteq> None \<and> dk_daa_score k < m}"
proof -
  have "k \<in> set (daa_keys_lt d m) \<longleftrightarrow>
      daa_key_bytes k \<in> fst ` set (trange_lt (to_be_bytes m) (d PDaaIndex))" for k
  proof -
    have "k \<in> set (daa_keys_lt d m) \<longleftrightarrow> daa_key_bytes k \<in> set (map daa_key_bytes (daa_keys_lt d m))"
      by (auto simp: daa.enc_inject)
    then show ?thesis by (simp only: daa_keys_lt_bytes [OF assms] list.set_map)
  qed
  moreover have "daa_key_bytes k \<in> fst ` set (trange_lt (to_be_bytes m) (d PDaaIndex)) \<longleftrightarrow>
      tget (d PDaaIndex) (daa_key_bytes k) \<noteq> None \<and> dk_daa_score k < m" for k
    by (auto simp: trange_lt_def daa_key_less_iff image_iff Bex_def tget_items)
  ultimately show ?thesis by blast
qed

lemma sorted_daa_keys_lt:
  assumes "wf_daa_index d"
  shows "sorted_wrt (\<lambda>k k'. daa_key_bytes k < daa_key_bytes k') (daa_keys_lt d m)"
proof -
  have "key_sorted (trange_lt (to_be_bytes m) (d PDaaIndex))"
    unfolding trange_lt_def by (rule kv.scan_sorted)
  then show ?thesis
    by (simp flip: daa_keys_lt_bytes [OF assms] add: sorted_wrt_map)
qed

lemma distinct_daa_keys_lt:
  assumes "wf_daa_index d"
  shows "distinct (daa_keys_lt d m)"
proof -
  have "distinct (map daa_key_bytes (daa_keys_lt d m))"
    unfolding daa_keys_lt_bytes [OF assms] trange_lt_def
    by (rule key_sorted_distinct [OF kv.scan_sorted])
  then show ?thesis by (simp add: distinct_map)
qed

section \<open>Properties\<close>

text \<open>
  The pruning iterator: over a well-formed index, \<open>iter_lt\<close> yields, without an error,
  exactly the indexed blocks whose DAA score is below the bound, each once, in the order of
  their DAA scores.
\<close>

theorem iter_lt_correct:
  assumes "wf_daa_index d"
  shows "\<exists>ks. iter_lt d m = map Ok ks \<and>
    set ks = {k. tget (d PDaaIndex) (daa_key_bytes k) \<noteq> None \<and> dk_daa_score k < m} \<and>
    distinct ks \<and> sorted (map dk_daa_score ks)"
proof (intro exI conjI)
  show "iter_lt d m = map Ok (daa_keys_lt d m)"
    by (rule iter_lt_keys [OF assms])
  show "set (daa_keys_lt d m) =
      {k. tget (d PDaaIndex) (daa_key_bytes k) \<noteq> None \<and> dk_daa_score k < m}"
    by (rule set_daa_keys_lt [OF assms])
  show "sorted (map dk_daa_score (daa_keys_lt d m))"
    unfolding sorted_map
    by (rule sorted_wrt_mono_rel [OF _ sorted_daa_keys_lt [OF assms]]) (simp add: daa.stamp_mono)
  show "distinct (daa_keys_lt d m)"
    by (rule distinct_daa_keys_lt [OF assms])
qed

theorem iter_lt_correct_witness:
  "iter_lt (daa_index_insert 9 (of_list [1]) (of_list []) (daa_index_insert 3 (of_list [2]) (of_list [])
      (\<lambda>_. tempty))) 5 = [Ok (make_key 3 (of_list [2]) (of_list []))]"
proof -
  let ?d = "daa_index_insert 9 (of_list [1]) (of_list []) (daa_index_insert 3 (of_list [2]) (of_list [])
      (\<lambda>_. tempty))"
  have wf: "wf_daa_index ?d"
    by (intro wf_daa_index_insert) (simp add: wf_daa_index_def)
  obtain ks where ks: "iter_lt ?d 5 = map Ok ks" "distinct ks"
    "set ks = {k. tget (?d PDaaIndex) (daa_key_bytes k) \<noteq> None \<and> dk_daa_score k < 5}"
    using iter_lt_correct [OF wf, of 5] by blast
  have "set ks = {make_key 3 (of_list [2]) (of_list [])}"
    unfolding ks(3) by (auto simp: daa_index_insert_def daa.enc_inject make_key_def split: if_splits)
  with ks(2) have "ks = [make_key 3 (of_list [2]) (of_list [])]"
    by (rule distinct_singleton)
  with ks(1) show ?thesis by simp
qed

end
