(* ===== verification/Migration.thy ===== *)
theory Migration
  imports Headers
begin

text \<open>
  Database migrations, \<^verbatim>\<open>indexer-db/src/migration.rs\<close>: version 0 indexed blocks by
  (DAA score, hash); version 1 puts the big-endian blue work between the two. A reader
  thread sends the old keys in batches of 512 and a pool of workers rewrites them; the order
  in which the pool gets through the keys is the parameter \<open>sched\<close>.
\<close>

section \<open>Definitions\<close>

record daa_index_key_v0 =
  v0_daa_score :: u64
  v0_block_hash :: hash

definition v0_key_bytes :: "daa_index_key_v0 \<Rightarrow> bytes" where
  "v0_key_bytes k = to_be_bytes (v0_daa_score k) @ list_of (v0_block_hash k)"

definition v0_key_from_bytes :: "bytes \<Rightarrow> daa_index_key_v0 option" where
  "v0_key_from_bytes bs =
     (if length bs = 40
      then Some \<lparr>v0_daa_score = from_be_bytes (take 8 bs), v0_block_hash = of_list (drop 8 bs)\<rparr>
      else None)"

definition CURRENT_VERSION :: u32 where
  "CURRENT_VERSION = 1"

text \<open>The loop \<^verbatim>\<open>for i in 0..12 { bytes.swap(i, 23 - i) }\<close>.\<close>

definition swap :: "nat \<Rightarrow> nat \<Rightarrow> bytes \<Rightarrow> bytes" where
  "swap i j bs = bs[i := bs ! j, j := bs ! i]"

definition convert_bluework_endianness :: "24 arr \<Rightarrow> 24 arr" where
  "convert_bluework_endianness b = of_list (fold (\<lambda>i. swap i (23 - i)) [0..<12] (list_of b))"

text \<open>One old key: it is deleted, and rewritten when the header of its block is known.\<close>

definition migrate_key :: "daa_index_key_v0 \<Rightarrow> db \<Rightarrow> db res" where
  "migrate_key old_key d =
     (let d1 = db_remove PDaaIndex (v0_key_bytes old_key) d in
      case get_compact_header (v0_block_hash old_key) d1 of
          Inl _ \<Rightarrow> Panics ''Get failed''
        | Inr None \<Rightarrow> Ok d1
        | Inr (Some h) \<Rightarrow>
            Ok (daa_index_insert (v0_daa_score old_key) (v0_block_hash old_key)
                  (convert_bluework_endianness (dch_blue_work h)) d1))"

text \<open>
  The reader: the keys up to the first one that is not a version 0 key. When there is such
  a key the reader stops with an error and its unfinished batch is never sent.
\<close>

definition reader_keys :: "bytes list \<Rightarrow> daa_index_key_v0 list" where
  "reader_keys ks = map (the \<circ> v0_key_from_bytes) (takeWhile (\<lambda>k. v0_key_from_bytes k \<noteq> None) ks)"

definition reader_ok :: "bytes list \<Rightarrow> bool" where
  "reader_ok ks \<longleftrightarrow> (\<forall>k \<in> set ks. v0_key_from_bytes k \<noteq> None)"

definition sent_keys :: "bytes list \<Rightarrow> daa_index_key_v0 list" where
  "sent_keys ks =
     (let good = reader_keys ks in
      if reader_ok ks then good else take (512 * (length good div 512)) good)"

definition migrate_v0_v1 ::
    "(daa_index_key_v0 list \<Rightarrow> daa_index_key_v0 list) \<Rightarrow> db \<Rightarrow> db \<times> unit res" where
  "migrate_v0_v1 sched d =
     (let ks = map fst (items (d PDaaIndex)) in
      case rfold migrate_key (sched (sent_keys ks)) d of
          Inl e \<Rightarrow> (d, Inl e)
        | Inr d1 \<Rightarrow>
            if reader_ok ks then (set_db_version 1 d1, Ok ())
            else (d1, Err ''Daa key v0 deserialization''))"

definition apply_migrations ::
    "(daa_index_key_v0 list \<Rightarrow> daa_index_key_v0 list) \<Rightarrow> db \<Rightarrow> db \<times> unit res" where
  "apply_migrations sched d =
     (case db_version d of
        Inl e \<Rightarrow> (d, Inl e)
      | Inr version \<Rightarrow>
          if version < CURRENT_VERSION then migrate_v0_v1 sched d else (d, Ok ()))"

section \<open>Lemmas\<close>

lemma length_v0_key_bytes [simp, codec_simps]: "length (v0_key_bytes k) = 40"
  by (simp add: v0_key_bytes_def)

interpretation v0: fixed_codec v0_key_bytes v0_key_from_bytes 40
proof
  fix bs :: bytes and k
  show "v0_key_from_bytes (v0_key_bytes k) = Some k"
    by (simp add: v0_key_from_bytes_def) (simp add: v0_key_bytes_def)
  show "v0_key_from_bytes bs = Some k \<Longrightarrow> v0_key_bytes k = bs"
    by (auto simp: v0_key_from_bytes_def v0_key_bytes_def split: if_splits)
  show "length bs = 40 \<Longrightarrow> v0_key_from_bytes bs \<noteq> None"
    by (simp add: v0_key_from_bytes_def)
qed simp

lemma v0_key_neq_daa_key [simp]: "v0_key_bytes k \<noteq> daa_key_bytes k'"
  by (metis length_v0_key_bytes length_daa_key_bytes numeral_eq_iff semiring_norm(87,88,89))

lemmas daa_key_neq_v0_key [simp] = v0_key_neq_daa_key [symmetric]

lemma swap_loop_rev:
  assumes "length bs = 24"
  shows "fold (\<lambda>i. swap i (23 - i)) [0..<12] bs = rev bs"
proof -
  obtain b0 b1 b2 b3 b4 b5 b6 b7 b8 b9 b10 b11 b12 b13 b14 b15 b16 b17 b18 b19 b20 b21 b22 b23
    where bs: "bs = [b0, b1, b2, b3, b4, b5, b6, b7, b8, b9, b10, b11,
      b12, b13, b14, b15, b16, b17, b18, b19, b20, b21, b22, b23]"
    using assms by (auto simp: numeral_eq_Suc length_Suc_conv)
  show ?thesis
    by (simp add: bs swap_def upt_rec numeral_nat)
qed

text \<open>The version 1 key that an old key becomes.\<close>

definition migrated :: "db \<Rightarrow> daa_index_key_v0 \<Rightarrow> daa_index_key option" where
  "migrated d k =
     (case get_compact_header (v0_block_hash k) d of
        Inr (Some h) \<Rightarrow> Some (make_key (v0_daa_score k) (v0_block_hash k)
          (convert_bluework_endianness (dch_blue_work h)))
      | _ \<Rightarrow> None)"

definition headers_readable :: "db \<Rightarrow> bool" where
  "headers_readable d \<longleftrightarrow> (\<forall>h. \<exists>v. get_compact_header h d = Ok v)"

lemma migrate_key_effect:
  assumes "headers_readable d"
  shows "\<exists>d'. migrate_key k d = Ok d' \<and> d' PBlockCompactHeader = d PBlockCompactHeader \<and>
    d' PMetadata = d PMetadata \<and>
    (\<forall>b. tget (d' PDaaIndex) b =
       (if migrated d k \<noteq> None \<and> b = daa_key_bytes (the (migrated d k)) then Some []
        else if b = v0_key_bytes k then None else tget (d PDaaIndex) b))"
proof -
  let ?d1 = "db_remove PDaaIndex (v0_key_bytes k) d"
  have same: "get_compact_header h ?d1 = get_compact_header h d" for h
    by (simp add: get_compact_header_def)
  from assms obtain v where v: "get_compact_header (v0_block_hash k) d = Ok v"
    by (auto simp: headers_readable_def)
  show ?thesis
    by (cases v) (auto simp: migrate_key_def Let_def same v migrated_def daa_index_insert_def)
qed

lemma migrated_cong:
  "d' PBlockCompactHeader = d PBlockCompactHeader \<Longrightarrow> migrated d' k = migrated d k"
  "d' PBlockCompactHeader = d PBlockCompactHeader \<Longrightarrow> headers_readable d' = headers_readable d"
  by (simp_all add: migrated_def headers_readable_def get_compact_header_def)

text \<open>The whole list, in whatever order: old keys go, their version 1 forms come.\<close>

lemma migrate_keys_effect:
  assumes "headers_readable d"
  shows "\<exists>d'. rfold migrate_key ks d = Ok d' \<and>
    d' PBlockCompactHeader = d PBlockCompactHeader \<and> d' PMetadata = d PMetadata \<and>
    (\<forall>b. tget (d' PDaaIndex) b =
       (if \<exists>k \<in> set ks. \<exists>k'. migrated d k = Some k' \<and> b = daa_key_bytes k' then Some []
        else if \<exists>k \<in> set ks. b = v0_key_bytes k then None else tget (d PDaaIndex) b))"
  using assms
proof (induction ks arbitrary: d)
  case (Cons k ks)
  from migrate_key_effect [OF Cons.prems, of k] obtain d1 where
    d1: "migrate_key k d = Ok d1" "d1 PBlockCompactHeader = d PBlockCompactHeader"
      "d1 PMetadata = d PMetadata"
      "\<And>b. tget (d1 PDaaIndex) b =
        (if migrated d k \<noteq> None \<and> b = daa_key_bytes (the (migrated d k)) then Some []
         else if b = v0_key_bytes k then None else tget (d PDaaIndex) b)"
    by auto
  have same: "migrated d1 k = migrated d k" for k
    by (rule migrated_cong(1)) (rule d1(2))
  have "headers_readable d1"
    using Cons.prems migrated_cong(2) [of d1 d] d1(2) by blast
  from Cons.IH [OF this] obtain d2 where
    d2: "rfold migrate_key ks d1 = Ok d2" "d2 PBlockCompactHeader = d1 PBlockCompactHeader"
      "d2 PMetadata = d1 PMetadata"
      "\<And>b. tget (d2 PDaaIndex) b =
       (if \<exists>k \<in> set ks. \<exists>k'. migrated d k = Some k' \<and> b = daa_key_bytes k' then Some []
        else if \<exists>k \<in> set ks. b = v0_key_bytes k then None else tget (d1 PDaaIndex) b)"
    unfolding same by blast
  show ?case
    by (rule exI [of _ d2]) (auto simp: d1 d2)
qed simp

section \<open>Properties\<close>

text \<open>
  C30. The migration from version 0: on a database whose DAA index holds version 0 keys and
  whose headers are readable, in whatever order the workers take the keys, it succeeds,
  records version 1, and leaves in the index exactly the version 1 keys of the old keys
  whose block has a header.
\<close>

theorem migrate_v0_v1_correct:
  assumes v0: "\<forall>k \<in> fst ` set (items (d PDaaIndex)). length k = 40"
    and hdr: "headers_readable d"
    and sched: "\<And>ks. set (sched ks) = set ks"
  shows "\<exists>d'. migrate_v0_v1 sched d = (d', Ok ()) \<and> db_version d' = Ok CURRENT_VERSION \<and>
    (\<forall>b. tget (d' PDaaIndex) b =
       (if \<exists>k k'. tget (d PDaaIndex) (v0_key_bytes k) \<noteq> None \<and> migrated d k = Some k' \<and>
          b = daa_key_bytes k' then Some [] else None))"
proof -
  let ?ks = "map fst (items (d PDaaIndex))"
  have ok: "reader_ok ?ks"
    using v0 v0.total by (auto simp: reader_ok_def)
  have all: "takeWhile (\<lambda>k. v0_key_from_bytes k \<noteq> None) ?ks = ?ks"
    using ok by (simp add: reader_ok_def takeWhile_eq_all_conv)
  have sent: "sent_keys ?ks = map (the \<circ> v0_key_from_bytes) ?ks"
    by (simp only: sent_keys_def reader_keys_def Let_def all ok if_True)
  have mem: "k \<in> set (sent_keys ?ks) \<longleftrightarrow> tget (d PDaaIndex) (v0_key_bytes k) \<noteq> None" for k
  proof -
    have "k \<in> set (sent_keys ?ks) \<longleftrightarrow> v0_key_bytes k \<in> set ?ks"
      unfolding sent using v0 v0.total v0.dec_iff
      by (auto simp: image_iff Bex_def) (metis option.collapse option.sel fst_conv)+
    then show ?thesis by (metis kv.entry_of_key list.set_map)
  qed
  obtain d1 where d1: "rfold migrate_key (sched (sent_keys ?ks)) d = Ok d1"
    "d1 PMetadata = d PMetadata"
    "\<And>b. tget (d1 PDaaIndex) b =
       (if \<exists>k \<in> set (sent_keys ?ks). \<exists>k'. migrated d k = Some k' \<and> b = daa_key_bytes k' then Some []
        else if \<exists>k \<in> set (sent_keys ?ks). b = v0_key_bytes k then None else tget (d PDaaIndex) b)"
    using migrate_keys_effect [OF hdr, of "sched (sent_keys ?ks)"]
    unfolding sched [of "sent_keys ?ks"] by blast
  have old: "tget (d PDaaIndex) b = None"
    if "\<nexists>k. tget (d PDaaIndex) (v0_key_bytes k) \<noteq> None \<and> b = v0_key_bytes k" for b
  proof (rule ccontr)
    assume b: "tget (d PDaaIndex) b \<noteq> None"
    then have "length b = 40" using v0 kv.entry_of_key by blast
    then obtain k where "b = v0_key_bytes k" by (metis v0.total v0.dec_iff not_None_eq)
    with b that show False by blast
  qed
  have "tget (set_db_version 1 d1 PDaaIndex) b =
      (if \<exists>k k'. tget (d PDaaIndex) (v0_key_bytes k) \<noteq> None \<and> migrated d k = Some k' \<and>
          b = daa_key_bytes k' then Some [] else None)" for b
    using old [of b] by (auto simp: set_db_version_def d1(3) Bex_def mem)
  moreover have "db_version (set_db_version 1 d1) = Ok CURRENT_VERSION"
    by (simp add: db_version_def set_db_version_def CURRENT_VERSION_def)
  ultimately show ?thesis
    by (simp add: migrate_v0_v1_def Let_def d1(1) ok)
qed


definition v0_example :: db where
  "v0_example =
     db_insert PDaaIndex (v0_key_bytes \<lparr>v0_daa_score = 5, v0_block_hash = of_list [1]\<rparr>) []
       (snd (insert_compact_header (of_list [1]) (of_list [9]) 5 (\<lambda>_. tempty)))"

lemma v0_example_readable: "headers_readable v0_example"
  by (auto simp: headers_readable_def get_compact_header_def v0_example_def
      insert_compact_header_def read_compact_header_def chdr.dec_enc)

theorem migrate_v0_v1_correct_witness:
  "\<exists>d'. migrate_v0_v1 rev v0_example = (d', Ok ()) \<and> db_version d' = Ok CURRENT_VERSION"
proof -
  have keys: "\<forall>k \<in> fst ` set (items (v0_example PDaaIndex)). length k = 40"
    by (simp add: v0_example_def db_insert_def insert_compact_header_def)
  show ?thesis
    using migrate_v0_v1_correct [OF keys v0_example_readable, of rev] by auto
qed

text \<open>
  The endianness conversion is the reversal of the 24 bytes, so the migrated key holds
  the same blue work that block processing writes into new keys.
\<close>

theorem convert_bluework_endianness_correct:
  "convert_bluework_endianness (of_list (to_le_bytes (w :: u192))) = of_list (to_be_bytes w)"
  by (simp add: convert_bluework_endianness_def swap_loop_rev to_le_bytes_def)

text \<open>
  The migration cannot be resumed: once a single old key has been rewritten and the
  process stops before the version is recorded, every later start fails, since the reader
  rejects the version 1 keys it finds.
\<close>

theorem interrupted_migration_blocks_restart:
  assumes "headers_readable d" and "db_version d = Ok version" and "version < CURRENT_VERSION"
    and "migrated d k = Some k'" and "migrate_key k d = Ok d'"
  shows "\<not> is_ok (snd (apply_migrations sched d'))"
proof -
  from migrate_key_effect [OF assms(1), of k] assms(4,5)
  have "tget (d' PDaaIndex) (daa_key_bytes k') = Some []" and "d' PMetadata = d PMetadata"
    by auto
  then have "daa_key_bytes k' \<in> set (map fst (items (d' PDaaIndex)))"
    by (metis kv.entry_of_key list.set_map option.distinct(1))
  then have "\<not> reader_ok (map fst (items (d' PDaaIndex)))"
    by (auto simp: reader_ok_def v0.dec_None_iff simp del: set_map intro!: bexI)
  moreover have "db_version d' = Ok version"
    using assms(2) \<open>d' PMetadata = d PMetadata\<close> by (simp add: db_version_def)
  ultimately show ?thesis
    using assms(3) by (auto simp: apply_migrations_def migrate_v0_v1_def Let_def split: sum.splits)
qed

theorem interrupted_migration_blocks_restart_witness:
  "\<exists>d'. migrate_key \<lparr>v0_daa_score = 5, v0_block_hash = of_list [1]\<rparr> v0_example = Ok d' \<and>
    \<not> is_ok (snd (apply_migrations id d'))"
proof -
  let ?k = "\<lparr>v0_daa_score = 5, v0_block_hash = of_list [1]\<rparr>"
  obtain d' where d': "migrate_key ?k v0_example = Ok d'"
    using migrate_key_effect [OF v0_example_readable, of ?k] by blast
  have m: "\<exists>k'. migrated v0_example ?k = Some k'"
    by (simp add: migrated_def get_compact_header_def v0_example_def insert_compact_header_def
        read_compact_header_def chdr.dec_enc)
  have v: "db_version v0_example = Ok 0"
    by (simp add: db_version_def v0_example_def insert_compact_header_def)
  show ?thesis
    using interrupted_migration_blocks_restart [OF v0_example_readable v _ _ d', of _ id] m d'
    by (auto simp: CURRENT_VERSION_def)
qed

end
