(* ===== verification/Acceptance.thy ===== *)
theory Acceptance
  imports Headers Addresses
begin

text \<open>
  The processing partitions of \<^verbatim>\<open>indexer-db/src/processing\<close>: what is known of the
  acceptance of every message transaction, together with the entries that wait for its
  sender; the tracked transactions of every accepting block; and the queue of pending sender
  resolutions.
\<close>

section \<open>Partition identifiers and entries\<close>

datatype partition_id =
    PidMetadata | PidBlockCompactHeaders | PidBlockDaaIndex | PidBlockGaps
  | PidHandshakeByReceiver | PidHandshakeBySender | PidTxIdToHandshake
  | PidContextualMessageBySender | PidPaymentByReceiver | PidPaymentBySender | PidTxIdToPayment
  | PidAcceptingBlockToTxIds | PidTxIdToAcceptance | PidPendingSenders
  | PidSelfStashByOwner | PidTxIDToSelfStash | PidSelfStashByScope
  | PidBoardPostById | PidBoardPostByCreatedAt | PidBoardClientGeneratedIdToPostId
  | PidBoardReplyByParentCreatedAt | PidBoardReactionByPostActorEmoji
  | PidBoardFollowByFollowerTarget | PidBoardFollowByTargetFollower

definition partition_ids :: "partition_id list" where
  "partition_ids =
     [PidMetadata, PidBlockCompactHeaders, PidBlockDaaIndex, PidBlockGaps,
      PidHandshakeByReceiver, PidHandshakeBySender, PidTxIdToHandshake,
      PidContextualMessageBySender, PidPaymentByReceiver, PidPaymentBySender, PidTxIdToPayment,
      PidAcceptingBlockToTxIds, PidTxIdToAcceptance, PidPendingSenders,
      PidSelfStashByOwner, PidTxIDToSelfStash, PidSelfStashByScope,
      PidBoardPostById, PidBoardPostByCreatedAt, PidBoardClientGeneratedIdToPostId,
      PidBoardReplyByParentCreatedAt, PidBoardReactionByPostActorEmoji,
      PidBoardFollowByFollowerTarget, PidBoardFollowByTargetFollower]"

text \<open>The discriminants are 1 to 24, in the order of the declaration.\<close>

fun partition_id_byte :: "partition_id \<Rightarrow> byte" where
  "partition_id_byte PidMetadata = 1"
| "partition_id_byte PidBlockCompactHeaders = 2"
| "partition_id_byte PidBlockDaaIndex = 3"
| "partition_id_byte PidBlockGaps = 4"
| "partition_id_byte PidHandshakeByReceiver = 5"
| "partition_id_byte PidHandshakeBySender = 6"
| "partition_id_byte PidTxIdToHandshake = 7"
| "partition_id_byte PidContextualMessageBySender = 8"
| "partition_id_byte PidPaymentByReceiver = 9"
| "partition_id_byte PidPaymentBySender = 10"
| "partition_id_byte PidTxIdToPayment = 11"
| "partition_id_byte PidAcceptingBlockToTxIds = 12"
| "partition_id_byte PidTxIdToAcceptance = 13"
| "partition_id_byte PidPendingSenders = 14"
| "partition_id_byte PidSelfStashByOwner = 15"
| "partition_id_byte PidTxIDToSelfStash = 16"
| "partition_id_byte PidSelfStashByScope = 17"
| "partition_id_byte PidBoardPostById = 18"
| "partition_id_byte PidBoardPostByCreatedAt = 19"
| "partition_id_byte PidBoardClientGeneratedIdToPostId = 20"
| "partition_id_byte PidBoardReplyByParentCreatedAt = 21"
| "partition_id_byte PidBoardReactionByPostActorEmoji = 22"
| "partition_id_byte PidBoardFollowByFollowerTarget = 23"
| "partition_id_byte PidBoardFollowByTargetFollower = 24"

definition partition_id_from_byte :: "byte \<Rightarrow> partition_id option" where
  "partition_id_from_byte b = List.find (\<lambda>p. partition_id_byte p = b) partition_ids"

datatype action = UpdateValueSender | InsertByKeySender

fun action_byte :: "action \<Rightarrow> byte" where
  "action_byte UpdateValueSender = 0"
| "action_byte InsertByKeySender = 1"

definition action_from_byte :: "byte \<Rightarrow> action option" where
  "action_from_byte b =
     (if b = 0 then Some UpdateValueSender else if b = 1 then Some InsertByKeySender else None)"

record insertion_entry =
  ie_partition_id :: partition_id
  ie_action :: action
  ie_partition_key :: bytes

definition entry_bytes :: "insertion_entry \<Rightarrow> bytes" where
  "entry_bytes e =
     partition_id_byte (ie_partition_id e) # action_byte (ie_action e) # ie_partition_key e"

section \<open>Keys and values\<close>

record acceptance_key =
  ak_tx_id :: hash
  ak_receiver :: address_payload

definition ak_bytes :: "acceptance_key \<Rightarrow> bytes" where
  "ak_bytes k = list_of (ak_tx_id k) @ addr_bytes (ak_receiver k)"

definition ak_from_bytes :: "bytes \<Rightarrow> acceptance_key option" where
  "ak_from_bytes bs =
     (if length bs = 66
      then Some \<lparr>ak_tx_id = of_list (take 32 bs), ak_receiver = addr_of (drop 32 bs)\<rparr>
      else None)"

record acceptance_value_header =
  accepting_block_hash :: hash
  accepting_daa :: u64

definition avh_bytes :: "acceptance_value_header \<Rightarrow> bytes" where
  "avh_bytes h = list_of (accepting_block_hash h) @ to_le_bytes (accepting_daa h)"

definition avh_from_bytes :: "bytes \<Rightarrow> acceptance_value_header option" where
  "avh_from_bytes bs =
     (if length bs = 40
      then Some \<lparr>accepting_block_hash = of_list (take 32 bs),
                 accepting_daa = from_le_bytes (drop 32 bs)\<rparr>
      else None)"

definition avh_zeroed :: acceptance_value_header where
  "avh_zeroed = \<lparr>accepting_block_hash = of_list [], accepting_daa = 0\<rparr>"

datatype lookup_output = KeyDoesNotExist | KeyExistsNoEntries | KeysExistsWithEntries

section \<open>Acceptance by transaction\<close>

definition acceptance_insert_wtx :: "acceptance_key \<Rightarrow> insertion_entry list \<Rightarrow> wtx \<Rightarrow> wtx" where
  "acceptance_insert_wtx k entries w =
     snd (wtx_fetch_update PTxIdToAcceptance (ak_bytes k)
       (\<lambda>old_value. case old_value of
           None \<Rightarrow> Some (avh_bytes avh_zeroed @ concat (map entry_bytes entries))
         | Some old \<Rightarrow> Some (old @ concat (map entry_bytes entries))) w)"

definition acceptance_remove_wtx :: "acceptance_key \<Rightarrow> wtx \<Rightarrow> wtx" where
  "acceptance_remove_wtx k w = wtx_remove PTxIdToAcceptance (ak_bytes k) w"

text \<open>The prefix scan stops at a second entry with an assertion.\<close>

definition single_key :: "(bytes \<times> bytes) list \<Rightarrow> acceptance_key option res" where
  "single_key es = (case es of
       [] \<Rightarrow> Ok None
     | [(k, _)] \<Rightarrow> rbind (deref ak_from_bytes k) (\<lambda>key. Ok (Some key))
     | _ \<Rightarrow> Panics ''we should not have more than one entry'')"

definition key_by_tx_id :: "hash \<Rightarrow> db \<Rightarrow> acceptance_key option res" where
  "key_by_tx_id tx_id d = single_key (tprefix (list_of tx_id) (d PTxIdToAcceptance))"

definition key_by_tx_id_rtx :: "hash \<Rightarrow> db \<Rightarrow> acceptance_key option res" where
  "key_by_tx_id_rtx tx_id rtx = single_key (tprefix (list_of tx_id) (rtx PTxIdToAcceptance))"

definition update_acceptance_wtx ::
    "acceptance_key \<Rightarrow> hash \<Rightarrow> u64 \<Rightarrow> wtx \<Rightarrow> (lookup_output \<times> wtx) res" where
  "update_acceptance_wtx k block_hash acceptance_daa w =
     (case wtx_get PTxIdToAcceptance (ak_bytes k) w of
        None \<Rightarrow> Ok (KeyDoesNotExist, wtx_write (PTxIdToAcceptance, ak_bytes k, None) w)
      | Some old \<Rightarrow>
          if length old < 40 then Panics ''range start index out of range''
          else
            let h = \<lparr>accepting_block_hash = block_hash, accepting_daa = acceptance_daa\<rparr>;
                w' = wtx_write (PTxIdToAcceptance, ak_bytes k, Some (avh_bytes h @ drop 40 old)) w
            in Ok (if length old > 40 then KeysExistsWithEntries else KeyExistsNoEntries, w'))"

text \<open>One round of the loop over the entries: the next entry and the bytes after it.\<close>

definition next_entry ::
    "(partition_id \<Rightarrow> nat res) \<Rightarrow> bytes \<Rightarrow> (insertion_entry \<times> bytes) res" where
  "next_entry key_len_fn entries =
     (case partition_id_from_byte (hd entries) of
        None \<Rightarrow> Err ''Invalid partition id''
      | Some pid \<Rightarrow>
          rbind (key_len_fn pid) (\<lambda>key_len.
            if length entries < 2 then Panics ''range end index out of range''
            else case action_from_byte (entries ! 1) of
                None \<Rightarrow> Err ''Invalid action''
              | Some act \<Rightarrow>
                  if length entries < 2 + key_len then Panics ''range end index out of range''
                  else Ok (\<lparr>ie_partition_id = pid, ie_action = act,
                            ie_partition_key = take key_len (drop 2 entries)\<rparr>,
                           drop (2 + key_len) entries)))"

lemma next_entry_shorter:
  "next_entry kl bs = Ok (e, rest) \<Longrightarrow> length rest < length bs"
  by (auto simp: next_entry_def split: option.splits if_splits)

function resolve_loop ::
    "(partition_id \<Rightarrow> nat res) \<Rightarrow> (insertion_entry \<Rightarrow> wtx \<Rightarrow> wtx res) \<Rightarrow> bytes \<Rightarrow> wtx \<Rightarrow> wtx res"
  where
  "resolve_loop kl cb entries w =
     (if entries = [] then Ok w
      else case next_entry kl entries of
          Inl e \<Rightarrow> Inl e
        | Inr (e, rest) \<Rightarrow> (case cb e w of Inl f \<Rightarrow> Inl f | Inr w' \<Rightarrow> resolve_loop kl cb rest w'))"
  by pat_completeness auto
termination
  by (relation "measure (\<lambda>(_, _, entries, _). length entries)")
    (auto dest: next_entry_shorter)

declare resolve_loop.simps [simp del]

definition resolve_entries_wtx ::
    "acceptance_key \<Rightarrow> (partition_id \<Rightarrow> nat res) \<Rightarrow> (insertion_entry \<Rightarrow> wtx \<Rightarrow> wtx res) \<Rightarrow>
     wtx \<Rightarrow> (bool \<times> wtx) res" where
  "resolve_entries_wtx k key_len_fn entry_cb_fn w =
     (case wtx_get PTxIdToAcceptance (ak_bytes k) w of
        None \<Rightarrow> Ok (False, wtx_write (PTxIdToAcceptance, ak_bytes k, None) w)
      | Some old \<Rightarrow>
          if length old < 40 then Panics ''range end index out of range''
          else rbind (resolve_loop key_len_fn entry_cb_fn (drop 40 old)
                        (wtx_write (PTxIdToAcceptance, ak_bytes k, Some (take 40 old)) w))
                 (\<lambda>w'. Ok (True, w')))"

text \<open>The zeroed header stands for a transaction that is not accepted.\<close>

definition acceptance_by_tx_id_rtx :: "hash \<Rightarrow> db \<Rightarrow> acceptance_value_header option res" where
  "acceptance_by_tx_id_rtx tx_id rtx =
     (case tprefix (list_of tx_id) (rtx PTxIdToAcceptance) of
        [] \<Rightarrow> Ok None
      | e # others \<Rightarrow>
          rbind (deref avh_from_bytes (take 40 (snd e))) (\<lambda>header.
            if others \<noteq> [] then Panics ''we should not have more than one entry''
            else Ok (if header = avh_zeroed then None else Some header)))"

section \<open>Transactions by accepting block\<close>

definition accepting_block_insert_wtx :: "hash \<Rightarrow> hash list \<Rightarrow> wtx \<Rightarrow> wtx" where
  "accepting_block_insert_wtx block tx_ids w =
     wtx_insert PAcceptingBlockToTxId (list_of block) (concat (map list_of tx_ids)) w"

text \<open>Reading a value as a slice of 32-byte arrays.\<close>

function hashes_of :: "bytes \<Rightarrow> hash list option" where
  "hashes_of bs =
     (if bs = [] then Some []
      else if length bs < 32 then None
      else map_option ((#) (of_list (take 32 bs))) (hashes_of (drop 32 bs)))"
  by pat_completeness auto
termination
  by (relation "measure length") (auto simp: not_less)

declare hashes_of.simps [simp del]

definition accepting_block_remove_wtx :: "hash \<Rightarrow> wtx \<Rightarrow> bytes option \<times> wtx" where
  "accepting_block_remove_wtx block w =
     wtx_fetch_update PAcceptingBlockToTxId (list_of block) (\<lambda>_. None) w"

definition accepting_block_remove :: "hash \<Rightarrow> db \<Rightarrow> db" where
  "accepting_block_remove block d = db_remove PAcceptingBlockToTxId (list_of block) d"

section \<open>Pending sender resolutions\<close>

record pending_resolution_key =
  pr_accepting_daa_score :: u64
  pr_tx_id :: hash

definition pr_bytes :: "pending_resolution_key \<Rightarrow> bytes" where
  "pr_bytes k = to_be_bytes (pr_accepting_daa_score k) @ list_of (pr_tx_id k)"

definition pr_from_bytes :: "bytes \<Rightarrow> pending_resolution_key option" where
  "pr_from_bytes bs =
     (if length bs = 40
      then Some \<lparr>pr_accepting_daa_score = from_be_bytes (take 8 bs), pr_tx_id = of_list (drop 8 bs)\<rparr>
      else None)"

definition pending_insert_wtx :: "pending_resolution_key \<Rightarrow> wtx \<Rightarrow> wtx" where
  "pending_insert_wtx k w = wtx_insert PPendingSenderResolution (pr_bytes k) [] w"

definition pending_remove_wtx :: "pending_resolution_key \<Rightarrow> wtx \<Rightarrow> wtx" where
  "pending_remove_wtx k w = wtx_remove PPendingSenderResolution (pr_bytes k) w"

definition pending_remove :: "pending_resolution_key \<Rightarrow> db \<Rightarrow> db" where
  "pending_remove k d = db_remove PPendingSenderResolution (pr_bytes k) d"

definition get_all_pending :: "db \<Rightarrow> pending_resolution_key res list" where
  "get_all_pending d = map (deref pr_from_bytes \<circ> fst) (items (d PPendingSenderResolution))"

definition pending_len :: "db \<Rightarrow> nat" where
  "pending_len d = length (items (d PPendingSenderResolution))"

definition pending_is_empty :: "db \<Rightarrow> bool" where
  "pending_is_empty d \<longleftrightarrow> items (d PPendingSenderResolution) = []"

section \<open>Lemmas\<close>

lemma partition_id_roundtrip [simp]: "partition_id_from_byte (partition_id_byte p) = Some p"
  by (cases p) (simp_all add: partition_id_from_byte_def partition_ids_def)

lemma action_roundtrip [simp]: "action_from_byte (action_byte a) = Some a"
  by (cases a) (simp_all add: action_from_byte_def)

lemma length_ak_bytes [simp, codec_simps]: "length (ak_bytes k) = 66"
  by (simp add: ak_bytes_def)

interpretation ak: fixed_codec ak_bytes ak_from_bytes 66
proof
  fix bs :: bytes and k
  show "ak_from_bytes (ak_bytes k) = Some k"
    by (simp add: ak_from_bytes_def) (simp add: ak_bytes_def)
  show "ak_from_bytes bs = Some k \<Longrightarrow> ak_bytes k = bs"
    by (auto simp: ak_from_bytes_def ak_bytes_def split: if_splits)
  show "length bs = 66 \<Longrightarrow> ak_from_bytes bs \<noteq> None"
    by (simp add: ak_from_bytes_def)
qed simp

lemma length_avh_bytes [simp, codec_simps]: "length (avh_bytes h) = 40"
  by (simp add: avh_bytes_def)

interpretation avh: fixed_codec avh_bytes avh_from_bytes 40
proof
  fix bs :: bytes and h
  show "avh_from_bytes (avh_bytes h) = Some h"
    by (simp add: avh_from_bytes_def) (simp add: avh_bytes_def)
  show "avh_from_bytes bs = Some h \<Longrightarrow> avh_bytes h = bs"
    by (auto simp: avh_from_bytes_def avh_bytes_def split: if_splits)
  show "length bs = 40 \<Longrightarrow> avh_from_bytes bs \<noteq> None"
    by (simp add: avh_from_bytes_def)
qed simp

lemma length_pr_bytes [simp, codec_simps]: "length (pr_bytes k) = 40"
  by (simp add: pr_bytes_def)

interpretation pr: fixed_codec pr_bytes pr_from_bytes 40
proof
  fix bs :: bytes and k
  show "pr_from_bytes (pr_bytes k) = Some k"
    by (simp add: pr_from_bytes_def) (simp add: pr_bytes_def)
  show "pr_from_bytes bs = Some k \<Longrightarrow> pr_bytes k = bs"
    by (auto simp: pr_from_bytes_def pr_bytes_def split: if_splits)
  show "length bs = 40 \<Longrightarrow> pr_from_bytes bs \<noteq> None"
    by (simp add: pr_from_bytes_def)
qed simp

lemmas acceptance_deref [simp] = ak.deref_enc avh.deref_enc pr.deref_enc

lemma hashes_of_concat [simp]: "hashes_of (concat (map list_of hs)) = Some hs"
proof (induction hs)
  case (Cons h hs)
  have "list_of h \<noteq> []"
    using length_list_of [of h] by (metis len_gt_0 length_0_conv less_numeral_extra(3))
  with Cons show ?case by (subst hashes_of.simps) simp
qed (simp add: hashes_of.simps)

text \<open>Entries are read back as they were written.\<close>

definition sized_entry :: "(partition_id \<Rightarrow> nat res) \<Rightarrow> insertion_entry \<Rightarrow> bool" where
  "sized_entry kl e \<longleftrightarrow> kl (ie_partition_id e) = Ok (length (ie_partition_key e))"

lemma next_entry_bytes:
  "sized_entry kl e \<Longrightarrow> next_entry kl (entry_bytes e @ rest) = Ok (e, rest)"
  by (simp add: next_entry_def entry_bytes_def sized_entry_def)

lemma resolve_loop_concat:
  assumes "\<forall>e \<in> set es. sized_entry kl e"
  shows "resolve_loop kl cb (concat (map entry_bytes es)) w = rfold cb es w"
  using assms
proof (induction es arbitrary: w)
  case (Cons e es)
  then have "resolve_loop kl cb (entry_bytes e @ concat (map entry_bytes es)) w =
      (case cb e w of Inl f \<Rightarrow> Inl f | Inr w' \<Rightarrow> resolve_loop kl cb (concat (map entry_bytes es)) w')"
    by (subst resolve_loop.simps) (simp add: next_entry_bytes, simp add: entry_bytes_def)
  with Cons show ?case by (simp add: rbind_def split: sum.split)
qed (simp add: resolve_loop.simps)

text \<open>
  The acceptance partition is well formed when every key is a full key, no transaction has
  two keys, and every value is a header followed by entries.
\<close>

definition acceptance_value :: "acceptance_value_header \<Rightarrow> insertion_entry list \<Rightarrow> bytes" where
  "acceptance_value h es = avh_bytes h @ concat (map entry_bytes es)"

definition stored_acceptance ::
    "acceptance_key \<Rightarrow> acceptance_value_header \<Rightarrow> insertion_entry list \<Rightarrow> db \<Rightarrow> bool" where
  "stored_acceptance k h es d \<longleftrightarrow>
     tget (d PTxIdToAcceptance) (ak_bytes k) = Some (acceptance_value h es)"

definition wf_acceptance :: "(partition_id \<Rightarrow> nat res) \<Rightarrow> db \<Rightarrow> bool" where
  "wf_acceptance kl d \<longleftrightarrow>
     (\<forall>b v. tget (d PTxIdToAcceptance) b = Some v \<longrightarrow>
        (\<exists>k h es. b = ak_bytes k \<and> v = acceptance_value h es \<and> (\<forall>e \<in> set es. sized_entry kl e))) \<and>
     (\<forall>k k'. tget (d PTxIdToAcceptance) (ak_bytes k) \<noteq> None \<longrightarrow>
        tget (d PTxIdToAcceptance) (ak_bytes k') \<noteq> None \<longrightarrow> ak_tx_id k = ak_tx_id k' \<longrightarrow> k = k')"

lemma acceptance_value_simps [simp]:
  "take 40 (acceptance_value h es) = avh_bytes h"
  "drop 40 (acceptance_value h es) = concat (map entry_bytes es)"
  "\<not> length (acceptance_value h es) < 40"
  "length (acceptance_value h es) = 40 \<longleftrightarrow> es = []"
  "length (acceptance_value h es) > 40 \<longleftrightarrow> es \<noteq> []"
  "acceptance_value h [] = avh_bytes h"
  "acceptance_value h es @ concat (map entry_bytes es') = acceptance_value h (es @ es')"
  by (auto simp: acceptance_value_def entry_bytes_def neq_Nil_conv)

lemma wf_acceptance_entry:
  assumes "wf_acceptance kl d" and "tget (d PTxIdToAcceptance) (ak_bytes k) = Some v"
  shows "\<exists>h es. stored_acceptance k h es d \<and> v = acceptance_value h es \<and> (\<forall>e \<in> set es. sized_entry kl e)"
  using assms unfolding wf_acceptance_def stored_acceptance_def by metis

lemma prefix_ak_bytes [simp]: "prefix (list_of t) (ak_bytes k) \<longleftrightarrow> ak_tx_id k = t"
proof
  assume "prefix (list_of t) (ak_bytes k)"
  then show "ak_tx_id k = t"
    by (auto simp: prefix_def ak_bytes_def append_eq_append_conv)
qed (auto simp: ak_bytes_def)

lemma acceptance_scan:
  assumes wf: "wf_acceptance kl d"
  shows "tprefix (list_of t) (d PTxIdToAcceptance) = [] \<and>
      (\<forall>k. ak_tx_id k = t \<longrightarrow> tget (d PTxIdToAcceptance) (ak_bytes k) = None) \<or>
    (\<exists>k v. tprefix (list_of t) (d PTxIdToAcceptance) = [(ak_bytes k, v)] \<and> ak_tx_id k = t \<and>
      tget (d PTxIdToAcceptance) (ak_bytes k) = Some v)"
proof (cases "\<exists>k v. ak_tx_id k = t \<and> tget (d PTxIdToAcceptance) (ak_bytes k) = Some v")
  case True
  then obtain k v where k: "ak_tx_id k = t" "tget (d PTxIdToAcceptance) (ak_bytes k) = Some v"
    by blast
  have "tprefix (list_of t) (d PTxIdToAcceptance) = [(ak_bytes k, v)]"
    unfolding tprefix_def
  proof (rule kv.scan_single)
    fix b v'
    assume b: "tget (d PTxIdToAcceptance) b = Some v'" and "prefix (list_of t) (fst (b, v'))"
    from wf b obtain k' where "b = ak_bytes k'" unfolding wf_acceptance_def by blast
    with b k wf \<open>prefix (list_of t) (fst (b, v'))\<close> show "b = ak_bytes k"
      unfolding wf_acceptance_def by (metis fst_conv option.distinct(1) prefix_ak_bytes)
  qed (use k in auto)
  with k show ?thesis by blast
next
  case False
  have "tprefix (list_of t) (d PTxIdToAcceptance) = []"
    unfolding tprefix_def
  proof (rule kv.scan_empty)
    fix b v
    assume b: "tget (d PTxIdToAcceptance) b = Some v"
    with wf obtain k where "b = ak_bytes k" unfolding wf_acceptance_def by blast
    with False b show "\<not> prefix (list_of t) (fst (b, v))" by auto
  qed
  with False show ?thesis by (metis not_None_eq)
qed

lemma key_by_tx_id_Some:
  assumes "wf_acceptance kl d" and "tget (d PTxIdToAcceptance) (ak_bytes k) \<noteq> None"
  shows "key_by_tx_id (ak_tx_id k) d = Ok (Some k)"
proof -
  obtain k' v where "tprefix (list_of (ak_tx_id k)) (d PTxIdToAcceptance) = [(ak_bytes k', v)]"
    and k': "ak_tx_id k' = ak_tx_id k" "tget (d PTxIdToAcceptance) (ak_bytes k') = Some v"
    using acceptance_scan [OF assms(1), of "ak_tx_id k"] assms(2) by metis
  moreover from k' assms have "k' = k"
    unfolding wf_acceptance_def by (metis option.distinct(1))
  ultimately show ?thesis
    by (simp add: key_by_tx_id_def single_key_def)
qed

lemma key_by_tx_id_cases:
  assumes "wf_acceptance kl d"
  obtains "key_by_tx_id t d = Ok None"
      "\<forall>k. ak_tx_id k = t \<longrightarrow> tget (d PTxIdToAcceptance) (ak_bytes k) = None"
    | k where "key_by_tx_id t d = Ok (Some k)" "ak_tx_id k = t"
      "tget (d PTxIdToAcceptance) (ak_bytes k) \<noteq> None"
  using acceptance_scan [OF assms, of t]
  by (auto simp: key_by_tx_id_def single_key_def)

text \<open>Operations on stored acceptance values.\<close>

lemma view_acceptance_insert:
  "view (acceptance_insert_wtx k es w) =
     db_insert PTxIdToAcceptance (ak_bytes k)
       (case tget (view w PTxIdToAcceptance) (ak_bytes k) of
          None \<Rightarrow> acceptance_value avh_zeroed es
        | Some old \<Rightarrow> old @ concat (map entry_bytes es)) (view w)"
  by (simp add: acceptance_insert_wtx_def db_insert_def acceptance_value_def split: option.split)

lemma snapshot_acceptance_insert: "snapshot (acceptance_insert_wtx k es w) = snapshot w"
  by (simp add: acceptance_insert_wtx_def)

lemma resolve_entries_stored:
  assumes "stored_acceptance k hdr es (view w)" and "\<forall>e \<in> set es. sized_entry kl e"
  shows "resolve_entries_wtx k kl cb w =
    rbind (rfold cb es (wtx_insert PTxIdToAcceptance (ak_bytes k) (avh_bytes hdr) w)) (\<lambda>w'. Ok (True, w'))"
  using assms
  by (simp add: resolve_entries_wtx_def stored_acceptance_def wtx_get_def wtx_insert_def resolve_loop_concat)

lemma wf_acceptance_register:
  assumes wf: "wf_acceptance kl d" and fresh: "\<And>k'. ak_tx_id k' = ak_tx_id k \<Longrightarrow> tget (d PTxIdToAcceptance) (ak_bytes k') = None"
    and sized: "\<forall>e \<in> set es. sized_entry kl e"
    and d': "d' PTxIdToAcceptance = tput (ak_bytes k) (acceptance_value hdr es) (d PTxIdToAcceptance)"
  shows "wf_acceptance kl d'"
  unfolding wf_acceptance_def d'
proof (intro conjI allI impI)
  fix b v
  assume "tget (tput (ak_bytes k) (acceptance_value hdr es) (d PTxIdToAcceptance)) b = Some v"
  then show "\<exists>k h es. b = ak_bytes k \<and> v = acceptance_value h es \<and> (\<forall>e \<in> set es. sized_entry kl e)"
    using wf sized unfolding wf_acceptance_def by (auto split: if_splits)
next
  fix k1 k2
  assume "tget (tput (ak_bytes k) (acceptance_value hdr es) (d PTxIdToAcceptance)) (ak_bytes k1) \<noteq> None"
    and "tget (tput (ak_bytes k) (acceptance_value hdr es) (d PTxIdToAcceptance)) (ak_bytes k2) \<noteq> None"
    and "ak_tx_id k1 = ak_tx_id k2"
  then show "k1 = k2"
    using wf fresh [of k1] fresh [of k2] unfolding wf_acceptance_def
    by (auto simp: ak.enc_inject split: if_splits)
qed

end
