(* ===== verification/Messages.thy ===== *)
theory Messages
  imports Acceptance
begin

text \<open>
  The message partitions of \<^verbatim>\<open>indexer-db/src/messages\<close>: for every kind of message the
  indexes by which the API looks messages up and the sealed payloads by transaction. Each
  index key starts with what is searched for, then the big-endian block time, so that a range
  scan yields the messages of a party from a time on in the order of time; the instances of
  \<open>time_index\<close> below are these layouts.
\<close>

section \<open>Senders\<close>

definition unwrap_or_default :: "address_payload option \<Rightarrow> address_payload" where
  "unwrap_or_default a = (case a of None \<Rightarrow> address_default | Some s \<Rightarrow> s)"

text \<open>
  The update of a by-receiver value: an empty sender is overwritten, a known one is kept. A
  stored value that is not an address panics.
\<close>

definition keep_known_sender :: "address_payload \<Rightarrow> bytes option \<Rightarrow> bytes res" where
  "keep_known_sender sender old = (case old of
       None \<Rightarrow> Ok (addr_bytes sender)
     | Some v \<Rightarrow> (case addr_from_bytes v of
           None \<Rightarrow> Panics ''called unwrap on an Err value''
         | Some old_sender \<Rightarrow>
             if old_sender \<noteq> address_default then Ok v else Ok (addr_bytes sender)))"

section \<open>Handshakes\<close>

record handshake_key_by_sender =
  hks_sender :: address_payload
  hks_block_time :: u64
  hks_block_hash :: hash
  hks_receiver :: address_payload
  hks_version :: byte
  hks_tx_id :: hash

definition hks_bytes :: "handshake_key_by_sender \<Rightarrow> bytes" where
  "hks_bytes k =
     addr_bytes (hks_sender k) @ to_be_bytes (hks_block_time k) @ list_of (hks_block_hash k) @
     addr_bytes (hks_receiver k) @ [hks_version k] @ list_of (hks_tx_id k)"

definition hks_from_bytes :: "bytes \<Rightarrow> handshake_key_by_sender option" where
  "hks_from_bytes bs =
     (if length bs = 141
      then Some \<lparr>hks_sender = addr_of (take 34 bs),
        hks_block_time = from_be_bytes (take 8 (drop 34 bs)),
        hks_block_hash = of_list (take 32 (drop 42 bs)),
        hks_receiver = addr_of (take 34 (drop 74 bs)),
        hks_version = bs ! 108,
        hks_tx_id = of_list (drop 109 bs)\<rparr>
      else None)"

definition handshake_by_sender_iter :: "db \<Rightarrow> handshake_key_by_sender res list" where
  "handshake_by_sender_iter d = map (deref hks_from_bytes \<circ> fst) (items (d PHandshakeBySender))"

definition handshake_by_sender_insert_wtx :: "handshake_key_by_sender \<Rightarrow> wtx \<Rightarrow> wtx" where
  "handshake_by_sender_insert_wtx key w = wtx_insert PHandshakeBySender (hks_bytes key) [] w"

definition iter_by_sender_from_block_time_rtx ::
    "db \<Rightarrow> address_payload \<Rightarrow> u64 \<Rightarrow> handshake_key_by_sender res list" where
  "iter_by_sender_from_block_time_rtx rtx sender block_time =
     map (deref hks_from_bytes \<circ> fst) (scan_from (addr_bytes sender) block_time (rtx PHandshakeBySender))"

record handshake_key_by_receiver =
  hkr_receiver :: address_payload
  hkr_block_time :: u64
  hkr_block_hash :: hash
  hkr_version :: byte
  hkr_tx_id :: hash

definition hkr_bytes :: "handshake_key_by_receiver \<Rightarrow> bytes" where
  "hkr_bytes k =
     addr_bytes (hkr_receiver k) @ to_be_bytes (hkr_block_time k) @ list_of (hkr_block_hash k) @
     [hkr_version k] @ list_of (hkr_tx_id k)"

definition hkr_from_bytes :: "bytes \<Rightarrow> handshake_key_by_receiver option" where
  "hkr_from_bytes bs =
     (if length bs = 107
      then Some \<lparr>hkr_receiver = addr_of (take 34 bs),
        hkr_block_time = from_be_bytes (take 8 (drop 34 bs)),
        hkr_block_hash = of_list (take 32 (drop 42 bs)),
        hkr_version = bs ! 74,
        hkr_tx_id = of_list (drop 75 bs)\<rparr>
      else None)"

definition handshake_by_receiver_insert_wtx ::
    "handshake_key_by_receiver \<Rightarrow> address_payload option \<Rightarrow> wtx \<Rightarrow> wtx res" where
  "handshake_by_receiver_insert_wtx key sender w =
     rbind (keep_known_sender (unwrap_or_default sender) (wtx_get PHandshakeByReceiver (hkr_bytes key) w))
       (\<lambda>v. Ok (wtx_insert PHandshakeByReceiver (hkr_bytes key) v w))"

definition iter_by_receiver_from_block_time_rtx ::
    "db \<Rightarrow> address_payload \<Rightarrow> u64 \<Rightarrow> (handshake_key_by_receiver \<times> address_payload) res list" where
  "iter_by_receiver_from_block_time_rtx rtx receiver block_time =
     map (\<lambda>(k, v). rbind (deref hkr_from_bytes k) (\<lambda>key.
            rbind (deref addr_from_bytes v) (\<lambda>sender. Ok (key, sender))))
       (scan_from (addr_bytes receiver) block_time (rtx PHandshakeByReceiver))"

definition handshake_by_receiver_iter ::
    "db \<Rightarrow> (handshake_key_by_receiver \<times> address_payload) res list" where
  "handshake_by_receiver_iter d =
     map (\<lambda>(k, v). rbind (deref hkr_from_bytes k) (\<lambda>key.
            rbind (deref addr_from_bytes v) (\<lambda>sender. Ok (key, sender))))
       (items (d PHandshakeByReceiver))"

definition tx_id_to_handshake_insert :: "hash \<Rightarrow> bytes \<Rightarrow> db \<Rightarrow> db" where
  "tx_id_to_handshake_insert tx_id sealed_hex d = db_insert PTxIdToHandshake (list_of tx_id) sealed_hex d"

definition tx_id_to_handshake_insert_wtx :: "hash \<Rightarrow> bytes \<Rightarrow> wtx \<Rightarrow> wtx" where
  "tx_id_to_handshake_insert_wtx tx_id sealed_hex w =
     wtx_insert PTxIdToHandshake (list_of tx_id) sealed_hex w"

definition tx_id_to_handshake_get_rtx :: "db \<Rightarrow> hash \<Rightarrow> bytes option" where
  "tx_id_to_handshake_get_rtx rtx tx_id = tget (rtx PTxIdToHandshake) (list_of tx_id)"

definition tx_id_to_handshake_len :: "db \<Rightarrow> nat" where
  "tx_id_to_handshake_len d = length (items (d PTxIdToHandshake))"

section \<open>Payments\<close>

record payment_key_by_sender =
  pks_sender :: address_payload
  pks_block_time :: u64
  pks_block_hash :: hash
  pks_receiver :: address_payload
  pks_version :: byte
  pks_tx_id :: hash

definition pks_bytes :: "payment_key_by_sender \<Rightarrow> bytes" where
  "pks_bytes k =
     addr_bytes (pks_sender k) @ to_be_bytes (pks_block_time k) @ list_of (pks_block_hash k) @
     addr_bytes (pks_receiver k) @ [pks_version k] @ list_of (pks_tx_id k)"

definition pks_from_bytes :: "bytes \<Rightarrow> payment_key_by_sender option" where
  "pks_from_bytes bs =
     (if length bs = 141
      then Some \<lparr>pks_sender = addr_of (take 34 bs),
        pks_block_time = from_be_bytes (take 8 (drop 34 bs)),
        pks_block_hash = of_list (take 32 (drop 42 bs)),
        pks_receiver = addr_of (take 34 (drop 74 bs)),
        pks_version = bs ! 108,
        pks_tx_id = of_list (drop 109 bs)\<rparr>
      else None)"

definition payment_by_sender_insert_wtx :: "payment_key_by_sender \<Rightarrow> wtx \<Rightarrow> wtx" where
  "payment_by_sender_insert_wtx key w = wtx_insert PPaymentBySender (pks_bytes key) [] w"

definition get_by_sender_from_block_time ::
    "db \<Rightarrow> address_payload \<Rightarrow> u64 \<Rightarrow> payment_key_by_sender res list" where
  "get_by_sender_from_block_time rtx sender from_block_time =
     map (deref pks_from_bytes \<circ> fst)
       (scan_from (addr_bytes sender) from_block_time (rtx PPaymentBySender))"

record payment_key_by_receiver =
  pkr_receiver :: address_payload
  pkr_block_time :: u64
  pkr_block_hash :: hash
  pkr_version :: byte
  pkr_tx_id :: hash

definition pkr_bytes :: "payment_key_by_receiver \<Rightarrow> bytes" where
  "pkr_bytes k =
     addr_bytes (pkr_receiver k) @ to_be_bytes (pkr_block_time k) @ list_of (pkr_block_hash k) @
     [pkr_version k] @ list_of (pkr_tx_id k)"

definition pkr_from_bytes :: "bytes \<Rightarrow> payment_key_by_receiver option" where
  "pkr_from_bytes bs =
     (if length bs = 107
      then Some \<lparr>pkr_receiver = addr_of (take 34 bs),
        pkr_block_time = from_be_bytes (take 8 (drop 34 bs)),
        pkr_block_hash = of_list (take 32 (drop 42 bs)),
        pkr_version = bs ! 74,
        pkr_tx_id = of_list (drop 75 bs)\<rparr>
      else None)"

definition payment_by_receiver_insert_wtx ::
    "payment_key_by_receiver \<Rightarrow> address_payload option \<Rightarrow> wtx \<Rightarrow> wtx res" where
  "payment_by_receiver_insert_wtx key sender w =
     rbind (keep_known_sender (unwrap_or_default sender) (wtx_get PPaymentByReceiver (pkr_bytes key) w))
       (\<lambda>v. Ok (wtx_insert PPaymentByReceiver (pkr_bytes key) v w))"

definition get_by_receiver_from_block_time ::
    "db \<Rightarrow> address_payload \<Rightarrow> u64 \<Rightarrow> (payment_key_by_receiver \<times> address_payload) res list" where
  "get_by_receiver_from_block_time rtx receiver from_block_time =
     map (\<lambda>(k, v). rbind (deref pkr_from_bytes k) (\<lambda>key.
            rbind (deref addr_from_bytes v) (\<lambda>sender. Ok (key, sender))))
       (scan_from (addr_bytes receiver) from_block_time (rtx PPaymentByReceiver))"

text \<open>The value of a payment: the amount and then the sealed payload.\<close>

definition payment_amount :: "bytes \<Rightarrow> u64 res" where
  "payment_amount v = (if length v < 8 then Panics ''mid > len'' else Ok (from_le_bytes (take 8 v)))"

definition payment_sealed_hex :: "bytes \<Rightarrow> bytes res" where
  "payment_sealed_hex v = (if length v < 8 then Panics ''mid > len'' else Ok (drop 8 v))"

definition tx_id_to_payment_insert_wtx :: "hash \<Rightarrow> u64 \<Rightarrow> bytes \<Rightarrow> wtx \<Rightarrow> wtx" where
  "tx_id_to_payment_insert_wtx tx_id amount sealed_hex w =
     wtx_insert PTxIdToPayment (list_of tx_id) (to_le_bytes amount @ sealed_hex) w"

definition tx_id_to_payment_get :: "db \<Rightarrow> hash \<Rightarrow> (u64 \<times> bytes) option res" where
  "tx_id_to_payment_get d tx_id =
     (case tget (d PTxIdToPayment) (list_of tx_id) of
        None \<Rightarrow> Ok None
      | Some v \<Rightarrow>
          if length v \<ge> 8 then Ok (Some (from_le_bytes (take 8 v), drop 8 v))
          else Err ''Invalid value length in tx_id_to_payment partition'')"

definition tx_id_to_payment_get_rtx :: "db \<Rightarrow> bytes \<Rightarrow> bytes option res" where
  "tx_id_to_payment_get_rtx rtx tx_id =
     (if length tx_id \<noteq> 32 then Err ''Transaction ID must be 32 bytes''
      else Ok (tget (rtx PTxIdToPayment) tx_id))"

definition tx_id_to_payment_len :: "db \<Rightarrow> nat" where
  "tx_id_to_payment_len d = length (items (d PTxIdToPayment))"

section \<open>Contextual messages\<close>

record contextual_message_by_sender_key =
  cmk_sender :: address_payload
  cmk_alias :: "16 arr"
  cmk_block_time :: u64
  cmk_block_hash :: hash
  cmk_receiver :: address_payload
  cmk_version :: byte
  cmk_tx_id :: hash

definition cmk_bytes :: "contextual_message_by_sender_key \<Rightarrow> bytes" where
  "cmk_bytes k =
     addr_bytes (cmk_sender k) @ list_of (cmk_alias k) @ to_be_bytes (cmk_block_time k) @
     list_of (cmk_block_hash k) @ addr_bytes (cmk_receiver k) @ [cmk_version k] @ list_of (cmk_tx_id k)"

definition cmk_from_bytes :: "bytes \<Rightarrow> contextual_message_by_sender_key option" where
  "cmk_from_bytes bs =
     (if length bs = 157
      then Some \<lparr>cmk_sender = addr_of (take 34 bs),
        cmk_alias = of_list (take 16 (drop 34 bs)),
        cmk_block_time = from_be_bytes (take 8 (drop 50 bs)),
        cmk_block_hash = of_list (take 32 (drop 58 bs)),
        cmk_receiver = addr_of (take 34 (drop 90 bs)),
        cmk_version = bs ! 124,
        cmk_tx_id = of_list (drop 125 bs)\<rparr>
      else None)"

definition contextual_message_insert :: "contextual_message_by_sender_key \<Rightarrow> wtx \<Rightarrow> wtx" where
  "contextual_message_insert key w = wtx_insert PContextualMessageBySender (cmk_bytes key) [] w"

definition get_by_sender_prefix ::
    "db \<Rightarrow> address_payload \<Rightarrow> contextual_message_by_sender_key res list" where
  "get_by_sender_prefix rtx sender =
     map (deref cmk_from_bytes \<circ> fst) (tprefix (addr_bytes sender) (rtx PContextualMessageBySender))"

definition contextual_get_all :: "db \<Rightarrow> contextual_message_by_sender_key res list" where
  "contextual_get_all rtx = map (deref cmk_from_bytes \<circ> fst) (items (rtx PContextualMessageBySender))"

definition get_by_sender_alias_from_block_time ::
    "db \<Rightarrow> address_payload \<Rightarrow> 16 arr \<Rightarrow> u64 \<Rightarrow> contextual_message_by_sender_key res list" where
  "get_by_sender_alias_from_block_time rtx sender alias from_block_time =
     map (deref cmk_from_bytes \<circ> fst)
       (scan_from (addr_bytes sender @ list_of alias) from_block_time (rtx PContextualMessageBySender))"

definition contextual_len :: "db \<Rightarrow> nat" where
  "contextual_len d = length (items (d PContextualMessageBySender))"

definition tx_id_to_contextual_insert :: "hash \<Rightarrow> bytes \<Rightarrow> db \<Rightarrow> db" where
  "tx_id_to_contextual_insert tx_id sealed_hex d =
     db_insert PTxIdToContextualMessage (list_of tx_id) sealed_hex d"

definition tx_id_to_contextual_insert_wtx :: "hash \<Rightarrow> bytes \<Rightarrow> wtx \<Rightarrow> wtx" where
  "tx_id_to_contextual_insert_wtx tx_id sealed_hex w =
     wtx_insert PTxIdToContextualMessage (list_of tx_id) sealed_hex w"

definition tx_id_to_contextual_get_rtx :: "db \<Rightarrow> hash \<Rightarrow> bytes option" where
  "tx_id_to_contextual_get_rtx rtx tx_id = tget (rtx PTxIdToContextualMessage) (list_of tx_id)"

section \<open>Self stashes\<close>

type_synonym self_stash_scope = "255 arr"

definition self_stash_scope_from :: "bytes \<Rightarrow> self_stash_scope" where
  "self_stash_scope_from s = of_list (take (min 255 (length s)) s)"

record self_stash_key_by_owner =
  sso_owner :: address_payload
  sso_scope :: self_stash_scope
  sso_block_time :: u64
  sso_block_hash :: hash
  sso_version :: byte
  sso_tx_id :: hash

definition sso_bytes :: "self_stash_key_by_owner \<Rightarrow> bytes" where
  "sso_bytes k =
     addr_bytes (sso_owner k) @ list_of (sso_scope k) @ to_be_bytes (sso_block_time k) @
     list_of (sso_block_hash k) @ [sso_version k] @ list_of (sso_tx_id k)"

definition sso_from_bytes :: "bytes \<Rightarrow> self_stash_key_by_owner option" where
  "sso_from_bytes bs =
     (if length bs = 362
      then Some \<lparr>sso_owner = addr_of (take 34 bs),
        sso_scope = of_list (take 255 (drop 34 bs)),
        sso_block_time = from_be_bytes (take 8 (drop 289 bs)),
        sso_block_hash = of_list (take 32 (drop 297 bs)),
        sso_version = bs ! 329,
        sso_tx_id = of_list (drop 330 bs)\<rparr>
      else None)"

definition self_stash_by_owner_insert_wtx :: "self_stash_key_by_owner \<Rightarrow> wtx \<Rightarrow> wtx" where
  "self_stash_by_owner_insert_wtx key w = wtx_insert PSelfStashByOwner (sso_bytes key) [] w"

definition self_stash_by_owner_iter :: "db \<Rightarrow> self_stash_key_by_owner res list" where
  "self_stash_by_owner_iter d = map (deref sso_from_bytes \<circ> fst) (items (d PSelfStashByOwner))"

definition iter_by_owner_and_scope_from_block_time_rtx ::
    "db \<Rightarrow> bytes \<Rightarrow> address_payload \<Rightarrow> u64 \<Rightarrow> self_stash_key_by_owner res list" where
  "iter_by_owner_and_scope_from_block_time_rtx rtx scope owner block_time =
     map (deref sso_from_bytes \<circ> fst)
       (scan_from (addr_bytes owner @ list_of (self_stash_scope_from scope)) block_time
         (rtx PSelfStashByOwner))"

record self_stash_key_by_scope =
  sss_scope :: self_stash_scope
  sss_block_time :: u64
  sss_owner :: address_payload
  sss_block_hash :: hash
  sss_version :: byte
  sss_tx_id :: hash

definition sss_bytes :: "self_stash_key_by_scope \<Rightarrow> bytes" where
  "sss_bytes k =
     list_of (sss_scope k) @ to_be_bytes (sss_block_time k) @ addr_bytes (sss_owner k) @
     list_of (sss_block_hash k) @ [sss_version k] @ list_of (sss_tx_id k)"

definition sss_from_bytes :: "bytes \<Rightarrow> self_stash_key_by_scope option" where
  "sss_from_bytes bs =
     (if length bs = 362
      then Some \<lparr>sss_scope = of_list (take 255 bs),
        sss_block_time = from_be_bytes (take 8 (drop 255 bs)),
        sss_owner = addr_of (take 34 (drop 263 bs)),
        sss_block_hash = of_list (take 32 (drop 297 bs)),
        sss_version = bs ! 329,
        sss_tx_id = of_list (drop 330 bs)\<rparr>
      else None)"

definition self_stash_by_scope_insert_wtx :: "self_stash_key_by_scope \<Rightarrow> wtx \<Rightarrow> wtx" where
  "self_stash_by_scope_insert_wtx key w = wtx_insert PSelfStashByScope (sss_bytes key) [] w"

definition iter_by_scope_from_block_time_rtx ::
    "db \<Rightarrow> bytes \<Rightarrow> u64 \<Rightarrow> self_stash_key_by_scope res list" where
  "iter_by_scope_from_block_time_rtx rtx scope block_time =
     map (deref sss_from_bytes \<circ> fst)
       (scan_from (list_of (self_stash_scope_from scope)) block_time (rtx PSelfStashByScope))"

definition tx_id_to_self_stash_insert :: "hash \<Rightarrow> bytes \<Rightarrow> db \<Rightarrow> db" where
  "tx_id_to_self_stash_insert tx_id sealed_hex d =
     db_insert PTxIdToSelfStash (list_of tx_id) sealed_hex d"

definition tx_id_to_self_stash_insert_wtx :: "hash \<Rightarrow> bytes \<Rightarrow> wtx \<Rightarrow> wtx" where
  "tx_id_to_self_stash_insert_wtx tx_id sealed_hex w =
     wtx_insert PTxIdToSelfStash (list_of tx_id) sealed_hex w"

definition tx_id_to_self_stash_get_rtx :: "db \<Rightarrow> hash \<Rightarrow> bytes option" where
  "tx_id_to_self_stash_get_rtx rtx tx_id = tget (rtx PTxIdToSelfStash) (list_of tx_id)"

definition tx_id_to_self_stash_len :: "db \<Rightarrow> nat" where
  "tx_id_to_self_stash_len d = length (items (d PTxIdToSelfStash))"

section \<open>Lemmas\<close>

text \<open>The layouts of the seven index keys.\<close>

lemma take_one_drop: "n < length bs \<Longrightarrow> bs ! n # xs = take (Suc 0) (drop n bs) @ xs"
  by (metis Cons_nth_drop_Suc append_Cons append_Nil take0 take_Suc_Cons)

lemma length_hks_bytes [simp, codec_simps]: "length (hks_bytes k) = 141"
  by (simp add: hks_bytes_def)

interpretation hs_sender: time_index hks_bytes hks_from_bytes 141
  "\<lambda>k. addr_bytes (hks_sender k)" hks_block_time
  "\<lambda>k. list_of (hks_block_hash k) @ addr_bytes (hks_receiver k) @ [hks_version k] @ list_of (hks_tx_id k)" 34
proof
  fix bs :: bytes and k
  show "hks_from_bytes (hks_bytes k) = Some k"
    by (simp add: hks_from_bytes_def) (simp add: hks_bytes_def nth_append)
  show "hks_from_bytes bs = Some k \<Longrightarrow> hks_bytes k = bs"
    using concat_chunks [of "[34, 8, 32, 34, 1]" bs]
    by (auto simp: hks_from_bytes_def hks_bytes_def take_one_drop split: if_splits)
  show "length bs = 141 \<Longrightarrow> hks_from_bytes bs \<noteq> None"
    by (simp add: hks_from_bytes_def)
qed (simp_all add: hks_bytes_def list_of_nonempty)

lemma length_hkr_bytes [simp, codec_simps]: "length (hkr_bytes k) = 107"
  by (simp add: hkr_bytes_def)

interpretation hs_receiver: time_index hkr_bytes hkr_from_bytes 107
  "\<lambda>k. addr_bytes (hkr_receiver k)" hkr_block_time
  "\<lambda>k. list_of (hkr_block_hash k) @ [hkr_version k] @ list_of (hkr_tx_id k)" 34
proof
  fix bs :: bytes and k
  show "hkr_from_bytes (hkr_bytes k) = Some k"
    by (simp add: hkr_from_bytes_def) (simp add: hkr_bytes_def nth_append)
  show "hkr_from_bytes bs = Some k \<Longrightarrow> hkr_bytes k = bs"
    using concat_chunks [of "[34, 8, 32, 1]" bs]
    by (auto simp: hkr_from_bytes_def hkr_bytes_def take_one_drop split: if_splits)
  show "length bs = 107 \<Longrightarrow> hkr_from_bytes bs \<noteq> None"
    by (simp add: hkr_from_bytes_def)
qed (simp_all add: hkr_bytes_def list_of_nonempty)

lemma length_pks_bytes [simp, codec_simps]: "length (pks_bytes k) = 141"
  by (simp add: pks_bytes_def)

interpretation pay_sender: time_index pks_bytes pks_from_bytes 141
  "\<lambda>k. addr_bytes (pks_sender k)" pks_block_time
  "\<lambda>k. list_of (pks_block_hash k) @ addr_bytes (pks_receiver k) @ [pks_version k] @ list_of (pks_tx_id k)" 34
proof
  fix bs :: bytes and k
  show "pks_from_bytes (pks_bytes k) = Some k"
    by (simp add: pks_from_bytes_def) (simp add: pks_bytes_def nth_append)
  show "pks_from_bytes bs = Some k \<Longrightarrow> pks_bytes k = bs"
    using concat_chunks [of "[34, 8, 32, 34, 1]" bs]
    by (auto simp: pks_from_bytes_def pks_bytes_def take_one_drop split: if_splits)
  show "length bs = 141 \<Longrightarrow> pks_from_bytes bs \<noteq> None"
    by (simp add: pks_from_bytes_def)
qed (simp_all add: pks_bytes_def list_of_nonempty)

lemma length_pkr_bytes [simp, codec_simps]: "length (pkr_bytes k) = 107"
  by (simp add: pkr_bytes_def)

interpretation pay_receiver: time_index pkr_bytes pkr_from_bytes 107
  "\<lambda>k. addr_bytes (pkr_receiver k)" pkr_block_time
  "\<lambda>k. list_of (pkr_block_hash k) @ [pkr_version k] @ list_of (pkr_tx_id k)" 34
proof
  fix bs :: bytes and k
  show "pkr_from_bytes (pkr_bytes k) = Some k"
    by (simp add: pkr_from_bytes_def) (simp add: pkr_bytes_def nth_append)
  show "pkr_from_bytes bs = Some k \<Longrightarrow> pkr_bytes k = bs"
    using concat_chunks [of "[34, 8, 32, 1]" bs]
    by (auto simp: pkr_from_bytes_def pkr_bytes_def take_one_drop split: if_splits)
  show "length bs = 107 \<Longrightarrow> pkr_from_bytes bs \<noteq> None"
    by (simp add: pkr_from_bytes_def)
qed (simp_all add: pkr_bytes_def list_of_nonempty)

lemma length_cmk_bytes [simp, codec_simps]: "length (cmk_bytes k) = 157"
  by (simp add: cmk_bytes_def)

interpretation ctx_sender: time_index cmk_bytes cmk_from_bytes 157
  "\<lambda>k. addr_bytes (cmk_sender k) @ list_of (cmk_alias k)" cmk_block_time
  "\<lambda>k. list_of (cmk_block_hash k) @ addr_bytes (cmk_receiver k) @ [cmk_version k] @ list_of (cmk_tx_id k)" 50
proof
  fix bs :: bytes and k
  show "cmk_from_bytes (cmk_bytes k) = Some k"
    by (simp add: cmk_from_bytes_def) (simp add: cmk_bytes_def nth_append)
  show "cmk_from_bytes bs = Some k \<Longrightarrow> cmk_bytes k = bs"
    using concat_chunks [of "[34, 16, 8, 32, 34, 1]" bs]
    by (auto simp: cmk_from_bytes_def cmk_bytes_def take_one_drop split: if_splits)
  show "length bs = 157 \<Longrightarrow> cmk_from_bytes bs \<noteq> None"
    by (simp add: cmk_from_bytes_def)
qed (simp_all add: cmk_bytes_def list_of_nonempty)

lemma length_sso_bytes [simp, codec_simps]: "length (sso_bytes k) = 362"
  by (simp add: sso_bytes_def)

interpretation stash_owner: time_index sso_bytes sso_from_bytes 362
  "\<lambda>k. addr_bytes (sso_owner k) @ list_of (sso_scope k)" sso_block_time
  "\<lambda>k. list_of (sso_block_hash k) @ [sso_version k] @ list_of (sso_tx_id k)" 289
proof
  fix bs :: bytes and k
  show "sso_from_bytes (sso_bytes k) = Some k"
    by (simp add: sso_from_bytes_def) (simp add: sso_bytes_def nth_append)
  show "sso_from_bytes bs = Some k \<Longrightarrow> sso_bytes k = bs"
    using concat_chunks [of "[34, 255, 8, 32, 1]" bs]
    by (auto simp: sso_from_bytes_def sso_bytes_def take_one_drop split: if_splits)
  show "length bs = 362 \<Longrightarrow> sso_from_bytes bs \<noteq> None"
    by (simp add: sso_from_bytes_def)
qed (simp_all add: sso_bytes_def list_of_nonempty)

lemma length_sss_bytes [simp, codec_simps]: "length (sss_bytes k) = 362"
  by (simp add: sss_bytes_def)

interpretation stash_scope: time_index sss_bytes sss_from_bytes 362
  "\<lambda>k. list_of (sss_scope k)" sss_block_time
  "\<lambda>k. addr_bytes (sss_owner k) @ list_of (sss_block_hash k) @ [sss_version k] @ list_of (sss_tx_id k)" 255
proof
  fix bs :: bytes and k
  show "sss_from_bytes (sss_bytes k) = Some k"
    by (simp add: sss_from_bytes_def) (simp add: sss_bytes_def nth_append)
  show "sss_from_bytes bs = Some k \<Longrightarrow> sss_bytes k = bs"
    using concat_chunks [of "[255, 8, 34, 32, 1]" bs]
    by (auto simp: sss_from_bytes_def sss_bytes_def take_one_drop split: if_splits)
  show "length bs = 362 \<Longrightarrow> sss_from_bytes bs \<noteq> None"
    by (simp add: sss_from_bytes_def)
qed (simp_all add: sss_bytes_def list_of_nonempty)

lemmas message_deref [simp] =
  hs_sender.deref_enc hs_receiver.deref_enc pay_sender.deref_enc pay_receiver.deref_enc
  ctx_sender.deref_enc stash_owner.deref_enc stash_scope.deref_enc addr.deref_enc

text \<open>
  The message indexes are well formed when every key is a full key and every by-receiver
  value an address.
\<close>

definition wf_message_indexes :: "db \<Rightarrow> bool" where
  "wf_message_indexes d \<longleftrightarrow>
     (\<forall>b v. tget (d PHandshakeBySender) b = Some v \<longrightarrow> length b = 141) \<and>
     (\<forall>b v. tget (d PHandshakeByReceiver) b = Some v \<longrightarrow> length b = 107 \<and> length v = 34) \<and>
     (\<forall>b v. tget (d PPaymentBySender) b = Some v \<longrightarrow> length b = 141) \<and>
     (\<forall>b v. tget (d PPaymentByReceiver) b = Some v \<longrightarrow> length b = 107 \<and> length v = 34) \<and>
     (\<forall>b v. tget (d PContextualMessageBySender) b = Some v \<longrightarrow> length b = 157) \<and>
     (\<forall>b v. tget (d PSelfStashByOwner) b = Some v \<longrightarrow> length b = 362) \<and>
     (\<forall>b v. tget (d PSelfStashByScope) b = Some v \<longrightarrow> length b = 362)"

text \<open>Every query answers with the stored keys of its window, in the order of time.\<close>

lemma handshakes_by_sender_window:
  assumes "wf_message_indexes d"
  shows "\<exists>ks. iter_by_sender_from_block_time_rtx d a t = map Ok ks \<and>
    is_window (\<lambda>k. tget (d PHandshakeBySender) (hks_bytes k) \<noteq> None \<and> hks_sender k = a) hks_block_time t ks"
proof -
  have "\<forall>b. tget (d PHandshakeBySender) b \<noteq> None \<longrightarrow> length b = 141"
    using assms by (auto simp: wf_message_indexes_def)
  from hs_sender.window_query [OF _ this, of "addr_bytes a" t]
  show ?thesis by (simp add: iter_by_sender_from_block_time_rtx_def)
qed

lemma handshakes_by_receiver_window:
  assumes "wf_message_indexes d"
  shows "\<exists>ks. iter_by_receiver_from_block_time_rtx d a t =
      map (\<lambda>k. Ok (k, the (addr_from_bytes (the (tget (d PHandshakeByReceiver) (hkr_bytes k)))))) ks \<and>
    is_window (\<lambda>k. tget (d PHandshakeByReceiver) (hkr_bytes k) \<noteq> None \<and> hkr_receiver k = a) hkr_block_time t ks"
proof -
  have "\<forall>b. tget (d PHandshakeByReceiver) b \<noteq> None \<longrightarrow> length b = 107"
    and "\<forall>b v. tget (d PHandshakeByReceiver) b = Some v \<longrightarrow> addr_from_bytes v \<noteq> None"
    using assms addr.total by (auto simp: wf_message_indexes_def)
  from hs_receiver.window_query_values [OF _ this, of "addr_bytes a" t]
  show ?thesis by (simp add: iter_by_receiver_from_block_time_rtx_def)
qed

lemma payments_by_sender_window:
  assumes "wf_message_indexes d"
  shows "\<exists>ks. get_by_sender_from_block_time d a t = map Ok ks \<and>
    is_window (\<lambda>k. tget (d PPaymentBySender) (pks_bytes k) \<noteq> None \<and> pks_sender k = a) pks_block_time t ks"
proof -
  have "\<forall>b. tget (d PPaymentBySender) b \<noteq> None \<longrightarrow> length b = 141"
    using assms by (auto simp: wf_message_indexes_def)
  from pay_sender.window_query [OF _ this, of "addr_bytes a" t]
  show ?thesis by (simp add: get_by_sender_from_block_time_def)
qed

lemma payments_by_receiver_window:
  assumes "wf_message_indexes d"
  shows "\<exists>ks. get_by_receiver_from_block_time d a t =
      map (\<lambda>k. Ok (k, the (addr_from_bytes (the (tget (d PPaymentByReceiver) (pkr_bytes k)))))) ks \<and>
    is_window (\<lambda>k. tget (d PPaymentByReceiver) (pkr_bytes k) \<noteq> None \<and> pkr_receiver k = a) pkr_block_time t ks"
proof -
  have "\<forall>b. tget (d PPaymentByReceiver) b \<noteq> None \<longrightarrow> length b = 107"
    and "\<forall>b v. tget (d PPaymentByReceiver) b = Some v \<longrightarrow> addr_from_bytes v \<noteq> None"
    using assms addr.total by (auto simp: wf_message_indexes_def)
  from pay_receiver.window_query_values [OF _ this, of "addr_bytes a" t]
  show ?thesis by (simp add: get_by_receiver_from_block_time_def)
qed

lemma contextual_by_sender_window:
  assumes "wf_message_indexes d"
  shows "\<exists>ks. get_by_sender_alias_from_block_time d a al t = map Ok ks \<and>
    is_window (\<lambda>k. tget (d PContextualMessageBySender) (cmk_bytes k) \<noteq> None \<and> cmk_sender k = a \<and> cmk_alias k = al) cmk_block_time t ks"
proof -
  have "\<forall>b. tget (d PContextualMessageBySender) b \<noteq> None \<longrightarrow> length b = 157"
    using assms by (auto simp: wf_message_indexes_def)
  from ctx_sender.window_query [OF _ this, of "addr_bytes a @ list_of al" t]
  show ?thesis by (simp add: get_by_sender_alias_from_block_time_def)
qed

lemma stashes_by_owner_window:
  assumes "wf_message_indexes d"
  shows "\<exists>ks. iter_by_owner_and_scope_from_block_time_rtx d sc a t = map Ok ks \<and>
    is_window (\<lambda>k. tget (d PSelfStashByOwner) (sso_bytes k) \<noteq> None \<and> sso_owner k = a \<and> sso_scope k = self_stash_scope_from sc) sso_block_time t ks"
proof -
  have "\<forall>b. tget (d PSelfStashByOwner) b \<noteq> None \<longrightarrow> length b = 362"
    using assms by (auto simp: wf_message_indexes_def)
  from stash_owner.window_query [OF _ this, of "addr_bytes a @ list_of (self_stash_scope_from sc)" t]
  show ?thesis by (simp add: iter_by_owner_and_scope_from_block_time_rtx_def)
qed

lemma stashes_by_scope_window:
  assumes "wf_message_indexes d"
  shows "\<exists>ks. iter_by_scope_from_block_time_rtx d sc t = map Ok ks \<and>
    is_window (\<lambda>k. tget (d PSelfStashByScope) (sss_bytes k) \<noteq> None \<and> sss_scope k = self_stash_scope_from sc) sss_block_time t ks"
proof -
  have "\<forall>b. tget (d PSelfStashByScope) b \<noteq> None \<longrightarrow> length b = 362"
    using assms by (auto simp: wf_message_indexes_def)
  from stash_scope.window_query [OF _ this, of "list_of (self_stash_scope_from sc)" t]
  show ?thesis by (simp add: iter_by_scope_from_block_time_rtx_def)
qed

text \<open>A stored key is among the answers of its query.\<close>

lemma handshakes_by_receiver_hit:
  assumes "tget (d PHandshakeByReceiver) (hkr_bytes k) = Some (addr_bytes s)" and "hkr_receiver k = a"
    and "t \<le> hkr_block_time k" and "hkr_block_time k \<noteq> - 1"
  shows "Ok (k, s) \<in> set (iter_by_receiver_from_block_time_rtx d a t)"
  using hs_receiver.query_hit_value [of "d PHandshakeByReceiver" k "addr_bytes s" t addr_from_bytes s] assms
  by (simp add: iter_by_receiver_from_block_time_rtx_def)

lemma handshakes_by_sender_hit:
  assumes "tget (d PHandshakeBySender) (hks_bytes k) = Some v" and "hks_sender k = a"
    and "t \<le> hks_block_time k" and "hks_block_time k \<noteq> - 1"
  shows "Ok k \<in> set (iter_by_sender_from_block_time_rtx d a t)"
  using hs_sender.query_hit [of "d PHandshakeBySender" k v t] assms by (simp add: iter_by_sender_from_block_time_rtx_def)

lemma payments_by_receiver_hit:
  assumes "tget (d PPaymentByReceiver) (pkr_bytes k) = Some (addr_bytes s)" and "pkr_receiver k = a"
    and "t \<le> pkr_block_time k" and "pkr_block_time k \<noteq> - 1"
  shows "Ok (k, s) \<in> set (get_by_receiver_from_block_time d a t)"
  using pay_receiver.query_hit_value [of "d PPaymentByReceiver" k "addr_bytes s" t addr_from_bytes s] assms
  by (simp add: get_by_receiver_from_block_time_def)

lemma payments_by_sender_hit:
  assumes "tget (d PPaymentBySender) (pks_bytes k) = Some v" and "pks_sender k = a"
    and "t \<le> pks_block_time k" and "pks_block_time k \<noteq> - 1"
  shows "Ok k \<in> set (get_by_sender_from_block_time d a t)"
  using pay_sender.query_hit [of "d PPaymentBySender" k v t] assms by (simp add: get_by_sender_from_block_time_def)

lemma contextual_by_sender_hit:
  assumes "tget (d PContextualMessageBySender) (cmk_bytes k) = Some v" and "cmk_sender k = a" and "cmk_alias k = al"
    and "t \<le> cmk_block_time k" and "cmk_block_time k \<noteq> - 1"
  shows "Ok k \<in> set (get_by_sender_alias_from_block_time d a al t)"
  using ctx_sender.query_hit [of "d PContextualMessageBySender" k v t] assms by (simp add: get_by_sender_alias_from_block_time_def)

lemma stashes_by_owner_hit:
  assumes "tget (d PSelfStashByOwner) (sso_bytes k) = Some v" and "sso_owner k = a" and "sso_scope k = self_stash_scope_from sc"
    and "t \<le> sso_block_time k" and "sso_block_time k \<noteq> - 1"
  shows "Ok k \<in> set (iter_by_owner_and_scope_from_block_time_rtx d sc a t)"
  using stash_owner.query_hit [of "d PSelfStashByOwner" k v t] assms by (simp add: iter_by_owner_and_scope_from_block_time_rtx_def)

lemma stashes_by_scope_hit:
  assumes "tget (d PSelfStashByScope) (sss_bytes k) = Some v" and "sss_scope k = self_stash_scope_from sc"
    and "t \<le> sss_block_time k" and "sss_block_time k \<noteq> - 1"
  shows "Ok k \<in> set (iter_by_scope_from_block_time_rtx d sc t)"
  using stash_scope.query_hit [of "d PSelfStashByScope" k v t] assms by (simp add: iter_by_scope_from_block_time_rtx_def)

lemmas query_hits = handshakes_by_receiver_hit handshakes_by_sender_hit payments_by_receiver_hit
  payments_by_sender_hit contextual_by_sender_hit stashes_by_owner_hit stashes_by_scope_hit

end
