(* ===== verification/Metrics.thy ===== *)
theory Metrics
  imports Prelude
begin

text \<open>
  The shared counters of \<^verbatim>\<open>indexer-actors/src/metrics.rs\<close> and the bounded set of
  \<^verbatim>\<open>indexer-actors/src/fifo_set.rs\<close>. The hexadecimal rendering of a hash
  (\<^verbatim>\<open>to_hex_64\<close>, by the \<^verbatim>\<open>faster_hex\<close> crate) and the default of
  \<^verbatim>\<open>FStr\<close> are parameters.
\<close>

section \<open>Metrics\<close>

record indexer_metrics_snapshot =
  snap_handshakes_by_sender :: u64
  snap_uniq_handshakes_by_receiver :: u64
  snap_payments_by_sender :: u64
  snap_uniq_payments_by_receiver :: u64
  snap_contextual_messages :: u64
  snap_blocks_processed :: u64
  snap_latest_block :: string
  snap_latest_accepting_block :: string
  snap_unknown_sender_entries :: u64
  snap_resolved_senders :: u64
  snap_pruned_blocks :: u64

record indexer_metrics =
  handshakes_by_sender :: u64
  uniq_handshakes_by_receiver :: u64
  payments_by_sender :: u64
  uniq_payments_by_receiver :: u64
  contextual_messages :: u64
  blocks_processed :: u64
  latest_block :: string
  latest_accepting_block :: string
  unknown_sender_entries :: u64
  resolved_sender :: u64
  pruned_blocks :: u64

definition metrics_new :: "string \<Rightarrow> indexer_metrics" where
  "metrics_new fstr_default =
     \<lparr>handshakes_by_sender = 0, uniq_handshakes_by_receiver = 0, payments_by_sender = 0,
      uniq_payments_by_receiver = 0, contextual_messages = 0, blocks_processed = 0,
      latest_block = fstr_default, latest_accepting_block = fstr_default,
      unknown_sender_entries = 0, resolved_sender = 0, pruned_blocks = 0\<rparr>"

definition from_snapshot :: "indexer_metrics_snapshot \<Rightarrow> indexer_metrics" where
  "from_snapshot s =
     \<lparr>handshakes_by_sender = snap_handshakes_by_sender s,
      uniq_handshakes_by_receiver = snap_uniq_handshakes_by_receiver s,
      payments_by_sender = snap_payments_by_sender s,
      uniq_payments_by_receiver = snap_uniq_payments_by_receiver s,
      contextual_messages = snap_contextual_messages s,
      blocks_processed = snap_blocks_processed s,
      latest_block = snap_latest_block s,
      latest_accepting_block = snap_latest_accepting_block s,
      unknown_sender_entries = snap_unknown_sender_entries s,
      resolved_sender = snap_resolved_senders s,
      pruned_blocks = snap_pruned_blocks s\<rparr>"

definition metrics_snapshot :: "indexer_metrics \<Rightarrow> indexer_metrics_snapshot" where
  "metrics_snapshot m =
     \<lparr>snap_handshakes_by_sender = handshakes_by_sender m,
      snap_uniq_handshakes_by_receiver = uniq_handshakes_by_receiver m,
      snap_payments_by_sender = payments_by_sender m,
      snap_uniq_payments_by_receiver = uniq_payments_by_receiver m,
      snap_contextual_messages = contextual_messages m,
      snap_blocks_processed = blocks_processed m,
      snap_latest_block = latest_block m,
      snap_latest_accepting_block = latest_accepting_block m,
      snap_unknown_sender_entries = unknown_sender_entries m,
      snap_resolved_senders = resolved_sender m,
      snap_pruned_blocks = pruned_blocks m\<rparr>"

definition set_handshakes_by_sender :: "u64 \<Rightarrow> indexer_metrics \<Rightarrow> indexer_metrics" where
  "set_handshakes_by_sender count m = m\<lparr>handshakes_by_sender := count\<rparr>"

definition set_handshakes_by_receiver :: "u64 \<Rightarrow> indexer_metrics \<Rightarrow> indexer_metrics" where
  "set_handshakes_by_receiver count m = m\<lparr>uniq_handshakes_by_receiver := count\<rparr>"

definition set_payments_by_sender :: "u64 \<Rightarrow> indexer_metrics \<Rightarrow> indexer_metrics" where
  "set_payments_by_sender count m = m\<lparr>payments_by_sender := count\<rparr>"

definition set_payments_by_receiver :: "u64 \<Rightarrow> indexer_metrics \<Rightarrow> indexer_metrics" where
  "set_payments_by_receiver count m = m\<lparr>uniq_payments_by_receiver := count\<rparr>"

definition increment_blocks_processed :: "indexer_metrics \<Rightarrow> indexer_metrics" where
  "increment_blocks_processed m = m\<lparr>blocks_processed := blocks_processed m + 1\<rparr>"

definition set_latest_block :: "(hash \<Rightarrow> string) \<Rightarrow> hash \<Rightarrow> indexer_metrics \<Rightarrow> indexer_metrics" where
  "set_latest_block to_hex_64 h m = m\<lparr>latest_block := to_hex_64 h\<rparr>"

definition set_latest_accepting_block ::
    "(hash \<Rightarrow> string) \<Rightarrow> hash \<Rightarrow> indexer_metrics \<Rightarrow> indexer_metrics" where
  "set_latest_accepting_block to_hex_64 h m = m\<lparr>latest_accepting_block := to_hex_64 h\<rparr>"

definition increment_pruned_blocks :: "u64 \<Rightarrow> indexer_metrics \<Rightarrow> indexer_metrics" where
  "increment_pruned_blocks n m = m\<lparr>pruned_blocks := pruned_blocks m + n\<rparr>"

definition set_contextual_messages :: "u64 \<Rightarrow> indexer_metrics \<Rightarrow> indexer_metrics" where
  "set_contextual_messages count m = m\<lparr>contextual_messages := count\<rparr>"

definition set_unknown_sender_entries :: "u64 \<Rightarrow> indexer_metrics \<Rightarrow> indexer_metrics" where
  "set_unknown_sender_entries count m = m\<lparr>unknown_sender_entries := count\<rparr>"

definition increment_resolved_senders :: "u64 \<Rightarrow> indexer_metrics \<Rightarrow> indexer_metrics" where
  "increment_resolved_senders count m = m\<lparr>resolved_sender := resolved_sender m + count\<rparr>"

section \<open>The bounded set\<close>

text \<open>
  The elements in the order of insertion. \<^verbatim>\<open>RingSet\<close> reallocates when an element is
  inserted at full capacity; \<open>grow\<close> is the capacity it then has.
\<close>

record 'k fifo_set =
  fs_elems :: "'k list"
  fs_capacity :: nat

definition fifo_new :: "nat \<Rightarrow> 'k fifo_set" where
  "fifo_new capacity = \<lparr>fs_elems = [], fs_capacity = capacity\<rparr>"

definition fifo_contains :: "'k \<Rightarrow> 'k fifo_set \<Rightarrow> bool" where
  "fifo_contains key s \<longleftrightarrow> key \<in> set (fs_elems s)"

definition fifo_insert :: "(nat \<Rightarrow> nat) \<Rightarrow> 'k \<Rightarrow> 'k fifo_set \<Rightarrow> bool \<times> 'k fifo_set" where
  "fifo_insert grow key s =
     (if fifo_contains key s then (False, s)
      else
        let kept = if length (fs_elems s) = fs_capacity s then tl (fs_elems s) else fs_elems s
        in (True, \<lparr>fs_elems = kept @ [key],
                   fs_capacity = (if length kept = fs_capacity s then grow (fs_capacity s)
                                  else fs_capacity s)\<rparr>))"

section \<open>Lemmas\<close>

definition wf_fifo :: "'k fifo_set \<Rightarrow> bool" where
  "wf_fifo s \<longleftrightarrow> distinct (fs_elems s) \<and> length (fs_elems s) \<le> fs_capacity s \<and> 0 < fs_capacity s"

lemma fifo_insert_fresh:
  assumes "wf_fifo s" and "\<not> fifo_contains key s"
  shows "fifo_insert grow key s =
    (True, s\<lparr>fs_elems := drop (Suc (length (fs_elems s)) - fs_capacity s) (fs_elems s @ [key])\<rparr>)"
proof -
  have "drop (Suc (length (fs_elems s)) - fs_capacity s) (fs_elems s @ [key]) =
      (if length (fs_elems s) = fs_capacity s then tl (fs_elems s) else fs_elems s) @ [key]"
    using assms(1) by (cases "fs_elems s") (auto simp: wf_fifo_def Suc_diff_le)
  moreover have "length (if length (fs_elems s) = fs_capacity s then tl (fs_elems s)
      else fs_elems s) \<noteq> fs_capacity s"
    using assms(1) by (auto simp: wf_fifo_def)
  ultimately show ?thesis
    using assms(2) by (simp add: fifo_insert_def Let_def del: if_split)
qed

lemma wf_fifo_insert:
  assumes "wf_fifo s"
  shows "wf_fifo (snd (fifo_insert grow key s))"
proof (cases "fifo_contains key s")
  case False
  have "distinct (fs_elems s @ [key])"
    using assms False by (simp add: wf_fifo_def fifo_contains_def)
  then have "distinct (drop n (fs_elems s @ [key]))" for n by (rule distinct_drop)
  with assms show ?thesis
    by (simp add: fifo_insert_fresh [OF assms False] wf_fifo_def del: drop_append distinct_append)
qed (use assms in \<open>simp add: fifo_insert_def\<close>)

end
