(* ===== verification/Node.thy ===== *)
theory Node
  imports Messages Metrics
begin

text \<open>
  What the actors exchange with the Kaspa node and with each other: the parts of the RPC types
  that the sources read, the compact headers that block processing hands to the virtual chain
  processor, and the commands sent to the data source
  (\<^verbatim>\<open>virtual_chain_processor/message.rs\<close>, \<^verbatim>\<open>block_processor/message.rs\<close>,
  \<^verbatim>\<open>data_source.rs\<close>).
\<close>

section \<open>RPC data\<close>

record rpc_header =
  rh_hash :: hash
  rh_timestamp :: u64
  rh_daa_score :: u64
  rh_blue_work :: u192

record rpc_outpoint =
  op_transaction_id :: hash
  op_index :: u32

record rpc_output =
  out_value :: u64
  out_script_public_key :: script_public_key

record rpc_transaction =
  tx_verbose_id :: "hash option"
  tx_payload :: bytes
  tx_inputs :: "rpc_outpoint list"
  tx_outputs :: "rpc_output list"

record rpc_block =
  blk_header :: rpc_header
  blk_transactions :: "rpc_transaction list"

record accepted_transaction_ids =
  at_accepting_block_hash :: hash
  at_accepted_transaction_ids :: "hash list"

text \<open>
  \<^verbatim>\<open>VirtualChainChangedNotification\<close> and \<^verbatim>\<open>GetVirtualChainFromBlockResponse\<close>
  have the same three fields.
\<close>

record virtual_chain_change =
  removed_chain_block_hashes :: "hash list"
  added_chain_block_hashes :: "hash list"
  vc_accepted_transaction_ids :: "accepted_transaction_ids list"

text \<open>
  The Kaspa crates, extended with \<^verbatim>\<open>Transaction::try_from(tx)?.id()\<close>, which the
  sources call for a transaction without verbose data.
\<close>

record 'addr node_lib = "'addr kaspa_lib" +
  computed_tx_id :: "rpc_transaction \<Rightarrow> hash res"

section \<open>Messages between the actors\<close>

record compact_header =
  ch_block_hash :: hash
  ch_blue_work :: u192
  ch_daa_score :: u64

definition compact_header_of :: "rpc_header \<Rightarrow> compact_header" where
  "compact_header_of h =
     \<lparr>ch_block_hash = rh_hash h, ch_blue_work = rh_blue_work h, ch_daa_score = rh_daa_score h\<rparr>"

datatype block_notification =
    BlockConnected hash hash \<comment> \<open>sink, pruning point\<close>
  | BlockDisconnected
  | BlockShutdown
  | BlockAdded rpc_block

datatype gap_filling_progress =
    GapUpdate hash "rpc_block list"
  | GapInterrupted hash
  | GapFinished hash "rpc_block list"
  | GapError hash

datatype push_message_type = PushHandshake | PushPayment | PushContextual | PushPulseReply

record push_dispatch_event =
  pe_message_type :: push_message_type
  pe_tx_id :: hash
  pe_sender :: "address_payload option"
  pe_receiver :: address_payload
  pe_amount :: "u64 option"
  pe_payload :: "bytes option"
  pe_timestamp :: u64

datatype 'addr realtime_vcc_notification =
    VccConnected hash u192 hash \<comment> \<open>sink, its blue work, pruning point\<close>
  | VccDisconnected
  | VccShutdown
  | VccNotification virtual_chain_change
  | SenderResolution 'addr hash u64

datatype sync_vcc_notification =
    VirtualChain u64 virtual_chain_change
  | SyncerStopped u64

datatype notification_ack = AckContinue | AckStop

text \<open>A response channel is named by the number of the task that waits on it.\<close>

datatype request =
    RequestBlocks hash nat
  | RequestVirtualChain hash nat
  | RequestSender u64 hash

datatype command =
    Request request
  | MarkBlockSenderClosed
  | MarkVccSenderClosed

datatype request_error = ShuttingDown | RpcError

end
