(* ===== verification/Block_Processor.thy ===== *)
theory Block_Processor
  imports Protocol Node
begin

text \<open>
  The block processor, \<^verbatim>\<open>indexer-actors/src/block_processor.rs\<close>: it stores the messages
  of every block that arrives, in real time or from a gap filler, moves the block cursor and
  keeps the table of gaps. The notifications and the reports of the gap fillers arrive
  as one sequence of inputs, in whatever order the selector picks them; \<open>bp_step\<close> is one turn
  of the loop.
\<close>

section \<open>Storing one message\<close>

type_synonym pending_write = "insertion_entry list \<times> wtx"

definition handle_handshake ::
    "insertion_entry list \<Rightarrow> wtx \<Rightarrow> rpc_header \<Rightarrow> hash \<Rightarrow> sealed_message_or_sealed_handshake_vnone \<Rightarrow>
     address_payload \<Rightarrow> address_payload option \<Rightarrow> pending_write res" where
  "handle_handshake entries w block tx_id hk receiver sender =
     (let w1 = tx_id_to_handshake_insert_wtx tx_id (hk_sealed_hex hk) w;
          hs_key = \<lparr>hkr_receiver = receiver, hkr_block_time = rh_timestamp block,
                    hkr_block_hash = rh_hash block, hkr_version = 0, hkr_tx_id = tx_id\<rparr>
      in rbind (handshake_by_receiver_insert_wtx hs_key sender w1) (\<lambda>w2.
        let by_sender_key =
              \<lparr>hks_sender = unwrap_or_default sender, hks_block_time = hkr_block_time hs_key,
               hks_block_hash = hkr_block_hash hs_key, hks_receiver = receiver,
               hks_version = hkr_version hs_key, hks_tx_id = hkr_tx_id hs_key\<rparr>
        in if sender \<noteq> None then Ok (entries, handshake_by_sender_insert_wtx by_sender_key w2)
           else Ok (entries @
             [\<lparr>ie_partition_id = PidHandshakeByReceiver, ie_action = UpdateValueSender,
               ie_partition_key = hkr_bytes hs_key\<rparr>,
              \<lparr>ie_partition_id = PidHandshakeBySender, ie_action = InsertByKeySender,
               ie_partition_key = hks_bytes by_sender_key\<rparr>], w2)))"

definition handle_handshake_v2 ::
    "insertion_entry list \<Rightarrow> wtx \<Rightarrow> rpc_header \<Rightarrow> hash \<Rightarrow> sealed_handshake_v2 \<Rightarrow>
     address_payload \<Rightarrow> address_payload option \<Rightarrow> pending_write res" where
  "handle_handshake_v2 entries w block tx_id hk receiver sender =
     (let w1 = tx_id_to_handshake_insert_wtx tx_id (hk2_sealed_hex hk) w;
          hs_key = \<lparr>hkr_receiver = receiver, hkr_block_time = rh_timestamp block,
                    hkr_block_hash = rh_hash block, hkr_version = 2, hkr_tx_id = tx_id\<rparr>
      in rbind (handshake_by_receiver_insert_wtx hs_key sender w1) (\<lambda>w2.
        let by_sender_key =
              \<lparr>hks_sender = unwrap_or_default sender, hks_block_time = hkr_block_time hs_key,
               hks_block_hash = hkr_block_hash hs_key, hks_receiver = receiver,
               hks_version = hkr_version hs_key, hks_tx_id = hkr_tx_id hs_key\<rparr>
        in if sender \<noteq> None then Ok (entries, handshake_by_sender_insert_wtx by_sender_key w2)
           else Ok (entries @
             [\<lparr>ie_partition_id = PidHandshakeBySender, ie_action = InsertByKeySender,
               ie_partition_key = hks_bytes by_sender_key\<rparr>,
              \<lparr>ie_partition_id = PidHandshakeByReceiver, ie_action = UpdateValueSender,
               ie_partition_key = hkr_bytes hs_key\<rparr>], w2)))"

definition handle_contextual_message ::
    "insertion_entry list \<Rightarrow> wtx \<Rightarrow> address_payload option \<Rightarrow> rpc_header \<Rightarrow> hash \<Rightarrow>
     sealed_contextual_message_v1 \<Rightarrow> address_payload \<Rightarrow> pending_write" where
  "handle_contextual_message entries w sender header tx_id cm receiver =
     (let alias = of_list (take (min 16 (length (cm_alias cm))) (cm_alias cm));
          w1 = tx_id_to_contextual_insert_wtx tx_id (cm_sealed_hex cm) w;
          cmk = \<lparr>cmk_sender = unwrap_or_default sender, cmk_alias = alias,
                 cmk_block_time = rh_timestamp header, cmk_block_hash = rh_hash header,
                 cmk_receiver = receiver, cmk_version = 1, cmk_tx_id = tx_id\<rparr>
      in if sender \<noteq> None then (entries, contextual_message_insert cmk w1)
         else (entries @
           [\<lparr>ie_partition_id = PidContextualMessageBySender, ie_action = InsertByKeySender,
             ie_partition_key = cmk_bytes cmk\<rparr>], w1))"

definition handle_payment ::
    "insertion_entry list \<Rightarrow> wtx \<Rightarrow> rpc_header \<Rightarrow> hash \<Rightarrow> address_payload \<Rightarrow> u64 \<Rightarrow>
     sealed_payment_v1 \<Rightarrow> address_payload option \<Rightarrow> pending_write res" where
  "handle_payment entries w header tx_id receiver amount pm sender =
     (let w1 = tx_id_to_payment_insert_wtx tx_id amount (pm_sealed_hex pm) w;
          pm_key = \<lparr>pkr_receiver = receiver, pkr_block_time = rh_timestamp header,
                    pkr_block_hash = rh_hash header, pkr_version = 0, pkr_tx_id = tx_id\<rparr>
      in rbind (payment_by_receiver_insert_wtx pm_key sender w1) (\<lambda>w2.
        let by_sender_key =
              \<lparr>pks_sender = unwrap_or_default sender, pks_block_time = pkr_block_time pm_key,
               pks_block_hash = pkr_block_hash pm_key, pks_receiver = receiver,
               pks_version = pkr_version pm_key, pks_tx_id = pkr_tx_id pm_key\<rparr>
        in if sender \<noteq> None then Ok (entries, payment_by_sender_insert_wtx by_sender_key w2)
           else Ok (entries @
             [\<lparr>ie_partition_id = PidPaymentByReceiver, ie_action = UpdateValueSender,
               ie_partition_key = pkr_bytes pm_key\<rparr>,
              \<lparr>ie_partition_id = PidPaymentBySender, ie_action = InsertByKeySender,
               ie_partition_key = pks_bytes by_sender_key\<rparr>], w2)))"

definition handle_self_stash ::
    "insertion_entry list \<Rightarrow> wtx \<Rightarrow> address_payload option \<Rightarrow> rpc_header \<Rightarrow> hash \<Rightarrow>
     sealed_self_stash_v1 \<Rightarrow> address_payload \<Rightarrow> pending_write" where
  "handle_self_stash entries w sender block_header tx_id ss receiver =
     (let w1 = tx_id_to_self_stash_insert_wtx tx_id (ss_sealed_hex ss) w;
          scope = self_stash_scope_from (case ss_key ss of None \<Rightarrow> [] | Some key \<Rightarrow> key);
          key = \<lparr>sso_owner = unwrap_or_default sender, sso_scope = scope,
                 sso_block_time = rh_timestamp block_header, sso_block_hash = rh_hash block_header,
                 sso_version = 1, sso_tx_id = tx_id\<rparr>;
          key_by_scope = \<lparr>sss_scope = scope, sss_block_time = rh_timestamp block_header,
                 sss_owner = unwrap_or_default sender, sss_block_hash = rh_hash block_header,
                 sss_version = 1, sss_tx_id = tx_id\<rparr>
      in if sender \<noteq> None
         then (entries, self_stash_by_scope_insert_wtx key_by_scope
                          (self_stash_by_owner_insert_wtx key w1))
         else (entries @
           [\<lparr>ie_partition_id = PidSelfStashByOwner, ie_action = InsertByKeySender,
             ie_partition_key = sso_bytes key\<rparr>,
            \<lparr>ie_partition_id = PidSelfStashByScope, ie_action = InsertByKeySender,
             ie_partition_key = sss_bytes key_by_scope\<rparr>], w1))"

text \<open>The \<^verbatim>\<open>match op\<close>: what is stored, and the push message type if there is one.\<close>

fun store_operation ::
    "sealed_operation \<Rightarrow> wtx \<Rightarrow> rpc_header \<Rightarrow> hash \<Rightarrow> address_payload \<Rightarrow> u64 \<Rightarrow> address_payload option \<Rightarrow>
     (pending_write \<times> push_message_type option) res" where
  "store_operation (SealedMessageOrSealedHandshakeVNone hk) w header tx_id receiver amount sender =
     rbind (handle_handshake [] w header tx_id hk receiver sender) (\<lambda>r. Ok (r, Some PushHandshake))"
| "store_operation (SealedHandshakeV2 hk) w header tx_id receiver amount sender =
     rbind (handle_handshake_v2 [] w header tx_id hk receiver sender) (\<lambda>r. Ok (r, Some PushHandshake))"
| "store_operation (ContextualMessageV1 cm) w header tx_id receiver amount sender =
     Ok (handle_contextual_message [] w sender header tx_id cm receiver, Some PushContextual)"
| "store_operation (PaymentV1 pm) w header tx_id receiver amount sender =
     rbind (handle_payment [] w header tx_id receiver amount pm sender) (\<lambda>r. Ok (r, Some PushPayment))"
| "store_operation (SelfStashV1 ss) w header tx_id receiver amount sender =
     Ok (handle_self_stash [] w sender header tx_id ss receiver, None)"

section \<open>Transactions and blocks\<close>

definition tx_identifier :: "('addr, 'x) node_lib_scheme \<Rightarrow> rpc_transaction \<Rightarrow> hash res" where
  "tx_identifier L tx =
     (case tx_verbose_id tx of Some i \<Rightarrow> Ok i | None \<Rightarrow> computed_tx_id L tx)"

text \<open>The amount and the receiver are those of the first output, or zero and the empty address.\<close>

definition amount_and_receiver ::
    "('addr, 'x) node_lib_scheme \<Rightarrow> rpc_transaction \<Rightarrow> (u64 \<times> address_payload) res" where
  "amount_and_receiver L tx =
     (case tx_outputs tx of
        [] \<Rightarrow> Ok (0, address_default)
      | out # _ \<Rightarrow> rbind (address_payload_from_script L (out_script_public_key out))
          (\<lambda>addr. Ok (out_value out, addr)))"

text \<open>
  The sender is the receiver of the message that the first input spends, if that is output 0
  of a message transaction whose acceptance entry is committed.
\<close>

definition known_sender :: "rpc_transaction \<Rightarrow> db \<Rightarrow> address_payload option res" where
  "known_sender tx d =
     rbind (unwrap ''called unwrap on a None value''
              (case tx_inputs tx of [] \<Rightarrow> None | i # _ \<Rightarrow> Some i)) (\<lambda>sender_outpoint.
       if op_index sender_outpoint = 0
       then rbind (key_by_tx_id (op_transaction_id sender_outpoint) d)
              (\<lambda>key. Ok (map_option ak_receiver key))
       else Ok None)"

definition handle_transaction ::
    "('addr, 'x) node_lib_scheme \<Rightarrow> db \<Rightarrow> rpc_header \<Rightarrow> bool \<Rightarrow> rpc_transaction \<Rightarrow>
     wtx \<times> push_dispatch_event list \<Rightarrow> (wtx \<times> push_dispatch_event list) res" where
  "handle_transaction L d block_header collect_push_events tx = (\<lambda>(w, push_events).
     rbind (tx_identifier L tx) (\<lambda>tx_id.
     case parse_sealed_operation (tx_payload tx) of
       None \<Rightarrow> Ok (w, push_events)
     | Some sealed_op \<Rightarrow>
         rbind (amount_and_receiver L tx) (\<lambda>(amount, receiver).
         rbind (known_sender tx d) (\<lambda>sender.
         rbind (store_operation sealed_op w block_header tx_id receiver amount sender)
           (\<lambda>((entries, w1), message_type).
             let push_events' =
                   (case message_type of
                      Some mt \<Rightarrow>
                        if collect_push_events
                        then push_events @
                          [\<lparr>pe_message_type = mt, pe_tx_id = tx_id, pe_sender = sender,
                            pe_receiver = receiver,
                            pe_amount = (if mt = PushPayment then Some amount else None),
                            pe_payload = Some (tx_payload tx),
                            pe_timestamp = rh_timestamp block_header\<rparr>]
                        else push_events
                    | None \<Rightarrow> push_events)
             in Ok (acceptance_insert_wtx \<lparr>ak_tx_id = tx_id, ak_receiver = receiver\<rparr> entries w1,
                    push_events'))))))"

text \<open>
  The header and the DAA index are written directly, not through the transaction; a block
  whose header is there already is skipped.
\<close>

definition handle_block ::
    "('addr, 'x) node_lib_scheme \<Rightarrow> rpc_block \<Rightarrow> bool \<Rightarrow> wtx \<times> push_dispatch_event list \<Rightarrow>
     db \<Rightarrow> indexer_metrics \<Rightarrow> (db \<times> indexer_metrics \<times> wtx \<times> push_dispatch_event list) res" where
  "handle_block L block collect_push_events = (\<lambda>(w, push_events) d m.
     let h = blk_header block;
         (already_processed, d1) =
           insert_compact_header (rh_hash h) (of_list (to_le_bytes (rh_blue_work h)))
             (rh_daa_score h) d
     in if already_processed then Ok (d1, m, w, push_events)
        else
          let d2 = daa_index_insert (rh_daa_score h) (rh_hash h)
                     (of_list (to_be_bytes (rh_blue_work h))) d1
          in rbind (rfold (handle_transaction L d2 h collect_push_events) (blk_transactions block)
                      (w, push_events))
               (\<lambda>(w', push_events'). Ok (d2, increment_blocks_processed m, w', push_events')))"

section \<open>Gaps and cursors\<close>

definition last_real_time_block :: "db \<Rightarrow> hash option res" where
  "last_real_time_block d = get_latest_block_cursor d"

definition insert_gap :: "hash \<Rightarrow> hash \<Rightarrow> db \<Rightarrow> db" where
  "insert_gap from to d = add_gap \<lparr>gap_to = to, gap_from = from\<rparr> d"

definition update_block :: "wtx \<Rightarrow> hash \<Rightarrow> wtx" where
  "update_block w h = set_latest_block_cursor h w"

definition handle_first_connect :: "hash \<Rightarrow> hash \<Rightarrow> db \<Rightarrow> (block_gap list \<times> db) res" where
  "handle_first_connect sink pp d =
     rbind (last_real_time_block d) (\<lambda>cursor.
       let gap = (case cursor of
             None \<Rightarrow> Some \<lparr>gap_to = sink, gap_from = pp\<rparr>
           | Some block \<Rightarrow>
               if block \<noteq> sink then Some \<lparr>gap_to = sink, gap_from = block\<rparr> else None)
       in rbind (rmap id (get_all_gaps d)) (\<lambda>gaps.
            case gap of
              Some g \<Rightarrow> Ok (gaps @ [g], insert_gap (gap_from g) (gap_to g) d)
            | None \<Rightarrow> Ok (gaps, d)))"

text \<open>
  Push events are offered to a bounded queue and dropped when it is full or closed;
  \<open>queued n\<close> says whether the \<open>n\<close>-th offer is taken.
\<close>

definition dispatch_push_events ::
    "(nat \<Rightarrow> bool) option \<Rightarrow> push_dispatch_event list \<Rightarrow> push_dispatch_event list" where
  "dispatch_push_events push_event_tx events =
     (case push_event_tx of
        None \<Rightarrow> []
      | Some queued \<Rightarrow> map snd (filter (\<lambda>(n, _). queued n) (enumerate 0 events)))"

section \<open>The loop\<close>

text \<open>
  A gap filler is a task of its own with an interruption channel; the model names it by a
  number. The effects are what the loop sends: fillers spawned, interrupted, or left with a
  closed channel, compact headers for the virtual chain processor, and push events.
\<close>

datatype bp_effect =
    SpawnFiller nat hash hash
  | Interrupt nat
  | CloseInterrupt nat
  | ProcessedBlock compact_header
  | PushEvent push_dispatch_event

record bp_state =
  has_first_connect :: bool
  gaps_fillers :: "(hash \<times> nat) list"
  is_shutdown :: bool
  last_processed_block :: "hash option"
  gaps_filling_in_progress :: u64
  next_filler :: nat
  bp_db :: db
  bp_metrics :: indexer_metrics
  bp_effects :: "bp_effect list"

datatype bp_input =
    Notification block_notification
  | GapFilling gap_filling_progress

text \<open>
  What surrounds a run: the commits of other actors that make a block's transaction fail
  before it succeeds, and the state of the push queue.
\<close>

record bp_env =
  conflicts :: "rpc_block \<Rightarrow> (db \<Rightarrow> db) list"
  push_queue :: "(nat \<Rightarrow> bool) option"

definition emit :: "bp_effect list \<Rightarrow> bp_state \<Rightarrow> bp_state" where
  "emit es st = st\<lparr>bp_effects := bp_effects st @ es\<rparr>"

definition realtime_body ::
    "('addr, 'x) node_lib_scheme \<Rightarrow> rpc_block \<Rightarrow> db \<Rightarrow> indexer_metrics \<Rightarrow>
     (db \<times> indexer_metrics \<times> wtx \<times> push_dispatch_event list) res" where
  "realtime_body L block d m =
     rbind (handle_block L block True (begin_wtx d, []) d m) (\<lambda>(d', m', w, push_events).
       Ok (d', m', update_block w (rh_hash (blk_header block)), push_events))"

definition gap_body ::
    "('addr, 'x) node_lib_scheme \<Rightarrow> hash \<Rightarrow> bool \<Rightarrow> rpc_block \<Rightarrow> db \<Rightarrow> indexer_metrics \<Rightarrow>
     (db \<times> indexer_metrics \<times> wtx \<times> push_dispatch_event list) res" where
  "gap_body L to is_last block d m =
     rbind (handle_block L block False (begin_wtx d, []) d m) (\<lambda>(d', m', w, push_events).
       Ok (d', m',
           if is_last then remove_gap_wtx to w
           else update_gap_wtx \<lparr>gap_to = to, gap_from = rh_hash (blk_header block)\<rparr> w,
           push_events))"

definition notify_processed :: "rpc_block \<Rightarrow> bp_state \<Rightarrow> bp_state" where
  "notify_processed block st =
     (if is_shutdown st then st
      else emit [ProcessedBlock (compact_header_of (blk_header block))] st)"

definition process_realtime_block ::
    "('addr, 'x) node_lib_scheme \<Rightarrow> bp_env \<Rightarrow> rpc_block \<Rightarrow> bp_state \<Rightarrow> bp_state res" where
  "process_realtime_block L env block st =
     rbind (transact (realtime_body L block) (conflicts env block) (bp_db st) (bp_metrics st))
       (\<lambda>(d, m, push_events).
         Ok (notify_processed block
           (emit (map PushEvent (dispatch_push_events (push_queue env) push_events))
             (st\<lparr>bp_db := d, bp_metrics := m,
                last_processed_block := Some (rh_hash (blk_header block))\<rparr>))))"

definition process_gap_block ::
    "('addr, 'x) node_lib_scheme \<Rightarrow> bp_env \<Rightarrow> hash \<Rightarrow> bool \<times> rpc_block \<Rightarrow> bp_state \<Rightarrow> bp_state res" where
  "process_gap_block L env to = (\<lambda>(is_last, block) st.
     rbind (transact (gap_body L to is_last block) (conflicts env block) (bp_db st) (bp_metrics st))
       (\<lambda>(d, m, _). Ok (notify_processed block (st\<lparr>bp_db := d, bp_metrics := m\<rparr>))))"

text \<open>\<^verbatim>\<open>HashMap::insert\<close>: the sender of a replaced entry is dropped.\<close>

definition add_filler :: "hash \<Rightarrow> hash \<Rightarrow> bp_state \<Rightarrow> bp_state" where
  "add_filler from to st =
     emit (SpawnFiller (next_filler st) from to #
           (case map_of (gaps_fillers st) to of None \<Rightarrow> [] | Some n \<Rightarrow> [CloseInterrupt n]))
       (st\<lparr>gaps_fillers := (to, next_filler st) # filter (\<lambda>(h, _). h \<noteq> to) (gaps_fillers st),
          next_filler := Suc (next_filler st)\<rparr>)"

definition remove_filler :: "hash \<Rightarrow> bp_state \<Rightarrow> bp_state" where
  "remove_filler to st =
     emit (case map_of (gaps_fillers st) to of None \<Rightarrow> [] | Some n \<Rightarrow> [CloseInterrupt n])
       (st\<lparr>gaps_fillers := filter (\<lambda>(h, _). h \<noteq> to) (gaps_fillers st)\<rparr>)"

definition interrupt_fillers :: "bp_state \<Rightarrow> bp_state" where
  "interrupt_fillers st =
     emit (map (Interrupt \<circ> snd) (gaps_fillers st)) (st\<lparr>gaps_fillers := []\<rparr>)"

definition handle_connected :: "hash \<Rightarrow> hash \<Rightarrow> bp_state \<Rightarrow> bp_state res" where
  "handle_connected sink pp st =
     (if \<not> has_first_connect st then
        rbind (handle_first_connect sink pp (bp_db st)) (\<lambda>(gaps, d).
          let st1 = fold (\<lambda>g. add_filler (gap_from g) (gap_to g)) gaps
                      (emit (map (CloseInterrupt \<circ> snd) (gaps_fillers st))
                        (st\<lparr>has_first_connect := True, bp_db := d, gaps_fillers := []\<rparr>))
          in Ok (st1\<lparr>gaps_filling_in_progress := word_of_nat (length (gaps_fillers st1))\<rparr>))
      else case last_processed_block st of
          None \<Rightarrow> Ok st
        | Some from \<Rightarrow>
            let st1 = add_filler from sink
                        (st\<lparr>last_processed_block := None, bp_db := insert_gap from sink (bp_db st)\<rparr>)
            in Ok (st1\<lparr>gaps_filling_in_progress := gaps_filling_in_progress st1 + 1\<rparr>))"

definition mark_last :: "rpc_block list \<Rightarrow> (bool \<times> rpc_block) list" where
  "mark_last blocks = map (\<lambda>(n, b). (n = length blocks - 1, b)) (enumerate 0 blocks)"

text \<open>
  The counter is decremented with wrap-around, as in a release build; with no blocks the
  computation of the last index underflows to an index that no block has.
\<close>

definition filler_done :: "hash \<Rightarrow> bp_state \<Rightarrow> bp_state" where
  "filler_done to st =
     (remove_filler to st)\<lparr>gaps_filling_in_progress := gaps_filling_in_progress st - 1\<rparr>"

fun bp_handle ::
    "('addr, 'x) node_lib_scheme \<Rightarrow> bp_env \<Rightarrow> bp_input \<Rightarrow> bp_state \<Rightarrow> bp_state res" where
  "bp_handle L env (Notification (BlockConnected sink pp)) st = handle_connected sink pp st"
| "bp_handle L env (Notification BlockDisconnected) st = Ok (interrupt_fillers st)"
| "bp_handle L env (Notification BlockShutdown) st =
     Ok (interrupt_fillers (st\<lparr>is_shutdown := True\<rparr>))"
| "bp_handle L env (Notification (BlockAdded block)) st = process_realtime_block L env block st"
| "bp_handle L env (GapFilling (GapInterrupted to)) st = Ok (filler_done to st)"
| "bp_handle L env (GapFilling (GapError to)) st = Ok (filler_done to st)"
| "bp_handle L env (GapFilling (GapUpdate to blocks)) st =
     rfold (process_gap_block L env to) (map (Pair False) blocks) st"
| "bp_handle L env (GapFilling (GapFinished to blocks)) st =
     rbind (rfold (process_gap_block L env to) (mark_last blocks) st)
       (\<lambda>st'. Ok (filler_done to st'))"

text \<open>One turn of the loop: the new state, and whether the loop returns.\<close>

definition bp_step ::
    "('addr, 'x) node_lib_scheme \<Rightarrow> bp_env \<Rightarrow> bp_input \<Rightarrow> bp_state \<Rightarrow> (bp_state \<times> bool) res" where
  "bp_step L env input st =
     rbind (bp_handle L env input st) (\<lambda>st'.
       Ok (st', is_shutdown st' \<and> gaps_filling_in_progress st' = 0))"

text \<open>The loop over the inputs as they arrive; it also ends when the inputs do.\<close>

fun bp_process ::
    "('addr, 'x) node_lib_scheme \<Rightarrow> bp_env \<Rightarrow> bp_input list \<Rightarrow> bp_state \<Rightarrow> (bp_state \<times> bool) res" where
  "bp_process L env [] st = Ok (st, False)"
| "bp_process L env (input # inputs) st =
     rbind (bp_step L env input st) (\<lambda>(st', stop).
       if stop then Ok (st', True) else bp_process L env inputs st')"

definition bp_initial :: "db \<Rightarrow> indexer_metrics \<Rightarrow> bp_state" where
  "bp_initial d m =
     \<lparr>has_first_connect = False, gaps_fillers = [], is_shutdown = False,
      last_processed_block = None, gaps_filling_in_progress = 0, next_filler = 0,
      bp_db = d, bp_metrics = m, bp_effects = []\<rparr>"

end
