(* ===== verification/Block_Messages.thy ===== *)
theory Block_Messages
  imports Block_Processor
begin

text \<open>
  What block processing leaves in the database: the rows of every message and the entries
  that wait for an unknown sender, the effect of a transaction and of a block, and the
  theorems that the messages of a block are found afterwards, and that a conflict at commit
  loses them.
\<close>

section \<open>What a message leaves in the database\<close>

text \<open>
  What a message leaves in the database when its sender is known: the payload by transaction
  and the rows of its indexes.
\<close>

definition hs_key :: "byte \<Rightarrow> rpc_header \<Rightarrow> hash \<Rightarrow> address_payload \<Rightarrow> handshake_key_by_receiver" where
  "hs_key version h tx_id receiver =
     \<lparr>hkr_receiver = receiver, hkr_block_time = rh_timestamp h, hkr_block_hash = rh_hash h,
      hkr_version = version, hkr_tx_id = tx_id\<rparr>"

definition hs_sender_key ::
    "byte \<Rightarrow> rpc_header \<Rightarrow> hash \<Rightarrow> address_payload \<Rightarrow> address_payload \<Rightarrow> handshake_key_by_sender" where
  "hs_sender_key version h tx_id receiver sender =
     \<lparr>hks_sender = sender, hks_block_time = rh_timestamp h, hks_block_hash = rh_hash h,
      hks_receiver = receiver, hks_version = version, hks_tx_id = tx_id\<rparr>"

definition pay_key :: "rpc_header \<Rightarrow> hash \<Rightarrow> address_payload \<Rightarrow> payment_key_by_receiver" where
  "pay_key h tx_id receiver =
     \<lparr>pkr_receiver = receiver, pkr_block_time = rh_timestamp h, pkr_block_hash = rh_hash h,
      pkr_version = 0, pkr_tx_id = tx_id\<rparr>"

definition pay_sender_key ::
    "rpc_header \<Rightarrow> hash \<Rightarrow> address_payload \<Rightarrow> address_payload \<Rightarrow> payment_key_by_sender" where
  "pay_sender_key h tx_id receiver sender =
     \<lparr>pks_sender = sender, pks_block_time = rh_timestamp h, pks_block_hash = rh_hash h,
      pks_receiver = receiver, pks_version = 0, pks_tx_id = tx_id\<rparr>"

definition ctx_key ::
    "rpc_header \<Rightarrow> hash \<Rightarrow> bytes \<Rightarrow> address_payload \<Rightarrow> address_payload \<Rightarrow> contextual_message_by_sender_key" where
  "ctx_key h tx_id alias receiver sender =
     \<lparr>cmk_sender = sender, cmk_alias = of_list (take (min 16 (length alias)) alias),
      cmk_block_time = rh_timestamp h, cmk_block_hash = rh_hash h, cmk_receiver = receiver,
      cmk_version = 1, cmk_tx_id = tx_id\<rparr>"

definition stash_scope_of :: "sealed_self_stash_v1 \<Rightarrow> self_stash_scope" where
  "stash_scope_of ss = self_stash_scope_from (case ss_key ss of None \<Rightarrow> [] | Some key \<Rightarrow> key)"

definition stash_owner_key ::
    "rpc_header \<Rightarrow> hash \<Rightarrow> self_stash_scope \<Rightarrow> address_payload \<Rightarrow> self_stash_key_by_owner" where
  "stash_owner_key h tx_id scope sender =
     \<lparr>sso_owner = sender, sso_scope = scope, sso_block_time = rh_timestamp h,
      sso_block_hash = rh_hash h, sso_version = 1, sso_tx_id = tx_id\<rparr>"

definition stash_scope_key ::
    "rpc_header \<Rightarrow> hash \<Rightarrow> self_stash_scope \<Rightarrow> address_payload \<Rightarrow> self_stash_key_by_scope" where
  "stash_scope_key h tx_id scope sender =
     \<lparr>sss_scope = scope, sss_block_time = rh_timestamp h, sss_owner = sender,
      sss_block_hash = rh_hash h, sss_version = 1, sss_tx_id = tx_id\<rparr>"

lemmas message_keys = hs_key_def hs_sender_key_def pay_key_def pay_sender_key_def ctx_key_def
  stash_scope_of_def stash_owner_key_def stash_scope_key_def

type_synonym row = "part \<times> bytes \<times> bytes"

fun payload_row :: "sealed_operation \<Rightarrow> hash \<Rightarrow> u64 \<Rightarrow> row" where
  "payload_row (SealedMessageOrSealedHandshakeVNone hk) tx_id amount =
     (PTxIdToHandshake, list_of tx_id, hk_sealed_hex hk)"
| "payload_row (SealedHandshakeV2 hk) tx_id amount =
     (PTxIdToHandshake, list_of tx_id, hk2_sealed_hex hk)"
| "payload_row (ContextualMessageV1 cm) tx_id amount =
     (PTxIdToContextualMessage, list_of tx_id, cm_sealed_hex cm)"
| "payload_row (PaymentV1 pm) tx_id amount =
     (PTxIdToPayment, list_of tx_id, to_le_bytes amount @ pm_sealed_hex pm)"
| "payload_row (SelfStashV1 ss) tx_id amount =
     (PTxIdToSelfStash, list_of tx_id, ss_sealed_hex ss)"

text \<open>The row under the receiver, for the messages that have one.\<close>

fun receiver_rows :: "sealed_operation \<Rightarrow> rpc_header \<Rightarrow> hash \<Rightarrow> address_payload \<Rightarrow> address_payload \<Rightarrow> row list" where
  "receiver_rows (SealedMessageOrSealedHandshakeVNone _) h tx_id receiver sender =
     [(PHandshakeByReceiver, hkr_bytes (hs_key 0 h tx_id receiver), addr_bytes sender)]"
| "receiver_rows (SealedHandshakeV2 _) h tx_id receiver sender =
     [(PHandshakeByReceiver, hkr_bytes (hs_key 2 h tx_id receiver), addr_bytes sender)]"
| "receiver_rows (PaymentV1 _) h tx_id receiver sender =
     [(PPaymentByReceiver, pkr_bytes (pay_key h tx_id receiver), addr_bytes sender)]"
| "receiver_rows _ h tx_id receiver sender = []"

text \<open>The rows under the sender.\<close>

fun sender_rows :: "sealed_operation \<Rightarrow> rpc_header \<Rightarrow> hash \<Rightarrow> address_payload \<Rightarrow> address_payload \<Rightarrow> row list" where
  "sender_rows (SealedMessageOrSealedHandshakeVNone _) h tx_id receiver sender =
     [(PHandshakeBySender, hks_bytes (hs_sender_key 0 h tx_id receiver sender), [])]"
| "sender_rows (SealedHandshakeV2 _) h tx_id receiver sender =
     [(PHandshakeBySender, hks_bytes (hs_sender_key 2 h tx_id receiver sender), [])]"
| "sender_rows (PaymentV1 _) h tx_id receiver sender =
     [(PPaymentBySender, pks_bytes (pay_sender_key h tx_id receiver sender), [])]"
| "sender_rows (ContextualMessageV1 cm) h tx_id receiver sender =
     [(PContextualMessageBySender, cmk_bytes (ctx_key h tx_id (cm_alias cm) receiver sender), [])]"
| "sender_rows (SelfStashV1 ss) h tx_id receiver sender =
     [(PSelfStashByOwner, sso_bytes (stash_owner_key h tx_id (stash_scope_of ss) sender), []),
      (PSelfStashByScope, sss_bytes (stash_scope_key h tx_id (stash_scope_of ss) sender), [])]"

definition insert_rows :: "row list \<Rightarrow> db \<Rightarrow> db" where
  "insert_rows rows d = fold (\<lambda>(p, k, v). db_insert p k v) rows d"

lemma insert_rows_simps [simp]:
  "insert_rows [] d = d"
  "insert_rows ((p, k, v) # rows) d = insert_rows rows (db_insert p k v d)"
  "insert_rows (rows @ rows') d = insert_rows rows' (insert_rows rows d)"
  by (simp_all add: insert_rows_def)

definition message_rows ::
    "sealed_operation \<Rightarrow> rpc_header \<Rightarrow> hash \<Rightarrow> address_payload \<Rightarrow> u64 \<Rightarrow> address_payload \<Rightarrow> row list" where
  "message_rows sealed_op h tx_id receiver amount sender =
     payload_row sealed_op tx_id amount # receiver_rows sealed_op h tx_id receiver sender @
     sender_rows sealed_op h tx_id receiver sender"

text \<open>The message is new: no row under its receiver yet.\<close>

definition new_message :: "sealed_operation \<Rightarrow> rpc_header \<Rightarrow> hash \<Rightarrow> address_payload \<Rightarrow> db \<Rightarrow> bool" where
  "new_message sealed_op h tx_id receiver d \<longleftrightarrow>
     (\<forall>(p, k, v) \<in> set (receiver_rows sealed_op h tx_id receiver address_default). tget (d p) k = None)"

text \<open>The entries that wait for the sender.\<close>

fun waiting_entries :: "sealed_operation \<Rightarrow> rpc_header \<Rightarrow> hash \<Rightarrow> address_payload \<Rightarrow> insertion_entry list" where
  "waiting_entries (SealedMessageOrSealedHandshakeVNone _) h tx_id receiver =
     [\<lparr>ie_partition_id = PidHandshakeByReceiver, ie_action = UpdateValueSender,
       ie_partition_key = hkr_bytes (hs_key 0 h tx_id receiver)\<rparr>,
      \<lparr>ie_partition_id = PidHandshakeBySender, ie_action = InsertByKeySender,
       ie_partition_key = hks_bytes (hs_sender_key 0 h tx_id receiver address_default)\<rparr>]"
| "waiting_entries (SealedHandshakeV2 _) h tx_id receiver =
     [\<lparr>ie_partition_id = PidHandshakeBySender, ie_action = InsertByKeySender,
       ie_partition_key = hks_bytes (hs_sender_key 2 h tx_id receiver address_default)\<rparr>,
      \<lparr>ie_partition_id = PidHandshakeByReceiver, ie_action = UpdateValueSender,
       ie_partition_key = hkr_bytes (hs_key 2 h tx_id receiver)\<rparr>]"
| "waiting_entries (PaymentV1 _) h tx_id receiver =
     [\<lparr>ie_partition_id = PidPaymentByReceiver, ie_action = UpdateValueSender,
       ie_partition_key = pkr_bytes (pay_key h tx_id receiver)\<rparr>,
      \<lparr>ie_partition_id = PidPaymentBySender, ie_action = InsertByKeySender,
       ie_partition_key = pks_bytes (pay_sender_key h tx_id receiver address_default)\<rparr>]"
| "waiting_entries (ContextualMessageV1 cm) h tx_id receiver =
     [\<lparr>ie_partition_id = PidContextualMessageBySender, ie_action = InsertByKeySender,
       ie_partition_key = cmk_bytes (ctx_key h tx_id (cm_alias cm) receiver address_default)\<rparr>]"
| "waiting_entries (SelfStashV1 ss) h tx_id receiver =
     [\<lparr>ie_partition_id = PidSelfStashByOwner, ie_action = InsertByKeySender,
       ie_partition_key = sso_bytes (stash_owner_key h tx_id (stash_scope_of ss) address_default)\<rparr>,
      \<lparr>ie_partition_id = PidSelfStashByScope, ie_action = InsertByKeySender,
       ie_partition_key = sss_bytes (stash_scope_key h tx_id (stash_scope_of ss) address_default)\<rparr>]"

lemmas insert_wtx_defs = handshake_by_receiver_insert_wtx_def handshake_by_sender_insert_wtx_def
  tx_id_to_handshake_insert_wtx_def payment_by_receiver_insert_wtx_def
  payment_by_sender_insert_wtx_def tx_id_to_payment_insert_wtx_def contextual_message_insert_def
  tx_id_to_contextual_insert_wtx_def self_stash_by_owner_insert_wtx_def
  self_stash_by_scope_insert_wtx_def tx_id_to_self_stash_insert_wtx_def

lemmas handler_defs = handle_handshake_def handle_handshake_v2_def handle_contextual_message_def
  handle_payment_def handle_self_stash_def Let_def

lemma unwrap_or_default_simps [simp]:
  "unwrap_or_default None = address_default" "unwrap_or_default (Some s) = s"
  by (simp_all add: unwrap_or_default_def)

lemma keep_known_sender_simps [simp]:
  "keep_known_sender s None = Ok (addr_bytes s)"
  "keep_known_sender s (Some (addr_bytes address_default)) = Ok (addr_bytes s)"
  by (simp_all add: keep_known_sender_def)

fun push_type :: "sealed_operation \<Rightarrow> push_message_type option" where
  "push_type (SealedMessageOrSealedHandshakeVNone _) = Some PushHandshake"
| "push_type (SealedHandshakeV2 _) = Some PushHandshake"
| "push_type (ContextualMessageV1 _) = Some PushContextual"
| "push_type (PaymentV1 _) = Some PushPayment"
| "push_type (SelfStashV1 _) = None"

text \<open>The rows that are stored at once: all of them, or those that need no sender.\<close>

fun rows_at_once ::
    "sealed_operation \<Rightarrow> rpc_header \<Rightarrow> hash \<Rightarrow> address_payload \<Rightarrow> u64 \<Rightarrow> address_payload option \<Rightarrow> row list" where
  "rows_at_once sealed_op h tx_id receiver amount (Some sender) =
     message_rows sealed_op h tx_id receiver amount sender"
| "rows_at_once sealed_op h tx_id receiver amount None =
     payload_row sealed_op tx_id amount # receiver_rows sealed_op h tx_id receiver address_default"

fun entries_left :: "sealed_operation \<Rightarrow> rpc_header \<Rightarrow> hash \<Rightarrow> address_payload \<Rightarrow> address_payload option \<Rightarrow> insertion_entry list" where
  "entries_left sealed_op h tx_id receiver (Some sender) = []"
| "entries_left sealed_op h tx_id receiver None = waiting_entries sealed_op h tx_id receiver"

lemma rows_at_once_acceptance [simp]:
  "insert_rows (rows_at_once sealed_op h tx_id receiver amount sender) d PTxIdToAcceptance =
     d PTxIdToAcceptance"
  by (cases sealed_op; cases sender; simp add: message_rows_def)

lemma store_operation_effect:
  assumes "new_message sealed_op h tx_id receiver (view w)"
  shows "\<exists>w'. store_operation sealed_op w h tx_id receiver amount sender =
      Ok ((entries_left sealed_op h tx_id receiver sender, w'), push_type sealed_op) \<and>
    view w' = insert_rows (rows_at_once sealed_op h tx_id receiver amount sender) (view w) \<and>
    snapshot w' = snapshot w"
  using assms
  by (cases sealed_op; cases sender)
    (simp_all add: handler_defs insert_wtx_defs message_rows_def message_keys new_message_def wtx_get_def)

definition rows_in :: "row list \<Rightarrow> db \<Rightarrow> bool" where
  "rows_in rows d \<longleftrightarrow> (\<forall>(p, k, v) \<in> set rows. tget (d p) k = Some v)"

lemma insert_rows_other:
  "p \<notin> fst ` set rows \<Longrightarrow> insert_rows rows d p = d p"
  by (induction rows arbitrary: d) auto

text \<open>The push events that a stored message adds.\<close>

definition message_events ::
    "bool \<Rightarrow> push_message_type option \<Rightarrow> rpc_header \<Rightarrow> rpc_transaction \<Rightarrow> hash \<Rightarrow> address_payload option \<Rightarrow>
     address_payload \<Rightarrow> u64 \<Rightarrow> push_dispatch_event list" where
  "message_events collect mt h tx tx_id sender receiver amount =
     (case mt of
        Some t \<Rightarrow>
          if collect
          then [\<lparr>pe_message_type = t, pe_tx_id = tx_id, pe_sender = sender, pe_receiver = receiver,
                 pe_amount = (if t = PushPayment then Some amount else None),
                 pe_payload = Some (tx_payload tx), pe_timestamp = rh_timestamp h\<rparr>]
          else []
      | None \<Rightarrow> [])"

lemma handle_transaction_run:
  assumes "parse_sealed_operation (tx_payload tx) = Some sealed_op" and "tx_identifier L tx = Ok tx_id"
    and "amount_and_receiver L tx = Ok (amount, receiver)" and "known_sender tx d = Ok sender"
    and "store_operation sealed_op w h tx_id receiver amount sender = Ok ((es, w1), mt)"
  shows "handle_transaction L d h collect tx (w, pe) =
    Ok (acceptance_insert_wtx \<lparr>ak_tx_id = tx_id, ak_receiver = receiver\<rparr> es w1,
      pe @ message_events collect mt h tx tx_id sender receiver amount)"
  using assms by (auto simp: handle_transaction_def message_events_def split: option.split)

lemma handle_transaction_effect:
  assumes tx: "parse_sealed_operation (tx_payload tx) = Some sealed_op" "tx_identifier L tx = Ok tx_id"
      "amount_and_receiver L tx = Ok (amount, receiver)" "known_sender tx d = Ok sender"
    and new: "new_message sealed_op h tx_id receiver (view w)"
      "tget (view w PTxIdToAcceptance) (ak_bytes \<lparr>ak_tx_id = tx_id, ak_receiver = receiver\<rparr>) = None"
  shows "\<exists>w'. handle_transaction L d h collect tx (w, pe) =
      Ok (w', pe @ message_events collect (push_type sealed_op) h tx tx_id sender receiver amount) \<and>
    view w' = db_insert PTxIdToAcceptance (ak_bytes \<lparr>ak_tx_id = tx_id, ak_receiver = receiver\<rparr>)
      (acceptance_value avh_zeroed (entries_left sealed_op h tx_id receiver sender))
      (insert_rows (rows_at_once sealed_op h tx_id receiver amount sender) (view w)) \<and>
    snapshot w' = snapshot w"
proof -
  obtain w1 where w1: "store_operation sealed_op w h tx_id receiver amount sender =
      Ok ((entries_left sealed_op h tx_id receiver sender, w1), push_type sealed_op)"
    "view w1 = insert_rows (rows_at_once sealed_op h tx_id receiver amount sender) (view w)"
    "snapshot w1 = snapshot w"
    using store_operation_effect [OF new(1)] by blast
  then show ?thesis
    using handle_transaction_run [OF tx w1(1)] new(2)
    by (simp add: view_acceptance_insert snapshot_acceptance_insert)
qed

text \<open>The message is found by its payload partition and by every query of its kind.\<close>

fun message_found ::
    "sealed_operation \<Rightarrow> rpc_header \<Rightarrow> hash \<Rightarrow> address_payload \<Rightarrow> u64 \<Rightarrow> address_payload option \<Rightarrow> u64 \<Rightarrow> db \<Rightarrow> bool"
  where
  "message_found (SealedMessageOrSealedHandshakeVNone hk) h tx_id receiver amount sender t d \<longleftrightarrow>
     tx_id_to_handshake_get_rtx d tx_id = Some (hk_sealed_hex hk) \<and>
     Ok (hs_key 0 h tx_id receiver, unwrap_or_default sender)
       \<in> set (iter_by_receiver_from_block_time_rtx d receiver t) \<and>
     (\<forall>s. sender = Some s \<longrightarrow>
        Ok (hs_sender_key 0 h tx_id receiver s) \<in> set (iter_by_sender_from_block_time_rtx d s t))"
| "message_found (SealedHandshakeV2 hk) h tx_id receiver amount sender t d \<longleftrightarrow>
     tx_id_to_handshake_get_rtx d tx_id = Some (hk2_sealed_hex hk) \<and>
     Ok (hs_key 2 h tx_id receiver, unwrap_or_default sender)
       \<in> set (iter_by_receiver_from_block_time_rtx d receiver t) \<and>
     (\<forall>s. sender = Some s \<longrightarrow>
        Ok (hs_sender_key 2 h tx_id receiver s) \<in> set (iter_by_sender_from_block_time_rtx d s t))"
| "message_found (PaymentV1 pm) h tx_id receiver amount sender t d \<longleftrightarrow>
     tx_id_to_payment_get d tx_id = Ok (Some (amount, pm_sealed_hex pm)) \<and>
     Ok (pay_key h tx_id receiver, unwrap_or_default sender)
       \<in> set (get_by_receiver_from_block_time d receiver t) \<and>
     (\<forall>s. sender = Some s \<longrightarrow>
        Ok (pay_sender_key h tx_id receiver s) \<in> set (get_by_sender_from_block_time d s t))"
| "message_found (ContextualMessageV1 cm) h tx_id receiver amount sender t d \<longleftrightarrow>
     tx_id_to_contextual_get_rtx d tx_id = Some (cm_sealed_hex cm) \<and>
     (\<forall>s. sender = Some s \<longrightarrow>
        Ok (ctx_key h tx_id (cm_alias cm) receiver s)
          \<in> set (get_by_sender_alias_from_block_time d s (of_list (take 16 (cm_alias cm))) t))"
| "message_found (SelfStashV1 ss) h tx_id receiver amount sender t d \<longleftrightarrow>
     tx_id_to_self_stash_get_rtx d tx_id = Some (ss_sealed_hex ss) \<and>
     (\<forall>s. sender = Some s \<longrightarrow>
        Ok (stash_owner_key h tx_id (stash_scope_of ss) s)
          \<in> set (iter_by_owner_and_scope_from_block_time_rtx d (case ss_key ss of None \<Rightarrow> [] | Some k \<Rightarrow> k) s t) \<and>
        Ok (stash_scope_key h tx_id (stash_scope_of ss) s)
          \<in> set (iter_by_scope_from_block_time_rtx d (case ss_key ss of None \<Rightarrow> [] | Some k \<Rightarrow> k) t))"

lemma message_found_rows:
  assumes "rows_in (rows_at_once sealed_op h tx_id receiver amount sender) d"
    and "t \<le> rh_timestamp h" and "rh_timestamp h \<noteq> - 1"
  shows "message_found sealed_op h tx_id receiver amount sender t d"
  using assms
  by (cases sealed_op; cases sender)
    (auto simp: rows_in_def message_rows_def message_keys tx_id_to_handshake_get_rtx_def
      tx_id_to_payment_get_def tx_id_to_contextual_get_rtx_def tx_id_to_self_stash_get_rtx_def
      min_def intro!: query_hits)

lemma rows_in_insert_rows:
  "rows_in (rows_at_once sealed_op h tx_id receiver amount sender)
     (insert_rows (rows_at_once sealed_op h tx_id receiver amount sender) d)"
  by (cases sealed_op; cases sender) (simp_all add: rows_in_def message_rows_def message_keys)

section \<open>Blocks\<close>

text \<open>The partitions that the transactions of a block write.\<close>

definition message_parts :: "part set" where
  "message_parts = {PHandshakeByReceiver, PHandshakeBySender, PTxIdToHandshake,
     PContextualMessageBySender, PTxIdToContextualMessage, PPaymentByReceiver, PPaymentBySender,
     PTxIdToPayment, PTxIdToAcceptance, PSelfStashByOwner, PSelfStashByScope, PTxIdToSelfStash}"

lemma store_operation_touched:
  assumes "store_operation sealed_op w h tx_id receiver amount sender = Ok ((es, w'), mt)"
  shows "touched w' \<subseteq> touched w \<union> message_parts \<and> snapshot w' = snapshot w"
  using assms
  by (cases sealed_op; cases sender)
    (auto simp: handler_defs insert_wtx_defs message_parts_def)

lemma handle_transaction_cases:
  assumes "handle_transaction L d h collect tx (w, pe) = Ok (w', pe')"
  obtains "parse_sealed_operation (tx_payload tx) = None" "w' = w" "pe' = pe"
    | sealed_op tx_id amount receiver sender es w1 mt where
      "parse_sealed_operation (tx_payload tx) = Some sealed_op" "tx_identifier L tx = Ok tx_id"
      "amount_and_receiver L tx = Ok (amount, receiver)" "known_sender tx d = Ok sender"
      "store_operation sealed_op w h tx_id receiver amount sender = Ok ((es, w1), mt)"
      "w' = acceptance_insert_wtx \<lparr>ak_tx_id = tx_id, ak_receiver = receiver\<rparr> es w1"
proof (cases "parse_sealed_operation (tx_payload tx)")
  case None
  with assms that(1) show ?thesis by (auto simp: handle_transaction_def)
next
  case (Some sealed_op)
  with assms that(2) show ?thesis
    by (auto simp: handle_transaction_def Let_def)
qed

lemma handle_transaction_touched:
  assumes "handle_transaction L d h collect tx (w, pe) = Ok (w', pe')"
  shows "touched w' \<subseteq> touched w \<union> message_parts \<and> snapshot w' = snapshot w"
  using assms
proof (cases rule: handle_transaction_cases)
  case (2 sealed_op tx_id amount receiver sender es w1 mt)
  from store_operation_touched [OF this(5)] this(6) show ?thesis
    by (auto simp: acceptance_insert_wtx_def message_parts_def)
qed simp

lemma handle_transactions_touched:
  assumes "rfold (handle_transaction L d h collect) txs (w, pe) = Ok (w', pe')"
  shows "touched w' \<subseteq> touched w \<union> message_parts \<and> snapshot w' = snapshot w"
proof -
  have "touched (fst (w', pe')) \<subseteq> touched w \<union> message_parts \<and> snapshot (fst (w', pe')) = snapshot w"
  proof (rule rfold_invariant [OF _ assms])
    fix tx and s s' :: "wtx \<times> push_dispatch_event list"
    assume "touched (fst s) \<subseteq> touched w \<union> message_parts \<and> snapshot (fst s) = snapshot w"
      and "handle_transaction L d h collect tx s = Ok s'"
    with handle_transaction_touched [of L d h collect tx "fst s" "snd s" "fst s'" "snd s'"]
    show "touched (fst s') \<subseteq> touched w \<union> message_parts \<and> snapshot (fst s') = snapshot w"
      by fastforce
  qed simp
  then show ?thesis by simp
qed

text \<open>The direct writes of a block.\<close>

definition with_header :: "rpc_header \<Rightarrow> db \<Rightarrow> db" where
  "with_header h d = snd (insert_compact_header (rh_hash h) (of_list (to_le_bytes (rh_blue_work h)))
     (rh_daa_score h) d)"

definition with_daa_index :: "rpc_header \<Rightarrow> db \<Rightarrow> db" where
  "with_daa_index h d = daa_index_insert (rh_daa_score h) (rh_hash h)
     (of_list (to_be_bytes (rh_blue_work h))) (with_header h d)"

definition known_block :: "rpc_block \<Rightarrow> db \<Rightarrow> bool" where
  "known_block b d \<longleftrightarrow> tget (d PBlockCompactHeader) (list_of (rh_hash (blk_header b))) \<noteq> None"

lemma handle_block_known:
  "known_block b d \<Longrightarrow>
    handle_block L b collect (w, pe) d m = Ok (with_header (blk_header b) d, m, w, pe)"
  by (simp add: handle_block_def Let_def known_block_def with_header_def insert_compact_header_def)

lemma handle_block_new:
  "\<not> known_block b d \<Longrightarrow>
    handle_block L b collect (w, pe) d m =
      rbind (rfold (handle_transaction L (with_daa_index (blk_header b) d) (blk_header b) collect)
               (blk_transactions b) (w, pe))
        (\<lambda>(w', pe'). Ok (with_daa_index (blk_header b) d, increment_blocks_processed m, w', pe'))"
  by (simp add: handle_block_def Let_def known_block_def with_header_def with_daa_index_def
      insert_compact_header_def)

lemma direct_writes_other [simp]:
  "p \<noteq> PBlockCompactHeader \<Longrightarrow> with_header h d p = d p"
  "p \<noteq> PBlockCompactHeader \<Longrightarrow> p \<noteq> PDaaIndex \<Longrightarrow> with_daa_index h d p = d p"
  by (simp_all add: with_header_def with_daa_index_def insert_compact_header_def daa_index_insert_def)

lemma known_block_after [simp]:
  "known_block b (with_header (blk_header b) d)"
  "known_block b (with_daa_index (blk_header b) d)"
  by (simp_all add: known_block_def with_header_def with_daa_index_def insert_compact_header_def
      daa_index_insert_def)

lemma handle_block_effect:
  assumes "handle_block L b collect (w, pe) d m = Ok (d', m', w', pe')"
  shows "touched w' \<subseteq> touched w \<union> message_parts" and "snapshot w' = snapshot w"
    and "known_block b d'" and "\<And>p. p \<noteq> PBlockCompactHeader \<Longrightarrow> p \<noteq> PDaaIndex \<Longrightarrow> d' p = d p"
proof -
  have "touched w' \<subseteq> touched w \<union> message_parts \<and> snapshot w' = snapshot w \<and> known_block b d' \<and>
      (\<forall>p. p \<noteq> PBlockCompactHeader \<longrightarrow> p \<noteq> PDaaIndex \<longrightarrow> d' p = d p)"
  proof (cases "known_block b d")
    case True
    with assms show ?thesis by (auto simp: handle_block_known)
  next
    case False
    with assms show ?thesis
      by (auto simp: handle_block_new dest: handle_transactions_touched)
  qed
  then show "touched w' \<subseteq> touched w \<union> message_parts" and "snapshot w' = snapshot w"
    and "known_block b d'" and "\<And>p. p \<noteq> PBlockCompactHeader \<Longrightarrow> p \<noteq> PDaaIndex \<Longrightarrow> d' p = d p"
    by blast+
qed

text \<open>Every key of a message ends with the transaction it belongs to.\<close>

definition key_tx :: "bytes \<Rightarrow> bytes" where
  "key_tx k = drop (length k - 32) k"

lemma key_tx_row:
  "(p, k, v) \<in> set (rows_at_once sealed_op h tx_id receiver amount sender) \<Longrightarrow>
    key_tx k = list_of tx_id \<and> p \<noteq> PTxIdToAcceptance"
  by (cases sealed_op; cases sender)
    (auto simp: message_rows_def key_tx_def message_keys hkr_bytes_def hks_bytes_def pkr_bytes_def
      pks_bytes_def cmk_bytes_def sso_bytes_def sss_bytes_def)

lemma row_parts:
  "(p, k, v) \<in> set (rows_at_once sealed_op h tx_id receiver amount sender) \<Longrightarrow> p \<in> message_parts"
  by (cases sealed_op; cases sender) (auto simp: message_rows_def message_parts_def)

lemma insert_rows_get_other:
  "(\<And>v. (p, k, v) \<notin> set rows) \<Longrightarrow> tget (insert_rows rows d p) k = tget (d p) k"
proof (induction rows arbitrary: d)
  case (Cons r rows)
  then show ?case by (cases r) auto
qed simp

text \<open>A transaction that carries a message, with all that block processing reads of it.\<close>

definition carries ::
    "('addr, 'x) node_lib_scheme \<Rightarrow> db \<Rightarrow> rpc_transaction \<Rightarrow> sealed_operation \<Rightarrow> hash \<Rightarrow> u64 \<Rightarrow>
     address_payload \<Rightarrow> address_payload option \<Rightarrow> bool" where
  "carries L d tx sealed_op tx_id amount receiver sender \<longleftrightarrow>
     parse_sealed_operation (tx_payload tx) = Some sealed_op \<and> tx_identifier L tx = Ok tx_id \<and>
     amount_and_receiver L tx = Ok (amount, receiver) \<and> known_sender tx d = Ok sender"

definition brings_new ::
    "('addr, 'x) node_lib_scheme \<Rightarrow> db \<Rightarrow> rpc_header \<Rightarrow> db \<Rightarrow> rpc_transaction \<Rightarrow> bool" where
  "brings_new L d h d' tx \<longleftrightarrow>
     (\<forall>sealed_op tx_id amount receiver sender. carries L d tx sealed_op tx_id amount receiver sender \<longrightarrow>
        new_message sealed_op h tx_id receiver d')"

lemma rows_in_cong:
  "rows_in rows d \<Longrightarrow> (\<And>p k v. (p, k, v) \<in> set rows \<Longrightarrow> tget (d' p) k = tget (d p) k) \<Longrightarrow> rows_in rows d'"
  by (auto simp: rows_in_def)

lemma transaction_step:
  assumes run: "handle_transaction L d h collect tx (w, pe) = Ok (w', pe')"
    and new: "brings_new L d h (view w) tx"
  shows "p \<noteq> PTxIdToAcceptance \<Longrightarrow> (\<And>tx_id. tx_identifier L tx = Ok tx_id \<Longrightarrow> key_tx k \<noteq> list_of tx_id) \<Longrightarrow>
      tget (view w' p) k = tget (view w p) k"
    and "carries L d tx sealed_op tx_id amount receiver sender \<Longrightarrow>
      rows_in (rows_at_once sealed_op h tx_id receiver amount sender) (view w')"
proof -
  have "(p \<noteq> PTxIdToAcceptance \<longrightarrow> (\<forall>tx_id. tx_identifier L tx = Ok tx_id \<longrightarrow> key_tx k \<noteq> list_of tx_id) \<longrightarrow>
      tget (view w' p) k = tget (view w p) k) \<and>
    (carries L d tx sealed_op tx_id amount receiver sender \<longrightarrow>
      rows_in (rows_at_once sealed_op h tx_id receiver amount sender) (view w'))"
    using run
  proof (cases rule: handle_transaction_cases)
    case 1
    then show ?thesis by (simp add: carries_def)
  next
    case (2 op' tx_id' amount' receiver' sender' es w1 mt)
    let ?rows = "rows_at_once op' h tx_id' receiver' amount' sender'"
    have c: "carries L d tx op' tx_id' amount' receiver' sender'"
      by (simp add: carries_def 2)
    from new c have "new_message op' h tx_id' receiver' (view w)" unfolding brings_new_def by blast
    from store_operation_effect [OF this, of amount' sender'] 2(5)
    have w1: "view w1 = insert_rows ?rows (view w)" by auto
    have w': "tget (view w' q) j = tget (view w1 q) j" if "q \<noteq> PTxIdToAcceptance" for q j
      using that by (simp add: 2(6) view_acceptance_insert)
    have "tget (view w1 p) k = tget (view w p) k" if "key_tx k \<noteq> list_of tx_id'"
      unfolding w1 using that key_tx_row by (blast intro: insert_rows_get_other)
    moreover have "rows_in ?rows (view w')"
      by (rule rows_in_cong [of _ "view w1"])
        (simp_all only: w1 rows_in_insert_rows, use w' key_tx_row w1 in metis)
    moreover have "sealed_op = op' \<and> tx_id = tx_id' \<and> amount = amount' \<and> receiver = receiver' \<and> sender = sender'"
      if "carries L d tx sealed_op tx_id amount receiver sender"
      using that 2(1-4) by (simp add: carries_def)
    ultimately show ?thesis
      using w' 2(2) by metis
  qed
  then show "p \<noteq> PTxIdToAcceptance \<Longrightarrow> (\<And>tx_id. tx_identifier L tx = Ok tx_id \<Longrightarrow> key_tx k \<noteq> list_of tx_id) \<Longrightarrow>
      tget (view w' p) k = tget (view w p) k"
    and "carries L d tx sealed_op tx_id amount receiver sender \<Longrightarrow>
      rows_in (rows_at_once sealed_op h tx_id receiver amount sender) (view w')"
    by blast+
qed

lemma new_message_cong:
  assumes "new_message sealed_op h tx_id receiver d"
    and "\<And>p k. p \<noteq> PTxIdToAcceptance \<Longrightarrow> key_tx k = list_of tx_id \<Longrightarrow> tget (d' p) k = tget (d p) k"
  shows "new_message sealed_op h tx_id receiver d'"
  using assms key_tx_row [of _ _ _ sealed_op h tx_id receiver 0 None]
  unfolding new_message_def by (fastforce simp: message_rows_def)

lemma transactions_found:
  assumes "rfold (handle_transaction L d h collect) txs (w, pe) = Ok (w', pe')"
    and "distinct (map (tx_identifier L) txs)"
    and "\<forall>tx \<in> set txs. brings_new L d h (view w) tx"
  shows "(\<forall>p k. p \<noteq> PTxIdToAcceptance \<longrightarrow> (\<forall>tx \<in> set txs. \<forall>tx_id. tx_identifier L tx = Ok tx_id \<longrightarrow> key_tx k \<noteq> list_of tx_id) \<longrightarrow>
      tget (view w' p) k = tget (view w p) k) \<and>
    (\<forall>tx \<in> set txs. \<forall>sealed_op tx_id amount receiver sender. carries L d tx sealed_op tx_id amount receiver sender \<longrightarrow>
      rows_in (rows_at_once sealed_op h tx_id receiver amount sender) (view w'))"
  using assms
proof (induction txs arbitrary: w pe)
  case (Cons tx txs)
  from Cons.prems(1) obtain w1 pe1 where step: "handle_transaction L d h collect tx (w, pe) = Ok (w1, pe1)"
    and rest: "rfold (handle_transaction L d h collect) txs (w1, pe1) = Ok (w', pe')"
    by auto
  note step1 = transaction_step [OF step]
  have newtx: "brings_new L d h (view w) tx" using Cons.prems(3) by simp
  have apart: "tx_id \<noteq> tx_id'" if "tx' \<in> set txs" "tx_identifier L tx = Ok tx_id" "tx_identifier L tx' = Ok tx_id'" for tx' tx_id tx_id'
    using that Cons.prems(2) by (auto simp: image_iff)
  have new: "\<forall>tx' \<in> set txs. brings_new L d h (view w1) tx'"
    unfolding brings_new_def
  proof (intro ballI allI impI, rule new_message_cong)
    fix tx' sealed_op tx_id amount receiver sender
    assume tx': "tx' \<in> set txs" "carries L d tx' sealed_op tx_id amount receiver sender"
    then show "new_message sealed_op h tx_id receiver (view w)"
      using Cons.prems(3) unfolding brings_new_def by (meson list.set_intros(2))
    fix p k
    assume "p \<noteq> PTxIdToAcceptance" and "key_tx k = list_of tx_id"
    with tx' apart [OF tx'(1)] show "tget (view w1 p) k = tget (view w p) k"
      by (intro step1(1) [OF newtx]) (auto simp: carries_def)
  qed
  note IH = Cons.IH [OF rest _ new]
  have IH1: "tget (view w' p) k = tget (view w1 p) k" if "p \<noteq> PTxIdToAcceptance"
    "\<forall>tx \<in> set txs. \<forall>tx_id. tx_identifier L tx = Ok tx_id \<longrightarrow> key_tx k \<noteq> list_of tx_id" for p k
    using IH Cons.prems(2) that by simp
  have "rows_in (rows_at_once sealed_op h tx_id receiver amount sender) (view w')"
    if c: "carries L d tx sealed_op tx_id amount receiver sender" for sealed_op tx_id amount receiver sender
    unfolding rows_in_def
  proof safe
    fix p k v
    assume row: "(p, k, v) \<in> set (rows_at_once sealed_op h tx_id receiver amount sender)"
    then have k: "key_tx k = list_of tx_id" "p \<noteq> PTxIdToAcceptance" using key_tx_row by blast+
    have "tget (view w' p) k = tget (view w1 p) k"
      using k apart c by (intro IH1) (auto simp: carries_def)
    with step1(2) [OF newtx c] row show "tget (view w' p) k = Some v"
      by (auto simp: rows_in_def)
  qed
  moreover have "tget (view w' p) k = tget (view w p) k" if "p \<noteq> PTxIdToAcceptance"
    "\<forall>tx \<in> set (tx # txs). \<forall>tx_id. tx_identifier L tx = Ok tx_id \<longrightarrow> key_tx k \<noteq> list_of tx_id" for p k
    using IH1 [OF that(1)] step1(1) [OF newtx that(1)] that(2) by simp
  ultimately show ?case
    using IH Cons.prems(2) by auto
qed simp

section \<open>An example\<close>

text \<open>Example data: a payment to one public key, spending an output of another one.\<close>

definition key_script :: "byte \<Rightarrow> script_public_key" where
  "key_script b = \<lparr>spk_version = 0, spk_script = 32 # replicate 32 b @ [172]\<rparr>"

definition key_address :: "byte \<Rightarrow> address_payload" where
  "key_address b = \<lparr>inverse_version = 255, payload = of_list (replicate 32 b)\<rparr>"

definition example_node :: "(addr_version \<times> bytes) node_lib" where
  "example_node = kaspa_lib.extend example_lib \<lparr>computed_tx_id = (\<lambda>tx. Ok (of_list (take 32 (tx_payload tx))))\<rparr>"

definition example_header :: rpc_header where
  "example_header = \<lparr>rh_hash = of_list [9], rh_timestamp = 1000, rh_daa_score = 50, rh_blue_work = 7\<rparr>"

definition example_tx :: rpc_transaction where
  "example_tx =
     \<lparr>tx_verbose_id = Some (of_list [3]),
      tx_payload = PROTOCOL_PREFIX @ VERSION_1_PART @ ascii ''payment:'' @ [1, 2],
      tx_inputs = [\<lparr>op_transaction_id = of_list [4], op_index = 1\<rparr>],
      tx_outputs = [\<lparr>out_value = 500, out_script_public_key = key_script 7\<rparr>]\<rparr>"

lemma example_tx_simps:
  "parse_sealed_operation (tx_payload example_tx) = Some (PaymentV1 \<lparr>pm_sealed_hex = [1, 2]\<rparr>)"
  "tx_identifier L example_tx = Ok (of_list [3])"
  "tx_verbose_id example_tx = Some (of_list [3])"
  "amount_and_receiver example_node example_tx = Ok (500, key_address 7)"
  "known_sender example_tx d = Ok None"
  by (simp_all add: example_tx_def tx_identifier_def amount_and_receiver_def known_sender_def
      address_payload_from_script_def example_node_def example_lib_def kaspa_lib.defs slice_def
      key_script_def key_address_def Let_def)

lemma new_message_empty: "new_message sealed_op h tx_id receiver (\<lambda>_. tempty)"
  by (cases sealed_op) (simp_all add: new_message_def)

lemma of_list_single [simp]: "(of_list [a] :: hash) = of_list [b] \<longleftrightarrow> a = b"
  by (simp flip: list_of_eq_iff)

definition quiet_blocks :: bp_env where
  "quiet_blocks = \<lparr>conflicts = (\<lambda>_. []), push_queue = None\<rparr>"

definition example_block :: rpc_block where
  "example_block = \<lparr>blk_header = example_header, blk_transactions = [example_tx]\<rparr>"

abbreviation example_op :: sealed_operation where
  "example_op \<equiv> PaymentV1 \<lparr>pm_sealed_hex = [1, 2]\<rparr>"

lemma example_carries:
  "carries example_node d example_tx sealed_op tx_id amount receiver sender \<longleftrightarrow>
     sealed_op = example_op \<and> tx_id = of_list [3] \<and> amount = 500 \<and> receiver = key_address 7 \<and> sender = None"
  by (auto simp: carries_def example_tx_simps)

lemma example_block_processed:
  "\<exists>st'. process_realtime_block example_node quiet_blocks example_block
     (bp_initial (\<lambda>_. tempty) (metrics_new [])) = Ok st'"
proof -
  let ?d = "with_daa_index example_header (\<lambda>_. tempty)"
  obtain w pe where "handle_transaction example_node ?d example_header True example_tx
      (begin_wtx (\<lambda>_. tempty), []) = Ok (w, pe)"
    using handle_transaction_effect [OF example_tx_simps(1,2,4,5), of example_header
        "begin_wtx (\<lambda>_. tempty)" ?d True "[]"]
    by (auto simp: new_message_empty)
  moreover have "\<not> known_block example_block (\<lambda>_. tempty)"
    by (simp add: known_block_def)
  ultimately show ?thesis
    by (simp add: process_realtime_block_def realtime_body_def handle_block_new quiet_blocks_def
        bp_initial_def example_block_def)
qed

section \<open>Properties\<close>



text \<open>
  One transaction: whatever else its block's transaction has written, a message that is new
  is stored so that it is found, and its acceptance entry holds what still waits for the
  sender.
\<close>

theorem transaction_message_found:
  assumes tx: "parse_sealed_operation (tx_payload tx) = Some sealed_op" "tx_identifier L tx = Ok tx_id"
      "amount_and_receiver L tx = Ok (amount, receiver)" "known_sender tx d = Ok sender"
    and new: "new_message sealed_op h tx_id receiver (view w)"
      "tget (view w PTxIdToAcceptance) (ak_bytes \<lparr>ak_tx_id = tx_id, ak_receiver = receiver\<rparr>) = None"
    and time: "t \<le> rh_timestamp h" "rh_timestamp h \<noteq> - 1"
  shows "\<exists>w' pe'. handle_transaction L d h collect tx (w, pe) = Ok (w', pe') \<and>
    message_found sealed_op h tx_id receiver amount sender t (view w') \<and>
    stored_acceptance \<lparr>ak_tx_id = tx_id, ak_receiver = receiver\<rparr> avh_zeroed
      (entries_left sealed_op h tx_id receiver sender) (view w')"
proof -
  obtain w' where w': "handle_transaction L d h collect tx (w, pe) =
      Ok (w', pe @ message_events collect (push_type sealed_op) h tx tx_id sender receiver amount)"
    and view: "view w' = db_insert PTxIdToAcceptance (ak_bytes \<lparr>ak_tx_id = tx_id, ak_receiver = receiver\<rparr>)
      (acceptance_value avh_zeroed (entries_left sealed_op h tx_id receiver sender))
      (insert_rows (rows_at_once sealed_op h tx_id receiver amount sender) (view w))"
    using handle_transaction_effect [OF tx new] by blast
  have "rows_in (rows_at_once sealed_op h tx_id receiver amount sender) (view w')"
    unfolding view using rows_in_insert_rows [of sealed_op h tx_id receiver amount sender "view w"]
    by (cases sealed_op; cases sender) (simp_all add: rows_in_def message_rows_def)
  with message_found_rows time w' view show ?thesis
    by (auto simp: stored_acceptance_def)
qed

theorem transaction_message_found_witness:
  "\<exists>w' pe'. handle_transaction example_node (\<lambda>_. tempty) example_header True example_tx
      (begin_wtx (\<lambda>_. tempty), []) = Ok (w', pe') \<and>
    message_found example_op example_header (of_list [3]) (key_address 7) 500 None 0 (view w')"
  using transaction_message_found [OF example_tx_simps(1,2,4,5), of example_header "begin_wtx (\<lambda>_. tempty)" 0
      "\<lambda>_. tempty" True "[]"]
  by (auto simp: new_message_empty example_header_def)

text \<open>
  C31. A conflict at commit loses a block's messages. The header is written outside the
  transaction, so the attempt that is made after a conflict takes the block for one already
  processed: it commits the block cursor, and the message partitions hold only what the other
  actors left there.
\<close>

theorem conflict_drops_messages:
  assumes first: "realtime_body L block d m = Ok (d1, m1, w1, events)"
    and other: "known_block block (other d1)"
  shows "\<exists>d' m'. transact (realtime_body L block) [other] d m = Ok (d', m', []) \<and>
    known_block block d' \<and> get_latest_block_cursor d' = Ok (Some (rh_hash (blk_header block))) \<and>
    (\<forall>p \<in> message_parts. d' p = other d1 p)"
proof -
  let ?h = "blk_header block"
  let ?w = "update_block (begin_wtx (other d1)) (rh_hash ?h)"
  have "realtime_body L block (other d1) m1 = Ok (with_header ?h (other d1), m1, ?w, [])"
    by (simp add: realtime_body_def handle_block_known [OF other])
  then have "transact (realtime_body L block) [other] d m = Ok (commit ?w (with_header ?h (other d1)), m1, [])"
    by (simp add: first)
  moreover have touched: "touched ?w = {PMetadata}"
    by (simp add: update_block_def set_latest_block_cursor_def)
  have "known_block block (commit ?w (with_header ?h (other d1)))"
    using known_block_after(1) [of block "other d1"]
    by (simp add: known_block_def commit_untouched touched)
  moreover have "commit ?w (with_header ?h (other d1)) p = other d1 p" if "p \<in> message_parts" for p
  proof -
    from that have "p \<noteq> PMetadata" "p \<noteq> PBlockCompactHeader" by (auto simp: message_parts_def)
    then show ?thesis by (simp add: commit_untouched touched)
  qed
  moreover have "commit ?w (with_header ?h (other d1)) PMetadata = view ?w PMetadata"
    by (rule commit_part) (simp add: update_block_def set_latest_block_cursor_def)
  then have "get_latest_block_cursor (commit ?w (with_header ?h (other d1))) = Ok (Some (rh_hash ?h))"
    by (simp add: get_latest_block_cursor_def update_block_def set_latest_block_cursor_def)
  ultimately show ?thesis by blast
qed

theorem conflict_drops_messages_witness:
  "\<exists>d' m'. transact (realtime_body example_node example_block) [id] (\<lambda>_. tempty) (metrics_new []) = Ok (d', m', []) \<and>
    known_block example_block d' \<and> d' PTxIdToPayment = tempty"
proof -
  obtain st' where "process_realtime_block example_node quiet_blocks example_block
      (bp_initial (\<lambda>_. tempty) (metrics_new [])) = Ok st'"
    using example_block_processed by blast
  then obtain d1 m1 w1 ev where first:
    "realtime_body example_node example_block (\<lambda>_. tempty) (metrics_new []) = Ok (d1, m1, w1, ev)"
    by (auto simp: process_realtime_block_def quiet_blocks_def bp_initial_def rbind_def split: sum.splits)
  then obtain w pe where hb: "handle_block example_node example_block True (begin_wtx (\<lambda>_. tempty), [])
      (\<lambda>_. tempty) (metrics_new []) = Ok (d1, m1, w, pe)"
    by (auto simp: realtime_body_def)
  show ?thesis
    using conflict_drops_messages [OF first, of id] handle_block_effect(3,4) [OF hb]
    by (fastforce simp: message_parts_def)
qed

end
