(* ===== verification/Virtual_Chain.thy ===== *)
theory Virtual_Chain
  imports Node
begin

text \<open>
  The virtual chain processor, \<^verbatim>\<open>indexer-actors/src/virtual_chain_processor.rs\<close>: it
  follows the accepting chain of the node (first through a syncer task, then through the
  notifications), records which block accepts each message transaction, asks for the senders
  that are still unknown and, when one is resolved, completes the index entries that wait for
  it. The three channels it selects on are one sequence of inputs; \<open>vcp_step\<close> is one turn of
  the loop. The clock of its warnings is not modelled.
\<close>

section \<open>State\<close>

text \<open>\<^verbatim>\<open>ringmap::RingMap\<close>: entries in the order of insertion, one per key.\<close>

definition ring_insert :: "'k \<Rightarrow> 'v \<Rightarrow> ('k \<times> 'v) list \<Rightarrow> ('k \<times> 'v) list" where
  "ring_insert k v xs =
     (if k \<in> fst ` set xs then map (\<lambda>(k', v'). if k' = k then (k', v) else (k', v')) xs
      else xs @ [(k, v)])"

type_synonym processed = "(hash \<times> u64 \<times> u192) list"
type_synonym chain_block = "hash \<times> u192"

datatype sync_state =
    Initial
  | Synced u64 chain_block \<comment> \<open>last syncer id, last accepting block\<close>
  | Syncing chain_block u64 chain_block "virtual_chain_change option"
      \<comment> \<open>last accepting block, syncer id, target block, sync queue\<close>

datatype vcp_effect =
    SendCommand command
  | SpawnSyncer u64 hash
  | SendAck u64 notification_ack

record vcp_state =
  shutting_down :: bool
  processed_blocks :: processed
  realtime_queue_vcc :: "virtual_chain_change list"
  sync_state :: sync_state
  vcp_db :: db
  vcp_metrics :: indexer_metrics
  vcp_effects :: "vcp_effect list"

text \<open>
  What surrounds a run: the capacity of the block table, which channels still have a
  receiver, and the commits of others that make a transaction fail before it succeeds.
\<close>

record vcp_env =
  synced_capacity :: nat
  command_open :: bool
  ack_open :: "u64 \<Rightarrow> bool"
  vcc_conflicts :: "virtual_chain_change \<Rightarrow> (db \<Rightarrow> db) list"
  sender_conflicts :: "hash \<Rightarrow> (db \<Rightarrow> db) list"

definition initial_blocks :: "compact_header list \<Rightarrow> bool \<Rightarrow> processed" where
  "initial_blocks blocks asc_order =
     fold (\<lambda>ch. ring_insert (ch_block_hash ch) (ch_daa_score ch, ch_blue_work ch))
       (if asc_order then blocks else rev blocks) []"

definition vcp_initial :: "compact_header list \<Rightarrow> bool \<Rightarrow> db \<Rightarrow> indexer_metrics \<Rightarrow> vcp_state" where
  "vcp_initial blocks asc_order d m =
     \<lparr>shutting_down = False, processed_blocks = initial_blocks blocks asc_order,
      realtime_queue_vcc = [], sync_state = Initial, vcp_db = d, vcp_metrics = m,
      vcp_effects = []\<rparr>"

definition send_command :: "vcp_env \<Rightarrow> command \<Rightarrow> vcp_effect list \<Rightarrow> vcp_effect list res" where
  "send_command env c es =
     (if command_open env then Ok (es @ [SendCommand c]) else Err ''sending into a closed channel'')"

definition send_ack :: "vcp_env \<Rightarrow> u64 \<Rightarrow> notification_ack \<Rightarrow> vcp_state \<Rightarrow> vcp_state res" where
  "send_ack env syncer a st =
     (if ack_open env syncer then Ok (st\<lparr>vcp_effects := vcp_effects st @ [SendAck syncer a]\<rparr>)
      else Err ''sending into a closed channel'')"

definition spawn_syncer :: "u64 \<Rightarrow> hash \<Rightarrow> vcp_state \<Rightarrow> vcp_state" where
  "spawn_syncer syncer_id from st =
     st\<lparr>vcp_effects := vcp_effects st @ [SpawnSyncer syncer_id from]\<rparr>"

section \<open>Cursors\<close>

record chain_cursor =
  cc_blue_work :: u192
  cc_block_hash :: hash
  cc_daa_score :: u64

definition cursor_of_db :: "cursor \<Rightarrow> chain_cursor" where
  "cursor_of_db c =
     \<lparr>cc_blue_work = from_be_bytes (list_of (cur_blue_work c)), cc_block_hash = cur_block_hash c,
      cc_daa_score = cur_daa_score c\<rparr>"

definition db_of_cursor :: "chain_cursor \<Rightarrow> cursor" where
  "db_of_cursor c =
     \<lparr>cur_blue_work = of_list (to_be_bytes (cc_blue_work c)), cur_block_hash = cc_block_hash c,
      cur_daa_score = cc_daa_score c\<rparr>"

definition last_accepting_block_db :: "db \<Rightarrow> chain_cursor option res" where
  "last_accepting_block_db d =
     rbind (get_latest_accepting_block_cursor d) (\<lambda>c. Ok (map_option cursor_of_db c))"

section \<open>Chain changes\<close>

text \<open>One tracked transaction of a removed block.\<close>

definition forget_transaction :: "db \<Rightarrow> hash \<Rightarrow> u64 \<Rightarrow> hash \<Rightarrow> wtx \<Rightarrow> wtx res" where
  "forget_transaction d block daa tx_id w =
     rbind (key_by_tx_id tx_id d) (\<lambda>found.
     rbind (unwrap ''Key must exists'' found) (\<lambda>key.
     rbind (update_acceptance_wtx key block daa w) (\<lambda>(lookup, w').
       Ok (if lookup = KeysExistsWithEntries
           then pending_remove_wtx \<lparr>pr_accepting_daa_score = daa, pr_tx_id = tx_id\<rparr> w'
           else w'))))"

definition handle_vcc_removal :: "processed \<Rightarrow> db \<Rightarrow> hash \<Rightarrow> wtx \<Rightarrow> wtx res" where
  "handle_vcc_removal blocks d block w =
     (let (tracked, w1) = accepting_block_remove_wtx block w in
      case tracked of
        None \<Rightarrow> Ok w1
      | Some bs \<Rightarrow>
          rbind (unwrap ''called unwrap on a None value'' (map_of blocks block)) (\<lambda>(daa, _).
          rbind (deref hashes_of bs) (\<lambda>tx_ids. rfold (forget_transaction d block daa) tx_ids w1)))"

text \<open>One transaction of an added block; the tracked transactions are collected in order.\<close>

definition accept_transaction ::
    "vcp_env \<Rightarrow> db \<Rightarrow> hash \<Rightarrow> u64 \<Rightarrow> hash \<Rightarrow>
     hash list \<times> wtx \<times> vcp_effect list \<Rightarrow> (hash list \<times> wtx \<times> vcp_effect list) res" where
  "accept_transaction env d block_hash daa tx = (\<lambda>(tracked, w, es).
     rbind (key_by_tx_id tx d) (\<lambda>found.
       case found of
         None \<Rightarrow> Ok (tracked, w, es)
       | Some key \<Rightarrow>
           rbind (update_acceptance_wtx key block_hash daa w) (\<lambda>(lookup, w').
             case lookup of
               KeyDoesNotExist \<Rightarrow> Ok (tracked, w', es)
             | KeyExistsNoEntries \<Rightarrow> Ok (tracked @ [ak_tx_id key], w', es)
             | KeysExistsWithEntries \<Rightarrow>
                 rbind (send_command env (Request (RequestSender daa tx)) es) (\<lambda>es'.
                   Ok (tracked @ [ak_tx_id key],
                       pending_insert_wtx \<lparr>pr_accepting_daa_score = daa, pr_tx_id = tx\<rparr> w', es')))))"

definition handle_vcc_addition ::
    "vcp_env \<Rightarrow> processed \<Rightarrow> db \<Rightarrow> accepted_transaction_ids \<Rightarrow> wtx \<times> vcp_effect list \<Rightarrow>
     (wtx \<times> vcp_effect list) res" where
  "handle_vcc_addition env blocks d block = (\<lambda>(w, es).
     let block_hash = at_accepting_block_hash block in
     rbind (unwrap ''called unwrap on a None value'' (map_of blocks block_hash)) (\<lambda>(daa, _).
     rbind (rfold (accept_transaction env d block_hash daa) (at_accepted_transaction_ids block)
              ([], w, es))
       (\<lambda>(tracked, w', es'). Ok (accepting_block_insert_wtx block_hash tracked w', es'))))"

text \<open>The body that \<^verbatim>\<open>handle_vcc\<close> and \<^verbatim>\<open>handle_vc_resp\<close> retry until it commits.\<close>

definition chain_body ::
    "vcp_env \<Rightarrow> processed \<Rightarrow> virtual_chain_change \<Rightarrow> db \<Rightarrow> vcp_effect list \<Rightarrow>
     (db \<times> vcp_effect list \<times> wtx \<times> chain_block) res" where
  "chain_body env blocks vcc d es =
     rbind (rfold (handle_vcc_removal blocks d) (removed_chain_block_hashes vcc) (begin_wtx d)) (\<lambda>w1.
     rbind (rfold (handle_vcc_addition env blocks d) (vc_accepted_transaction_ids vcc) (w1, es))
       (\<lambda>(w2, es').
     rbind (unwrap ''called unwrap on a None value''
              (if added_chain_block_hashes vcc = [] then None
               else Some (last (added_chain_block_hashes vcc)))) (\<lambda>last_block.
     rbind (unwrap ''called unwrap on a None value'' (map_of blocks last_block))
       (\<lambda>(last_daa, last_blue_work).
     rbind (set_latest_accepting_block_cursor
              (db_of_cursor \<lparr>cc_blue_work = last_blue_work, cc_block_hash = last_block,
                             cc_daa_score = last_daa\<rparr>) w2)
       (\<lambda>w3. Ok (d, es', w3, (last_block, last_blue_work)))))))"

definition handle_vcc :: "vcp_env \<Rightarrow> virtual_chain_change \<Rightarrow> vcp_state \<Rightarrow> (chain_block \<times> vcp_state) res" where
  "handle_vcc env vcc st =
     rbind (transact (chain_body env (processed_blocks st) vcc) (vcc_conflicts env vcc)
              (vcp_db st) (vcp_effects st))
       (\<lambda>(d, es, lastb). Ok (lastb, st\<lparr>vcp_db := d, vcp_effects := es\<rparr>))"

definition handle_vc_resp ::
    "vcp_env \<Rightarrow> virtual_chain_change \<Rightarrow> vcp_state \<Rightarrow> (chain_block \<times> vcp_state) res" where
  "handle_vc_resp env vcc st =
     rbind (transact (chain_body env (processed_blocks st) vcc) (vcc_conflicts env vcc)
              (vcp_db st) (vcp_effects st))
       (\<lambda>(d, es, lastb). Ok (lastb, st\<lparr>vcp_db := d, vcp_effects := es\<rparr>))"

section \<open>Handlers\<close>

definition handle_connect :: "vcp_env \<Rightarrow> hash \<Rightarrow> u192 \<Rightarrow> hash \<Rightarrow> vcp_state \<Rightarrow> vcp_state res" where
  "handle_connect env sink sink_blue_work pp st =
     (case sync_state st of
        Initial \<Rightarrow>
          rbind (rfold (\<lambda>r es. rbind r (\<lambda>key.
                   send_command env (Request (RequestSender (pr_accepting_daa_score key) (pr_tx_id key))) es))
                 (get_all_pending (vcp_db st)) (vcp_effects st)) (\<lambda>es.
          rbind (last_accepting_block_db (vcp_db st)) (\<lambda>last_accepting.
            let (from, blue_work) = (case last_accepting of
                    None \<Rightarrow> (pp, 0) | Some c \<Rightarrow> (cc_block_hash c, cc_blue_work c))
            in Ok ((spawn_syncer 0 from (st\<lparr>vcp_effects := es\<rparr>))
                     \<lparr>sync_state := Syncing (from, blue_work) 0 (sink, sink_blue_work) None\<rparr>)))
      | Syncing last_accepting syncer_id target sync_queue \<Rightarrow>
          Ok (st\<lparr>sync_state := Syncing last_accepting syncer_id (sink, sink_blue_work) sync_queue\<rparr>)
      | Synced last_syncer_id (last_block, last_blue_work) \<Rightarrow>
          if last_block = sink \<or> last_blue_work > sink_blue_work then Ok st
          else Ok ((spawn_syncer (last_syncer_id + 1) last_block st)
                 \<lparr>sync_state := Syncing (last_block, last_blue_work) (last_syncer_id + 1)
                                 (sink, sink_blue_work) None\<rparr>))"

text \<open>The answer of the handlers below is whether the loop continues.\<close>

definition handle_shutdown :: "vcp_env \<Rightarrow> vcp_state \<Rightarrow> (bool \<times> vcp_state) res" where
  "handle_shutdown env st =
     (let st1 = st\<lparr>shutting_down := True\<rparr> in
      case sync_state st1 of
        Initial \<Rightarrow> Ok (False, st1)
      | Synced _ _ \<Rightarrow> Ok (False, st1)
      | Syncing _ syncer_id _ _ \<Rightarrow>
          rbind (send_ack env syncer_id AckStop st1) (\<lambda>st2. Ok (True, st2)))"

definition empty_change :: "virtual_chain_change \<Rightarrow> bool" where
  "empty_change vcc \<longleftrightarrow> removed_chain_block_hashes vcc = [] \<and> added_chain_block_hashes vcc = []"

definition has_unknown_block :: "processed \<Rightarrow> virtual_chain_change \<Rightarrow> bool" where
  "has_unknown_block blocks vcc \<longleftrightarrow>
     (\<exists>h \<in> set (added_chain_block_hashes vcc). h \<notin> fst ` set blocks)"

text \<open>
  The part that a syncer response and a processed block share: apply the response, and
  either stop the syncer at the target or ask it to continue. The queue is the one that is
  left when the response is taken up: as it was, or emptied by \<^verbatim>\<open>take\<close>.
\<close>

definition apply_sync_response ::
    "vcp_env \<Rightarrow> u64 \<Rightarrow> chain_block \<Rightarrow> virtual_chain_change option \<Rightarrow> virtual_chain_change \<Rightarrow>
     vcp_state \<Rightarrow> vcp_state res" where
  "apply_sync_response env syncer_id target sync_queue vcc st =
     rbind (unwrap ''called unwrap on a None value''
              (if added_chain_block_hashes vcc = [] then None
               else Some (last (added_chain_block_hashes vcc)))) (\<lambda>last_block.
     rbind (if last_block = fst target then Ok True
            else rbind (unwrap ''called unwrap on a None value'' (map_of (processed_blocks st) last_block))
              (\<lambda>(_, blue_work). Ok (blue_work > snd target))) (\<lambda>reached.
       if reached then
         rbind (send_ack env syncer_id AckStop st) (\<lambda>st1.
         rbind (handle_vc_resp env vcc st1) (\<lambda>(last_accepting, st2).
           Ok (st2\<lparr>sync_state := Synced syncer_id last_accepting\<rparr>)))
       else
         rbind (handle_vc_resp env vcc st) (\<lambda>(last_accepting, st1).
           send_ack env syncer_id AckContinue
             (st1\<lparr>sync_state := Syncing last_accepting syncer_id target sync_queue\<rparr>))))"

definition handle_syncer_vc ::
    "vcp_env \<Rightarrow> u64 \<Rightarrow> virtual_chain_change \<Rightarrow> vcp_state \<Rightarrow> vcp_state res" where
  "handle_syncer_vc env notification_syncer_id vcc st =
     (case sync_state st of
        Syncing last_accepting syncer_id target sync_queue \<Rightarrow>
          if notification_syncer_id \<noteq> syncer_id then Panics ''assertion failed''
          else if empty_change vcc then send_ack env syncer_id AckContinue st
          else if has_unknown_block (processed_blocks st) vcc then
            (if sync_queue \<noteq> None then Panics ''assertion failed: sync_queue.is_none()''
             else Ok (st\<lparr>sync_state := Syncing last_accepting syncer_id target (Some vcc)\<rparr>))
          else apply_sync_response env syncer_id target sync_queue vcc st
      | _ \<Rightarrow> Panics ''internal error: entered unreachable code'')"

definition handle_realtime_vcc :: "vcp_env \<Rightarrow> virtual_chain_change \<Rightarrow> vcp_state \<Rightarrow> vcp_state res" where
  "handle_realtime_vcc env vcc st =
     (case sync_state st of
        Initial \<Rightarrow> Panics ''internal error: entered unreachable code''
      | Synced last_syncer_id last_accepting \<Rightarrow>
          if empty_change vcc then Ok st
          else if realtime_queue_vcc st \<noteq> [] \<or> has_unknown_block (processed_blocks st) vcc
          then Ok (st\<lparr>realtime_queue_vcc := realtime_queue_vcc st @ [vcc]\<rparr>)
          else rbind (handle_vcc env vcc st) (\<lambda>(last_accepting', st1).
                 Ok (st1\<lparr>sync_state := Synced last_syncer_id last_accepting'\<rparr>))
      | Syncing _ _ _ _ \<Rightarrow> Ok (st\<lparr>realtime_queue_vcc := realtime_queue_vcc st @ [vcc]\<rparr>))"

definition handle_syncer_stopped :: "u64 \<Rightarrow> vcp_state \<Rightarrow> bool res" where
  "handle_syncer_stopped syncer_id st =
     (case sync_state st of
        Initial \<Rightarrow> Panics ''internal error: entered unreachable code''
      | Synced last_syncer_id _ \<Rightarrow> Ok (\<not> (syncer_id = last_syncer_id \<and> shutting_down st))
      | Syncing _ current _ _ \<Rightarrow>
          if syncer_id = current
          then (if shutting_down st then Ok False else Err ''Syncer stopped but we are still syncing'')
          else Ok True)"

text \<open>
  The realtime queue is worked off from the front, up to the first change that has a block
  not processed yet.
\<close>

fun drain_queue ::
    "vcp_env \<Rightarrow> u64 \<Rightarrow> virtual_chain_change list \<Rightarrow> vcp_state \<Rightarrow> vcp_state res" where
  "drain_queue env last_syncer_id [] st = Ok (st\<lparr>realtime_queue_vcc := []\<rparr>)"
| "drain_queue env last_syncer_id (vcc # queue) st =
     (if empty_change vcc then drain_queue env last_syncer_id queue st
      else if has_unknown_block (processed_blocks st) vcc
      then Ok (st\<lparr>realtime_queue_vcc := vcc # queue\<rparr>)
      else case handle_vcc env vcc st of
          Inl e \<Rightarrow> Inl e
        | Inr (last_accepting, st1) \<Rightarrow>
            drain_queue env last_syncer_id queue
              (st1\<lparr>sync_state := Synced last_syncer_id last_accepting\<rparr>))"

definition add_block_bounded :: "nat \<Rightarrow> compact_header \<Rightarrow> processed \<Rightarrow> processed" where
  "add_block_bounded capacity ch blocks =
     ring_insert (ch_block_hash ch) (ch_daa_score ch, ch_blue_work ch)
       (drop ((length blocks + 1) - capacity) blocks)"

definition handle_processed_block :: "vcp_env \<Rightarrow> compact_header \<Rightarrow> vcp_state \<Rightarrow> vcp_state res" where
  "handle_processed_block env ch st =
     (case sync_state st of
        Initial \<Rightarrow>
          Ok (st\<lparr>processed_blocks :=
                ring_insert (ch_block_hash ch) (ch_daa_score ch, ch_blue_work ch) (processed_blocks st)\<rparr>)
      | Synced last_syncer_id _ \<Rightarrow>
          let st1 = st\<lparr>processed_blocks :=
                      add_block_bounded (synced_capacity env) ch (processed_blocks st)\<rparr>
          in drain_queue env last_syncer_id (realtime_queue_vcc st1) st1
      | Syncing last_accepting syncer_id target sync_queue \<Rightarrow>
          let st1 = st\<lparr>processed_blocks :=
                      add_block_bounded (synced_capacity env) ch (processed_blocks st)\<rparr>
          in case sync_queue of
               None \<Rightarrow> Ok st1
             | Some vcc \<Rightarrow>
                 if has_unknown_block (processed_blocks st1) vcc then Ok st1
                 else apply_sync_response env syncer_id target None vcc st1)"

section \<open>Sender resolution\<close>

fun key_len_fn :: "partition_id \<Rightarrow> nat res" where
  "key_len_fn PidHandshakeByReceiver = Ok 107"
| "key_len_fn PidHandshakeBySender = Ok 141"
| "key_len_fn PidContextualMessageBySender = Ok 157"
| "key_len_fn PidPaymentByReceiver = Ok 107"
| "key_len_fn PidPaymentBySender = Ok 141"
| "key_len_fn PidSelfStashByOwner = Ok 362"
| "key_len_fn PidSelfStashByScope = Ok 362"
| "key_len_fn _ = Panics ''Unexpected partition id''"

definition read_key :: "(bytes \<Rightarrow> 'k option) \<Rightarrow> bytes \<Rightarrow> 'k res" where
  "read_key from_bytes bs = (case from_bytes bs of None \<Rightarrow> Err ''Key conversion error'' | Some k \<Rightarrow> Ok k)"

definition with_action :: "action \<Rightarrow> insertion_entry \<Rightarrow> 'a res \<Rightarrow> 'a res" where
  "with_action a e r = (if ie_action e = a then r else Panics ''Unexpected action'')"

definition entry_cb_fn :: "address_payload \<Rightarrow> insertion_entry \<Rightarrow> wtx \<Rightarrow> wtx res" where
  "entry_cb_fn sender e w =
     (case ie_partition_id e of
        PidHandshakeByReceiver \<Rightarrow> with_action UpdateValueSender e
          (rbind (read_key hkr_from_bytes (ie_partition_key e)) (\<lambda>key.
             handshake_by_receiver_insert_wtx key (Some sender) w))
      | PidHandshakeBySender \<Rightarrow> with_action InsertByKeySender e
          (rbind (read_key hks_from_bytes (ie_partition_key e)) (\<lambda>key.
             Ok (handshake_by_sender_insert_wtx (key\<lparr>hks_sender := sender\<rparr>) w)))
      | PidContextualMessageBySender \<Rightarrow> with_action InsertByKeySender e
          (rbind (read_key cmk_from_bytes (ie_partition_key e)) (\<lambda>key.
             Ok (contextual_message_insert (key\<lparr>cmk_sender := sender\<rparr>) w)))
      | PidPaymentByReceiver \<Rightarrow> with_action UpdateValueSender e
          (rbind (read_key pkr_from_bytes (ie_partition_key e)) (\<lambda>key.
             payment_by_receiver_insert_wtx key (Some sender) w))
      | PidPaymentBySender \<Rightarrow> with_action InsertByKeySender e
          (rbind (read_key pks_from_bytes (ie_partition_key e)) (\<lambda>key.
             Ok (payment_by_sender_insert_wtx (key\<lparr>pks_sender := sender\<rparr>) w)))
      | PidSelfStashByOwner \<Rightarrow> with_action InsertByKeySender e
          (rbind (read_key sso_from_bytes (ie_partition_key e)) (\<lambda>key.
             Ok (self_stash_by_owner_insert_wtx (key\<lparr>sso_owner := sender\<rparr>) w)))
      | PidSelfStashByScope \<Rightarrow> with_action InsertByKeySender e
          (rbind (read_key sss_from_bytes (ie_partition_key e)) (\<lambda>key.
             Ok (self_stash_by_scope_insert_wtx (key\<lparr>sss_owner := sender\<rparr>) w)))
      | _ \<Rightarrow> Panics ''Unexpected partition id'')"

definition sender_body ::
    "address_payload \<Rightarrow> acceptance_key \<Rightarrow> hash \<Rightarrow> u64 \<Rightarrow> db \<Rightarrow> unit \<Rightarrow> (db \<times> unit \<times> wtx \<times> unit) res" where
  "sender_body sender key tx_id daa d s =
     rbind (resolve_entries_wtx key key_len_fn (entry_cb_fn sender)
              (pending_remove_wtx \<lparr>pr_accepting_daa_score = daa, pr_tx_id = tx_id\<rparr> (begin_wtx d)))
       (\<lambda>(_, w). Ok (d, s, w, ()))"

definition handle_sender_address ::
    "('addr, 'x) node_lib_scheme \<Rightarrow> vcp_env \<Rightarrow> 'addr \<Rightarrow> hash \<Rightarrow> u64 \<Rightarrow> vcp_state \<Rightarrow> vcp_state res" where
  "handle_sender_address L env address tx_id daa st =
     rbind (address_payload_from_address L address) (\<lambda>sender.
     rbind (key_by_tx_id tx_id (vcp_db st)) (\<lambda>found.
     rbind (unwrap ''Key must exists'' found) (\<lambda>key.
     rbind (transact (sender_body sender key tx_id daa) (sender_conflicts env tx_id) (vcp_db st) ())
       (\<lambda>(d, _, _).
         Ok (st\<lparr>vcp_db := d, vcp_metrics := increment_resolved_senders 1 (vcp_metrics st)\<rparr>)))))"

section \<open>The loop\<close>

datatype 'addr vcp_input =
    Block compact_header
  | Vcc "'addr realtime_vcc_notification"
  | Syncer sync_vcc_notification

definition go_on :: "vcp_state res \<Rightarrow> (bool \<times> vcp_state) res" where
  "go_on r = rbind r (\<lambda>st. Ok (True, st))"

fun vcp_step ::
    "('addr, 'x) node_lib_scheme \<Rightarrow> vcp_env \<Rightarrow> 'addr vcp_input \<Rightarrow> vcp_state \<Rightarrow> (bool \<times> vcp_state) res" where
  "vcp_step L env (Vcc (VccConnected sink sink_blue_work pp)) st =
     go_on (handle_connect env sink sink_blue_work pp st)"
| "vcp_step L env (Vcc VccDisconnected) st = Ok (True, st\<lparr>realtime_queue_vcc := []\<rparr>)"
| "vcp_step L env (Syncer (VirtualChain syncer_id vcc)) st = go_on (handle_syncer_vc env syncer_id vcc st)"
| "vcp_step L env (Vcc VccShutdown) st = handle_shutdown env st"
| "vcp_step L env (Syncer (SyncerStopped syncer_id)) st =
     rbind (handle_syncer_stopped syncer_id st) (\<lambda>cont. Ok (cont, st))"
| "vcp_step L env (Block ch) st = go_on (handle_processed_block env ch st)"
| "vcp_step L env (Vcc (VccNotification vcc)) st = go_on (handle_realtime_vcc env vcc st)"
| "vcp_step L env (Vcc (SenderResolution sender tx_id daa)) st =
     go_on (handle_sender_address L env sender tx_id daa st)"

fun vcp_process ::
    "('addr, 'x) node_lib_scheme \<Rightarrow> vcp_env \<Rightarrow> 'addr vcp_input list \<Rightarrow> vcp_state \<Rightarrow> (bool \<times> vcp_state) res" where
  "vcp_process L env [] st = Ok (True, st)"
| "vcp_process L env (input # inputs) st =
     rbind (vcp_step L env input st) (\<lambda>(cont, st').
       if cont then vcp_process L env inputs st' else Ok (False, st'))"

section \<open>Lemmas\<close>

lemma read_key_enc [simp]:
  "read_key hkr_from_bytes (hkr_bytes a) = Ok a"
  "read_key hks_from_bytes (hks_bytes b) = Ok b"
  "read_key pkr_from_bytes (pkr_bytes c) = Ok c"
  "read_key pks_from_bytes (pks_bytes e) = Ok e"
  "read_key cmk_from_bytes (cmk_bytes f) = Ok f"
  "read_key sso_from_bytes (sso_bytes g) = Ok g"
  "read_key sss_from_bytes (sss_bytes i) = Ok i"
  by (simp_all add: read_key_def hs_receiver.dec_enc hs_sender.dec_enc pay_receiver.dec_enc
      pay_sender.dec_enc ctx_sender.dec_enc stash_owner.dec_enc stash_scope.dec_enc)

text \<open>An environment without conflicts, with every channel open.\<close>

definition quiet_env :: vcp_env where
  "quiet_env = \<lparr>synced_capacity = 100, command_open = True, ack_open = (\<lambda>_. True),
     vcc_conflicts = (\<lambda>_. []), sender_conflicts = (\<lambda>_. [])\<rparr>"

end
