(* ===== verification/Resolution.thy ===== *)
theory Resolution
  imports Block_Messages Virtual_Chain
begin

text \<open>
  The life of a message across the two processors: block processing stores a message whose
  sender is not known with entries that wait for it; the virtual chain processor completes
  them when the node reports the sender.
\<close>

section \<open>Lemmas\<close>

lemma waiting_entries_sized: "\<forall>e \<in> set (waiting_entries sealed_op h tx_id receiver). sized_entry key_len_fn e"
  by (cases sealed_op) (simp_all add: sized_entry_def)

text \<open>
  Resolving the sender completes the rows of the message: the row under the receiver, which
  held the empty address, and the rows under the sender.
\<close>

lemma resolve_waiting:
  assumes "rows_in (receiver_rows sealed_op h tx_id receiver address_default) (view w)"
  shows "\<exists>w'. rfold (entry_cb_fn sender) (waiting_entries sealed_op h tx_id receiver) w = Ok w' \<and>
    view w' = insert_rows (receiver_rows sealed_op h tx_id receiver sender @
      sender_rows sealed_op h tx_id receiver sender) (view w) \<and>
    snapshot w' = snapshot w"
  using assms
  by (cases sealed_op)
    (simp_all add: rows_in_def entry_cb_fn_def with_action_def insert_wtx_defs message_keys
      wtx_get_def, (rule db_eqI, simp)+)

lemma sender_body_effect:
  assumes stored: "stored_acceptance key hdr (waiting_entries sealed_op h tx_id receiver) d"
    and rows: "rows_in (receiver_rows sealed_op h tx_id receiver address_default) d"
  shows "\<exists>w. sender_body sender key tx_id daa d () = Ok (d, (), w, ()) \<and> snapshot w = d \<and>
    view w = insert_rows (receiver_rows sealed_op h tx_id receiver sender @
        sender_rows sealed_op h tx_id receiver sender)
      (db_insert PTxIdToAcceptance (ak_bytes key) (avh_bytes hdr)
        (db_remove PPendingSenderResolution
          (pr_bytes \<lparr>pr_accepting_daa_score = daa, pr_tx_id = tx_id\<rparr>) d))"
proof -
  let ?w0 = "pending_remove_wtx \<lparr>pr_accepting_daa_score = daa, pr_tx_id = tx_id\<rparr> (begin_wtx d)"
  let ?w1 = "wtx_insert PTxIdToAcceptance (ak_bytes key) (avh_bytes hdr) ?w0"
  have "stored_acceptance key hdr (waiting_entries sealed_op h tx_id receiver) (view ?w0)"
    using stored by (simp add: stored_acceptance_def pending_remove_wtx_def)
  note res = resolve_entries_stored [OF this waiting_entries_sized]
  have "rows_in (receiver_rows sealed_op h tx_id receiver address_default) (view ?w1)"
    using rows by (cases sealed_op) (simp_all add: rows_in_def pending_remove_wtx_def)
  from resolve_waiting [OF this] obtain w' where
    "rfold (entry_cb_fn sender) (waiting_entries sealed_op h tx_id receiver) ?w1 = Ok w'"
    "view w' = insert_rows (receiver_rows sealed_op h tx_id receiver sender @
        sender_rows sealed_op h tx_id receiver sender) (view ?w1)"
    "snapshot w' = snapshot ?w1"
    by blast
  then show ?thesis
    by (simp add: sender_body_def res) (simp add: pending_remove_wtx_def)
qed

lemma sender_resolution_effect:
  assumes wf: "wf_acceptance key_len_fn (vcp_db st)"
    and stored: "stored_acceptance \<lparr>ak_tx_id = tx_id, ak_receiver = receiver\<rparr> hdr
      (waiting_entries sealed_op h tx_id receiver) (vcp_db st)"
    and rows: "rows_in (receiver_rows sealed_op h tx_id receiver address_default) (vcp_db st)"
    and addr: "address_payload_from_address L address = Ok sender"
    and quiet: "sender_conflicts env tx_id = []"
  shows "\<exists>st'. handle_sender_address L env address tx_id daa st = Ok st' \<and>
    vcp_db st' = insert_rows (receiver_rows sealed_op h tx_id receiver sender @
        sender_rows sealed_op h tx_id receiver sender)
      (db_insert PTxIdToAcceptance (ak_bytes \<lparr>ak_tx_id = tx_id, ak_receiver = receiver\<rparr>) (avh_bytes hdr)
        (db_remove PPendingSenderResolution
          (pr_bytes \<lparr>pr_accepting_daa_score = daa, pr_tx_id = tx_id\<rparr>) (vcp_db st)))"
proof -
  let ?key = "\<lparr>ak_tx_id = tx_id, ak_receiver = receiver\<rparr>"
  have "key_by_tx_id tx_id (vcp_db st) = Ok (Some ?key)"
    using key_by_tx_id_Some [OF wf, of ?key] stored by (simp add: stored_acceptance_def)
  moreover obtain w where "sender_body sender ?key tx_id daa (vcp_db st) () = Ok (vcp_db st, (), w, ())"
    and "snapshot w = vcp_db st"
    and view: "view w = insert_rows (receiver_rows sealed_op h tx_id receiver sender @
        sender_rows sealed_op h tx_id receiver sender)
      (db_insert PTxIdToAcceptance (ak_bytes ?key) (avh_bytes hdr)
        (db_remove PPendingSenderResolution
          (pr_bytes \<lparr>pr_accepting_daa_score = daa, pr_tx_id = tx_id\<rparr>) (vcp_db st)))"
    using sender_body_effect [OF stored rows] by blast
  ultimately show ?thesis
    by (simp add: handle_sender_address_def addr quiet commit_view del: insert_rows_simps(3))
qed

lemma example_address: "address_payload_from_address example_node (PubKey, replicate 32 5) = Ok (key_address 5)"
  by (simp add: address_payload_from_address_def address_payload_from_script_def example_node_def
      example_lib_def kaspa_lib.defs slice_def key_address_def Let_def)

text \<open>A database in which the transaction spent by the example paid to the key 5.\<close>

definition funded_db :: db where
  "funded_db = db_insert PTxIdToAcceptance (ak_bytes \<lparr>ak_tx_id = of_list [4], ak_receiver = key_address 5\<rparr>)
     (acceptance_value avh_zeroed []) (\<lambda>_. tempty)"

lemma funded_db_facts:
  "wf_acceptance key_len_fn funded_db"
  "key_by_tx_id (of_list [4]) funded_db = Ok (Some \<lparr>ak_tx_id = of_list [4], ak_receiver = key_address 5\<rparr>)"
  "\<forall>k. ak_tx_id k = of_list [3] \<longrightarrow> tget (funded_db PTxIdToAcceptance) (ak_bytes k) = None"
  "new_message sealed_op h tx_id receiver funded_db"
proof -
  let ?k = "\<lparr>ak_tx_id = of_list [4], ak_receiver = key_address 5\<rparr>"
  show wf: "wf_acceptance key_len_fn funded_db"
    by (rule wf_acceptance_register [where d = "\<lambda>_. tempty" and k = ?k and es = "[]" and hdr = avh_zeroed])
      (simp_all add: wf_acceptance_def funded_db_def db_insert_def)
  show "key_by_tx_id (of_list [4]) funded_db = Ok (Some ?k)"
    using key_by_tx_id_Some [OF wf, of ?k] by (simp add: funded_db_def)
  show "\<forall>k. ak_tx_id k = of_list [3] \<longrightarrow> tget (funded_db PTxIdToAcceptance) (ak_bytes k) = None"
    by (auto simp: funded_db_def ak.enc_inject)
  show "new_message sealed_op h tx_id receiver funded_db"
    using new_message_empty [of sealed_op h tx_id receiver]
    by (cases sealed_op) (simp_all add: new_message_def funded_db_def)
qed

section \<open>Properties\<close>

text \<open>
  Sender resolution completes a message: when the node reports the sender of a
  transaction whose entries wait for it, the row under the receiver gets the sender, the
  rows under the sender are added, nothing waits any more, the pending request is removed,
  and nothing else changes.
\<close>

theorem sender_resolution_completes:
  assumes "wf_acceptance key_len_fn (vcp_db st)"
    and "stored_acceptance \<lparr>ak_tx_id = tx_id, ak_receiver = receiver\<rparr> hdr
      (waiting_entries sealed_op h tx_id receiver) (vcp_db st)"
    and "rows_in (receiver_rows sealed_op h tx_id receiver address_default) (vcp_db st)"
    and "address_payload_from_address L address = Ok sender"
    and "sender_conflicts env tx_id = []"
  shows "\<exists>st'. handle_sender_address L env address tx_id daa st = Ok st' \<and>
    vcp_db st' = insert_rows (receiver_rows sealed_op h tx_id receiver sender @
        sender_rows sealed_op h tx_id receiver sender)
      (db_insert PTxIdToAcceptance (ak_bytes \<lparr>ak_tx_id = tx_id, ak_receiver = receiver\<rparr>) (avh_bytes hdr)
        (db_remove PPendingSenderResolution
          (pr_bytes \<lparr>pr_accepting_daa_score = daa, pr_tx_id = tx_id\<rparr>) (vcp_db st)))"
  by (rule sender_resolution_effect [OF assms])

theorem sender_resolution_completes_witness:
  "\<exists>st'. handle_sender_address example_node quiet_env (PubKey, replicate 32 5) (of_list [3]) 50
      \<lparr>shutting_down = False, processed_blocks = [], realtime_queue_vcc = [], sync_state = Initial,
       vcp_db = insert_rows (receiver_rows example_op example_header (of_list [3]) (key_address 7) address_default)
         (db_insert PTxIdToAcceptance (ak_bytes \<lparr>ak_tx_id = of_list [3], ak_receiver = key_address 7\<rparr>)
           (acceptance_value avh_zeroed (waiting_entries example_op example_header (of_list [3]) (key_address 7)))
           (\<lambda>_. tempty)),
       vcp_metrics = metrics_new [], vcp_effects = []\<rparr> = Ok st' \<and>
    tget (vcp_db st' PPaymentBySender) (pks_bytes (pay_sender_key example_header (of_list [3]) (key_address 7) (key_address 5))) = Some []"
proof -
  let ?es = "waiting_entries example_op example_header (of_list [3]) (key_address 7)"
  let ?d = "insert_rows (receiver_rows example_op example_header (of_list [3]) (key_address 7) address_default)
         (db_insert PTxIdToAcceptance (ak_bytes \<lparr>ak_tx_id = of_list [3], ak_receiver = key_address 7\<rparr>)
           (acceptance_value avh_zeroed ?es) (\<lambda>_. tempty))"
  let ?st = "\<lparr>shutting_down = False, processed_blocks = [], realtime_queue_vcc = [], sync_state = Initial,
       vcp_db = ?d, vcp_metrics = metrics_new [], vcp_effects = []\<rparr>"
  have "?d PTxIdToAcceptance = tput (ak_bytes \<lparr>ak_tx_id = of_list [3], ak_receiver = key_address 7\<rparr>)
      (acceptance_value avh_zeroed ?es) tempty"
    by (simp add: db_insert_def)
  then have "wf_acceptance key_len_fn ?d"
    using wf_acceptance_register [of key_len_fn "\<lambda>_. tempty" "\<lparr>ak_tx_id = of_list [3], ak_receiver = key_address 7\<rparr>"
        ?es ?d avh_zeroed] waiting_entries_sized [of example_op example_header "of_list [3]" "key_address 7"]
    by (simp add: wf_acceptance_def)
  then show ?thesis
    using sender_resolution_completes [of ?st "of_list [3]" "key_address 7" avh_zeroed example_op example_header
        example_node "(PubKey, replicate 32 5)" "key_address 5" quiet_env 50]
    by (auto simp: example_address quiet_env_def stored_acceptance_def rows_in_def)
qed

text \<open>
  C2. Late is as good as early: a message stored without its sender and completed when the
  sender is reported ends in the very database that storing it with the sender known would
  have given.
\<close>

theorem late_resolution_equals_early:
  assumes tx: "parse_sealed_operation (tx_payload tx) = Some sealed_op" "tx_verbose_id tx = Some tx_id"
      "amount_and_receiver L tx = Ok (amount, receiver)"
    and late: "known_sender tx d = Ok None"
    and early: "known_sender (tx\<lparr>tx_inputs := inputs\<rparr>) d = Ok (Some sender)"
    and fresh: "wf_acceptance key_len_fn d" "new_message sealed_op h tx_id receiver d"
      "\<forall>k. ak_tx_id k = tx_id \<longrightarrow> tget (d PTxIdToAcceptance) (ak_bytes k) = None"
      "tget (d PPendingSenderResolution) (pr_bytes \<lparr>pr_accepting_daa_score = daa, pr_tx_id = tx_id\<rparr>) = None"
    and addr: "address_payload_from_address L address = Ok sender"
    and quiet: "sender_conflicts env tx_id = []"
  shows "\<exists>w w' pe pe' st'.
    handle_transaction L d h collect tx (begin_wtx d, []) = Ok (w, pe) \<and>
    handle_transaction L d h collect (tx\<lparr>tx_inputs := inputs\<rparr>) (begin_wtx d, []) = Ok (w', pe') \<and>
    handle_sender_address L env address tx_id daa (st\<lparr>vcp_db := commit w d\<rparr>) = Ok st' \<and>
    vcp_db st' = commit w' d"
proof -
  let ?tx' = "tx\<lparr>tx_inputs := inputs\<rparr>" and ?key = "\<lparr>ak_tx_id = tx_id, ak_receiver = receiver\<rparr>"
  let ?acc = "\<lambda>es. db_insert PTxIdToAcceptance (ak_bytes ?key) (acceptance_value avh_zeroed es)"
  let ?rows = "rows_at_once sealed_op h tx_id receiver amount"
  have id: "tx_identifier L tx = Ok tx_id" "tx_identifier L ?tx' = Ok tx_id"
    "amount_and_receiver L ?tx' = Ok (amount, receiver)" "parse_sealed_operation (tx_payload ?tx') = Some sealed_op"
    using tx by (simp_all add: tx_identifier_def amount_and_receiver_def)
  have new: "new_message sealed_op h tx_id receiver (view (begin_wtx d))"
    "tget (view (begin_wtx d) PTxIdToAcceptance) (ak_bytes ?key) = None"
    using fresh(2,3) by simp_all
  obtain w pe where w: "handle_transaction L d h collect tx (begin_wtx d, []) = Ok (w, pe)"
    "view w = ?acc (waiting_entries sealed_op h tx_id receiver) (insert_rows (?rows None) d)" "snapshot w = d"
    using handle_transaction_effect [OF tx(1) id(1) tx(3) late new, where collect = collect and pe = "[]"] by auto
  obtain w' pe' where w': "handle_transaction L d h collect ?tx' (begin_wtx d, []) = Ok (w', pe')"
    "view w' = ?acc [] (insert_rows (?rows (Some sender)) d)" "snapshot w' = d"
    using handle_transaction_effect [OF id(4,2,3) early new, where collect = collect and pe = "[]"] by auto
  have part: "view w PTxIdToAcceptance = tput (ak_bytes ?key)
      (acceptance_value avh_zeroed (waiting_entries sealed_op h tx_id receiver)) (d PTxIdToAcceptance)"
    unfolding w(2) by (simp add: db_insert_def del: rows_at_once.simps)
  have wf: "wf_acceptance key_len_fn (view w)"
    by (rule wf_acceptance_register [where d = d and d' = "view w", OF fresh(1) _ waiting_entries_sized part])
      (use fresh(3) in simp)
  have stored: "stored_acceptance ?key avh_zeroed (waiting_entries sealed_op h tx_id receiver) (view w)"
    by (simp add: stored_acceptance_def part)
  have rows: "rows_in (receiver_rows sealed_op h tx_id receiver address_default) (view w)"
    unfolding w(2) by (cases sealed_op) (simp_all add: rows_in_def)
  obtain st' where st': "handle_sender_address L env address tx_id daa (st\<lparr>vcp_db := view w\<rparr>) = Ok st'"
    "vcp_db st' = insert_rows (receiver_rows sealed_op h tx_id receiver sender @
        sender_rows sealed_op h tx_id receiver sender)
      (?acc [] (db_remove PPendingSenderResolution
          (pr_bytes \<lparr>pr_accepting_daa_score = daa, pr_tx_id = tx_id\<rparr>) (view w)))"
    using sender_resolution_effect [of "st\<lparr>vcp_db := view w\<rparr>", OF _ _ _ addr quiet] wf stored rows
    by fastforce
  have "vcp_db st' = view w'"
    unfolding st'(2) w(2) w'(2) using fresh(4) by (intro db_eqI) (cases sealed_op; simp add: message_rows_def)
  then show ?thesis
    using w w' st'(1) by (metis commit_view)
qed

theorem late_resolution_equals_early_witness:
  "\<exists>w w' pe pe' st'.
    handle_transaction example_node funded_db example_header False example_tx (begin_wtx funded_db, []) = Ok (w, pe) \<and>
    handle_transaction example_node funded_db example_header False
      (example_tx\<lparr>tx_inputs := [\<lparr>op_transaction_id = of_list [4], op_index = 0\<rparr>]\<rparr>) (begin_wtx funded_db, []) = Ok (w', pe') \<and>
    handle_sender_address example_node quiet_env (PubKey, replicate 32 5) (of_list [3]) 50
      (vcp_initial [] True (commit w funded_db) (metrics_new [])) = Ok st' \<and>
    vcp_db st' = commit w' funded_db"
proof -
  have early: "known_sender (example_tx\<lparr>tx_inputs := [\<lparr>op_transaction_id = of_list [4], op_index = 0\<rparr>]\<rparr>) funded_db =
      Ok (Some (key_address 5))"
    by (simp add: known_sender_def funded_db_facts)
  have "tget (funded_db PPendingSenderResolution)
      (pr_bytes \<lparr>pr_accepting_daa_score = 50, pr_tx_id = of_list [3]\<rparr>) = None"
    and "sender_conflicts quiet_env (of_list [3]) = []"
    by (simp_all add: funded_db_def quiet_env_def)
  from late_resolution_equals_early [OF example_tx_simps(1,3,4) _ early funded_db_facts(1,4,3) this(1)
      example_address this(2), of example_header False "vcp_initial [] True funded_db (metrics_new [])"]
  show ?thesis
    by (simp add: example_tx_simps vcp_initial_def)
qed

end
