(* ===== verification/Chain_Acceptance.thy ===== *)
theory Chain_Acceptance
  imports Resolution
begin

text \<open>
  What a change of the accepting chain does to the database: which block accepts each message
  transaction, which senders are asked for, and what the accepting blocks list. The effect is
  described by labels: a partial function from transactions to the block (and its DAA score)
  that the change writes as their accepting block.
\<close>

section \<open>Rows and tails\<close>

definition relabel :: "hash \<Rightarrow> u64 \<Rightarrow> bytes \<Rightarrow> bytes" where
  "relabel b daa v = avh_bytes \<lparr>accepting_block_hash = b, accepting_daa = daa\<rparr> @ drop 40 v"

definition tail_of :: "bytes \<Rightarrow> nat \<times> bytes" where
  "tail_of v = (length v, drop 40 v)"

abbreviation acc_get :: "db \<Rightarrow> acceptance_key \<Rightarrow> bytes option" where
  "acc_get d k \<equiv> tget (d PTxIdToAcceptance) (ak_bytes k)"

definition same_tails :: "db \<Rightarrow> db \<Rightarrow> bool" where
  "same_tails d d' \<longleftrightarrow> (\<forall>b. map_option tail_of (tget (d' PTxIdToAcceptance) b) =
      map_option tail_of (tget (d PTxIdToAcceptance) b))"

definition has_message :: "db \<Rightarrow> hash \<Rightarrow> bool" where
  "has_message d tx \<longleftrightarrow> (\<exists>k. ak_tx_id k = tx \<and> acc_get d k \<noteq> None)"

definition waits :: "db \<Rightarrow> hash \<Rightarrow> bool" where
  "waits d tx \<longleftrightarrow> (\<exists>k v. ak_tx_id k = tx \<and> acc_get d k = Some v \<and> 40 < length v)"

lemma same_tails_refl [simp]: "same_tails d d"
  by (simp add: same_tails_def)

lemma same_tailsD:
  assumes "same_tails d d'" and "tget (d PTxIdToAcceptance) b = Some v"
  shows "\<exists>v'. tget (d' PTxIdToAcceptance) b = Some v' \<and> length v' = length v \<and> drop 40 v' = drop 40 v"
proof -
  from assms have "map_option tail_of (tget (d' PTxIdToAcceptance) b) = Some (tail_of v)"
    unfolding same_tails_def by (metis option.simps(9))
  then show ?thesis by (auto simp: tail_of_def)
qed

lemma tail_of_relabel: "40 \<le> length v \<Longrightarrow> tail_of (relabel b daa v) = tail_of v"
  by (simp add: tail_of_def relabel_def)

lemma wf_acceptance_length:
  assumes "wf_acceptance kl d" and "acc_get d k = Some v" shows "40 \<le> length v"
  using wf_acceptance_entry [OF assms] by (metis acceptance_value_simps(3) not_less)

lemma update_acceptance_row:
  assumes "acc_get (view w) k = Some v" and "40 \<le> length v"
  shows "\<exists>w'. update_acceptance_wtx k b daa w =
      Ok (if 40 < length v then KeysExistsWithEntries else KeyExistsNoEntries, w') \<and>
    view w' = db_insert PTxIdToAcceptance (ak_bytes k) (relabel b daa v) (view w) \<and> snapshot w' = snapshot w"
  using assms by (simp add: update_acceptance_wtx_def wtx_get_def Let_def db_insert_def relabel_def)

lemma same_tails_relabel:
  assumes "same_tails d d'" and "acc_get d' k = Some v" and "40 \<le> length v"
  shows "same_tails d (db_insert PTxIdToAcceptance (ak_bytes k) (relabel b daa v) d')"
  using assms unfolding same_tails_def by (auto simp: tail_of_relabel) (metis option.simps(9))

lemma same_tails_other: "same_tails d d' \<Longrightarrow> d'' PTxIdToAcceptance = d' PTxIdToAcceptance \<Longrightarrow> same_tails d d''"
  by (simp add: same_tails_def)

lemma waits_unique:
  assumes "wf_acceptance kl d" and "acc_get d k = Some v"
  shows "waits d (ak_tx_id k) \<longleftrightarrow> 40 < length v"
  using assms unfolding waits_def wf_acceptance_def by (metis option.distinct(1) option.inject)

lemma has_message_key: "acc_get d k \<noteq> None \<Longrightarrow> has_message d (ak_tx_id k)"
  unfolding has_message_def by blast

lemma waits_has_message: "waits d tx \<Longrightarrow> has_message d tx"
  unfolding waits_def has_message_def by (metis option.distinct(1))

text \<open>
  Relabelling: the transactions that \<open>f\<close> is defined on get a new acceptance header, what waits
  for their sender stays, all other rows stay.
\<close>

type_synonym labels = "hash \<rightharpoonup> hash \<times> u64"

definition relabelled :: "labels \<Rightarrow> db \<Rightarrow> db \<Rightarrow> bool" where
  "relabelled f d d' \<longleftrightarrow>
     (\<forall>k. acc_get d' k =
        map_option (case f (ak_tx_id k) of None \<Rightarrow> id | Some (b, daa) \<Rightarrow> relabel b daa) (acc_get d k))"

lemma relabel_relabel [simp]: "relabel b daa (relabel b' daa' v) = relabel b daa v"
  by (simp add: relabel_def)

lemma relabelled_refl [simp]: "relabelled Map.empty d d"
  by (simp add: relabelled_def option.map_id0)

lemma relabelled_trans:
  assumes "relabelled f d d'" and "relabelled g d' d''"
  shows "relabelled (f ++ g) d d''"
  unfolding relabelled_def
proof
  fix k
  show "acc_get d'' k =
      map_option (case (f ++ g) (ak_tx_id k) of None \<Rightarrow> id | Some (b, daa) \<Rightarrow> relabel b daa) (acc_get d k)"
    using assms [unfolded relabelled_def, rule_format, of k]
    by (auto simp: map_add_def option.map_comp comp_def option.map_id option.map_ident split: option.split)
qed

lemma relabelled_other: "relabelled f d d' \<Longrightarrow> d'' PTxIdToAcceptance = d' PTxIdToAcceptance \<Longrightarrow> relabelled f d d''"
  by (simp add: relabelled_def)

lemma relabelled_none: "\<forall>k. ak_tx_id k = tx \<longrightarrow> acc_get d k = None \<Longrightarrow> relabelled [tx \<mapsto> l] d d"
  by (auto simp: relabelled_def option.map_id)

lemma relabelled_one:
  assumes "wf_acceptance kl d0" "same_tails d0 d" and "acc_get d k = Some v"
  shows "relabelled [ak_tx_id k \<mapsto> (b, daa)] d (db_insert PTxIdToAcceptance (ak_bytes k) (relabel b daa v) d)"
proof -
  have "acc_get d k' = None" if "ak_tx_id k' = ak_tx_id k" "k' \<noteq> k" for k'
  proof -
    have "acc_get d0 k \<noteq> None" using assms(2,3) unfolding same_tails_def by (metis option.map_disc_iff option.distinct(1))
    with assms(1) that have "acc_get d0 k' = None" unfolding wf_acceptance_def by metis
    then show ?thesis using assms(2) unfolding same_tails_def by (metis option.map_disc_iff)
  qed
  then show ?thesis using assms(3) by (auto simp: relabelled_def ak.enc_inject option.map_id)
qed

lemma db_insert_same [simp]: "db_insert p k v d p = tput k v (d p)"
  by (simp add: db_insert_def)

definition label :: "processed \<Rightarrow> hash \<Rightarrow> hash list \<Rightarrow> labels" where
  "label blocks b txs = (\<lambda>_. Some (b, fst (the (map_of blocks b)))) |` set txs"

lemma label_Cons:
  "map_of blocks b = Some (daa, bw) \<Longrightarrow> label blocks b (tx # txs) = [tx \<mapsto> (b, daa)] ++ label blocks b txs"
  by (rule ext) (auto simp: label_def map_add_def restrict_map_def split: option.split)

lemma label_Nil [simp]: "label blocks b [] = Map.empty"
  by (rule ext) (simp add: label_def)

text \<open>One accepted transaction.\<close>

lemma accept_transaction_effect:
  assumes wf: "wf_acceptance kl d" and tails: "same_tails d (view w)" and cmd: "command_open env"
  shows "\<exists>w'. accept_transaction env d b daa tx (tracked, w, fx) =
      Ok (tracked @ filter (has_message d) [tx], w',
          fx @ map (\<lambda>t. SendCommand (Request (RequestSender daa t))) (filter (waits d) [tx])) \<and>
    snapshot w' = snapshot w \<and> same_tails d (view w') \<and> relabelled [tx \<mapsto> (b, daa)] (view w) (view w') \<and>
    view w' PPendingSenderResolution = (if waits d tx
      then tput (pr_bytes \<lparr>pr_accepting_daa_score = daa, pr_tx_id = tx\<rparr>) [] else id) (view w PPendingSenderResolution) \<and>
    view w' PAcceptingBlockToTxId = view w PAcceptingBlockToTxId \<and> view w' PMetadata = view w PMetadata"
proof (cases rule: key_by_tx_id_cases [OF wf, of tx])
  case 1
  then have "\<not> has_message d tx" "\<not> waits d tx"
    unfolding has_message_def waits_def by auto
  moreover have "\<forall>k. ak_tx_id k = tx \<longrightarrow> acc_get (view w) k = None"
    using 1(2) tails unfolding same_tails_def by (metis option.map_disc_iff)
  ultimately show ?thesis
    using 1(1) tails by (simp add: accept_transaction_def relabelled_none)
next
  case (2 k)
  then obtain v where v: "acc_get d k = Some v" by blast
  with tails obtain v' where v': "acc_get (view w) k = Some v'" "length v' = length v"
    using same_tailsD by blast
  have len: "40 \<le> length v'" using wf_acceptance_length [OF wf v] v'(2) by simp
  obtain w1 where w1: "update_acceptance_wtx k b daa w =
      Ok (if 40 < length v' then KeysExistsWithEntries else KeyExistsNoEntries, w1)"
    "view w1 = db_insert PTxIdToAcceptance (ak_bytes k) (relabel b daa v') (view w)" "snapshot w1 = snapshot w"
    using update_acceptance_row [OF v'(1) len] by blast
  have msg: "has_message d tx" "waits d tx \<longleftrightarrow> 40 < length v'"
    using has_message_key [of d k] 2(3) waits_unique [OF wf v] 2(2) v'(2) by auto
  have rows: "same_tails d (view w1)" "relabelled [tx \<mapsto> (b, daa)] (view w) (view w1)"
    unfolding w1(2) using same_tails_relabel [OF tails v'(1) len] relabelled_one [OF wf tails v'(1)] 2(2) by auto
  have rel: "relabelled [tx \<mapsto> (b, daa)] (view w) (view (pending_insert_wtx p w1))" for p
    by (rule relabelled_other [OF rows(2)]) (simp add: pending_insert_wtx_def)
  show ?thesis
    using 2(1,2) w1 msg rows cmd rel same_tails_other [OF rows(1)]
    by (auto simp: accept_transaction_def send_command_def pending_insert_wtx_def)
qed


text \<open>The transactions of one accepted block.\<close>

definition pending_row :: "u64 \<Rightarrow> hash \<Rightarrow> bytes" where
  "pending_row daa tx = pr_bytes \<lparr>pr_accepting_daa_score = daa, pr_tx_id = tx\<rparr>"

abbreviation ask_sender :: "u64 \<Rightarrow> hash \<Rightarrow> vcp_effect" where
  "ask_sender daa tx \<equiv> SendCommand (Request (RequestSender daa tx))"

lemma accept_transactions_effect:
  assumes wf: "wf_acceptance kl d" and "same_tails d (view w)" and cmd: "command_open env"
    and daa: "map_of blocks b = Some (daa, bw)"
  shows "\<exists>w'. rfold (accept_transaction env d b daa) txs (tracked, w, fx) =
      Ok (tracked @ filter (has_message d) txs, w', fx @ map (ask_sender daa) (filter (waits d) txs)) \<and>
    snapshot w' = snapshot w \<and> same_tails d (view w') \<and> relabelled (label blocks b txs) (view w) (view w') \<and>
    view w' PPendingSenderResolution =
      fold (\<lambda>t. tput (pending_row daa t) []) (filter (waits d) txs) (view w PPendingSenderResolution) \<and>
    view w' PAcceptingBlockToTxId = view w PAcceptingBlockToTxId \<and> view w' PMetadata = view w PMetadata"
  using assms(2)
proof (induction txs arbitrary: tracked w fx)
  case Nil
  then show ?case by simp
next
  case (Cons tx txs)
  from accept_transaction_effect [OF wf Cons.prems cmd, of b daa tx tracked fx] obtain w1 where
    w1: "accept_transaction env d b daa tx (tracked, w, fx) =
      Ok (tracked @ filter (has_message d) [tx], w1, fx @ map (ask_sender daa) (filter (waits d) [tx]))"
    "snapshot w1 = snapshot w" "same_tails d (view w1)" "relabelled [tx \<mapsto> (b, daa)] (view w) (view w1)"
    "view w1 PPendingSenderResolution = (if waits d tx
      then tput (pending_row daa tx) [] else id) (view w PPendingSenderResolution)"
    "view w1 PAcceptingBlockToTxId = view w PAcceptingBlockToTxId" "view w1 PMetadata = view w PMetadata"
    unfolding pending_row_def by blast
  from Cons.IH [OF w1(3), of "tracked @ filter (has_message d) [tx]" "fx @ map (ask_sender daa) (filter (waits d) [tx])"]
  obtain w2 where
    w2: "rfold (accept_transaction env d b daa) txs
        (tracked @ filter (has_message d) [tx], w1, fx @ map (ask_sender daa) (filter (waits d) [tx])) =
      Ok ((tracked @ filter (has_message d) [tx]) @ filter (has_message d) txs, w2,
        (fx @ map (ask_sender daa) (filter (waits d) [tx])) @ map (ask_sender daa) (filter (waits d) txs))"
    "snapshot w2 = snapshot w1" "same_tails d (view w2)" "relabelled (label blocks b txs) (view w1) (view w2)"
    "view w2 PPendingSenderResolution =
      fold (\<lambda>t. tput (pending_row daa t) []) (filter (waits d) txs) (view w1 PPendingSenderResolution)"
    "view w2 PAcceptingBlockToTxId = view w1 PAcceptingBlockToTxId" "view w2 PMetadata = view w1 PMetadata"
    by blast
  have "relabelled (label blocks b (tx # txs)) (view w) (view w2)"
    unfolding label_Cons [OF daa] by (rule relabelled_trans [OF w1(4) w2(4)])
  then show ?case
    using w1(1,2,5-) w2 by auto
qed


text \<open>The accepted blocks of a change: their labels, their pending rows and the requests they make.\<close>

definition accepted_labels :: "processed \<Rightarrow> accepted_transaction_ids list \<Rightarrow> labels" where
  "accepted_labels blocks accs =
     foldl (++) Map.empty (map (\<lambda>a. label blocks (at_accepting_block_hash a) (at_accepted_transaction_ids a)) accs)"

definition daa_of :: "processed \<Rightarrow> hash \<Rightarrow> u64" where
  "daa_of blocks b = fst (the (map_of blocks b))"

definition awaited :: "processed \<Rightarrow> db \<Rightarrow> accepted_transaction_ids list \<Rightarrow> (u64 \<times> hash) list" where
  "awaited blocks d accs = concat (map (\<lambda>a. map (Pair (daa_of blocks (at_accepting_block_hash a)))
     (filter (waits d) (at_accepted_transaction_ids a))) accs)"

definition tracked_rows :: "db \<Rightarrow> accepted_transaction_ids list \<Rightarrow> table \<Rightarrow> table" where
  "tracked_rows d accs t = fold (\<lambda>a. tput (list_of (at_accepting_block_hash a))
     (concat (map list_of (filter (has_message d) (at_accepted_transaction_ids a))))) accs t"

lemma foldl_map_add: "foldl (++) f gs = f ++ foldl (++) Map.empty gs"
proof (induction gs arbitrary: f)
  case (Cons g gs)
  show ?case using Cons.IH [of "f ++ g"] Cons.IH [of g] by simp
qed simp

lemma accepted_labels_Cons:
  "accepted_labels blocks (a # accs) =
     label blocks (at_accepting_block_hash a) (at_accepted_transaction_ids a) ++ accepted_labels blocks accs"
  unfolding accepted_labels_def using foldl_map_add [of "label blocks (at_accepting_block_hash a) (at_accepted_transaction_ids a)"]
  by simp

lemma handle_vcc_addition_effect:
  assumes wf: "wf_acceptance kl d" and tails: "same_tails d (view w)" and cmd: "command_open env"
    and daa: "map_of blocks (at_accepting_block_hash a) = Some (daa, bw)"
  shows "\<exists>w'. handle_vcc_addition env blocks d a (w, fx) =
      Ok (w', fx @ map (\<lambda>(daa, t). ask_sender daa t) (awaited blocks d [a])) \<and>
    snapshot w' = snapshot w \<and> same_tails d (view w') \<and>
    relabelled (label blocks (at_accepting_block_hash a) (at_accepted_transaction_ids a)) (view w) (view w') \<and>
    view w' PPendingSenderResolution =
      fold (\<lambda>(daa, t). tput (pending_row daa t) []) (awaited blocks d [a]) (view w PPendingSenderResolution) \<and>
    view w' PAcceptingBlockToTxId = tracked_rows d [a] (view w PAcceptingBlockToTxId) \<and>
    view w' PMetadata = view w PMetadata"
proof -
  let ?b = "at_accepting_block_hash a" and ?txs = "at_accepted_transaction_ids a"
  obtain w1 where
    w1: "rfold (accept_transaction env d ?b daa) ?txs ([], w, fx) =
      Ok (filter (has_message d) ?txs, w1, fx @ map (ask_sender daa) (filter (waits d) ?txs))"
    "snapshot w1 = snapshot w" "same_tails d (view w1)" "relabelled (label blocks ?b ?txs) (view w) (view w1)"
    "view w1 PPendingSenderResolution =
      fold (\<lambda>t. tput (pending_row daa t) []) (filter (waits d) ?txs) (view w PPendingSenderResolution)"
    "view w1 PAcceptingBlockToTxId = view w PAcceptingBlockToTxId" "view w1 PMetadata = view w PMetadata"
    using accept_transactions_effect [OF wf tails cmd daa, of ?txs "[]" fx] by auto
  let ?w2 = "accepting_block_insert_wtx ?b (filter (has_message d) ?txs) w1"
  have "same_tails d (view ?w2)" "relabelled (label blocks ?b ?txs) (view w) (view ?w2)"
    by (rule same_tails_other [OF w1(3)] relabelled_other [OF w1(4)]; simp add: accepting_block_insert_wtx_def)+
  then show ?thesis
    using w1(1,2,5-)
    by (simp add: handle_vcc_addition_def daa awaited_def daa_of_def tracked_rows_def fold_map comp_def
        accepting_block_insert_wtx_def)
qed

lemma awaited_Cons: "awaited blocks d (a # accs) = awaited blocks d [a] @ awaited blocks d accs"
  by (simp add: awaited_def)

lemma handle_vcc_additions_effect:
  assumes wf: "wf_acceptance kl d" and "same_tails d (view w)" and cmd: "command_open env"
    and "\<forall>a \<in> set accs. map_of blocks (at_accepting_block_hash a) \<noteq> None"
  shows "\<exists>w'. rfold (handle_vcc_addition env blocks d) accs (w, fx) =
      Ok (w', fx @ map (\<lambda>(daa, t). ask_sender daa t) (awaited blocks d accs)) \<and>
    snapshot w' = snapshot w \<and> same_tails d (view w') \<and>
    relabelled (accepted_labels blocks accs) (view w) (view w') \<and>
    view w' PPendingSenderResolution =
      fold (\<lambda>(daa, t). tput (pending_row daa t) []) (awaited blocks d accs) (view w PPendingSenderResolution) \<and>
    view w' PAcceptingBlockToTxId = tracked_rows d accs (view w PAcceptingBlockToTxId) \<and>
    view w' PMetadata = view w PMetadata"
  using assms(2,4)
proof (induction accs arbitrary: w fx)
  case Nil
  then show ?case by (simp add: accepted_labels_def awaited_def tracked_rows_def)
next
  case (Cons a accs)
  from Cons.prems(2) obtain daa bw where "map_of blocks (at_accepting_block_hash a) = Some (daa, bw)" by auto
  from handle_vcc_addition_effect [OF wf Cons.prems(1) cmd this, of fx] obtain w1 where
    w1: "handle_vcc_addition env blocks d a (w, fx) =
      Ok (w1, fx @ map (\<lambda>(daa, t). ask_sender daa t) (awaited blocks d [a]))"
    "snapshot w1 = snapshot w" "same_tails d (view w1)"
    "relabelled (label blocks (at_accepting_block_hash a) (at_accepted_transaction_ids a)) (view w) (view w1)"
    "view w1 PPendingSenderResolution =
      fold (\<lambda>(daa, t). tput (pending_row daa t) []) (awaited blocks d [a]) (view w PPendingSenderResolution)"
    "view w1 PAcceptingBlockToTxId = tracked_rows d [a] (view w PAcceptingBlockToTxId)"
    "view w1 PMetadata = view w PMetadata" by blast
  from Cons.IH [OF w1(3), of "fx @ map (\<lambda>(daa, t). ask_sender daa t) (awaited blocks d [a])"] Cons.prems(2)
  obtain w2 where
    w2: "rfold (handle_vcc_addition env blocks d) accs
        (w1, fx @ map (\<lambda>(daa, t). ask_sender daa t) (awaited blocks d [a])) =
      Ok (w2, (fx @ map (\<lambda>(daa, t). ask_sender daa t) (awaited blocks d [a])) @
        map (\<lambda>(daa, t). ask_sender daa t) (awaited blocks d accs))"
    "snapshot w2 = snapshot w1" "same_tails d (view w2)"
    "relabelled (accepted_labels blocks accs) (view w1) (view w2)"
    "view w2 PPendingSenderResolution =
      fold (\<lambda>(daa, t). tput (pending_row daa t) []) (awaited blocks d accs) (view w1 PPendingSenderResolution)"
    "view w2 PAcceptingBlockToTxId = tracked_rows d accs (view w1 PAcceptingBlockToTxId)"
    "view w2 PMetadata = view w1 PMetadata" by auto
  have "relabelled (accepted_labels blocks (a # accs)) (view w) (view w2)"
    unfolding accepted_labels_Cons by (rule relabelled_trans [OF w1(4) w2(4)])
  then show ?case
    unfolding awaited_Cons [of blocks d a accs] using w1(1,2,5-) w2 by (simp add: tracked_rows_def)
qed

section \<open>Removed blocks\<close>

definition tracked :: "db \<Rightarrow> hash \<Rightarrow> hash list" where
  "tracked d b = (case tget (d PAcceptingBlockToTxId) (list_of b) of
     None \<Rightarrow> [] | Some v \<Rightarrow> (case hashes_of v of None \<Rightarrow> [] | Some txs \<Rightarrow> txs))"

definition wf_tracked :: "db \<Rightarrow> bool" where
  "wf_tracked d \<longleftrightarrow> (\<forall>b v. tget (d PAcceptingBlockToTxId) b = Some v \<longrightarrow>
     (\<exists>txs. v = concat (map list_of txs) \<and> (\<forall>t \<in> set txs. has_message d t)))"

lemma forget_transaction_effect:
  assumes wf: "wf_acceptance kl d" and tails: "same_tails d (view w)" and msg: "has_message d tx"
  shows "\<exists>w'. forget_transaction d b daa tx w = Ok w' \<and>
    snapshot w' = snapshot w \<and> same_tails d (view w') \<and> relabelled [tx \<mapsto> (b, daa)] (view w) (view w') \<and>
    view w' PPendingSenderResolution =
      (if waits d tx then tdel (pending_row daa tx) else id) (view w PPendingSenderResolution) \<and>
    view w' PAcceptingBlockToTxId = view w PAcceptingBlockToTxId \<and> view w' PMetadata = view w PMetadata"
proof -
  from msg obtain k v where k: "ak_tx_id k = tx" and v: "acc_get d k = Some v"
    unfolding has_message_def by blast
  with tails obtain v' where v': "acc_get (view w) k = Some v'" "length v' = length v"
    using same_tailsD by blast
  have len: "40 \<le> length v'" using wf_acceptance_length [OF wf v] v'(2) by simp
  obtain w1 where w1: "update_acceptance_wtx k b daa w =
      Ok (if 40 < length v' then KeysExistsWithEntries else KeyExistsNoEntries, w1)"
    "view w1 = db_insert PTxIdToAcceptance (ak_bytes k) (relabel b daa v') (view w)" "snapshot w1 = snapshot w"
    using update_acceptance_row [OF v'(1) len] by blast
  have w: "waits d tx \<longleftrightarrow> 40 < length v'" "key_by_tx_id tx d = Ok (Some k)"
    using waits_unique [OF wf v] key_by_tx_id_Some [OF wf, of k] k v v'(2) by auto
  have rows: "same_tails d (view w1)" "relabelled [tx \<mapsto> (b, daa)] (view w) (view w1)"
    unfolding w1(2) using same_tails_relabel [OF tails v'(1) len] relabelled_one [OF wf tails v'(1)] k by auto
  have rel: "relabelled [tx \<mapsto> (b, daa)] (view w) (view (pending_remove_wtx p w1))" for p
    by (rule relabelled_other [OF rows(2)]) (simp add: pending_remove_wtx_def)
  show ?thesis
    using w1 w rows rel same_tails_other [OF rows(1)]
    by (auto simp: forget_transaction_def pending_remove_wtx_def pending_row_def db_remove_def)
qed

lemma forget_transactions_effect:
  assumes wf: "wf_acceptance kl d" and "same_tails d (view w)" and "\<forall>t \<in> set txs. has_message d t"
    and daa: "map_of blocks b = Some (daa, bw)"
  shows "\<exists>w'. rfold (forget_transaction d b daa) txs w = Ok w' \<and>
    snapshot w' = snapshot w \<and> same_tails d (view w') \<and> relabelled (label blocks b txs) (view w) (view w') \<and>
    view w' PPendingSenderResolution =
      fold (\<lambda>t. tdel (pending_row daa t)) (filter (waits d) txs) (view w PPendingSenderResolution) \<and>
    view w' PAcceptingBlockToTxId = view w PAcceptingBlockToTxId \<and> view w' PMetadata = view w PMetadata"
  using assms(2,3)
proof (induction txs arbitrary: w)
  case (Cons tx txs)
  from forget_transaction_effect [OF wf Cons.prems(1), of tx b daa] Cons.prems(2) obtain w1 where
    w1: "forget_transaction d b daa tx w = Ok w1" "snapshot w1 = snapshot w" "same_tails d (view w1)"
    "relabelled [tx \<mapsto> (b, daa)] (view w) (view w1)"
    "view w1 PPendingSenderResolution =
      (if waits d tx then tdel (pending_row daa tx) else id) (view w PPendingSenderResolution)"
    "view w1 PAcceptingBlockToTxId = view w PAcceptingBlockToTxId" "view w1 PMetadata = view w PMetadata"
    by auto
  from Cons.IH [OF w1(3)] Cons.prems(2) obtain w2 where
    w2: "rfold (forget_transaction d b daa) txs w1 = Ok w2" "snapshot w2 = snapshot w1" "same_tails d (view w2)"
    "relabelled (label blocks b txs) (view w1) (view w2)"
    "view w2 PPendingSenderResolution =
      fold (\<lambda>t. tdel (pending_row daa t)) (filter (waits d) txs) (view w1 PPendingSenderResolution)"
    "view w2 PAcceptingBlockToTxId = view w1 PAcceptingBlockToTxId" "view w2 PMetadata = view w1 PMetadata"
    by auto
  have "relabelled (label blocks b (tx # txs)) (view w) (view w2)"
    unfolding label_Cons [OF daa] by (rule relabelled_trans [OF w1(4) w2(4)])
  with w1(1,2,5-) w2 show ?case by auto
qed simp

definition released :: "processed \<Rightarrow> db \<Rightarrow> hash list \<Rightarrow> (u64 \<times> hash) list" where
  "released blocks d bs = concat (map (\<lambda>b. map (Pair (daa_of blocks b)) (filter (waits d) (tracked d b))) bs)"

lemma handle_vcc_removal_effect:
  assumes wf: "wf_acceptance kl d" "wf_tracked d" and tails: "same_tails d (view w)"
    and row: "tget (view w PAcceptingBlockToTxId) (list_of b) = tget (d PAcceptingBlockToTxId) (list_of b)"
    and known: "map_of blocks b \<noteq> None"
  shows "\<exists>w'. handle_vcc_removal blocks d b w = Ok w' \<and>
    snapshot w' = snapshot w \<and> same_tails d (view w') \<and> relabelled (label blocks b (tracked d b)) (view w) (view w') \<and>
    view w' PPendingSenderResolution =
      fold (\<lambda>(daa, t). tdel (pending_row daa t)) (released blocks d [b]) (view w PPendingSenderResolution) \<and>
    view w' PAcceptingBlockToTxId = tdel (list_of b) (view w PAcceptingBlockToTxId) \<and>
    view w' PMetadata = view w PMetadata"
proof -
  from known obtain daa bw where daa: "map_of blocks b = Some (daa, bw)" by auto
  define w1 where "w1 = snd (accepting_block_remove_wtx b w)"
  have w1: "view w1 = db_remove PAcceptingBlockToTxId (list_of b) (view w)" "snapshot w1 = snapshot w"
    "accepting_block_remove_wtx b w = (tget (d PAcceptingBlockToTxId) (list_of b), w1)"
    using row by (simp_all add: w1_def accepting_block_remove_wtx_def wtx_fetch_update_def wtx_get_def db_remove_def)
  have rows: "same_tails d (view w1)"
    by (rule same_tails_other [OF tails]) (simp add: w1)
  have rel0: "relabelled f (view w1) d' \<longleftrightarrow> relabelled f (view w) d'" for f d'
    by (simp add: relabelled_def w1)
  show ?thesis
  proof (cases "tget (d PAcceptingBlockToTxId) (list_of b)")
    case None
    then show ?thesis
      using w1 rows rel0 [of Map.empty "view w1"]
      by (simp add: handle_vcc_removal_def tracked_def released_def db_remove_def)
  next
    case (Some v)
    with wf(2) obtain txs where txs: "v = concat (map list_of txs)" "\<forall>t \<in> set txs. has_message d t"
      unfolding wf_tracked_def by blast
    have tr: "tracked d b = txs" using Some txs(1) by (simp add: tracked_def)
    have df: "deref hashes_of v = Ok txs" using txs(1) by (simp add: deref_def)
    from forget_transactions_effect [OF wf(1) rows txs(2) daa] obtain w2 where
      w2: "rfold (forget_transaction d b daa) txs w1 = Ok w2" "snapshot w2 = snapshot w1" "same_tails d (view w2)"
      "relabelled (label blocks b txs) (view w1) (view w2)"
      "view w2 PPendingSenderResolution =
        fold (\<lambda>t. tdel (pending_row daa t)) (filter (waits d) txs) (view w1 PPendingSenderResolution)"
      "view w2 PAcceptingBlockToTxId = view w1 PAcceptingBlockToTxId" "view w2 PMetadata = view w1 PMetadata"
      by blast
    with w1 Some daa df rel0 show ?thesis
      by (simp add: handle_vcc_removal_def tr released_def daa_of_def fold_map comp_def db_remove_def)
  qed
qed

definition removed_labels :: "processed \<Rightarrow> db \<Rightarrow> hash list \<Rightarrow> labels" where
  "removed_labels blocks d bs = foldl (++) Map.empty (map (\<lambda>b. label blocks b (tracked d b)) bs)"

lemma removed_labels_Cons:
  "removed_labels blocks d (b # bs) = label blocks b (tracked d b) ++ removed_labels blocks d bs"
  unfolding removed_labels_def using foldl_map_add [of "label blocks b (tracked d b)"] by simp

lemma released_Cons: "released blocks d (b # bs) = released blocks d [b] @ released blocks d bs"
  by (simp add: released_def)

lemma handle_vcc_removals_effect:
  assumes wf: "wf_acceptance kl d" "wf_tracked d" and "same_tails d (view w)" and "distinct bs"
    and "\<forall>b \<in> set bs. tget (view w PAcceptingBlockToTxId) (list_of b) = tget (d PAcceptingBlockToTxId) (list_of b)"
    and "\<forall>b \<in> set bs. map_of blocks b \<noteq> None"
  shows "\<exists>w'. rfold (handle_vcc_removal blocks d) bs w = Ok w' \<and>
    snapshot w' = snapshot w \<and> same_tails d (view w') \<and> relabelled (removed_labels blocks d bs) (view w) (view w') \<and>
    view w' PPendingSenderResolution =
      fold (\<lambda>(daa, t). tdel (pending_row daa t)) (released blocks d bs) (view w PPendingSenderResolution) \<and>
    view w' PAcceptingBlockToTxId = fold (\<lambda>b. tdel (list_of b)) bs (view w PAcceptingBlockToTxId) \<and>
    view w' PMetadata = view w PMetadata"
  using assms(3-)
proof (induction bs arbitrary: w)
  case Nil
  then show ?case by (simp add: removed_labels_def released_def)
next
  case (Cons b bs)
  from handle_vcc_removal_effect [OF wf Cons.prems(1), of b blocks] Cons.prems(3,4) obtain w1 where
    w1: "handle_vcc_removal blocks d b w = Ok w1" "snapshot w1 = snapshot w" "same_tails d (view w1)"
    "relabelled (label blocks b (tracked d b)) (view w) (view w1)"
    "view w1 PPendingSenderResolution =
      fold (\<lambda>(daa, t). tdel (pending_row daa t)) (released blocks d [b]) (view w PPendingSenderResolution)"
    "view w1 PAcceptingBlockToTxId = tdel (list_of b) (view w PAcceptingBlockToTxId)"
    "view w1 PMetadata = view w PMetadata"
    by auto
  have rows: "\<forall>x \<in> set bs. tget (view w1 PAcceptingBlockToTxId) (list_of x) = tget (d PAcceptingBlockToTxId) (list_of x)"
    using Cons.prems(2,3) by (auto simp: w1(6))
  have "distinct bs" "\<forall>b \<in> set bs. map_of blocks b \<noteq> None" using Cons.prems(2,4) by auto
  from Cons.IH [OF w1(3) this(1) rows this(2)] obtain w2 where
    w2: "rfold (handle_vcc_removal blocks d) bs w1 = Ok w2" "snapshot w2 = snapshot w1" "same_tails d (view w2)"
    "relabelled (removed_labels blocks d bs) (view w1) (view w2)"
    "view w2 PPendingSenderResolution =
      fold (\<lambda>(daa, t). tdel (pending_row daa t)) (released blocks d bs) (view w1 PPendingSenderResolution)"
    "view w2 PAcceptingBlockToTxId = fold (\<lambda>b. tdel (list_of b)) bs (view w1 PAcceptingBlockToTxId)"
    "view w2 PMetadata = view w1 PMetadata"
    by blast
  have "relabelled (removed_labels blocks d (b # bs)) (view w) (view w2)"
    unfolding removed_labels_Cons by (rule relabelled_trans [OF w1(4) w2(4)])
  then show ?case
    unfolding released_Cons [of blocks d b bs] using w1(1,2,5-) w2 by simp
qed

section \<open>A change of the chain\<close>

text \<open>
  The situation in which a change is applied: the partitions are well formed, the blocks of the
  change are known, and the channel of the data source is open.
\<close>

definition chain_ready :: "vcp_env \<Rightarrow> processed \<Rightarrow> virtual_chain_change \<Rightarrow> db \<Rightarrow> bool" where
  "chain_ready env blocks vcc d \<longleftrightarrow>
     wf_acceptance key_len_fn d \<and> wf_tracked d \<and> is_ok (get_latest_accepting_block_cursor d) \<and>
     command_open env \<and> distinct (removed_chain_block_hashes vcc) \<and> added_chain_block_hashes vcc \<noteq> [] \<and>
     (\<forall>b \<in> set (removed_chain_block_hashes vcc) \<union> set (added_chain_block_hashes vcc) \<union>
          at_accepting_block_hash ` set (vc_accepted_transaction_ids vcc). map_of blocks b \<noteq> None)"

definition change_labels :: "processed \<Rightarrow> db \<Rightarrow> virtual_chain_change \<Rightarrow> labels" where
  "change_labels blocks d vcc =
     removed_labels blocks d (removed_chain_block_hashes vcc) ++
     accepted_labels blocks (vc_accepted_transaction_ids vcc)"

lemma set_accepting_cursor_total:
  assumes "is_ok (get_latest_accepting_block_cursor (view w))"
  shows "\<exists>v. set_latest_accepting_block_cursor c w =
    Ok (wtx_insert PMetadata (mkey LatestAcceptingBlockCursor) v w)"
  using assms
  by (auto simp: set_latest_accepting_block_cursor_def newer_cursor_def get_latest_accepting_block_cursor_def
      read_cursor_def wtx_get_def is_ok_def split: option.splits)

lemma chain_body_effect:
  assumes ready: "chain_ready env blocks vcc d"
  shows "\<exists>w. chain_body env blocks vcc d fx =
      Ok (d, fx @ map (\<lambda>(daa, t). ask_sender daa t) (awaited blocks d (vc_accepted_transaction_ids vcc)), w,
          (last (added_chain_block_hashes vcc), snd (the (map_of blocks (last (added_chain_block_hashes vcc)))))) \<and>
    snapshot w = d \<and> same_tails d (view w) \<and> relabelled (change_labels blocks d vcc) d (view w) \<and>
    view w PPendingSenderResolution =
      fold (\<lambda>(daa, t). tput (pending_row daa t) []) (awaited blocks d (vc_accepted_transaction_ids vcc))
        (fold (\<lambda>(daa, t). tdel (pending_row daa t)) (released blocks d (removed_chain_block_hashes vcc))
          (d PPendingSenderResolution)) \<and>
    view w PAcceptingBlockToTxId = tracked_rows d (vc_accepted_transaction_ids vcc)
      (fold (\<lambda>b. tdel (list_of b)) (removed_chain_block_hashes vcc) (d PAcceptingBlockToTxId))"
proof -
  let ?last = "last (added_chain_block_hashes vcc)"
  from ready have wf: "wf_acceptance key_len_fn d" "wf_tracked d" and cmd: "command_open env"
    and dist: "distinct (removed_chain_block_hashes vcc)"
    and rk: "\<forall>b \<in> set (removed_chain_block_hashes vcc). map_of blocks b \<noteq> None"
    and ak: "\<forall>a \<in> set (vc_accepted_transaction_ids vcc). map_of blocks (at_accepting_block_hash a) \<noteq> None"
    and added: "added_chain_block_hashes vcc \<noteq> []" and cur: "is_ok (get_latest_accepting_block_cursor d)"
    unfolding chain_ready_def by blast+
  from ready added have "map_of blocks ?last \<noteq> None"
    unfolding chain_ready_def by (meson UnI1 UnI2 last_in_set)
  then obtain ldaa lbw where l: "map_of blocks ?last = Some (ldaa, lbw)" by auto
  from handle_vcc_removals_effect [OF wf _ dist _ rk, of "begin_wtx d"] obtain w1 where
    w1: "rfold (handle_vcc_removal blocks d) (removed_chain_block_hashes vcc) (begin_wtx d) = Ok w1"
    "snapshot w1 = d" "same_tails d (view w1)"
    "relabelled (removed_labels blocks d (removed_chain_block_hashes vcc)) d (view w1)"
    "view w1 PPendingSenderResolution =
      fold (\<lambda>(daa, t). tdel (pending_row daa t)) (released blocks d (removed_chain_block_hashes vcc)) (d PPendingSenderResolution)"
    "view w1 PAcceptingBlockToTxId = fold (\<lambda>b. tdel (list_of b)) (removed_chain_block_hashes vcc) (d PAcceptingBlockToTxId)"
    "view w1 PMetadata = d PMetadata" by auto
  from handle_vcc_additions_effect [OF wf(1) w1(3) cmd ak, of fx] obtain w2 where
    w2: "rfold (handle_vcc_addition env blocks d) (vc_accepted_transaction_ids vcc) (w1, fx) =
      Ok (w2, fx @ map (\<lambda>(daa, t). ask_sender daa t) (awaited blocks d (vc_accepted_transaction_ids vcc)))"
    "snapshot w2 = d" "same_tails d (view w2)"
    "relabelled (accepted_labels blocks (vc_accepted_transaction_ids vcc)) (view w1) (view w2)"
    "view w2 PPendingSenderResolution =
      fold (\<lambda>(daa, t). tput (pending_row daa t) []) (awaited blocks d (vc_accepted_transaction_ids vcc)) (view w1 PPendingSenderResolution)"
    "view w2 PAcceptingBlockToTxId = tracked_rows d (vc_accepted_transaction_ids vcc) (view w1 PAcceptingBlockToTxId)"
    "view w2 PMetadata = d PMetadata" using w1(2,7) by auto
  have "is_ok (get_latest_accepting_block_cursor (view w2))"
    using cur w2(7) by (simp add: get_latest_accepting_block_cursor_def)
  from set_accepting_cursor_total [OF this] obtain v where
    v: "set_latest_accepting_block_cursor (db_of_cursor \<lparr>cc_blue_work = lbw, cc_block_hash = ?last, cc_daa_score = ldaa\<rparr>) w2 =
      Ok (wtx_insert PMetadata (mkey LatestAcceptingBlockCursor) v w2)" by blast
  let ?w3 = "wtx_insert PMetadata (mkey LatestAcceptingBlockCursor) v w2"
  have "relabelled (change_labels blocks d vcc) d (view ?w3)"
    unfolding change_labels_def
    by (rule relabelled_other [OF relabelled_trans [OF w1(4) w2(4)]]) simp
  moreover have "same_tails d (view ?w3)" by (rule same_tails_other [OF w2(3)]) simp
  ultimately show ?thesis
    using w1(1,5,6) w2(1,2,5,6) v l added by (simp add: chain_body_def)
qed

lemma wf_acceptance_same_tails:
  assumes wf: "wf_acceptance kl d" and tails: "same_tails d d'"
  shows "wf_acceptance kl d'"
proof -
  have dom: "tget (d' PTxIdToAcceptance) b = None \<longleftrightarrow> tget (d PTxIdToAcceptance) b = None" for b
    using tails unfolding same_tails_def by (metis option.map_disc_iff)
  have typed: "\<exists>k h es. b = ak_bytes k \<and> v' = acceptance_value h es \<and> (\<forall>e \<in> set es. sized_entry kl e)"
    if b: "tget (d' PTxIdToAcceptance) b = Some v'" for b v'
  proof -
    from dom [of b] b obtain v where v: "tget (d PTxIdToAcceptance) b = Some v" by auto
    with wf obtain k h es where k: "b = ak_bytes k" "v = acceptance_value h es" "\<forall>e \<in> set es. sized_entry kl e"
      unfolding wf_acceptance_def by blast
    from same_tailsD [OF tails v] b have "length v' = length v" "drop 40 v' = concat (map entry_bytes es)"
      by (auto simp: k(2))
    moreover have "length (take 40 v') = 40" using calculation(1) k(2) by (simp add: acceptance_value_def)
    then obtain h' where "take 40 v' = avh_bytes h'"
      by (metis avh.dec_iff avh.dec_None_iff option.exhaust)
    ultimately have "v' = acceptance_value h' es"
      by (metis acceptance_value_def append_take_drop_id)
    with k show ?thesis by blast
  qed
  moreover have "\<forall>k k'. acc_get d' k \<noteq> None \<longrightarrow> acc_get d' k' \<noteq> None \<longrightarrow> ak_tx_id k = ak_tx_id k' \<longrightarrow> k = k'"
    using wf unfolding wf_acceptance_def dom by blast
  ultimately show ?thesis unfolding wf_acceptance_def by blast
qed

lemma has_message_same_tails: "same_tails d d' \<Longrightarrow> has_message d' tx = has_message d tx"
  unfolding same_tails_def has_message_def by (metis option.map_disc_iff)

lemma tget_folds [simp]:
  "tget (fold (\<lambda>x. tput (f x) (g x)) xs t) q =
     (case map_of (map (\<lambda>x. (f x, g x)) (rev xs)) q of None \<Rightarrow> tget t q | Some v \<Rightarrow> Some v)"
  "tget (fold (\<lambda>x. tdel (f x)) xs t) q = (if q \<in> f ` set xs then None else tget t q)"
  by (induction xs arbitrary: t) (auto simp: map_add_def split: option.split)

lemma tracked_rows_get:
  assumes "tget (tracked_rows d accs t) b = Some v"
  shows "tget t b = Some v \<or> (\<exists>a \<in> set accs. b = list_of (at_accepting_block_hash a) \<and>
    v = concat (map list_of (filter (has_message d) (at_accepted_transaction_ids a))))"
  using assms unfolding tracked_rows_def
  by (auto dest!: map_of_SomeD split: option.splits)

lemma wf_tracked_change:
  assumes wf: "wf_tracked d" and tails: "same_tails d d'"
    and rows: "d' PAcceptingBlockToTxId = tracked_rows d accs (fold (\<lambda>b. tdel (list_of b)) bs (d PAcceptingBlockToTxId))"
  shows "wf_tracked d'"
  unfolding wf_tracked_def has_message_same_tails [OF tails]
proof (intro allI impI)
  fix b v
  assume "tget (d' PAcceptingBlockToTxId) b = Some v"
  from tracked_rows_get [OF this [unfolded rows]]
  show "\<exists>txs. v = concat (map list_of txs) \<and> (\<forall>t \<in> set txs. has_message d t)"
  proof
    assume "tget (fold (\<lambda>b. tdel (list_of b)) bs (d PAcceptingBlockToTxId)) b = Some v"
    with wf show ?thesis unfolding wf_tracked_def by (auto split: if_splits)
  next
    assume "\<exists>a \<in> set accs. b = list_of (at_accepting_block_hash a) \<and>
      v = concat (map list_of (filter (has_message d) (at_accepted_transaction_ids a)))"
    then show ?thesis by (elim bexE conjE) (rule exI, auto)
  qed
qed

lemma handle_vcc_effect:
  assumes ready: "chain_ready env (processed_blocks st) vcc (vcp_db st)" and quiet: "vcc_conflicts env vcc = []"
  shows "\<exists>d. handle_vcc env vcc st =
      Ok ((last (added_chain_block_hashes vcc), snd (the (map_of (processed_blocks st) (last (added_chain_block_hashes vcc))))),
        st\<lparr>vcp_db := d, vcp_effects := vcp_effects st @
          map (\<lambda>(daa, t). ask_sender daa t) (awaited (processed_blocks st) (vcp_db st) (vc_accepted_transaction_ids vcc))\<rparr>) \<and>
    same_tails (vcp_db st) d \<and> relabelled (change_labels (processed_blocks st) (vcp_db st) vcc) (vcp_db st) d \<and>
    d PPendingSenderResolution =
      fold (\<lambda>(daa, t). tput (pending_row daa t) []) (awaited (processed_blocks st) (vcp_db st) (vc_accepted_transaction_ids vcc))
        (fold (\<lambda>(daa, t). tdel (pending_row daa t)) (released (processed_blocks st) (vcp_db st) (removed_chain_block_hashes vcc))
          (vcp_db st PPendingSenderResolution)) \<and>
    d PAcceptingBlockToTxId = tracked_rows (vcp_db st) (vc_accepted_transaction_ids vcc)
      (fold (\<lambda>b. tdel (list_of b)) (removed_chain_block_hashes vcc) (vcp_db st PAcceptingBlockToTxId))"
  using chain_body_effect [OF ready, of "vcp_effects st"] quiet
  by (auto simp: handle_vcc_def commit_view)

text \<open>What the query for the accepting block answers after a relabelling.\<close>

lemma acceptance_query:
  assumes wf: "wf_acceptance kl d" and k: "acc_get d k = Some (avh_bytes h @ rest)"
  shows "acceptance_by_tx_id_rtx (ak_tx_id k) d = Ok (if h = avh_zeroed then None else Some h)"
proof -
  obtain k' v where "tprefix (list_of (ak_tx_id k)) (d PTxIdToAcceptance) = [(ak_bytes k', v)]"
    and k': "ak_tx_id k' = ak_tx_id k" "acc_get d k' = Some v"
    using acceptance_scan [OF wf, of "ak_tx_id k"] k by (metis option.distinct(1))
  moreover from k' k wf have "k' = k" unfolding wf_acceptance_def by (metis option.distinct(1))
  moreover from this k' k have "v = avh_bytes h @ rest" by simp
  ultimately show ?thesis by (simp add: acceptance_by_tx_id_rtx_def)
qed

lemma relabelled_query:
  assumes wf: "wf_acceptance kl d" and tails: "same_tails d d'" and rel: "relabelled f d d'"
    and msg: "has_message d tx" and f: "f tx = Some (b, daa)" and nz: "b \<noteq> accepting_block_hash avh_zeroed"
  shows "acceptance_by_tx_id_rtx tx d' = Ok (Some \<lparr>accepting_block_hash = b, accepting_daa = daa\<rparr>)"
proof -
  from msg obtain k v where k: "ak_tx_id k = tx" "acc_get d k = Some v" unfolding has_message_def by blast
  with rel f have "acc_get d' k = Some (relabel b daa v)" by (simp add: relabelled_def)
  from acceptance_query [OF wf_acceptance_same_tails [OF wf tails] this [unfolded relabel_def]] k(1) nz
  show ?thesis by (metis acceptance_value_header.select_convs(1))
qed

lemma foldl_map_add_None: "(\<forall>x \<in> set xs. f x t = None) \<Longrightarrow> foldl (++) Map.empty (map f xs) t = None"
  by (induction xs) (simp_all add: foldl_map_add [where f = "f _"] map_add_def)

lemma foldl_map_add_unique:
  assumes "\<exists>x \<in> set xs. f x t = Some y" and "\<forall>x \<in> set xs. f x t = None \<or> f x t = Some y"
  shows "foldl (++) Map.empty (map f xs) t = Some y"
  using assms
proof (induction xs)
  case (Cons a xs)
  show ?case
  proof (cases "\<exists>x \<in> set xs. f x t = Some y")
    case True
    with Cons show ?thesis by (simp add: foldl_map_add [where f = "f a"] map_add_Some_iff)
  next
    case False
    with Cons.prems have "\<forall>x \<in> set xs. f x t = None" "f a t = Some y" by auto
    then show ?thesis
      using foldl_map_add_None [of xs f t] by (simp add: foldl_map_add [where f = "f a"] map_add_Some_iff)
  qed
qed simp

lemma accepted_labels_None:
  "(\<forall>a \<in> set accs. t \<notin> set (at_accepted_transaction_ids a)) \<Longrightarrow> accepted_labels blocks accs t = None"
  unfolding accepted_labels_def by (rule foldl_map_add_None) (simp add: label_def)

lemma pending_row_inject [simp]: "pending_row daa tx = pending_row daa' tx' \<longleftrightarrow> daa = daa' \<and> tx = tx'"
  by (auto simp: pending_row_def pr.enc_inject)

lemma tget_pending_add:
  "tget (fold (\<lambda>(daa, t). tput (pending_row daa t) []) xs table) (pending_row daa tx) =
     (if (daa, tx) \<in> set xs then Some [] else tget table (pending_row daa tx))"
  by (induction xs arbitrary: table) (auto split: if_splits)

lemma tget_pending_del:
  "tget (fold (\<lambda>(daa, t). tdel (pending_row daa t)) xs table) (pending_row daa tx) =
     (if (daa, tx) \<in> set xs then None else tget table (pending_row daa tx))"
  by (induction xs arbitrary: table) (auto split: if_splits)

lemma tracked_rows_added:
  assumes "distinct (map at_accepting_block_hash accs)" and "a \<in> set accs"
  shows "tget (tracked_rows d accs t) (list_of (at_accepting_block_hash a)) =
    Some (concat (map list_of (filter (has_message d) (at_accepted_transaction_ids a))))"
proof -
  have "map_of (map (\<lambda>a. (list_of (at_accepting_block_hash a),
        concat (map list_of (filter (has_message d) (at_accepted_transaction_ids a))))) (rev accs))
      (list_of (at_accepting_block_hash a)) =
    Some (concat (map list_of (filter (has_message d) (at_accepted_transaction_ids a))))"
  proof (rule map_of_is_SomeI)
    show "distinct (map fst (map (\<lambda>a. (list_of (at_accepting_block_hash a),
        concat (map list_of (filter (has_message d) (at_accepted_transaction_ids a))))) (rev accs)))"
      using assms(1) by (auto simp: distinct_map comp_def inj_on_def)
  qed (use assms(2) in auto)
  then show ?thesis by (simp add: tracked_rows_def)
qed

lemma tracked_has_message: "wf_tracked d \<Longrightarrow> tx \<in> set (tracked d b) \<Longrightarrow> has_message d tx"
proof (cases "tget (d PAcceptingBlockToTxId) (list_of b)")
  case (Some v)
  assume "wf_tracked d" "tx \<in> set (tracked d b)"
  moreover from this(1) Some obtain txs where "v = concat (map list_of txs)" "\<forall>t \<in> set txs. has_message d t"
    unfolding wf_tracked_def by blast
  ultimately show ?thesis using Some by (simp add: tracked_def)
qed (simp add: tracked_def)

text \<open>Examples.\<close>

text \<open>A database with one waiting message, and a change whose block accepts its transaction.\<close>

definition waiting_db :: db where
  "waiting_db = db_insert PTxIdToAcceptance (ak_bytes \<lparr>ak_tx_id = of_list [3], ak_receiver = key_address 7\<rparr>)
     (acceptance_value avh_zeroed (waiting_entries example_op example_header (of_list [3]) (key_address 7)))
     (\<lambda>_. tempty)"

definition tracking_db :: db where
  "tracking_db = db_insert PAcceptingBlockToTxId (list_of (of_list [8] :: hash)) (list_of (of_list [3] :: hash)) waiting_db"

definition example_change :: virtual_chain_change where
  "example_change = \<lparr>removed_chain_block_hashes = [], added_chain_block_hashes = [of_list [9]],
     vc_accepted_transaction_ids =
       [\<lparr>at_accepting_block_hash = of_list [9], at_accepted_transaction_ids = [of_list [3], of_list [5]]\<rparr>]\<rparr>"

definition example_reorg :: virtual_chain_change where
  "example_reorg = \<lparr>removed_chain_block_hashes = [of_list [8]], added_chain_block_hashes = [of_list [9]],
     vc_accepted_transaction_ids = []\<rparr>"

definition example_vcp :: "db \<Rightarrow> vcp_state" where
  "example_vcp d = vcp_initial
     [\<lparr>ch_block_hash = of_list [8], ch_blue_work = 6, ch_daa_score = 49\<rparr>,
      \<lparr>ch_block_hash = of_list [9], ch_blue_work = 7, ch_daa_score = 50\<rparr>] True d (metrics_new [])"

lemma example_hashes [simp]:
  "(of_list [8] :: hash) \<noteq> of_list [9]" "(of_list [9] :: hash) \<noteq> of_list [8]"
  "(of_list [8] :: hash) \<noteq> of_list []" "(of_list [9] :: hash) \<noteq> of_list []"
  "(of_list [3] :: hash) \<noteq> of_list [5]" "(of_list [5] :: hash) \<noteq> of_list [3]"
  by (simp_all add: Cons_replicate_eq flip: list_of_eq_iff)

lemma example_vcp_simps [simp]:
  "vcp_db (example_vcp d) = d" "vcp_effects (example_vcp d) = []"
  "processed_blocks (example_vcp d) = [(of_list [8], 49, 6), (of_list [9], 50, 7)]"
  by (simp_all add: example_vcp_def vcp_initial_def initial_blocks_def ring_insert_def)


lemma waiting_db_facts:
  "wf_acceptance key_len_fn waiting_db" "has_message waiting_db (of_list [3])"
  "waits waiting_db (of_list [3])" "\<not> waits waiting_db (of_list [5])"
proof -
  let ?k = "\<lparr>ak_tx_id = of_list [3], ak_receiver = key_address 7\<rparr>"
  let ?es = "waiting_entries example_op example_header (of_list [3]) (key_address 7)"
  have rows: "acc_get waiting_db k = (if k = ?k then Some (acceptance_value avh_zeroed ?es) else None)" for k
    by (simp add: waiting_db_def ak.enc_inject)
  show wf: "wf_acceptance key_len_fn waiting_db"
    by (rule wf_acceptance_register [where d = "\<lambda>_. tempty" and k = ?k and es = ?es and hdr = avh_zeroed,
          OF _ _ waiting_entries_sized])
      (simp_all add: wf_acceptance_def waiting_db_def)
  show "waits waiting_db (of_list [3])"
    using waits_unique [OF wf, of ?k "acceptance_value avh_zeroed ?es"] rows [of ?k] by simp
  then show "has_message waiting_db (of_list [3])" by (rule waits_has_message)
  show "\<not> waits waiting_db (of_list [5])" unfolding waits_def rows by (auto split: if_splits)
qed

lemma tracking_db_facts:
  "wf_acceptance key_len_fn tracking_db" "tracked tracking_db (of_list [8]) = [of_list [3]]"
  "wf_tracked tracking_db" "wf_tracked waiting_db"
proof -
  have same: "same_tails waiting_db tracking_db"
    by (rule same_tails_other [OF same_tails_refl]) (simp add: tracking_db_def)
  show "wf_acceptance key_len_fn tracking_db" by (rule wf_acceptance_same_tails [OF waiting_db_facts(1) same])
  show "tracked tracking_db (of_list [8]) = [of_list [3]]"
    using hashes_of_concat [of "[of_list [3]]"] by (simp add: tracked_def tracking_db_def)
  show "wf_tracked waiting_db" by (simp add: wf_tracked_def waiting_db_def)
  then show "wf_tracked tracking_db"
    unfolding wf_tracked_def has_message_same_tails [OF same]
    using waiting_db_facts(2)
    by (auto simp: tracking_db_def waiting_db_def split: if_splits intro!: exI [of _ "[of_list [3]]"])
qed

lemma example_ready:
  "chain_ready quiet_env (processed_blocks (example_vcp waiting_db)) example_change (vcp_db (example_vcp waiting_db))"
  "chain_ready quiet_env (processed_blocks (example_vcp tracking_db)) example_reorg (vcp_db (example_vcp tracking_db))"
  using waiting_db_facts(1) tracking_db_facts
  by (simp_all add: chain_ready_def quiet_env_def example_change_def example_reorg_def
      get_latest_accepting_block_cursor_def waiting_db_def tracking_db_def)

section \<open>Properties\<close>

text \<open>
  C5. The accepting block is recorded: after a change of the chain whose blocks are known, the
  query for the accepting block of a message answers with the block of the change that accepts
  its transaction, and with the DAA score of that block.
\<close>

theorem accepting_block_recorded:
  assumes ready: "chain_ready env (processed_blocks st) vcc (vcp_db st)" and quiet: "vcc_conflicts env vcc = []"
    and msg: "has_message (vcp_db st) tx"
    and acc: "a \<in> set (vc_accepted_transaction_ids vcc)" "tx \<in> set (at_accepted_transaction_ids a)"
    and once: "\<forall>a' \<in> set (vc_accepted_transaction_ids vcc). tx \<in> set (at_accepted_transaction_ids a') \<longrightarrow>
      at_accepting_block_hash a' = at_accepting_block_hash a"
    and nz: "at_accepting_block_hash a \<noteq> of_list []"
  shows "\<exists>chain_block st' daa bw. handle_vcc env vcc st = Ok (chain_block, st') \<and>
    map_of (processed_blocks st) (at_accepting_block_hash a) = Some (daa, bw) \<and>
    acceptance_by_tx_id_rtx tx (vcp_db st') =
      Ok (Some \<lparr>accepting_block_hash = at_accepting_block_hash a, accepting_daa = daa\<rparr>)"
proof -
  from ready acc(1) have "map_of (processed_blocks st) (at_accepting_block_hash a) \<noteq> None"
    unfolding chain_ready_def by blast
  then obtain daa bw where daa: "map_of (processed_blocks st) (at_accepting_block_hash a) = Some (daa, bw)"
    by auto
  have "accepted_labels (processed_blocks st) (vc_accepted_transaction_ids vcc) tx =
      Some (at_accepting_block_hash a, daa)"
    unfolding accepted_labels_def
  proof (rule foldl_map_add_unique)
    show "\<forall>a' \<in> set (vc_accepted_transaction_ids vcc).
        label (processed_blocks st) (at_accepting_block_hash a') (at_accepted_transaction_ids a') tx = None \<or>
        label (processed_blocks st) (at_accepting_block_hash a') (at_accepted_transaction_ids a') tx =
          Some (at_accepting_block_hash a, daa)"
      using once daa by (simp add: label_def restrict_map_def)
  qed (use acc daa in \<open>auto simp: label_def intro!: bexI [of _ a]\<close>)
  then have label: "change_labels (processed_blocks st) (vcp_db st) vcc tx = Some (at_accepting_block_hash a, daa)"
    by (simp add: change_labels_def)
  have wf: "wf_acceptance key_len_fn (vcp_db st)" using ready unfolding chain_ready_def by blast
  have nz': "at_accepting_block_hash a \<noteq> accepting_block_hash avh_zeroed"
    using nz by (simp add: avh_zeroed_def)
  from handle_vcc_effect [OF ready quiet] obtain cb st' where run: "handle_vcc env vcc st = Ok (cb, st')"
    and "same_tails (vcp_db st) (vcp_db st')"
    and "relabelled (change_labels (processed_blocks st) (vcp_db st) vcc) (vcp_db st) (vcp_db st')" by auto
  from relabelled_query [OF wf this(2,3) msg label nz'] run daa show ?thesis by blast
qed

theorem accepting_block_recorded_witness:
  "\<exists>chain_block st'. handle_vcc quiet_env example_change (example_vcp waiting_db) = Ok (chain_block, st') \<and>
    acceptance_by_tx_id_rtx (of_list [3]) (vcp_db st') =
      Ok (Some \<lparr>accepting_block_hash = of_list [9], accepting_daa = 50\<rparr>)"
  using accepting_block_recorded [OF example_ready(1), of "of_list [3]"
      "\<lparr>at_accepting_block_hash = of_list [9], at_accepted_transaction_ids = [of_list [3], of_list [5]]\<rparr>"]
    waiting_db_facts(2)
  by (simp add: example_change_def quiet_env_def)

text \<open>
  Senders are asked for exactly where they are missing: a change of the chain sends one
  request for each accepted transaction whose entries wait for the sender, with the DAA score
  of the accepting block; it stores these requests as pending, removes those of the blocks
  that left the chain, and keeps all others.
\<close>

theorem missing_senders_requested:
  assumes ready: "chain_ready env (processed_blocks st) vcc (vcp_db st)" and quiet: "vcc_conflicts env vcc = []"
  shows "\<exists>chain_block st'. handle_vcc env vcc st = Ok (chain_block, st') \<and>
    vcp_effects st' = vcp_effects st @ map (\<lambda>(daa, tx). SendCommand (Request (RequestSender daa tx)))
      (awaited (processed_blocks st) (vcp_db st) (vc_accepted_transaction_ids vcc)) \<and>
    (\<forall>daa tx. tget (vcp_db st' PPendingSenderResolution) (pending_row daa tx) =
      (if (daa, tx) \<in> set (awaited (processed_blocks st) (vcp_db st) (vc_accepted_transaction_ids vcc)) then Some []
       else if (daa, tx) \<in> set (released (processed_blocks st) (vcp_db st) (removed_chain_block_hashes vcc)) then None
       else tget (vcp_db st PPendingSenderResolution) (pending_row daa tx)))"
  using handle_vcc_effect [OF ready quiet] by (auto simp: tget_pending_add tget_pending_del)

theorem missing_senders_requested_witness:
  "\<exists>chain_block st'. handle_vcc quiet_env example_change (example_vcp waiting_db) = Ok (chain_block, st') \<and>
    vcp_effects st' = [SendCommand (Request (RequestSender 50 (of_list [3])))] \<and>
    tget (vcp_db st' PPendingSenderResolution) (pending_row 50 (of_list [3])) = Some []"
  using missing_senders_requested [OF example_ready(1)] waiting_db_facts(3,4)
  by (force simp: quiet_env_def example_change_def awaited_def daa_of_def)

text \<open>
  C6. A change of the chain keeps the database well formed: acceptance rows stay readable with
  one row for each transaction, every transaction listed under an accepting block has its
  acceptance row, and the list of each accepting block of the change is that of its accepted
  message transactions, in their order.
\<close>

theorem chain_change_keeps_invariant:
  assumes ready: "chain_ready env (processed_blocks st) vcc (vcp_db st)" and quiet: "vcc_conflicts env vcc = []"
    and dist: "distinct (map at_accepting_block_hash (vc_accepted_transaction_ids vcc))"
  shows "\<exists>chain_block st'. handle_vcc env vcc st = Ok (chain_block, st') \<and>
    wf_acceptance key_len_fn (vcp_db st') \<and> wf_tracked (vcp_db st') \<and>
    (\<forall>a \<in> set (vc_accepted_transaction_ids vcc).
       tracked (vcp_db st') (at_accepting_block_hash a) =
         filter (has_message (vcp_db st)) (at_accepted_transaction_ids a))"
proof -
  have wf: "wf_acceptance key_len_fn (vcp_db st)" "wf_tracked (vcp_db st)"
    using ready unfolding chain_ready_def by blast+
  from handle_vcc_effect [OF ready quiet] obtain cb st' where run: "handle_vcc env vcc st = Ok (cb, st')"
    and tails: "same_tails (vcp_db st) (vcp_db st')"
    and rows: "vcp_db st' PAcceptingBlockToTxId = tracked_rows (vcp_db st) (vc_accepted_transaction_ids vcc)
      (fold (\<lambda>b. tdel (list_of b)) (removed_chain_block_hashes vcc) (vcp_db st PAcceptingBlockToTxId))" by auto
  from run wf_acceptance_same_tails [OF wf(1) tails] wf_tracked_change [OF wf(2) tails rows]
  show ?thesis by (auto simp: tracked_def rows tracked_rows_added [OF dist])
qed

theorem chain_change_keeps_invariant_witness:
  "\<exists>chain_block st'. handle_vcc quiet_env example_reorg (example_vcp tracking_db) = Ok (chain_block, st') \<and>
    wf_acceptance key_len_fn (vcp_db st') \<and> wf_tracked (vcp_db st')"
  using chain_change_keeps_invariant [OF example_ready(2)]
  by (simp add: quiet_env_def example_reorg_def)

text \<open>
  C38. A block that leaves the chain stays the accepting block of its messages: when a
  transaction is not accepted again, the query for its accepting block still answers with the
  removed block.
\<close>

theorem removed_block_still_accepts:
  assumes ready: "chain_ready env (processed_blocks st) vcc (vcp_db st)" and quiet: "vcc_conflicts env vcc = []"
    and removed: "removed_chain_block_hashes vcc = [block]" and tracked: "tx \<in> set (tracked (vcp_db st) block)"
    and gone: "\<forall>a \<in> set (vc_accepted_transaction_ids vcc). tx \<notin> set (at_accepted_transaction_ids a)"
    and nz: "block \<noteq> of_list []"
  shows "\<exists>chain_block st'. handle_vcc env vcc st = Ok (chain_block, st') \<and>
    acceptance_by_tx_id_rtx tx (vcp_db st') = Ok (Some \<lparr>accepting_block_hash = block, accepting_daa = daa_of (processed_blocks st) block\<rparr>)"
proof -
  have wf: "wf_acceptance key_len_fn (vcp_db st)" "wf_tracked (vcp_db st)"
    using ready unfolding chain_ready_def by blast+
  have label: "change_labels (processed_blocks st) (vcp_db st) vcc tx =
      Some (block, daa_of (processed_blocks st) block)"
    using tracked by (simp add: change_labels_def removed removed_labels_def label_def daa_of_def map_add_Some_iff
        accepted_labels_None [OF gone])
  have nz': "block \<noteq> accepting_block_hash avh_zeroed" using nz by (simp add: avh_zeroed_def)
  from handle_vcc_effect [OF ready quiet] obtain cb st' where run: "handle_vcc env vcc st = Ok (cb, st')"
    and "same_tails (vcp_db st) (vcp_db st')"
    and "relabelled (change_labels (processed_blocks st) (vcp_db st) vcc) (vcp_db st) (vcp_db st')" by auto
  from relabelled_query [OF wf(1) this(2,3) tracked_has_message [OF wf(2) tracked] label nz'] run
  show ?thesis by blast
qed

theorem removed_block_still_accepts_witness:
  "\<exists>chain_block st'. handle_vcc quiet_env example_reorg (example_vcp tracking_db) = Ok (chain_block, st') \<and>
    acceptance_by_tx_id_rtx (of_list [3]) (vcp_db st') =
      Ok (Some \<lparr>accepting_block_hash = of_list [8], accepting_daa = 49\<rparr>)"
  using removed_block_still_accepts [OF example_ready(2), of "of_list [8]" "of_list [3]"] tracking_db_facts(2)
  by (simp add: quiet_env_def example_reorg_def daa_of_def)

end
