(* ===== verification/Chain_Sync.thy ===== *)
theory Chain_Sync
  imports Resolution
begin

text \<open>
  The syncer of the virtual chain, \<^verbatim>\<open>indexer-actors/src/virtual_chain_syncer.rs\<close>, and how
  it works with the virtual chain processor: the syncer asks the node for the chain after a
  block, hands each answer to the processor and waits for its acknowledgement before it goes on.
  The system of the processor, its syncers and their channels is a step relation; the processor's
  part of a step is \<open>vcp_step\<close> itself.
\<close>

section \<open>The syncer\<close>

text \<open>
  The phases of \<^verbatim>\<open>process\<close>: a request is out, or an acknowledgement is awaited. A syncer
  that ends sends \<^verbatim>\<open>Stopped\<close> when it is dropped, whatever the reason.
\<close>

datatype syncer_phase =
    Requesting hash
  | AwaitingAck hash
  | SyncerEnded "unit res"

text \<open>
  What it waits for: the response (\<open>None\<close> if the request cannot be sent, is refused, or stays
  without an answer), and an acknowledgement (\<open>None\<close> if the channel is closed).
\<close>

datatype syncer_event =
    Response "virtual_chain_change option"
  | Ack "notification_ack option"

fun syncer_step :: "u64 \<Rightarrow> syncer_event \<Rightarrow> syncer_phase \<Rightarrow> sync_vcc_notification list \<times> syncer_phase" where
  "syncer_step i (Response (Some vcc)) (Requesting from) =
     ([VirtualChain i vcc],
      AwaitingAck (if added_chain_block_hashes vcc = [] then from else last (added_chain_block_hashes vcc)))"
| "syncer_step i (Response None) (Requesting from) =
     ([SyncerStopped i], SyncerEnded (Err ''Failed to receive response''))"
| "syncer_step i (Ack (Some AckContinue)) (Requesting from) =
     ([SyncerStopped i], SyncerEnded (Panics ''internal error: entered unreachable code''))"
| "syncer_step i (Ack (Some AckContinue)) (AwaitingAck from) = ([], Requesting from)"
| "syncer_step i (Ack (Some AckStop)) (Requesting from) = ([SyncerStopped i], SyncerEnded (Ok ()))"
| "syncer_step i (Ack (Some AckStop)) (AwaitingAck from) = ([SyncerStopped i], SyncerEnded (Ok ()))"
| "syncer_step i (Ack None) (Requesting from) =
     ([SyncerStopped i], SyncerEnded (Err ''Failed to receive ack''))"
| "syncer_step i (Ack None) (AwaitingAck from) =
     ([SyncerStopped i], SyncerEnded (Err ''Failed to receive ack''))"
| "syncer_step i (Response _) (AwaitingAck from) = ([], AwaitingAck from)"
| "syncer_step i _ (SyncerEnded r) = ([], SyncerEnded r)"

section \<open>Processor and syncers\<close>

text \<open>
  Syncers are known by their number; a number is not used again within \<open>2 ^ 64\<close> syncers. The
  channel of acknowledgements belongs to one syncer, the channel of answers to all.
\<close>

record chain_sync =
  cs_vcp :: vcp_state
  cs_syncers :: "u64 \<Rightarrow> syncer_phase option"
  cs_acks :: "u64 \<Rightarrow> notification_ack list"
  cs_queue :: "sync_vcc_notification list"

definition syncer_runs :: "chain_sync \<Rightarrow> u64 \<Rightarrow> bool" where
  "syncer_runs s i \<longleftrightarrow> (case cs_syncers s i of
     Some (Requesting _) \<Rightarrow> True | Some (AwaitingAck _) \<Rightarrow> True | _ \<Rightarrow> False)"

fun perform :: "vcp_effect \<Rightarrow> chain_sync \<Rightarrow> chain_sync" where
  "perform (SendCommand _) s = s"
| "perform (SpawnSyncer i from) s =
     s\<lparr>cs_syncers := (cs_syncers s)(i \<mapsto> Requesting from), cs_acks := (cs_acks s)(i := [])\<rparr>"
| "perform (SendAck i a) s = s\<lparr>cs_acks := (cs_acks s)(i := cs_acks s i @ [a])\<rparr>"

definition after_turn :: "vcp_state \<Rightarrow> chain_sync \<Rightarrow> chain_sync" where
  "after_turn st s =
     fold perform (drop (length (vcp_effects (cs_vcp s))) (vcp_effects st)) (s\<lparr>cs_vcp := st\<rparr>)"

definition syncer_turn :: "u64 \<Rightarrow> syncer_event \<Rightarrow> syncer_phase \<Rightarrow> chain_sync \<Rightarrow> chain_sync" where
  "syncer_turn i ev phase s =
     (let (out, phase') = syncer_step i ev phase
      in s\<lparr>cs_syncers := (cs_syncers s)(i \<mapsto> phase'), cs_queue := cs_queue s @ out\<rparr>)"

text \<open>The processor holds the sending end of the acknowledgements of its current syncer.\<close>

definition current_syncer :: "sync_state \<Rightarrow> u64 option" where
  "current_syncer ss = (case ss of Syncing _ i _ _ \<Rightarrow> Some i | _ \<Rightarrow> None)"

inductive chain_sync_step ::
    "('addr, 'x) node_lib_scheme \<Rightarrow> vcp_env \<Rightarrow> chain_sync \<Rightarrow> chain_sync \<Rightarrow> bool"
  for L env where
  other_input: "input = Block ch \<or> input = Vcc n \<Longrightarrow>
    vcp_step L (env\<lparr>ack_open := syncer_runs s\<rparr>) input (cs_vcp s) = Ok (cont, st) \<Longrightarrow>
    chain_sync_step L env s (after_turn st s)"
| syncer_input: "cs_queue s = n # ns \<Longrightarrow>
    vcp_step L (env\<lparr>ack_open := syncer_runs s\<rparr>) (Syncer n) (cs_vcp s) = Ok (cont, st) \<Longrightarrow>
    chain_sync_step L env s (after_turn st (s\<lparr>cs_queue := ns\<rparr>))"
| response: "cs_syncers s i = Some (Requesting from) \<Longrightarrow>
    chain_sync_step L env s (syncer_turn i (Response vcc) (Requesting from) s)"
| ack: "cs_syncers s i = Some phase \<Longrightarrow> syncer_runs s i \<Longrightarrow> cs_acks s i = a # as \<Longrightarrow>
    chain_sync_step L env s (syncer_turn i (Ack (Some a)) phase (s\<lparr>cs_acks := (cs_acks s)(i := as)\<rparr>))"
| ack_closed: "cs_syncers s i = Some phase \<Longrightarrow> syncer_runs s i \<Longrightarrow> cs_acks s i = [] \<Longrightarrow>
    current_syncer (sync_state (cs_vcp s)) \<noteq> Some i \<Longrightarrow>
    chain_sync_step L env s (syncer_turn i (Ack None) phase s)"

definition chain_sync_initial :: "vcp_state \<Rightarrow> chain_sync" where
  "chain_sync_initial st =
     \<lparr>cs_vcp = st, cs_syncers = Map.empty, cs_acks = (\<lambda>_. []), cs_queue = []\<rparr>"

definition chain_sync_start :: "chain_sync \<Rightarrow> bool" where
  "chain_sync_start s \<longleftrightarrow> sync_state (cs_vcp s) = Initial \<and> s = chain_sync_initial (cs_vcp s)"

section \<open>Lemmas\<close>

text \<open>Control effects: all but the requests for senders.\<close>

definition control :: "vcp_effect list \<Rightarrow> vcp_effect list" where
  "control es = filter (\<lambda>e. case e of SendCommand _ \<Rightarrow> False | _ \<Rightarrow> True) es"

lemma control_simps [simp]:
  "control [] = []"
  "control (es @ es') = control es @ control es'"
  "control (SendCommand c # es) = control es"
  "control (SpawnSyncer i f # es) = SpawnSyncer i f # control es"
  "control (SendAck i a # es) = SendAck i a # control es"
  by (simp_all add: control_def)

lemma fold_perform_control: "fold perform es s = fold perform (control es) s"
proof (induction es arbitrary: s)
  case (Cons e es)
  then show ?case by (cases e) (simp_all add: control_def)
qed simp

definition only_commands :: "vcp_effect list \<Rightarrow> vcp_effect list \<Rightarrow> bool" where
  "only_commands es es' \<longleftrightarrow> (\<exists>new. es' = es @ new \<and> control new = [])"

lemma only_commands_refl [simp]: "only_commands es es"
  by (simp add: only_commands_def)

lemma only_commands_trans: "only_commands a b \<Longrightarrow> only_commands b c \<Longrightarrow> only_commands a c"
  by (auto simp: only_commands_def)

lemma accept_transaction_commands:
  "accept_transaction env d b daa tx (tr, w, es) = Ok (tr', w', es') \<Longrightarrow> only_commands es es'"
  by (auto simp: accept_transaction_def send_command_def only_commands_def
      split: option.splits lookup_output.splits if_splits) (metis lookup_output.exhaust)+

lemma accept_transactions_commands:
  "rfold (accept_transaction env d b daa) txs (tr, w, es) = Ok (tr', w', es') \<Longrightarrow> only_commands es es'"
proof (induction txs arbitrary: tr w es)
  case (Cons tx txs)
  then obtain tr1 w1 es1 where step: "accept_transaction env d b daa tx (tr, w, es) = Ok (tr1, w1, es1)"
    and rest: "rfold (accept_transaction env d b daa) txs (tr1, w1, es1) = Ok (tr', w', es')" by auto
  from accept_transaction_commands [OF step] Cons.IH [OF rest] show ?case by (rule only_commands_trans)
qed simp

lemma handle_vcc_additions_commands:
  "rfold (handle_vcc_addition env blocks d) accs (w, es) = Ok (w', es') \<Longrightarrow> only_commands es es'"
proof (induction accs arbitrary: w es)
  case (Cons a accs)
  then obtain w1 es1 where step: "handle_vcc_addition env blocks d a (w, es) = Ok (w1, es1)"
    and rest: "rfold (handle_vcc_addition env blocks d) accs (w1, es1) = Ok (w', es')" by auto
  from step have "only_commands es es1"
    by (auto simp: handle_vcc_addition_def Let_def dest: accept_transactions_commands)
  then show ?case using Cons.IH [OF rest] by (rule only_commands_trans)
qed simp

lemma chain_body_commands: "chain_body env blocks vcc d es = Ok (d', es', w, a) \<Longrightarrow> only_commands es es'"
  by (auto simp: chain_body_def dest: handle_vcc_additions_commands)

lemma transact_chain_commands:
  "transact (chain_body env blocks vcc) others d es = Ok (d', es', a) \<Longrightarrow> only_commands es es'"
proof (induction others arbitrary: d es)
  case Nil
  then show ?case by (auto split: sum.splits dest: chain_body_commands)
next
  case (Cons f others)
  then obtain d1 es1 w1 a1 where step: "chain_body env blocks vcc d es = Ok (d1, es1, w1, a1)"
    and rest: "transact (chain_body env blocks vcc) others (f d1) es1 = Ok (d', es', a)"
    by (auto split: sum.splits)
  from chain_body_commands [OF step] Cons.IH [OF rest] show ?case by (rule only_commands_trans)
qed

lemma handle_vcc_control:
  "handle_vcc env vcc st = Ok (b, st') \<Longrightarrow>
     only_commands (vcp_effects st) (vcp_effects st') \<and> sync_state st' = sync_state st"
  "handle_vc_resp env vcc st = Ok (b, st') \<Longrightarrow>
     only_commands (vcp_effects st) (vcp_effects st') \<and> sync_state st' = sync_state st"
  by (auto simp: handle_vcc_def handle_vc_resp_def dest: transact_chain_commands)


text \<open>
  How a turn of the processor moves the token of the current syncer: \<open>holder\<close> is its number and
  whether the processor keeps an answer that it cannot apply yet.
\<close>

definition holder :: "sync_state \<Rightarrow> (u64 \<times> bool) option" where
  "holder ss = (case ss of Syncing _ i _ q \<Rightarrow> Some (i, q \<noteq> None) | _ \<Rightarrow> None)"

text \<open>The control effects of a turn that starts at \<open>es\<close>, and the holders before and after.\<close>

definition moves ::
    "vcp_state \<Rightarrow> vcp_effect list \<Rightarrow> vcp_state \<Rightarrow> (u64 \<times> bool) option \<Rightarrow> bool" where
  "moves st es st' h \<longleftrightarrow>
     (\<exists>new. vcp_effects st' = vcp_effects st @ new \<and> control new = es) \<and> holder (sync_state st') = h"

lemma only_commands_moves:
  "only_commands (vcp_effects st) (vcp_effects st') \<Longrightarrow> sync_state st' = sync_state st \<Longrightarrow>
     moves st [] st' (holder (sync_state st))"
  by (auto simp: only_commands_def moves_def)

lemma apply_sync_response_moves:
  assumes "apply_sync_response env i target q vcc st = Ok st'"
  shows "moves st [SendAck i AckStop] st' None \<or> moves st [SendAck i AckContinue] st' (Some (i, q \<noteq> None))"
  using assms
  by (auto simp: apply_sync_response_def send_ack_def moves_def holder_def only_commands_def
      dest!: handle_vcc_control split: if_splits prod.splits)

lemma handle_syncer_vc_moves:
  assumes "handle_syncer_vc env n vcc st = Ok st'"
  shows "\<exists>q. holder (sync_state st) = Some (n, q) \<and>
    (moves st [SendAck n AckContinue] st' (Some (n, q)) \<or>
     moves st [] st' (Some (n, True)) \<and> \<not> q \<or>
     moves st [SendAck n AckStop] st' None)"
proof (cases "sync_state st")
  case (Syncing la i target q)
  with assms show ?thesis
    using apply_sync_response_moves [of env i target q vcc st st']
    by (auto simp: handle_syncer_vc_def holder_def moves_def send_ack_def split: if_splits)
qed (use assms in \<open>simp_all add: handle_syncer_vc_def\<close>)

lemma drain_queue_control:
  "drain_queue env i queue st = Ok st' \<Longrightarrow>
     only_commands (vcp_effects st) (vcp_effects st') \<and> (holder (sync_state st) = None \<longrightarrow> holder (sync_state st') = None)"
proof (induction queue arbitrary: st)
  case (Cons vcc queue)
  show ?case
  proof (cases "empty_change vcc \<or> has_unknown_block (processed_blocks st) vcc")
    case True
    with Cons show ?thesis by (auto split: if_splits)
  next
    case False
    with Cons.prems obtain la st1 where "handle_vcc env vcc st = Ok (la, st1)"
      and rest: "drain_queue env i queue (st1\<lparr>sync_state := Synced i la\<rparr>) = Ok st'"
      by (auto split: sum.splits)
    from handle_vcc_control(1) [OF this(1)] Cons.IH [OF rest] show ?thesis
      by (auto simp: holder_def intro: only_commands_trans)
  qed
qed auto

lemma handle_processed_block_moves:
  assumes "handle_processed_block env ch st = Ok st'"
  shows "moves st [] st' (holder (sync_state st)) \<or>
    (\<exists>i. holder (sync_state st) = Some (i, True) \<and>
      (moves st [SendAck i AckContinue] st' (Some (i, False)) \<or> moves st [SendAck i AckStop] st' None))"
proof (cases "sync_state st")
  case Initial
  with assms show ?thesis by (auto simp: handle_processed_block_def moves_def)
next
  case (Synced i la)
  with assms show ?thesis
    by (auto simp: handle_processed_block_def Let_def moves_def only_commands_def holder_def
        dest!: drain_queue_control)
next
  case (Syncing la i target q)
  show ?thesis
  proof (cases "q = None")
    case True
    with assms Syncing show ?thesis
      by (auto simp: handle_processed_block_def moves_def)
  next
    case False
    then obtain vcc where q: "q = Some vcc" by blast
    let ?st = "st\<lparr>processed_blocks := add_block_bounded (synced_capacity env) ch (processed_blocks st)\<rparr>"
    show ?thesis
    proof (cases "has_unknown_block (processed_blocks ?st) vcc")
      case True
      with assms Syncing q show ?thesis
        by (auto simp: handle_processed_block_def moves_def)
    next
      case False
      with assms Syncing q have "apply_sync_response env i target None vcc ?st = Ok st'"
        by (simp add: handle_processed_block_def)
      from apply_sync_response_moves [OF this] Syncing q show ?thesis
        by (auto simp: moves_def holder_def)
    qed
  qed
qed


lemma handle_connect_moves:
  assumes "handle_connect env sink bw pp st = Ok st'"
  shows "moves st [] st' (holder (sync_state st)) \<or>
    (\<exists>i from. holder (sync_state st) = None \<and> moves st [SpawnSyncer i from] st' (Some (i, False)))"
proof (cases "sync_state st")
  case Initial
  with assms obtain es la where es: "rfold (\<lambda>r es. rbind r (\<lambda>key.
        send_command env (Request (RequestSender (pr_accepting_daa_score key) (pr_tx_id key))) es))
      (get_all_pending (vcp_db st)) (vcp_effects st) = Ok es"
    and st': "\<exists>from blue_work. st' = (spawn_syncer 0 from (st\<lparr>vcp_effects := es\<rparr>))
      \<lparr>sync_state := Syncing (from, blue_work) 0 (sink, bw) None\<rparr>"
    by (auto simp: handle_connect_def split: option.splits)
  have "only_commands (vcp_effects st) es"
    by (rule rfold_invariant [where P = "only_commands (vcp_effects st)", OF _ es])
      (auto simp: send_command_def only_commands_def split: if_splits)
  with st' Initial show ?thesis
    by (auto simp: moves_def holder_def spawn_syncer_def only_commands_def)
next
  case (Synced i la)
  with assms show ?thesis
    by (cases la) (auto simp: handle_connect_def moves_def holder_def spawn_syncer_def split: if_splits)
next
  case (Syncing la i target q)
  with assms show ?thesis by (auto simp: handle_connect_def moves_def holder_def)
qed

text \<open>All the inputs that do not come from a syncer.\<close>

lemma other_input_moves:
  assumes "input = Block ch \<or> input = Vcc n" and "vcp_step L env input st = Ok (cont, st')"
  shows "moves st [] st' (holder (sync_state st)) \<or>
    (\<exists>i from. holder (sync_state st) = None \<and> moves st [SpawnSyncer i from] st' (Some (i, False))) \<or>
    (\<exists>i. holder (sync_state st) = Some (i, True) \<and>
      (moves st [SendAck i AckContinue] st' (Some (i, False)) \<or> moves st [SendAck i AckStop] st' None)) \<or>
    (\<exists>i q. holder (sync_state st) = Some (i, q) \<and> moves st [SendAck i AckStop] st' (Some (i, q)))"
proof (cases "input = Block ch")
  case True
  with assms(2) have "handle_processed_block env ch st = Ok st'" by (simp add: go_on_def)
  from handle_processed_block_moves [OF this] show ?thesis by blast
next
  case False
  with assms(1) have input: "input = Vcc n" by simp
  show ?thesis
  proof (cases n)
    case (VccConnected sink bw pp)
    with assms(2) input have "handle_connect env sink bw pp st = Ok st'" by (simp add: go_on_def)
    from handle_connect_moves [OF this] show ?thesis by blast
  next
    case VccDisconnected
    with assms(2) input show ?thesis by (auto simp: moves_def)
  next
    case VccShutdown
    with assms(2) input have "handle_shutdown env st = Ok (cont, st')" by simp
    then show ?thesis
      by (cases "sync_state st")
        (auto simp: handle_shutdown_def send_ack_def moves_def holder_def Let_def split: if_splits)
  next
    case (VccNotification vcc)
    with assms(2) input have r: "handle_realtime_vcc env vcc st = Ok st'" by (simp add: go_on_def)
    show ?thesis
    proof (cases "sync_state st")
      case Initial
      with r show ?thesis by (simp add: handle_realtime_vcc_def)
    next
      case (Synced i la)
      with r show ?thesis
        by (auto simp: handle_realtime_vcc_def moves_def holder_def only_commands_def
            dest!: handle_vcc_control split: if_splits)
    next
      case (Syncing la i target q)
      with r show ?thesis by (auto simp: handle_realtime_vcc_def moves_def)
    qed
  next
    case (SenderResolution sender tx_id daa)
    with assms(2) input have "handle_sender_address L env sender tx_id daa st = Ok st'" by (simp add: go_on_def)
    then show ?thesis by (auto simp: handle_sender_address_def moves_def)
  qed
qed


text \<open>
  The token of a syncer is at one place at most: it has a request out, its answer is in the
  queue, the processor keeps the answer, or the order to continue is in its channel. Only the
  current syncer has one.
\<close>

fun is_answer :: "u64 \<Rightarrow> sync_vcc_notification \<Rightarrow> bool" where
  "is_answer i (VirtualChain j _) = (i = j)"
| "is_answer i (SyncerStopped _) = False"

definition tokens :: "chain_sync \<Rightarrow> u64 \<Rightarrow> nat" where
  "tokens s i =
     (case cs_syncers s i of Some (Requesting _) \<Rightarrow> 1 | _ \<Rightarrow> 0) +
     length (filter (is_answer i) (cs_queue s)) +
     (if holder (sync_state (cs_vcp s)) = Some (i, True) then 1 else 0) +
     count_list (cs_acks s i) AckContinue"

definition token_inv :: "chain_sync \<Rightarrow> bool" where
  "token_inv s \<longleftrightarrow>
     (\<forall>i. tokens s i \<le> (case holder (sync_state (cs_vcp s)) of None \<Rightarrow> 0 | Some (j, _) \<Rightarrow> if i = j then 1 else 0))"

lemma after_turn_moves:
  assumes "moves (cs_vcp s) es st h"
  shows "after_turn st s = fold perform es (s\<lparr>cs_vcp := st\<rparr>)"
  using assms fold_perform_control unfolding after_turn_def moves_def by auto

lemma token_inv_initial: "sync_state st = Initial \<Longrightarrow> token_inv (chain_sync_initial st)"
  by (simp add: token_inv_def tokens_def chain_sync_initial_def holder_def)

lemma token_inv_other_input:
  assumes inv: "token_inv s" and input: "input = Block ch \<or> input = Vcc n"
    and step: "vcp_step L env input (cs_vcp s) = Ok (cont, st)"
  shows "token_inv (after_turn st s)"
proof -
  let ?h = "holder (sync_state (cs_vcp s))"
  from other_input_moves [OF input step] consider
    (none) "moves (cs_vcp s) [] st ?h"
    | (spawn) i "from" where "?h = None" "moves (cs_vcp s) [SpawnSyncer i from] st (Some (i, False))"
    | (go) i where "?h = Some (i, True)" "moves (cs_vcp s) [SendAck i AckContinue] st (Some (i, False))"
    | (reached) i where "?h = Some (i, True)" "moves (cs_vcp s) [SendAck i AckStop] st None"
    | (shutdown) i q where "?h = Some (i, q)" "moves (cs_vcp s) [SendAck i AckStop] st (Some (i, q))"
    by blast
  then show ?thesis
  proof cases
    case none
    then have h: "holder (sync_state st) = ?h" by (simp add: moves_def)
    show ?thesis using inv by (simp add: after_turn_moves [OF none] token_inv_def tokens_def h)
  next
    case spawn
    then have h: "holder (sync_state st) = Some (i, False)" by (simp add: moves_def)
    show ?thesis
      using inv spawn(1) by (auto simp: after_turn_moves [OF spawn(2)] token_inv_def tokens_def h)
  next
    case go
    then have h: "holder (sync_state st) = Some (i, False)" by (simp add: moves_def)
    show ?thesis
      using inv go(1) by (auto simp: after_turn_moves [OF go(2)] token_inv_def tokens_def h split: if_splits)
  next
    case reached
    then have h: "holder (sync_state st) = None" by (simp add: moves_def)
    show ?thesis
      using inv reached(1) by (auto simp: after_turn_moves [OF reached(2)] token_inv_def tokens_def h split: if_splits)
  next
    case shutdown
    then have h: "holder (sync_state st) = Some (i, q)" by (simp add: moves_def)
    show ?thesis
      using inv shutdown(1) by (auto simp: after_turn_moves [OF shutdown(2)] token_inv_def tokens_def h split: if_splits)
  qed
qed


lemma token_inv_answer:
  assumes inv: "token_inv s" and queue: "cs_queue s = VirtualChain j vcc # ns"
    and step: "handle_syncer_vc env j vcc (cs_vcp s) = Ok st"
  shows "token_inv (after_turn st (s\<lparr>cs_queue := ns\<rparr>))"
proof -
  from handle_syncer_vc_moves [OF step] obtain q where q: "holder (sync_state (cs_vcp s)) = Some (j, q)"
    and m: "moves (cs_vcp s) [SendAck j AckContinue] st (Some (j, q)) \<or>
      moves (cs_vcp s) [] st (Some (j, True)) \<and> \<not> q \<or> moves (cs_vcp s) [SendAck j AckStop] st None" by blast
  have le: "tokens s i \<le> (if i = j then 1 else 0)" for i
    using inv q by (simp add: token_inv_def)
  have "\<not> q" using le [of j] q queue by (auto simp: tokens_def)
  have z: "(case cs_syncers s i of Some (Requesting _) \<Rightarrow> 1 | _ \<Rightarrow> 0) = (0 :: nat)"
    "filter (is_answer i) ns = []" "count_list (cs_acks s i) AckContinue = 0" for i
    using le [of i] queue by (cases "i = j"; auto simp: tokens_def)+
  have turn: "after_turn st (s\<lparr>cs_queue := ns\<rparr>) = fold perform es (s\<lparr>cs_queue := ns, cs_vcp := st\<rparr>)"
    if "moves (cs_vcp s) es st h" for es h
    using after_turn_moves [of "s\<lparr>cs_queue := ns\<rparr>" es st h] that by simp
  from m \<open>\<not> q\<close> consider
    (go) "moves (cs_vcp s) [SendAck j AckContinue] st (Some (j, False))"
    | (keep) "moves (cs_vcp s) [] st (Some (j, True))"
    | (reached) "moves (cs_vcp s) [SendAck j AckStop] st None" by auto
  then show ?thesis
  proof cases
    case go
    then have "holder (sync_state st) = Some (j, False)" by (simp add: moves_def)
    then show ?thesis by (simp add: turn [OF go] token_inv_def tokens_def z)
  next
    case keep
    then have "holder (sync_state st) = Some (j, True)" by (simp add: moves_def)
    then show ?thesis by (simp add: turn [OF keep] token_inv_def tokens_def z)
  next
    case reached
    then have "holder (sync_state st) = None" by (simp add: moves_def)
    then show ?thesis by (simp add: turn [OF reached] token_inv_def tokens_def z)
  qed
qed

lemma token_inv_stopped:
  assumes inv: "token_inv s" and queue: "cs_queue s = SyncerStopped j # ns"
    and step: "vcp_step L env (Syncer (SyncerStopped j)) (cs_vcp s) = Ok (cont, st)"
  shows "token_inv (after_turn st (s\<lparr>cs_queue := ns\<rparr>))"
proof -
  from step have "st = cs_vcp s" by simp
  then have "after_turn st (s\<lparr>cs_queue := ns\<rparr>) = s\<lparr>cs_queue := ns\<rparr>" by (simp add: after_turn_def)
  with inv queue show ?thesis by (simp add: token_inv_def tokens_def)
qed

text \<open>The turns of a syncer.\<close>

lemma token_inv_syncer:
  assumes inv: "token_inv s" and phase: "cs_syncers s i = Some phase"
    and token: "length (filter (is_answer i) out) +
        (case phase' of Requesting _ \<Rightarrow> 1 | _ \<Rightarrow> 0) + count_list as AckContinue \<le>
      (case phase of Requesting _ \<Rightarrow> 1 | _ \<Rightarrow> 0) + count_list (cs_acks s i) AckContinue"
    and others: "\<forall>j. j \<noteq> i \<longrightarrow> filter (is_answer j) out = []"
  shows "token_inv (s\<lparr>cs_acks := (cs_acks s)(i := as), cs_syncers := (cs_syncers s)(i \<mapsto> phase'),
    cs_queue := cs_queue s @ out\<rparr>)"
proof -
  let ?s = "s\<lparr>cs_acks := (cs_acks s)(i := as), cs_syncers := (cs_syncers s)(i \<mapsto> phase'),
    cs_queue := cs_queue s @ out\<rparr>"
  have "tokens ?s j \<le> tokens s j" for j
    using token others phase by (cases "j = i") (simp_all add: tokens_def)
  with inv show ?thesis by (simp add: token_inv_def) (meson le_trans)
qed

lemma token_inv_response:
  assumes "token_inv s" and "cs_syncers s i = Some (Requesting from)"
  shows "token_inv (syncer_turn i (Response vcc) (Requesting from) s)"
  using token_inv_syncer [OF assms, where as = "cs_acks s i"]
  by (cases vcc) (simp_all add: syncer_turn_def)

lemma token_inv_ack:
  assumes "token_inv s" and "cs_syncers s i = Some phase" and "syncer_runs s i" and "cs_acks s i = a # as"
  shows "token_inv (syncer_turn i (Ack (Some a)) phase (s\<lparr>cs_acks := (cs_acks s)(i := as)\<rparr>))"
  using token_inv_syncer [OF assms(1,2), where as = as]
    token_inv_syncer [OF assms(1,2), where as = as and out = "[]"] assms(2-)
  by (cases a; cases phase) (simp_all add: syncer_turn_def syncer_runs_def)

lemma token_inv_ack_closed:
  assumes "token_inv s" and "cs_syncers s i = Some phase" and "syncer_runs s i" and "cs_acks s i = []"
  shows "token_inv (syncer_turn i (Ack None) phase s)"
  using token_inv_syncer [OF assms(1,2), where as = "[]"] assms(2-)
  by (cases phase) (simp_all add: syncer_turn_def syncer_runs_def fun_upd_idem)

interpretation sync: invariant_system chain_sync_start "chain_sync_step L env" token_inv for L env
proof
  fix s assume "chain_sync_start s"
  then show "token_inv s" unfolding chain_sync_start_def by (metis token_inv_initial)
next
  fix s s' assume inv: "token_inv s" and "chain_sync_step L env s s'"
  from this(2) show "token_inv s'"
  proof cases
    case (other_input input ch n cont st)
    with token_inv_other_input [OF inv] show ?thesis by blast
  next
    case (syncer_input n ns cont st)
    then show ?thesis
      using token_inv_answer [OF inv] token_inv_stopped [OF inv]
      by (cases n) (auto simp: go_on_def)
  qed (use inv token_inv_response token_inv_ack token_inv_ack_closed in auto)
qed

text \<open>No syncer panics.\<close>

definition no_panic :: "chain_sync \<Rightarrow> bool" where
  "no_panic s \<longleftrightarrow> (\<forall>i m. cs_syncers s i \<noteq> Some (SyncerEnded (Panics m)))"

lemma no_panic_perform: "no_panic s \<Longrightarrow> no_panic (fold perform es s)"
proof (induction es arbitrary: s)
  case (Cons e es)
  have "no_panic (perform e s)" using Cons.prems by (cases e) (auto simp: no_panic_def)
  then show ?case using Cons.IH by simp
qed simp

lemma no_panic_after_turn: "no_panic s \<Longrightarrow> no_panic (after_turn st s)"
  unfolding after_turn_def by (rule no_panic_perform) (simp add: no_panic_def)

lemma requesting_no_continue:
  assumes "token_inv s" and "cs_syncers s i = Some (Requesting from)"
  shows "AckContinue \<notin> set (cs_acks s i)"
proof -
  have "tokens s i \<le> (case holder (sync_state (cs_vcp s)) of None \<Rightarrow> 0 | Some (j, _) \<Rightarrow> if i = j then 1 else 0)"
    using assms(1) unfolding token_inv_def by blast
  also have "\<dots> \<le> 1" by (simp split: option.split)
  finally have "tokens s i \<le> 1" .
  with assms(2) have "count_list (cs_acks s i) AckContinue = 0" by (simp add: tokens_def)
  then show ?thesis by (simp add: count_list_0_iff)
qed

lemma no_panic_ack:
  assumes "token_inv s" and "no_panic s" and "cs_syncers s i = Some phase" and "cs_acks s i = a # as"
  shows "no_panic (syncer_turn i (Ack (Some a)) phase (s\<lparr>cs_acks := (cs_acks s)(i := as)\<rparr>))"
proof (cases phase)
  case (Requesting "from")
  with requesting_no_continue [OF assms(1), of i "from"] assms(3,4) have "a = AckStop" by (cases a) auto
  with assms(2) Requesting show ?thesis by (auto simp: no_panic_def syncer_turn_def)
next
  case (AwaitingAck "from")
  with assms(2) show ?thesis by (cases a) (auto simp: no_panic_def syncer_turn_def)
next
  case (SyncerEnded r)
  with assms(2,3) show ?thesis by (cases a) (auto simp: no_panic_def syncer_turn_def)
qed

lemma no_panic_step:
  assumes "token_inv s" and "no_panic s" and "chain_sync_step L env s s'"
  shows "no_panic s'"
  using assms(3)
proof cases
  case (other_input input ch n cont st)
  then show ?thesis using no_panic_after_turn [OF assms(2)] by simp
next
  case (syncer_input n ns cont st)
  moreover have "no_panic (s\<lparr>cs_queue := ns\<rparr>)" using assms(2) by (simp add: no_panic_def)
  ultimately show ?thesis using no_panic_after_turn by simp
next
  case (response i "from" vcc)
  with assms(2) show ?thesis by (cases vcc) (auto simp: no_panic_def syncer_turn_def)
next
  case (ack i phase a as)
  then show ?thesis using no_panic_ack [OF assms(1,2)] by simp
next
  case (ack_closed i phase)
  with assms(2) show ?thesis by (cases phase) (auto simp: no_panic_def syncer_turn_def)
qed

interpretation sync: layered_invariant chain_sync_start "chain_sync_step L env" token_inv no_panic for L env
proof
  fix s assume "chain_sync_start s"
  then have "cs_syncers s = Map.empty"
    unfolding chain_sync_start_def by (metis chain_sync.select_convs(2) chain_sync_initial_def)
  then show "no_panic s" by (simp add: no_panic_def)
qed (rule no_panic_step)

text \<open>An example: the first connection starts a syncer, which gets an answer.\<close>

definition connected_vcp :: vcp_state where
  "connected_vcp = (spawn_syncer 0 (of_list [1]) (vcp_initial [] True (\<lambda>_. tempty) (metrics_new [])))
     \<lparr>sync_state := Syncing (of_list [1], 0) 0 (of_list [2], 5) None\<rparr>"

definition example_answer :: virtual_chain_change where
  "example_answer = \<lparr>removed_chain_block_hashes = [], added_chain_block_hashes = [of_list [2]],
     vc_accepted_transaction_ids = []\<rparr>"

definition example_sync :: chain_sync where
  "example_sync = syncer_turn 0 (Response (Some example_answer)) (Requesting (of_list [1]))
     (after_turn connected_vcp (chain_sync_initial (vcp_initial [] True (\<lambda>_. tempty) (metrics_new []))))"

lemma example_sync_queue: "cs_queue example_sync = [VirtualChain 0 example_answer]"
  by (simp add: example_sync_def syncer_turn_def after_turn_def connected_vcp_def chain_sync_initial_def
      spawn_syncer_def vcp_initial_def)

lemma example_sync_reachable: "reachable chain_sync_start (chain_sync_step example_node quiet_env) example_sync"
proof -
  let ?st = "vcp_initial [] True (\<lambda>_. tempty) (metrics_new [])"
  let ?s = "chain_sync_initial ?st"
  have "vcp_step example_node (quiet_env\<lparr>ack_open := syncer_runs ?s\<rparr>) (Vcc (VccConnected (of_list [2]) 5 (of_list [1]))) (cs_vcp ?s) =
      Ok (True, connected_vcp)"
    by (simp add: go_on_def handle_connect_def vcp_initial_def get_all_pending_def last_accepting_block_db_def
        get_latest_accepting_block_cursor_def connected_vcp_def spawn_syncer_def chain_sync_initial_def)
  then have "chain_sync_step example_node quiet_env ?s (after_turn connected_vcp ?s)"
    by (rule other_input [OF disjI2 [OF refl]])
  moreover have "reachable chain_sync_start (chain_sync_step example_node quiet_env) ?s" 
    by (rule reachable_start) (simp add: chain_sync_start_def chain_sync_initial_def vcp_initial_def)
  ultimately have one: "reachable chain_sync_start (chain_sync_step example_node quiet_env) (after_turn connected_vcp ?s)"
    by (blast intro: reachable_step)
  have "cs_syncers (after_turn connected_vcp ?s) 0 = Some (Requesting (of_list [1]))"
    by (simp add: after_turn_def connected_vcp_def chain_sync_initial_def spawn_syncer_def vcp_initial_def)
  then show ?thesis
    unfolding example_sync_def by (rule reachable_step [OF one response])
qed

section \<open>Properties\<close>

text \<open>
  C7. The processor's assertions on the answers of a syncer hold: whenever an answer is next in
  the queue, the processor is syncing, the answer comes from its current syncer, and it keeps no
  other answer. So none of the three panics in the handling of an answer can occur, in any
  interleaving with blocks, notifications, reconnections and shutdown.
\<close>

theorem sync_answer_is_expected:
  assumes "reachable chain_sync_start (chain_sync_step L env) s" and "cs_queue s = VirtualChain i vcc # ns"
  shows "\<exists>last_accepting target. sync_state (cs_vcp s) = Syncing last_accepting i target None"
proof -
  have inv: "tokens s i \<le> (case holder (sync_state (cs_vcp s)) of None \<Rightarrow> 0 | Some (j, _) \<Rightarrow> if i = j then 1 else 0)"
    using sync.invariant [OF assms(1)] unfolding token_inv_def by blast
  have "0 < length (filter (is_answer i) (cs_queue s))" by (simp add: assms(2))
  with inv have "holder (sync_state (cs_vcp s)) = Some (i, False)"
    by (auto simp: tokens_def split: option.splits if_splits)
  then show ?thesis by (auto simp: holder_def split: sync_state.splits)
qed

theorem sync_answer_is_expected_witness:
  "\<exists>last_accepting target. sync_state (cs_vcp example_sync) = Syncing last_accepting 0 target None"
  using sync_answer_is_expected [OF example_sync_reachable example_sync_queue] .

text \<open>
  A syncer is never told to continue while its request is out, the case that its code marks
  as unreachable: no syncer ends in a panic.
\<close>

theorem syncer_never_panics:
  assumes "reachable chain_sync_start (chain_sync_step L env) s"
  shows "cs_syncers s i \<noteq> Some (SyncerEnded (Panics m))"
  using sync.second_invariant [OF assms] unfolding no_panic_def by blast

theorem syncer_never_panics_witness: "cs_syncers example_sync 0 \<noteq> Some (SyncerEnded (Panics []))"
  by (rule syncer_never_panics [OF example_sync_reachable])

end
