(* ===== verification/Block_Gaps.thy ===== *)
theory Block_Gaps
  imports Block_Messages
begin

text \<open>
  The loop of the block processor: the table of gaps, the gap fillers it starts and counts,
  shutdown, and what stops it.
\<close>

section \<open>Lemmas\<close>

lemma known_block_mono:
  assumes "handle_block L b collect (w, pe) d m = Ok (d', m', w', pe')" and "known_block b' d"
  shows "known_block b' d'"
proof (cases "known_block b d")
  case True
  with assms show ?thesis
    by (auto simp: handle_block_known known_block_def with_header_def insert_compact_header_def)
next
  case False
  with assms show ?thesis
    by (auto simp: handle_block_new known_block_def with_daa_index_def with_header_def
        insert_compact_header_def daa_index_insert_def)
qed

text \<open>The other actors write neither the gap table nor, short of pruning, the headers.\<close>

definition keeps_gaps_and_headers :: "bp_env \<Rightarrow> bool" where
  "keeps_gaps_and_headers env \<longleftrightarrow>
     (\<forall>b. \<forall>f \<in> set (conflicts env b). \<forall>d.
        f d PBlockGaps = d PBlockGaps \<and> f d PBlockCompactHeader = d PBlockCompactHeader)"

definition gap_write :: "hash \<Rightarrow> bool \<Rightarrow> rpc_block \<Rightarrow> table \<Rightarrow> table" where
  "gap_write to is_last b t =
     (if is_last then tdel (list_of to) t
      else tput (list_of to) (list_of (rh_hash (blk_header b))) t)"

lemma gap_body_effect:
  assumes "gap_body L to is_last b d m = Ok (d1, m1, w, ev)"
  shows "d1 PBlockGaps = d PBlockGaps" and "known_block b' d \<or> b' = b \<Longrightarrow> known_block b' d1"
    and "commit w d1 PBlockGaps = gap_write to is_last b (d PBlockGaps)"
    and "commit w d1 PBlockCompactHeader = d1 PBlockCompactHeader"
proof -
  from assms obtain w0 where hb: "handle_block L b False (begin_wtx d, []) d m = Ok (d1, m1, w0, ev)"
    and w: "w = (if is_last then remove_gap_wtx to w0
      else update_gap_wtx \<lparr>gap_to = to, gap_from = rh_hash (blk_header b)\<rparr> w0)"
    by (auto simp: gap_body_def)
  note eff = handle_block_effect [OF hb]
  show same: "d1 PBlockGaps = d PBlockGaps"
    using eff(4) by simp
  show "known_block b' d \<or> b' = b \<Longrightarrow> known_block b' d1"
    using eff(3) known_block_mono [OF hb] by blast
  have "PBlockGaps \<notin> touched w0"
    using eff(1) by (auto simp: message_parts_def)
  then have "view w0 PBlockGaps = d PBlockGaps"
    using eff(2) by (simp add: view_untouched)
  moreover have "commit w d1 PBlockGaps = view w PBlockGaps"
    using eff(2) same by (intro commit_part) (simp add: w remove_gap_wtx_def update_gap_wtx_def)
  ultimately show "commit w d1 PBlockGaps = gap_write to is_last b (d PBlockGaps)"
    by (simp add: w gap_write_def remove_gap_wtx_def update_gap_wtx_def db_insert_def db_remove_def)
  show "commit w d1 PBlockCompactHeader = d1 PBlockCompactHeader"
    using eff(1)
    by (intro commit_untouched) (auto simp: w remove_gap_wtx_def update_gap_wtx_def message_parts_def)
qed

lemma gap_transact_effect:
  assumes "transact (gap_body L to is_last b) others d m = Ok (d', m', ev)"
    and "\<forall>f \<in> set others. \<forall>d. f d PBlockGaps = d PBlockGaps \<and> f d PBlockCompactHeader = d PBlockCompactHeader"
  shows "d' PBlockGaps = gap_write to is_last b (d PBlockGaps) \<and>
    (\<forall>b'. known_block b' d \<or> b' = b \<longrightarrow> known_block b' d')"
  using assms
proof (induction others arbitrary: d m)
  case Nil
  then obtain d1 w where body: "gap_body L to is_last b d m = Ok (d1, m', w, ev)" and "d' = commit w d1"
    by (auto split: sum.splits)
  then show ?case
    using gap_body_effect [OF body] by (auto simp: known_block_def)
next
  case (Cons f others)
  then obtain d1 m1 w1 ev1 where body: "gap_body L to is_last b d m = Ok (d1, m1, w1, ev1)"
    and rest: "transact (gap_body L to is_last b) others (f d1) m1 = Ok (d', m', ev)"
    by (auto split: sum.splits)
  have "f d1 PBlockGaps = d PBlockGaps" "\<And>b'. known_block b' d \<or> b' = b \<Longrightarrow> known_block b' (f d1)"
    using gap_body_effect(1,2) [OF body] Cons.prems(2) by (auto simp: known_block_def)
  with Cons.IH [OF rest] Cons.prems(2) show ?case by auto
qed

lemma notify_processed_simps [simp]:
  "bp_db (notify_processed b st) = bp_db st"
  "is_shutdown (notify_processed b st) = is_shutdown st"
  "gaps_fillers (notify_processed b st) = gaps_fillers st"
  "gaps_filling_in_progress (notify_processed b st) = gaps_filling_in_progress st"
  by (simp_all add: notify_processed_def emit_def)

lemma gap_block_effect:
  assumes "process_gap_block L env to (is_last, b) st = Ok st'" and "keeps_gaps_and_headers env"
  shows "bp_db st' PBlockGaps = gap_write to is_last b (bp_db st PBlockGaps) \<and>
    (\<forall>b'. known_block b' (bp_db st) \<or> b' = b \<longrightarrow> known_block b' (bp_db st'))"
proof -
  from assms(1) obtain d m ev where
    "transact (gap_body L to is_last b) (conflicts env b) (bp_db st) (bp_metrics st) = Ok (d, m, ev)"
    and "bp_db st' = d"
    by (auto simp: process_gap_block_def)
  with gap_transact_effect [of L to is_last b "conflicts env b"] assms(2) show ?thesis
    unfolding keeps_gaps_and_headers_def by blast
qed

lemma gap_blocks_effect:
  assumes "rfold (process_gap_block L env to) marked st = Ok st'" and "keeps_gaps_and_headers env"
  shows "bp_db st' PBlockGaps = fold (\<lambda>(is_last, b). gap_write to is_last b) marked (bp_db st PBlockGaps) \<and>
    (\<forall>b'. known_block b' (bp_db st) \<or> b' \<in> snd ` set marked \<longrightarrow> known_block b' (bp_db st'))"
  using assms(1)
proof (induction marked arbitrary: st)
  case (Cons x marked)
  obtain is_last b where x: "x = (is_last, b)" by (cases x)
  from Cons.prems obtain st1 where step: "process_gap_block L env to (is_last, b) st = Ok st1"
    and rest: "rfold (process_gap_block L env to) marked st1 = Ok st'" by (auto simp: x)
  from gap_block_effect [OF step assms(2)] Cons.IH [OF rest] show ?case by (auto simp: x)
qed simp

lemma fold_gap_write_get:
  "tget (fold (\<lambda>(is_last, b). gap_write to is_last b) marked t) k =
     (if marked = [] \<or> k \<noteq> list_of to then tget t k
      else case last marked of (is_last, b) \<Rightarrow>
        if is_last then None else Some (list_of (rh_hash (blk_header b))))"
  by (induction marked arbitrary: t) (auto simp: gap_write_def)

lemma filler_done_db [simp]: "bp_db (filler_done to st) = bp_db st"
  by (simp add: filler_done_def remove_filler_def emit_def)

lemma last_mark_last:
  assumes "blocks \<noteq> []"
  shows "mark_last blocks \<noteq> [] \<and> last (mark_last blocks) = (True, last blocks) \<and>
    snd ` set (mark_last blocks) = set blocks"
proof -
  have "length (mark_last blocks) = length blocks" by (simp add: mark_last_def)
  moreover have "mark_last blocks ! (length blocks - 1) = (True, last blocks)"
    using assms by (simp add: mark_last_def nth_enumerate_eq last_conv_nth)
  moreover have "map snd (mark_last blocks) = blocks"
    by (simp add: mark_last_def split_def comp_def)
  then have "snd ` set (mark_last blocks) = set blocks"
    by (metis list.set_map)
  ultimately show ?thesis
    using assms by (metis last_conv_nth length_0_conv)
qed

lemma emit_simps [simp]:
  "gaps_fillers (emit es st) = gaps_fillers st"
  "next_filler (emit es st) = next_filler st"
  "bp_effects (emit es st) = bp_effects st @ es"
  "bp_db (emit es st) = bp_db st"
  "is_shutdown (emit es st) = is_shutdown st"
  "gaps_filling_in_progress (emit es st) = gaps_filling_in_progress st"
  by (simp_all add: emit_def)

definition spawned :: "bp_effect list \<Rightarrow> (hash \<times> hash) list" where
  "spawned es = concat (map (\<lambda>e. case e of SpawnFiller _ from to \<Rightarrow> [(from, to)] | _ \<Rightarrow> []) es)"

lemma spawned_simps [simp]:
  "spawned [] = []"
  "spawned (SpawnFiller n f t # es) = (f, t) # spawned es"
  "spawned (es @ es') = spawned es @ spawned es'"
  "spawned [CloseInterrupt n] = []"
  "spawned (map (CloseInterrupt \<circ> g) xs) = []"
  by (simp_all add: spawned_def comp_def)

lemma add_filler_simps [simp]:
  "spawned (bp_effects (add_filler from to st)) = spawned (bp_effects st) @ [(from, to)]"
  "bp_db (add_filler from to st) = bp_db st"
  "is_shutdown (add_filler from to st) = is_shutdown st"
  by (simp_all add: add_filler_def split: option.split)

lemma gaps_fillers_add_filler:
  "gaps_fillers (add_filler from to st) =
     (to, next_filler st) # filter (\<lambda>(h, _). h \<noteq> to) (gaps_fillers st)"
  by (simp add: add_filler_def)

lemma add_fillers:
  assumes "distinct (map gap_to gaps)" and "set (map gap_to gaps) \<inter> fst ` set (gaps_fillers st) = {}"
  shows "length (gaps_fillers (fold (\<lambda>g. add_filler (gap_from g) (gap_to g)) gaps st)) =
      length (gaps_fillers st) + length gaps \<and>
    spawned (bp_effects (fold (\<lambda>g. add_filler (gap_from g) (gap_to g)) gaps st)) =
      spawned (bp_effects st) @ map (\<lambda>g. (gap_from g, gap_to g)) gaps \<and>
    bp_db (fold (\<lambda>g. add_filler (gap_from g) (gap_to g)) gaps st) = bp_db st"
  using assms
proof (induction gaps arbitrary: st)
  case (Cons g gaps)
  have "filter (\<lambda>(h, _). h \<noteq> gap_to g) (gaps_fillers st) = gaps_fillers st"
    using Cons.prems(2) by (force simp: filter_id_conv)
  then have *: "gaps_fillers (add_filler (gap_from g) (gap_to g) st) = (gap_to g, next_filler st) # gaps_fillers st"
    by (simp add: gaps_fillers_add_filler)
  then have "set (map gap_to gaps) \<inter> fst ` set (gaps_fillers (add_filler (gap_from g) (gap_to g) st)) = {}"
    using Cons.prems by auto
  with Cons.IH [of "add_filler (gap_from g) (gap_to g) st"] Cons.prems(1) * show ?case by simp
qed simp

lemma add_fillers_db:
  "bp_db (fold (\<lambda>g. add_filler (gap_from g) (gap_to g)) gaps st) = bp_db st"
  by (induction gaps arbitrary: st) simp_all

text \<open>The gap table as the processor reads it.\<close>

lemma rmap_id_map_Ok: "rmap id (map Ok xs) = Ok xs"
  by (induction xs) simp_all

lemma rmap_id_Ok: "rmap id rs = Ok ys \<Longrightarrow> rs = map Ok ys"
  by (induction rs arbitrary: ys) auto

lemma stored_gaps:
  assumes "rmap id (get_all_gaps d) = Ok gaps"
  shows "distinct (map gap_to gaps)"
    and "g \<in> set gaps \<longleftrightarrow> tget (d PBlockGaps) (list_of (gap_to g)) = Some (list_of (gap_from g))"
proof -
  have gaps: "map gap_of_entry (items (d PBlockGaps)) = map Ok gaps"
    using rmap_id_Ok [OF assms] by (simp add: get_all_gaps_def)
  have entry: "gap_of_entry e = Ok g' \<longleftrightarrow> e = (list_of (gap_to g'), list_of (gap_from g'))" for e g'
    by (cases e) (auto simp: gap_of_entry_def)
  have "items (d PBlockGaps) = map (\<lambda>g. (list_of (gap_to g), list_of (gap_from g))) gaps"
  proof (rule nth_equalityI)
    show len: "length (items (d PBlockGaps)) = length (map (\<lambda>g. (list_of (gap_to g), list_of (gap_from g))) gaps)"
      using arg_cong [OF gaps, of length] by simp
    fix i
    assume "i < length (items (d PBlockGaps))"
    with arg_cong [OF gaps, of "\<lambda>xs. xs ! i"] len
    show "items (d PBlockGaps) ! i = map (\<lambda>g. (list_of (gap_to g), list_of (gap_from g))) gaps ! i"
      by (simp add: entry)
  qed
  note items = this
  have "distinct (map fst (items (d PBlockGaps)))"
    by (rule key_sorted_distinct) simp
  then have "distinct (map list_of (map gap_to gaps))"
    by (simp add: items comp_def)
  then show "distinct (map gap_to gaps)" by (rule distinct_map [THEN iffD1, THEN conjunct1])
  show "g \<in> set gaps \<longleftrightarrow> tget (d PBlockGaps) (list_of (gap_to g)) = Some (list_of (gap_from g))"
    by (auto simp: tget_items items image_iff) (metis block_gap.equality unit.exhaust)
qed

lemma unat_word_of_nat_u64: "n < 2 ^ 64 \<Longrightarrow> unat (word_of_nat n :: u64) = n"
  by (simp add: unat_of_nat)

text \<open>The gap that the first connection opens.\<close>

definition first_gap :: "hash \<Rightarrow> hash \<Rightarrow> hash option \<Rightarrow> block_gap option" where
  "first_gap sink pp cursor = (case cursor of
       None \<Rightarrow> Some \<lparr>gap_to = sink, gap_from = pp\<rparr>
     | Some block \<Rightarrow> if block = sink then None else Some \<lparr>gap_to = sink, gap_from = block\<rparr>)"

lemma handle_first_connect_eq:
  assumes "get_latest_block_cursor d = Ok cursor" and "rmap id (get_all_gaps d) = Ok gaps"
  shows "handle_first_connect sink pp d =
    Ok (gaps @ (case first_gap sink pp cursor of None \<Rightarrow> [] | Some g \<Rightarrow> [g]),
        case first_gap sink pp cursor of None \<Rightarrow> d | Some g \<Rightarrow> add_gap g d)"
  using assms
  by (auto simp: handle_first_connect_def last_real_time_block_def first_gap_def Let_def insert_gap_def
      split: option.split)

lemma filler_done_effects: "set (bp_effects st) \<subseteq> set (bp_effects (filler_done to st))"
  by (simp add: filler_done_def remove_filler_def)

lemma shutdown_step:
  assumes "is_shutdown st"
  shows "bp_step L env (GapFilling (GapInterrupted to)) st =
    Ok (filler_done to st, gaps_filling_in_progress st = 1)"
  using assms by (simp add: bp_step_def filler_done_def remove_filler_def)

lemma shutdown_reports:
  assumes "is_shutdown st" and "unat (gaps_filling_in_progress st) = length tos" and "tos \<noteq> []"
  shows "\<exists>st'. bp_process L env (map (\<lambda>to. GapFilling (GapInterrupted to)) tos) st = Ok (st', True) \<and>
    set (bp_effects st) \<subseteq> set (bp_effects st')"
  using assms
proof (induction tos arbitrary: st)
  case (Cons to tos)
  show ?case
  proof (cases "tos = []")
    case True
    with Cons.prems(2) have "gaps_filling_in_progress st = 1"
      by (simp add: word_unat_eq_iff)
    then show ?thesis
      using Cons.prems(1) True by (simp add: shutdown_step filler_done_effects)
  next
    case False
    then have n: "gaps_filling_in_progress st \<noteq> 1" "gaps_filling_in_progress st \<noteq> 0"
      using Cons.prems(2) by auto
    have "is_shutdown (filler_done to st)"
      using Cons.prems(1) by (simp add: filler_done_def remove_filler_def)
    moreover have "unat (gaps_filling_in_progress (filler_done to st)) = length tos"
      using Cons.prems(2) n(2) by (simp add: filler_done_def unat_minus_one)
    ultimately obtain st' where
      "bp_process L env (map (\<lambda>to. GapFilling (GapInterrupted to)) tos) (filler_done to st) = Ok (st', True)"
      "set (bp_effects (filler_done to st)) \<subseteq> set (bp_effects st')"
      using Cons.IH [of "filler_done to st"] False by blast
    then show ?thesis
      using filler_done_effects [of st to] Cons.prems(1) n(1) by (auto simp: shutdown_step)
  qed
qed simp

text \<open>Example data: an empty block, and the processor as it starts.\<close>

definition bare_block :: rpc_block where
  "bare_block = \<lparr>blk_header = example_header, blk_transactions = []\<rparr>"

definition fresh_processor :: bp_state where
  "fresh_processor = bp_initial (\<lambda>_. tempty) (metrics_new [])"

lemma fresh_processor_simps [simp]:
  "bp_db fresh_processor = (\<lambda>_. tempty)"
  "\<not> has_first_connect fresh_processor" "\<not> is_shutdown fresh_processor"
  "gaps_fillers fresh_processor = []" "bp_effects fresh_processor = []"
  by (simp_all add: fresh_processor_def bp_initial_def)

definition odd_output :: rpc_output where
  "odd_output = \<lparr>out_value = 1, out_script_public_key = \<lparr>spk_version = 0, spk_script = [106]\<rparr>\<rparr>"

section \<open>Properties\<close>

text \<open>
  Gap filling is recorded as it proceeds: after a batch every block of it is marked as
  processed; the stored gap starts at the last block of the batch, so a restart resumes
  there; after the final batch the gap is gone; and no other gap changes.
\<close>

theorem gap_filling_progress_recorded:
  assumes "keeps_gaps_and_headers env" and "blocks \<noteq> []"
    and "bp_handle L env (GapFilling (if finished then GapFinished to blocks else GapUpdate to blocks)) st = Ok st'"
  shows "(\<forall>b \<in> set blocks. known_block b (bp_db st')) \<and>
    tget (bp_db st' PBlockGaps) (list_of to) =
      (if finished then None else Some (list_of (rh_hash (blk_header (last blocks))))) \<and>
    (\<forall>k. k \<noteq> list_of to \<longrightarrow> tget (bp_db st' PBlockGaps) k = tget (bp_db st PBlockGaps) k)"
proof (cases finished)
  case True
  with assms(3) obtain st1 where run: "rfold (process_gap_block L env to) (mark_last blocks) st = Ok st1"
    and "bp_db st' = bp_db st1" by auto
  with gap_blocks_effect [OF run assms(1)] last_mark_last [OF assms(2)] True show ?thesis
    by (auto simp: fold_gap_write_get)
next
  case False
  with assms(3) have run: "rfold (process_gap_block L env to) (map (Pair False) blocks) st = Ok st'" by simp
  from gap_blocks_effect [OF run assms(1)] assms(2) False show ?thesis
    by (auto simp: fold_gap_write_get last_map image_image)
qed

theorem gap_filling_progress_recorded_witness:
  "\<exists>st'. bp_handle example_node quiet_blocks (GapFilling (GapUpdate (of_list [8]) [bare_block])) fresh_processor = Ok st' \<and>
    tget (bp_db st' PBlockGaps) (list_of (of_list [8] :: hash)) = Some (list_of (of_list [9] :: hash))"
proof -
  obtain st' where st': "bp_handle example_node quiet_blocks (GapFilling (GapUpdate (of_list [8]) [bare_block])) fresh_processor = Ok st'"
    by (simp add: process_gap_block_def gap_body_def handle_block_new known_block_def bare_block_def quiet_blocks_def)
  have "keeps_gaps_and_headers quiet_blocks"
    by (simp add: keeps_gaps_and_headers_def quiet_blocks_def)
  then have "tget (bp_db st' PBlockGaps) (list_of (of_list [8] :: hash)) = Some (list_of (rh_hash (blk_header bare_block)))"
    using gap_filling_progress_recorded [of quiet_blocks "[bare_block]" example_node False "of_list [8]" fresh_processor st'] st'
    by simp
  with st' show ?thesis by (simp add: bare_block_def example_header_def)
qed

text \<open>
  C3. The first connection leaves no range out: a filler is started for every stored gap and
  for the range from the last processed block (or the pruning point) to the sink, the gap
  table holds exactly these gaps, and the counter is the number of fillers. It is assumed that
  the table holds no gap to that sink yet.
\<close>

theorem first_connect_fills_all_gaps:
  assumes "\<not> has_first_connect st" and cursor: "get_latest_block_cursor (bp_db st) = Ok cursor"
    and gaps: "rmap id (get_all_gaps (bp_db st)) = Ok gaps"
    and nodup: "cursor = Some sink \<or> tget (bp_db st PBlockGaps) (list_of sink) = None"
    and few: "length gaps + 1 < 2 ^ 64"
  shows "\<exists>st' gs. bp_handle L env (Notification (BlockConnected sink pp)) st = Ok st' \<and>
    gs = gaps @ (case first_gap sink pp cursor of None \<Rightarrow> [] | Some g \<Rightarrow> [g]) \<and>
    spawned (bp_effects st') = spawned (bp_effects st) @ map (\<lambda>g. (gap_from g, gap_to g)) gs \<and>
    unat (gaps_filling_in_progress st') = length gs \<and>
    (\<forall>g. tget (bp_db st' PBlockGaps) (list_of (gap_to g)) = Some (list_of (gap_from g)) \<longleftrightarrow> g \<in> set gs)"
proof -
  let ?new = "case first_gap sink pp cursor of None \<Rightarrow> [] | Some g \<Rightarrow> [g]"
  let ?gs = "gaps @ ?new"
  let ?d = "case first_gap sink pp cursor of None \<Rightarrow> bp_db st | Some g \<Rightarrow> add_gap g (bp_db st)"
  let ?st0 = "emit (map (CloseInterrupt \<circ> snd) (gaps_fillers st))
    (st\<lparr>has_first_connect := True, bp_db := ?d, gaps_fillers := []\<rparr>)"
  let ?st1 = "fold (\<lambda>g. add_filler (gap_from g) (gap_to g)) ?gs ?st0"
  note stored = stored_gaps [OF gaps]
  have fresh: "sink \<notin> gap_to ` set gaps" if "first_gap sink pp cursor \<noteq> None"
    using nodup that stored(2) by (auto simp: first_gap_def split: option.splits if_splits)
  have dist: "distinct (map gap_to ?gs)"
    using stored(1) fresh by (auto simp: first_gap_def split: option.split)
  have run: "bp_handle L env (Notification (BlockConnected sink pp)) st =
      Ok (?st1\<lparr>gaps_filling_in_progress := word_of_nat (length (gaps_fillers ?st1))\<rparr>)"
    using assms(1) by (simp add: handle_connected_def handle_first_connect_eq [OF cursor gaps] Let_def)
  have fill: "length (gaps_fillers ?st1) = length ?gs"
    "spawned (bp_effects ?st1) = spawned (bp_effects st) @ map (\<lambda>g. (gap_from g, gap_to g)) ?gs"
    "bp_db ?st1 = ?d"
    using add_fillers [OF dist, of ?st0] by simp_all
  have "length ?gs < 2 ^ 64" using few by (simp split: option.split)
  then have "unat (word_of_nat (length ?gs) :: u64) = length ?gs"
    by (rule unat_word_of_nat_u64)
  moreover have "tget (?d PBlockGaps) (list_of (gap_to g)) = Some (list_of (gap_from g)) \<longleftrightarrow> g \<in> set ?gs" for g
    using stored(2) [of g] fresh nodup
    by (cases g) (auto simp: first_gap_def add_gap_def split: option.splits if_splits)
  ultimately show ?thesis
    using run fill by (intro exI conjI) (auto simp del: fold_append)
qed

theorem first_connect_fills_all_gaps_witness:
  "\<exists>st'. bp_handle example_node quiet_blocks (Notification (BlockConnected (of_list [1]) (of_list [2]))) fresh_processor = Ok st' \<and>
    spawned (bp_effects st') = [(of_list [2], of_list [1])] \<and> unat (gaps_filling_in_progress st') = 1"
proof -
  have "get_latest_block_cursor (bp_db fresh_processor) = Ok None"
    "rmap id (get_all_gaps (bp_db fresh_processor)) = Ok []"
    by (simp_all add: get_latest_block_cursor_def get_all_gaps_def)
  from first_connect_fills_all_gaps [OF _ this, of "of_list [1]" example_node quiet_blocks "of_list [2]"]
  show ?thesis by (auto simp: first_gap_def)
qed

text \<open>
  C4. Shutdown comes to an end: on the shutdown notification every running filler is
  interrupted, and when as many fillers have reported as the counter says, the loop returns.
\<close>

theorem shutdown_terminates:
  assumes "unat (gaps_filling_in_progress st) = length tos"
  shows "\<exists>st'. bp_process L env (Notification BlockShutdown # map (\<lambda>to. GapFilling (GapInterrupted to)) tos) st = Ok (st', True) \<and>
    (\<forall>n \<in> snd ` set (gaps_fillers st). Interrupt n \<in> set (bp_effects st'))"
proof -
  let ?st = "interrupt_fillers (st\<lparr>is_shutdown := True\<rparr>)"
  have st: "is_shutdown ?st" "gaps_filling_in_progress ?st = gaps_filling_in_progress st"
    "\<forall>n \<in> snd ` set (gaps_fillers st). Interrupt n \<in> set (bp_effects ?st)"
    by (auto simp: interrupt_fillers_def)
  have step: "bp_step L env (Notification BlockShutdown) st = Ok (?st, gaps_filling_in_progress st = 0)"
    by (simp add: bp_step_def st)
  show ?thesis
  proof (cases "tos = []")
    case True
    with assms have "gaps_filling_in_progress st = 0" by (simp add: unat_eq_0)
    with True step st(3) show ?thesis by simp
  next
    case False
    with assms have "gaps_filling_in_progress st \<noteq> 0" by auto
    with step shutdown_reports [of ?st tos L env] st assms False show ?thesis by fastforce
  qed
qed

theorem shutdown_terminates_witness:
  "\<exists>st'. bp_process example_node quiet_blocks [Notification BlockShutdown, GapFilling (GapInterrupted (of_list [1]))]
      (fresh_processor\<lparr>gaps_fillers := [(of_list [1], 0)], gaps_filling_in_progress := 1\<rparr>) = Ok (st', True) \<and>
    Interrupt 0 \<in> set (bp_effects st')"
  using shutdown_terminates [of "fresh_processor\<lparr>gaps_fillers := [(of_list [1], 0)], gaps_filling_in_progress := 1\<rparr>"
      "[of_list [1]]" example_node quiet_blocks]
  by simp

text \<open>
  C37. Without that assumption: when a gap to the sink is stored already, two fillers are
  started but only one is counted. The first one finds its channel closed; its report closes
  the channel of the second one; after both reports the counter has wrapped around, and a
  shutdown does not stop the loop.
\<close>

theorem duplicate_gap_never_stops:
  assumes "\<not> has_first_connect st" and "\<not> is_shutdown st"
    and "get_latest_block_cursor (bp_db st) = Ok None"
    and "rmap id (get_all_gaps (bp_db st)) = Ok [\<lparr>gap_to = sink, gap_from = from\<rparr>]"
  shows "\<exists>st1 st2. bp_handle L env (Notification (BlockConnected sink pp)) st = Ok st1 \<and>
    spawned (bp_effects st1) = spawned (bp_effects st) @ [(from, sink), (pp, sink)] \<and>
    gaps_filling_in_progress st1 = 1 \<and> CloseInterrupt (next_filler st) \<in> set (bp_effects st1) \<and>
    bp_process L env [GapFilling (GapInterrupted sink), GapFilling (GapInterrupted sink),
      Notification BlockShutdown] st1 = Ok (st2, False) \<and>
    CloseInterrupt (Suc (next_filler st)) \<in> set (bp_effects st2) \<and>
    is_shutdown st2 \<and> gaps_filling_in_progress st2 = - 1"
  using assms
  by (simp add: handle_connected_def handle_first_connect_eq first_gap_def Let_def add_gap_def
      gaps_fillers_add_filler add_filler_def interrupt_fillers_def filler_done_def remove_filler_def
      bp_step_def)

theorem duplicate_gap_never_stops_witness:
  "\<exists>st1 st2. bp_handle example_node quiet_blocks (Notification (BlockConnected (of_list [1]) (of_list [2])))
      (fresh_processor\<lparr>bp_db := add_gap \<lparr>gap_to = of_list [1], gap_from = of_list [5]\<rparr> (\<lambda>_. tempty)\<rparr>) = Ok st1 \<and>
    bp_process example_node quiet_blocks [GapFilling (GapInterrupted (of_list [1])),
      GapFilling (GapInterrupted (of_list [1])), Notification BlockShutdown] st1 = Ok (st2, False) \<and>
    is_shutdown st2 \<and> gaps_filling_in_progress st2 = - 1"
proof -
  let ?st = "fresh_processor\<lparr>bp_db := add_gap \<lparr>gap_to = of_list [1], gap_from = of_list [5]\<rparr> (\<lambda>_. tempty)\<rparr>"
  have "\<not> has_first_connect ?st" "\<not> is_shutdown ?st" by simp_all
  moreover have "get_latest_block_cursor (bp_db ?st) = Ok None"
    by (simp add: get_latest_block_cursor_def add_gap_def)
  moreover have "rmap id (get_all_gaps (bp_db ?st)) = Ok [\<lparr>gap_to = of_list [1], gap_from = of_list [5]\<rparr>]"
    by (simp add: get_all_gaps_def add_gap_def db_insert_def gap_of_entry_def del: list_of_of_list)
  ultimately show ?thesis
    using duplicate_gap_never_stops [of ?st "of_list [1]" "of_list [5]" example_node quiet_blocks "of_list [2]"]
    by blast
qed

text \<open>
  One transaction can stop the indexer: a block with a message whose first output has a
  non-standard script ends the loop with an error, whatever the rest of the block and the
  state of the processor.
\<close>

theorem nonstandard_output_stops_processing:
  assumes "\<not> known_block block (bp_db st)" and "blk_transactions block = tx # txs"
    and "parse_sealed_operation (tx_payload tx) \<noteq> None" and "tx_identifier L tx = Ok tx_id"
    and "tx_outputs tx = out # outs" and "from_script L (out_script_public_key out) = NonStandard"
  shows "\<exists>e. bp_process L env (Notification (BlockAdded block) # inputs) st = Err e"
proof -
  have "\<exists>e. amount_and_receiver L tx = Err e"
    using assms(5,6) by (simp add: amount_and_receiver_def address_payload_from_script_def Let_def)
  then obtain e where "handle_transaction L d h c tx (w, pe) = Err e" for d h c w pe
    using assms(3,4) by (auto simp: handle_transaction_def)
  then have "realtime_body L block (bp_db st) m = Err e" for m
    using assms(2) by (simp add: realtime_body_def handle_block_new [OF assms(1)])
  then have "transact (realtime_body L block) others (bp_db st) m = Err e" for others m
    by (cases others) simp_all
  then show ?thesis
    by (simp add: bp_step_def process_realtime_block_def)
qed

theorem nonstandard_output_stops_processing_witness:
  "\<exists>e. bp_process example_node quiet_blocks [Notification (BlockAdded
      \<lparr>blk_header = example_header, blk_transactions = [example_tx\<lparr>tx_outputs := [odd_output]\<rparr>]\<rparr>)]
      fresh_processor = Err e"
proof (rule nonstandard_output_stops_processing)
  show "from_script example_node (out_script_public_key odd_output) = NonStandard"
    by (simp add: odd_output_def example_node_def example_lib_def kaspa_lib.defs)
  show "tx_identifier example_node (example_tx\<lparr>tx_outputs := [odd_output]\<rparr>) = Ok (of_list [3])"
    by (simp add: tx_identifier_def example_tx_simps)
qed (simp_all add: known_block_def example_tx_simps)

end
