(* ===== verification/Gap_Filler.thy ===== *)
theory Gap_Filler
  imports Block_Gaps
begin

text \<open>
  The gap filler, \<^verbatim>\<open>indexer-actors/src/block_gap_filler.rs\<close>: it asks the node for the
  blocks after a block, batch by batch, until it sees the block it has to reach, and reports
  every batch to the block processor, which keeps the receiving end of its channel open. A round
  of its loop is given by what the interruption channel holds and what comes back for the
  request.
\<close>

section \<open>The loop\<close>

datatype interrupt_poll = InterruptEmpty | InterruptReceived | InterruptClosed

datatype blocks_answer =
    Blocks "rpc_block list"
  | BlocksError request_error
  | NoBlocksAnswer \<comment> \<open>the command or the response channel is closed\<close>

text \<open>The reports of one round, and the block to go on from, if the loop goes on.\<close>

definition gap_answer :: "hash \<Rightarrow> hash \<Rightarrow> blocks_answer \<Rightarrow> gap_filling_progress list \<times> hash option res" where
  "gap_answer target from answer = (case answer of
       NoBlocksAnswer \<Rightarrow> ([], Err ''channel closed'')
     | BlocksError RpcError \<Rightarrow> ([GapError target], Ok None)
     | BlocksError ShuttingDown \<Rightarrow> ([], Ok (Some from))
     | Blocks blocks \<Rightarrow>
         if \<exists>b \<in> set blocks. rh_hash (blk_header b) = target
         then ([GapFinished target blocks], Ok None)
         else if blocks = [] then ([], Panics ''called unwrap on a None value'')
         else ([GapUpdate target blocks], Ok (Some (rh_hash (blk_header (last blocks))))))"

text \<open>
  The loop over its rounds: the blocks it asked from, its reports, and its end; a value
  \<open>Some from\<close> means that it is still running.
\<close>

fun gap_sync ::
    "hash \<Rightarrow> hash \<Rightarrow> (interrupt_poll \<times> blocks_answer) list \<Rightarrow>
     hash list \<times> gap_filling_progress list \<times> hash option res" where
  "gap_sync target from [] = ([], [], Ok (Some from))"
| "gap_sync target from ((poll, answer) # rounds) =
     (case poll of
        InterruptReceived \<Rightarrow> ([], [GapInterrupted target], Ok None)
      | InterruptClosed \<Rightarrow> ([], [GapInterrupted target], Ok None)
      | InterruptEmpty \<Rightarrow>
          (case gap_answer target from answer of
             (reports, Inr (Some from')) \<Rightarrow>
               let (asked, reports', r) = gap_sync target from' rounds
               in (from # asked, reports @ reports', r)
           | (reports, r) \<Rightarrow> ([from], reports, r)))"

section \<open>Lemmas\<close>

fun report_blocks :: "gap_filling_progress \<Rightarrow> rpc_block list" where
  "report_blocks (GapUpdate _ bs) = bs"
| "report_blocks (GapFinished _ bs) = bs"
| "report_blocks _ = []"

text \<open>The block that a filler, started at \<open>from\<close>, has got to after some batches.\<close>

definition resume_point :: "hash \<Rightarrow> rpc_block list list \<Rightarrow> hash" where
  "resume_point from batches = (if batches = [] then from else rh_hash (blk_header (last (last batches))))"

lemma resume_point_Cons:
  "batch \<noteq> [] \<Longrightarrow> resume_point from (batch # batches) = resume_point (rh_hash (blk_header (last batch))) batches"
  by (simp add: resume_point_def)

abbreviation reaches :: "hash \<Rightarrow> rpc_block list \<Rightarrow> bool" where
  "reaches target blocks \<equiv> \<exists>b \<in> set blocks. rh_hash (blk_header b) = target"

text \<open>
  What a filler reports: updates whose batches do not reach the target, then, when it returns,
  one final report, which is \<^verbatim>\<open>Finished\<close> only for a batch that reaches the target.
\<close>

definition filler_run ::
    "hash \<Rightarrow> hash \<Rightarrow> rpc_block list list \<Rightarrow> gap_filling_progress list \<Rightarrow> hash option res \<Rightarrow> bool" where
  "filler_run target from batches reports r \<longleftrightarrow>
     (\<forall>batch \<in> set batches. batch \<noteq> [] \<and> \<not> reaches target batch) \<and>
     (case r of
        Inl _ \<Rightarrow> reports = map (GapUpdate target) batches
      | Inr (Some from') \<Rightarrow> reports = map (GapUpdate target) batches \<and> from' = resume_point from batches
      | Inr None \<Rightarrow> (\<exists>final. reports = map (GapUpdate target) batches @ [final] \<and>
          (final = GapInterrupted target \<or> final = GapError target \<or>
           (\<exists>blocks. final = GapFinished target blocks \<and> reaches target blocks))))"

lemma filler_run_Cons:
  assumes "filler_run target (rh_hash (blk_header (last batch))) batches reports r"
    and "batch \<noteq> []" "\<not> reaches target batch"
  shows "filler_run target from (batch # batches) (GapUpdate target batch # reports) r"
  using assms unfolding filler_run_def
  by (auto simp: resume_point_Cons split: sum.splits option.splits)

lemma filler_run_final:
  "final = GapInterrupted target \<or> final = GapError target \<or>
     (\<exists>blocks. final = GapFinished target blocks \<and> reaches target blocks) \<Longrightarrow>
   filler_run target from [] [final] (Ok None)"
  by (simp add: filler_run_def)

lemma filler_run_fault: "filler_run target from [] [] (Inl e)"
  by (simp add: filler_run_def)

lemma gap_sync_run:
  "gap_sync target from rounds = (asked, reports, r) \<Longrightarrow> \<exists>batches. filler_run target from batches reports r"
proof (induction target "from" rounds arbitrary: asked reports r rule: gap_sync.induct)
  case (1 target "from")
  then have "filler_run target from [] reports r" by (auto simp: filler_run_def resume_point_def)
  then show ?case ..
next
  case (2 target "from" poll answer rounds)
  show ?case
  proof (cases "poll = InterruptEmpty")
    case False
    with 2(2) have "reports = [GapInterrupted target]" "r = Ok None"
      by (auto split: interrupt_poll.splits)
    then show ?thesis using filler_run_final by blast
  next
    case True
    obtain rs nx where ga: "gap_answer target from answer = (rs, nx)" by fastforce
    show ?thesis
    proof (cases "\<exists>from'. nx = Ok (Some from')")
      case False
      with 2(2) True ga have "reports = rs" "r = nx"
        by (auto split: sum.splits option.splits)
      moreover have "filler_run target from [] rs nx"
        using ga False unfolding gap_answer_def
        by (auto simp: filler_run_fault split: blocks_answer.splits request_error.splits if_splits
            intro!: filler_run_final)
      ultimately show ?thesis by blast
    next
      case more: True
      then obtain from' where from': "nx = Ok (Some from')" ..
      obtain asked' reports' r' where rest: "gap_sync target from' rounds = (asked', reports', r')"
        using prod_cases3 by blast
      with 2(2) True ga from' have r: "reports = rs @ reports'" "r = r'" by auto
      from 2(1) [OF True ga [symmetric] from' _ rest] obtain batches
        where run: "filler_run target from' batches reports' r'" by auto
      from ga from' consider "rs = []" "from' = from"
        | bs where "rs = [GapUpdate target bs]" "from' = rh_hash (blk_header (last bs))" "bs \<noteq> []" "\<not> reaches target bs"
        unfolding gap_answer_def by (auto split: blocks_answer.splits request_error.splits if_splits)
      then show ?thesis
      proof cases
        case 1
        with run r show ?thesis by auto
      next
        case (2 bs)
        from filler_run_Cons [OF run [unfolded 2(2)] 2(3,4)] show ?thesis using r 2(1) by auto
      qed
    qed
  qed
qed


text \<open>The block processor on the updates of a filler.\<close>

lemma process_gap_block_flags:
  "process_gap_block L env to x st = Ok st' \<Longrightarrow>
     is_shutdown st' = is_shutdown st \<and> gaps_filling_in_progress st' = gaps_filling_in_progress st"
  by (cases x) (auto simp: process_gap_block_def)

lemma process_gap_blocks_flags:
  "rfold (process_gap_block L env to) xs st = Ok st' \<Longrightarrow>
     is_shutdown st' = is_shutdown st \<and> gaps_filling_in_progress st' = gaps_filling_in_progress st"
proof (induction xs arbitrary: st)
  case (Cons x xs)
  from Cons.prems obtain st1 where step: "process_gap_block L env to x st = Ok st1"
    and rest: "rfold (process_gap_block L env to) xs st1 = Ok st'" by auto
  from process_gap_block_flags [OF step] Cons.IH [OF rest] show ?case by simp
qed simp

definition batch_gap :: "hash \<Rightarrow> rpc_block list list \<Rightarrow> table \<Rightarrow> bytes \<Rightarrow> bytes option" where
  "batch_gap to batches t k =
     (if batches \<noteq> [] \<and> k = list_of to then Some (list_of (rh_hash (blk_header (last (last batches)))))
      else tget t k)"

lemma process_updates:
  assumes env: "keeps_gaps_and_headers env" and "\<not> is_shutdown st" and "\<forall>batch \<in> set batches. batch \<noteq> []"
    and "bp_process L env (map (\<lambda>batch. GapFilling (GapUpdate to batch)) batches @ inputs) st = Ok res"
  shows "\<exists>st'. bp_process L env inputs st' = Ok res \<and> \<not> is_shutdown st' \<and>
    gaps_filling_in_progress st' = gaps_filling_in_progress st \<and>
    (\<forall>b. known_block b (bp_db st) \<or> b \<in> set (concat batches) \<longrightarrow> known_block b (bp_db st')) \<and>
    (\<forall>k. tget (bp_db st' PBlockGaps) k = batch_gap to batches (bp_db st PBlockGaps) k)"
  using assms(2-)
proof (induction batches arbitrary: st)
  case Nil
  then show ?case by (intro exI [of _ st]) (simp add: batch_gap_def)
next
  case (Cons batch batches)
  from Cons.prems(3) obtain st1 where h: "rfold (process_gap_block L env to) (map (Pair False) batch) st = Ok st1"
    and go: "(if is_shutdown st1 \<and> gaps_filling_in_progress st1 = 0 then Ok (st1, True)
      else bp_process L env (map (\<lambda>batch. GapFilling (GapUpdate to batch)) batches @ inputs) st1) = Ok res"
    by (auto simp: bp_step_def)
  have st1: "\<not> is_shutdown st1" "gaps_filling_in_progress st1 = gaps_filling_in_progress st"
    using process_gap_blocks_flags [OF h] Cons.prems(1) by auto
  from go st1(1)
  have rest: "bp_process L env (map (\<lambda>batch. GapFilling (GapUpdate to batch)) batches @ inputs) st1 = Ok res"
    by simp
  have eff: "bp_db st1 PBlockGaps = fold (\<lambda>(is_last, b). gap_write to is_last b) (map (Pair False) batch) (bp_db st PBlockGaps)"
    "\<forall>b. known_block b (bp_db st) \<or> b \<in> set batch \<longrightarrow> known_block b (bp_db st1)"
    using gap_blocks_effect [OF h env] by (auto simp: image_image)
  have gap1: "tget (bp_db st1 PBlockGaps) k = batch_gap to [batch] (bp_db st PBlockGaps) k" for k
    using Cons.prems(2) unfolding eff(1) fold_gap_write_get by (simp add: batch_gap_def last_map)
  from Cons.IH [OF st1(1) _ rest] Cons.prems(2) obtain st' where
    st': "bp_process L env inputs st' = Ok res" "\<not> is_shutdown st'"
    "gaps_filling_in_progress st' = gaps_filling_in_progress st1"
    "\<forall>b. known_block b (bp_db st1) \<or> b \<in> set (concat batches) \<longrightarrow> known_block b (bp_db st')"
    "\<forall>k. tget (bp_db st' PBlockGaps) k = batch_gap to batches (bp_db st1 PBlockGaps) k" by auto
  have "\<forall>b. known_block b (bp_db st) \<or> b \<in> set (concat (batch # batches)) \<longrightarrow> known_block b (bp_db st')"
    using eff(2) st'(4) by auto
  moreover have "\<forall>k. tget (bp_db st' PBlockGaps) k = batch_gap to (batch # batches) (bp_db st PBlockGaps) k"
    using st'(5) gap1 by (simp add: batch_gap_def)
  ultimately show ?case using st'(1-3) st1(2) by auto
qed


lemma filler_run_return:
  assumes "filler_run target from batches reports (Ok None)"
  shows "\<exists>final. reports = map (GapUpdate target) batches @ [final] \<and>
    (final = GapInterrupted target \<or> final = GapError target \<or>
     (\<exists>blocks. final = GapFinished target blocks \<and> reaches target blocks))"
  using assms by (simp add: filler_run_def)

lemma filler_run_batches:
  "filler_run target from batches reports r \<Longrightarrow> \<forall>batch \<in> set batches. batch \<noteq> []"
  by (simp add: filler_run_def)

text \<open>The final report.\<close>

lemma process_finished:
  assumes "keeps_gaps_and_headers env" and "\<not> is_shutdown st" and "blocks \<noteq> []"
    and "bp_process L env [GapFilling (GapFinished to blocks)] st = Ok (st', stop)"
  shows "\<not> stop \<and> gaps_filling_in_progress st' = gaps_filling_in_progress st - 1 \<and>
    (\<forall>b. known_block b (bp_db st) \<or> b \<in> set blocks \<longrightarrow> known_block b (bp_db st')) \<and>
    (\<forall>k. tget (bp_db st' PBlockGaps) k = (if k = list_of to then None else tget (bp_db st PBlockGaps) k))"
proof -
  from assms(4) obtain st1 where h: "rfold (process_gap_block L env to) (mark_last blocks) st = Ok st1"
    and st': "bp_step L env (GapFilling (GapFinished to blocks)) st = Ok (st', stop)" "st' = filler_done to st1"
    by (auto simp: bp_step_def split: if_splits)
  have flags: "\<not> is_shutdown st'" "gaps_filling_in_progress st' = gaps_filling_in_progress st - 1"
    using process_gap_blocks_flags [OF h] assms(2) by (auto simp: st'(2) filler_done_def remove_filler_def)
  have "\<not> stop" using st'(1) flags(1) by (auto simp: bp_step_def)
  moreover have "snd ` set (mark_last blocks) = set blocks" using last_mark_last [OF assms(3)] by blast
  then have "\<forall>b. known_block b (bp_db st) \<or> b \<in> set blocks \<longrightarrow> known_block b (bp_db st1)"
    using gap_blocks_effect [OF h assms(1)] by simp
  moreover have "tget (bp_db st1 PBlockGaps) k = (if k = list_of to then None else tget (bp_db st PBlockGaps) k)" for k
    using gap_blocks_effect [OF h assms(1)] last_mark_last [OF assms(3)] by (simp add: fold_gap_write_get)
  ultimately show ?thesis using flags(2) by (simp add: st'(2))
qed

lemma bare_block_simps [simp]: "rh_hash (blk_header bare_block) = of_list [9]" "blk_transactions bare_block = []"
  by (simp_all add: bare_block_def example_header_def)

lemma filler_done_shutdown [simp]: "is_shutdown (filler_done to st) = is_shutdown st"
  by (simp add: filler_done_def remove_filler_def)

lemma quiet_blocks_keeps: "keeps_gaps_and_headers quiet_blocks"
  by (simp add: keeps_gaps_and_headers_def quiet_blocks_def)

lemma bare_block_processed:
  assumes "\<not> known_block bare_block (bp_db st)"
  shows "\<exists>st'. process_gap_block L quiet_blocks to (l, bare_block) st = Ok st'"
  using assms by (simp add: process_gap_block_def gap_body_def handle_block_new quiet_blocks_def)

section \<open>Properties\<close>

text \<open>
  C9. A gap that is filled is closed: when a filler returns having reached its target, and the
  block processor has handled its reports, every block of every batch is marked as processed,
  the gap is gone from the table, no other gap has changed, and the processor counts one filler
  less.
\<close>

theorem filled_gap_closed:
  assumes filler: "gap_sync target from rounds = (asked, reports, Ok None)" "GapFinished target blocks \<in> set reports"
    and bp: "keeps_gaps_and_headers env" "\<not> is_shutdown st"
      "bp_process L env (map GapFilling reports) st = Ok (st', stop)"
  shows "\<not> stop \<and> (\<forall>b \<in> set (concat (map report_blocks reports)). known_block b (bp_db st')) \<and>
    (\<exists>b. rh_hash (blk_header b) = target \<and> known_block b (bp_db st')) \<and>
    (\<forall>k. tget (bp_db st' PBlockGaps) k = (if k = list_of target then None else tget (bp_db st PBlockGaps) k)) \<and>
    gaps_filling_in_progress st' = gaps_filling_in_progress st - 1"
proof -
  obtain batches where run: "filler_run target from batches reports (Ok None)"
    using gap_sync_run [OF filler(1)] by blast
  with filler(2) have reports: "reports = map (GapUpdate target) batches @ [GapFinished target blocks]"
    and target: "reaches target blocks"
    using filler_run_return [OF run] by auto
  from process_updates [OF bp(1,2) filler_run_batches [OF run], of L target "[GapFilling (GapFinished target blocks)]"]
    bp(3) obtain st1 where
    st1: "bp_process L env [GapFilling (GapFinished target blocks)] st1 = Ok (st', stop)" "\<not> is_shutdown st1"
    "gaps_filling_in_progress st1 = gaps_filling_in_progress st"
    "\<forall>b. known_block b (bp_db st) \<or> b \<in> set (concat batches) \<longrightarrow> known_block b (bp_db st1)"
    "\<forall>k. tget (bp_db st1 PBlockGaps) k = batch_gap target batches (bp_db st PBlockGaps) k"
    by (auto simp: reports comp_def)
  have "blocks \<noteq> []" using target by auto
  from process_finished [OF bp(1) st1(2) this st1(1)] st1(3-) target
  show ?thesis by (auto simp: reports comp_def batch_gap_def)
qed

theorem filled_gap_closed_witness:
  "\<exists>st'. bp_process example_node quiet_blocks (map GapFilling
      (fst (snd (gap_sync (of_list [9]) (of_list [1]) [(InterruptEmpty, Blocks [bare_block])])))) fresh_processor =
      Ok (st', False) \<and> known_block bare_block (bp_db st')"
proof -
  let ?rs = "[(InterruptEmpty, Blocks [bare_block])]"
  have sync: "gap_sync (of_list [9]) (of_list [1]) ?rs =
      ([of_list [1]], [GapFinished (of_list [9]) [bare_block]], Ok None)"
    by (simp add: gap_answer_def)
  obtain st1 where st1: "process_gap_block example_node quiet_blocks (of_list [9]) (True, bare_block) fresh_processor = Ok st1"
    using bare_block_processed [of fresh_processor example_node "of_list [9]" True] by (auto simp: known_block_def)
  with process_gap_block_flags [OF st1] obtain st' stop where st': "bp_process example_node quiet_blocks
      (map GapFilling [GapFinished (of_list [9]) [bare_block]]) fresh_processor = Ok (st', stop)"
    by (auto simp: bp_step_def mark_last_def)
  have "stop = False" "known_block bare_block (bp_db st')"
    using filled_gap_closed [OF sync _ quiet_blocks_keeps _ st', of "[bare_block]"] by simp_all
  with st' show ?thesis unfolding sync fst_conv snd_conv by blast
qed

text \<open>
  A gap that is not filled to its end is kept where the filler got to: when a filler is
  interrupted or fails, the blocks it reported are marked as processed and the stored gap
  starts at the last of them, so that a new filler resumes there; without any batch the gap
  stays as it was.
\<close>

theorem interrupted_gap_resumes:
  assumes filler: "gap_sync target from rounds = (asked, reports, Ok None)"
      "\<forall>blocks. GapFinished target blocks \<notin> set reports"
    and gap: "tget (bp_db st PBlockGaps) (list_of target) = Some (list_of from)"
    and bp: "keeps_gaps_and_headers env" "\<not> is_shutdown st"
      "bp_process L env (map GapFilling reports) st = Ok (st', stop)"
  shows "(\<forall>b \<in> set (concat (map report_blocks reports)). known_block b (bp_db st')) \<and>
    tget (bp_db st' PBlockGaps) (list_of target) =
      Some (list_of (resume_point from (map report_blocks (butlast reports)))) \<and>
    (\<forall>k. k \<noteq> list_of target \<longrightarrow> tget (bp_db st' PBlockGaps) k = tget (bp_db st PBlockGaps) k)"
proof -
  obtain batches where run: "filler_run target from batches reports (Ok None)"
    using gap_sync_run [OF filler(1)] by blast
  with filler(2) obtain final where reports: "reports = map (GapUpdate target) batches @ [final]"
    and final: "final = GapInterrupted target \<or> final = GapError target"
    using filler_run_return [OF run] by auto
  from process_updates [OF bp(1,2) filler_run_batches [OF run], of L target "[GapFilling final]"] bp(3)
  obtain st1 where
    st1: "bp_process L env [GapFilling final] st1 = Ok (st', stop)"
    "\<forall>b. known_block b (bp_db st) \<or> b \<in> set (concat batches) \<longrightarrow> known_block b (bp_db st1)"
    "\<forall>k. tget (bp_db st1 PBlockGaps) k = batch_gap target batches (bp_db st PBlockGaps) k"
    by (auto simp: reports comp_def)
  from st1(1) final have "bp_db st' = bp_db st1" by (auto simp: bp_step_def split: if_splits)
  with st1(2,3) gap final show ?thesis
    by (auto simp: reports comp_def batch_gap_def resume_point_def)
qed

theorem interrupted_gap_resumes_witness:
  "\<exists>st' stop. bp_process example_node quiet_blocks (map GapFilling
      (fst (snd (gap_sync (of_list [8]) (of_list [1])
        [(InterruptEmpty, Blocks [bare_block]), (InterruptReceived, NoBlocksAnswer)]))))
      (fresh_processor\<lparr>bp_db := add_gap \<lparr>gap_to = of_list [8], gap_from = of_list [1]\<rparr> (\<lambda>_. tempty)\<rparr>) =
      Ok (st', stop) \<and>
    tget (bp_db st' PBlockGaps) (list_of (of_list [8] :: hash)) = Some (list_of (of_list [9] :: hash))"
proof -
  let ?rs = "[(InterruptEmpty, Blocks [bare_block]), (InterruptReceived, NoBlocksAnswer)]"
  let ?st = "fresh_processor\<lparr>bp_db := add_gap \<lparr>gap_to = of_list [8], gap_from = of_list [1]\<rparr> (\<lambda>_. tempty)\<rparr>"
  let ?reports = "[GapUpdate (of_list [8]) [bare_block], GapInterrupted (of_list [8])]"
  have ne: "(of_list [9] :: hash) \<noteq> of_list [8]" by (simp flip: list_of_eq_iff)
  have sync: "gap_sync (of_list [8]) (of_list [1]) ?rs = ([of_list [1]], ?reports, Ok None)"
    using ne by (simp add: gap_answer_def)
  have gap: "tget (bp_db ?st PBlockGaps) (list_of (of_list [8] :: hash)) = Some (list_of (of_list [1] :: hash))"
    by (simp add: add_gap_def)
  obtain st1 where st1: "process_gap_block example_node quiet_blocks (of_list [8]) (False, bare_block) ?st = Ok st1"
    using bare_block_processed [of ?st example_node "of_list [8]" False] by (auto simp: known_block_def add_gap_def)
  with process_gap_block_flags [OF st1] obtain st' stop where
    st': "bp_process example_node quiet_blocks (map GapFilling ?reports) ?st = Ok (st', stop)"
    by (auto simp: bp_step_def)
  have "tget (bp_db st' PBlockGaps) (list_of (of_list [8] :: hash)) = Some (list_of (of_list [9] :: hash))"
    using interrupted_gap_resumes [OF sync _ gap quiet_blocks_keeps _ st'] by (simp add: resume_point_def)
  with st' show ?thesis unfolding sync fst_conv snd_conv by blast
qed

end
