(* ===== verification/Periodic.thy ===== *)
theory Periodic
  imports Node
begin

text \<open>
  The periodic processor, \<^verbatim>\<open>indexer-actors/src/periodic_processor.rs\<close>: on each trigger
  it prunes the headers of old blocks and refreshes the metrics. Compacting the metadata
  partition changes how the store keeps its data, not the data, and is left out;
  \<^verbatim>\<open>approximate_len\<close>, an estimate made by the store, is a parameter, as is the
  hexadecimal rendering of a hash.
\<close>

datatype intake = DoJob | IntakeShutdown

datatype response = JobDone | Stopped

record periodic_env =
  pruning_depth :: u64
  approximate_len :: "part \<Rightarrow> db \<Rightarrow> nat"
  to_hex_64 :: "hash \<Rightarrow> string"
  resp_open :: bool

record periodic_state =
  pp_db :: db
  pp_metrics :: indexer_metrics

section \<open>Pruning\<close>

definition prune_threshold :: "u64 \<Rightarrow> u64 \<Rightarrow> u64" where
  "prune_threshold current_daa depth = (if depth \<le> current_daa then current_daa - depth else 0)"

definition prune_block :: "daa_index_key \<Rightarrow> u64 \<times> db \<Rightarrow> u64 \<times> db" where
  "prune_block k = (\<lambda>(pruned, d).
     (pruned + 1,
      accepting_block_remove (dk_block_hash k)
        (daa_index_delete (dk_daa_score k) (dk_block_hash k) (dk_blue_work k)
          (compact_header_remove (dk_block_hash k) d))))"

text \<open>The iterator runs on a snapshot taken at the start.\<close>

definition prune :: "u64 \<Rightarrow> u64 \<Rightarrow> db \<Rightarrow> (u64 \<times> db) res" where
  "prune depth virtual_daa d =
     rfold (\<lambda>r s. rbind r (\<lambda>k. Ok (prune_block k s))) (iter_lt d (prune_threshold virtual_daa depth)) (0, d)"

section \<open>The job\<close>

definition update_metrics :: "periodic_env \<Rightarrow> u64 \<Rightarrow> db \<Rightarrow> indexer_metrics \<Rightarrow> indexer_metrics res" where
  "update_metrics env pruned d m =
     (let len = (\<lambda>p. word_of_nat (approximate_len env p d));
          m1 = set_unknown_sender_entries (word_of_nat (pending_len d))
            (set_contextual_messages (len PContextualMessageBySender)
            (set_payments_by_sender (len PPaymentBySender)
            (set_payments_by_receiver (len PTxIdToPayment)
            (set_handshakes_by_sender (len PHandshakeBySender)
            (set_handshakes_by_receiver (len PTxIdToHandshake)
            (increment_pruned_blocks pruned m))))))
      in rbind (get_latest_block_cursor d) (\<lambda>lb.
         rbind (get_latest_accepting_block_cursor d) (\<lambda>la.
           Ok (set_latest_accepting_block (to_hex_64 env)
                 (cur_block_hash (case la of None \<Rightarrow> cursor_default | Some c \<Rightarrow> c))
               (set_latest_block (to_hex_64 env) (case lb of None \<Rightarrow> of_list [] | Some h \<Rightarrow> h) m1)))))"

definition do_job :: "periodic_env \<Rightarrow> u64 \<Rightarrow> periodic_state \<Rightarrow> periodic_state res" where
  "do_job env virtual_daa st =
     rbind (prune (pruning_depth env) virtual_daa (pp_db st)) (\<lambda>(pruned, d).
     rbind (update_metrics env pruned d (pp_metrics st)) (\<lambda>m.
       Ok (st\<lparr>pp_db := d, pp_metrics := m\<rparr>)))"

text \<open>
  One turn of the loop: the responses sent, and the new state with whether the loop goes on.
  Whenever the loop ends, dropping the processor sends \<^verbatim>\<open>Stopped\<close>. The shared
  virtual DAA score is the one read when the job runs.
\<close>

definition send_response :: "periodic_env \<Rightarrow> response \<Rightarrow> response list" where
  "send_response env r = (if resp_open env then [r] else [])"

definition periodic_step ::
    "periodic_env \<Rightarrow> u64 \<Rightarrow> intake \<Rightarrow> periodic_state \<Rightarrow> response list \<times> (bool \<times> periodic_state) res" where
  "periodic_step env virtual_daa intake st =
     (case intake of
        IntakeShutdown \<Rightarrow> (send_response env Stopped, Ok (False, st))
      | DoJob \<Rightarrow> (case do_job env virtual_daa st of
            Inl e \<Rightarrow> (send_response env Stopped, Inl e)
          | Inr st' \<Rightarrow>
              if resp_open env then ([JobDone], Ok (True, st'))
              else ([], Err ''sending into a closed channel'')))"

section \<open>Lemmas\<close>

lemma prune_keys:
  assumes "wf_daa_index d"
  shows "prune depth virtual_daa d =
    Ok (fold prune_block (daa_keys_lt d (prune_threshold virtual_daa depth)) (0, d))"
proof -
  have "rfold (\<lambda>r s. rbind r (\<lambda>k. Ok (prune_block k s))) (map Ok ks) s = Ok (fold prune_block ks s)" for ks s
    by (induction ks arbitrary: s) simp_all
  then show ?thesis by (simp add: prune_def iter_lt_keys [OF assms])
qed

lemma prune_blocks_effect:
  "fst (fold prune_block ks (n, d)) = n + word_of_nat (length ks) \<and>
   tget (snd (fold prune_block ks (n, d)) PDaaIndex) b =
     (if b \<in> daa_key_bytes ` set ks then None else tget (d PDaaIndex) b) \<and>
   (\<forall>p \<in> {PBlockCompactHeader, PAcceptingBlockToTxId}. tget (snd (fold prune_block ks (n, d)) p) b =
     (if b \<in> (\<lambda>k. list_of (dk_block_hash k)) ` set ks then None else tget (d p) b)) \<and>
   (\<forall>p. p \<notin> {PDaaIndex, PBlockCompactHeader, PAcceptingBlockToTxId} \<longrightarrow>
     snd (fold prune_block ks (n, d)) p = d p)"
proof (induction ks arbitrary: n d)
  case (Cons k ks)
  define d1 where "d1 = snd (prune_block k (n, d))"
  have step: "prune_block k (n, d) = (n + 1, d1)" by (simp add: prune_block_def d1_def)
  have "make_key (dk_daa_score k) (dk_block_hash k) (dk_blue_work k) = k" by (simp add: make_key_def)
  then have "tget (d1 PDaaIndex) b = (if b = daa_key_bytes k then None else tget (d PDaaIndex) b)"
    "\<forall>p \<in> {PBlockCompactHeader, PAcceptingBlockToTxId}.
      tget (d1 p) b = (if b = list_of (dk_block_hash k) then None else tget (d p) b)"
    "\<forall>p. p \<notin> {PDaaIndex, PBlockCompactHeader, PAcceptingBlockToTxId} \<longrightarrow> d1 p = d p"
    by (simp_all add: d1_def prune_block_def accepting_block_remove_def daa_index_delete_def compact_header_remove_def)
  then show ?case
    using Cons.IH [of "n + 1" d1] by (auto simp: step)
qed simp

text \<open>The indexed blocks that are more than the pruning depth below the virtual score.\<close>

definition old_blocks :: "u64 \<Rightarrow> u64 \<Rightarrow> db \<Rightarrow> daa_index_key set" where
  "old_blocks depth virtual_daa d =
     {k. tget (d PDaaIndex) (daa_key_bytes k) \<noteq> None \<and>
         unat (dk_daa_score k) + unat depth < unat virtual_daa}"

section \<open>Properties\<close>

text \<open>
  C28. Pruning removes the old blocks and nothing else: over a well-formed index it succeeds,
  and what it removes is the index entry, the compact header and the list of accepted
  transactions of every indexed block whose DAA score is more than the pruning depth below the
  virtual one; nothing is removed while the virtual score is at most the pruning depth. It
  reports how many blocks it removed.
\<close>

theorem prune_removes_exactly_old_blocks:
  assumes wf: "wf_daa_index d" and old: "old_blocks depth virtual_daa d = old"
  shows "\<exists>d'. prune depth virtual_daa d = Ok (word_of_nat (card old), d') \<and> wf_daa_index d' \<and>
    (\<forall>k. tget (d' PDaaIndex) (daa_key_bytes k) = (if k \<in> old then None else tget (d PDaaIndex) (daa_key_bytes k))) \<and>
    (\<forall>h. get_compact_header h d' = (if h \<in> dk_block_hash ` old then Ok None else get_compact_header h d)) \<and>
    (\<forall>h. tget (d' PAcceptingBlockToTxId) (list_of h) =
      (if h \<in> dk_block_hash ` old then None else tget (d PAcceptingBlockToTxId) (list_of h))) \<and>
    (\<forall>p. p \<notin> {PDaaIndex, PBlockCompactHeader, PAcceptingBlockToTxId} \<longrightarrow> d' p = d p)"
proof -
  let ?ks = "daa_keys_lt d (prune_threshold virtual_daa depth)"
  let ?d = "snd (fold prune_block ?ks (0, d))"
  have ks: "set ?ks = old"
    unfolding set_daa_keys_lt [OF wf] old [symmetric] old_blocks_def
    by (auto simp: prune_threshold_def word_less_nat_alt word_le_nat_alt unat_sub)
  have "card old = length ?ks"
    unfolding ks [symmetric] by (rule distinct_card [OF distinct_daa_keys_lt [OF wf]])
  then have run: "prune depth virtual_daa d = Ok (word_of_nat (card old), ?d)"
    using prune_blocks_effect [of ?ks 0 d] by (simp add: prune_keys [OF wf] prod_eq_iff)
  note eff = prune_blocks_effect [of ?ks 0 d, unfolded ks]
  have "wf_daa_index ?d"
    using eff wf unfolding wf_daa_index_get by (metis option.distinct(1))
  moreover have "list_of h \<in> (\<lambda>k. list_of (dk_block_hash k)) ` old \<longleftrightarrow> h \<in> dk_block_hash ` old" for h :: hash
    by auto
  ultimately show ?thesis
    using run eff by (intro exI [of _ ?d] conjI)
      (auto simp: daa.enc_inject get_compact_header_def read_compact_header_def)
qed

theorem prune_removes_exactly_old_blocks_witness:
  "\<exists>d'. prune 4 8 (daa_index_insert 9 (of_list [1]) (of_list [])
      (daa_index_insert 3 (of_list [2]) (of_list []) (\<lambda>_. tempty))) = Ok (1, d') \<and>
    tget (d' PDaaIndex) (daa_key_bytes (make_key 3 (of_list [2]) (of_list []))) = None \<and>
    tget (d' PDaaIndex) (daa_key_bytes (make_key 9 (of_list [1]) (of_list []))) = Some []"
proof -
  let ?d = "daa_index_insert 9 (of_list [1]) (of_list [])
      (daa_index_insert 3 (of_list [2]) (of_list []) (\<lambda>_. tempty))"
  have wf: "wf_daa_index ?d"
    by (intro wf_daa_index_insert) (simp add: wf_daa_index_def)
  have old: "old_blocks 4 8 ?d = {make_key 3 (of_list [2]) (of_list [])}"
    by (auto simp: old_blocks_def daa_index_insert_def daa.enc_inject make_key_def split: if_splits)
  show ?thesis
    using prune_removes_exactly_old_blocks [OF wf old]
    by (auto simp: daa_index_insert_def daa.enc_inject make_key_def)
qed

end
