(* ===== verification/Ticker.thy ===== *)
theory Ticker
  imports Periodic
begin

text \<open>
  The ticker, \<^verbatim>\<open>indexer-actors/src/ticker.rs\<close>: it triggers the periodic processor at
  an interval, never while a job is under way, and on shutdown waits for the processor to stop.
  The second half composes the two through their channels as a step relation.
\<close>

section \<open>The loop\<close>

text \<open>
  What wakes the ticker: the shutdown signal, the interval, or the response channel, which
  gives \<open>None\<close> when it is closed and empty.
\<close>

datatype ticker_event = TickerShutdown | Tick | Resp "response option"

record ticker_state =
  need_to_send :: bool
  tk_stopping :: bool

definition ticker_initial :: ticker_state where
  "ticker_initial = \<lparr>need_to_send = True, tk_stopping = False\<rparr>"

text \<open>
  The triggers it sends (a failed send is only logged), and the new state with whether the
  loop goes on. After the shutdown signal it only waits for responses.
\<close>

fun ticker_step :: "ticker_event \<Rightarrow> ticker_state \<Rightarrow> intake list \<times> (bool \<times> ticker_state) res" where
  "ticker_step TickerShutdown t =
     (if tk_stopping t then ([], Ok (True, t)) else ([IntakeShutdown], Ok (True, t\<lparr>tk_stopping := True\<rparr>)))"
| "ticker_step Tick t =
     (if \<not> tk_stopping t \<and> need_to_send t then ([DoJob], Ok (True, t\<lparr>need_to_send := False\<rparr>))
      else ([], Ok (True, t)))"
| "ticker_step (Resp None) t = ([], Err ''receiving on a closed channel'')"
| "ticker_step (Resp (Some JobDone)) t =
     ([], Ok (True, if tk_stopping t then t else t\<lparr>need_to_send := True\<rparr>))"
| "ticker_step (Resp (Some Stopped)) t =
     ([], if tk_stopping t then Ok (False, t) else Err ''Periodic processor stopped unexpectedly'')"

section \<open>Ticker and processor\<close>

text \<open>
  The two actors, the two channels between them, and how each ended, if it did.
\<close>

record maintenance =
  mt_ticker :: ticker_state
  mt_ticker_end :: "unit res option"
  mt_jobs :: "intake list"
  mt_processor :: periodic_state
  mt_processor_end :: "unit res option"
  mt_resps :: "response list"

definition maintenance_initial :: "periodic_state \<Rightarrow> maintenance" where
  "maintenance_initial p =
     \<lparr>mt_ticker = ticker_initial, mt_ticker_end = None, mt_jobs = [], mt_processor = p,
      mt_processor_end = None, mt_resps = []\<rparr>"

definition ended :: "(bool \<times> 'a) res \<Rightarrow> unit res option" where
  "ended r = (case r of Inl e \<Rightarrow> Some (Inl e) | Inr (c, _) \<Rightarrow> if c then None else Some (Ok ()))"

definition state_after :: "(bool \<times> 'a) res \<Rightarrow> 'a \<Rightarrow> 'a" where
  "state_after r old = (case r of Inl _ \<Rightarrow> old | Inr (_, new) \<Rightarrow> new)"

definition ticker_turn :: "ticker_event \<Rightarrow> maintenance \<Rightarrow> maintenance" where
  "ticker_turn ev s =
     (let (jobs, r) = ticker_step ev (mt_ticker s)
      in s\<lparr>mt_ticker := state_after r (mt_ticker s), mt_ticker_end := ended r,
           mt_jobs := mt_jobs s @ (if mt_processor_end s = None then jobs else [])\<rparr>)"

definition processor_turn :: "periodic_env \<Rightarrow> u64 \<Rightarrow> intake \<Rightarrow> maintenance \<Rightarrow> maintenance" where
  "processor_turn env virtual_daa job s =
     (let (resps, r) = periodic_step (env\<lparr>resp_open := mt_ticker_end s = None\<rparr>) virtual_daa job (mt_processor s)
      in s\<lparr>mt_processor := state_after r (mt_processor s), mt_processor_end := ended r,
           mt_resps := mt_resps s @ resps\<rparr>)"

inductive maintenance_step :: "periodic_env \<Rightarrow> maintenance \<Rightarrow> maintenance \<Rightarrow> bool"
  for env where
  wake: "mt_ticker_end s = None \<Longrightarrow> ev = TickerShutdown \<or> ev = Tick \<Longrightarrow>
    maintenance_step env s (ticker_turn ev s)"
| receive: "mt_ticker_end s = None \<Longrightarrow> mt_resps s = r # rs \<Longrightarrow>
    maintenance_step env s (ticker_turn (Resp (Some r)) (s\<lparr>mt_resps := rs\<rparr>))"
| closed: "mt_ticker_end s = None \<Longrightarrow> mt_resps s = [] \<Longrightarrow> mt_processor_end s \<noteq> None \<Longrightarrow>
    maintenance_step env s (ticker_turn (Resp None) s)"
| work: "mt_processor_end s = None \<Longrightarrow> mt_jobs s = job # jobs \<Longrightarrow>
    maintenance_step env s (processor_turn env virtual_daa job (s\<lparr>mt_jobs := jobs\<rparr>))"

definition maintenance_start :: "maintenance \<Rightarrow> bool" where
  "maintenance_start s \<longleftrightarrow> s = maintenance_initial (mt_processor s)"

section \<open>Lemmas\<close>

definition jobs_in_flight :: "maintenance \<Rightarrow> nat" where
  "jobs_in_flight s = count_list (mt_jobs s) DoJob + count_list (mt_resps s) JobDone"

text \<open>
  The invariant: at most one job is under way, none while the ticker may send one; the
  processor is told to stop exactly by a stopping ticker; and while the ticker runs, a processor
  that has ended has its \<^verbatim>\<open>Stopped\<close> as the last response.
\<close>

definition maintenance_inv :: "maintenance \<Rightarrow> bool" where
  "maintenance_inv s \<longleftrightarrow>
     jobs_in_flight s \<le> (if need_to_send (mt_ticker s) then 0 else 1) \<and>
     (IntakeShutdown \<in> set (mt_jobs s) \<longrightarrow> tk_stopping (mt_ticker s)) \<and>
     (mt_processor_end s = Some (Ok ()) \<longrightarrow> tk_stopping (mt_ticker s)) \<and>
     (mt_processor_end s = None \<longrightarrow> Stopped \<notin> set (mt_resps s)) \<and>
     (mt_ticker_end s = None \<longrightarrow> mt_processor_end s \<noteq> None \<longrightarrow>
        (\<exists>rs. mt_resps s = rs @ [Stopped] \<and> Stopped \<notin> set rs)) \<and>
     (mt_processor_end s = None \<longrightarrow> tk_stopping (mt_ticker s) \<longrightarrow> IntakeShutdown \<in> set (mt_jobs s)) \<and>
     (\<forall>e. mt_ticker_end s = Some (Inl e) \<longrightarrow> (\<exists>f. mt_processor_end s = Some (Inl f)))"

lemma maintenance_inv_initial: "maintenance_inv (maintenance_initial p)"
  by (simp add: maintenance_inv_def maintenance_initial_def ticker_initial_def jobs_in_flight_def)

lemma maintenance_inv_wake:
  assumes "maintenance_inv s" and "mt_ticker_end s = None" and "ev = TickerShutdown \<or> ev = Tick"
  shows "maintenance_inv (ticker_turn ev s)"
  using assms(3)
proof
  assume "ev = TickerShutdown"
  with assms(1,2) show ?thesis
    by (cases "tk_stopping (mt_ticker s)"; cases "mt_processor_end s")
      (simp_all add: maintenance_inv_def ticker_turn_def ended_def state_after_def jobs_in_flight_def)
next
  assume "ev = Tick"
  with assms(1,2) show ?thesis
    by (cases "tk_stopping (mt_ticker s)"; cases "need_to_send (mt_ticker s)"; cases "mt_processor_end s")
      (simp_all add: maintenance_inv_def ticker_turn_def ended_def state_after_def jobs_in_flight_def)
qed

lemma maintenance_inv_receive:
  assumes "maintenance_inv s" and "mt_ticker_end s = None" and "mt_resps s = r # rs"
  shows "maintenance_inv (ticker_turn (Resp (Some r)) (s\<lparr>mt_resps := rs\<rparr>))"
proof (cases r)
  case JobDone
  with assms show ?thesis
    by (auto simp: maintenance_inv_def ticker_turn_def ended_def state_after_def jobs_in_flight_def
        Cons_eq_append_conv split: if_splits)
next
  case Stopped
  with assms obtain pr where "mt_processor_end s = Some pr" unfolding maintenance_inv_def by auto
  with assms Stopped show ?thesis
    by (cases "tk_stopping (mt_ticker s)"; cases pr)
      (auto simp: maintenance_inv_def ticker_turn_def ended_def state_after_def jobs_in_flight_def
        split: if_splits sum.splits)
qed

lemma maintenance_inv_work:
  assumes "maintenance_inv s" and "mt_processor_end s = None" and "mt_jobs s = job # jobs"
  shows "maintenance_inv (processor_turn env vdaa job (s\<lparr>mt_jobs := jobs\<rparr>))"
  using assms
  by (cases job)
    (auto simp: maintenance_inv_def processor_turn_def periodic_step_def send_response_def ended_def
      state_after_def jobs_in_flight_def split: if_splits sum.splits)

interpretation mt: invariant_system maintenance_start "maintenance_step env" maintenance_inv for env
proof
  fix s assume "maintenance_start s"
  then show "maintenance_inv s" unfolding maintenance_start_def by (metis maintenance_inv_initial)
next
  fix s s' assume inv: "maintenance_inv s" and "maintenance_step env s s'"
  from this(2) show "maintenance_inv s'"
  proof cases
    case closed
    with inv show ?thesis by (auto simp: maintenance_inv_def)
  qed (use inv maintenance_inv_wake maintenance_inv_receive maintenance_inv_work in simp_all)
qed

text \<open>A stopping ticker: the processor works off its triggers, then the ticker its responses.\<close>

lemma processor_stops:
  assumes "maintenance_inv s" and "tk_stopping (mt_ticker s)" and "mt_ticker_end s = None"
  shows "\<exists>s'. (maintenance_step env)\<^sup>*\<^sup>* s s' \<and> maintenance_inv s' \<and> tk_stopping (mt_ticker s') \<and>
    mt_ticker_end s' = None \<and> mt_processor_end s' \<noteq> None"
  using assms
proof (induction "length (mt_jobs s)" arbitrary: s rule: less_induct)
  case less
  show ?case
  proof (cases "mt_processor_end s")
    case None
    with less.prems obtain job jobs where jobs: "mt_jobs s = job # jobs"
      by (cases "mt_jobs s") (auto simp: maintenance_inv_def)
    let ?s = "processor_turn env 0 job (s\<lparr>mt_jobs := jobs\<rparr>)"
    have step: "maintenance_step env s ?s" by (rule work [OF None jobs])
    have "maintenance_inv ?s" by (rule maintenance_inv_work [OF less.prems(1) None jobs])
    moreover have "mt_jobs ?s = jobs" "mt_ticker ?s = mt_ticker s" "mt_ticker_end ?s = None"
      using less.prems(3) by (simp_all add: processor_turn_def split: prod.split)
    ultimately obtain s' where "(maintenance_step env)\<^sup>*\<^sup>* ?s s'" "maintenance_inv s'" "tk_stopping (mt_ticker s')"
      "mt_ticker_end s' = None" "mt_processor_end s' \<noteq> None"
      using less.hyps [of ?s] less.prems(2) jobs by auto
    with step show ?thesis by (meson converse_rtranclp_into_rtranclp)
  next
    case (Some r)
    with less.prems show ?thesis by (intro exI [of _ s]) simp
  qed
qed

lemma ticker_stops:
  assumes "maintenance_inv s" and "tk_stopping (mt_ticker s)" and "mt_ticker_end s = None"
    and "mt_processor_end s \<noteq> None"
  shows "\<exists>s'. (maintenance_step env)\<^sup>*\<^sup>* s s' \<and> mt_ticker_end s' = Some (Ok ())"
  using assms
proof (induction "length (mt_resps s)" arbitrary: s rule: less_induct)
  case less
  then obtain r rs where resps: "mt_resps s = r # rs"
    by (cases "mt_resps s") (auto simp: maintenance_inv_def)
  let ?s = "ticker_turn (Resp (Some r)) (s\<lparr>mt_resps := rs\<rparr>)"
  have step: "maintenance_step env s ?s" by (rule receive [OF less.prems(3) resps])
  show ?case
  proof (cases r)
    case Stopped
    then have "mt_ticker_end ?s = Some (Ok ())"
      using less.prems(2) by (simp add: ticker_turn_def ended_def)
    with step show ?thesis by blast
  next
    case JobDone
    then have "mt_resps ?s = rs" "tk_stopping (mt_ticker ?s)" "mt_ticker_end ?s = None" "mt_processor_end ?s \<noteq> None"
      using less.prems(2,4) by (simp_all add: ticker_turn_def ended_def state_after_def)
    then obtain s' where "(maintenance_step env)\<^sup>*\<^sup>* ?s s'" "mt_ticker_end s' = Some (Ok ())"
      using less.hyps [of ?s] maintenance_inv_receive [OF less.prems(1,3) resps] resps by auto
    with step show ?thesis by (meson converse_rtranclp_into_rtranclp)
  qed
qed

text \<open>An example: the actors after the first tick.\<close>

definition example_periodic :: periodic_env where
  "example_periodic = \<lparr>pruning_depth = 10, approximate_len = (\<lambda>p d. length (items (d p))),
     to_hex_64 = (\<lambda>_. []), resp_open = True\<rparr>"

definition idle_maintenance :: maintenance where
  "idle_maintenance = maintenance_initial \<lparr>pp_db = \<lambda>_. tempty, pp_metrics = metrics_new []\<rparr>"

lemma example_maintenance:
  "reachable maintenance_start (maintenance_step example_periodic) (ticker_turn Tick idle_maintenance)"
  "mt_ticker_end (ticker_turn Tick idle_maintenance) = None"
proof -
  have "maintenance_start idle_maintenance" and idle: "mt_ticker_end idle_maintenance = None"
    by (simp_all add: maintenance_start_def idle_maintenance_def maintenance_initial_def)
  then have "reachable maintenance_start (maintenance_step example_periodic) idle_maintenance"
    by (blast intro: reachable_start)
  then show "reachable maintenance_start (maintenance_step example_periodic) (ticker_turn Tick idle_maintenance)"
    by (rule reachable_step) (rule wake [OF idle], simp)
  show "mt_ticker_end (ticker_turn Tick idle_maintenance) = None"
    by (simp add: ticker_turn_def idle_maintenance_def maintenance_initial_def ticker_initial_def ended_def)
qed

section \<open>Properties\<close>

text \<open>
  One job at a time: however ticker and periodic processor interleave, at most one job is
  triggered or finished and not yet acknowledged, and the ticker fails only if a job failed.
\<close>

theorem one_job_at_a_time:
  assumes "reachable maintenance_start (maintenance_step env) s"
  shows "jobs_in_flight s \<le> 1 \<and>
    (\<forall>e. mt_ticker_end s = Some (Inl e) \<longrightarrow> (\<exists>f. mt_processor_end s = Some (Inl f)))"
  using mt.invariant [OF assms] unfolding maintenance_inv_def by (auto split: if_splits)

theorem one_job_at_a_time_witness:
  "jobs_in_flight (ticker_turn Tick (ticker_turn Tick idle_maintenance)) \<le> 1"
proof -
  have "reachable maintenance_start (maintenance_step example_periodic) (ticker_turn Tick (ticker_turn Tick idle_maintenance))"
    using example_maintenance(1) by (rule reachable_step) (rule wake, simp_all add: example_maintenance(2))
  then show ?thesis using one_job_at_a_time by blast
qed

text \<open>
  Shutdown can always complete: from every state in which the ticker has received the
  shutdown signal and has not ended, the two actors have a run after which the ticker has
  returned without an error, even if a job fails on the way.
\<close>

theorem maintenance_shutdown_completes:
  assumes "reachable maintenance_start (maintenance_step env) s" and "tk_stopping (mt_ticker s)" and "mt_ticker_end s = None"
  shows "\<exists>s'. (maintenance_step env)\<^sup>*\<^sup>* s s' \<and> mt_ticker_end s' = Some (Ok ())"
proof -
  obtain s1 where "(maintenance_step env)\<^sup>*\<^sup>* s s1" "maintenance_inv s1" "tk_stopping (mt_ticker s1)"
    "mt_ticker_end s1 = None" "mt_processor_end s1 \<noteq> None"
    using processor_stops [OF mt.invariant [OF assms(1)] assms(2,3)] by blast
  then show ?thesis using ticker_stops by (meson rtranclp_trans)
qed

theorem maintenance_shutdown_completes_witness:
  "\<exists>s'. (maintenance_step example_periodic)\<^sup>*\<^sup>* (ticker_turn TickerShutdown (ticker_turn Tick idle_maintenance)) s' \<and>
    mt_ticker_end s' = Some (Ok ())"
proof (rule maintenance_shutdown_completes)
  show "reachable maintenance_start (maintenance_step example_periodic) (ticker_turn TickerShutdown (ticker_turn Tick idle_maintenance))"
    using example_maintenance(1) by (rule reachable_step) (rule wake, simp_all add: example_maintenance(2))
qed (simp_all add: ticker_turn_def idle_maintenance_def maintenance_initial_def ticker_initial_def ended_def
    state_after_def)

end
