(* ===== verification/Data_Source.thy ===== *)
theory Data_Source
  imports Node
begin

text \<open>
  The data source, \<^verbatim>\<open>indexer-actors/src/data_source.rs\<close>: the one actor that talks to
  the node. It forwards the node's notifications to the two processors, answers the requests of
  the other actors or keeps them while the node is not connected, and ends when both processors
  have closed. The RPC client is a parameter: each call has a result. Requests are sent again
  through the command channel, whose only receiver is the data source itself; when that channel
  is full, the send never completes, which is the value \<open>None\<close>.
\<close>

section \<open>State\<close>

datatype reply =
    BlocksReply "rpc_block list"
  | ChainReply virtual_chain_change
  | ErrorReply request_error

datatype 'addr ds_effect =
    ToBlocks block_notification
  | ToVcc "'addr realtime_vcc_notification"
  | Reply nat reply
  | RpcDisconnect
  | RpcConnect
  | Unregister nat

record 'addr data_source =
  connected :: bool
  block_sender_closed :: bool
  vcc_sender_closed :: bool
  ds_shutting_down :: bool
  listener_id :: "nat option"
  virtual_daa :: u64
  command_queue :: "command list"
  requests_queue :: "request list"
  ds_effects :: "'addr ds_effect list"

definition data_source_new :: "u64 \<Rightarrow> 'addr data_source" where
  "data_source_new daa =
     \<lparr>connected = False, block_sender_closed = False, vcc_sender_closed = False,
      ds_shutting_down = False, listener_id = None, virtual_daa = daa, command_queue = [],
      requests_queue = [], ds_effects = []\<rparr>"

datatype 'a rpc_answer = RpcOk 'a | RpcDisconnected | RpcFailed

text \<open>The results of the calls to the node, and which receivers still exist.\<close>

record 'addr ds_env =
  new_listener :: nat
  start_notify :: "nat \<Rightarrow> unit res"
  block_dag_info :: "(hash \<times> hash) res" \<comment> \<open>sink, pruning point\<close>
  block_blue_work :: "hash \<Rightarrow> u192 res"
  get_blocks :: "hash \<Rightarrow> rpc_block list rpc_answer"
  get_virtual_chain :: "hash \<Rightarrow> virtual_chain_change rpc_answer"
  get_return_address :: "hash \<Rightarrow> u64 \<Rightarrow> 'addr rpc_answer"
  rpc_disconnect :: "unit res"
  blocks_open :: bool
  vcc_open :: bool
  command_capacity :: nat

definition ds_emit :: "'addr ds_effect list \<Rightarrow> 'addr data_source \<Rightarrow> 'addr data_source" where
  "ds_emit es st = st\<lparr>ds_effects := ds_effects st @ es\<rparr>"

definition to_blocks :: "'addr ds_env \<Rightarrow> block_notification \<Rightarrow> 'addr data_source \<Rightarrow> unit res \<times> 'addr data_source" where
  "to_blocks env n st =
     (if blocks_open env then (Ok (), ds_emit [ToBlocks n] st) else (Err ''block handler send failed'', st))"

definition to_vcc ::
    "'addr ds_env \<Rightarrow> 'addr realtime_vcc_notification \<Rightarrow> 'addr data_source \<Rightarrow> unit res \<times> 'addr data_source" where
  "to_vcc env n st =
     (if vcc_open env then (Ok (), ds_emit [ToVcc n] st) else (Err ''vcc handler send failed'', st))"

text \<open>\<^verbatim>\<open>join\<close>: both sends are made; the first failure is the result.\<close>

definition to_both ::
    "'addr ds_env \<Rightarrow> block_notification \<Rightarrow> 'addr realtime_vcc_notification \<Rightarrow> 'addr data_source \<Rightarrow>
     unit res \<times> 'addr data_source" where
  "to_both env b v st =
     (let (r1, st1) = to_blocks env b st; (r2, st2) = to_vcc env v st1
      in (case r1 of Inl e \<Rightarrow> Inl e | Inr _ \<Rightarrow> r2, st2))"

section \<open>Connection\<close>

definition register_notification_listeners :: "'addr ds_env \<Rightarrow> 'addr data_source \<Rightarrow> unit res \<times> 'addr data_source" where
  "register_notification_listeners env st =
     (rfold (\<lambda>scope _. start_notify env scope) [0, 1, 2] (),
      st\<lparr>listener_id := Some (new_listener env)\<rparr>)"

text \<open>Sending the kept requests again, one by one, with nobody receiving meanwhile.\<close>

fun resend :: "nat \<Rightarrow> request list \<Rightarrow> 'addr data_source \<Rightarrow> 'addr data_source option" where
  "resend capacity [] st = Some st"
| "resend capacity (req # reqs) st =
     (if length (command_queue st) < capacity
      then resend capacity reqs (st\<lparr>command_queue := command_queue st @ [Request req]\<rparr>)
      else None)"

definition handle_connect_impl :: "'addr ds_env \<Rightarrow> 'addr data_source \<Rightarrow> (unit res \<times> 'addr data_source) option" where
  "handle_connect_impl env st =
     (case register_notification_listeners env st of
        (Inl e, st1) \<Rightarrow> Some (Inl e, st1)
      | (Inr _, st1) \<Rightarrow>
          (case rbind (block_dag_info env) (\<lambda>(sink, pp).
                  rbind (block_blue_work env sink) (\<lambda>bw. Ok (sink, pp, bw))) of
             Inl e \<Rightarrow> Some (Inl e, st1)
           | Inr (sink, pp, bw) \<Rightarrow>
               (case to_both env (BlockConnected sink pp) (VccConnected sink bw pp) (st1\<lparr>connected := True\<rparr>) of
                  (Inl e, st2) \<Rightarrow> Some (Inl e, st2)
                | (Inr _, st2) \<Rightarrow>
                    map_option (Pair (Ok ()))
                      (resend (command_capacity env) (requests_queue st2) (st2\<lparr>requests_queue := []\<rparr>)))))"

text \<open>
  An error is logged; after it the client is disconnected and told to connect again.
\<close>

definition handle_connect_ds :: "'addr ds_env \<Rightarrow> 'addr data_source \<Rightarrow> 'addr data_source option" where
  "handle_connect_ds env st =
     (if ds_shutting_down st then Some (ds_emit [RpcDisconnect] st)
      else case handle_connect_impl env st of
          None \<Rightarrow> None
        | Some (Inr _, st1) \<Rightarrow> Some st1
        | Some (Inl _, st1) \<Rightarrow>
            let st2 = ds_emit [RpcDisconnect] (st1\<lparr>connected := False\<rparr>)
            in Some (case rpc_disconnect env of Inl _ \<Rightarrow> st2 | Inr _ \<Rightarrow> ds_emit [RpcConnect] st2))"

definition unregister_notification_listener :: "'addr data_source \<Rightarrow> 'addr data_source" where
  "unregister_notification_listener st =
     (case listener_id st of None \<Rightarrow> st | Some i \<Rightarrow> ds_emit [Unregister i] (st\<lparr>listener_id := None\<rparr>))"

definition handle_disconnect :: "'addr ds_env \<Rightarrow> 'addr data_source \<Rightarrow> 'addr data_source" where
  "handle_disconnect env st =
     (if ds_shutting_down st then ds_emit [RpcDisconnect] st
      else case to_both env BlockDisconnected VccDisconnected (st\<lparr>connected := False\<rparr>) of
          (Inl _, st1) \<Rightarrow> st1
        | (Inr _, st1) \<Rightarrow> unregister_notification_listener st1)"

section \<open>Notifications and shutdown\<close>

datatype node_notification =
    NodeBlockAdded rpc_block
  | NodeVirtualChainChanged virtual_chain_change
  | NodeVirtualDaaScoreChanged u64
  | NodeOther

definition handle_notification :: "'addr ds_env \<Rightarrow> node_notification \<Rightarrow> 'addr data_source \<Rightarrow> 'addr data_source" where
  "handle_notification env n st =
     (case n of
        NodeBlockAdded block \<Rightarrow>
          if block_sender_closed st then st else snd (to_blocks env (BlockAdded block) st)
      | NodeVirtualChainChanged vcc \<Rightarrow>
          if vcc_sender_closed st then st else snd (to_vcc env (VccNotification vcc) st)
      | NodeVirtualDaaScoreChanged daa \<Rightarrow> st\<lparr>virtual_daa := daa\<rparr>
      | NodeOther \<Rightarrow> st)"

definition handle_shutdown_ds :: "'addr ds_env \<Rightarrow> 'addr data_source \<Rightarrow> 'addr data_source res" where
  "handle_shutdown_ds env st =
     (if ds_shutting_down st then Ok st
      else case to_blocks env BlockShutdown (ds_emit [RpcDisconnect] (st\<lparr>ds_shutting_down := True\<rparr>)) of
          (Inl e, _) \<Rightarrow> Inl e
        | (Inr _, st1) \<Rightarrow> (case to_vcc env VccShutdown st1 of (Inl e, _) \<Rightarrow> Inl e | (Inr _, st2) \<Rightarrow> Ok st2))"

section \<open>Commands\<close>

fun handle_request :: "'addr ds_env \<Rightarrow> request \<Rightarrow> 'addr data_source \<Rightarrow> 'addr data_source" where
  "handle_request env (RequestBlocks from ch) st =
     (if ds_shutting_down st then ds_emit [Reply ch (ErrorReply ShuttingDown)] st
      else if \<not> connected st then st\<lparr>requests_queue := requests_queue st @ [RequestBlocks from ch]\<rparr>
      else case get_blocks env from of
          RpcOk blocks \<Rightarrow> ds_emit [Reply ch (BlocksReply blocks)] st
        | RpcDisconnected \<Rightarrow> st\<lparr>requests_queue := RequestBlocks from ch # requests_queue st\<rparr>
        | RpcFailed \<Rightarrow> ds_emit [Reply ch (ErrorReply RpcError)] st)"
| "handle_request env (RequestVirtualChain from ch) st =
     (if ds_shutting_down st then ds_emit [Reply ch (ErrorReply ShuttingDown)] st
      else if \<not> connected st then st\<lparr>requests_queue := requests_queue st @ [RequestVirtualChain from ch]\<rparr>
      else case get_virtual_chain env from of
          RpcOk vcc \<Rightarrow> ds_emit [Reply ch (ChainReply vcc)] st
        | RpcDisconnected \<Rightarrow> st\<lparr>requests_queue := RequestVirtualChain from ch # requests_queue st\<rparr>
        | RpcFailed \<Rightarrow> ds_emit [Reply ch (ErrorReply RpcError)] st)"
| "handle_request env (RequestSender daa tx_id) st =
     (if ds_shutting_down st then st
      else if \<not> connected st then st\<lparr>requests_queue := requests_queue st @ [RequestSender daa tx_id]\<rparr>
      else case get_return_address env tx_id daa of
          RpcOk address \<Rightarrow> snd (to_vcc env (SenderResolution address tx_id daa) st)
        | RpcDisconnected \<Rightarrow> st\<lparr>requests_queue := RequestSender daa tx_id # requests_queue st\<rparr>
        | RpcFailed \<Rightarrow> st)"

text \<open>The new state and whether the task goes on.\<close>

fun handle_command :: "'addr ds_env \<Rightarrow> command \<Rightarrow> 'addr data_source \<Rightarrow> bool \<times> 'addr data_source" where
  "handle_command env MarkBlockSenderClosed st =
     (let st1 = st\<lparr>block_sender_closed := True\<rparr>
      in if vcc_sender_closed st1 then (False, st1) else (True, snd (to_vcc env VccShutdown st1)))"
| "handle_command env MarkVccSenderClosed st =
     (let st1 = st\<lparr>vcc_sender_closed := True\<rparr>
      in if block_sender_closed st1 then (False, st1) else (True, snd (to_blocks env BlockShutdown st1)))"
| "handle_command env (Request req) st = (True, handle_request env req st)"

section \<open>The task\<close>

text \<open>
  What the task selects on. \<open>Enqueue\<close> is another actor that sends a command; \<open>NextCommand\<close> takes
  the first command of the channel.
\<close>

datatype ds_event =
    Enqueue command
  | NextCommand
  | ShutdownSignal
  | ShutdownChannelClosed
  | RpcConnectedEvent
  | RpcDisconnectedEvent
  | NodeNotification node_notification

definition ds_step :: "'addr ds_env \<Rightarrow> ds_event \<Rightarrow> 'addr data_source \<Rightarrow> (bool \<times> 'addr data_source) res option" where
  "ds_step env ev st = (case ev of
       Enqueue c \<Rightarrow> Some (Ok (True,
         if length (command_queue st) < command_capacity env
         then st\<lparr>command_queue := command_queue st @ [c]\<rparr> else st))
     | NextCommand \<Rightarrow> (case command_queue st of
           [] \<Rightarrow> Some (Ok (True, st))
         | c # cs \<Rightarrow> Some (Ok (handle_command env c (st\<lparr>command_queue := cs\<rparr>))))
     | ShutdownSignal \<Rightarrow> Some (rbind (handle_shutdown_ds env st) (\<lambda>st'. Ok (True, st')))
     | ShutdownChannelClosed \<Rightarrow> Some (Err ''Shutdown channel closed'')
     | RpcConnectedEvent \<Rightarrow> map_option (\<lambda>st'. Ok (True, st')) (handle_connect_ds env st)
     | RpcDisconnectedEvent \<Rightarrow> Some (Ok (True, handle_disconnect env st))
     | NodeNotification n \<Rightarrow> Some (Ok (True, handle_notification env n st)))"

text \<open>A run: the results of the calls may differ from event to event.\<close>

fun ds_task :: "('addr ds_env \<times> ds_event) list \<Rightarrow> 'addr data_source \<Rightarrow> (bool \<times> 'addr data_source) res option" where
  "ds_task [] st = Some (Ok (True, st))"
| "ds_task ((env, ev) # evs) st =
     (case ds_step env ev st of
        None \<Rightarrow> None
      | Some (Inl e) \<Rightarrow> Some (Inl e)
      | Some (Inr (cont, st')) \<Rightarrow> if cont then ds_task evs st' else Some (Ok (False, st')))"

section \<open>Lemmas\<close>

text \<open>The requests of a response channel that are still to be answered, and the answers sent on it.\<close>

fun asks_on :: "nat \<Rightarrow> request \<Rightarrow> bool" where
  "asks_on ch (RequestBlocks _ c) = (c = ch)"
| "asks_on ch (RequestVirtualChain _ c) = (c = ch)"
| "asks_on ch (RequestSender _ _) = False"

fun command_asks_on :: "nat \<Rightarrow> command \<Rightarrow> bool" where
  "command_asks_on ch (Request req) = asks_on ch req"
| "command_asks_on ch _ = False"

definition open_requests :: "nat \<Rightarrow> 'addr data_source \<Rightarrow> nat" where
  "open_requests ch st = length (filter (asks_on ch) (requests_queue st)) +
     length (filter (command_asks_on ch) (command_queue st))"

definition answers :: "nat \<Rightarrow> 'addr data_source \<Rightarrow> nat" where
  "answers ch st = length (filter (\<lambda>e. case e of Reply c _ \<Rightarrow> c = ch | _ \<Rightarrow> False) (ds_effects st))"

lemma ds_emit_simps [simp]:
  "requests_queue (ds_emit es st) = requests_queue st"
  "command_queue (ds_emit es st) = command_queue st"
  "block_sender_closed (ds_emit es st) = block_sender_closed st"
  "vcc_sender_closed (ds_emit es st) = vcc_sender_closed st"
  "ds_shutting_down (ds_emit es st) = ds_shutting_down st"
  "ds_effects (ds_emit es st) = ds_effects st @ es"
  "listener_id (ds_emit es st) = listener_id st"
  by (simp_all add: ds_emit_def)

text \<open>Steps that leave the requests, the answers and the closing of the senders alone.\<close>

definition quiet_step :: "'addr data_source \<Rightarrow> 'addr data_source \<Rightarrow> bool" where
  "quiet_step st st' \<longleftrightarrow>
     requests_queue st' = requests_queue st \<and> command_queue st' = command_queue st \<and>
     (\<forall>ch. answers ch st' = answers ch st) \<and>
     block_sender_closed st' = block_sender_closed st \<and> vcc_sender_closed st' = vcc_sender_closed st"

lemma quiet_step_refl [simp]: "quiet_step st st"
  by (simp add: quiet_step_def)

lemma quiet_step_trans: "quiet_step a b \<Longrightarrow> quiet_step b c \<Longrightarrow> quiet_step a c"
  by (simp add: quiet_step_def)

lemma quiet_step_emit:
  "\<forall>e \<in> set es. \<forall>c r. e \<noteq> Reply c r \<Longrightarrow> quiet_step st (ds_emit es st)"
  by (auto simp: quiet_step_def answers_def filter_empty_conv split: ds_effect.splits)

lemma quiet_sends [simp]:
  "quiet_step st (snd (to_blocks env b st))"
  "quiet_step st (snd (to_vcc env v st))"
  by (auto simp: to_blocks_def to_vcc_def intro!: quiet_step_emit)

lemma quiet_to_both: "quiet_step st (snd (to_both env b v st))"
  unfolding to_both_def Let_def split_def snd_conv
  by (rule quiet_step_trans [OF quiet_sends(1) quiet_sends(2)])

lemma quiet_handle_notification: "quiet_step st (handle_notification env n st)"
  by (cases n) (auto simp: handle_notification_def, simp add: quiet_step_def answers_def)

lemma quiet_handle_disconnect: "quiet_step st (handle_disconnect env st)"
proof (cases "ds_shutting_down st")
  case False
  let ?st = "st\<lparr>connected := False\<rparr>"
  obtain r st1 where both: "to_both env BlockDisconnected VccDisconnected ?st = (r, st1)" by fastforce
  have one: "quiet_step st st1"
    using quiet_to_both [of ?st env BlockDisconnected VccDisconnected] both
    by (simp add: quiet_step_def answers_def)
  have "quiet_step st1 (unregister_notification_listener st1)"
    by (auto simp: unregister_notification_listener_def quiet_step_def answers_def split: option.split)
  then show ?thesis
    using False one both quiet_step_trans [OF one]
    by (cases r) (simp_all add: handle_disconnect_def)
qed (simp add: handle_disconnect_def quiet_step_emit)

lemma quiet_handle_shutdown: "handle_shutdown_ds env st = Ok st' \<Longrightarrow> quiet_step st st'"
  by (auto simp: handle_shutdown_ds_def to_blocks_def to_vcc_def quiet_step_def answers_def split: if_splits)

text \<open>A request that is taken from the channel is answered or kept.\<close>

lemma handle_request_open:
  "open_requests ch (handle_request env req st) + answers ch (handle_request env req st) =
     open_requests ch st + answers ch st + (if asks_on ch req then 1 else 0)"
proof (cases req)
  case (RequestSender daa tx_id)
  have "quiet_step st (snd (to_vcc env (SenderResolution address tx_id daa) st))" for address
    by simp
  then show ?thesis
    using RequestSender by (auto simp: open_requests_def quiet_step_def answers_def split: rpc_answer.split)
qed (auto simp: open_requests_def answers_def split: rpc_answer.split)

lemma handle_command_open:
  "handle_command env c st = (cont, st') \<Longrightarrow>
     open_requests ch st' + answers ch st' =
       open_requests ch st + answers ch st + (if command_asks_on ch c then 1 else 0)"
proof (cases c)
  case (Request req)
  then show "handle_command env c st = (cont, st') \<Longrightarrow> ?thesis"
    using handle_request_open [of ch env req st] by auto
next
  case MarkBlockSenderClosed
  have "quiet_step (st\<lparr>block_sender_closed := True\<rparr>) (snd (to_vcc env VccShutdown (st\<lparr>block_sender_closed := True\<rparr>)))"
    by simp
  then show "handle_command env c st = (cont, st') \<Longrightarrow> ?thesis"
    using MarkBlockSenderClosed
    by (auto simp: Let_def open_requests_def quiet_step_def answers_def split: if_splits)
next
  case MarkVccSenderClosed
  have "quiet_step (st\<lparr>vcc_sender_closed := True\<rparr>) (snd (to_blocks env BlockShutdown (st\<lparr>vcc_sender_closed := True\<rparr>)))"
    by simp
  then show "handle_command env c st = (cont, st') \<Longrightarrow> ?thesis"
    using MarkVccSenderClosed
    by (auto simp: Let_def open_requests_def quiet_step_def answers_def split: if_splits)
qed

text \<open>Sending the kept requests again.\<close>

lemma resend_eq:
  "resend capacity reqs st =
     (if length (command_queue st) + length reqs \<le> capacity \<or> reqs = []
      then Some (st\<lparr>command_queue := command_queue st @ map Request reqs\<rparr>) else None)"
  by (induction reqs arbitrary: st) auto

lemma filter_command_asks [simp]:
  "filter (command_asks_on ch) (map Request reqs) = map Request (filter (asks_on ch) reqs)"
  by (induction reqs) auto

definition resent :: "'addr data_source \<Rightarrow> 'addr data_source \<Rightarrow> bool" where
  "resent st st' \<longleftrightarrow>
     requests_queue st' = [] \<and> command_queue st' = command_queue st @ map Request (requests_queue st) \<and>
     (\<forall>ch. answers ch st' = answers ch st) \<and>
     block_sender_closed st' = block_sender_closed st \<and> vcc_sender_closed st' = vcc_sender_closed st"

lemma quiet_resent_trans: "quiet_step a b \<Longrightarrow> resent b c \<Longrightarrow> resent a c"
  by (simp add: quiet_step_def resent_def)

lemma resent_quiet_trans: "resent a b \<Longrightarrow> quiet_step b c \<Longrightarrow> resent a c"
  by (simp add: quiet_step_def resent_def)

lemma handle_connect_impl_cases:
  assumes "handle_connect_impl env st = Some (r, st')"
  shows "quiet_step st st' \<or> resent st st'"
proof -
  obtain r1 st1 where reg: "register_notification_listeners env st = (r1, st1)" by fastforce
  then have st1: "quiet_step st st1"
    by (auto simp: register_notification_listeners_def quiet_step_def answers_def)
  define info where "info = rbind (block_dag_info env) (\<lambda>(sink, pp).
    rbind (block_blue_work env sink) (\<lambda>bw. Ok (sink, pp, bw)))"
  show ?thesis
  proof (cases "\<exists>e. r1 = Inl e \<or> info = Inl e")
    case True
    with assms reg st1 show ?thesis
      unfolding handle_connect_impl_def info_def [symmetric] by (auto split: sum.splits)
  next
    case False
    then obtain u where u: "r1 = Inr u" by (cases r1) auto
    from False obtain i where "info = Inr i" by (cases info) auto
    then obtain sink pp bw where i: "info = Inr (sink, pp, bw)" by (cases i) auto
    note ok = u i [unfolded info_def]
    obtain r2 st2 where both: "to_both env (BlockConnected sink pp) (VccConnected sink bw pp) (st1\<lparr>connected := True\<rparr>) = (r2, st2)"
      by fastforce
    then have "quiet_step (st1\<lparr>connected := True\<rparr>) st2" using quiet_to_both by (metis snd_conv)
    with st1 have st2: "quiet_step st st2" by (simp add: quiet_step_def answers_def)
    show ?thesis
    proof (cases r2)
      case (Inl e)
      with assms reg ok both st2 show ?thesis by (simp add: handle_connect_impl_def)
    next
      case (Inr v)
      with assms reg ok both have "resent st2 st'"
        by (auto simp: handle_connect_impl_def resend_eq resent_def answers_def split: if_splits)
      then show ?thesis using quiet_resent_trans [OF st2] by blast
    qed
  qed
qed

lemma handle_connect_cases:
  assumes "handle_connect_ds env st = Some st'"
  shows "quiet_step st st' \<or> resent st st'"
proof (cases "ds_shutting_down st")
  case True
  with assms show ?thesis by (auto simp: handle_connect_ds_def intro!: quiet_step_emit)
next
  case False
  with assms obtain r st1 where impl: "handle_connect_impl env st = Some (r, st1)"
    by (auto simp: handle_connect_ds_def split: option.splits)
  have "quiet_step st1 st'"
    using assms False impl
    by (auto simp: handle_connect_ds_def quiet_step_def answers_def Let_def split: sum.splits)
  with handle_connect_impl_cases [OF impl] show ?thesis
    using quiet_step_trans resent_quiet_trans by blast
qed

lemma quiet_open:
  "quiet_step st st' \<or> resent st st' \<Longrightarrow>
     open_requests ch st' + answers ch st' = open_requests ch st + answers ch st \<and>
     block_sender_closed st' = block_sender_closed st \<and> vcc_sender_closed st' = vcc_sender_closed st"
  by (auto simp: quiet_step_def resent_def open_requests_def)

text \<open>The events that are no commands.\<close>

lemma ds_step_quiet:
  assumes "ds_step env ev st = Some (Ok (cont, st'))" and "ev \<noteq> NextCommand" and "\<forall>c. ev \<noteq> Enqueue c"
  shows "cont \<and> (quiet_step st st' \<or> resent st st')"
proof (cases ev)
  case ShutdownSignal
  with assms show ?thesis by (auto simp: ds_step_def dest: quiet_handle_shutdown)
next
  case RpcConnectedEvent
  with assms show ?thesis by (auto simp: ds_step_def dest: handle_connect_cases)
next
  case RpcDisconnectedEvent
  with assms show ?thesis using quiet_handle_disconnect by (auto simp: ds_step_def)
next
  case (NodeNotification n)
  with assms show ?thesis using quiet_handle_notification by (auto simp: ds_step_def)
qed (use assms in \<open>simp_all add: ds_step_def\<close>)

lemma ds_step_command:
  "command_queue st = c # cs \<Longrightarrow> ds_step env NextCommand st = Some (Ok (handle_command env c (st\<lparr>command_queue := cs\<rparr>)))"
  "command_queue st = [] \<Longrightarrow> ds_step env NextCommand st = Some (Ok (True, st))"
  by (simp_all add: ds_step_def)

lemma ds_step_open:
  assumes step: "ds_step env ev st = Some (Ok (cont, st'))" and ev: "\<forall>c. ev = Enqueue c \<longrightarrow> \<not> command_asks_on ch c"
  shows "open_requests ch st' + answers ch st' = open_requests ch st + answers ch st"
proof (cases ev)
  case (Enqueue c)
  with assms show ?thesis by (auto simp: ds_step_def open_requests_def answers_def split: if_splits)
next
  case NextCommand
  show ?thesis
  proof (cases "command_queue st")
    case Nil
    with step NextCommand show ?thesis by (simp add: ds_step_command)
  next
    case (Cons c cs)
    with step NextCommand have "handle_command env c (st\<lparr>command_queue := cs\<rparr>) = (cont, st')"
      by (simp add: ds_step_command)
    from handle_command_open [OF this, of ch] Cons show ?thesis
      by (auto simp: open_requests_def answers_def split: if_splits)
  qed
qed (use ds_step_quiet [OF step] quiet_open [of st st' ch] in auto)

lemma ds_task_invariant:
  assumes "ds_task evs st = Some (Ok (cont, st'))" and "P st"
    and step: "\<And>env ev st c st'. (env, ev) \<in> set evs \<Longrightarrow> P st \<Longrightarrow> ds_step env ev st = Some (Ok (c, st')) \<Longrightarrow> P st'"
  shows "P st'"
  using assms
proof (induction evs st rule: ds_task.induct)
  case (2 env ev evs st)
  then obtain c st1 where one: "ds_step env ev st = Some (Ok (c, st1))"
    and rest: "(if c then ds_task evs st1 else Some (Ok (False, st1))) = Some (Ok (cont, st'))"
    by (auto split: option.splits sum.splits)
  have "P st1" using "2.prems"(2,3) one by (meson list.set_intros(1))
  moreover have "P st'" if c: "c"
    by (rule "2.IH" [OF one refl refl c]) (use rest c \<open>P st1\<close> "2.prems"(3) in \<open>auto, meson\<close>)
  ultimately show ?case using rest by (cases c) auto
qed simp

definition both_closed :: "'addr data_source \<Rightarrow> bool" where
  "both_closed st \<longleftrightarrow> block_sender_closed st \<and> vcc_sender_closed st"

lemma handle_request_closed:
  "block_sender_closed (handle_request env req st) = block_sender_closed st \<and>
   vcc_sender_closed (handle_request env req st) = vcc_sender_closed st"
  by (cases req) (auto simp: to_vcc_def split: rpc_answer.split)

lemma handle_command_closed:
  "handle_command env c st = (cont, st') \<Longrightarrow> \<not> both_closed st \<Longrightarrow> cont \<longleftrightarrow> \<not> both_closed st'"
  by (cases c) (auto simp: both_closed_def Let_def to_vcc_def to_blocks_def handle_request_closed split: if_splits)

lemma ds_step_closed:
  assumes step: "ds_step env ev st = Some (Ok (cont, st'))" and "\<not> both_closed st"
  shows "cont \<longleftrightarrow> \<not> both_closed st'"
proof (cases ev)
  case (Enqueue c)
  with assms show ?thesis by (auto simp: ds_step_def both_closed_def split: if_splits)
next
  case NextCommand
  show ?thesis
  proof (cases "command_queue st")
    case Nil
    with assms NextCommand show ?thesis by (simp add: ds_step_command)
  next
    case (Cons c cs)
    with step NextCommand have "handle_command env c (st\<lparr>command_queue := cs\<rparr>) = (cont, st')"
      by (simp add: ds_step_command)
    then show ?thesis
      by (rule handle_command_closed) (use assms(2) in \<open>simp add: both_closed_def\<close>)
  qed
qed (use ds_step_quiet [OF step] quiet_open [of st st'] assms(2) in \<open>auto simp: both_closed_def\<close>)

text \<open>After the shutdown signal the kept requests stay where they are.\<close>

definition stuck :: "nat \<Rightarrow> request list \<Rightarrow> 'addr data_source \<Rightarrow> bool" where
  "stuck ch reqs st \<longleftrightarrow> ds_shutting_down st \<and> requests_queue st = reqs \<and>
     filter (command_asks_on ch) (command_queue st) = []"

lemma handle_command_shutting_down:
  "ds_shutting_down st \<Longrightarrow> handle_command env c st = (cont, st') \<Longrightarrow>
     ds_shutting_down st' \<and> requests_queue st' = requests_queue st \<and> command_queue st' = command_queue st \<and>
     (\<not> command_asks_on ch c \<longrightarrow> answers ch st' = answers ch st)"
proof (cases c)
  case (Request req)
  then show "ds_shutting_down st \<Longrightarrow> handle_command env c st = (cont, st') \<Longrightarrow> ?thesis"
    by (cases req) (auto simp: answers_def)
qed (auto simp: Let_def to_vcc_def to_blocks_def answers_def split: if_splits)

lemma ds_step_stuck:
  assumes st: "stuck ch reqs st" and step: "ds_step env ev st = Some (Ok (cont, st'))"
    and ev: "\<forall>c. ev = Enqueue c \<longrightarrow> \<not> command_asks_on ch c"
  shows "stuck ch reqs st' \<and> answers ch st' = answers ch st"
proof (cases ev)
  case NextCommand
  show ?thesis
  proof (cases "command_queue st")
    case (Cons c cs)
    then have "\<not> command_asks_on ch c" "filter (command_asks_on ch) cs = []"
      using st by (auto simp: stuck_def split: if_splits)
    moreover have "handle_command env c (st\<lparr>command_queue := cs\<rparr>) = (cont, st')"
      using step NextCommand Cons by (simp add: ds_step_def)
    ultimately show ?thesis
      using handle_command_shutting_down [of "st\<lparr>command_queue := cs\<rparr>" env c cont st' ch] st
      by (simp add: stuck_def answers_def)
  qed (use step st NextCommand in \<open>simp add: ds_step_def\<close>)
qed (use st step ev in \<open>auto simp: ds_step_def stuck_def handle_shutdown_ds_def handle_connect_ds_def
    handle_disconnect_def handle_notification_def to_blocks_def to_vcc_def answers_def
    split: if_splits node_notification.splits\<close>)

text \<open>A connection on which every call succeeds.\<close>

definition answering :: "'addr ds_env \<Rightarrow> hash \<Rightarrow> hash \<Rightarrow> u192 \<Rightarrow> bool" where
  "answering env sink pp bw \<longleftrightarrow>
     start_notify env 0 = Ok () \<and> start_notify env 1 = Ok () \<and> start_notify env 2 = Ok () \<and>
     block_dag_info env = Ok (sink, pp) \<and> block_blue_work env sink = Ok bw \<and> blocks_open env \<and> vcc_open env"

lemma handle_connect_answering:
  assumes "answering env sink pp bw" and "\<not> ds_shutting_down st"
  shows "handle_connect_ds env st =
    (if length (command_queue st) + length (requests_queue st) \<le> command_capacity env \<or> requests_queue st = []
     then Some (st\<lparr>listener_id := Some (new_listener env), connected := True,
       ds_effects := ds_effects st @ [ToBlocks (BlockConnected sink pp), ToVcc (VccConnected sink bw pp)],
       requests_queue := [], command_queue := command_queue st @ map Request (requests_queue st)\<rparr>)
     else None)"
  using assms
  by (simp add: handle_connect_ds_def handle_connect_impl_def register_notification_listeners_def answering_def
      to_both_def to_blocks_def to_vcc_def resend_eq ds_emit_def)

text \<open>Examples: a data source that keeps one request for blocks, and a node that answers.\<close>

definition answering_node :: "(addr_version \<times> bytes) ds_env" where
  "answering_node = \<lparr>new_listener = 7, start_notify = (\<lambda>_. Ok ()), block_dag_info = Ok (of_list [2], of_list [1]),
     block_blue_work = (\<lambda>_. Ok 5), get_blocks = (\<lambda>_. RpcOk []), get_virtual_chain = (\<lambda>_. RpcFailed),
     get_return_address = (\<lambda>_ _. RpcFailed), rpc_disconnect = Ok (),
     blocks_open = True, vcc_open = True, command_capacity = 1\<rparr>"

definition waiting_source :: "(addr_version \<times> bytes) data_source" where
  "waiting_source = (data_source_new 0)\<lparr>requests_queue := [RequestBlocks (of_list [1]) 3]\<rparr>"

lemma answering_node: "answering answering_node (of_list [2]) (of_list [1]) 5"
  by (simp add: answering_def answering_node_def)

section \<open>Properties\<close>


text \<open>
  C11. The task runs until both processors have closed, and no longer: a run that started before
  that goes on exactly as long as one of the two has not reported.
\<close>

theorem data_source_runs_until_both_closed:
  assumes "ds_task evs st = Some (Ok (cont, st'))" and "\<not> both_closed st"
  shows "cont \<longleftrightarrow> \<not> both_closed st'"
  using assms
proof (induction evs st rule: ds_task.induct)
  case (2 env ev evs st)
  then obtain c st1 where step: "ds_step env ev st = Some (Ok (c, st1))"
    and rest: "(if c then ds_task evs st1 else Some (Ok (False, st1))) = Some (Ok (cont, st'))"
    by (auto split: option.splits sum.splits)
  from ds_step_closed [OF step "2.prems"(2)] "2.IH" [OF step refl refl] rest show ?case
    by (cases c) auto
qed simp

text \<open>
  A request that is kept when the shutdown begins is never answered: whatever happens
  afterwards, it stays in the queue and nothing is sent on its response channel. A gap filler
  that waits for such an answer does not look at its interruption channel.
\<close>

theorem kept_request_unanswered_after_shutdown:
  assumes "ds_task evs st = Some (Ok (cont, st'))" and "ds_shutting_down st"
    and "filter (command_asks_on ch) (command_queue st) = []"
    and "\<forall>(env, ev) \<in> set evs. \<forall>c. ev = Enqueue c \<longrightarrow> \<not> command_asks_on ch c"
  shows "requests_queue st' = requests_queue st \<and> answers ch st' = answers ch st"
proof -
  have "stuck ch (requests_queue st) st' \<and> answers ch st' = answers ch st"
  proof (rule ds_task_invariant [OF assms(1), where P = "\<lambda>s. stuck ch (requests_queue st) s \<and> answers ch s = answers ch st"])
    fix env ev s c s'
    assume "(env, ev) \<in> set evs" "ds_step env ev s = Some (Ok (c, s'))"
      "stuck ch (requests_queue st) s \<and> answers ch s = answers ch st"
    with ds_step_stuck [of ch "requests_queue st" s env ev c s'] assms(4)
    show "stuck ch (requests_queue st) s' \<and> answers ch s' = answers ch st" by fastforce
  qed (use assms(2,3) in \<open>simp add: stuck_def\<close>)
  then show ?thesis by (simp add: stuck_def)
qed


text \<open>
  A reconnection takes up every kept request: when the calls to the node succeed and the
  command channel has room, both processors are told, and the kept requests are sent again in
  their order, after the commands that wait already.
\<close>

theorem reconnect_resends_requests:
  assumes "answering env sink pp bw" and "\<not> ds_shutting_down st"
    and "length (command_queue st) + length (requests_queue st) \<le> command_capacity env"
  shows "\<exists>st'. handle_connect_ds env st = Some st' \<and> connected st' \<and> requests_queue st' = [] \<and>
    command_queue st' = command_queue st @ map Request (requests_queue st) \<and>
    ds_effects st' = ds_effects st @ [ToBlocks (BlockConnected sink pp), ToVcc (VccConnected sink bw pp)]"
  using handle_connect_answering [OF assms(1,2)] assms(3) by simp

text \<open>
  With more kept requests than the command channel has room for, the reconnection never
  ends: the data source waits for room in a channel that only itself receives from.
\<close>

theorem reconnect_blocks_on_full_channel:
  assumes "answering env sink pp bw" and "\<not> ds_shutting_down st"
    and "command_capacity env < length (command_queue st) + length (requests_queue st)"
    and "requests_queue st \<noteq> []"
  shows "ds_task ((env, RpcConnectedEvent) # evs) st = None"
  using handle_connect_answering [OF assms(1,2)] assms(3,4) by (simp add: ds_step_def)


theorem data_source_runs_until_both_closed_witness:
  "\<exists>st'. ds_task [(answering_node, NextCommand), (answering_node, NextCommand)]
      ((data_source_new 0)\<lparr>command_queue := [MarkVccSenderClosed, MarkBlockSenderClosed]\<rparr>) = Some (Ok (False, st')) \<and>
    both_closed st'"
proof -
  let ?st = "(data_source_new 0)\<lparr>command_queue := [MarkVccSenderClosed, MarkBlockSenderClosed]\<rparr> :: (addr_version \<times> bytes) data_source"
  obtain st' where run: "ds_task [(answering_node, NextCommand), (answering_node, NextCommand)] ?st = Some (Ok (False, st'))"
    by (simp add: ds_step_def data_source_new_def answering_node_def Let_def to_blocks_def ds_emit_def)
  have "\<not> both_closed ?st" by (simp add: both_closed_def data_source_new_def)
  from data_source_runs_until_both_closed [OF run this] run show ?thesis by auto
qed

theorem kept_request_unanswered_after_shutdown_witness:
  "\<exists>cont st'. ds_task [(answering_node, RpcConnectedEvent), (answering_node, NextCommand)]
      (waiting_source\<lparr>ds_shutting_down := True\<rparr>) = Some (Ok (cont, st')) \<and>
    requests_queue st' = [RequestBlocks (of_list [1]) 3] \<and> answers 3 st' = 0"
proof -
  let ?st = "waiting_source\<lparr>ds_shutting_down := True\<rparr>"
  obtain cont st' where run: "ds_task [(answering_node, RpcConnectedEvent), (answering_node, NextCommand)] ?st = Some (Ok (cont, st'))"
    by (simp add: ds_step_def handle_connect_ds_def waiting_source_def data_source_new_def ds_emit_def)
  have "filter (command_asks_on 3) (command_queue ?st) = []" by (simp add: waiting_source_def data_source_new_def)
  with kept_request_unanswered_after_shutdown [OF run, of 3] run show ?thesis
    by (auto simp: waiting_source_def data_source_new_def answers_def)
qed

theorem reconnect_resends_requests_witness:
  "\<exists>st'. handle_connect_ds answering_node waiting_source = Some st' \<and>
    command_queue st' = [Request (RequestBlocks (of_list [1]) 3)]"
  using reconnect_resends_requests [OF answering_node, of waiting_source]
  by (auto simp: waiting_source_def data_source_new_def answering_node_def)

theorem reconnect_blocks_on_full_channel_witness:
  "ds_task [(answering_node, RpcConnectedEvent)] (waiting_source\<lparr>command_queue := [Request (RequestSender 1 (of_list [3]))]\<rparr>) = None"
  by (rule reconnect_blocks_on_full_channel [OF answering_node])
    (simp_all add: waiting_source_def data_source_new_def answering_node_def)

end
