(* ===== verification/Rust_Text.thy ===== *)
theory Rust_Text
  imports Prelude Complex_Main
begin

text \<open>
  Text as the services of \<^verbatim>\<open>indexer/src\<close> use it. A Rust \<^verbatim>\<open>str\<close> is a list of Unicode scalar
  values; its bytes are their UTF-8 encoding. The theory has the standard library's operations
  on text: trimming, lower case, searching, splitting and replacing, decimal and hexadecimal
  numbers. The lower case of text beyond ASCII depends on the Unicode tables and is a parameter.
\<close>

section \<open>Characters\<close>

type_synonym rchar = nat
type_synonym rstr = "rchar list"

definition str :: "string \<Rightarrow> rstr" where
  "str s = map of_char s"

text \<open>The Unicode property White_Space.\<close>

definition is_whitespace :: "rchar \<Rightarrow> bool" where
  "is_whitespace c \<longleftrightarrow>
     9 \<le> c \<and> c \<le> 13 \<or> c = 32 \<or> c = 0x85 \<or> c = 0xA0 \<or> c = 0x1680 \<or> 0x2000 \<le> c \<and> c \<le> 0x200A \<or>
     c = 0x2028 \<or> c = 0x2029 \<or> c = 0x202F \<or> c = 0x205F \<or> c = 0x3000"

definition is_ascii_lowercase :: "rchar \<Rightarrow> bool" where
  "is_ascii_lowercase c \<longleftrightarrow> 97 \<le> c \<and> c \<le> 122"

definition is_ascii_digit :: "rchar \<Rightarrow> bool" where
  "is_ascii_digit c \<longleftrightarrow> 48 \<le> c \<and> c \<le> 57"

definition is_ascii_hexdigit :: "rchar \<Rightarrow> bool" where
  "is_ascii_hexdigit c \<longleftrightarrow> is_ascii_digit c \<or> 97 \<le> c \<and> c \<le> 102 \<or> 65 \<le> c \<and> c \<le> 70"

definition ascii_lower :: "rchar \<Rightarrow> rchar" where
  "ascii_lower c = (if 65 \<le> c \<and> c \<le> 90 then c + 32 else c)"

definition is_ascii :: "rstr \<Rightarrow> bool" where
  "is_ascii s \<longleftrightarrow> (\<forall>c \<in> set s. c < 128)"

section \<open>Case and white space\<close>

definition to_ascii_lowercase :: "rstr \<Rightarrow> rstr" where
  "to_ascii_lowercase = map ascii_lower"

definition eq_ignore_ascii_case :: "rstr \<Rightarrow> rstr \<Rightarrow> bool" where
  "eq_ignore_ascii_case s t \<longleftrightarrow> to_ascii_lowercase s = to_ascii_lowercase t"

text \<open>
  \<^verbatim>\<open>to_lowercase\<close>; \<open>unicode\<close> is the lower case of text with characters beyond ASCII.
\<close>

definition to_lowercase :: "(rstr \<Rightarrow> rstr) \<Rightarrow> rstr \<Rightarrow> rstr" where
  "to_lowercase unicode s = (if is_ascii s then to_ascii_lowercase s else unicode s)"

definition trim_start :: "rstr \<Rightarrow> rstr" where
  "trim_start = dropWhile is_whitespace"

definition trim_end :: "rstr \<Rightarrow> rstr" where
  "trim_end s = rev (dropWhile is_whitespace (rev s))"

definition trim :: "rstr \<Rightarrow> rstr" where
  "trim s = trim_end (trim_start s)"

lemma trim_end_Cons:
  "trim_end (c # s) = (if trim_end s = [] \<and> is_whitespace c then [] else c # trim_end s)"
  by (simp add: trim_end_def dropWhile_append)

lemma trim_end_idem [simp]: "trim_end (trim_end s) = trim_end s"
  by (simp add: trim_end_def)

lemma trim_start_trim_end: "trim_start (trim_end s) = trim_end (trim_start s)"
proof (induction s)
  case (Cons c s)
  then show ?case
    by (auto simp: trim_start_def trim_end_Cons)
qed (simp add: trim_start_def trim_end_def)

lemma trim_start_idem [simp]: "trim_start (trim_start s) = trim_start s"
  by (simp add: trim_start_def)

lemma trim_idem [simp]: "trim (trim s) = trim s"
  by (simp add: trim_def trim_start_trim_end)

lemma trim_fixed:
  assumes "\<forall>c \<in> set s. \<not> is_whitespace c"
  shows "trim s = s"
proof -
  have "dropWhile is_whitespace t = t" if "set t \<subseteq> set s" for t
    using assms that by (cases t) auto
  then show ?thesis
    by (simp add: trim_def trim_start_def trim_end_def)
qed

section \<open>Searching, splitting, replacing\<close>

fun find_str :: "rstr \<Rightarrow> rstr \<Rightarrow> nat option" where
  "find_str pat [] = (if pat = [] then Some 0 else None)"
| "find_str pat (c # cs) =
     (if prefix pat (c # cs) then Some 0 else map_option Suc (find_str pat cs))"

fun split_at :: "(rchar \<Rightarrow> bool) \<Rightarrow> rstr \<Rightarrow> rstr list" where
  "split_at p [] = [[]]"
| "split_at p (c # cs) =
     (if p c then [] # split_at p cs
      else case split_at p cs of [] \<Rightarrow> [[c]] | w # ws \<Rightarrow> (c # w) # ws)"

fun replace_str :: "rstr \<Rightarrow> rstr \<Rightarrow> rstr \<Rightarrow> rstr" where
  "replace_str pat to [] = []"
| "replace_str pat to (c # cs) =
     (if pat \<noteq> [] \<and> prefix pat (c # cs) then to @ replace_str pat to (drop (length pat - 1) cs)
      else c # replace_str pat to cs)"

lemma split_at_not_Nil [simp]: "split_at p s \<noteq> []"
  by (induction s) (auto split: list.split)

lemma hd_split_at: "hd (split_at p s) = takeWhile (\<lambda>c. \<not> p c) s"
proof (induction s)
  case (Cons c s)
  then show ?case
    using split_at_not_Nil [of p s] by (auto split: list.split)
qed simp

section \<open>Numbers\<close>

fun decimal :: "nat \<Rightarrow> rstr" where
  "decimal n = (if n < 10 then [48 + n] else decimal (n div 10) @ [48 + n mod 10])"

declare decimal.simps [simp del]

definition pad_zeros :: "nat \<Rightarrow> rstr \<Rightarrow> rstr" where
  "pad_zeros width s = replicate (width - length s) 48 @ s"

definition decimal_value :: "rstr \<Rightarrow> nat" where
  "decimal_value s = foldl (\<lambda>n c. 10 * n + (c - 48)) 0 s"

text \<open>\<^verbatim>\<open>str::parse::<u64>\<close>: an optional plus sign and digits, in range.\<close>

definition parse_u64 :: "rstr \<Rightarrow> u64 option" where
  "parse_u64 s =
     (let digits = (case s of c # cs \<Rightarrow> if c = 43 then cs else s | [] \<Rightarrow> [])
      in if digits \<noteq> [] \<and> list_all is_ascii_digit digits \<and> decimal_value digits < 2 ^ 64
         then Some (word_of_nat (decimal_value digits)) else None)"

definition hex_digit :: "nat \<Rightarrow> rchar" where
  "hex_digit n = (if n < 10 then 48 + n else 87 + n)"

definition hex :: "bytes \<Rightarrow> rstr" where
  "hex bs = concat (map (\<lambda>b. [hex_digit (unat b div 16), hex_digit (unat b mod 16)]) bs)"

lemma decimal_value_snoc: "decimal_value (s @ [c]) = 10 * decimal_value s + (c - 48)"
  by (simp add: decimal_value_def)

lemma decimal_value_decimal [simp]: "decimal_value (decimal n) = n"
proof (induction n rule: decimal.induct)
  case (1 n)
  then show ?case
    by (subst decimal.simps) (simp add: decimal_value_snoc, simp add: decimal_value_def)
qed

lemma decimal_digits: "c \<in> set (decimal n) \<Longrightarrow> is_ascii_digit c"
proof (induction n rule: decimal.induct)
  case (1 n)
  then show ?case
    by (subst (asm) (2) decimal.simps) (auto simp: is_ascii_digit_def split: if_splits)
qed

lemma decimal_not_Nil [simp]: "decimal n \<noteq> []"
  by (subst decimal.simps) simp

lemma length_hex [simp]: "length (hex bs) = 2 * length bs"
  by (induction bs) (simp_all add: hex_def)

lemma hexdigit_hex_digit: "n < 16 \<Longrightarrow> is_ascii_hexdigit (hex_digit n)"
  by (simp add: hex_digit_def is_ascii_hexdigit_def is_ascii_digit_def)

lemma hex_digits: "c \<in> set (hex bs) \<Longrightarrow> is_ascii_hexdigit c"
proof -
  have "unat (b :: byte) div 16 < 16" for b
    using unsigned_less [of b, where ?'a = nat] by simp
  then show "c \<in> set (hex bs) \<Longrightarrow> is_ascii_hexdigit c"
    by (auto simp: hex_def intro: hexdigit_hex_digit)
qed

section \<open>Saturating arithmetic\<close>

definition sat_add :: "u64 \<Rightarrow> u64 \<Rightarrow> u64" where
  "sat_add a b = (if unat a + unat b < 2 ^ 64 then a + b else - 1)"

definition sat_sub :: "u64 \<Rightarrow> u64 \<Rightarrow> u64" where
  "sat_sub a b = (if b \<le> a then a - b else 0)"

lemma unat_sat_add [simp]: "unat (sat_add a b) = min (unat a + unat b) (2 ^ 64 - 1)"
proof -
  have "unat (- 1 :: u64) = 2 ^ 64 - 1"
    by (simp add: unsigned_minus_1_eq_mask mask_eq_exp_minus_1)
  then show ?thesis
    by (simp add: sat_add_def unat_word_ariths)
qed

lemma unat_sat_sub [simp]: "unat (sat_sub a b) = unat a - unat b"
  by (simp add: sat_sub_def unat_sub word_le_nat_alt)

section \<open>Results of the services\<close>

text \<open>
  The handlers of the services fail with an HTTP status and a message. Details that a message
  quotes from another error are left out.
\<close>

datatype status_code =
    BadRequest | Unauthorized | Forbidden | NotFound | Conflict | TooManyRequests
  | InternalServerError | ServiceUnavailable

datatype api_error = ApiError status_code string | ApiPanic string

type_synonym 'a api = "api_error + 'a"

definition abind :: "'e + 'a \<Rightarrow> ('a \<Rightarrow> 'e + 'b) \<Rightarrow> 'e + 'b" where
  "abind m f = (case m of Inl e \<Rightarrow> Inl e | Inr x \<Rightarrow> f x)"

definition ok_or :: "'e \<Rightarrow> 'a option \<Rightarrow> 'e + 'a" where
  "ok_or e v = (case v of None \<Rightarrow> Inl e | Some x \<Rightarrow> Inr x)"

definition require :: "bool \<Rightarrow> 'e \<Rightarrow> 'e + unit" where
  "require b e = (if b then Inr () else Inl e)"

text \<open>\<^verbatim>\<open>map_err\<close>: a failure becomes the given error, a panic stays one.\<close>

definition api_of :: "api_error \<Rightarrow> 'a res \<Rightarrow> 'a api" where
  "api_of e m = (case m of Inl (Failure _) \<Rightarrow> Inl e | Inl (Panic p) \<Rightarrow> Inl (ApiPanic p) | Inr x \<Rightarrow> Inr x)"

lemma abind_simps [simp]:
  "abind (Inl e) f = Inl e"
  "abind (Inr x) f = f x"
  by (simp_all add: abind_def)

lemma abind_Inr_iff [simp]: "abind m f = Inr y \<longleftrightarrow> (\<exists>x. m = Inr x \<and> f x = Inr y)"
  by (cases m) simp_all

lemma ok_or_simps [simp]:
  "ok_or e None = Inl e"
  "ok_or e (Some x) = Inr x"
  "ok_or e v = Inr y \<longleftrightarrow> v = Some y"
  by (simp_all add: ok_or_def split: option.splits)

lemma require_simps [simp]:
  "require True e = Inr ()"
  "require False e = Inl e"
  "require b e = Inr u \<longleftrightarrow> b"
  by (simp_all add: require_def)

lemma api_of_simps [simp]:
  "api_of e (Inl (Failure f)) = Inl e"
  "api_of e (Inl (Panic p)) = Inl (ApiPanic p)"
  "api_of e (Inr x) = Inr x"
  "api_of e m = Inr y \<longleftrightarrow> m = Inr y"
  by (simp_all add: api_of_def split: sum.splits fault.splits)

section \<open>Bytes\<close>

text \<open>Slices of byte strings panic outside their range.\<close>

definition slice :: "nat \<Rightarrow> nat \<Rightarrow> 'a list \<Rightarrow> 'a list res" where
  "slice i j xs =
     (if i \<le> j \<and> j \<le> length xs then Ok (take (j - i) (drop i xs))
      else Panics ''range out of bounds'')"

definition index_at :: "'a list \<Rightarrow> nat \<Rightarrow> 'a res" where
  "index_at xs i = (if i < length xs then Ok (xs ! i) else Panics ''index out of bounds'')"

definition utf8_char :: "rchar \<Rightarrow> bytes" where
  "utf8_char c =
     map word_of_nat
       (if c < 0x80 then [c]
        else if c < 0x800 then [0xC0 + c div 64, 0x80 + c mod 64]
        else if c < 0x10000 then [0xE0 + c div 4096, 0x80 + c div 64 mod 64, 0x80 + c mod 64]
        else [0xF0 + c div 262144, 0x80 + c div 4096 mod 64, 0x80 + c div 64 mod 64, 0x80 + c mod 64])"

definition utf8 :: "rstr \<Rightarrow> bytes" where
  "utf8 s = concat (map utf8_char s)"

lemma slice_Ok: "i \<le> j \<Longrightarrow> j \<le> length xs \<Longrightarrow> slice i j xs = Ok (take (j - i) (drop i xs))"
  by (simp add: slice_def)

lemma utf8_append: "utf8 (s @ t) = utf8 s @ utf8 t"
  by (simp add: utf8_def)

lemma utf8_ascii: "is_ascii s \<Longrightarrow> utf8 s = map word_of_nat s"
  by (induction s) (simp_all add: utf8_def utf8_char_def is_ascii_def)

text \<open>The length of a \<^verbatim>\<open>str\<close> is the number of its bytes.\<close>

definition byte_len :: "rstr \<Rightarrow> nat" where
  "byte_len s = length (utf8 s)"

lemma byte_len_ascii: "is_ascii s \<Longrightarrow> byte_len s = length s"
  by (induction s) (simp_all add: byte_len_def utf8_def utf8_char_def is_ascii_def)

section \<open>JSON values\<close>

datatype json_number = PosInt u64 | NegInt int | Float rat

datatype json =
    JsonNull
  | JsonBool bool
  | JsonNumber json_number
  | JsonString rstr
  | JsonArray "json list"
  | JsonObject "(rstr \<times> json) list"

fun json_get :: "json \<Rightarrow> rstr \<Rightarrow> json option" where
  "json_get (JsonObject m) key = map_of m key"
| "json_get _ key = None"

fun as_str :: "json \<Rightarrow> rstr option" where
  "as_str (JsonString s) = Some s"
| "as_str _ = None"

section \<open>Environment\<close>

text \<open>The environment of the process: the values of its variables that are valid text.\<close>

type_synonym environment = "string \<Rightarrow> rstr option"

definition read_env_string :: "environment \<Rightarrow> string \<Rightarrow> rstr option" where
  "read_env_string var name =
     (case var name of None \<Rightarrow> None | Some v \<Rightarrow> if trim v = [] then None else Some (trim v))"

definition read_env_bool :: "(rstr \<Rightarrow> rstr) \<Rightarrow> environment \<Rightarrow> string \<Rightarrow> bool \<Rightarrow> bool" where
  "read_env_bool unicode var name fallback =
     (case var name of
        None \<Rightarrow> fallback
      | Some v \<Rightarrow>
          let t = to_lowercase unicode (trim v) in
          if t \<in> str ` {''1'', ''true'', ''yes'', ''y'', ''on''} then True
          else if t \<in> str ` {''0'', ''false'', ''no'', ''n'', ''off''} then False
          else fallback)"

definition read_env_u64 :: "environment \<Rightarrow> string \<Rightarrow> u64 \<Rightarrow> u64" where
  "read_env_u64 var name fallback =
     (case Option.bind (var name) (\<lambda>v. parse_u64 (trim v)) of None \<Rightarrow> fallback | Some n \<Rightarrow> n)"

section \<open>HTTP\<close>

text \<open>No answer at all, or a status and a body, which may fail to be read.\<close>

datatype http_outcome = TransportError | HttpResponse nat "rstr option"

definition is_success :: "nat \<Rightarrow> bool" where
  "is_success status \<longleftrightarrow> 200 \<le> status \<and> status < 300"

section \<open>Splitting and decoding\<close>

fun splitn :: "nat \<Rightarrow> rchar \<Rightarrow> rstr \<Rightarrow> rstr list" where
  "splitn 0 d s = []"
| "splitn (Suc 0) d s = [s]"
| "splitn (Suc (Suc n)) d s =
     (if d \<in> set s
      then takeWhile (\<lambda>c. c \<noteq> d) s # splitn (Suc n) d (drop 1 (dropWhile (\<lambda>c. c \<noteq> d) s))
      else [s])"

definition continuation :: "byte \<Rightarrow> bool" where
  "continuation b \<longleftrightarrow> 0x80 \<le> b \<and> b \<le> 0xBF"

text \<open>\<^verbatim>\<open>str::from_utf8\<close>: no overlong forms, no surrogates, nothing beyond the last scalar value.\<close>

fun from_utf8 :: "bytes \<Rightarrow> rstr option" where
  "from_utf8 [] = Some []"
| "from_utf8 (b # bs) =
     (let n = unat b; low = (\<lambda>x :: byte. unat x - 0x80) in
      if n < 0x80 then map_option (Cons n) (from_utf8 bs)
      else if 0xC2 \<le> n \<and> n \<le> 0xDF then
        (case bs of
           b1 # rest \<Rightarrow>
             if continuation b1
             then map_option (Cons ((n - 0xC0) * 64 + low b1)) (from_utf8 rest) else None
         | _ \<Rightarrow> None)
      else if 0xE0 \<le> n \<and> n \<le> 0xEF then
        (case bs of
           b1 # b2 # rest \<Rightarrow>
             if continuation b1 \<and> continuation b2 \<and> (n = 0xE0 \<longrightarrow> 0xA0 \<le> b1) \<and> (n = 0xED \<longrightarrow> b1 \<le> 0x9F)
             then map_option (Cons ((n - 0xE0) * 4096 + low b1 * 64 + low b2)) (from_utf8 rest) else None
         | _ \<Rightarrow> None)
      else if 0xF0 \<le> n \<and> n \<le> 0xF4 then
        (case bs of
           b1 # b2 # b3 # rest \<Rightarrow>
             if continuation b1 \<and> continuation b2 \<and> continuation b3 \<and>
                (n = 0xF0 \<longrightarrow> 0x90 \<le> b1) \<and> (n = 0xF4 \<longrightarrow> b1 \<le> 0x8F)
             then map_option (Cons ((n - 0xF0) * 262144 + low b1 * 4096 + low b2 * 64 + low b3)) (from_utf8 rest)
             else None
         | _ \<Rightarrow> None)
      else None)"

lemma from_utf8_ascii: "\<forall>b \<in> set bs. unat b < 0x80 \<Longrightarrow> from_utf8 bs = Some (map unat bs)"
  by (induction bs) simp_all

text \<open>What evaluates the operations on a literal.\<close>

lemmas text_defs = str_def trim_def trim_start_def trim_end_def is_whitespace_def to_lowercase_def
  to_ascii_lowercase_def ascii_lower_def is_ascii_def is_ascii_lowercase_def is_ascii_digit_def

end
