(* ===== verification/Start_Up.thy ===== *)
theory Start_Up
  imports Virtual_Chain Periodic Migration Rust_Text
begin

text \<open>
  Start-up and shutdown of the indexer (\<^verbatim>\<open>indexer/src/main.rs\<close>, \<^verbatim>\<open>config.rs\<close>, \<^verbatim>\<open>context.rs\<close>): the
  configuration, the context, what is read from the database before the actors run, and which parts
  are told to stop. Building the actors and their channels is left out.
\<close>

section \<open>Configuration and context\<close>

datatype network_type = Mainnet | Testnet | Devnet | Simnet

record indexer_config =
  ic_kasia_indexer_db_root :: rstr
  ic_network_type :: network_type
  ic_kaspa_node_wborsh_url :: "rstr option"
  ic_indexer_pruning_depth :: u64
  ic_periodic_processor_interval_secs :: u64

definition default_indexer_pruning_depth :: u64 where "default_indexer_pruning_depth = 3000000"
definition default_periodic_processor_interval_secs :: u64 where "default_periodic_processor_interval_secs = 30"
definition default_network_type :: network_type where "default_network_type = Mainnet"

text \<open>Paths are joined with a slash; the path that is added is never absolute.\<close>

definition path_join :: "rstr \<Rightarrow> rstr \<Rightarrow> rstr" where
  "path_join base name = (if base = [] \<or> List.last base = 47 then base @ name else base @ str ''/'' @ name)"

definition default_kasia_indexer_db_root :: "rstr option \<Rightarrow> rstr res" where
  "default_kasia_indexer_db_root home =
     (case home of None \<Rightarrow> Panics ''unwrap on a None value'' | Some h \<Rightarrow> Ok (path_join h (str ''.kasia-indexer'')))"

definition setting :: "environment \<Rightarrow> string \<Rightarrow> 'a res \<Rightarrow> (rstr \<Rightarrow> 'a option) \<Rightarrow> 'a res" where
  "setting var key fallback parse =
     (case var key of
        None \<Rightarrow> fallback
      | Some v \<Rightarrow> (case parse v of None \<Rightarrow> Err ''invalid value'' | Some x \<Rightarrow> Ok x))"

definition get_indexer_config :: "environment \<Rightarrow> rstr option \<Rightarrow> (rstr \<Rightarrow> network_type option) \<Rightarrow> indexer_config res" where
  "get_indexer_config var home parse_network =
     rbind (setting var ''KASIA_INDEXER_DB_ROOT'' (default_kasia_indexer_db_root home) Some) (\<lambda>db_root.
     rbind (setting var ''NETWORK_TYPE'' (Ok default_network_type) parse_network) (\<lambda>network.
     rbind (setting var ''INDEXER_PRUNING_DEPTH'' (Ok default_indexer_pruning_depth) parse_u64) (\<lambda>depth.
     rbind (setting var ''PERIODIC_PROCESSOR_INTERVAL_SECS'' (Ok default_periodic_processor_interval_secs) parse_u64) (\<lambda>interval.
     Ok \<lparr>ic_kasia_indexer_db_root = db_root, ic_network_type = network, ic_kaspa_node_wborsh_url = var ''KASPA_NODE_WBORSH_URL'',
         ic_indexer_pruning_depth = depth, ic_periodic_processor_interval_secs = interval\<rparr>))))"

record node_options =
  no_url :: "rstr option"
  no_resolver :: bool
  no_network :: network_type
  no_suffix :: "nat option"

record indexer_context =
  ix_config :: indexer_config
  ix_db_path :: rstr
  ix_log_path :: rstr
  ix_network_type :: network_type
  ix_rpc_client :: node_options

definition context_rpc_client :: "(node_options \<Rightarrow> bool) \<Rightarrow> indexer_config \<Rightarrow> node_options res" where
  "context_rpc_client client_ok config =
     (let network = ic_network_type config;
          url = ic_kaspa_node_wborsh_url config;
          options = \<lparr>no_url = url, no_resolver = (url = None), no_network = network,
            no_suffix = (if network = Mainnet then None else Some 10)\<rparr>
      in if client_ok options then Ok options else Err ''Failed to create RPC client'')"

definition get_indexer_context ::
    "(network_type \<Rightarrow> rstr) \<Rightarrow> (rstr \<Rightarrow> bool) \<Rightarrow> (node_options \<Rightarrow> bool) \<Rightarrow> indexer_config \<Rightarrow> indexer_context res" where
  "get_indexer_context network_name create_dir_all client_ok config =
     (let db_path = path_join (ic_kasia_indexer_db_root config) (network_name (ic_network_type config));
          log_path = path_join db_path (str ''app_logs'') in
      if \<not> create_dir_all log_path then Err ''create log directory''
      else rbind (context_rpc_client client_ok config) (\<lambda>rpc_client.
        Ok \<lparr>ix_config = config, ix_db_path = db_path, ix_log_path = log_path, ix_network_type = ic_network_type config,
            ix_rpc_client = rpc_client\<rparr>))"

section \<open>What is read at the start\<close>

definition compact_header_of_key :: "daa_index_key \<Rightarrow> compact_header" where
  "compact_header_of_key k =
     \<lparr>ch_block_hash = dk_block_hash k, ch_blue_work = from_be_bytes (list_of (dk_blue_work k)), ch_daa_score = dk_daa_score k\<rparr>"

text \<open>The newest blocks of the index, from the newest on, up to the capacity of the chain processor.\<close>

definition startup_blocks :: "nat \<Rightarrow> db \<Rightarrow> compact_header list res" where
  "startup_blocks capacity d =
     rmap (\<lambda>r. rbind r (\<lambda>k. Ok (compact_header_of_key k))) (take capacity (rev (iter_lt d (- 1))))"

definition startup_metrics :: "(part \<Rightarrow> db \<Rightarrow> nat) \<Rightarrow> (hash \<Rightarrow> string) \<Rightarrow> db \<Rightarrow> indexer_metrics res" where
  "startup_metrics approximate hex_64 d =
     rbind (get_latest_block_cursor_rtx d) (\<lambda>block.
     rbind (get_latest_accepting_block_cursor d) (\<lambda>accepting.
     Ok (from_snapshot
       \<lparr>snap_handshakes_by_sender = word_of_nat (approximate PHandshakeBySender d),
        snap_uniq_handshakes_by_receiver = word_of_nat (approximate PTxIdToHandshake d),
        snap_payments_by_sender = word_of_nat (approximate PPaymentBySender d),
        snap_uniq_payments_by_receiver = word_of_nat (approximate PTxIdToPayment d),
        snap_contextual_messages = word_of_nat (contextual_len d), snap_blocks_processed = word_of_nat (compact_header_len d),
        snap_latest_block = hex_64 (case block of Some b \<Rightarrow> b | None \<Rightarrow> of_list []),
        snap_latest_accepting_block = hex_64 (cur_block_hash (case accepting of Some c \<Rightarrow> c | None \<Rightarrow> cursor_default)),
        snap_unknown_sender_entries = word_of_nat (pending_len d), snap_resolved_senders = 0, snap_pruned_blocks = 0\<rparr>)))"

text \<open>Migration, the stored gaps, the counters and the state of the chain processor, in the order of the source.\<close>

definition start_up ::
    "(daa_index_key_v0 list \<Rightarrow> daa_index_key_v0 list) \<Rightarrow> (part \<Rightarrow> db \<Rightarrow> nat) \<Rightarrow> (hash \<Rightarrow> string) \<Rightarrow> indexer_config \<Rightarrow> db \<Rightarrow>
     db \<times> (block_gap list \<times> vcp_state) res" where
  "start_up sched approximate hex_64 config d =
     (case apply_migrations sched d of
        (d', Inl e) \<Rightarrow> (d', Inl e)
      | (d', Inr _) \<Rightarrow>
          (d', rbind (rmap (\<lambda>r. r) (get_all_gaps d')) (\<lambda>gaps.
               rbind (startup_metrics approximate hex_64 d') (\<lambda>metrics.
               rbind (startup_blocks (unat (ic_indexer_pruning_depth config)) d') (\<lambda>blocks.
               Ok (gaps, vcp_initial blocks False d' metrics))))))"

section \<open>Shutdown\<close>

datatype supervised = ApiServer | DataSourceTask | TickerTask

datatype first_stop = Signal | Stopped supervised

text \<open>Whichever ends first, the others are told to stop.\<close>

definition shutdown_targets :: "first_stop \<Rightarrow> supervised list" where
  "shutdown_targets reason =
     (case reason of
        Signal \<Rightarrow> [ApiServer, DataSourceTask, TickerTask]
      | Stopped ApiServer \<Rightarrow> [DataSourceTask, TickerTask]
      | Stopped DataSourceTask \<Rightarrow> [ApiServer, TickerTask]
      | Stopped TickerTask \<Rightarrow> [ApiServer, DataSourceTask])"

section \<open>A restart\<close>

lemma rmap_Ok: "rmap (\<lambda>r. rbind r (\<lambda>k. Ok (f k))) (map Ok ks) = Ok (map f ks)"
  by (induction ks) simp_all

lemma fold_ring_insert:
  assumes "distinct (map fst ps @ map key xs)"
  shows "fold (\<lambda>x. ring_insert (key x) (val x)) xs ps = ps @ map (\<lambda>x. (key x, val x)) xs"
  using assms
proof (induction xs arbitrary: ps)
  case (Cons x xs)
  then have "ring_insert (key x) (val x) ps = ps @ [(key x, val x)]"
    by (auto simp: ring_insert_def)
  then show ?case
    using Cons.IH [of "ps @ [(key x, val x)]"] Cons.prems by auto
qed simp

text \<open>
  C8. After a restart the chain processor knows the newest blocks of the index, as many as its
  capacity, in the order of their DAA scores with the newest last, which is the one it forgets last;
  with room for all of them it knows exactly the blocks that were processed before and not pruned.
  A block is indexed once, and the score with all bits set is not used.
\<close>

theorem restart_knows_blocks:
  assumes wf: "wf_daa_index d"
    and once: "\<And>k k'. tget (d PDaaIndex) (daa_key_bytes k) \<noteq> None \<Longrightarrow> tget (d PDaaIndex) (daa_key_bytes k') \<noteq> None \<Longrightarrow>
      dk_block_hash k = dk_block_hash k' \<Longrightarrow> k = k'"
  shows "\<exists>blocks ks. startup_blocks capacity d = Ok blocks \<and>
    set ks = {k. tget (d PDaaIndex) (daa_key_bytes k) \<noteq> None \<and> dk_daa_score k < - 1} \<and>
    distinct ks \<and> sorted (map dk_daa_score ks) \<and>
    processed_blocks (vcp_initial blocks False d m) =
      map (\<lambda>k. (dk_block_hash k, dk_daa_score k, from_be_bytes (list_of (dk_blue_work k)))) (drop (length ks - capacity) ks)"
proof -
  define ks where "ks = daa_keys_lt d (- 1)"
  have ks: "set ks = {k. tget (d PDaaIndex) (daa_key_bytes k) \<noteq> None \<and> dk_daa_score k < - 1}" "distinct ks"
    unfolding ks_def using set_daa_keys_lt [OF wf] distinct_daa_keys_lt [OF wf] by simp_all
  have sorted: "sorted (map dk_daa_score ks)"
    unfolding ks_def sorted_map
    by (rule sorted_wrt_mono_rel [OF _ sorted_daa_keys_lt [OF wf]]) (simp add: daa.stamp_mono)
  let ?last = "drop (length ks - capacity) ks"
  have "take capacity (rev (iter_lt d (- 1))) = map Ok (rev ?last)"
    by (simp add: iter_lt_keys [OF wf] ks_def [symmetric] take_rev drop_map flip: rev_map)
  then have blocks: "startup_blocks capacity d = Ok (rev (map compact_header_of_key ?last))"
    by (simp add: startup_blocks_def rmap_Ok rev_map)
  have "inj_on dk_block_hash (set ks)"
    using once ks(1) by (auto intro: inj_onI)
  then have "distinct (map dk_block_hash ?last)"
    using ks(2) by (auto simp: distinct_map intro: inj_on_subset dest: in_set_dropD)
  then have "processed_blocks (vcp_initial (rev (map compact_header_of_key ?last)) False d m) =
      map (\<lambda>k. (dk_block_hash k, dk_daa_score k, from_be_bytes (list_of (dk_blue_work k)))) ?last"
    using fold_ring_insert [of "[]" ch_block_hash "map compact_header_of_key ?last" "\<lambda>ch. (ch_daa_score ch, ch_blue_work ch)"]
    by (simp add: vcp_initial_def initial_blocks_def compact_header_of_key_def comp_def)
  then show ?thesis
    using blocks ks sorted by blast
qed

definition indexed_db :: db where
  "indexed_db = daa_index_insert 9 (of_list [1]) (of_list []) (daa_index_insert 3 (of_list [2]) (of_list []) (\<lambda>_. tempty))"

lemma indexed_db_keys:
  "tget (indexed_db PDaaIndex) (daa_key_bytes k) \<noteq> None \<longleftrightarrow>
     k = make_key 9 (of_list [1]) (of_list []) \<or> k = make_key 3 (of_list [2]) (of_list [])"
  by (auto simp: indexed_db_def daa_index_insert_def daa.enc_inject split: if_splits)

theorem restart_knows_blocks_witness:
  "\<exists>blocks. startup_blocks 1 indexed_db = Ok blocks \<and>
     map fst (processed_blocks (vcp_initial blocks False indexed_db (metrics_new []))) = [of_list [1]]"
proof -
  have wf: "wf_daa_index indexed_db"
    unfolding indexed_db_def by (intro wf_daa_index_insert) (simp add: wf_daa_index_def)
  have hashes: "(of_list [1] :: hash) \<noteq> of_list [2]"
    by (simp flip: list_of_eq_iff)
  then have once: "k = k'" if "tget (indexed_db PDaaIndex) (daa_key_bytes k) \<noteq> None" "tget (indexed_db PDaaIndex) (daa_key_bytes k') \<noteq> None"
      "dk_block_hash k = dk_block_hash k'" for k k'
    using that unfolding indexed_db_keys by (auto simp: make_key_def)
  obtain blocks ks where b: "startup_blocks 1 indexed_db = Ok blocks"
      "set ks = {k. tget (indexed_db PDaaIndex) (daa_key_bytes k) \<noteq> None \<and> dk_daa_score k < - 1}" "distinct ks" "sorted (map dk_daa_score ks)"
      "processed_blocks (vcp_initial blocks False indexed_db (metrics_new [])) =
        map (\<lambda>k. (dk_block_hash k, dk_daa_score k, from_be_bytes (list_of (dk_blue_work k)))) (drop (length ks - 1) ks)"
    using restart_knows_blocks [OF wf once, of 1 "metrics_new []"] by blast
  let ?a = "make_key 9 (of_list [1]) (of_list [])" and ?b = "make_key 3 (of_list [2]) (of_list [])"
  have small: "dk_daa_score ?a < - 1" "dk_daa_score ?b < - 1" and "?a \<noteq> ?b"
    by (simp_all add: make_key_def)
  have keys: "set ks = {?a, ?b}"
    unfolding b(2) indexed_db_keys using small by blast
  have "length ks = 2"
    using b(3) distinct_card [of ks] \<open>?a \<noteq> ?b\<close> by (simp add: keys)
  then obtain x y where "ks = [x, y]"
    by (auto simp: length_Suc_conv numeral_2_eq_2)
  then have "ks = [?b, ?a]"
    using keys \<open>?a \<noteq> ?b\<close> b(4) by (auto simp: make_key_def doubleton_eq_iff)
  then show ?thesis
    using b(1,5) by (simp add: make_key_def)
qed

end
