(* ===== verification/Gift_Attest.thy ===== *)
theory Gift_Attest
  imports Rust_Text
begin

text \<open>
  The proofs a gift claim carries (\<^verbatim>\<open>indexer/src/gift.rs\<close>): the Apple App Attest object, the
  Android local proof, and the answers of Apple's DeviceCheck service. The decoders the source
  takes from other crates (base64, JSON, CBOR, X.509, SHA-256) are the fields of \<open>gift_lib\<close>.
\<close>

section \<open>Decoded values\<close>

datatype cbor =
    CborNull
  | CborBool bool
  | CborInteger int
  | CborFloat u64
  | CborBytes bytes
  | CborText rstr
  | CborArray "cbor list"
  | CborMap "(cbor \<times> cbor) list"
  | CborTag u64 cbor

record gift_lib =
  unicode :: "rstr \<Rightarrow> rstr"
  sha256 :: "bytes \<Rightarrow> hash"
  b64_standard :: "rstr \<Rightarrow> bytes option"
  b64_url_safe_no_pad :: "rstr \<Rightarrow> bytes option"
  b64_url_safe :: "rstr \<Rightarrow> bytes option"
  json_from_slice :: "bytes \<Rightarrow> json option"
  cbor_from_slice :: "bytes \<Rightarrow> cbor option"
  x509_extensions :: "bytes \<Rightarrow> (rstr \<times> bytes) list option"

definition sha256_hex :: "('x) gift_lib_scheme \<Rightarrow> bytes \<Rightarrow> rstr" where
  "sha256_hex L input = hex (list_of (sha256 L input))"

lemma length_sha256_hex [simp]: "length (sha256_hex L input) = 64"
  by (simp add: sha256_hex_def)

section \<open>App Attest\<close>

record app_attest_verifier =
  expected_app_id_hash :: hash
  expected_aaguids :: "16 arr list"

record parsed_app_attestation =
  pa_auth_data :: bytes
  leaf_certificate_der :: bytes

record parsed_auth_data =
  rp_id_hash :: hash
  sign_count :: u32
  aaguid :: "16 arr"
  credential_id :: bytes

definition bytes_of_text :: "string \<Rightarrow> bytes" where
  "bytes_of_text s = map of_char s"

definition aaguid_production :: "16 arr" where
  "aaguid_production = of_list (bytes_of_text ''appattest'' @ replicate 7 0)"

definition aaguid_development :: "16 arr" where
  "aaguid_development = of_list (bytes_of_text ''appattestdevelop'')"

definition is_probable_app_attest_aaguid :: "16 arr \<Rightarrow> bool" where
  "is_probable_app_attest_aaguid a \<longleftrightarrow> prefix (bytes_of_text ''appattest'') (list_of a)"

fun expect_cbor_map :: "string \<Rightarrow> cbor \<Rightarrow> (cbor \<times> cbor) list res" where
  "expect_cbor_map field (CborMap m) = Ok m"
| "expect_cbor_map field _ = Err (field @ '' must be a CBOR map'')"

fun expect_cbor_array :: "string \<Rightarrow> cbor option \<Rightarrow> cbor list res" where
  "expect_cbor_array field (Some (CborArray vs)) = Ok vs"
| "expect_cbor_array field _ = Err (field @ '' must be a CBOR array'')"

fun expect_cbor_bytes :: "string \<Rightarrow> cbor option \<Rightarrow> bytes res" where
  "expect_cbor_bytes field (Some (CborBytes bs)) = Ok bs"
| "expect_cbor_bytes field _ = Err (field @ '' must be CBOR bytes'')"

fun expect_cbor_text :: "string \<Rightarrow> cbor option \<Rightarrow> rstr res" where
  "expect_cbor_text field (Some (CborText t)) = Ok t"
| "expect_cbor_text field _ = Err (field @ '' must be CBOR text'')"

definition cbor_get :: "(cbor \<times> cbor) list \<Rightarrow> string \<Rightarrow> cbor option" where
  "cbor_get m key = map_of m (CborText (str key))"

definition parse_app_attestation_object ::
    "('x) gift_lib_scheme \<Rightarrow> bytes \<Rightarrow> parsed_app_attestation res" where
  "parse_app_attestation_object L attestation =
     rbind (ok_or (Failure ''attestation payload is not valid CBOR'') (cbor_from_slice L attestation)) (\<lambda>parsed.
     rbind (expect_cbor_map ''attestation'' parsed) (\<lambda>parsed_map.
     rbind (expect_cbor_text ''fmt'' (cbor_get parsed_map ''fmt'')) (\<lambda>fmt.
     if fmt \<noteq> str ''apple-appattest'' then Err ''unexpected attestation format''
     else
     rbind (expect_cbor_bytes ''authData'' (cbor_get parsed_map ''authData'')) (\<lambda>auth_data.
     rbind (ok_or (Failure ''attestation statement is missing'') (cbor_get parsed_map ''attStmt'')) (\<lambda>att_stmt_value.
     rbind (expect_cbor_map ''attStmt'' att_stmt_value) (\<lambda>att_stmt.
     rbind (expect_cbor_array ''x5c'' (cbor_get att_stmt ''x5c'')) (\<lambda>x5c.
       case x5c of
         CborBytes leaf # _ \<Rightarrow> Ok \<lparr>pa_auth_data = auth_data, leaf_certificate_der = leaf\<rparr>
       | _ \<Rightarrow> Err ''attestation certificate chain is missing'')))))))"

unbundle bit_operations_syntax

definition parse_auth_data :: "bytes \<Rightarrow> parsed_auth_data res" where
  "parse_auth_data auth_data =
     (if length auth_data < 32 + 1 + 4 + 16 + 2 then Err ''authData is too short''
      else
      rbind (slice 0 32 auth_data) (\<lambda>rp.
      rbind (index_at auth_data 32) (\<lambda>flags.
      if flags AND 0x40 = 0 then Err ''attested credential data is missing''
      else
      rbind (slice 33 37 auth_data) (\<lambda>count.
      rbind (slice 37 53 auth_data) (\<lambda>guid.
      rbind (slice 53 55 auth_data) (\<lambda>len.
      let credential_id_len = unat (from_be_bytes len :: 16 word) in
      if length auth_data < 55 + credential_id_len
      then Err ''credential id length exceeds authData size''
      else
      rbind (slice 55 (55 + credential_id_len) auth_data) (\<lambda>cid.
      if cid = [] then Err ''credential id is empty''
      else Ok \<lparr>rp_id_hash = of_list rp, sign_count = from_be_bytes count, aaguid = of_list guid,
               credential_id = cid\<rparr>)))))))"

fun first_some :: "('a \<Rightarrow> 'b option) \<Rightarrow> 'a list \<Rightarrow> 'b option" where
  "first_some f [] = None"
| "first_some f (x # xs) = (case f x of Some y \<Rightarrow> Some y | None \<Rightarrow> first_some f xs)"

text \<open>
  The body of the loop at an index within the value; every access is within the length that
  its condition tests first.
\<close>

definition nonce_at :: "bytes \<Rightarrow> nat \<Rightarrow> hash option" where
  "nonce_at v i =
     (if v ! i \<noteq> 0x04 then None
      else if i + 34 \<le> length v \<and> v ! (i + 1) = 0x20 then Some (of_list (take 32 (drop (i + 2) v)))
      else if i + 35 \<le> length v \<and> v ! (i + 1) = 0x81 \<and> v ! (i + 2) = 0x20
      then Some (of_list (take 32 (drop (i + 3) v)))
      else if i + 36 \<le> length v \<and> v ! (i + 1) = 0x82 \<and> v ! (i + 2) = 0 \<and> v ! (i + 3) = 0x20
      then Some (of_list (take 32 (drop (i + 4) v)))
      else None)"

definition extract_nonce_from_der_extension :: "bytes \<Rightarrow> hash option" where
  "extract_nonce_from_der_extension v =
     (if length v = 32 then Some (of_list v) else first_some (nonce_at v) [0..<length v])"

definition decode_base64_any :: "('x) gift_lib_scheme \<Rightarrow> rstr \<Rightarrow> bytes option" where
  "decode_base64_any L v =
     (let t = trim v in
      if t = [] then None
      else case b64_standard L t of
          Some bs \<Rightarrow> Some bs
        | None \<Rightarrow> (case b64_url_safe_no_pad L t of Some bs \<Rightarrow> Some bs | None \<Rightarrow> b64_url_safe L t))"

definition nonce_oid :: rstr where
  "nonce_oid = str ''1.2.840.113635.100.8.2''"

definition verify_attestation ::
    "('x) gift_lib_scheme \<Rightarrow> app_attest_verifier \<Rightarrow> bytes \<Rightarrow> rstr \<Rightarrow> rstr \<Rightarrow> unit res" where
  "verify_attestation L self attestation key_id challenge =
     rbind (parse_app_attestation_object L attestation) (\<lambda>parsed.
     rbind (parse_auth_data (pa_auth_data parsed)) (\<lambda>auth_data.
     if rp_id_hash auth_data \<noteq> expected_app_id_hash self then Err ''rpId hash mismatch''
     else if sign_count auth_data \<noteq> 0 then Err ''invalid attestation sign counter''
     else if aaguid auth_data \<notin> set (expected_aaguids self) \<and> \<not> is_probable_app_attest_aaguid (aaguid auth_data)
     then Err ''unexpected app attest environment''
     else
     rbind (ok_or (Failure ''key id is not valid base64/base64url'') (decode_base64_any L key_id)) (\<lambda>key_id_bytes.
     if key_id_bytes \<noteq> credential_id auth_data then Err ''key id does not match attested credential id''
     else
     rbind (ok_or (Failure ''failed to parse app attest leaf certificate'')
              (x509_extensions L (leaf_certificate_der parsed))) (\<lambda>extensions.
     rbind (ok_or (Failure ''app attest nonce extension is missing'')
              (find (\<lambda>(oid, _). oid = nonce_oid) extensions)) (\<lambda>nonce_extension.
     rbind (ok_or (Failure ''failed to parse app attest nonce extension'')
              (extract_nonce_from_der_extension (snd nonce_extension))) (\<lambda>certificate_nonce.
     let expected_nonce =
           sha256 L (pa_auth_data parsed @ list_of (sha256 L (utf8 challenge)))
     in if certificate_nonce \<noteq> expected_nonce then Err ''attestation nonce mismatch'' else Ok ()))))))"

section \<open>Android\<close>

definition bad_request :: "string \<Rightarrow> api_error" where
  "bad_request = ApiError BadRequest"

definition validate_base64_blob :: "('x) gift_lib_scheme \<Rightarrow> string \<Rightarrow> rstr \<Rightarrow> bytes api" where
  "validate_base64_blob L message v =
     (let t = trim v in
      if t = [] then Inl (bad_request message) else ok_or (bad_request message) (b64_standard L t))"

definition json_string :: "json \<Rightarrow> string \<Rightarrow> rstr option" where
  "json_string payload key =
     (case json_get payload (str key) of
        None \<Rightarrow> None
      | Some v \<Rightarrow> map_option (\<lambda>s. hd (split_at (\<lambda>c. c = 0) (trim s))) (as_str v))"

definition require_json_string :: "json \<Rightarrow> string \<Rightarrow> rstr \<Rightarrow> string \<Rightarrow> unit api" where
  "require_json_string payload key expected message =
     abind (ok_or (bad_request message) (json_string payload key)) (\<lambda>v.
       if v = expected then Inr () else Inl (bad_request message))"

definition parse_android_json :: "('x) gift_lib_scheme \<Rightarrow> bytes \<Rightarrow> string \<Rightarrow> json api" where
  "parse_android_json L bs message = ok_or (bad_request message) (json_from_slice L bs)"

definition android_local_proof_schema :: rstr where
  "android_local_proof_schema = str ''kbeam-android-local-proof-v1''"

definition android_device_schema :: rstr where
  "android_device_schema = str ''kbeam-android-gift-device-v1''"

definition verify_android_local_proof ::
    "('x) gift_lib_scheme \<Rightarrow> bytes \<Rightarrow> bytes \<Rightarrow> rstr \<Rightarrow> rstr \<Rightarrow> rstr \<Rightarrow> rstr api" where
  "verify_android_local_proof L device_token attestation key_id challenge wallet_address =
     abind (parse_android_json L device_token ''invalid Android device token'') (\<lambda>device.
     abind (parse_android_json L attestation ''invalid Android attestation'') (\<lambda>proof.
     abind (require_json_string device ''platform'' (str ''android'') ''invalid Android device platform'') (\<lambda>_.
     abind (require_json_string device ''schema'' android_device_schema ''invalid Android device schema'') (\<lambda>_.
     abind (require_json_string proof ''platform'' (str ''android'') ''invalid Android attestation platform'') (\<lambda>_.
     abind (require_json_string proof ''schema'' android_local_proof_schema ''invalid Android attestation schema'') (\<lambda>_.
     abind (ok_or (bad_request ''missing Android package name'') (json_string device ''packageName'')) (\<lambda>package_name.
     abind (require (package_name = str ''com.kbeam.android'') (bad_request ''invalid Android package name'')) (\<lambda>_.
     abind (require_json_string proof ''packageName'' package_name ''Android attestation package mismatch'') (\<lambda>_.
     abind (ok_or (bad_request ''missing Android challenge hash'') (json_string proof ''challengeSha256'')) (\<lambda>challenge_hash.
     abind (require (challenge_hash = sha256_hex L (utf8 challenge)) (bad_request ''Android challenge hash mismatch'')) (\<lambda>_.
     abind (ok_or (bad_request ''missing Android wallet hash'') (json_string device ''walletAddressSha256'')) (\<lambda>wallet_hash.
     abind (require (wallet_hash = sha256_hex L (utf8 wallet_address)) (bad_request ''Android wallet hash mismatch'')) (\<lambda>_.
     abind (ok_or (bad_request ''missing Android installation id'') (json_string device ''installationId'')) (\<lambda>installation_id.
     abind (require (16 \<le> byte_len installation_id) (bad_request ''invalid Android installation id'')) (\<lambda>_.
     abind (ok_or (bad_request ''missing Android id hash'') (json_string device ''androidIdSha256'')) (\<lambda>android_id_hash.
     abind (require (byte_len android_id_hash = 64 \<and> list_all is_ascii_hexdigit android_id_hash)
              (bad_request ''invalid Android id hash'')) (\<lambda>_.
     abind (require (key_id = str ''android-local-proof-v1:'' @
                       take 24 (sha256_hex L (utf8 (installation_id @ str '':'' @ challenge_hash))))
              (bad_request ''Android proof key id mismatch'')) (\<lambda>_.
     Inr (sha256_hex L (utf8 (package_name @ str '':'' @ android_id_hash @ str '':'' @ installation_id)))))))))))))))))))))"

section \<open>DeviceCheck\<close>

definition parse_devicecheck_bit0_token :: "rstr \<Rightarrow> bool res" where
  "parse_devicecheck_bit0_token token =
     (let t = to_ascii_lowercase (trim token) in
      if t = str ''0'' \<or> t = str ''false'' then Ok False
      else if t = str ''1'' \<or> t = str ''true'' then Ok True
      else if t = str ''0.0'' then Ok False
      else if t = str ''1.0'' then Ok True
      else Err ''DeviceCheck bit0 token must be true/false/0/1'')"

text \<open>
  \<^verbatim>\<open>as_i64\<close> answers for integers in the range of \<^verbatim>\<open>i64\<close>; every number has a float value, exact
  where it is compared.
\<close>

fun as_i64 :: "json_number \<Rightarrow> int option" where
  "as_i64 (PosInt n) = (if unat n < 2 ^ 63 then Some (uint n) else None)"
| "as_i64 (NegInt i) = Some i"
| "as_i64 (Float _) = None"

fun as_f64 :: "json_number \<Rightarrow> rat" where
  "as_f64 (PosInt n) = of_nat (unat n)"
| "as_f64 (NegInt i) = of_int i"
| "as_f64 (Float q) = q"

definition parse_devicecheck_bit0_number :: "json_number \<Rightarrow> bool res" where
  "parse_devicecheck_bit0_number v =
     (case as_i64 v of
        Some i \<Rightarrow> if i = 0 then Ok False else if i = 1 then Ok True
                  else Err ''DeviceCheck bit0 number must be 0 or 1''
      | None \<Rightarrow>
          if \<bar>as_f64 v - 0\<bar> < 1 / 2 ^ 52 then Ok False
          else if \<bar>as_f64 v - 1\<bar> < 1 / 2 ^ 52 then Ok True
          else Err ''DeviceCheck bit0 float number must be 0 or 1'')"

definition parse_devicecheck_bit0_from_json_value :: "json \<Rightarrow> bool res" where
  "parse_devicecheck_bit0_from_json_value payload =
     (case json_get payload (str ''bit0'') of
        None \<Rightarrow> Ok False
      | Some JsonNull \<Rightarrow> Ok False
      | Some (JsonBool b) \<Rightarrow> Ok b
      | Some (JsonNumber n) \<Rightarrow> parse_devicecheck_bit0_number n
      | Some (JsonString s) \<Rightarrow> parse_devicecheck_bit0_token (trim s)
      | Some _ \<Rightarrow> Err ''DeviceCheck bit0 has unsupported JSON type'')"

definition find_char :: "rchar \<Rightarrow> rstr \<Rightarrow> nat option" where
  "find_char c s = find_str [c] s"

definition rfind_char :: "rchar \<Rightarrow> rstr \<Rightarrow> nat option" where
  "rfind_char c s = map_option (\<lambda>i. length s - 1 - i) (find_str [c] (rev s))"

definition extract_first_json_object :: "rstr \<Rightarrow> rstr option" where
  "extract_first_json_object body =
     (case (find_char 123 body, rfind_char 125 body) of
        (Some start, Some end_) \<Rightarrow>
          if end_ \<le> start then None else Some (take (end_ + 1 - start) (drop start body))
      | _ \<Rightarrow> None)"

definition trim_matches :: "(rchar \<Rightarrow> bool) \<Rightarrow> rstr \<Rightarrow> rstr" where
  "trim_matches p s = rev (dropWhile p (rev (dropWhile p s)))"

definition ok :: "'a res \<Rightarrow> 'a option" where
  "ok r = (case r of Inl _ \<Rightarrow> None | Inr x \<Rightarrow> Some x)"

definition extract_bit0_from_text :: "rstr \<Rightarrow> bool option" where
  "extract_bit0_from_text body =
     (let lowercased = to_ascii_lowercase body in
      case find_str (str ''bit0'') lowercased of
        None \<Rightarrow> None
      | Some position \<Rightarrow>
          (case trim_start (drop (position + 4) lowercased) of
             [] \<Rightarrow> None
           | separator # remaining \<Rightarrow>
               if separator = 58 \<or> separator = 61
               then ok (parse_devicecheck_bit0_token
                      (hd (split_at (\<lambda>c. is_whitespace c \<or> c = 44 \<or> c = 125 \<or> c = 93)
                            (trim_matches (\<lambda>c. c = 34 \<or> c = 39) (trim_start remaining)))))
               else None))"

definition is_missing_devicecheck_bit_state_response :: "rstr \<Rightarrow> bool" where
  "is_missing_devicecheck_bit_state_response body \<longleftrightarrow>
     find_str (str ''failed to find bit state'') (to_ascii_lowercase body) \<noteq> None"

definition json_from_str :: "('x) gift_lib_scheme \<Rightarrow> rstr \<Rightarrow> json option" where
  "json_from_str L s = json_from_slice L (utf8 s)"

definition parse_devicecheck_query_bit0 :: "('x) gift_lib_scheme \<Rightarrow> rstr \<Rightarrow> bool res" where
  "parse_devicecheck_query_bit0 L body =
     (let trimmed = trim body in
      if trimmed = [] then Err ''DeviceCheck query response is empty''
      else case json_from_str L trimmed of
        Some payload \<Rightarrow> parse_devicecheck_bit0_from_json_value payload
      | None \<Rightarrow>
      (case Option.bind (extract_first_json_object trimmed) (json_from_str L) of
        Some payload \<Rightarrow> parse_devicecheck_bit0_from_json_value payload
      | None \<Rightarrow>
      (case extract_bit0_from_text trimmed of
        Some extracted_bit0 \<Rightarrow> Ok extracted_bit0
      | None \<Rightarrow>
          if is_missing_devicecheck_bit_state_response trimmed then Ok False
          else Err ''DeviceCheck query response is not parseable'')))"

text \<open>The client, and the answers of the two hosts to one query or one update.\<close>

record devicecheck_client =
  dc_host :: rstr
  dc_secondary_host :: "rstr option"

record apple =
  auth_token :: "unit res"
  query_two_bits :: "rstr \<Rightarrow> http_outcome"
  update_two_bits :: "rstr \<Rightarrow> http_outcome"

definition host_candidates :: "devicecheck_client \<Rightarrow> rstr list" where
  "host_candidates self = dc_host self # (case dc_secondary_host self of None \<Rightarrow> [] | Some h \<Rightarrow> [h])"

text \<open>
  The loop over the hosts, from the attempt \<open>i\<close> on; the other host is tried after the first
  attempt only, on a transport error and on the statuses 400 and 401.
\<close>

fun attempt_hosts ::
    "bool \<Rightarrow> (rstr \<Rightarrow> http_outcome) \<Rightarrow> (rstr option \<Rightarrow> 'a res) \<Rightarrow> nat \<Rightarrow> rstr list \<Rightarrow> 'a res" where
  "attempt_hosts has_secondary post decode i [] = Err ''DeviceCheck failed after host fallback''"
| "attempt_hosts has_secondary post decode i (host # hosts) =
     (case post host of
        TransportError \<Rightarrow>
          if i = 0 \<and> has_secondary then attempt_hosts has_secondary post decode (i + 1) hosts
          else Err ''failed to call DeviceCheck''
      | HttpResponse status body \<Rightarrow>
          if is_success status then decode body
          else if i = 0 \<and> has_secondary \<and> (status = 400 \<or> status = 401)
          then attempt_hosts has_secondary post decode (i + 1) hosts
          else if status = 401 then Err ''DeviceCheck auth rejected''
          else Err ''DeviceCheck failed'')"

definition query_bit0 :: "('x) gift_lib_scheme \<Rightarrow> devicecheck_client \<Rightarrow> apple \<Rightarrow> bool res" where
  "query_bit0 L self a =
     rbind (auth_token a) (\<lambda>_.
       attempt_hosts (dc_secondary_host self \<noteq> None) (query_two_bits a)
         (\<lambda>body. rbind (ok_or (Failure ''failed to read DeviceCheck query response body'') body)
                   (parse_devicecheck_query_bit0 L))
         0 (host_candidates self))"

definition update_bit0_true :: "devicecheck_client \<Rightarrow> apple \<Rightarrow> unit res" where
  "update_bit0_true self a =
     rbind (auth_token a) (\<lambda>_.
       attempt_hosts (dc_secondary_host self \<noteq> None) (update_two_bits a) (\<lambda>_. Ok ())
         0 (host_candidates self))"

section \<open>The authenticator data\<close>

text \<open>The layout of the fields in the authenticator data.\<close>

definition auth_data_bytes :: "parsed_auth_data \<Rightarrow> byte \<Rightarrow> bytes \<Rightarrow> bytes" where
  "auth_data_bytes p flags rest =
     list_of (rp_id_hash p) @ flags # to_be_bytes (sign_count p) @ list_of (aaguid p) @
     to_be_bytes (word_of_nat (length (credential_id p)) :: 16 word) @ credential_id p @ rest"

lemma from_be_bytes_u16 [simp]:
  "n < 65536 \<Longrightarrow> unat (from_be_bytes (to_be_bytes (word_of_nat n :: 16 word)) :: 16 word) = n"
  by (subst from_to_be_bytes) (simp_all add: unat_of_nat take_bit_nat_eq_self)

lemma length_to_be_bytes_u16 [simp]: "length (to_be_bytes (w :: 16 word)) = 2"
  by (simp add: length_to_be_bytes)

lemma parse_auth_data_bytes:
  assumes "flags AND 0x40 \<noteq> 0" "credential_id p \<noteq> []" "length (credential_id p) < 65536"
  shows "parse_auth_data (auth_data_bytes p flags rest) = Ok p"
proof -
  let ?d = "auth_data_bytes p flags rest"
  have len: "length ?d = 55 + length (credential_id p) + length rest"
    by (simp add: auth_data_bytes_def)
  have parts: "take 32 ?d = list_of (rp_id_hash p)" "?d ! 32 = flags"
    "take 4 (drop 33 ?d) = to_be_bytes (sign_count p)"
    "take 16 (drop 37 ?d) = list_of (aaguid p)"
    "take 2 (drop 53 ?d) = to_be_bytes (word_of_nat (length (credential_id p)) :: 16 word)"
    "drop 55 ?d = credential_id p @ rest"
    by (simp_all add: auth_data_bytes_def nth_append)
  show ?thesis
    using assms by (simp add: parse_auth_data_def slice_Ok index_at_def len parts)
qed

lemma parse_auth_data_sound:
  assumes "parse_auth_data d = Ok p"
  shows "\<exists>flags rest. d = auth_data_bytes p flags rest \<and> flags AND 0x40 \<noteq> 0 \<and>
           credential_id p \<noteq> [] \<and> length (credential_id p) < 65536"
proof -
  let ?n = "unat (from_be_bytes (take 2 (drop 53 d)) :: 16 word)"
  have len: "55 \<le> length d" and flag: "d ! 32 AND 0x40 \<noteq> 0" and n: "55 + ?n \<le> length d" "?n \<noteq> 0"
    and p: "p = \<lparr>rp_id_hash = of_list (take 32 d), sign_count = from_be_bytes (take 4 (drop 33 d)),
                 aaguid = of_list (take 16 (drop 37 d)), credential_id = take ?n (drop 55 d)\<rparr>"
    using assms
    by (auto simp: parse_auth_data_def slice_def index_at_def Let_def split: if_splits)
  have n16: "?n < 65536"
    using unsigned_less [of "from_be_bytes (take 2 (drop 53 d)) :: 16 word", where ?'a = nat] by simp
  have "take 1 (drop 32 d) = [d ! 32]"
    using len by (simp add: take_Suc hd_drop_conv_nth)
  then have d: "d = take 32 d @ d ! 32 # take 4 (drop 33 d) @ take 16 (drop 37 d) @ take 2 (drop 53 d) @
                    take ?n (drop 55 d) @ drop (55 + ?n) d"
    using concat_chunks [of "[32, 1, 4, 16, 2, ?n]" d] by (simp add: add.commute)
  have "auth_data_bytes p (d ! 32) (drop (55 + ?n) d) =
          take 32 d @ d ! 32 # take 4 (drop 33 d) @ take 16 (drop 37 d) @ take 2 (drop 53 d) @
          take ?n (drop 55 d) @ drop (55 + ?n) d"
    using len n by (simp add: auth_data_bytes_def p to_from_be_bytes list_of_of_list_exact min_absorb2)
  also have "\<dots> = d"
    by (rule d [symmetric])
  finally have "auth_data_bytes p (d ! 32) (drop (55 + ?n) d) = d" .
  moreover have "credential_id p \<noteq> []" "length (credential_id p) < 65536"
    using n n16 by (simp_all add: p)
  ultimately show ?thesis
    using flag by (intro exI [of _ "d ! 32"] exI [of _ "drop (55 + ?n) d"]) simp
qed


text \<open>
  The authenticator data of an attestation is read exactly when it has the documented
  layout: hash, flags with the bit for attested credential data, counter, AAGUID, and a
  credential identifier of 1 to 65535 bytes with its length; then the fields are the written ones.
\<close>

theorem parse_auth_data_iff:
  "parse_auth_data d = Ok p \<longleftrightarrow>
     (\<exists>flags rest. d = auth_data_bytes p flags rest \<and> flags AND 0x40 \<noteq> 0 \<and>
        credential_id p \<noteq> [] \<and> length (credential_id p) < 65536)"
  using parse_auth_data_bytes parse_auth_data_sound by blast

lemma parse_auth_data_no_panic: "parse_auth_data d \<noteq> Panics m"
  by (auto simp: parse_auth_data_def slice_def index_at_def Let_def split: if_splits)

lemma extract_nonce_apple:
  "extract_nonce_from_der_extension ([0x30, 0x24, 0xA1, 0x22, 0x04, 0x20] @ list_of n) = Some n"
  by (simp add: extract_nonce_from_der_extension_def nonce_at_def upt_rec)

end
