(* ===== verification/Gift_Service.thy ===== *)
theory Gift_Service
  imports Gift_Attest "HOL-Library.AList"
begin

text \<open>
  The gift service (\<^verbatim>\<open>indexer/src/gift.rs\<close>): its configuration, the challenges, the rate
  limit per address of the network, the claims in memory and in their file, and the handler of
  a claim. A hash map is an association list; its order is never observed.
\<close>

section \<open>Configuration\<close>

record gift_config =
  enabled :: bool
  challenge_ttl_ms :: u64
  challenge_skew_ms :: u64
  amount_sompi :: u64
  ip_limit_count :: u64
  ip_limit_window_ms :: u64
  require_appattest :: bool
  appattest_environment :: rstr
  appattest_team_id :: "rstr option"
  appattest_bundle_id :: "rstr option"
  require_devicecheck :: bool
  allow_simulator_claims :: bool
  devicecheck_environment :: rstr
  devicecheck_team_id :: "rstr option"
  devicecheck_key_id :: "rstr option"
  devicecheck_key_path :: "rstr option"
  devicecheck_timeout_ms :: u64
  devicecheck_debug_secret :: "rstr option"
  payout_command :: "rstr option"
  payout_timeout_ms :: u64

definition gift_config_from_env :: "('x) gift_lib_scheme \<Rightarrow> environment \<Rightarrow> gift_config" where
  "gift_config_from_env L var =
     (let or_else = (\<lambda>a b. case a of Some x \<Rightarrow> Some x | None \<Rightarrow> b);
          environment_name = (\<lambda>name. to_lowercase (unicode L) (trim
            (case read_env_string var name of Some v \<Rightarrow> v | None \<Rightarrow> str ''auto'')));
          devicecheck_team = read_env_string var ''GIFT_DEVICECHECK_TEAM_ID''
      in \<lparr>enabled = read_env_bool (unicode L) var ''GIFT_ENABLED'' True,
          challenge_ttl_ms = read_env_u64 var ''GIFT_CHALLENGE_TTL_MS'' 120000,
          challenge_skew_ms = read_env_u64 var ''GIFT_CHALLENGE_SKEW_MS'' 15000,
          amount_sompi = read_env_u64 var ''GIFT_AMOUNT_SOMPI'' 10000000,
          ip_limit_count = read_env_u64 var ''GIFT_IP_RATE_LIMIT_COUNT'' 3,
          ip_limit_window_ms = read_env_u64 var ''GIFT_IP_RATE_LIMIT_WINDOW_MS'' 86400000,
          require_appattest = read_env_bool (unicode L) var ''GIFT_REQUIRE_APPATTEST'' True,
          appattest_environment = environment_name ''GIFT_APPATTEST_ENVIRONMENT'',
          appattest_team_id = or_else (read_env_string var ''GIFT_APPATTEST_TEAM_ID'') devicecheck_team,
          appattest_bundle_id =
            or_else (read_env_string var ''GIFT_APPATTEST_BUNDLE_ID'')
              (read_env_string var ''PUSH_APNS_BUNDLE_ID''),
          require_devicecheck = read_env_bool (unicode L) var ''GIFT_REQUIRE_DEVICECHECK'' True,
          allow_simulator_claims = read_env_bool (unicode L) var ''GIFT_ALLOW_SIMULATOR_CLAIMS'' False,
          devicecheck_environment = environment_name ''GIFT_DEVICECHECK_ENVIRONMENT'',
          devicecheck_team_id = devicecheck_team,
          devicecheck_key_id = read_env_string var ''GIFT_DEVICECHECK_KEY_ID'',
          devicecheck_key_path = read_env_string var ''GIFT_DEVICECHECK_KEY_PATH'',
          devicecheck_timeout_ms = read_env_u64 var ''GIFT_DEVICECHECK_TIMEOUT_MS'' 10000,
          devicecheck_debug_secret = read_env_string var ''GIFT_DEVICECHECK_DEBUG_SECRET'',
          payout_command = read_env_string var ''GIFT_PAYOUT_COMMAND'',
          payout_timeout_ms = read_env_u64 var ''GIFT_PAYOUT_TIMEOUT_MS'' 30000\<rparr>)"

definition app_attest_verifier_from_config ::
    "('x) gift_lib_scheme \<Rightarrow> gift_config \<Rightarrow> bool \<Rightarrow> app_attest_verifier res" where
  "app_attest_verifier_from_config L config mainnet =
     rbind (ok_or (Failure ''GIFT_APPATTEST_TEAM_ID is not set'') (appattest_team_id config)) (\<lambda>team_id.
     rbind (ok_or (Failure ''GIFT_APPATTEST_BUNDLE_ID is not set'') (appattest_bundle_id config)) (\<lambda>bundle_id.
     rbind (let e = appattest_environment config in
            if e = str ''sandbox'' \<or> e = str ''development'' then Ok [aaguid_development]
            else if e = str ''production'' \<or> e = str ''prod'' then Ok [aaguid_production]
            else if e = str ''auto'' then
              (if mainnet then Ok [aaguid_production, aaguid_development]
               else Ok [aaguid_development, aaguid_production])
            else Err ''unsupported GIFT_APPATTEST_ENVIRONMENT value'') (\<lambda>aaguids.
     let app_id = trim team_id @ str ''.'' @ trim bundle_id in
     if trim app_id = [] \<or> find_str (str ''..'') app_id \<noteq> None
     then Err ''invalid App Attest app identifier''
     else Ok \<lparr>expected_app_id_hash = sha256 L (utf8 app_id), expected_aaguids = aaguids\<rparr>)))"

text \<open>
  The client needs a key file that can be read and parsed, and an HTTP client that can be built:
  \<open>key_at\<close> and \<open>client_built\<close> say so.
\<close>

definition devicecheck_client_from_config ::
    "(rstr \<Rightarrow> unit res) \<Rightarrow> unit res \<Rightarrow> gift_config \<Rightarrow> bool \<Rightarrow> devicecheck_client res" where
  "devicecheck_client_from_config key_at client_built config mainnet =
     (let apple_production = str ''https://api.devicecheck.apple.com'';
          apple_development = str ''https://api.development.devicecheck.apple.com''
      in
      rbind (ok_or (Failure ''GIFT_DEVICECHECK_TEAM_ID is not set'') (devicecheck_team_id config)) (\<lambda>_.
      rbind (ok_or (Failure ''GIFT_DEVICECHECK_KEY_ID is not set'') (devicecheck_key_id config)) (\<lambda>_.
      rbind (ok_or (Failure ''GIFT_DEVICECHECK_KEY_PATH is not set'') (devicecheck_key_path config)) (\<lambda>key_path.
      rbind (key_at key_path) (\<lambda>_.
      rbind (let e = devicecheck_environment config in
             if e = str ''sandbox'' \<or> e = str ''development'' then Ok (apple_development, None)
             else if e = str ''production'' \<or> e = str ''prod'' then Ok (apple_production, None)
             else if e = str ''auto'' then
               (if mainnet then Ok (apple_production, Some apple_development)
                else Ok (apple_development, Some apple_production))
             else Err ''unsupported GIFT_DEVICECHECK_ENVIRONMENT value'') (\<lambda>(host, secondary).
      rbind client_built (\<lambda>_. Ok \<lparr>dc_host = host, dc_secondary_host = secondary\<rparr>)))))))"

section \<open>State\<close>

record challenge_entry =
  issued_at_ms :: u64
  expires_at_ms :: u64

datatype gift_claim_status = Reserved | PayoutSubmitted | Completed | Failed | Rejected

record gift_claim_record =
  gc_claim_id :: rstr
  gc_wallet_address :: rstr
  gc_device_fingerprint :: rstr
  gc_tx_id :: "rstr option"
  gc_status :: gift_claim_status
  gc_reason :: "string option"
  gc_amount_sompi :: u64
  gc_source_ip :: "rstr option"
  gc_created_at_ms :: u64
  gc_updated_at_ms :: u64

datatype claims_file = NoFile | Snapshot "gift_claim_record list" | Unreadable

text \<open>
  The service, and what it acts on outside: the file of the claims and the payout commands it
  has run, each with the claim it was for and the transaction it reported.
\<close>

record gift_service =
  gs_config :: gift_config
  claims :: "(rstr \<times> gift_claim_record) list"
  challenges :: "(rstr \<times> challenge_entry) list"
  ip_attempts :: "(rstr \<times> u64 list) list"
  gs_devicecheck_client :: "devicecheck_client option"
  gs_app_attest_verifier :: "app_attest_verifier option"
  claims_path :: claims_file
  payouts :: "(gift_claim_record \<times> rstr \<times> rstr res) list"

fun load_claims :: "claims_file \<Rightarrow> (rstr \<times> gift_claim_record) list res" where
  "load_claims NoFile = Ok []"
| "load_claims Unreadable = Err ''failed to read gift claims''"
| "load_claims (Snapshot rs) = Ok (fold (\<lambda>r. AList.update (gc_claim_id r) r) rs [])"

definition gift_from_context ::
    "('x) gift_lib_scheme \<Rightarrow> environment \<Rightarrow> bool \<Rightarrow> (rstr \<Rightarrow> unit res) \<Rightarrow> unit res \<Rightarrow> claims_file \<Rightarrow> gift_service res" where
  "gift_from_context L var mainnet key_at client_built file =
     (let config = gift_config_from_env L var in
      rbind (load_claims file) (\<lambda>loaded.
        Ok \<lparr>gs_config = config, claims = loaded, challenges = [], ip_attempts = [],
            gs_devicecheck_client = ok (devicecheck_client_from_config key_at client_built config mainnet),
            gs_app_attest_verifier = ok (app_attest_verifier_from_config L config mainnet),
            claims_path = file, payouts = []\<rparr>))"

definition claim_consumes_unique_slot :: "gift_claim_record \<Rightarrow> bool" where
  "claim_consumes_unique_slot c \<longleftrightarrow>
     gc_tx_id c \<noteq> None \<or> gc_status c \<in> {Reserved, PayoutSubmitted, Completed}"

section \<open>Challenges\<close>

record gift_challenge_response =
  gr_challenge :: rstr
  gr_nonce :: rstr
  gr_issued_at_ms :: u64
  gr_expires_at_ms :: u64

definition create_challenge ::
    "u64 \<Rightarrow> rstr \<Rightarrow> gift_service \<Rightarrow> gift_challenge_response api \<times> gift_service" where
  "create_challenge now nonce s =
     (if \<not> enabled (gs_config s)
      then (Inl (ApiError ServiceUnavailable ''gift claim service is disabled''), s)
      else
        let expires = sat_add now (challenge_ttl_ms (gs_config s));
            live = filter (\<lambda>(_, e). sat_sub now (challenge_skew_ms (gs_config s)) \<le> expires_at_ms e)
                     (challenges s)
        in (Inr \<lparr>gr_challenge = nonce, gr_nonce = nonce, gr_issued_at_ms = now, gr_expires_at_ms = expires\<rparr>,
            s\<lparr>challenges := AList.update nonce \<lparr>issued_at_ms = now, expires_at_ms = expires\<rparr> live\<rparr>))"

definition consume_challenge :: "rstr \<Rightarrow> u64 \<Rightarrow> gift_service \<Rightarrow> unit api \<times> gift_service" where
  "consume_challenge challenge now s =
     (let skew = challenge_skew_ms (gs_config s);
          live = filter (\<lambda>(_, e). now \<le> sat_add (expires_at_ms e) skew) (challenges s)
      in case map_of live challenge of
           None \<Rightarrow> (Inl (bad_request ''invalid challenge''), s\<lparr>challenges := live\<rparr>)
         | Some e \<Rightarrow>
             (if sat_add now skew < issued_at_ms e then Inl (bad_request ''challenge not valid yet'')
              else if sat_add (expires_at_ms e) skew < now then Inl (bad_request ''challenge expired'')
              else Inr (),
              s\<lparr>challenges := AList.delete challenge live\<rparr>))"

section \<open>Rate limit\<close>

definition normalize_source_ip :: "rstr option \<Rightarrow> rstr option" where
  "normalize_source_ip v =
     (case v of
        None \<Rightarrow> None
      | Some ip \<Rightarrow> if trim ip = [] then None else Some (trim (hd (split_at (\<lambda>c. c = 44) (trim ip)))))"

definition attempts_of :: "rstr \<Rightarrow> gift_service \<Rightarrow> u64 list" where
  "attempts_of ip s = (case map_of (ip_attempts s) ip of None \<Rightarrow> [] | Some ts \<Rightarrow> ts)"

definition enforce_ip_rate_limit :: "rstr option \<Rightarrow> u64 \<Rightarrow> gift_service \<Rightarrow> unit api \<times> gift_service" where
  "enforce_ip_rate_limit source_ip now s =
     (case source_ip of
        None \<Rightarrow> (Inr (), s)
      | Some ip \<Rightarrow>
          let cutoff = sat_sub now (ip_limit_window_ms (gs_config s));
              records = filter (\<lambda>t. cutoff \<le> t) (attempts_of ip s)
          in if unat (ip_limit_count (gs_config s)) \<le> length records
             then (Inl (ApiError TooManyRequests ''too many gift claims from this IP''),
                   s\<lparr>ip_attempts := AList.update ip records (ip_attempts s)\<rparr>)
             else (Inr (), s\<lparr>ip_attempts := AList.update ip (records @ [now]) (ip_attempts s)\<rparr>))"

section \<open>Payout\<close>

definition sompi_to_kas_decimal :: "u64 \<Rightarrow> rstr" where
  "sompi_to_kas_decimal amount =
     (let whole = unat amount div 100000000; fraction = unat amount mod 100000000
      in if fraction = 0 then decimal whole else decimal whole @ str ''.'' @ pad_zeros 8 (decimal fraction))"

text \<open>
  How the shell command ends: not within the time, with the task or the start of the process
  failing, or with a status and its decoded output. A command that is out of time goes on.
\<close>

datatype process_outcome = TimedOut | TaskFailed | NotStarted | Exited bool rstr

definition strip_cr :: "rstr \<Rightarrow> rstr" where
  "strip_cr l = (if l \<noteq> [] \<and> last l = 13 then butlast l else l)"

definition text_lines :: "rstr \<Rightarrow> rstr list" where
  "text_lines s =
     (let ps = split_at (\<lambda>c. c = 10) s in map strip_cr (if last ps = [] then butlast ps else ps))"

definition payout_shell_command :: "gift_config \<Rightarrow> rstr \<Rightarrow> rstr \<Rightarrow> u64 \<Rightarrow> rstr option" where
  "payout_shell_command config claim_id wallet_address amount =
     map_option
       (\<lambda>template.
          replace_str (str ''{claim_id}'') claim_id
            (replace_str (str ''{amount_kas}'') (sompi_to_kas_decimal amount)
              (replace_str (str ''{sompi}'') (decimal (unat amount))
                (replace_str (str ''{wallet}'') wallet_address template))))
       (payout_command config)"

definition run_payout_command :: "gift_config \<Rightarrow> gift_claim_record \<Rightarrow> process_outcome \<Rightarrow>
    (gift_claim_record \<times> rstr \<times> rstr res) list \<times> rstr res" where
  "run_payout_command config r outcome =
     (case payout_shell_command config (gc_claim_id r) (gc_wallet_address r) (amount_sompi config) of
        None \<Rightarrow> ([], Err ''GIFT_PAYOUT_COMMAND is not configured'')
      | Some command \<Rightarrow>
          let result = (case outcome of
                TimedOut \<Rightarrow> Err ''payout command timed out''
              | TaskFailed \<Rightarrow> Err ''payout command task failed''
              | NotStarted \<Rightarrow> Err ''failed to execute payout command''
              | Exited success stdout \<Rightarrow>
                  if \<not> success then Err ''payout command failed''
                  else case find (\<lambda>l. l \<noteq> []) (map trim (text_lines (trim stdout))) of
                      None \<Rightarrow> Err ''payout command produced empty output''
                    | Some tx_id \<Rightarrow> Ok tx_id)
          in ([(r, command, result)], result))"

section \<open>The claim\<close>

record gift_claim_request =
  rq_platform :: "rstr option"
  rq_proof_schema :: "rstr option"
  rq_proof_format :: "rstr option"
  rq_device_token :: rstr
  rq_wallet_address :: rstr
  rq_attestation :: rstr
  rq_key_id :: rstr
  rq_challenge :: rstr

record gift_claim_response =
  gcr_tx_id :: rstr
  gcr_claim_id :: rstr
  gcr_amount_sompi :: u64

definition normalize_wallet_address :: "('x) gift_lib_scheme \<Rightarrow> rstr \<Rightarrow> rstr option" where
  "normalize_wallet_address L v =
     (let normalized = to_lowercase (unicode L) (trim v) in
      if normalized = [] then None
      else if \<not> prefix (str ''kaspa:'') normalized then None
      else if list_all (\<lambda>c. is_ascii_lowercase c \<or> is_ascii_digit c \<or> c = 58) normalized
      then Some normalized else None)"

definition require_app_attest_verifier :: "gift_service \<Rightarrow> app_attest_verifier api" where
  "require_app_attest_verifier s =
     (if \<not> require_appattest (gs_config s)
      then Inl (ApiError ServiceUnavailable ''app attestation verification is disabled'')
      else ok_or (ApiError ServiceUnavailable ''app attestation verification is not configured'')
             (gs_app_attest_verifier s))"

definition require_devicecheck_client :: "gift_service \<Rightarrow> devicecheck_client api" where
  "require_devicecheck_client s =
     (if \<not> require_devicecheck (gs_config s)
      then Inl (ApiError ServiceUnavailable ''device verification is disabled'')
      else ok_or (ApiError ServiceUnavailable ''device verification is not configured'')
             (gs_devicecheck_client s))"

definition is_android_claim :: "gift_claim_request \<Rightarrow> bool" where
  "is_android_claim request \<longleftrightarrow>
     (case rq_platform request of None \<Rightarrow> False | Some p \<Rightarrow> eq_ignore_ascii_case p (str ''android'')) \<or>
     rq_proof_schema request = Some android_local_proof_schema \<or>
     prefix (str ''android-local-proof-v1:'') (trim (rq_key_id request))"

text \<open>
  What a claim carries on: the wallet, the fingerprint of the device, the address of the network,
  the time it came, and whether DeviceCheck is skipped.
\<close>

record claim_context =
  cx_wallet_address :: rstr
  cx_device_fingerprint :: rstr
  cx_source_ip :: "rstr option"
  cx_now :: u64
  cx_skip_devicecheck :: bool

text \<open>The part of \<^verbatim>\<open>claim\<close> from the decoding of the proofs to the fingerprint.\<close>

definition verify_claim ::
    "('x) gift_lib_scheme \<Rightarrow> gift_service \<Rightarrow> u64 \<Rightarrow> gift_claim_request \<Rightarrow> rstr option \<Rightarrow> rstr \<Rightarrow> rstr \<Rightarrow> claim_context api" where
  "verify_claim L s now request source_ip wallet_address challenge =
     abind (validate_base64_blob L ''invalid device token'' (rq_device_token request)) (\<lambda>device_token.
     abind (validate_base64_blob L ''invalid attestation'' (rq_attestation request)) (\<lambda>attestation.
     let key_id = trim (rq_key_id request) in
     if key_id = [] then Inl (bad_request ''missing key id'')
     else
     let android = is_android_claim request;
         skip_device_attestation =
           allow_simulator_claims (gs_config s) \<and> prefix (str ''simulator-'') key_id in
     abind (if \<not> android then Inr None
            else if rq_proof_format request \<notin> {None, Some (str ''json-base64'')}
            then Inl (bad_request ''invalid Android proof format'')
            else abind (verify_android_local_proof L device_token attestation key_id challenge wallet_address)
                   (\<lambda>f. Inr (Some f))) (\<lambda>android_device_fingerprint.
     abind (if require_appattest (gs_config s) \<and> \<not> skip_device_attestation \<and> \<not> android
            then abind (require_app_attest_verifier s) (\<lambda>verifier.
                   api_of (bad_request ''invalid app attestation'')
                     (verify_attestation L verifier attestation key_id challenge))
            else Inr ()) (\<lambda>_.
     Inr \<lparr>cx_wallet_address = wallet_address,
          cx_device_fingerprint =
            (case android_device_fingerprint of Some f \<Rightarrow> f | None \<Rightarrow> sha256_hex L device_token),
          cx_source_ip = normalize_source_ip source_ip, cx_now = now,
          cx_skip_devicecheck = (skip_device_attestation \<or> android)\<rparr>))))"

definition receive_claim ::
    "('x) gift_lib_scheme \<Rightarrow> u64 \<Rightarrow> gift_claim_request \<Rightarrow> rstr option \<Rightarrow> gift_service \<Rightarrow>
     claim_context api \<times> gift_service" where
  "receive_claim L now request source_ip s =
     (if \<not> enabled (gs_config s)
      then (Inl (ApiError ServiceUnavailable ''gift claim service is disabled''), s)
      else case normalize_wallet_address L (rq_wallet_address request) of
        None \<Rightarrow> (Inl (bad_request ''invalid wallet address''), s)
      | Some wallet_address \<Rightarrow>
          let challenge = trim (rq_challenge request) in
          if challenge = [] then (Inl (bad_request ''missing challenge''), s)
          else case consume_challenge challenge now s of
              (Inl e, s') \<Rightarrow> (Inl e, s')
            | (Inr _, s') \<Rightarrow> (verify_claim L s' now request source_ip wallet_address challenge, s'))"

text \<open>
  \<^verbatim>\<open>reserve_claim\<close> and \<^verbatim>\<open>persist_claim\<close> under the lock of the claims; the snapshot they take is
  written after the lock is released.
\<close>

definition snapshot :: "gift_service \<Rightarrow> gift_claim_record list" where
  "snapshot s = map snd (claims s)"

definition put_claim :: "gift_claim_record \<Rightarrow> gift_service \<Rightarrow> gift_service" where
  "put_claim r s = s\<lparr>claims := AList.update (gc_claim_id r) r (claims s)\<rparr>"

definition reserve_claim :: "rstr \<Rightarrow> claim_context \<Rightarrow> gift_service \<Rightarrow> gift_claim_record api" where
  "reserve_claim claim_id cx s =
     (if \<exists>c \<in> set (snapshot s). gc_wallet_address c = cx_wallet_address cx \<and> claim_consumes_unique_slot c
      then Inl (ApiError Conflict ''gift already claimed for this wallet address'')
      else if \<exists>c \<in> set (snapshot s). gc_device_fingerprint c = cx_device_fingerprint cx \<and> claim_consumes_unique_slot c
      then Inl (ApiError Conflict ''gift already claimed on this device'')
      else Inr \<lparr>gc_claim_id = claim_id, gc_wallet_address = cx_wallet_address cx,
               gc_device_fingerprint = cx_device_fingerprint cx, gc_tx_id = None, gc_status = Reserved,
               gc_reason = None, gc_amount_sompi = amount_sompi (gs_config s),
               gc_source_ip = cx_source_ip cx, gc_created_at_ms = cx_now cx, gc_updated_at_ms = cx_now cx\<rparr>)"

datatype write_outcome = Written | NotWritten claims_file

fun persist_claims :: "write_outcome \<Rightarrow> gift_claim_record list \<Rightarrow> gift_service \<Rightarrow> unit res \<times> gift_service" where
  "persist_claims Written rs s = (Ok (), s\<lparr>claims_path := Snapshot rs\<rparr>)"
| "persist_claims (NotWritten left) rs s = (Err ''failed to write gift claims'', s\<lparr>claims_path := left\<rparr>)"

section \<open>The handler in stages\<close>

text \<open>
  Requests are handled concurrently, and each of them can be suspended wherever it waits for a
  lock, the file, Apple, or the payout command. A stage is where it goes on; \<open>after_write\<close> is
  what follows a write of the file.
\<close>

datatype after_write =
    AfterRejected
  | AfterReserved claim_context gift_claim_record
  | AfterPayoutFailed
  | AfterSubmitted claim_context rstr gift_claim_record
  | AfterUpdateFailed
  | AfterCompleted rstr gift_claim_record

datatype claim_stage =
    Received gift_claim_request "rstr option"
  | RateLimit claim_context
  | DeviceQuery claim_context
  | Reserve claim_context
  | WriteClaims "gift_claim_record list" after_write
  | Payout claim_context gift_claim_record
  | DeviceUpdate claim_context rstr gift_claim_record
  | Finished "gift_claim_response api"

text \<open>What a step meets outside: the time, a new identifier, Apple, the command, the file.\<close>

record gift_env =
  ge_now :: u64
  ge_new_id :: rstr
  ge_apple :: apple
  ge_payout :: process_outcome
  ge_write :: write_outcome

definition needs_devicecheck :: "gift_service \<Rightarrow> claim_context \<Rightarrow> bool" where
  "needs_devicecheck s cx \<longleftrightarrow> require_devicecheck (gs_config s) \<and> \<not> cx_skip_devicecheck cx"

definition rejected_record :: "rstr \<Rightarrow> claim_context \<Rightarrow> gift_service \<Rightarrow> gift_claim_record" where
  "rejected_record claim_id cx s =
     \<lparr>gc_claim_id = claim_id, gc_wallet_address = cx_wallet_address cx,
      gc_device_fingerprint = cx_device_fingerprint cx, gc_tx_id = None, gc_status = Rejected,
      gc_reason = Some ''already claimed on device'', gc_amount_sompi = amount_sompi (gs_config s),
      gc_source_ip = cx_source_ip cx, gc_created_at_ms = cx_now cx, gc_updated_at_ms = cx_now cx\<rparr>"

definition persist_then :: "gift_claim_record \<Rightarrow> after_write \<Rightarrow> gift_service \<Rightarrow> claim_stage \<times> gift_service" where
  "persist_then r k s = (let s' = put_claim r s in (WriteClaims (snapshot s') k, s'))"

definition query_device :: "('x) gift_lib_scheme \<Rightarrow> gift_env \<Rightarrow> claim_context \<Rightarrow> gift_service \<Rightarrow> claim_stage \<times> gift_service" where
  "query_device L env cx s =
     (if \<not> needs_devicecheck s cx then (Reserve cx, s)
      else case abind (require_devicecheck_client s) (\<lambda>client.
                  api_of (ApiError InternalServerError ''device verification failed'')
                    (query_bit0 L client (ge_apple env))) of
          Inl e \<Rightarrow> (Finished (Inl e), s)
        | Inr already_claimed \<Rightarrow>
            if already_claimed then persist_then (rejected_record (ge_new_id env) cx s) AfterRejected s
            else (Reserve cx, s))"

definition pay_out :: "gift_env \<Rightarrow> claim_context \<Rightarrow> gift_claim_record \<Rightarrow> gift_service \<Rightarrow> claim_stage \<times> gift_service" where
  "pay_out env cx r s =
     (let (commands, result) = run_payout_command (gs_config s) r (ge_payout env);
          s' = s\<lparr>payouts := payouts s @ commands\<rparr>
      in case result of
           Inl _ \<Rightarrow>
             persist_then (r\<lparr>gc_status := Failed, gc_reason := Some ''payout failed'',
                            gc_updated_at_ms := ge_now env\<rparr>) AfterPayoutFailed s'
         | Inr tx_id \<Rightarrow>
             let r' = r\<lparr>gc_status := PayoutSubmitted, gc_tx_id := Some tx_id, gc_updated_at_ms := ge_now env\<rparr>
             in persist_then r' (AfterSubmitted cx tx_id r') s')"

definition complete_claim :: "gift_env \<Rightarrow> rstr \<Rightarrow> gift_claim_record \<Rightarrow> gift_service \<Rightarrow> claim_stage \<times> gift_service" where
  "complete_claim env tx_id r s =
     (let r' = r\<lparr>gc_status := Completed, gc_reason := None, gc_updated_at_ms := ge_now env\<rparr>
      in persist_then r' (AfterCompleted tx_id r') s)"

definition update_device :: "gift_env \<Rightarrow> claim_context \<Rightarrow> rstr \<Rightarrow> gift_claim_record \<Rightarrow> gift_service \<Rightarrow> claim_stage \<times> gift_service" where
  "update_device env cx tx_id r s =
     (if \<not> needs_devicecheck s cx then complete_claim env tx_id r s
      else case require_devicecheck_client s of
          Inl e \<Rightarrow> (Finished (Inl e), s)
        | Inr client \<Rightarrow>
            (case update_bit0_true client (ge_apple env) of
               Inl (Panic p) \<Rightarrow> (Finished (Inl (ApiPanic p)), s)
             | Inl (Failure _) \<Rightarrow>
                 persist_then (r\<lparr>gc_status := Failed, gc_reason := Some ''devicecheck update failed'',
                                gc_updated_at_ms := ge_now env\<rparr>) AfterUpdateFailed s
             | Inr _ \<Rightarrow> complete_claim env tx_id r s))"

fun after_written :: "after_write \<Rightarrow> gift_service \<Rightarrow> claim_stage" where
  "after_written AfterRejected s = Finished (Inl (ApiError Conflict ''gift already claimed on this device''))"
| "after_written (AfterReserved cx r) s = Payout cx r"
| "after_written AfterPayoutFailed s = Finished (Inl (ApiError InternalServerError ''gift payout failed''))"
| "after_written (AfterSubmitted cx tx_id r) s = DeviceUpdate cx tx_id r"
| "after_written AfterUpdateFailed s =
     Finished (Inl (ApiError InternalServerError ''gift payout sent but device lock update failed''))"
| "after_written (AfterCompleted tx_id r) s =
     Finished (Inr \<lparr>gcr_tx_id = tx_id, gcr_claim_id = gc_claim_id r,
                    gcr_amount_sompi = amount_sompi (gs_config s)\<rparr>)"

fun claim_step :: "('x) gift_lib_scheme \<Rightarrow> gift_env \<Rightarrow> claim_stage \<Rightarrow> gift_service \<Rightarrow> claim_stage \<times> gift_service" where
  "claim_step L env (Received request source_ip) s =
     (case receive_claim L (ge_now env) request source_ip s of
        (Inl e, s') \<Rightarrow> (Finished (Inl e), s')
      | (Inr cx, s') \<Rightarrow> (RateLimit cx, s'))"
| "claim_step L env (RateLimit cx) s =
     (case enforce_ip_rate_limit (cx_source_ip cx) (cx_now cx) s of
        (Inl e, s') \<Rightarrow> (Finished (Inl e), s')
      | (Inr _, s') \<Rightarrow> (DeviceQuery cx, s'))"
| "claim_step L env (DeviceQuery cx) s = query_device L env cx s"
| "claim_step L env (Reserve cx) s =
     (case reserve_claim (ge_new_id env) cx s of
        Inl e \<Rightarrow> (Finished (Inl e), s)
      | Inr r \<Rightarrow> persist_then r (AfterReserved cx r) s)"
| "claim_step L env (WriteClaims rs k) s =
     (case persist_claims (ge_write env) rs s of
        (Inl _, s') \<Rightarrow> (Finished (Inl (ApiError InternalServerError ''failed to persist claims'')), s')
      | (Inr _, s') \<Rightarrow> (after_written k s', s'))"
| "claim_step L env (Payout cx r) s = pay_out env cx r s"
| "claim_step L env (DeviceUpdate cx tx_id r) s = update_device env cx tx_id r s"
| "claim_step L env (Finished result) s = (Finished result, s)"

text \<open>\<^verbatim>\<open>claim\<close> with no other request in between.\<close>

fun claim_run :: "('x) gift_lib_scheme \<Rightarrow> gift_env list \<Rightarrow> claim_stage \<Rightarrow> gift_service \<Rightarrow> claim_stage \<times> gift_service" where
  "claim_run L [] stage s = (stage, s)"
| "claim_run L (env # envs) stage s = (let (stage', s') = claim_step L env stage s in claim_run L envs stage' s')"

section \<open>Debugging DeviceCheck\<close>

definition require_devicecheck_debug_authorization :: "rstr option \<Rightarrow> gift_service \<Rightarrow> unit api" where
  "require_devicecheck_debug_authorization provided s =
     (let nonempty = (\<lambda>v. case v of None \<Rightarrow> None | Some t \<Rightarrow> if trim t = [] then None else Some (trim t)) in
      abind (ok_or (ApiError ServiceUnavailable ''devicecheck debug endpoint is disabled'')
               (nonempty (devicecheck_debug_secret (gs_config s)))) (\<lambda>configured_secret.
      abind (ok_or (ApiError Unauthorized ''missing x-gift-debug-secret header'') (nonempty provided)) (\<lambda>provided_secret.
      require (provided_secret = configured_secret)
        (ApiError Unauthorized ''invalid x-gift-debug-secret header''))))"

record devicecheck_debug_response =
  db_bit0 :: bool
  db_device_token_sha256 :: rstr
  db_primary_host :: rstr
  db_secondary_host :: "rstr option"
  db_environment :: rstr
  db_timeout_ms :: u64
  db_require_devicecheck :: bool

definition debug_response :: "bool \<Rightarrow> rstr \<Rightarrow> devicecheck_client \<Rightarrow> gift_config \<Rightarrow> devicecheck_debug_response" where
  "debug_response bit0 fingerprint client config =
     \<lparr>db_bit0 = bit0, db_device_token_sha256 = fingerprint, db_primary_host = dc_host client,
      db_secondary_host = dc_secondary_host client, db_environment = devicecheck_environment config,
      db_timeout_ms = devicecheck_timeout_ms config, db_require_devicecheck = require_devicecheck config\<rparr>"

definition debug_token :: "('x) gift_lib_scheme \<Rightarrow> rstr option \<Rightarrow> rstr \<Rightarrow> gift_service \<Rightarrow> (rstr \<times> devicecheck_client) api" where
  "debug_token L secret device_token s =
     abind (require_devicecheck_debug_authorization secret s) (\<lambda>_.
     if trim device_token = [] then Inl (bad_request ''missing device token'')
     else
     abind (validate_base64_blob L ''invalid device token'' (trim device_token)) (\<lambda>token_bytes.
     abind (require_devicecheck_client s) (\<lambda>client. Inr (sha256_hex L token_bytes, client))))"

definition debug_query_devicecheck_bit0 ::
    "('x) gift_lib_scheme \<Rightarrow> apple \<Rightarrow> rstr option \<Rightarrow> rstr \<Rightarrow> gift_service \<Rightarrow> devicecheck_debug_response api" where
  "debug_query_devicecheck_bit0 L a secret device_token s =
     abind (debug_token L secret device_token s) (\<lambda>(fingerprint, client).
     abind (api_of (ApiError InternalServerError ''devicecheck query failed'') (query_bit0 L client a)) (\<lambda>bit0.
     Inr (debug_response bit0 fingerprint client (gs_config s))))"

definition debug_update_devicecheck_bit0 ::
    "('x) gift_lib_scheme \<Rightarrow> apple \<Rightarrow> rstr option \<Rightarrow> rstr \<Rightarrow> gift_service \<Rightarrow> devicecheck_debug_response api" where
  "debug_update_devicecheck_bit0 L a secret device_token s =
     abind (debug_token L secret device_token s) (\<lambda>(fingerprint, client).
     abind (api_of (ApiError InternalServerError ''devicecheck update failed'') (update_bit0_true client a)) (\<lambda>_.
     abind (api_of (ApiError InternalServerError ''devicecheck query after update failed'') (query_bit0 L client a)) (\<lambda>bit0_after_update.
     Inr (debug_response bit0_after_update fingerprint client (gs_config s)))))"

end
