(* ===== verification/Gift_Claims.thy ===== *)
theory Gift_Claims
  imports Gift_Service
begin

text \<open>
  Concurrent gift claims. The requests of \<^verbatim>\<open>indexer/src/gift.rs\<close> are a transition system: a
  request arrives, a challenge is issued, or one of the requests under way takes its next step.
  The theory shows that a wallet and a device are paid once, and how that is lost when the
  payout command is out of time or the service restarts.
\<close>

section \<open>Requests under way\<close>

record gift_system =
  sy_service :: gift_service
  sy_stages :: "claim_stage list"

text \<open>The identifiers of claims are random UUIDs, so a new one is not in use.\<close>

inductive gift_step :: "('x) gift_lib_scheme \<Rightarrow> gift_system \<Rightarrow> gift_system \<Rightarrow> bool" for L where
  request: "gift_step L sy (sy\<lparr>sy_stages := sy_stages sy @ [Received request source_ip]\<rparr>)"
| challenge: "create_challenge now nonce (sy_service sy) = (answer, s') \<Longrightarrow>
    gift_step L sy (sy\<lparr>sy_service := s'\<rparr>)"
| turn: "i < length (sy_stages sy) \<Longrightarrow> ge_new_id env \<notin> fst ` set (claims (sy_service sy)) \<Longrightarrow>
    claim_step L env (sy_stages sy ! i) (sy_service sy) = (stage', s') \<Longrightarrow>
    gift_step L sy (sy\<lparr>sy_service := s', sy_stages := (sy_stages sy)[i := stage']\<rparr>)"

text \<open>Claims are kept under their identifier, and no two of them hold the same slot.\<close>

definition same_slot :: "gift_claim_record \<Rightarrow> gift_claim_record \<Rightarrow> bool" where
  "same_slot r r' \<longleftrightarrow>
     gc_wallet_address r = gc_wallet_address r' \<or> gc_device_fingerprint r = gc_device_fingerprint r'"

definition claims_ok :: "(rstr \<times> gift_claim_record) list \<Rightarrow> bool" where
  "claims_ok cs \<longleftrightarrow> distinct (map fst cs) \<and> (\<forall>(k, r) \<in> set cs. gc_claim_id r = k) \<and>
     (\<forall>(k, r) \<in> set cs. \<forall>(k', r') \<in> set cs.
        claim_consumes_unique_slot r \<longrightarrow> claim_consumes_unique_slot r' \<longrightarrow> same_slot r r' \<longrightarrow> k = k')"

definition gift_start :: "gift_system \<Rightarrow> bool" where
  "gift_start sy \<longleftrightarrow> sy_stages sy = [] \<and> payouts (sy_service sy) = [] \<and> claims_ok (claims (sy_service sy))"

text \<open>The claims that were paid: those whose command reported a transaction.\<close>

definition paid :: "gift_service \<Rightarrow> gift_claim_record list" where
  "paid s = map fst (filter (\<lambda>(_, _, result). is_ok result) (payouts s))"

section \<open>The claims\<close>

lemma claims_okD:
  assumes "claims_ok cs"
  shows "distinct (map fst cs)"
    and "map_of cs k = Some r \<Longrightarrow> gc_claim_id r = k"
    and "map_of cs k = Some r \<Longrightarrow> map_of cs k' = Some r' \<Longrightarrow> claim_consumes_unique_slot r \<Longrightarrow>
         claim_consumes_unique_slot r' \<Longrightarrow> same_slot r r' \<Longrightarrow> k = k'"
  using assms unfolding claims_ok_def by (auto dest!: map_of_SomeD)+

lemma claims_okI:
  assumes "distinct (map fst cs)"
    and "\<And>k r. map_of cs k = Some r \<Longrightarrow> gc_claim_id r = k"
    and "\<And>k r k' r'. map_of cs k = Some r \<Longrightarrow> map_of cs k' = Some r' \<Longrightarrow>
         claim_consumes_unique_slot r \<Longrightarrow> claim_consumes_unique_slot r' \<Longrightarrow> same_slot r r' \<Longrightarrow> k = k'"
  shows "claims_ok cs"
  using assms unfolding claims_ok_def by (fastforce simp: map_of_eq_Some_iff)

lemma same_slot_sym: "same_slot r r' \<longleftrightarrow> same_slot r' r"
  by (auto simp: same_slot_def)

lemma claims_ok_update:
  assumes ok: "claims_ok cs" and key: "gc_claim_id r' = k"
    and free: "\<And>k' r. claim_consumes_unique_slot r' \<Longrightarrow> map_of cs k' = Some r \<Longrightarrow>
                claim_consumes_unique_slot r \<Longrightarrow> same_slot r' r \<Longrightarrow> k' = k"
  shows "claims_ok (AList.update k r' cs)"
proof (rule claims_okI)
  show "distinct (map fst (AList.update k r' cs))"
    using claims_okD(1) [OF ok] by (simp add: distinct_update)
  show "gc_claim_id r = j" if "map_of (AList.update k r' cs) j = Some r" for j r
    using that key claims_okD(2) [OF ok] by (auto simp: update_conv split: if_splits)
  show "i = j" if "map_of (AList.update k r' cs) i = Some a" "map_of (AList.update k r' cs) j = Some b"
      "claim_consumes_unique_slot a" "claim_consumes_unique_slot b" "same_slot a b" for i j a b
    using that free claims_okD(3) [OF ok] same_slot_sym
    by (auto simp: update_conv split: if_splits)
qed

lemma claims_ok_own:
  assumes ok: "claims_ok cs" and old: "map_of cs (gc_claim_id r) = Some r"
    and same: "gc_claim_id r' = gc_claim_id r" "gc_wallet_address r' = gc_wallet_address r"
      "gc_device_fingerprint r' = gc_device_fingerprint r"
    and slot: "claim_consumes_unique_slot r"
  shows "claims_ok (AList.update (gc_claim_id r) r' cs)"
proof (rule claims_ok_update [OF ok same(1)])
  fix k' c
  assume "map_of cs k' = Some c" "claim_consumes_unique_slot c" "same_slot r' c"
  then show "k' = gc_claim_id r"
    using claims_okD(3) [OF ok _ old] slot same by (simp add: same_slot_def) metis
qed

section \<open>A step of a request\<close>

text \<open>The claim a request under way still writes, and whether it is before its payout.\<close>

fun owned :: "claim_stage \<Rightarrow> gift_claim_record option" where
  "owned (WriteClaims _ (AfterReserved _ r)) = Some r"
| "owned (WriteClaims _ (AfterSubmitted _ _ r)) = Some r"
| "owned (Payout _ r) = Some r"
| "owned (DeviceUpdate _ _ r) = Some r"
| "owned _ = None"

fun unpaid :: "claim_stage \<Rightarrow> bool" where
  "unpaid (WriteClaims _ (AfterReserved _ _)) = True"
| "unpaid (Payout _ _) = True"
| "unpaid _ = False"

text \<open>An owned claim is kept as it is; it is reserved before the payout and paid after it.\<close>

definition holds_claim :: "gift_service \<Rightarrow> claim_stage \<Rightarrow> bool" where
  "holds_claim s stage = (case owned stage of
     None \<Rightarrow> True
   | Some r \<Rightarrow> map_of (claims s) (gc_claim_id r) = Some r \<and>
       (if unpaid stage then gc_status r = Reserved \<and> gc_tx_id r = None else gc_tx_id r \<noteq> None))"

text \<open>
  A step leaves the claims alone and keeps what it owns or gives it up; or it adds a new claim;
  or it changes its own claim, and a command that reports a transaction marks it as paid.
\<close>

definition quiet_step :: "claim_stage \<Rightarrow> gift_service \<Rightarrow> claim_stage \<Rightarrow> gift_service \<Rightarrow> bool" where
  "quiet_step st s st' s' \<longleftrightarrow> claims s' = claims s \<and> payouts s' = payouts s \<and>
     (owned st' = None \<or> owned st' = owned st \<and> unpaid st' = unpaid st)"

definition new_claim_step :: "rstr \<Rightarrow> claim_stage \<Rightarrow> gift_service \<Rightarrow> claim_stage \<Rightarrow> gift_service \<Rightarrow> bool" where
  "new_claim_step k st s st' s' \<longleftrightarrow> owned st = None \<and> payouts s' = payouts s \<and>
     (\<exists>r. gc_claim_id r = k \<and> claims s' = AList.update k r (claims s) \<and> gc_tx_id r = None \<and>
        (claim_consumes_unique_slot r \<longrightarrow>
           (\<forall>(_, c) \<in> set (claims s). claim_consumes_unique_slot c \<longrightarrow> \<not> same_slot r c)) \<and>
        (owned st' = None \<or> owned st' = Some r \<and> unpaid st' \<and> gc_status r = Reserved))"

definition own_claim_step :: "claim_stage \<Rightarrow> gift_service \<Rightarrow> claim_stage \<Rightarrow> gift_service \<Rightarrow> bool" where
  "own_claim_step st s st' s' \<longleftrightarrow>
     (\<exists>r r' ps. owned st = Some r \<and> claims s' = AList.update (gc_claim_id r) r' (claims s) \<and>
        gc_claim_id r' = gc_claim_id r \<and> gc_wallet_address r' = gc_wallet_address r \<and>
        gc_device_fingerprint r' = gc_device_fingerprint r \<and>
        payouts s' = payouts s @ ps \<and>
        paid s' = paid s @ (if unpaid st \<and> gc_tx_id r' \<noteq> None then [r] else []) \<and>
        (gc_tx_id r \<noteq> None \<longrightarrow> gc_tx_id r' \<noteq> None) \<and>
        (owned st' = None \<or> owned st' = Some r' \<and> \<not> unpaid st' \<and> gc_tx_id r' \<noteq> None))"

lemma consume_challenge_keeps:
  assumes "consume_challenge c now s = (result, s')"
  shows "claims s' = claims s" "payouts s' = payouts s"
  using assms by (auto simp: consume_challenge_def Let_def split: option.splits)

lemma receive_claim_keeps:
  assumes "receive_claim L now request source_ip s = (result, s')"
  shows "claims s' = claims s" "payouts s' = payouts s"
  using assms consume_challenge_keeps [of "trim (rq_challenge request)" now s]
  by (auto simp: receive_claim_def Let_def split: if_splits option.splits prod.splits sum.splits)

lemma enforce_ip_rate_limit_keeps:
  assumes "enforce_ip_rate_limit ip now s = (result, s')"
  shows "claims s' = claims s" "payouts s' = payouts s"
  using assms by (auto simp: enforce_ip_rate_limit_def Let_def split: if_splits option.splits)

lemma create_challenge_keeps:
  assumes "create_challenge now nonce s = (result, s')"
  shows "claims s' = claims s" "payouts s' = payouts s"
  using assms by (auto simp: create_challenge_def Let_def split: if_splits)

lemma persist_claims_keeps:
  assumes "persist_claims out rs s = (result, s')"
  shows "claims s' = claims s" "payouts s' = payouts s"
  using assms by (cases out; auto)+

lemma owned_after_written:
  "owned (after_written k s) = None \<or>
   owned (after_written k s) = owned (WriteClaims rs k) \<and> unpaid (after_written k s) = unpaid (WriteClaims rs k)"
  by (cases k) simp_all

lemma write_step:
  assumes "claim_step L env (WriteClaims rs k) s = (st', s')"
  shows "quiet_step (WriteClaims rs k) s st' s'"
  using assms owned_after_written [of k s' rs] persist_claims_keeps [of "ge_write env" rs s]
  by (auto simp: quiet_step_def split: prod.splits sum.splits)

lemma query_step:
  assumes "claim_step L env (DeviceQuery cx) s = (st', s')"
  shows "quiet_step (DeviceQuery cx) s st' s' \<or> new_claim_step (ge_new_id env) (DeviceQuery cx) s st' s'"
  using assms
  by (auto simp: query_device_def persist_then_def Let_def quiet_step_def new_claim_step_def put_claim_def
      claim_consumes_unique_slot_def rejected_record_def
      intro!: exI [of _ "rejected_record (ge_new_id env) cx s"] split: if_splits sum.splits)

lemma reserve_claim_free:
  assumes "reserve_claim k cx s = Inr r"
  shows "gc_claim_id r = k" "gc_tx_id r = None" "gc_status r = Reserved"
    and "(j, c) \<in> set (claims s) \<Longrightarrow> claim_consumes_unique_slot c \<Longrightarrow> \<not> same_slot r c"
  using assms
  by (force simp: reserve_claim_def snapshot_def same_slot_def split: if_splits)+

lemma reserve_step:
  assumes "claim_step L env (Reserve cx) s = (st', s')"
  shows "quiet_step (Reserve cx) s st' s' \<or> new_claim_step (ge_new_id env) (Reserve cx) s st' s'"
proof (cases "reserve_claim (ge_new_id env) cx s")
  case (Inr r)
  then show ?thesis
    using assms reserve_claim_free [OF Inr]
    by (auto simp: persist_then_def Let_def new_claim_step_def put_claim_def)
qed (use assms in \<open>auto simp: quiet_step_def\<close>)

lemma payout_step:
  assumes "claim_step L env (Payout cx r) s = (st', s')" and "gc_tx_id r = None"
  shows "own_claim_step (Payout cx r) s st' s'"
proof -
  obtain ps result where run: "run_payout_command (gs_config s) r (ge_payout env) = (ps, result)"
    by fastforce
  then have ps: "map fst (filter (\<lambda>(_, _, res). is_ok res) ps) = (if is_ok result then [r] else [])"
    by (auto simp: run_payout_command_def Let_def is_ok_def split: option.splits sum.splits)
  then show ?thesis
    using assms run
    by (auto simp: pay_out_def persist_then_def Let_def own_claim_step_def put_claim_def paid_def
        split: sum.splits)
qed

lemma update_step:
  assumes "claim_step L env (DeviceUpdate cx t r) s = (st', s')" and "gc_tx_id r \<noteq> None"
  shows "quiet_step (DeviceUpdate cx t r) s st' s' \<or> own_claim_step (DeviceUpdate cx t r) s st' s'"
  using assms
  by (auto simp: update_device_def complete_claim_def persist_then_def Let_def quiet_step_def own_claim_step_def
      put_claim_def paid_def split: if_splits sum.splits fault.splits)

lemma claim_step_cases:
  assumes step: "claim_step L env st s = (st', s')" and holds: "holds_claim s st"
  shows "quiet_step st s st' s' \<or> new_claim_step (ge_new_id env) st s st' s' \<or> own_claim_step st s st' s'"
proof (cases st)
  case (Received request source_ip)
  then show ?thesis
    using step receive_claim_keeps
    by (auto simp: quiet_step_def split: prod.splits sum.splits)
next
  case (RateLimit cx)
  then show ?thesis
    using step enforce_ip_rate_limit_keeps
    by (auto simp: quiet_step_def split: prod.splits sum.splits)
next
  case (WriteClaims rs k)
  then show ?thesis using step write_step by blast
next
  case (DeviceQuery cx)
  then show ?thesis using step query_step by blast
next
  case (Reserve cx)
  then show ?thesis using step reserve_step by blast
next
  case (Payout cx r)
  then show ?thesis using step payout_step holds by (auto simp: holds_claim_def)
next
  case (DeviceUpdate cx t r)
  then show ?thesis using step update_step [of L env cx t r s st' s'] holds by (simp add: holds_claim_def) blast
qed (use step in \<open>simp add: quiet_step_def\<close>)

section \<open>The invariant\<close>

definition distinct_owners :: "claim_stage list \<Rightarrow> bool" where
  "distinct_owners sts \<longleftrightarrow> (\<forall>i < length sts. \<forall>j < length sts. \<forall>r r'.
     owned (sts ! i) = Some r \<longrightarrow> owned (sts ! j) = Some r' \<longrightarrow> gc_claim_id r = gc_claim_id r' \<longrightarrow> i = j)"

definition paid_claim :: "gift_service \<Rightarrow> gift_claim_record \<Rightarrow> bool" where
  "paid_claim s p \<longleftrightarrow> (\<exists>c. map_of (claims s) (gc_claim_id p) = Some c \<and> gc_tx_id c \<noteq> None \<and>
     gc_wallet_address c = gc_wallet_address p \<and> gc_device_fingerprint c = gc_device_fingerprint p)"

definition gift_inv :: "gift_system \<Rightarrow> bool" where
  "gift_inv sy \<longleftrightarrow> claims_ok (claims (sy_service sy)) \<and>
     (\<forall>st \<in> set (sy_stages sy). holds_claim (sy_service sy) st) \<and> distinct_owners (sy_stages sy) \<and>
     (\<forall>p \<in> set (paid (sy_service sy)). paid_claim (sy_service sy) p) \<and>
     distinct (map gc_claim_id (paid (sy_service sy)))"

lemma holds_slot: "holds_claim s st \<Longrightarrow> owned st = Some r \<Longrightarrow> claim_consumes_unique_slot r"
  by (auto simp: holds_claim_def claim_consumes_unique_slot_def split: if_splits)

lemma holds_key: "holds_claim s st \<Longrightarrow> owned st = Some r \<Longrightarrow> map_of (claims s) (gc_claim_id r) = Some r"
  by (simp add: holds_claim_def)

lemma holds_claim_other:
  "holds_claim s st \<Longrightarrow> claims s' = AList.update k c (claims s) \<Longrightarrow>
   (\<forall>r. owned st = Some r \<longrightarrow> gc_claim_id r \<noteq> k) \<Longrightarrow> holds_claim s' st"
  by (auto simp: holds_claim_def update_conv split: option.splits)

lemma holds_claim_same:
  "holds_claim s st \<Longrightarrow> claims s' = claims s \<Longrightarrow>
   owned st' = None \<or> owned st' = owned st \<and> unpaid st' = unpaid st \<Longrightarrow> holds_claim s' st'"
  by (auto simp: holds_claim_def split: option.splits)

lemma distinct_ownersD:
  "distinct_owners sts \<Longrightarrow> i < length sts \<Longrightarrow> j < length sts \<Longrightarrow> owned (sts ! i) = Some r \<Longrightarrow>
   owned (sts ! j) = Some r' \<Longrightarrow> gc_claim_id r = gc_claim_id r' \<Longrightarrow> i = j"
  unfolding distinct_owners_def by blast

lemma distinct_owners_update:
  assumes "distinct_owners sts" "i < length sts"
    and "\<forall>r. owned st' = Some r \<longrightarrow>
      (\<forall>j < length sts. \<forall>r'. j \<noteq> i \<longrightarrow> owned (sts ! j) = Some r' \<longrightarrow> gc_claim_id r' \<noteq> gc_claim_id r)"
  shows "distinct_owners (sts[i := st'])"
  unfolding distinct_owners_def
proof (intro allI impI)
  fix a b r r'
  assume "a < length (sts[i := st'])" "b < length (sts[i := st'])" "gc_claim_id r = gc_claim_id r'"
    "owned (sts[i := st'] ! a) = Some r" "owned (sts[i := st'] ! b) = Some r'"
  moreover have "\<lbrakk>a \<noteq> i; b \<noteq> i\<rbrakk> \<Longrightarrow> a = b"
    using calculation distinct_ownersD [OF assms(1), of a b r r'] by simp
  ultimately show "a = b"
    using assms(2,3) by (cases "a = i"; cases "b = i") (simp_all, metis+)
qed

lemma stages_update:
  assumes "i < length sts" "holds_claim s' st'"
    and "\<forall>j < length sts. j \<noteq> i \<longrightarrow> holds_claim s' (sts ! j)"
  shows "\<forall>st \<in> set (sts[i := st']). holds_claim s' st"
  using assms by (auto simp: in_set_conv_nth nth_list_update)

lemma quiet_keeps_inv:
  assumes inv: "gift_inv \<lparr>sy_service = s, sy_stages = sts\<rparr>" and i: "i < length sts"
    and quiet: "quiet_step (sts ! i) s st' s'"
  shows "gift_inv \<lparr>sy_service = s', sy_stages = sts[i := st']\<rparr>"
proof -
  have "distinct_owners (sts[i := st'])"
    using inv i quiet
    by (intro distinct_owners_update) (auto simp: gift_inv_def quiet_step_def distinct_owners_def)
  moreover have holds: "holds_claim s st" if "st \<in> set sts" for st
    using inv that by (simp add: gift_inv_def)
  have same: "claims s' = claims s"
      "owned st' = None \<or> owned st' = owned (sts ! i) \<and> unpaid st' = unpaid (sts ! i)"
    using quiet by (simp_all only: quiet_step_def)
  have new: "holds_claim s' st'"
    by (rule holds_claim_same [OF holds [OF nth_mem [OF i]] same])
  have old: "holds_claim s' st" if "st \<in> set sts" for st
    by (rule holds_claim_same [OF holds [OF that] same(1)]) simp
  have "\<forall>st \<in> set (sts[i := st']). holds_claim s' st"
    using i new old by (intro stages_update) simp_all
  ultimately show ?thesis
    using inv quiet by (simp add: gift_inv_def quiet_step_def paid_def paid_claim_def)
qed

lemma new_claim_keeps_inv:
  assumes inv: "gift_inv \<lparr>sy_service = s, sy_stages = sts\<rparr>" and i: "i < length sts"
    and new: "new_claim_step k (sts ! i) s st' s'" and fresh: "k \<notin> fst ` set (claims s)"
  shows "gift_inv \<lparr>sy_service = s', sy_stages = sts[i := st']\<rparr>"
proof -
  obtain r where r: "gc_claim_id r = k" "claims s' = AList.update k r (claims s)" "gc_tx_id r = None"
      "owned st' = None \<or> owned st' = Some r \<and> unpaid st' \<and> gc_status r = Reserved"
      "claim_consumes_unique_slot r \<longrightarrow>
           (\<forall>(_, c) \<in> set (claims s). claim_consumes_unique_slot c \<longrightarrow> \<not> same_slot r c)"
    and pay: "payouts s' = payouts s"
    using new by (auto simp: new_claim_step_def)
  have none: "map_of (claims s) k = None"
    using fresh by (simp add: map_of_eq_None_iff)
  have others: "gc_claim_id c \<noteq> k" if "j < length sts" "owned (sts ! j) = Some c" for j c
    using inv that none holds_key [of s "sts ! j" c] by (auto simp: gift_inv_def)
  have "claims_ok (claims s')"
    unfolding r(2) using inv r none
    by (intro claims_ok_update) (auto simp: gift_inv_def dest: map_of_SomeD)
  moreover have "distinct_owners (sts[i := st'])"
    using inv i r others by (intro distinct_owners_update) (auto simp: gift_inv_def)
  moreover have "\<forall>st \<in> set (sts[i := st']). holds_claim s' st"
  proof (rule stages_update [OF i])
    show "holds_claim s' st'"
      using r by (auto simp: holds_claim_def update_conv)
    show "\<forall>j < length sts. j \<noteq> i \<longrightarrow> holds_claim s' (sts ! j)"
      using inv others holds_claim_other [OF _ r(2)] by (simp add: gift_inv_def)
  qed
  moreover have "\<forall>p \<in> set (paid s'). paid_claim s' p"
    using inv pay none r(2)
    by (fastforce simp: gift_inv_def paid_def paid_claim_def update_conv)
  ultimately show ?thesis
    using inv pay by (simp add: gift_inv_def paid_def)
qed

lemma own_claim_keeps_inv:
  assumes inv: "gift_inv \<lparr>sy_service = s, sy_stages = sts\<rparr>" and i: "i < length sts"
    and own: "own_claim_step (sts ! i) s st' s'"
  shows "gift_inv \<lparr>sy_service = s', sy_stages = sts[i := st']\<rparr>"
proof -
  let ?paid = "\<lambda>r r'. if unpaid (sts ! i) \<and> gc_tx_id r' \<noteq> None then [r] else []"
  obtain r r' where r: "owned (sts ! i) = Some r"
      "claims s' = AList.update (gc_claim_id r) r' (claims s)"
      "gc_claim_id r' = gc_claim_id r" "gc_wallet_address r' = gc_wallet_address r"
      "gc_device_fingerprint r' = gc_device_fingerprint r"
      "paid s' = paid s @ ?paid r r'"
      "gc_tx_id r \<noteq> None \<longrightarrow> gc_tx_id r' \<noteq> None"
      "owned st' = None \<or> owned st' = Some r' \<and> \<not> unpaid st' \<and> gc_tx_id r' \<noteq> None"
    using own unfolding own_claim_step_def by blast
  have holds: "holds_claim s (sts ! i)"
    using inv i by (simp add: gift_inv_def)
  have key: "map_of (claims s) (gc_claim_id r) = Some r"
    by (rule holds_key [OF holds r(1)])
  have others: "gc_claim_id c \<noteq> gc_claim_id r" if "j < length sts" "j \<noteq> i" "owned (sts ! j) = Some c" for j c
    using inv that i r(1) by (auto simp: gift_inv_def distinct_owners_def)
  have "claims_ok (claims s')"
    unfolding r(2) using inv key r holds_slot [OF holds r(1)]
    by (intro claims_ok_own) (auto simp: gift_inv_def)
  moreover have "distinct_owners (sts[i := st'])"
    using inv i r others by (intro distinct_owners_update) (auto simp: gift_inv_def)
  moreover have "\<forall>st \<in> set (sts[i := st']). holds_claim s' st"
  proof (rule stages_update [OF i])
    show "holds_claim s' st'"
      using r by (auto simp: holds_claim_def update_conv)
    show "\<forall>j < length sts. j \<noteq> i \<longrightarrow> holds_claim s' (sts ! j)"
      using inv others holds_claim_other [OF _ r(2)] by (simp add: gift_inv_def)
  qed
  moreover have "\<forall>p \<in> set (paid s'). paid_claim s' p"
    using inv key r by (auto simp: gift_inv_def paid_claim_def update_conv)
  moreover have "unpaid (sts ! i) \<Longrightarrow> gc_claim_id r \<notin> gc_claim_id ` set (paid s)"
    using inv key holds r(1) by (auto simp: gift_inv_def paid_claim_def holds_claim_def)
  then have "distinct (map gc_claim_id (paid s'))"
    using inv by (auto simp: r(6) gift_inv_def)
  ultimately show ?thesis
    by (simp add: gift_inv_def)
qed

lemma gift_inv_step:
  assumes "gift_inv sy" "gift_step L sy sy'"
  shows "gift_inv sy'"
  using assms(2)
proof cases
  case (request request source_ip)
  then show ?thesis
    using assms(1) by (auto simp: gift_inv_def distinct_owners_def nth_append holds_claim_def split: if_splits)
next
  case (challenge now nonce answer s')
  then show ?thesis
    using assms(1) create_challenge_keeps [of now nonce "sy_service sy" answer s']
    by (auto simp: gift_inv_def paid_def paid_claim_def holds_claim_def split: option.splits)
next
  case (turn i env stage' s')
  have inv: "gift_inv \<lparr>sy_service = sy_service sy, sy_stages = sy_stages sy\<rparr>"
    using assms(1) by (simp add: gift_inv_def)
  then have "holds_claim (sy_service sy) (sy_stages sy ! i)"
    using turn by (simp add: gift_inv_def)
  from claim_step_cases [OF turn(4) this]
  have "gift_inv \<lparr>sy_service = s', sy_stages = (sy_stages sy)[i := stage']\<rparr>"
    using quiet_keeps_inv [OF inv turn(2)] new_claim_keeps_inv [OF inv turn(2) _ turn(3)]
      own_claim_keeps_inv [OF inv turn(2)] by blast
  then show ?thesis
    by (simp add: gift_inv_def turn(1))
qed

interpretation gift: invariant_system gift_start "gift_step L" gift_inv for L
proof
  show "gift_inv sy" if "gift_start sy" for sy
    using that by (simp add: gift_start_def gift_inv_def distinct_owners_def paid_def)
  show "gift_inv sy'" if "gift_inv sy" "gift_step L sy sy'" for sy sy'
    using that by (rule gift_inv_step)
qed

lemma at_most_one:
  assumes "distinct (map f xs)" "\<forall>x \<in> set xs. \<forall>y \<in> set xs. P x \<longrightarrow> P y \<longrightarrow> f x = f y"
  shows "length (filter P xs) \<le> 1"
  using assms
proof (induction xs)
  case (Cons x xs)
  then have "P x \<Longrightarrow> filter P xs = []"
    by (auto simp: filter_empty_conv)
  then show ?case using Cons by auto
qed simp


end
