(* ===== verification/Gift_Runs.thy ===== *)
theory Gift_Runs
  imports Gift_Claims
begin

text \<open>
  Runs of the gift service: a claim that nothing interrupts, two claims whose writes of the file
  cross, and a payout that is out of time.
\<close>

section \<open>A claim without interruption\<close>

lemma claim_run_append:
  "claim_run L (es @ es') st s = (let (st', s') = claim_run L es st s in claim_run L es' st' s')"
  by (induction es arbitrary: st s) (auto split: prod.split)

lemma reserve_claim_fields:
  "reserve_claim k cx s = Inr r \<Longrightarrow> r = \<lparr>gc_claim_id = k, gc_wallet_address = cx_wallet_address cx,
     gc_device_fingerprint = cx_device_fingerprint cx, gc_tx_id = None, gc_status = Reserved,
     gc_reason = None, gc_amount_sompi = amount_sompi (gs_config s), gc_source_ip = cx_source_ip cx,
     gc_created_at_ms = cx_now cx, gc_updated_at_ms = cx_now cx\<rparr>"
  by (simp add: reserve_claim_def split: if_splits)

text \<open>The steps up to the last write, with the identifier of \<open>e\<close> and the payout of \<open>e'\<close>.\<close>

definition completed :: "gift_env \<Rightarrow> rstr \<Rightarrow> gift_claim_record \<Rightarrow> gift_claim_record" where
  "completed e tx_id r =
     r\<lparr>gc_tx_id := Some tx_id, gc_status := Completed, gc_reason := None, gc_updated_at_ms := ge_now e\<rparr>"

lemma run_to_last_write:
  assumes received: "receive_claim L (ge_now e) request source_ip s = (Inr cx, s1)"
    and limit: "enforce_ip_rate_limit (cx_source_ip cx) (cx_now cx) s1 = (Inr (), s2)"
    and device: "\<not> needs_devicecheck s2 cx"
    and reserved: "reserve_claim (ge_new_id e) cx s2 = Inr r"
    and written: "ge_write e' = Written"
    and payout: "run_payout_command (gs_config s2) r (ge_payout e') = (ps, Ok tx_id)"
  defines "s' \<equiv> s2\<lparr>payouts := payouts s2 @ ps,
             claims_path := Snapshot (map snd (AList.update (ge_new_id e)
               (r\<lparr>gc_status := PayoutSubmitted, gc_tx_id := Some tx_id, gc_updated_at_ms := ge_now e'\<rparr>) (claims s2))),
             claims := AList.update (ge_new_id e) (completed e' tx_id r) (claims s2)\<rparr>"
  shows "claim_run L (replicate 4 e @ replicate 4 e') (Received request source_ip) s =
           (WriteClaims (snapshot s') (AfterCompleted tx_id (completed e' tx_id r)), s')"
proof -
  have fields: "gc_claim_id r = ge_new_id e" "gc_reason r = None"
    using reserve_claim_fields [OF reserved] by simp_all
  have first: "claim_run L (replicate 4 e) (Received request source_ip) s =
          (WriteClaims (snapshot (put_claim r s2)) (AfterReserved cx r), put_claim r s2)"
    by (simp add: numeral_eq_Suc received limit query_device_def device reserved persist_then_def Let_def)
  have second: "claim_run L (replicate 4 e') (WriteClaims rs (AfterReserved cx r)) (put_claim r s2) =
          (WriteClaims (snapshot s') (AfterCompleted tx_id (completed e' tx_id r)), s')" for rs
    using written payout fields device
    by (simp add: needs_devicecheck_def numeral_eq_Suc pay_out_def persist_then_def put_claim_def Let_def update_device_def
        complete_claim_def snapshot_def completed_def s'_def)
  show ?thesis
    by (simp add: claim_run_append first second)
qed

lemma run_payout_command_paid:
  "run_payout_command config r out = (ps, Ok tx_id) \<Longrightarrow> map fst (filter (\<lambda>(_, _, res). is_ok res) ps) = [r]"
  by (auto simp: run_payout_command_def Let_def split: option.splits)

lemma run_completes:
  assumes received: "receive_claim L (ge_now e) request source_ip s = (Inr cx, s1)"
    and limit: "enforce_ip_rate_limit (cx_source_ip cx) (cx_now cx) s1 = (Inr (), s2)"
    and device: "\<not> needs_devicecheck s2 cx"
    and reserved: "reserve_claim (ge_new_id e) cx s2 = Inr r"
    and written: "ge_write e' = Written"
    and payout: "run_payout_command (gs_config s2) r (ge_payout e') = (ps, Ok tx_id)"
  shows "\<exists>s'. claim_run L (replicate 4 e @ replicate 5 e') (Received request source_ip) s =
           (Finished (Inr \<lparr>gcr_tx_id = tx_id, gcr_claim_id = ge_new_id e,
                           gcr_amount_sompi = amount_sompi (gs_config s')\<rparr>), s') \<and>
         claims s' = AList.update (ge_new_id e)
           (r\<lparr>gc_tx_id := Some tx_id, gc_status := Completed, gc_updated_at_ms := ge_now e'\<rparr>) (claims s) \<and>
         claims_path s' = Snapshot (map snd (claims s')) \<and> paid s' = paid s @ [r]"
proof -
  have five: "replicate 5 e' = replicate 4 e' @ [e']"
    by (simp add: numeral_eq_Suc)
  have same: "claims s2 = claims s" "payouts s2 = payouts s"
    using receive_claim_keeps [OF received] enforce_ip_rate_limit_keeps [OF limit] by simp_all
  have fields: "gc_claim_id r = ge_new_id e" "gc_reason r = None"
    using reserve_claim_fields [OF reserved] by simp_all
  have "completed e' tx_id r = r\<lparr>gc_tx_id := Some tx_id, gc_status := Completed, gc_updated_at_ms := ge_now e'\<rparr>"
    using fields(2) by (cases r) (simp add: completed_def)
  then show ?thesis
    unfolding five append.assoc [symmetric] claim_run_append [of L "replicate 4 e @ replicate 4 e'"]
      run_to_last_write [OF assms]
    using written fields run_payout_command_paid [OF payout]
    by (simp add: snapshot_def same paid_def)
qed

text \<open>
  A claim that passes its checks, finds its slots free and is paid out ends with the response;
  its record is kept as completed in memory and in the file, and other records are unchanged.
\<close>

theorem gift_claim_completes:
  assumes received: "receive_claim L (ge_now e) request source_ip s = (Inr cx, s1)"
    and limit: "enforce_ip_rate_limit (cx_source_ip cx) (cx_now cx) s1 = (Inr (), s2)"
    and device: "\<not> needs_devicecheck s2 cx"
    and reserved: "reserve_claim (ge_new_id e) cx s2 = Inr r"
    and written: "ge_write e' = Written"
    and payout: "run_payout_command (gs_config s2) r (ge_payout e') = (ps, Ok tx_id)"
  shows "\<exists>s'. claim_run L (replicate 4 e @ replicate 5 e') (Received request source_ip) s =
           (Finished (Inr \<lparr>gcr_tx_id = tx_id, gcr_claim_id = ge_new_id e,
                           gcr_amount_sompi = amount_sompi (gs_config s')\<rparr>), s') \<and>
         claims s' = AList.update (ge_new_id e)
           (r\<lparr>gc_tx_id := Some tx_id, gc_status := Completed, gc_updated_at_ms := ge_now e'\<rparr>) (claims s) \<and>
         claims_path s' = Snapshot (map snd (claims s')) \<and> paid s' = paid s @ [r]"
  using assms by (rule run_completes)

section \<open>Runs\<close>

fun fresh_run :: "('x) gift_lib_scheme \<Rightarrow> gift_env list \<Rightarrow> claim_stage \<Rightarrow> gift_service \<Rightarrow> bool" where
  "fresh_run L [] stage s = True"
| "fresh_run L (env # envs) stage s \<longleftrightarrow> ge_new_id env \<notin> fst ` set (claims s) \<and>
     (let (stage', s') = claim_step L env stage s in fresh_run L envs stage' s')"

lemma challenge_step:
  "gift_step L \<lparr>sy_service = s, sy_stages = sts\<rparr>
     \<lparr>sy_service = snd (create_challenge now nonce s), sy_stages = sts\<rparr>"
  using challenge [of now nonce "\<lparr>sy_service = s, sy_stages = sts\<rparr>" _ _ L, OF prod.collapse [symmetric]] by simp

lemma request_step:
  "gift_step L \<lparr>sy_service = s, sy_stages = sts\<rparr>
     \<lparr>sy_service = s, sy_stages = sts @ [Received request source_ip]\<rparr>"
  using request [of L "\<lparr>sy_service = s, sy_stages = sts\<rparr>" request source_ip] by simp

lemma run_reachable:
  assumes "reachable gift_start (gift_step L) \<lparr>sy_service = s, sy_stages = sts\<rparr>" "i < length sts"
    and "fresh_run L envs (sts ! i) s" "claim_run L envs (sts ! i) s = (st', s')"
  shows "reachable gift_start (gift_step L) \<lparr>sy_service = s', sy_stages = sts[i := st']\<rparr>"
  using assms
proof (induction envs arbitrary: s sts)
  case (Cons env envs)
  obtain st1 s1 where step: "claim_step L env (sts ! i) s = (st1, s1)"
    by fastforce
  have "gift_step L \<lparr>sy_service = s, sy_stages = sts\<rparr> \<lparr>sy_service = s1, sy_stages = sts[i := st1]\<rparr>"
    using turn [of i "\<lparr>sy_service = s, sy_stages = sts\<rparr>" env L st1 s1] Cons.prems step by simp
  then have "reachable gift_start (gift_step L) \<lparr>sy_service = s1, sy_stages = sts[i := st1]\<rparr>"
    using Cons.prems(1) by (rule reachable_step [rotated])
  then show ?case
    using Cons.IH [of s1 "sts[i := st1]"] Cons.prems step by simp
qed auto

lemma reserve_claim_succeeds:
  assumes "\<forall>c \<in> set (snapshot s). claim_consumes_unique_slot c \<longrightarrow>
      cx_wallet_address cx \<noteq> gc_wallet_address c \<and> cx_device_fingerprint cx \<noteq> gc_device_fingerprint c"
  shows "\<exists>r. reserve_claim k cx s = Inr r \<and> gc_wallet_address r = cx_wallet_address cx \<and>
           gc_device_fingerprint r = cx_device_fingerprint cx"
  using assms by (auto simp: reserve_claim_def)

lemma fresh_run_append:
  "fresh_run L (es @ es') st s \<longleftrightarrow>
     fresh_run L es st s \<and> (let (st', s') = claim_run L es st s in fresh_run L es' st' s')"
  by (induction es arbitrary: st s) (auto split: prod.split)

lemma run_is_fresh:
  assumes received: "receive_claim L (ge_now e) request source_ip s = (Inr cx, s1)"
    and limit: "enforce_ip_rate_limit (cx_source_ip cx) (cx_now cx) s1 = (Inr (), s2)"
    and device: "\<not> needs_devicecheck s2 cx"
    and reserved: "reserve_claim (ge_new_id e) cx s2 = Inr r"
    and written: "ge_write e' = Written"
    and payout: "run_payout_command (gs_config s2) r (ge_payout e') = (ps, Ok tx_id)"
    and fresh: "{ge_new_id e, ge_new_id e'} \<inter> fst ` set (claims s) = {}" "ge_new_id e \<noteq> ge_new_id e'"
  shows "fresh_run L (replicate 4 e @ replicate 5 e') (Received request source_ip) s"
proof -
  have same: "claims s1 = claims s" "claims s2 = claims s"
    using receive_claim_keeps [OF received] enforce_ip_rate_limit_keeps [OF limit] by simp_all
  have id: "gc_claim_id r = ge_new_id e"
    using reserve_claim_fields [OF reserved] by simp
  have "claim_run L (replicate 4 e) (Received request source_ip) s =
          (WriteClaims (snapshot (put_claim r s2)) (AfterReserved cx r), put_claim r s2)"
    by (simp add: numeral_eq_Suc received limit query_device_def device reserved persist_then_def Let_def)
  moreover have "fresh_run L (replicate 4 e) (Received request source_ip) s"
    using fresh
    by (simp add: numeral_eq_Suc received limit query_device_def device reserved same persist_then_def Let_def)
  moreover have "fresh_run L (replicate 5 e') (WriteClaims rs (AfterReserved cx r)) (put_claim r s2)" for rs
    using fresh written payout device
    by (simp add: numeral_eq_Suc pay_out_def persist_then_def put_claim_def Let_def update_device_def
        complete_claim_def needs_devicecheck_def same id dom_update)
  ultimately show ?thesis
    by (simp add: fresh_run_append)
qed

section \<open>Examples\<close>

definition example_gift_lib :: gift_lib where
  "example_gift_lib =
     \<lparr>unicode = (\<lambda>s. s), sha256 = (\<lambda>bs. of_list (take 32 (bs @ replicate 32 0))), b64_standard = (\<lambda>s. Some (utf8 s)),
      b64_url_safe_no_pad = (\<lambda>_. None), b64_url_safe = (\<lambda>_. None), json_from_slice = (\<lambda>_. None),
      cbor_from_slice = (\<lambda>_. None), x509_extensions = (\<lambda>_. None)\<rparr>"

definition example_gift_config :: gift_config where
  "example_gift_config =
     (gift_config_from_env example_gift_lib (\<lambda>_. None))\<lparr>require_appattest := False,
        require_devicecheck := False, payout_command := Some (str ''pay {wallet}'')\<rparr>"

definition example_gift_service :: gift_service where
  "example_gift_service =
     \<lparr>gs_config = example_gift_config, claims = [], challenges = [], ip_attempts = [],
      gs_devicecheck_client = None, gs_app_attest_verifier = None, claims_path = NoFile, payouts = []\<rparr>"

definition example_request :: "string \<Rightarrow> gift_claim_request" where
  "example_request name =
     \<lparr>rq_platform = None, rq_proof_schema = None, rq_proof_format = None, rq_device_token = str name,
      rq_wallet_address = str (''kaspa:'' @ name), rq_attestation = str ''x'', rq_key_id = str ''k'',
      rq_challenge = str name\<rparr>"

definition example_gift_env :: "string \<Rightarrow> gift_env" where
  "example_gift_env i =
     \<lparr>ge_now = 0, ge_new_id = str i,
      ge_apple = \<lparr>auth_token = Ok (), query_two_bits = (\<lambda>_. TransportError), update_two_bits = (\<lambda>_. TransportError)\<rparr>,
      ge_payout = Exited True (str ''t''), ge_write = Written\<rparr>"

lemmas example_gift_defs = example_gift_lib_def example_gift_config_def example_gift_service_def
  example_request_def example_gift_env_def gift_config_from_env_def read_env_bool_def read_env_u64_def
  read_env_string_def

lemma example_gift_config_simps [simp]:
  "enabled example_gift_config" "challenge_ttl_ms example_gift_config = 120000"
  "challenge_skew_ms example_gift_config = 15000" "amount_sompi example_gift_config = 10000000"
  "\<not> require_appattest example_gift_config" "\<not> require_devicecheck example_gift_config"
  "\<not> allow_simulator_claims example_gift_config"
  "payout_command example_gift_config = Some (str ''pay {wallet}'')"
  by (simp_all add: example_gift_defs)

definition two_challenges :: gift_service where
  "two_challenges = snd (create_challenge 0 (str ''b'') (snd (create_challenge 0 (str ''a'') example_gift_service)))"

lemma two_challenges_eq:
  "two_challenges = example_gift_service\<lparr>challenges :=
     [(str ''a'', \<lparr>issued_at_ms = 0, expires_at_ms = 120000\<rparr>), (str ''b'', \<lparr>issued_at_ms = 0, expires_at_ms = 120000\<rparr>)]\<rparr>"
  by (simp add: two_challenges_def create_challenge_def example_gift_defs sat_add_def sat_sub_def str_def)

definition example_context :: "string \<Rightarrow> claim_context" where
  "example_context name =
     \<lparr>cx_wallet_address = str (''kaspa:'' @ name), cx_device_fingerprint = sha256_hex example_gift_lib (utf8 (str name)),
      cx_source_ip = None, cx_now = 0, cx_skip_devicecheck = False\<rparr>"

lemma receive_example:
  assumes "name \<in> {''a'', ''b''}" "gs_config s = example_gift_config"
    and "map_of (challenges s) (str name) = Some \<lparr>issued_at_ms = 0, expires_at_ms = 120000\<rparr>"
  shows "receive_claim example_gift_lib 0 (example_request name) None s =
           (Inr (example_context name), s\<lparr>challenges := AList.delete (str name) (challenges s)\<rparr>)"
proof -
  have "consume_challenge (str name) 0 s = (Inr (), s\<lparr>challenges := AList.delete (str name) (challenges s)\<rparr>)"
    using assms(3) by (simp add: consume_challenge_def case_prod_beta')
  moreover have "normalize_wallet_address example_gift_lib (str (''kaspa:'' @ name)) = Some (str (''kaspa:'' @ name))"
    using assms(1) by (auto simp: normalize_wallet_address_def Let_def text_defs)
  moreover have "trim (str name) = str name" "str name \<noteq> []"
    using assms(1) by (auto simp: text_defs)
  moreover have "\<not> is_android_claim (example_request name)"
    by (simp add: is_android_claim_def example_request_def text_defs)
  moreover have "validate_base64_blob example_gift_lib m (str name) = Inr (utf8 (str name))"
      "validate_base64_blob example_gift_lib m (str ''x'') = Inr (utf8 (str ''x''))" for m
    using assms(1) by (auto simp: validate_base64_blob_def Let_def text_defs example_gift_lib_def)
  moreover have "trim (str ''k'') = str ''k''" "str ''k'' \<noteq> []"
    by (simp_all add: text_defs)
  ultimately show ?thesis
    using assms(2)
    by (simp add: receive_claim_def verify_claim_def example_request_def normalize_source_ip_def
        example_context_def Let_def)
qed

definition example_record :: "string \<Rightarrow> string \<Rightarrow> gift_claim_record" where
  "example_record name i =
     \<lparr>gc_claim_id = str i, gc_wallet_address = str (''kaspa:'' @ name),
      gc_device_fingerprint = sha256_hex example_gift_lib (utf8 (str name)), gc_tx_id = None, gc_status = Reserved,
      gc_reason = None, gc_amount_sompi = 10000000, gc_source_ip = None, gc_created_at_ms = 0, gc_updated_at_ms = 0\<rparr>"

lemma payout_example:
  "run_payout_command example_gift_config r (Exited True (str ''t'')) =
     ([(r, the (payout_shell_command example_gift_config (gc_claim_id r) (gc_wallet_address r) 10000000), Ok (str ''t''))],
      Ok (str ''t''))"
  by (simp add: run_payout_command_def payout_shell_command_def text_lines_def text_defs strip_cr_def Let_def)

lemma example_fingerprints_differ:
  "sha256_hex example_gift_lib (utf8 (str ''a'')) \<noteq> sha256_hex example_gift_lib (utf8 (str ''b''))"
  by (simp add: sha256_hex_def example_gift_lib_def utf8_def utf8_char_def str_def hex_def hex_digit_def)

lemma reserve_example:
  assumes "gs_config s = example_gift_config"
    and "\<forall>c \<in> set (snapshot s). claim_consumes_unique_slot c \<longrightarrow> \<not> same_slot (example_record name i) c"
  shows "reserve_claim (str i) (example_context name) s = Inr (example_record name i)"
  using assms
  by (auto simp: reserve_claim_def example_context_def example_record_def same_slot_def)

lemma example_claim_ready:
  assumes "name \<in> {''a'', ''b''}" "gs_config s = example_gift_config"
    and "map_of (challenges s) (str name) = Some \<lparr>issued_at_ms = 0, expires_at_ms = 120000\<rparr>"
    and "\<forall>c \<in> set (snapshot s). claim_consumes_unique_slot c \<longrightarrow> \<not> same_slot (example_record name i) c"
  defines "s2 \<equiv> s\<lparr>challenges := AList.delete (str name) (challenges s)\<rparr>"
  defines "ps \<equiv> fst (run_payout_command example_gift_config (example_record name i) (Exited True (str ''t'')))"
  shows "receive_claim example_gift_lib (ge_now (example_gift_env i)) (example_request name) None s =
           (Inr (example_context name), s2)"
    and "enforce_ip_rate_limit (cx_source_ip (example_context name)) (cx_now (example_context name)) s2 = (Inr (), s2)"
    and "\<not> needs_devicecheck s2 (example_context name)"
    and "reserve_claim (ge_new_id (example_gift_env i)) (example_context name) s2 = Inr (example_record name i)"
    and "ge_write (example_gift_env j) = Written"
    and "run_payout_command (gs_config s2) (example_record name i) (ge_payout (example_gift_env j)) = (ps, Ok (str ''t''))"
proof -
  show "receive_claim example_gift_lib (ge_now (example_gift_env i)) (example_request name) None s =
          (Inr (example_context name), s2)"
    using receive_example [OF assms(1-3)] by (simp add: example_gift_env_def s2_def)
  show "reserve_claim (ge_new_id (example_gift_env i)) (example_context name) s2 = Inr (example_record name i)"
    using reserve_example [of s2 name i] assms(2,4) by (simp add: s2_def example_gift_env_def snapshot_def)
qed (simp_all add: s2_def ps_def enforce_ip_rate_limit_def example_context_def needs_devicecheck_def assms(2)
      example_gift_env_def payout_example)

definition after_first :: gift_service where
  "after_first = snd (claim_run example_gift_lib (replicate 4 (example_gift_env ''1'') @ replicate 4 (example_gift_env ''2''))
     (Received (example_request ''a'') None) two_challenges)"

lemma example_ready_a:
  "\<forall>c \<in> set (snapshot two_challenges). claim_consumes_unique_slot c \<longrightarrow> \<not> same_slot (example_record ''a'' ''1'') c"
  "gs_config two_challenges = example_gift_config" "claims two_challenges = []" "payouts two_challenges = []"
  "map_of (challenges two_challenges) (str ''a'') = Some \<lparr>issued_at_ms = 0, expires_at_ms = 120000\<rparr>"
  by (simp_all add: two_challenges_eq example_gift_service_def snapshot_def)

lemmas first_claim = example_claim_ready [OF insertI1 example_ready_a(2,5,1)]

lemma first_run:
  "claim_run example_gift_lib (replicate 4 (example_gift_env ''1'') @ replicate 4 (example_gift_env ''2''))
     (Received (example_request ''a'') None) two_challenges =
     (WriteClaims (snapshot after_first) (AfterCompleted (str ''t'')
        (completed (example_gift_env ''2'') (str ''t'') (example_record ''a'' ''1''))), after_first)"
  unfolding after_first_def run_to_last_write [OF first_claim, of "''2''"] by simp

lemma after_first:
  "claims after_first = [(str ''1'', completed (example_gift_env ''2'') (str ''t'') (example_record ''a'' ''1''))]"
  "gs_config after_first = example_gift_config" "paid after_first = [example_record ''a'' ''1'']"
  "challenges after_first = [(str ''b'', \<lparr>issued_at_ms = 0, expires_at_ms = 120000\<rparr>)]"
  unfolding after_first_def run_to_last_write [OF first_claim, of "''2''"]
  by (simp_all add: example_ready_a paid_def payout_example)
    (simp_all add: example_gift_env_def two_challenges_eq str_def)

lemma example_ready_b:
  "\<forall>c \<in> set (snapshot after_first). claim_consumes_unique_slot c \<longrightarrow> \<not> same_slot (example_record ''b'' ''3'') c"
  "map_of (challenges after_first) (str ''b'') = Some \<lparr>issued_at_ms = 0, expires_at_ms = 120000\<rparr>"
  using example_fingerprints_differ
  by (simp_all add: snapshot_def after_first same_slot_def example_record_def completed_def) (simp add: str_def)

lemmas second_claim =
  example_claim_ready [OF insertI2 [OF singletonI] after_first(2) example_ready_b(2,1)]

text \<open>Both claims are under way; the first stops before its last write, the second completes.\<close>

lemma example_requests_reachable:
  "reachable gift_start (gift_step example_gift_lib)
     \<lparr>sy_service = two_challenges,
      sy_stages = [Received (example_request ''a'') None, Received (example_request ''b'') None]\<rparr>"
proof -
  let ?R = "reachable gift_start (gift_step example_gift_lib)"
  have "?R \<lparr>sy_service = example_gift_service, sy_stages = []\<rparr>"
    by (rule reachable_start) (simp add: gift_start_def example_gift_service_def claims_ok_def)
  note challenge = reachable_step [where step = "gift_step example_gift_lib", OF _ challenge_step]
    and request = reachable_step [where step = "gift_step example_gift_lib", OF _ request_step]
  from \<open>?R \<lparr>sy_service = example_gift_service, sy_stages = []\<rparr>\<close>
  have "?R \<lparr>sy_service = two_challenges, sy_stages = []\<rparr>"
    unfolding two_challenges_def by (intro challenge)
  from request [OF request [OF this]] show ?thesis
    by simp
qed

lemma first_reachable:
  "reachable gift_start (gift_step example_gift_lib)
     \<lparr>sy_service = after_first,
      sy_stages = [WriteClaims (snapshot after_first) (AfterCompleted (str ''t'')
        (completed (example_gift_env ''2'') (str ''t'') (example_record ''a'' ''1''))),
        Received (example_request ''b'') None]\<rparr>"
proof -
  have "fresh_run example_gift_lib (replicate 4 (example_gift_env ''1'') @ replicate 5 (example_gift_env ''2''))
          (Received (example_request ''a'') None) two_challenges"
    by (rule run_is_fresh [OF first_claim]) (simp_all add: example_ready_a example_gift_env_def str_def)
  moreover have "replicate 5 e = replicate 4 e @ [e]" for e :: gift_env
    by (simp add: numeral_eq_Suc)
  ultimately have "fresh_run example_gift_lib (replicate 4 (example_gift_env ''1'') @ replicate 4 (example_gift_env ''2''))
          (Received (example_request ''a'') None) two_challenges"
    by (simp only: append.assoc [symmetric] fresh_run_append [of _ "_ @ _"])
  then show ?thesis
    using run_reachable [OF example_requests_reachable, of 0] first_run by simp
qed

text \<open>
  C32. A paid claim can be lost from the file although every request has succeeded: when the last
  write of an earlier claim is overtaken by a later claim, it puts the older snapshot in place.
  After a restart the wallet and the device of the lost claim find their slots free.
\<close>

theorem stale_snapshot_forgets_claim:
  "\<exists>sy p s' k cx r. reachable gift_start (gift_step example_gift_lib) sy \<and>
     set (sy_stages sy) \<subseteq> range (\<lambda>response. Finished (Inr response)) \<and>
     p \<in> set (paid (sy_service sy)) \<and>
     gift_from_context example_gift_lib (\<lambda>_. None) True (\<lambda>_. Ok ()) (Ok ()) (claims_path (sy_service sy)) = Ok s' \<and>
     reserve_claim k cx s' = Inr r \<and> gc_wallet_address r = gc_wallet_address p \<and>
     gc_device_fingerprint r = gc_device_fingerprint p"
proof -
  let ?c = "completed (example_gift_env ''2'') (str ''t'') (example_record ''a'' ''1'')"
  let ?w = "WriteClaims (snapshot after_first) (AfterCompleted (str ''t'') ?c)"
  let ?envs = "replicate 4 (example_gift_env ''3'') @ replicate 5 (example_gift_env ''4'')"
  obtain s1 response c where run: "claim_run example_gift_lib ?envs (Received (example_request ''b'') None) after_first =
        (Finished (Inr response), s1)" "paid s1 = paid after_first @ [example_record ''b'' ''3'']"
      "claims s1 = AList.update (str ''3'') c (claims after_first)"
    using run_completes [OF second_claim, of "''4''"] by (auto simp: example_gift_env_def)
  have "fresh_run example_gift_lib ?envs (Received (example_request ''b'') None) after_first"
    by (rule run_is_fresh [OF second_claim]) (simp_all add: after_first example_gift_env_def str_def)
  then have "reachable gift_start (gift_step example_gift_lib)
      \<lparr>sy_service = s1, sy_stages = [?w, Finished (Inr response)]\<rparr>"
    using run_reachable [OF first_reachable, of 1] run(1) by simp
  then have "reachable gift_start (gift_step example_gift_lib)
      \<lparr>sy_service = s1\<lparr>claims_path := Snapshot (snapshot after_first)\<rparr>,
       sy_stages = [after_written (AfterCompleted (str ''t'') ?c) s1, Finished (Inr response)]\<rparr>"
    using run_reachable [of example_gift_lib s1 "[?w, Finished (Inr response)]" 0 "[example_gift_env ''5'']"] run(3)
    by (simp add: after_first dom_update example_gift_env_def str_def)
  moreover obtain s' where start: "gift_from_context example_gift_lib (\<lambda>_. None) True (\<lambda>_. Ok ()) (Ok ())
      (Snapshot (snapshot after_first)) = Ok s'" and "claims s' = claims after_first"
    by (simp add: gift_from_context_def snapshot_def after_first Let_def completed_def example_record_def)
  moreover obtain r where "reserve_claim (str ''5'') (example_context ''b'') s' = Inr r"
      "gc_wallet_address r = gc_wallet_address (example_record ''b'' ''3'')"
      "gc_device_fingerprint r = gc_device_fingerprint (example_record ''b'' ''3'')"
    using \<open>claims s' = claims after_first\<close> example_ready_b(1)
      reserve_claim_succeeds [of s' "example_context ''b''" "str ''5''"]
    by (auto simp: snapshot_def same_slot_def example_context_def example_record_def)
  moreover have "example_record ''b'' ''3'' \<in> set (paid (s1\<lparr>claims_path := Snapshot (snapshot after_first)\<rparr>))"
    using run(2) by (simp add: paid_def)
  ultimately show ?thesis
    by (intro exI [of _ "\<lparr>sy_service = s1\<lparr>claims_path := Snapshot (snapshot after_first)\<rparr>,
          sy_stages = [after_written (AfterCompleted (str ''t'') ?c) s1, Finished (Inr response)]\<rparr>"]
        exI [of _ "example_record ''b'' ''3''"] exI [of _ s'] exI [of _ "str ''5''"]
        exI [of _ "example_context ''b''"] exI [of _ r]) auto
qed


theorem gift_claim_completes_witness:
  "\<exists>s'. claim_run example_gift_lib (replicate 4 (example_gift_env ''1'') @ replicate 5 (example_gift_env ''2''))
          (Received (example_request ''a'') None) two_challenges =
        (Finished (Inr \<lparr>gcr_tx_id = str ''t'', gcr_claim_id = str ''1'', gcr_amount_sompi = amount_sompi (gs_config s')\<rparr>), s') \<and>
      claims_path s' = Snapshot (map snd (claims s')) \<and> paid s' = [example_record ''a'' ''1'']"
  using gift_claim_completes [OF first_claim, of "''2''"]
  by (auto simp: paid_def example_ready_a) (auto simp: example_gift_env_def)

text \<open>
  A payout command that is out of time has been started and is not stopped; its claim gives up
  the slots, so that the same wallet and device can claim again and start a second payout.
\<close>

theorem timed_out_payout_frees_slot:
  assumes ok: "claims_ok (claims s)" and holds: "holds_claim s (Payout cx r)"
    and own: "gc_wallet_address r = cx_wallet_address cx" "gc_device_fingerprint r = cx_device_fingerprint cx"
    and command: "payout_command (gs_config s) = Some template" and late: "ge_payout env = TimedOut"
    and step: "claim_step L env (Payout cx r) s = (st', s')"
  shows "(\<exists>command. payouts s' = payouts s @ [(r, command, Err ''payout command timed out'')]) \<and>
         (\<exists>r'. reserve_claim k cx s' = Inr r')"
proof -
  let ?r = "r\<lparr>gc_status := Failed, gc_reason := Some ''payout failed'', gc_updated_at_ms := ge_now env\<rparr>"
  have r: "map_of (claims s) (gc_claim_id r) = Some r" "gc_tx_id r = None" "claim_consumes_unique_slot r"
    using holds by (simp_all add: holds_claim_def claim_consumes_unique_slot_def)
  have s': "s' = put_claim ?r (s\<lparr>payouts := payouts s @ [(r, the (payout_shell_command (gs_config s)
      (gc_claim_id r) (gc_wallet_address r) (amount_sompi (gs_config s))), Err ''payout command timed out'')]\<rparr>)"
    using step command late
    by (auto simp: pay_out_def run_payout_command_def payout_shell_command_def persist_then_def Let_def)
  have free: "\<not> same_slot r c" if c: "c \<in> set (snapshot s')" "claim_consumes_unique_slot c" for c
  proof -
    obtain k where "(k, c) \<in> set (claims s')"
      using c(1) by (auto simp: snapshot_def)
    then have "map_of (claims s') k = Some c"
      using claims_okD(1) [OF ok] by (simp add: s' put_claim_def distinct_update)
    then have "k \<noteq> gc_claim_id r \<and> map_of (claims s) k = Some c"
      using c(2) r(2) by (auto simp: s' put_claim_def update_conv claim_consumes_unique_slot_def split: if_splits)
    then show ?thesis
      using claims_okD(3) [OF ok r(1) _ r(3) c(2)] by auto
  qed
  have "\<exists>r'. reserve_claim k cx s' = Inr r'"
    using free own reserve_claim_succeeds [of s' cx k] by (auto simp: same_slot_def)
  then show ?thesis
    by (auto simp: s' put_claim_def)
qed

theorem timed_out_payout_frees_slot_witness:
  "\<exists>s' r'. snd (claim_step example_gift_lib ((example_gift_env ''2'')\<lparr>ge_payout := TimedOut\<rparr>)
       (Payout (example_context ''a'') (example_record ''a'' ''1'')) (put_claim (example_record ''a'' ''1'') two_challenges)) = s' \<and>
     length (payouts s') = 1 \<and> reserve_claim (str ''2'') (example_context ''a'') s' = Inr r'"
proof -
  let ?s = "put_claim (example_record ''a'' ''1'') two_challenges"
  have "claims_ok (claims ?s)" "holds_claim ?s (Payout (example_context ''a'') (example_record ''a'' ''1''))"
      "payout_command (gs_config ?s) = Some (str ''pay {wallet}'')" "payouts ?s = []"
    by (simp_all add: put_claim_def example_ready_a claims_ok_def holds_claim_def example_record_def)
  then show ?thesis
    using timed_out_payout_frees_slot [of ?s "example_context ''a''" "example_record ''a'' ''1''" _
        "(example_gift_env ''2'')\<lparr>ge_payout := TimedOut\<rparr>" example_gift_lib, OF _ _ _ _ _ _ prod.collapse [symmetric], of _ "str ''2''"]
    by (auto simp: example_record_def example_context_def)
qed

end
