(* ===== verification/Gift_Limits.thy ===== *)
theory Gift_Limits
  imports Gift_Runs
begin

text \<open>
  What the gift service limits: how often an address of the network may claim, and for how long
  and how often a challenge is accepted. Both are stated over sequences of calls, each of which
  holds the lock of its map.
\<close>

section \<open>Rate limit\<close>

fun limit_run :: "(rstr \<times> u64) list \<Rightarrow> gift_service \<Rightarrow> (rstr \<times> u64) list \<times> gift_service" where
  "limit_run [] s = ([], s)"
| "limit_run ((ip, now) # calls) s =
     (case enforce_ip_rate_limit (Some ip) now s of
        (Inl _, s') \<Rightarrow> limit_run calls s'
      | (Inr _, s') \<Rightarrow> let (accepted, s'') = limit_run calls s' in ((ip, now) # accepted, s''))"

definition times_of :: "rstr \<Rightarrow> (rstr \<times> u64) list \<Rightarrow> nat list" where
  "times_of ip calls = map (\<lambda>c. unat (snd c)) (filter (\<lambda>(ip', _). ip' = ip) calls)"

definition in_window :: "nat \<Rightarrow> nat \<Rightarrow> nat list \<Rightarrow> nat list" where
  "in_window start width ts = filter (\<lambda>t. start \<le> t \<and> t \<le> start + width) ts"

text \<open>
  After the accepted calls \<open>acc\<close>, the latest at the time \<open>now\<close>: every window has its limit, and
  the attempts kept are those since some time that is out of the current window.
\<close>

definition limit_inv :: "nat \<Rightarrow> nat \<Rightarrow> (rstr \<times> u64) list \<Rightarrow> nat \<Rightarrow> gift_service \<Rightarrow> bool" where
  "limit_inv width limit acc now s \<longleftrightarrow>
     width = unat (ip_limit_window_ms (gs_config s)) \<and> limit = unat (ip_limit_count (gs_config s)) \<and>
     (\<forall>ip start. length (in_window start width (times_of ip acc)) \<le> limit) \<and>
     (\<forall>ip. \<exists>c \<le> now - width. map unat (attempts_of ip s) = filter (\<lambda>t. c \<le> t) (times_of ip acc)) \<and>
     (\<forall>ip. \<forall>t \<in> set (times_of ip acc). t \<le> now)"

lemma times_of_snoc: "times_of ip (acc @ [(ip', t)]) = times_of ip acc @ (if ip' = ip then [unat t] else [])"
  by (simp add: times_of_def)

lemma attempts_of_update:
  "attempts_of ip (s\<lparr>ip_attempts := AList.update ip' ts (ip_attempts s)\<rparr>) =
     (if ip = ip' then ts else attempts_of ip s)"
  by (simp add: attempts_of_def update_conv)

lemma map_unat_filter: "map unat (filter (\<lambda>t. c \<le> t) ts) = filter (\<lambda>t. unat c \<le> t) (map unat ts)"
  by (induction ts) (simp_all add: word_le_nat_alt)

lemma in_window_recent:
  assumes "t \<le> start + width"
  shows "length (in_window start width ts) \<le> length (filter (\<lambda>x. t - width \<le> x) ts)"
  unfolding in_window_def using assms by (induction ts) auto

lemma limit_inv_step:
  assumes inv: "limit_inv width limit acc last_now s" and later: "last_now \<le> unat now"
    and call: "enforce_ip_rate_limit (Some ip) now s = (result, s')"
  shows "limit_inv width limit (case result of Inl _ \<Rightarrow> acc | Inr _ \<Rightarrow> acc @ [(ip, now)]) (unat now) s'"
proof -
  let ?cut = "sat_sub now (ip_limit_window_ms (gs_config s))"
  let ?records = "filter (\<lambda>t. ?cut \<le> t) (attempts_of ip s)"
  have w: "width = unat (ip_limit_window_ms (gs_config s))" "limit = unat (ip_limit_count (gs_config s))"
    using inv by (simp_all add: limit_inv_def)
  obtain c where c: "c \<le> last_now - width" "map unat (attempts_of ip s) = filter (\<lambda>t. c \<le> t) (times_of ip acc)"
    using inv unfolding limit_inv_def by blast
  have recent: "map unat ?records = filter (\<lambda>t. unat now - width \<le> t) (times_of ip acc)"
    using c later w by (auto simp: map_unat_filter intro!: filter_cong)
  have others: "\<exists>c \<le> unat now - width. map unat (attempts_of ip' s) = filter (\<lambda>t. c \<le> t) (times_of ip' acc)" for ip'
    using inv later unfolding limit_inv_def by (meson diff_le_mono le_trans)
  have past: "\<forall>ip'. \<forall>t \<in> set (times_of ip' acc). t \<le> unat now"
    using inv later unfolding limit_inv_def by (meson le_trans)
  show ?thesis
  proof (cases "limit \<le> length ?records")
    case True
    then have r: "result = Inl (ApiError TooManyRequests ''too many gift claims from this IP'')"
        "s' = s\<lparr>ip_attempts := AList.update ip ?records (ip_attempts s)\<rparr>"
      using call w by (auto simp: enforce_ip_rate_limit_def Let_def)
    then show ?thesis
      using inv recent others past
      by (auto simp: limit_inv_def attempts_of_update)
  next
    case False
    then have r: "result = Inr ()" "s' = s\<lparr>ip_attempts := AList.update ip (?records @ [now]) (ip_attempts s)\<rparr>"
      using call w by (auto simp: enforce_ip_rate_limit_def Let_def)
    have "length (in_window start width (times_of ip (acc @ [(ip, now)]))) \<le> limit" for start
    proof (cases "start \<le> unat now \<and> unat now \<le> start + width")
      case True
      have "length (in_window start width (times_of ip acc)) \<le> length ?records"
        using in_window_recent [of "unat now" start width] True recent by (metis length_map)
      then show ?thesis
        using True False by (simp add: in_window_def times_of_snoc)
    next
      case False
      then show ?thesis
        using inv by (auto simp: in_window_def times_of_snoc limit_inv_def)
    qed
    then show ?thesis
      using inv recent others past unfolding limit_inv_def r
      by (auto simp: attempts_of_update times_of_snoc w)
  qed
qed

lemma limit_run_inv:
  assumes "limit_inv width limit acc last_now s" "sorted (map (\<lambda>c. unat (snd c)) calls)"
    and "\<forall>(_, t) \<in> set calls. last_now \<le> unat t"
  shows "\<exists>now. limit_inv width limit (acc @ fst (limit_run calls s)) now (snd (limit_run calls s))"
  using assms
proof (induction calls arbitrary: acc last_now s)
  case (Cons call calls)
  obtain ip now where call: "call = (ip, now)"
    by (cases call)
  obtain result s' where step: "enforce_ip_rate_limit (Some ip) now s = (result, s')"
    by fastforce
  define acc' where "acc' = (case result of Inl _ \<Rightarrow> acc | Inr _ \<Rightarrow> acc @ [(ip, now)])"
  have "limit_inv width limit acc' (unat now) s'"
    using limit_inv_step [OF Cons.prems(1) _ step] Cons.prems(3) by (simp add: call acc'_def)
  moreover have "sorted (map (\<lambda>c. unat (snd c)) calls)" "\<forall>(_, t) \<in> set calls. unat now \<le> unat t"
    using Cons.prems(2) by (auto simp: call)
  ultimately obtain n where "limit_inv width limit (acc' @ fst (limit_run calls s')) n (snd (limit_run calls s'))"
    using Cons.IH by blast
  then show ?case
    by (auto simp: call step acc'_def split: sum.splits prod.splits intro!: exI [of _ n])
qed auto

text \<open>
  C14. When the clock does not go back, at most the configured number of claims of an address of
  the network passes the rate limit within any window of the configured length.
\<close>

theorem gift_rate_limit_bound:
  assumes "sorted (map (\<lambda>c. unat (snd c)) calls)" "ip_attempts s = []"
  shows "length (in_window start (unat (ip_limit_window_ms (gs_config s)))
           (times_of ip (fst (limit_run calls s)))) \<le> unat (ip_limit_count (gs_config s))"
proof -
  have "limit_inv (unat (ip_limit_window_ms (gs_config s))) (unat (ip_limit_count (gs_config s))) [] 0 s"
    using assms(2) by (simp add: limit_inv_def times_of_def in_window_def attempts_of_def)
  from limit_run_inv [OF this assms(1)] show ?thesis
    by (auto simp: limit_inv_def)
qed

theorem gift_rate_limit_bound_witness:
  "fst (limit_run [(str ''i'', 1), (str ''i'', 2), (str ''i'', 3), (str ''i'', 4)] example_gift_service) =
     [(str ''i'', 1), (str ''i'', 2), (str ''i'', 3)] \<and>
   length (in_window 0 86400000 (times_of (str ''i'')
     (fst (limit_run [(str ''i'', 1), (str ''i'', 2), (str ''i'', 3), (str ''i'', 4)] example_gift_service)))) \<le> 3"
proof -
  have limits: "ip_limit_count example_gift_config = 3" "ip_limit_window_ms example_gift_config = 86400000"
    by (simp_all add: example_gift_defs)
  have "fst (limit_run [(str ''i'', 1), (str ''i'', 2), (str ''i'', 3), (str ''i'', 4)] example_gift_service) =
     [(str ''i'', 1), (str ''i'', 2), (str ''i'', 3)]"
    by (simp add: enforce_ip_rate_limit_def attempts_of_def example_gift_service_def limits sat_sub_def Let_def)
  moreover have "ip_attempts example_gift_service = []" "gs_config example_gift_service = example_gift_config"
    by (simp_all add: example_gift_service_def)
  ultimately show ?thesis
    using gift_rate_limit_bound [of "[(str ''i'', 1), (str ''i'', 2), (str ''i'', 3), (str ''i'', 4)]"
        example_gift_service 0 "str ''i''"]
    by (simp add: limits)
qed

section \<open>Challenges\<close>

datatype challenge_call = Issue rstr u64 | Consume rstr u64

fun call_time :: "challenge_call \<Rightarrow> u64" where
  "call_time (Issue _ t) = t"
| "call_time (Consume _ t) = t"

fun make_call :: "challenge_call \<Rightarrow> gift_service \<Rightarrow> gift_service" where
  "make_call (Issue nonce now) s = snd (create_challenge now nonce s)"
| "make_call (Consume c now) s = snd (consume_challenge c now s)"

definition entry_at :: "gift_service \<Rightarrow> u64 \<Rightarrow> challenge_entry" where
  "entry_at s t = \<lparr>issued_at_ms = t, expires_at_ms = sat_add t (challenge_ttl_ms (gs_config s))\<rparr>"

definition live :: "gift_service \<Rightarrow> u64 \<Rightarrow> challenge_entry \<Rightarrow> bool" where
  "live s now e \<longleftrightarrow> unat now \<le> unat (expires_at_ms e) + unat (challenge_skew_ms (gs_config s))"

lemma live_conditions:
  "sat_sub now (challenge_skew_ms (gs_config s)) \<le> expires_at_ms e \<longleftrightarrow> live s now e"
  "now \<le> sat_add (expires_at_ms e) (challenge_skew_ms (gs_config s)) \<longleftrightarrow> live s now e"
proof -
  have "unat now \<le> 2 ^ 64 - 1"
    using unsigned_less [of now, where ?'a = nat] by simp
  then show "now \<le> sat_add (expires_at_ms e) (challenge_skew_ms (gs_config s)) \<longleftrightarrow> live s now e"
    by (simp add: live_def word_le_nat_alt)
  show "sat_sub now (challenge_skew_ms (gs_config s)) \<le> expires_at_ms e \<longleftrightarrow> live s now e"
    by (auto simp: live_def word_le_nat_alt)
qed

lemma live_entry_at:
  "live s now (entry_at s t) \<longleftrightarrow>
     unat now \<le> unat t + unat (challenge_ttl_ms (gs_config s)) + unat (challenge_skew_ms (gs_config s))"
proof -
  have "unat now \<le> 2 ^ 64 - 1"
    using unsigned_less [of now, where ?'a = nat] by simp
  then show ?thesis
    by (auto simp: live_def entry_at_def)
qed

lemma live_earlier: "live s now e \<Longrightarrow> t \<le> now \<Longrightarrow> live s t e"
  by (simp add: live_def word_le_nat_alt)

text \<open>A challenge issued at \<open>t\<close>, and neither issued again nor consumed since.\<close>

definition pending_since :: "challenge_call list \<Rightarrow> rstr \<Rightarrow> u64 \<Rightarrow> bool" where
  "pending_since calls c t \<longleftrightarrow> (\<exists>before after. calls = before @ Issue c t # after \<and>
     (\<forall>t'. Issue c t' \<notin> set after) \<and> (\<forall>t'. Consume c t' \<notin> set after))"

lemma pending_since_snoc:
  "pending_since (calls @ [Issue c' t']) c t \<longleftrightarrow> (if c' = c then t = t' else pending_since calls c t)"
  "pending_since (calls @ [Consume c' t']) c t \<longleftrightarrow> c' \<noteq> c \<and> pending_since calls c t"
proof -
  have snoc: "pending_since (calls @ [x]) c t \<longleftrightarrow>
      x = Issue c t \<or> (\<forall>t'. x \<noteq> Issue c t' \<and> x \<noteq> Consume c t') \<and> pending_since calls c t" for x
  proof
    assume "pending_since (calls @ [x]) c t"
    then obtain before after where split: "calls @ [x] = before @ Issue c t # after"
        "\<forall>t'. Issue c t' \<notin> set after" "\<forall>t'. Consume c t' \<notin> set after"
      by (auto simp: pending_since_def)
    show "x = Issue c t \<or> (\<forall>t'. x \<noteq> Issue c t' \<and> x \<noteq> Consume c t') \<and> pending_since calls c t"
    proof (cases after rule: rev_cases)
      case (snoc ys y)
      then have "calls @ [x] = (before @ Issue c t # ys) @ [y]"
        using split(1) by simp
      then have "calls = before @ Issue c t # ys" "x = y"
        by (simp_all only: append1_eq_conv)
      then show ?thesis
        using split(2,3) snoc by (auto simp: pending_since_def)
    qed (use split in simp)
  next
    assume "x = Issue c t \<or> (\<forall>t'. x \<noteq> Issue c t' \<and> x \<noteq> Consume c t') \<and> pending_since calls c t"
    then show "pending_since (calls @ [x]) c t"
    proof
      assume "x = Issue c t"
      then show ?thesis
        unfolding pending_since_def by (intro exI [of _ calls] exI [of _ "[]"]) simp
    next
      assume x: "(\<forall>t'. x \<noteq> Issue c t' \<and> x \<noteq> Consume c t') \<and> pending_since calls c t"
      then obtain before after where "calls = before @ Issue c t # after"
          "\<forall>t'. Issue c t' \<notin> set after" "\<forall>t'. Consume c t' \<notin> set after"
        by (auto simp: pending_since_def)
      then show ?thesis
        unfolding pending_since_def using x by (intro exI [of _ before] exI [of _ "after @ [x]"]) auto
    qed
  qed
  show "pending_since (calls @ [Issue c' t']) c t \<longleftrightarrow> (if c' = c then t = t' else pending_since calls c t)"
    by (auto simp: snoc)
  show "pending_since (calls @ [Consume c' t']) c t \<longleftrightarrow> c' \<noteq> c \<and> pending_since calls c t"
    by (auto simp: snoc)
qed

lemma pending_since_Nil [simp]: "\<not> pending_since [] c t"
  by (simp add: pending_since_def)

lemma make_call_config [simp]: "gs_config (make_call call s) = gs_config s"
  by (cases call) (auto simp: create_challenge_def consume_challenge_def Let_def split: option.splits)

lemma make_call_challenges:
  assumes "distinct (map fst (challenges s))"
  shows "distinct (map fst (challenges (make_call call s)))"
    and "enabled (gs_config s) \<Longrightarrow> live s now e \<Longrightarrow> call_time call \<le> now \<Longrightarrow>
      map_of (challenges (make_call call s)) c = Some e \<longleftrightarrow>
        (case call of Issue c' t \<Rightarrow> if c' = c then e = entry_at s t else map_of (challenges s) c = Some e
         | Consume c' t \<Rightarrow> c' \<noteq> c \<and> map_of (challenges s) c = Some e)"
proof -
  have "distinct (map fst (filter P (challenges s)))" for P
    using assms by (simp add: distinct_map_filter)
  then show "distinct (map fst (challenges (make_call call s)))"
    using assms
    by (cases call) (auto simp: create_challenge_def consume_challenge_def Let_def distinct_update distinct_delete
        split: option.splits)
  show "map_of (challenges (make_call call s)) c = Some e \<longleftrightarrow>
        (case call of Issue c' t \<Rightarrow> if c' = c then e = entry_at s t else map_of (challenges s) c = Some e
         | Consume c' t \<Rightarrow> c' \<noteq> c \<and> map_of (challenges s) c = Some e)"
    if "enabled (gs_config s)" "live s now e" "call_time call \<le> now"
    using that live_earlier [OF that(2)] map_of_filter_value [OF assms]
    by (cases call) (auto simp: create_challenge_def consume_challenge_def Let_def update_conv delete_conv
        live_conditions entry_at_def split: option.splits)
qed

lemma challenges_run:
  assumes "enabled (gs_config s)" "challenges s = []" "\<forall>call \<in> set calls. call_time call \<le> now"
  defines "s' \<equiv> fold make_call calls s"
  shows "distinct (map fst (challenges s')) \<and> gs_config s' = gs_config s \<and>
     (\<forall>c e. live s now e \<longrightarrow> (map_of (challenges s') c = Some e \<longleftrightarrow> (\<exists>t. pending_since calls c t \<and> e = entry_at s t)))"
  using assms(3) unfolding s'_def
proof (induction calls rule: rev_induct)
  case (snoc call calls)
  let ?s = "fold make_call calls s"
  have IH: "distinct (map fst (challenges ?s))" "gs_config ?s = gs_config s"
      "live s now e \<Longrightarrow> (map_of (challenges ?s) c = Some e \<longleftrightarrow> (\<exists>t. pending_since calls c t \<and> e = entry_at s t))" for c e
    using snoc by auto
  have same: "live ?s = live s" "entry_at ?s = entry_at s"
    using IH(2) by (simp_all add: live_def entry_at_def fun_eq_iff)
  show ?case
    using make_call_challenges(1) [OF IH(1), of call] make_call_challenges(2) [OF IH(1), of now _ call]
      make_call_config [of call ?s] IH(2,3) assms(1) snoc.prems
    by (cases call) (auto simp: same pending_since_snoc)
qed (simp add: assms(2))

text \<open>
  C13. When the clock does not go back, a challenge is accepted exactly when it was issued, has been
  neither issued again nor offered since, and is not older than its time to live and the tolerance.
  So a challenge is accepted once.
\<close>

theorem challenge_accepted_iff:
  assumes "enabled (gs_config s)" "challenges s = []" "\<forall>call \<in> set calls. call_time call \<le> now"
  shows "fst (consume_challenge c now (fold make_call calls s)) = Inr () \<longleftrightarrow>
     (\<exists>t. pending_since calls c t \<and> unat now \<le>
        unat t + unat (challenge_ttl_ms (gs_config s)) + unat (challenge_skew_ms (gs_config s)))"
proof -
  let ?s = "fold make_call calls s"
  have run: "distinct (map fst (challenges ?s))" "gs_config ?s = gs_config s"
      "live s now e \<Longrightarrow> (map_of (challenges ?s) c = Some e \<longleftrightarrow> (\<exists>t. pending_since calls c t \<and> e = entry_at s t))" for e
    using challenges_run [OF assms] by auto
  have issued: "t \<le> now" if "pending_since calls c t" for t
    using that assms(3) by (auto simp: pending_since_def)
  have live: "live ?s = live s"
    using run(2) by (simp add: live_def fun_eq_iff)
  have "fst (consume_challenge c now ?s) = Inr () \<longleftrightarrow>
      (\<exists>e. map_of (challenges ?s) c = Some e \<and> live s now e \<and> \<not> sat_add now (challenge_skew_ms (gs_config s)) < issued_at_ms e)"
    using live_conditions(2) [of now _ ?s]
    by (auto simp: consume_challenge_def Let_def map_of_filter_value [OF run(1)] live run(2) not_le [symmetric]
        split: option.splits)
  also have "\<dots> \<longleftrightarrow> (\<exists>t. pending_since calls c t \<and> live s now (entry_at s t))"
  proof -
    have "\<not> sat_add now (challenge_skew_ms (gs_config s)) < issued_at_ms (entry_at s t)" if "pending_since calls c t" for t
      using issued [OF that] unsigned_less [of t, where ?'a = nat]
      by (simp add: entry_at_def word_less_nat_alt word_le_nat_alt)
    then show ?thesis
      using run(3) by auto
  qed
  finally show ?thesis
    by (simp add: live_entry_at)
qed

theorem challenge_accepted_iff_witness:
  "fst (consume_challenge (str ''a'') 5 (fold make_call [Issue (str ''a'') 1, Consume (str ''b'') 3] example_gift_service)) = Inr () \<and>
   fst (consume_challenge (str ''a'') 5 (fold make_call [Issue (str ''a'') 1, Consume (str ''a'') 3] example_gift_service)) \<noteq> Inr ()"
proof -
  have s: "enabled (gs_config example_gift_service)" "challenges example_gift_service = []"
      "gs_config example_gift_service = example_gift_config"
    by (simp_all add: example_gift_service_def)
  have "str ''a'' \<noteq> str ''b''"
    by (simp add: str_def)
  then have "pending_since [Issue (str ''a'') 1, Consume (str ''b'') 3] (str ''a'') 1"
      "\<not> pending_since [Issue (str ''a'') 1, Consume (str ''a'') 3] (str ''a'') t" for t
    using pending_since_snoc(1) [of "[]"] pending_since_snoc(2) [of "[Issue (str ''a'') 1]"] by auto
  then show ?thesis
    using challenge_accepted_iff [OF s(1,2), of "[Issue (str ''a'') 1, Consume (str ''b'') 3]" 5 "str ''a''"]
      challenge_accepted_iff [OF s(1,2), of "[Issue (str ''a'') 1, Consume (str ''a'') 3]" 5 "str ''a''"]
    by (auto simp: s(3) intro!: exI [of _ 1])
qed

section \<open>What the payout command is given\<close>

text \<open>An accepted wallet address has no character that a shell treats specially.\<close>

lemma normalize_wallet_address_safe:
  "normalize_wallet_address L v = Some w \<Longrightarrow> prefix (str ''kaspa:'') w \<and>
     (\<forall>c \<in> set w. is_ascii_lowercase c \<or> is_ascii_digit c \<or> c = 58)"
  by (auto simp: normalize_wallet_address_def Let_def list_all_iff split: if_splits)

text \<open>The amount in sompi that a decimal number of KAS stands for.\<close>

definition kas_in_sompi :: "rstr \<Rightarrow> nat" where
  "kas_in_sompi t =
     (case split_at (\<lambda>c. c = 46) t of
        whole # fraction # _ \<Rightarrow> decimal_value whole * 10 ^ 8 + decimal_value fraction * 10 ^ (8 - length fraction)
      | whole # [] \<Rightarrow> decimal_value whole * 10 ^ 8
      | [] \<Rightarrow> 0)"

lemma split_at_none: "\<forall>c \<in> set s. \<not> p c \<Longrightarrow> split_at p s = [s]"
  by (induction s) auto

lemma split_at_first:
  "\<forall>c \<in> set s. \<not> p c \<Longrightarrow> p d \<Longrightarrow> split_at p (s @ d # t) = s # split_at p t"
  by (induction s) auto

lemma decimal_no_point: "\<forall>c \<in> set (decimal n). \<not> c = 46"
  by (auto dest: decimal_digits simp: is_ascii_digit_def)

lemma length_decimal: "n < 10 ^ k \<Longrightarrow> 0 < k \<Longrightarrow> length (decimal n) \<le> k"
proof (induction k arbitrary: n)
  case (Suc k)
  show ?case
  proof (cases "n < 10")
    case False
    then have "0 < k" "n div 10 < 10 ^ k"
      using Suc.prems by (auto intro: gr0I)
    then show ?thesis
      using Suc.IH [of "n div 10"] by (subst decimal.simps) simp
  qed (subst decimal.simps, simp)
qed simp

lemma decimal_value_zeros: "decimal_value (replicate k 48 @ s) = decimal_value s"
  by (induction k) (simp_all add: decimal_value_def)

text \<open>
  The amount handed to the payout command in KAS is exactly the amount in sompi.
\<close>

theorem sompi_to_kas_decimal_exact: "kas_in_sompi (sompi_to_kas_decimal amount) = unat amount"
proof -
  let ?w = "unat amount div 100000000" and ?f = "unat amount mod 100000000"
  have len: "length (decimal ?f) \<le> 8"
    by (rule length_decimal) simp_all
  have "\<forall>c \<in> set (pad_zeros 8 (decimal ?f)). \<not> c = 46"
    using decimal_no_point by (auto simp: pad_zeros_def)
  then have f: "split_at (\<lambda>c. c = 46) (pad_zeros 8 (decimal ?f)) = [pad_zeros 8 (decimal ?f)]"
    by (rule split_at_none)
  have "length (pad_zeros 8 (decimal ?f)) = 8" "decimal_value (pad_zeros 8 (decimal ?f)) = ?f"
    using len by (simp_all add: pad_zeros_def decimal_value_zeros)
  moreover have "split_at (\<lambda>c. c = 46) (decimal ?w @ str ''.'' @ pad_zeros 8 (decimal ?f)) =
      [decimal ?w, pad_zeros 8 (decimal ?f)]"
    using split_at_first [OF decimal_no_point, of 46 ?w] f by (simp add: str_def)
  ultimately show ?thesis
    using split_at_none [OF decimal_no_point, of ?w] div_mult_mod_eq [of "unat amount" 100000000]
    by (auto simp: sompi_to_kas_decimal_def kas_in_sompi_def Let_def)
qed

end
