(* ===== verification/Push_Registry.thy ===== *)
theory Push_Registry
  imports Rust_Text Node "HOL-Library.AList"
begin

text \<open>
  The registry of the push service (\<^verbatim>\<open>indexer/src/push.rs\<close>): its configuration, the normal forms
  of addresses, tokens, aliases and routes, the challenges that authenticate a wallet, and the
  handlers that register, update and remove a device. A hash map is an association list; its
  order is never observed.
\<close>

section \<open>Configuration and state\<close>

record 'addr push_lib = "'addr kaspa_lib" +
  pl_unicode :: "rstr \<Rightarrow> rstr"
  pl_sha256 :: "bytes \<Rightarrow> hash"
  pl_json_from_slice :: "bytes \<Rightarrow> json option"
  pl_address_to_string :: "'addr \<Rightarrow> rstr"
  pl_decode_apns_error :: "rstr \<Rightarrow> rstr option option"

record push_config =
  push_provider :: rstr
  push_ios_enabled :: bool
  push_fcm_enabled :: bool
  pc_challenge_ttl_ms :: u64
  pc_challenge_skew_ms :: u64
  apns_environment :: rstr
  apns_team_id :: "rstr option"
  apns_key_id :: "rstr option"
  apns_bundle_id :: "rstr option"
  apns_key_path :: "rstr option"
  apns_inline_payload_limit :: u64
  apns_timeout_ms :: u64
  fcm_project_id :: "rstr option"
  fcm_service_account_path :: "rstr option"
  fcm_timeout_ms :: u64

definition push_config_from_env :: "('addr, 'x) push_lib_scheme \<Rightarrow> environment \<Rightarrow> push_config" where
  "push_config_from_env L var =
     \<lparr>push_provider = (case read_env_string var ''PUSH_PROVIDER'' of Some v \<Rightarrow> v | None \<Rightarrow> str ''apns''),
      push_ios_enabled = read_env_bool (pl_unicode L) var ''PUSH_IOS_ENABLED'' True,
      push_fcm_enabled = read_env_bool (pl_unicode L) var ''PUSH_FCM_ENABLED'' False,
      pc_challenge_ttl_ms = read_env_u64 var ''PUSH_CHALLENGE_TTL_MS'' 120000,
      pc_challenge_skew_ms = read_env_u64 var ''PUSH_CHALLENGE_SKEW_MS'' 15000,
      apns_environment =
        to_lowercase (pl_unicode L)
          (trim (case read_env_string var ''PUSH_APNS_ENVIRONMENT'' of Some v \<Rightarrow> v | None \<Rightarrow> str ''auto'')),
      apns_team_id = read_env_string var ''PUSH_APNS_TEAM_ID'',
      apns_key_id = read_env_string var ''PUSH_APNS_KEY_ID'',
      apns_bundle_id = read_env_string var ''PUSH_APNS_BUNDLE_ID'',
      apns_key_path = read_env_string var ''PUSH_APNS_KEY_PATH'',
      apns_inline_payload_limit = read_env_u64 var ''PUSH_INLINE_PAYLOAD_LIMIT'' 3500,
      apns_timeout_ms = read_env_u64 var ''PUSH_APNS_TIMEOUT_MS'' 15000,
      fcm_project_id = read_env_string var ''PUSH_FCM_PROJECT_ID'',
      fcm_service_account_path = read_env_string var ''PUSH_FCM_SERVICE_ACCOUNT_PATH'',
      fcm_timeout_ms = read_env_u64 var ''PUSH_FCM_TIMEOUT_MS'' 15000\<rparr>"

record contextual_push_route =
  peer_address :: rstr
  cr_aliases :: "rstr list"

record device_registration =
  dr_device_token :: rstr
  dr_token_type :: rstr
  dr_platform :: rstr
  dr_app_bundle_id :: "rstr option"
  watched_addresses :: "rstr set"
  watch_pulse_reply_addresses :: "rstr set"
  dr_primary_address :: "rstr option"
  dr_aliases :: "rstr list"
  contextual_routes :: "contextual_push_route list"
  dr_wallet_pubkey :: rstr
  dr_wallet_address :: rstr
  dr_created_at_ms :: u64
  dr_updated_at_ms :: u64

record push_challenge_entry =
  pce_issued_at_ms :: u64
  pce_expires_at_ms :: u64

record push_dispatch_counters =
  dc_events :: u64
  dc_targets :: u64
  dc_attempts :: u64
  dc_sent :: u64
  dc_invalid :: u64
  dc_failed :: u64
  dc_deduped :: u64

datatype registry_file = NoRegistry | RegistrySnapshot "device_registration list" | UnreadableRegistry

text \<open>
  The clients of the two push providers keep the token they authenticate with and when it was
  issued or expires.
\<close>

record apns_client =
  apns_host :: rstr
  apns_topic :: rstr
  apns_token_cache :: "(rstr \<times> u64) option"

record fcm_client =
  fcm_project :: rstr
  fcm_token_uri :: rstr
  fcm_token_cache :: "(rstr \<times> u64) option"

text \<open>
  The last two fields are outside the service: the file of the registrations, and what was
  delivered: the device, the event, and the time it was marked as delivered.
\<close>

record push_service =
  ps_config :: push_config
  registrations :: "(rstr \<times> device_registration) list"
  ps_challenges :: "(rstr \<times> push_challenge_entry) list"
  ps_apns_client :: "apns_client option"
  ps_fcm_client :: "fcm_client option"
  recent_dispatches :: "(rstr \<times> u64) list"
  dispatch_dedupe_ttl_ms :: u64
  dispatch_counters :: push_dispatch_counters
  registrations_path :: registry_file
  deliveries :: "(rstr \<times> rstr \<times> u64) list"

fun load_registrations :: "registry_file \<Rightarrow> (rstr \<times> device_registration) list res" where
  "load_registrations NoRegistry = Ok []"
| "load_registrations UnreadableRegistry = Err ''failed to read push registrations''"
| "load_registrations (RegistrySnapshot rs) = Ok (fold (\<lambda>r. AList.update (dr_device_token r) r) rs [])"

datatype registry_write = RegistryWritten | RegistryNotWritten registry_file

fun persist_registrations ::
    "registry_write \<Rightarrow> push_service \<Rightarrow> unit res \<times> push_service" where
  "persist_registrations RegistryWritten s =
     (Ok (), s\<lparr>registrations_path := RegistrySnapshot (map snd (registrations s))\<rparr>)"
| "persist_registrations (RegistryNotWritten left) s =
     (Err ''failed to write push registrations'', s\<lparr>registrations_path := left\<rparr>)"

section \<open>Normal forms\<close>

definition nonempty :: "rstr \<Rightarrow> rstr option" where
  "nonempty s = (if s = [] then None else Some s)"

definition normalize_address :: "('addr, 'x) push_lib_scheme \<Rightarrow> rstr \<Rightarrow> rstr option" where
  "normalize_address L v = nonempty (to_lowercase (pl_unicode L) (trim v))"

definition normalize_bundle_id :: "('addr, 'x) push_lib_scheme \<Rightarrow> rstr \<Rightarrow> rstr option" where
  "normalize_bundle_id L v = nonempty (to_lowercase (pl_unicode L) (trim v))"

definition normalize_optional_address :: "('addr, 'x) push_lib_scheme \<Rightarrow> rstr option \<Rightarrow> rstr option" where
  "normalize_optional_address L v = Option.bind v (normalize_address L)"

definition normalize_optional_bundle_id :: "('addr, 'x) push_lib_scheme \<Rightarrow> rstr option \<Rightarrow> rstr option" where
  "normalize_optional_bundle_id L v = Option.bind v (normalize_bundle_id L)"

definition normalize_addresses :: "('addr, 'x) push_lib_scheme \<Rightarrow> rstr list \<Rightarrow> rstr set" where
  "normalize_addresses L vs = set (List.map_filter (normalize_address L) vs)"

definition normalize_token_type :: "('addr, 'x) push_lib_scheme \<Rightarrow> rstr \<Rightarrow> rstr" where
  "normalize_token_type L v =
     (let n = to_lowercase (pl_unicode L) (trim v) in if n = [] then str ''apns'' else n)"

definition unauthorized :: "string \<Rightarrow> api_error" where
  "unauthorized = ApiError Unauthorized"

definition bad_push_request :: "string \<Rightarrow> api_error" where
  "bad_push_request = ApiError BadRequest"

definition normalize_device_token :: "('addr, 'x) push_lib_scheme \<Rightarrow> rstr \<Rightarrow> rstr \<Rightarrow> rstr api" where
  "normalize_device_token L v token_type =
     (let token = trim v in
      if token = [] then Inl (bad_push_request ''missing device token'')
      else if token_type = str ''apns'' then Inr (to_lowercase (pl_unicode L) token)
      else Inr token)"

definition is_hex_string :: "rstr \<Rightarrow> bool" where
  "is_hex_string v \<longleftrightarrow> v \<noteq> [] \<and> list_all is_ascii_hexdigit v"

definition validate_token_and_type :: "push_config \<Rightarrow> rstr \<Rightarrow> rstr \<Rightarrow> unit api" where
  "validate_token_and_type config token token_type =
     (if token_type = str ''apns'' then
        (if byte_len token \<noteq> 64 \<or> \<not> is_hex_string token
         then Inl (bad_push_request ''invalid device token length'') else Inr ())
      else if token_type = str ''fcm'' then
        (if \<not> push_fcm_enabled config then Inl (bad_push_request ''FCM push is disabled'') else Inr ())
      else Inl (bad_push_request ''unsupported token type''))"

text \<open>Adding at the end what is not there yet: the loops with a set of values seen.\<close>

definition add_new :: "'a \<Rightarrow> 'a list \<Rightarrow> 'a list" where
  "add_new x xs = (if x \<in> set xs then xs else xs @ [x])"

definition normalize_aliases :: "rstr list \<Rightarrow> rstr list" where
  "normalize_aliases vs = fold (\<lambda>v acc. if trim v = [] then acc else add_new (trim v) acc) vs []"

definition add_route ::
    "('addr, 'x) push_lib_scheme \<Rightarrow> contextual_push_route \<Rightarrow> (rstr \<times> rstr list) list \<Rightarrow> (rstr \<times> rstr list) list" where
  "add_route L v m =
     (case normalize_address L (peer_address v) of
        None \<Rightarrow> m
      | Some peer \<Rightarrow>
          AList.update peer
            (fold add_new (normalize_aliases (cr_aliases v)) (case map_of m peer of None \<Rightarrow> [] | Some e \<Rightarrow> e)) m)"

definition normalize_contextual_routes ::
    "('addr, 'x) push_lib_scheme \<Rightarrow> contextual_push_route list \<Rightarrow> contextual_push_route list" where
  "normalize_contextual_routes L vs =
     sort_key peer_address
       (map (\<lambda>(peer, aliases). \<lparr>peer_address = peer, cr_aliases = aliases\<rparr>)
         (filter (\<lambda>(_, aliases). aliases \<noteq> []) (fold (add_route L) vs [])))"

definition suppressed_suffix :: rstr where "suppressed_suffix = str ''__kbs1''"
definition visible_suffix :: rstr where "visible_suffix = str ''__kbp1''"
definition legacy_suppressed_suffix :: rstr where "legacy_suppressed_suffix = str ''__silent''"
definition legacy_visible_suffix :: rstr where "legacy_visible_suffix = str ''__push''"

definition contact_request_inbox_watch_aliases :: "('addr, 'x) push_lib_scheme \<Rightarrow> rstr \<Rightarrow> rstr list" where
  "contact_request_inbox_watch_aliases L wallet_address =
     (let normalized = to_lowercase (pl_unicode L) (trim wallet_address) in
      if normalized = [] then []
      else
        let base = str ''crin_'' @ hex (take 8 (list_of (pl_sha256 L (utf8 normalized))))
        in [base, base @ suppressed_suffix, base @ visible_suffix, base @ legacy_suppressed_suffix,
            base @ legacy_visible_suffix])"

definition derived_contextual_registration_aliases ::
    "('addr, 'x) push_lib_scheme \<Rightarrow> rstr \<Rightarrow> contextual_push_route list \<Rightarrow> rstr list" where
  "derived_contextual_registration_aliases L wallet_address routes =
     fold add_new (contact_request_inbox_watch_aliases L wallet_address @ concat (map cr_aliases routes)) []"

section \<open>Authentication\<close>

record push_challenge_response =
  pr_nonce :: rstr
  pr_issued_at_ms :: u64
  pr_expires_at_ms :: u64

record push_auth_request =
  pa_wallet_pubkey :: rstr
  pa_wallet_address :: rstr
  pa_nonce :: rstr
  pa_timestamp_ms :: u64
  pa_expires_at_ms :: u64
  pa_signature :: rstr

record validated_auth =
  va_wallet_pubkey :: rstr
  va_wallet_address :: rstr

definition push_create_challenge ::
    "u64 \<Rightarrow> rstr \<Rightarrow> push_service \<Rightarrow> push_challenge_response \<times> push_service" where
  "push_create_challenge now nonce s =
     (let expires = sat_add now (pc_challenge_ttl_ms (ps_config s));
          live = filter (\<lambda>(_, e). sat_sub now (pc_challenge_skew_ms (ps_config s)) \<le> pce_expires_at_ms e)
                   (ps_challenges s)
      in (\<lparr>pr_nonce = nonce, pr_issued_at_ms = now, pr_expires_at_ms = expires\<rparr>,
          s\<lparr>ps_challenges :=
              AList.update nonce \<lparr>pce_issued_at_ms = now, pce_expires_at_ms = expires\<rparr> live\<rparr>))"

definition validate_auth ::
    "('addr, 'x) push_lib_scheme \<Rightarrow> u64 \<Rightarrow> push_auth_request option \<Rightarrow> push_service \<Rightarrow> validated_auth api \<times> push_service" where
  "validate_auth L now auth_request s =
     (case auth_request of
        None \<Rightarrow> (Inl (unauthorized ''missing auth''), s)
      | Some auth \<Rightarrow>
      let wallet_pubkey = to_lowercase (pl_unicode L) (trim (pa_wallet_pubkey auth)) in
      if byte_len wallet_pubkey \<noteq> 64 \<or> \<not> is_hex_string wallet_pubkey
      then (Inl (unauthorized ''invalid wallet pubkey''), s)
      else case normalize_address L (pa_wallet_address auth) of
        None \<Rightarrow> (Inl (unauthorized ''invalid wallet address''), s)
      | Some wallet_address \<Rightarrow>
      if trim (pa_signature auth) = [] then (Inl (unauthorized ''invalid schnorr signature''), s)
      else
      let skew = pc_challenge_skew_ms (ps_config s) in
      if sat_add now skew < pa_timestamp_ms auth then (Inl (unauthorized ''auth timestamp is in the future''), s)
      else if sat_add (pa_expires_at_ms auth) skew < now then (Inl (unauthorized ''auth expired''), s)
      else
      let nonce = trim (pa_nonce auth) in
      if nonce = [] then (Inl (unauthorized ''invalid nonce''), s)
      else
      let live = filter (\<lambda>(_, e). now \<le> sat_add (pce_expires_at_ms e) skew) (ps_challenges s) in
      case map_of live nonce of
        None \<Rightarrow> (Inl (unauthorized ''invalid challenge nonce''), s\<lparr>ps_challenges := live\<rparr>)
      | Some challenge \<Rightarrow>
          (if pa_expires_at_ms auth \<noteq> pce_expires_at_ms challenge
           then Inl (unauthorized ''invalid challenge expiry'')
           else if pa_timestamp_ms auth < sat_sub (pce_issued_at_ms challenge) skew \<or>
                   sat_add (pce_expires_at_ms challenge) skew < pa_timestamp_ms auth
           then Inl (unauthorized ''auth timestamp outside challenge window'')
           else Inr \<lparr>va_wallet_pubkey = wallet_pubkey, va_wallet_address = wallet_address\<rparr>,
           s\<lparr>ps_challenges := AList.delete nonce live\<rparr>))"

section \<open>Registration\<close>

record push_registration_request =
  prr_device_token :: rstr
  prr_token_type :: rstr
  prr_platform :: rstr
  prr_app_bundle_id :: "rstr option"
  prr_watched_addresses :: "rstr list"
  prr_watch_pulse_reply_addresses :: "rstr list"
  prr_primary_address :: "rstr option"
  prr_contextual_routes :: "contextual_push_route list"
  prr_replace_wallet_devices :: bool
  prr_auth :: "push_auth_request option"

record push_update_request =
  pur_device_token :: rstr
  pur_token_type :: rstr
  pur_app_bundle_id :: "rstr option"
  pur_watched_addresses :: "rstr list"
  pur_watch_pulse_reply_addresses :: "rstr list"
  pur_primary_address :: "rstr option"
  pur_contextual_routes :: "contextual_push_route list"
  pur_auth :: "push_auth_request option"

record push_unregister_request =
  pun_device_token :: rstr
  pun_token_type :: rstr
  pun_auth :: "push_auth_request option"

text \<open>What the three handlers begin with: the token, its type, and the authenticated wallet.\<close>

definition authenticate ::
    "('addr, 'x) push_lib_scheme \<Rightarrow> u64 \<Rightarrow> rstr \<Rightarrow> rstr \<Rightarrow> push_auth_request option \<Rightarrow> push_service \<Rightarrow>
     (rstr \<times> rstr \<times> validated_auth) api \<times> push_service" where
  "authenticate L now device_token requested_type auth s =
     (let token_type = normalize_token_type L requested_type in
      case abind (normalize_device_token L device_token token_type) (\<lambda>token.
             abind (validate_token_and_type (ps_config s) token token_type) (\<lambda>_. Inr token)) of
        Inl e \<Rightarrow> (Inl e, s)
      | Inr token \<Rightarrow>
          (case validate_auth L now auth s of
             (Inl e, s') \<Rightarrow> (Inl e, s')
           | (Inr a, s') \<Rightarrow> (Inr (token, token_type, a), s')))"

definition persist_api :: "registry_write \<Rightarrow> push_service \<Rightarrow> unit api \<times> push_service" where
  "persist_api w s =
     (let (r, s') = persist_registrations w s
      in (api_of (ApiError InternalServerError ''failed to persist registrations'') r, s'))"

definition same_wallet :: "validated_auth \<Rightarrow> device_registration \<Rightarrow> bool" where
  "same_wallet auth r \<longleftrightarrow>
     dr_wallet_pubkey r = va_wallet_pubkey auth \<or> dr_wallet_address r = va_wallet_address auth \<or>
     dr_primary_address r = Some (va_wallet_address auth)"

definition new_registration ::
    "('addr, 'x) push_lib_scheme \<Rightarrow> u64 \<Rightarrow> u64 \<Rightarrow> rstr \<Rightarrow> rstr \<Rightarrow> validated_auth \<Rightarrow> push_registration_request \<Rightarrow>
     device_registration" where
  "new_registration L now created_at_ms token token_type auth request =
     (let routes = normalize_contextual_routes L (prr_contextual_routes request)
      in \<lparr>dr_device_token = token, dr_token_type = token_type,
          dr_platform = to_lowercase (pl_unicode L) (trim (prr_platform request)),
          dr_app_bundle_id = normalize_optional_bundle_id L (prr_app_bundle_id request),
          watched_addresses = normalize_addresses L (prr_watched_addresses request),
          watch_pulse_reply_addresses = normalize_addresses L (prr_watch_pulse_reply_addresses request),
          dr_primary_address = normalize_optional_address L (prr_primary_address request),
          dr_aliases = derived_contextual_registration_aliases L (va_wallet_address auth) routes,
          contextual_routes = routes, dr_wallet_pubkey = va_wallet_pubkey auth,
          dr_wallet_address = va_wallet_address auth, dr_created_at_ms = created_at_ms,
          dr_updated_at_ms = now\<rparr>)"

definition push_register ::
    "('addr, 'x) push_lib_scheme \<Rightarrow> u64 \<Rightarrow> u64 \<Rightarrow> registry_write \<Rightarrow> push_registration_request \<Rightarrow> push_service \<Rightarrow>
     unit api \<times> push_service" where
  "push_register L now auth_now w request s =
     (case authenticate L auth_now (prr_device_token request) (prr_token_type request) (prr_auth request) s of
        (Inl e, s') \<Rightarrow> (Inl e, s')
      | (Inr (token, token_type, auth), s') \<Rightarrow>
          let created_at_ms =
                (case map_of (registrations s') token of
                   None \<Rightarrow> now
                 | Some r \<Rightarrow> if dr_wallet_pubkey r = va_wallet_pubkey auth then dr_created_at_ms r else now);
              kept =
                (if prr_replace_wallet_devices request
                 then filter (\<lambda>(t, r). t = token \<or> \<not> same_wallet auth r) (registrations s')
                 else registrations s')
          in persist_api w (s'\<lparr>registrations := AList.update token
               (new_registration L now created_at_ms token token_type auth request) kept\<rparr>))"

definition push_update ::
    "('addr, 'x) push_lib_scheme \<Rightarrow> u64 \<Rightarrow> u64 \<Rightarrow> registry_write \<Rightarrow> push_update_request \<Rightarrow> push_service \<Rightarrow>
     unit api \<times> push_service" where
  "push_update L now auth_now w request s =
     (case authenticate L auth_now (pur_device_token request) (pur_token_type request) (pur_auth request) s of
        (Inl e, s') \<Rightarrow> (Inl e, s')
      | (Inr (token, token_type, auth), s') \<Rightarrow>
          (case map_of (registrations s') token of
             None \<Rightarrow> (Inl (ApiError NotFound ''registration not found''), s')
           | Some r \<Rightarrow>
               if dr_wallet_pubkey r \<noteq> va_wallet_pubkey auth
               then (Inl (unauthorized ''device token is bound to another wallet''), s')
               else
                 let routes = normalize_contextual_routes L (pur_contextual_routes request);
                     r' = r\<lparr>dr_token_type := token_type,
                       dr_app_bundle_id := normalize_optional_bundle_id L (pur_app_bundle_id request),
                       watched_addresses := normalize_addresses L (pur_watched_addresses request),
                       watch_pulse_reply_addresses := normalize_addresses L (pur_watch_pulse_reply_addresses request),
                       dr_primary_address := normalize_optional_address L (pur_primary_address request),
                       dr_aliases := derived_contextual_registration_aliases L (va_wallet_address auth) routes,
                       contextual_routes := routes, dr_wallet_address := va_wallet_address auth,
                       dr_updated_at_ms := now\<rparr>
                 in persist_api w (s'\<lparr>registrations := AList.update token r' (registrations s')\<rparr>)))"

definition push_unregister ::
    "('addr, 'x) push_lib_scheme \<Rightarrow> u64 \<Rightarrow> registry_write \<Rightarrow> push_unregister_request \<Rightarrow> push_service \<Rightarrow>
     unit api \<times> push_service" where
  "push_unregister L auth_now w request s =
     (case authenticate L auth_now (pun_device_token request) (pun_token_type request) (pun_auth request) s of
        (Inl e, s') \<Rightarrow> (Inl e, s')
      | (Inr (token, token_type, auth), s') \<Rightarrow>
          (case map_of (registrations s') token of
             Some r \<Rightarrow>
               if dr_wallet_pubkey r \<noteq> va_wallet_pubkey auth
               then (Inl (unauthorized ''device token is bound to another wallet''), s')
               else persist_api w (s'\<lparr>registrations := AList.delete token (registrations s')\<rparr>)
           | None \<Rightarrow> persist_api w (s'\<lparr>registrations := AList.delete token (registrations s')\<rparr>)))"

section \<open>Status of a peer\<close>

record push_peer_status_response =
  pps_wallet_address :: rstr
  pps_registered :: bool
  pps_last_seen_ms :: "u64 option"
  pps_device_count :: nat

definition bundle_matches :: "rstr option \<Rightarrow> device_registration \<Rightarrow> bool" where
  "bundle_matches required r =
     (case required of None \<Rightarrow> True | Some b \<Rightarrow> dr_app_bundle_id r = Some b)"

definition peer_status_for_wallet_address ::
    "('addr, 'x) push_lib_scheme \<Rightarrow> environment \<Rightarrow> u64 \<Rightarrow> rstr \<Rightarrow> push_service \<Rightarrow> push_peer_status_response api" where
  "peer_status_for_wallet_address L var now wallet_address s =
     abind (ok_or (bad_push_request ''invalid wallet address'') (normalize_address L wallet_address)) (\<lambda>wallet.
     let active_window_ms = read_env_u64 var ''PUSH_STATUS_ACTIVE_WINDOW_MS'' 3888000000;
         configured =
           (case Option.bind (apns_bundle_id (ps_config s)) (normalize_bundle_id L) of
              Some b \<Rightarrow> Some b | None \<Rightarrow> normalize_bundle_id L (str ''com.kbeam.app''));
         matching = filter (\<lambda>r. (dr_token_type r \<noteq> str ''apns'' \<or> bundle_matches configured r) \<and>
             (dr_wallet_address r = wallet \<or> dr_primary_address r = Some wallet)) (map snd (registrations s));
         seen = map dr_updated_at_ms matching;
         device_count = length (filter (\<lambda>r. sat_sub now (dr_updated_at_ms r) \<le> active_window_ms) matching)
     in Inr \<lparr>pps_wallet_address = wallet, pps_registered = (0 < device_count),
             pps_last_seen_ms = (if seen = [] then None else Some (Max (set seen))),
             pps_device_count = device_count\<rparr>)"

end
