(* ===== verification/Push_Dispatch.thy ===== *)
theory Push_Dispatch
  imports Push_Registry
begin

text \<open>
  The dispatch of push notifications (\<^verbatim>\<open>indexer/src/push.rs\<close>): which registrations an event
  matches, what is sent to them, the clients of the two providers, and the suppression of
  duplicates. The sources write the loop over the targets once for each provider and each kind of
  event; here it is one definition with the sending operation as a parameter.
\<close>

section \<open>Aliases of contextual messages\<close>

datatype contextual_alias_policy = AliasVisible | AliasSilent | AliasUnknown

datatype contextual_unknown_policy = UnknownDrop | UnknownVisible

definition ends_with :: "rstr \<Rightarrow> rstr \<Rightarrow> bool" where
  "ends_with s t \<longleftrightarrow> suffix t s"

definition parse_contextual_alias_policy :: "rstr \<Rightarrow> bool \<Rightarrow> contextual_alias_policy" where
  "parse_contextual_alias_policy alias allow_legacy_suffix =
     (let n = trim alias in
      if ends_with n suppressed_suffix then AliasSilent
      else if ends_with n visible_suffix then AliasVisible
      else if allow_legacy_suffix \<and> ends_with n legacy_suppressed_suffix then AliasSilent
      else if allow_legacy_suffix \<and> ends_with n legacy_visible_suffix then AliasVisible
      else AliasUnknown)"

definition parse_contextual_unknown_policy ::
    "('addr, 'x) push_lib_scheme \<Rightarrow> environment \<Rightarrow> contextual_unknown_policy" where
  "parse_contextual_unknown_policy L var =
     (let v = (case read_env_string var ''PUSH_CONTEXTUAL_UNKNOWN_POLICY'' of Some v \<Rightarrow> v | None \<Rightarrow> str ''drop'')
      in if to_lowercase (pl_unicode L) (trim v) = str ''visible'' then UnknownVisible else UnknownDrop)"

definition extract_contextual_alias :: "bytes \<Rightarrow> rstr option" where
  "extract_contextual_alias bs =
     (case from_utf8 bs of
        None \<Rightarrow> None
      | Some text \<Rightarrow>
          (case splitn 5 58 text of
             p0 # p1 # p2 # p3 # _ \<Rightarrow>
               if p0 = str ''ciph_msg'' \<and> p1 = str ''1'' \<and> p2 = str ''comm'' then nonempty (trim p3) else None
           | _ \<Rightarrow> None))"

section \<open>Matching\<close>

definition registration_allows_contextual_alias ::
    "('addr, 'x) push_lib_scheme \<Rightarrow> device_registration \<Rightarrow> rstr \<Rightarrow> rstr \<Rightarrow> bool" where
  "registration_allows_contextual_alias L r sender_address alias \<longleftrightarrow>
     alias \<in> set (contact_request_inbox_watch_aliases L (dr_wallet_address r)) \<or>
     (\<exists>route \<in> set (contextual_routes r). peer_address route = sender_address \<and> alias \<in> set (cr_aliases route))"

definition registration_matches_address :: "device_registration \<Rightarrow> rstr \<Rightarrow> bool" where
  "registration_matches_address r address \<longleftrightarrow>
     dr_wallet_address r = address \<or> dr_primary_address r = Some address"

definition wallet_updates :: "device_registration list \<Rightarrow> (rstr \<times> u64) list" where
  "wallet_updates rs =
     fold (\<lambda>r m. AList.update (dr_wallet_address r)
         (case map_of m (dr_wallet_address r) of
            None \<Rightarrow> dr_updated_at_ms r | Some t \<Rightarrow> max t (dr_updated_at_ms r)) m) rs []"

definition freshest_contextual_wallet :: "device_registration list \<Rightarrow> rstr option" where
  "freshest_contextual_wallet rs =
     (case sort_key (\<lambda>(_, t). - uint t) (wallet_updates rs) of
        (freshest_wallet, freshest_updated_at) # (_, second_updated_at) # _ \<Rightarrow>
          if sat_add second_updated_at 600000 \<le> freshest_updated_at then Some freshest_wallet else None
      | _ \<Rightarrow> None)"

text \<open>The wallets a contextual message may go to; none when the message is to be dropped.\<close>

definition contextual_wallet_scope ::
    "('addr, 'x) push_lib_scheme \<Rightarrow> rstr \<Rightarrow> rstr option \<Rightarrow> rstr \<Rightarrow> push_service \<Rightarrow> rstr set option" where
  "contextual_wallet_scope L sender_address receiver_address alias s =
     (let matching = filter (\<lambda>r. registration_allows_contextual_alias L r sender_address alias)
            (map snd (registrations s));
          non_sender = filter (\<lambda>r. \<not> registration_matches_address r sender_address) matching;
          receiver_scoped = (case receiver_address of
              None \<Rightarrow> [] | Some receiver \<Rightarrow> filter (\<lambda>r. registration_matches_address r receiver) non_sender);
          wallet_scope = (if receiver_scoped \<noteq> [] then receiver_scoped else non_sender);
          matching_wallets = set (map dr_wallet_address wallet_scope)
      in if wallet_scope = [] then None
         else if 1 < card matching_wallets
         then map_option (\<lambda>w. {w}) (freshest_contextual_wallet wallet_scope)
         else Some matching_wallets)"

definition provider_matches :: "('addr, 'x) push_lib_scheme \<Rightarrow> rstr \<Rightarrow> push_service \<Rightarrow> device_registration \<Rightarrow> bool" where
  "provider_matches L token_type s r \<longleftrightarrow>
     dr_token_type r = token_type \<and>
     (token_type \<noteq> str ''apns'' \<or>
      bundle_matches (Option.bind (apns_bundle_id (ps_config s)) (normalize_bundle_id L)) r)"

definition event_matches ::
    "('addr, 'x) push_lib_scheme \<Rightarrow> push_message_type \<Rightarrow> rstr \<Rightarrow> rstr option \<Rightarrow> rstr option \<Rightarrow> rstr set option \<Rightarrow>
     device_registration \<Rightarrow> bool" where
  "event_matches L message_type sender_address receiver_address contextual_alias scope r =
     (case message_type of
        PushContextual \<Rightarrow>
          (case contextual_alias of
             None \<Rightarrow> False
           | Some alias \<Rightarrow> registration_allows_contextual_alias L r sender_address alias \<and>
               (case scope of None \<Rightarrow> True | Some wallets \<Rightarrow> dr_wallet_address r \<in> wallets))
      | PushPulseReply \<Rightarrow>
          (case receiver_address of None \<Rightarrow> False | Some receiver \<Rightarrow> receiver \<in> watch_pulse_reply_addresses r)
      | _ \<Rightarrow>
          (case receiver_address of
             None \<Rightarrow> False
           | Some receiver \<Rightarrow> dr_primary_address r = Some receiver \<or> dr_wallet_address r = receiver))"

definition matching_registrations ::
    "('addr, 'x) push_lib_scheme \<Rightarrow> push_message_type \<Rightarrow> rstr \<Rightarrow> rstr option \<Rightarrow> rstr option \<Rightarrow> rstr \<Rightarrow> push_service \<Rightarrow>
     device_registration list" where
  "matching_registrations L message_type sender_address receiver_address contextual_alias token_type s =
     (let targets = (\<lambda>scope. filter (\<lambda>r. provider_matches L token_type s r \<and>
            event_matches L message_type sender_address receiver_address contextual_alias scope r)
            (map snd (registrations s)))
      in case (message_type, contextual_alias) of
           (PushContextual, Some alias) \<Rightarrow>
             (case contextual_wallet_scope L sender_address receiver_address alias s of
                None \<Rightarrow> []
              | Some scope \<Rightarrow> targets (Some scope))
         | _ \<Rightarrow> targets None)"

definition registrations_for_wallet ::
    "('addr, 'x) push_lib_scheme \<Rightarrow> rstr \<Rightarrow> rstr \<Rightarrow> push_service \<Rightarrow> device_registration list" where
  "registrations_for_wallet L wallet_address token_type s =
     filter (\<lambda>r. provider_matches L token_type s r \<and> registration_matches_address r wallet_address)
       (map snd (registrations s))"

section \<open>Duplicates\<close>

definition dispatch_dedupe_key :: "rstr \<Rightarrow> rstr \<Rightarrow> rstr" where
  "dispatch_dedupe_key device_token tx_id = device_token @ str '':'' @ tx_id"

definition forget_old_dispatches :: "u64 \<Rightarrow> push_service \<Rightarrow> push_service" where
  "forget_old_dispatches now s =
     s\<lparr>recent_dispatches :=
         filter (\<lambda>(_, t). sat_sub now (dispatch_dedupe_ttl_ms s) \<le> t) (recent_dispatches s)\<rparr>"

definition was_recently_dispatched :: "u64 \<Rightarrow> rstr \<Rightarrow> rstr \<Rightarrow> push_service \<Rightarrow> bool \<times> push_service" where
  "was_recently_dispatched now device_token tx_id s =
     (let s' = forget_old_dispatches now s
      in (map_of (recent_dispatches s') (dispatch_dedupe_key device_token tx_id) \<noteq> None, s'))"

definition mark_recent_dispatch :: "u64 \<Rightarrow> rstr \<Rightarrow> rstr \<Rightarrow> push_service \<Rightarrow> push_service" where
  "mark_recent_dispatch now device_token tx_id s =
     (let s' = forget_old_dispatches now s
      in s'\<lparr>recent_dispatches :=
              AList.update (dispatch_dedupe_key device_token tx_id) now (recent_dispatches s')\<rparr>)"

section \<open>Clients\<close>

datatype send_outcome = SendDone | InvalidToken

text \<open>
  What is met outside while an event is dispatched: the time when a device is looked at, when the
  client sends, and when the delivery is marked; the providers; the writing of the file.
\<close>

record push_net =
  time_of_check :: "rstr \<Rightarrow> u64"
  time_of_send :: "rstr \<Rightarrow> u64"
  time_of_mark :: "rstr \<Rightarrow> u64"
  apns_sign :: "u64 \<Rightarrow> rstr res"
  apns_post :: "rstr \<Rightarrow> rstr \<Rightarrow> (string \<times> rstr) list \<Rightarrow> json \<Rightarrow> http_outcome"
  fcm_oauth :: "rstr \<Rightarrow> u64 \<Rightarrow> (rstr \<times> u64 option) res"
  fcm_post :: "rstr \<Rightarrow> rstr \<Rightarrow> json \<Rightarrow> http_outcome"
  registry_write :: registry_write

definition apns_auth_token :: "push_net \<Rightarrow> u64 \<Rightarrow> apns_client \<Rightarrow> rstr res \<times> apns_client" where
  "apns_auth_token net now_millis self =
     (let now_secs = now_millis div 1000;
          fresh = (case apns_sign net now_secs of
              Inl e \<Rightarrow> (Inl e, self)
            | Inr token \<Rightarrow> (Ok token, self\<lparr>apns_token_cache := Some (token, now_secs)\<rparr>))
      in case apns_token_cache self of
           Some (token, issued_at_secs) \<Rightarrow>
             if sat_sub now_secs issued_at_secs < 3000 then (Ok token, self) else fresh
         | None \<Rightarrow> fresh)"

definition is_invalid_token_response :: "nat \<Rightarrow> rstr \<Rightarrow> bool" where
  "is_invalid_token_response status reason \<longleftrightarrow>
     status = 400 \<and> reason = str ''BadDeviceToken'' \<or> status = 400 \<and> reason = str ''DeviceTokenNotForTopic'' \<or>
     status = 410 \<and> reason = str ''Unregistered''"

definition response_body :: "rstr option \<Rightarrow> rstr" where
  "response_body body = (case body of None \<Rightarrow> [] | Some b \<Rightarrow> b)"

text \<open>The decoded error body has a reason or none.\<close>

definition extract_apns_reason :: "('addr, 'x) push_lib_scheme \<Rightarrow> rstr \<Rightarrow> rstr option" where
  "extract_apns_reason L body = Option.bind (pl_decode_apns_error L body) (\<lambda>reason. reason)"

definition has_alert :: "json \<Rightarrow> bool" where
  "has_alert v \<longleftrightarrow> Option.bind (json_get v (str ''aps'')) (\<lambda>aps. json_get aps (str ''alert'')) \<noteq> None"

definition send_notification ::
    "('addr, 'x) push_lib_scheme \<Rightarrow> push_net \<Rightarrow> rstr \<Rightarrow> json \<Rightarrow> push_message_type \<Rightarrow> apns_client \<Rightarrow> send_outcome res \<times> apns_client" where
  "send_notification L net device_token message message_type self =
     (case apns_auth_token net (time_of_send net device_token) self of
        (Inl e, self') \<Rightarrow> (Inl e, self')
      | (Inr token, self') \<Rightarrow>
          let (push_type, priority) =
                (if message_type = PushContextual \<and> \<not> has_alert message
                 then (str ''background'', str ''5'') else (str ''alert'', str ''10''))
          in (case apns_post net token (apns_host self @ str ''/3/device/'' @ device_token)
                 [(''apns-topic'', apns_topic self), (''apns-push-type'', push_type), (''apns-priority'', priority)]
                 message of
             TransportError \<Rightarrow> (Err ''failed to send APNs notification'', self')
           | HttpResponse status body \<Rightarrow>
               if is_success status then (Ok SendDone, self')
               else
                 let reason = (case extract_apns_reason L (response_body body) of
                         Some r \<Rightarrow> r | None \<Rightarrow> str ''unknown'');
                     self'' = (if status = 401 then self'\<lparr>apns_token_cache := None\<rparr> else self')
                 in (if is_invalid_token_response status reason then Ok InvalidToken
                     else Err ''APNs rejected notification'', self'')))"

definition fcm_auth_token :: "push_net \<Rightarrow> u64 \<Rightarrow> fcm_client \<Rightarrow> rstr res \<times> fcm_client" where
  "fcm_auth_token net now_millis self =
     (let now_secs = now_millis div 1000;
          fresh = (case fcm_oauth net (fcm_token_uri self) now_secs of
              Inl e \<Rightarrow> (Inl e, self)
            | Inr (token, expires_in) \<Rightarrow>
                (Ok token, self\<lparr>fcm_token_cache := Some (token,
                   sat_add now_secs (case expires_in of Some t \<Rightarrow> t | None \<Rightarrow> 3600))\<rparr>))
      in case fcm_token_cache self of
           Some (token, expires_at_secs) \<Rightarrow>
             if sat_add now_secs 60 < expires_at_secs then (Ok token, self) else fresh
         | None \<Rightarrow> fresh)"

definition is_invalid_fcm_token_response :: "('addr, 'x) push_lib_scheme \<Rightarrow> rstr \<Rightarrow> bool" where
  "is_invalid_fcm_token_response L body =
     (case pl_json_from_slice L (utf8 body) of
        None \<Rightarrow> False
      | Some v \<Rightarrow>
          let error = (case json_get v (str ''error'') of Some e \<Rightarrow> e | None \<Rightarrow> v);
              status = (case Option.bind (json_get error (str ''status'')) as_str of Some t \<Rightarrow> t | None \<Rightarrow> [])
          in if status = str ''NOT_FOUND'' \<or> status = str ''UNREGISTERED'' then True
             else if status \<noteq> str ''INVALID_ARGUMENT'' then False
             else case json_get error (str ''details'') of
                 Some (JsonArray details) \<Rightarrow>
                   (\<exists>detail \<in> set details. Option.bind (json_get detail (str ''@type'')) as_str =
                      Some (str ''type.googleapis.com/google.firebase.fcm.v1.FcmError''))
               | _ \<Rightarrow> False)"

definition json_strings :: "(string \<times> rstr) list \<Rightarrow> json" where
  "json_strings kvs = JsonObject (map (\<lambda>(k, v). (str k, JsonString v)) kvs)"

definition send_data_message ::
    "('addr, 'x) push_lib_scheme \<Rightarrow> push_net \<Rightarrow> rstr \<Rightarrow> (string \<times> rstr) list \<Rightarrow> fcm_client \<Rightarrow> send_outcome res \<times> fcm_client" where
  "send_data_message L net device_token data self =
     (case fcm_auth_token net (time_of_send net device_token) self of
        (Inl e, self') \<Rightarrow> (Inl e, self')
      | (Inr token, self') \<Rightarrow>
          (case fcm_post net token
                 (str ''https://fcm.googleapis.com/v1/projects/'' @ fcm_project self @ str ''/messages:send'')
                 (JsonObject [(str ''message'', JsonObject
                    [(str ''token'', JsonString device_token), (str ''data'', json_strings data),
                     (str ''android'', json_strings [(''priority'', str ''HIGH'')])])]) of
             TransportError \<Rightarrow> (Err ''failed to send FCM notification'', self')
           | HttpResponse status body \<Rightarrow>
               if is_success status then (Ok SendDone, self')
               else
                 (if is_invalid_fcm_token_response L (response_body body) then Ok InvalidToken
                  else Err ''FCM rejected notification'',
                  if status = 401 then self'\<lparr>fcm_token_cache := None\<rparr> else self')))"

section \<open>Dispatch\<close>

definition count :: "(push_dispatch_counters \<Rightarrow> push_dispatch_counters) \<Rightarrow> push_service \<Rightarrow> push_service" where
  "count f s = s\<lparr>dispatch_counters := f (dispatch_counters s)\<rparr>"

abbreviation count_events :: "push_service \<Rightarrow> push_service" where
  "count_events \<equiv> count (dc_events_update (\<lambda>n. n + 1))"

text \<open>
  One target: unless the event was sent to the device within the time to live, it is attempted. A
  device whose token is invalid is reported as stale.
\<close>

definition deliver ::
    "push_net \<Rightarrow> rstr option \<Rightarrow> (rstr \<Rightarrow> push_service \<Rightarrow> send_outcome res \<times> push_service) \<Rightarrow>
     device_registration \<Rightarrow> rstr list \<times> push_service \<Rightarrow> rstr list \<times> push_service" where
  "deliver net dedupe_id send r = (\<lambda>(stale, s).
     let token = dr_device_token r;
         (duplicate, s1) = (case dedupe_id of
             None \<Rightarrow> (False, s)
           | Some i \<Rightarrow> was_recently_dispatched (time_of_check net token) token i s)
     in if duplicate then (stale, count (dc_deduped_update (\<lambda>n. n + 1)) s1)
        else case send token (count (dc_attempts_update (\<lambda>n. n + 1)) s1) of
            (Inr SendDone, s2) \<Rightarrow>
              let s3 = count (dc_sent_update (\<lambda>n. n + 1)) s2
              in (stale, case dedupe_id of
                    None \<Rightarrow> s3
                  | Some i \<Rightarrow> (mark_recent_dispatch (time_of_mark net token) token i s3)
                      \<lparr>deliveries := deliveries s3 @ [(token, i, time_of_mark net token)]\<rparr>)
          | (Inr InvalidToken, s2) \<Rightarrow> (stale @ [token], count (dc_invalid_update (\<lambda>n. n + 1)) s2)
          | (Inl _, s2) \<Rightarrow> (stale, count (dc_failed_update (\<lambda>n. n + 1)) s2))"

definition send_apns ::
    "('addr, 'x) push_lib_scheme \<Rightarrow> push_net \<Rightarrow> json \<Rightarrow> push_message_type \<Rightarrow> rstr \<Rightarrow> push_service \<Rightarrow> send_outcome res \<times> push_service" where
  "send_apns L net message message_type token s =
     (case ps_apns_client s of
        None \<Rightarrow> (Err ''no client'', s)
      | Some client \<Rightarrow>
          let (r, client') = send_notification L net token message message_type client
          in (r, s\<lparr>ps_apns_client := Some client'\<rparr>))"

definition send_fcm ::
    "('addr, 'x) push_lib_scheme \<Rightarrow> push_net \<Rightarrow> (string \<times> rstr) list \<Rightarrow> rstr \<Rightarrow> push_service \<Rightarrow> send_outcome res \<times> push_service" where
  "send_fcm L net data token s =
     (case ps_fcm_client s of
        None \<Rightarrow> (Err ''no client'', s)
      | Some client \<Rightarrow>
          let (r, client') = send_data_message L net token data client
          in (r, s\<lparr>ps_fcm_client := Some client'\<rparr>))"

definition deliver_all ::
    "push_net \<Rightarrow> rstr option \<Rightarrow> (rstr \<Rightarrow> push_service \<Rightarrow> send_outcome res \<times> push_service) \<Rightarrow>
     (push_service \<Rightarrow> device_registration list) \<Rightarrow> rstr list \<times> push_service \<Rightarrow> rstr list \<times> push_service" where
  "deliver_all net dedupe_id send targets = (\<lambda>(stale, s).
     let ts = targets s
     in fold (deliver net dedupe_id send) ts (stale, count (dc_targets_update (\<lambda>n. n + of_nat (length ts))) s))"

definition remove_stale_registrations :: "push_net \<Rightarrow> rstr list \<Rightarrow> push_service \<Rightarrow> unit res \<times> push_service" where
  "remove_stale_registrations net stale s =
     persist_registrations (registry_write net)
       (s\<lparr>registrations := filter (\<lambda>(t, _). t \<notin> set stale) (registrations s)\<rparr>)"

text \<open>The two providers in turn, then the removal of stale devices.\<close>

definition dispatch_to ::
    "('addr, 'x) push_lib_scheme \<Rightarrow> push_net \<Rightarrow> rstr option \<Rightarrow> json \<Rightarrow> push_message_type \<Rightarrow> (string \<times> rstr) list \<Rightarrow>
     (rstr \<Rightarrow> push_service \<Rightarrow> device_registration list) \<Rightarrow> push_service \<Rightarrow> unit res \<times> push_service" where
  "dispatch_to L net dedupe_id message message_type data targets s =
     (let (stale1, s1) =
            (if ps_apns_client s = None then ([], s)
             else deliver_all net dedupe_id (send_apns L net message message_type) (targets (str ''apns'')) ([], s));
          (stale2, s2) =
            (if ps_fcm_client s1 = None then (stale1, s1)
             else deliver_all net dedupe_id (send_fcm L net data) (targets (str ''fcm'')) (stale1, s1))
      in if stale2 = [] then (Ok (), s2) else remove_stale_registrations net stale2 s2)"

definition address_payload_to_string ::
    "('addr, 'x) push_lib_scheme \<Rightarrow> address_payload \<Rightarrow> rstr option res" where
  "address_payload_to_string L a =
     rbind (to_rpc_address L a) (\<lambda>address.
       Ok (map_option (\<lambda>x. to_lowercase (pl_unicode L) (pl_address_to_string L x)) address))"

fun push_message_type_tag :: "push_message_type \<Rightarrow> rstr" where
  "push_message_type_tag PushHandshake = str ''handshake''"
| "push_message_type_tag PushPayment = str ''payment''"
| "push_message_type_tag PushContextual = str ''contextual''"
| "push_message_type_tag PushPulseReply = str ''pulse_reply''"

fun alert_body :: "push_message_type \<Rightarrow> rstr" where
  "alert_body PushPayment = str ''Received payment''"
| "alert_body PushHandshake = str ''Started a conversation''"
| "alert_body PushContextual = str '' ''"
| "alert_body PushPulseReply = str ''New Pulse reply''"

abbreviation json_u64 :: "u64 \<Rightarrow> json" where
  "json_u64 n \<equiv> JsonNumber (PosInt n)"

definition visible_aps :: "rstr \<Rightarrow> rstr \<Rightarrow> json" where
  "visible_aps title body =
     JsonObject [(str ''alert'', json_strings [(''title'', title), (''body'', body)]),
       (str ''mutable-content'', json_u64 1), (str ''content-available'', json_u64 1)]"

definition event_body ::
    "push_message_type \<Rightarrow> rstr \<Rightarrow> rstr \<Rightarrow> u64 \<Rightarrow> u64 option \<Rightarrow> rstr option \<Rightarrow> json" where
  "event_body message_type tx_id sender timestamp amount payload_hex =
     JsonObject
       ([(str ''aps'', visible_aps (str ''KBeam'') (alert_body message_type)),
         (str ''tx_id'', JsonString tx_id), (str ''sender'', JsonString sender),
         (str ''type'', JsonString (push_message_type_tag message_type)),
         (str ''timestamp'', json_u64 timestamp)] @
        (case amount of None \<Rightarrow> [] | Some a \<Rightarrow> [(str ''amount'', json_u64 a)]) @
        (case payload_hex of None \<Rightarrow> [] | Some p \<Rightarrow> [(str ''payload'', JsonString p)]))"

definition event_data ::
    "push_message_type \<Rightarrow> rstr \<Rightarrow> rstr \<Rightarrow> u64 \<Rightarrow> u64 option \<Rightarrow> rstr option \<Rightarrow> (string \<times> rstr) list" where
  "event_data message_type tx_id sender timestamp amount payload_hex =
     [(''tx_id'', tx_id), (''sender'', sender), (''type'', push_message_type_tag message_type),
      (''timestamp'', decimal (unat timestamp))] @
     (case amount of None \<Rightarrow> [] | Some a \<Rightarrow> [(''amount'', decimal (unat a))]) @
     (case payload_hex of None \<Rightarrow> [] | Some p \<Rightarrow> [(''payload'', p)])"

text \<open>Whether a contextual message is dispatched, from the policy of its alias.\<close>

definition contextual_visible :: "('addr, 'x) push_lib_scheme \<Rightarrow> environment \<Rightarrow> rstr \<Rightarrow> bool" where
  "contextual_visible L var alias =
     (case parse_contextual_alias_policy alias
             (read_env_bool (pl_unicode L) var ''PUSH_CONTEXTUAL_ALLOW_LEGACY_SUFFIX'' False) of
        AliasSilent \<Rightarrow> False
      | AliasVisible \<Rightarrow> True
      | AliasUnknown \<Rightarrow> parse_contextual_unknown_policy L var = UnknownVisible)"

definition dispatch_event ::
    "('addr, 'x) push_lib_scheme \<Rightarrow> environment \<Rightarrow> push_net \<Rightarrow> push_dispatch_event \<Rightarrow> push_service \<Rightarrow>
     unit res \<times> push_service" where
  "dispatch_event L var net event s0 =
     (let s = count_events s0 in
      if ps_apns_client s = None \<and> ps_fcm_client s = None then (Ok (), s)
      else case pe_sender event of
        None \<Rightarrow> (Ok (), s)
      | Some sender \<Rightarrow>
      (case address_payload_to_string L sender of
        Inl e \<Rightarrow> (Inl e, s)
      | Inr None \<Rightarrow> (Ok (), s)
      | Inr (Some sender_address) \<Rightarrow>
      (case address_payload_to_string L (pe_receiver event) of
        Inl e \<Rightarrow> (Inl e, s)
      | Inr receiver_address \<Rightarrow>
      let mt = pe_message_type event;
          contextual_alias =
            (if mt = PushContextual then Option.bind (pe_payload event) extract_contextual_alias else None)
      in if mt = PushContextual \<and>
            \<not> (case contextual_alias of None \<Rightarrow> False | Some alias \<Rightarrow> contextual_visible L var alias)
         then (Ok (), s)
         else
           let tx_id = hex (list_of (pe_tx_id event));
               payload_hex = (case pe_payload event of
                   None \<Rightarrow> None
                 | Some p \<Rightarrow> if length (hex p) \<le> unat (apns_inline_payload_limit (ps_config s))
                     then Some (hex p) else None)
           in dispatch_to L net (Some tx_id)
                (event_body mt tx_id sender_address (pe_timestamp event) (pe_amount event) payload_hex) mt
                (event_data mt tx_id sender_address (pe_timestamp event) (pe_amount event) payload_hex)
                (\<lambda>provider. matching_registrations L mt sender_address receiver_address contextual_alias provider) s)))"

text \<open>What was counted since the last report.\<close>

definition delta_since :: "push_dispatch_counters \<Rightarrow> push_dispatch_counters \<Rightarrow> push_dispatch_counters" where
  "delta_since c previous =
     \<lparr>dc_events = sat_sub (dc_events c) (dc_events previous), dc_targets = sat_sub (dc_targets c) (dc_targets previous),
      dc_attempts = sat_sub (dc_attempts c) (dc_attempts previous), dc_sent = sat_sub (dc_sent c) (dc_sent previous),
      dc_invalid = sat_sub (dc_invalid c) (dc_invalid previous), dc_failed = sat_sub (dc_failed c) (dc_failed previous),
      dc_deduped = sat_sub (dc_deduped c) (dc_deduped previous)\<rparr>"

definition has_activity :: "push_dispatch_counters \<Rightarrow> bool" where
  "has_activity c \<longleftrightarrow> 0 < dc_events c \<or> 0 < dc_targets c \<or> 0 < dc_attempts c \<or> 0 < dc_sent c \<or> 0 < dc_invalid c \<or>
     0 < dc_failed c \<or> 0 < dc_deduped c"

text \<open>A report is the difference and the totals; it is made only when there is something to report.\<close>

definition log_dispatch_monitor ::
    "push_service \<Rightarrow> push_dispatch_counters \<Rightarrow>
     (push_dispatch_counters \<times> push_dispatch_counters) option \<times> push_dispatch_counters" where
  "log_dispatch_monitor s previous =
     (let current = dispatch_counters s; delta = delta_since current previous
      in if has_activity delta then (Some (delta, current), current) else (None, previous))"

text \<open>
  The worker takes events and ticks in the order they come, until the channel is closed; an error
  of an event is logged.
\<close>

datatype worker_input = WorkerEvent push_net push_dispatch_event | WorkerTick

fun worker_step ::
    "('addr, 'x) push_lib_scheme \<Rightarrow> environment \<Rightarrow> worker_input \<Rightarrow> push_service \<times> push_dispatch_counters \<Rightarrow>
     push_service \<times> push_dispatch_counters" where
  "worker_step L var (WorkerEvent net event) (s, previous) = (snd (dispatch_event L var net event s), previous)"
| "worker_step L var WorkerTick (s, previous) = (s, snd (log_dispatch_monitor s previous))"

definition run_dispatch_worker ::
    "('addr, 'x) push_lib_scheme \<Rightarrow> environment \<Rightarrow> worker_input list \<Rightarrow> push_service \<Rightarrow> push_service" where
  "run_dispatch_worker L var inputs s =
     fst (worker_step L var WorkerTick (fold (worker_step L var) inputs (s, dispatch_counters s)))"

section \<open>Presence\<close>

record push_presence_request =
  pp_sender_address :: rstr
  pp_recipient_address :: rstr
  pp_event_type :: rstr
  pp_timestamp_ms :: u64
  pp_auth :: "push_auth_request option"

definition presence_checks ::
    "('addr, 'x) push_lib_scheme \<Rightarrow> push_presence_request \<Rightarrow> (rstr \<times> rstr \<times> rstr) api" where
  "presence_checks L request =
     abind (ok_or (bad_push_request ''invalid sender address'') (normalize_address L (pp_sender_address request))) (\<lambda>sender_address.
     abind (ok_or (bad_push_request ''invalid recipient address'') (normalize_address L (pp_recipient_address request))) (\<lambda>recipient_address.
     abind (require (sender_address \<noteq> recipient_address) (bad_push_request ''sender and recipient must be different'')) (\<lambda>_.
     let event_type = to_lowercase (pl_unicode L) (trim (pp_event_type request)) in
     abind (require (event_type \<in> str ` {''presence_typing_start'', ''presence_typing_stop'', ''presence_activity''})
              (bad_push_request ''unsupported presence event type'')) (\<lambda>_.
     Inr (sender_address, recipient_address, event_type)))))"

definition dispatch_presence ::
    "('addr, 'x) push_lib_scheme \<Rightarrow> u64 \<Rightarrow> push_net \<Rightarrow> push_presence_request \<Rightarrow> push_service \<Rightarrow> unit api \<times> push_service" where
  "dispatch_presence L now net request s0 =
     (let s = count_events s0 in
      case presence_checks L request of
        Inl e \<Rightarrow> (Inl e, s)
      | Inr (sender_address, recipient_address, event_type) \<Rightarrow>
      (case validate_auth L now (pp_auth request) s of
        (Inl e, s1) \<Rightarrow> (Inl e, s1)
      | (Inr auth, s1) \<Rightarrow>
          if va_wallet_address auth \<noteq> sender_address
          then (Inl (unauthorized ''presence sender does not match authenticated wallet''), s1)
          else if ps_apns_client s1 = None \<and> ps_fcm_client s1 = None then (Inr (), s1)
          else
            let message = JsonObject [(str ''aps'', JsonObject [(str ''content-available'', json_u64 1)]),
                    (str ''type'', JsonString event_type), (str ''sender'', JsonString sender_address),
                    (str ''timestamp'', json_u64 (pp_timestamp_ms request))];
                data = [(''type'', event_type), (''sender'', sender_address),
                    (''timestamp'', decimal (unat (pp_timestamp_ms request)))];
                (r, s2) = dispatch_to L net None message PushContextual data
                    (\<lambda>provider. registrations_for_wallet L recipient_address provider) s1
            in (api_of (ApiError InternalServerError ''failed to prune stale push registrations'') r, s2)))"

section \<open>Replies\<close>

record pulse_reply_push_event =
  pre_reply_id :: rstr
  pre_post_id :: rstr
  pre_parent_author_address :: rstr
  pre_actor_address :: rstr
  pre_actor_display_name :: rstr
  pre_actor_avatar_url :: "rstr option"
  pre_preview_text :: "rstr option"
  pre_timestamp :: u64

definition truncate_for_push :: "rstr \<Rightarrow> nat \<Rightarrow> rstr" where
  "truncate_for_push v max_chars =
     (let t = trim v in if max_chars < length t then take max_chars t @ str ''...'' else t)"

definition optional_json :: "rstr option \<Rightarrow> json" where
  "optional_json v = (case v of None \<Rightarrow> JsonNull | Some t \<Rightarrow> JsonString t)"

definition pulse_reply_body :: "pulse_reply_push_event \<Rightarrow> rstr \<Rightarrow> rstr \<Rightarrow> rstr option \<Rightarrow> rstr option \<Rightarrow> json" where
  "pulse_reply_body event name actor avatar preview =
     JsonObject [(str ''aps'', visible_aps name (name @ str '' replied to your Pulse'')),
       (str ''tx_id'', JsonString (pre_reply_id event)), (str ''type'', JsonString (str ''pulse_reply'')),
       (str ''sender'', JsonString actor), (str ''post_id'', JsonString (pre_post_id event)),
       (str ''actor_avatar_url'', optional_json avatar), (str ''preview_text'', optional_json preview),
       (str ''timestamp'', json_u64 (pre_timestamp event))]"

definition pulse_reply_data ::
    "pulse_reply_push_event \<Rightarrow> rstr \<Rightarrow> rstr \<Rightarrow> rstr option \<Rightarrow> rstr option \<Rightarrow> (string \<times> rstr) list" where
  "pulse_reply_data event name actor avatar preview =
     [(''tx_id'', pre_reply_id event), (''type'', str ''pulse_reply''), (''sender'', actor),
      (''post_id'', pre_post_id event), (''actor_display_name'', name),
      (''body'', name @ str '' replied to your Pulse''), (''timestamp'', decimal (unat (pre_timestamp event)))] @
     (case avatar of None \<Rightarrow> [] | Some a \<Rightarrow> [(''actor_avatar_url'', a)]) @
     (case preview of None \<Rightarrow> [] | Some p \<Rightarrow> [(''preview_text'', p)])"

definition dispatch_pulse_reply ::
    "('addr, 'x) push_lib_scheme \<Rightarrow> push_net \<Rightarrow> pulse_reply_push_event \<Rightarrow> push_service \<Rightarrow> unit res \<times> push_service" where
  "dispatch_pulse_reply L net event s0 =
     (let s = count_events s0 in
      if ps_apns_client s = None \<and> ps_fcm_client s = None then (Ok (), s)
      else case normalize_address L (pre_parent_author_address event) of
        None \<Rightarrow> (Err ''invalid pulse reply target address'', s)
      | Some parent \<Rightarrow>
      (case normalize_address L (pre_actor_address event) of
        None \<Rightarrow> (Err ''invalid pulse reply actor address'', s)
      | Some actor \<Rightarrow>
          let name = (if trim (pre_actor_display_name event) = [] then actor else trim (pre_actor_display_name event));
              trimmed = (\<lambda>v. Option.bind v (\<lambda>t. nonempty (trim t)));
              preview = map_option (\<lambda>t. truncate_for_push t 180) (trimmed (pre_preview_text event));
              avatar = trimmed (pre_actor_avatar_url event)
          in dispatch_to L net (Some (pre_reply_id event)) (pulse_reply_body event name actor avatar preview)
               PushPulseReply (pulse_reply_data event name actor avatar preview)
               (\<lambda>provider. matching_registrations L PushPulseReply actor (Some parent) None provider) s))"

section \<open>Start\<close>

definition apns_client_from_config ::
    "(rstr \<Rightarrow> unit res) \<Rightarrow> unit res \<Rightarrow> push_config \<Rightarrow> bool \<Rightarrow> apns_client res" where
  "apns_client_from_config key_at client_built config mainnet =
     (if push_provider config \<noteq> str ''apns'' \<or> \<not> push_ios_enabled config
      then Err ''APNs push provider is disabled''
      else
      rbind (ok_or (Failure ''PUSH_APNS_TEAM_ID is not set'') (apns_team_id config)) (\<lambda>_.
      rbind (ok_or (Failure ''PUSH_APNS_KEY_ID is not set'') (apns_key_id config)) (\<lambda>_.
      rbind (ok_or (Failure ''PUSH_APNS_BUNDLE_ID is not set'') (apns_bundle_id config)) (\<lambda>topic.
      rbind (ok_or (Failure ''PUSH_APNS_KEY_PATH is not set'') (apns_key_path config)) (\<lambda>key_path.
      rbind (key_at key_path) (\<lambda>_.
      rbind (let e = apns_environment config in
             if e = str ''sandbox'' \<or> e = str ''development'' then Ok (str ''https://api.sandbox.push.apple.com'')
             else if e = str ''production'' \<or> e = str ''prod'' then Ok (str ''https://api.push.apple.com'')
             else if e = str ''auto'' then
               Ok (if mainnet then str ''https://api.push.apple.com'' else str ''https://api.sandbox.push.apple.com'')
             else Err ''unsupported PUSH_APNS_ENVIRONMENT value'') (\<lambda>host.
      rbind client_built (\<lambda>_.
      Ok \<lparr>apns_host = host, apns_topic = topic, apns_token_cache = None\<rparr>))))))))"

record fcm_service_account =
  sa_project_id :: "rstr option"
  sa_token_uri :: "rstr option"

definition fcm_client_from_config ::
    "(rstr \<Rightarrow> fcm_service_account res) \<Rightarrow> unit res \<Rightarrow> unit res \<Rightarrow> push_config \<Rightarrow> fcm_client res" where
  "fcm_client_from_config account_at key_parsed client_built config =
     (if \<not> push_fcm_enabled config then Err ''FCM push provider is disabled''
      else
      rbind (ok_or (Failure ''PUSH_FCM_SERVICE_ACCOUNT_PATH is not set'') (fcm_service_account_path config)) (\<lambda>path.
      rbind (account_at path) (\<lambda>account.
      rbind (ok_or (Failure ''PUSH_FCM_PROJECT_ID is not set'')
               (case fcm_project_id config of Some p \<Rightarrow> Some p | None \<Rightarrow> sa_project_id account)) (\<lambda>project_id.
      rbind key_parsed (\<lambda>_.
      rbind client_built (\<lambda>_.
      Ok \<lparr>fcm_project = project_id,
          fcm_token_uri = (case sa_token_uri account of Some u \<Rightarrow> u | None \<Rightarrow> str ''https://oauth2.googleapis.com/token''),
          fcm_token_cache = None\<rparr>))))))"

definition push_from_context ::
    "push_config \<Rightarrow> apns_client res \<Rightarrow> fcm_client res \<Rightarrow> registry_file \<Rightarrow> push_service res" where
  "push_from_context config apns fcm file =
     rbind (load_registrations file) (\<lambda>loaded.
       Ok \<lparr>ps_config = config, registrations = loaded, ps_challenges = [],
           ps_apns_client = (case apns of Inl _ \<Rightarrow> None | Inr c \<Rightarrow> Some c),
           ps_fcm_client = (if push_fcm_enabled config then (case fcm of Inl _ \<Rightarrow> None | Inr c \<Rightarrow> Some c) else None),
           recent_dispatches = [], dispatch_dedupe_ttl_ms = 900000,
           dispatch_counters = \<lparr>dc_events = 0, dc_targets = 0, dc_attempts = 0, dc_sent = 0, dc_invalid = 0,
             dc_failed = 0, dc_deduped = 0\<rparr>,
           registrations_path = file, deliveries = []\<rparr>)"

end
