(* ===== verification/Push_Matching.thy ===== *)
theory Push_Matching
  imports Push_Dispatch
begin

text \<open>
  Who receives a push notification, and who may change a registration: contextual messages go to
  one wallet, a duplicate is suppressed for its time to live, the registry stays well formed, and
  what the authentication of a wallet does and does not check.
\<close>

section \<open>One wallet per contextual message\<close>

lemma set_map_fst_update: "fst ` set (AList.update k v al) = insert k (fst ` set al)"
  by (simp add: dom_update)

lemma wallet_updates_wallets: "fst ` set (wallet_updates rs) = dr_wallet_address ` set rs"
proof -
  have "fst ` set (fold (\<lambda>r m. AList.update (dr_wallet_address r)
         (case map_of m (dr_wallet_address r) of
            None \<Rightarrow> dr_updated_at_ms r | Some t \<Rightarrow> max t (dr_updated_at_ms r)) m) rs m) =
      fst ` set m \<union> dr_wallet_address ` set rs" for m
    by (induction rs arbitrary: m) (auto simp: set_map_fst_update)
  from this [of "[]"] show ?thesis
    by (simp add: wallet_updates_def)
qed

lemma freshest_contextual_wallet_in:
  assumes "freshest_contextual_wallet rs = Some w"
  shows "w \<in> dr_wallet_address ` set rs"
proof -
  obtain t ys where "sort_key (\<lambda>(_, t). - uint t) (wallet_updates rs) = (w, t) # ys"
    using assms by (auto simp: freshest_contextual_wallet_def split: list.splits if_splits)
  then have "(w, t) \<in> set (wallet_updates rs)"
    by (metis list.set_intros(1) set_sort)
  then show ?thesis
    using wallet_updates_wallets [of rs] by force
qed

text \<open>The registrations that decide which wallet a contextual message goes to.\<close>

definition alias_candidates ::
    "('addr, 'x) push_lib_scheme \<Rightarrow> rstr \<Rightarrow> rstr option \<Rightarrow> rstr \<Rightarrow> push_service \<Rightarrow> device_registration set" where
  "alias_candidates L sender receiver alias s =
     (let others = {r \<in> snd ` set (registrations s). registration_allows_contextual_alias L r sender alias \<and>
            \<not> registration_matches_address r sender};
          scoped = {r \<in> others. \<exists>a. receiver = Some a \<and> registration_matches_address r a}
      in if scoped = {} then others else scoped)"

lemma contextual_wallet_scope_one:
  assumes "contextual_wallet_scope L sender receiver alias s = Some scope"
  shows "\<exists>r \<in> alias_candidates L sender receiver alias s. scope = {dr_wallet_address r}"
proof -
  define others where "others = filter (\<lambda>r. \<not> registration_matches_address r sender)
      (filter (\<lambda>r. registration_allows_contextual_alias L r sender alias) (map snd (registrations s)))"
  define scoped where "scoped = (case receiver of
      None \<Rightarrow> [] | Some a \<Rightarrow> filter (\<lambda>r. registration_matches_address r a) others)"
  define ws where "ws = (if scoped \<noteq> [] then scoped else others)"
  have "set others = {r \<in> snd ` set (registrations s). registration_allows_contextual_alias L r sender alias \<and>
            \<not> registration_matches_address r sender}"
    by (auto simp: others_def)
  moreover have "set scoped = {r \<in> set others. \<exists>a. receiver = Some a \<and> registration_matches_address r a}"
    by (auto simp: scoped_def split: option.splits)
  ultimately have cand: "set ws = alias_candidates L sender receiver alias s"
    by (auto simp: ws_def alias_candidates_def Let_def simp flip: set_empty)
  have scope: "ws \<noteq> []" "(if 1 < card (dr_wallet_address ` set ws) then map_option (\<lambda>w. {w}) (freshest_contextual_wallet ws)
      else Some (dr_wallet_address ` set ws)) = Some scope"
    using assms unfolding contextual_wallet_scope_def Let_def others_def [symmetric] scoped_def [symmetric]
      ws_def [symmetric] by (simp_all split: if_splits)
  show ?thesis
  proof (cases "1 < card (dr_wallet_address ` set ws)")
    case True
    then obtain w where "freshest_contextual_wallet ws = Some w" "scope = {w}"
      using scope by auto
    then show ?thesis
      using freshest_contextual_wallet_in [of ws w] cand by auto
  next
    case False
    moreover have "0 < card (dr_wallet_address ` set ws)"
      using scope(1) by (simp add: card_gt_0_iff)
    ultimately have "card (dr_wallet_address ` set ws) = 1"
      by linarith
    then obtain w where w: "dr_wallet_address ` set ws = {w}"
      by (rule card_1_singletonE)
    then obtain r where "r \<in> set ws" "dr_wallet_address r = w"
      by blast
    moreover have "scope = {w}"
      using False scope(2) w by simp
    ultimately show ?thesis
      using cand by blast
  qed
qed

text \<open>
  C15. All devices that a contextual message is sent to, of either provider, belong to one wallet and
  accept its alias; the wallet is that of a registration which accepts the alias and is not the
  sender, and which is the receiver of the transaction if any such registration is.
\<close>

theorem contextual_push_one_wallet:
  "\<exists>wallet. \<forall>provider.
     \<forall>r \<in> set (matching_registrations L PushContextual sender receiver (Some alias) provider s).
       dr_wallet_address r = wallet \<and> registration_allows_contextual_alias L r sender alias \<and>
       (\<exists>c \<in> alias_candidates L sender receiver alias s. dr_wallet_address c = wallet)"
proof (cases "contextual_wallet_scope L sender receiver alias s")
  case (Some scope)
  then obtain c where c: "c \<in> alias_candidates L sender receiver alias s" "scope = {dr_wallet_address c}"
    using contextual_wallet_scope_one by blast
  then show ?thesis
    using Some by (intro exI [of _ "dr_wallet_address c"]) (auto simp: matching_registrations_def event_matches_def)
qed (simp add: matching_registrations_def)

section \<open>Authentication\<close>

text \<open>
  C33. The signature of an authentication is not verified: with a new challenge, any text that is
  not blank in its place authenticates any wallet key and address.
\<close>

theorem any_signature_authenticates:
  assumes challenge: "push_create_challenge issued nonce s = (response, s')"
    and nonce: "trim nonce = nonce" "nonce \<noteq> []"
    and time: "issued \<le> now" "now \<le> pr_expires_at_ms response"
    and key: "byte_len (to_lowercase (pl_unicode L) (trim pubkey)) = 64"
      "is_hex_string (to_lowercase (pl_unicode L) (trim pubkey))"
    and address: "normalize_address L address = Some wallet"
    and signature: "trim signature \<noteq> []"
  shows "fst (validate_auth L now (Some \<lparr>pa_wallet_pubkey = pubkey, pa_wallet_address = address, pa_nonce = nonce,
           pa_timestamp_ms = issued, pa_expires_at_ms = pr_expires_at_ms response, pa_signature = signature\<rparr>) s') =
         Inr \<lparr>va_wallet_pubkey = to_lowercase (pl_unicode L) (trim pubkey), va_wallet_address = wallet\<rparr>"
proof -
  let ?e = "\<lparr>pce_issued_at_ms = issued, pce_expires_at_ms = pr_expires_at_ms response\<rparr>"
  define skew where "skew = pc_challenge_skew_ms (ps_config s')"
  have later: "x \<le> sat_add y skew" if "x \<le> y" for x y
    using that unsigned_less [of x, where ?'a = nat] by (simp add: word_le_nat_alt)
  obtain cs where cs: "ps_challenges s' = AList.update nonce ?e cs"
    using challenge by (auto simp: push_create_challenge_def Let_def)
  have "map_of (filter (\<lambda>(_, e). now \<le> sat_add (pce_expires_at_ms e) skew) (AList.update nonce ?e cs)) nonce = Some ?e"
    using time later by (induction cs) auto
  moreover have "\<not> sat_add now skew < issued" "\<not> sat_add (pr_expires_at_ms response) skew < now"
      "\<not> issued < sat_sub issued skew" "\<not> sat_add (pr_expires_at_ms response) skew < issued"
    using time later [of issued now] later [of now "pr_expires_at_ms response"]
      later [of issued "pr_expires_at_ms response"]
    by (auto simp: not_less word_le_nat_alt)
  ultimately show ?thesis
    using assms by (simp add: validate_auth_def Let_def cs skew_def [symmetric])
qed

section \<open>Ownership\<close>

lemma authenticate_keeps:
  assumes "authenticate L now token kind auth s = (result, s')"
  shows "registrations s' = registrations s" "ps_config s' = ps_config s"
    "recent_dispatches s' = recent_dispatches s" "deliveries s' = deliveries s"
  using assms
  by (auto simp: authenticate_def validate_auth_def Let_def split: sum.splits option.splits if_splits)

lemma persist_api_keeps: "registrations (snd (persist_api w s)) = registrations s"
  by (cases w) (simp_all add: persist_api_def)

text \<open>
  An update or a removal by one wallet key leaves the registrations of every other key as they
  are; when the device named is one of those, it is refused.
\<close>

theorem foreign_registration_kept:
  assumes bound: "map_of (registrations s) token = Some r"
    and auth: "authenticate L now named kind auth_request s = (Inr (named_token, token_type, auth), s1)"
    and foreign: "va_wallet_pubkey auth \<noteq> dr_wallet_pubkey r"
    and update: "pur_device_token u = named" "pur_token_type u = kind" "pur_auth u = auth_request"
    and remove: "pun_device_token d = named" "pun_token_type d = kind" "pun_auth d = auth_request"
  shows "map_of (registrations (snd (push_update L updated now w u s))) token = Some r \<and>
         map_of (registrations (snd (push_unregister L now w d s))) token = Some r \<and>
         (named_token = token \<longrightarrow>
            fst (push_update L updated now w u s) = Inl (unauthorized ''device token is bound to another wallet'') \<and>
            fst (push_unregister L now w d s) = Inl (unauthorized ''device token is bound to another wallet''))"
proof -
  note same = authenticate_keeps(1) [OF auth]
  have u: "push_update L updated now w u s = (Inl (unauthorized ''device token is bound to another wallet''), s1)"
      and d: "push_unregister L now w d s = (Inl (unauthorized ''device token is bound to another wallet''), s1)"
      if "named_token = token"
    using that assms same by (simp_all add: push_update_def push_unregister_def)
  have "map_of (registrations (snd (push_update L updated now w u s))) token = Some r" if "named_token \<noteq> token"
    using that auth update bound same
    by (simp add: push_update_def persist_api_keeps update_conv Let_def split: option.split)
  moreover have "map_of (registrations (snd (push_unregister L now w d s))) token = Some r" if "named_token \<noteq> token"
    using that auth remove bound same
    by (simp add: push_unregister_def persist_api_keeps delete_conv split: option.split)
  ultimately show ?thesis
    using u d bound same by (cases "named_token = token") simp_all
qed

text \<open>
  Registration with the flag to replace devices also removes devices of other wallets, when their
  primary address is the one that registers.
\<close>

lemma replace_removes_other_wallets:
  assumes auth: "authenticate L now (prr_device_token q) (prr_token_type q) (prr_auth q) s =
      (Inr (token, token_type, a), s1)"
    and "prr_replace_wallet_devices q" "(other, r) \<in> set (registrations s)" "distinct (map fst (registrations s))"
    and "other \<noteq> token" "dr_primary_address r = Some (va_wallet_address a)"
  shows "map_of (registrations (snd (push_register L created now w q s))) other = None"
proof -
  have "other \<notin> fst ` set (filter (\<lambda>(t, r). t = token \<or> \<not> same_wallet a r) (registrations s))"
    using assms(3-6) by (auto simp: same_wallet_def dest: eq_key_imp_eq_value)
  then have "map_of (filter (\<lambda>(t, r). t = token \<or> \<not> same_wallet a r) (registrations s)) other = None"
    by (simp add: map_of_eq_None_iff)
  then show ?thesis
    using assms(2,5) authenticate_keeps(1) [OF auth]
    by (simp add: push_register_def auth Let_def persist_api_keeps update_conv)
qed

end
