(* ===== verification/Push_Safety.thy ===== *)
theory Push_Safety
  imports Push_Matching
begin

text \<open>
  Duplicates of push notifications, the shape of the registry, and what a restart finds. Requests
  and events are taken one after the other. The sources write the file of the registrations after
  they release the lock, so that of two handlers at the same time the older state may be written
  last; what is said of a restart holds for handlers that do not overlap.
\<close>

section \<open>Duplicates\<close>

datatype provider_message = ApnsMessage json push_message_type | FcmData "(string \<times> rstr) list"

fun send_message ::
    "('addr, 'x) push_lib_scheme \<Rightarrow> push_net \<Rightarrow> provider_message \<Rightarrow> rstr \<Rightarrow> push_service \<Rightarrow> send_outcome res \<times> push_service" where
  "send_message L net (ApnsMessage message mt) = send_apns L net message mt"
| "send_message L net (FcmData data) = send_fcm L net data"

text \<open>An attempt: what is met outside, the event, the message, and the device.\<close>

type_synonym attempt = "push_net \<times> rstr \<times> provider_message \<times> device_registration"

definition attempts_run ::
    "('addr, 'x) push_lib_scheme \<Rightarrow> attempt list \<Rightarrow> push_service \<Rightarrow> rstr list \<times> push_service" where
  "attempts_run L attempts s =
     fold (\<lambda>(net, i, message, r). deliver net (Some i) (send_message L net message) r) attempts ([], s)"

definition attempt_times :: "attempt \<Rightarrow> u64 list" where
  "attempt_times = (\<lambda>(net, i, message, r).
     [time_of_check net (dr_device_token r), time_of_mark net (dr_device_token r)])"

text \<open>Sending touches neither what is kept about deliveries nor the registrations.\<close>

definition quiet_send :: "(rstr \<Rightarrow> push_service \<Rightarrow> send_outcome res \<times> push_service) \<Rightarrow> bool" where
  "quiet_send send \<longleftrightarrow> (\<forall>token s. let s' = snd (send token s) in
     recent_dispatches s' = recent_dispatches s \<and> dispatch_dedupe_ttl_ms s' = dispatch_dedupe_ttl_ms s \<and>
     deliveries s' = deliveries s \<and> registrations s' = registrations s)"

lemma quiet_send_message: "quiet_send (send_message L net message)"
  by (cases message) (auto simp: quiet_send_def send_apns_def send_fcm_def Let_def split: option.splits prod.splits)

definition spaced :: "nat \<Rightarrow> (rstr \<times> rstr \<times> u64) list \<Rightarrow> bool" where
  "spaced ttl ds \<longleftrightarrow> (\<forall>j < length ds. \<forall>i < j.
     fst (ds ! i) = fst (ds ! j) \<and> fst (snd (ds ! i)) = fst (snd (ds ! j)) \<longrightarrow>
     unat (snd (snd (ds ! i))) + ttl < unat (snd (snd (ds ! j))))"

lemma spaced_snoc:
  "spaced ttl (ds @ [(token, i, t)]) \<longleftrightarrow> spaced ttl ds \<and>
     (\<forall>t'. (token, i, t') \<in> set ds \<longrightarrow> unat t' + ttl < unat t)"
proof -
  have "(\<forall>k < length ds. fst (ds ! k) = token \<and> fst (snd (ds ! k)) = i \<longrightarrow> unat (snd (snd (ds ! k))) + ttl < unat t) \<longleftrightarrow>
      (\<forall>t'. (token, i, t') \<in> set ds \<longrightarrow> unat t' + ttl < unat t)"
    by (force simp: in_set_conv_nth)
  then show ?thesis
    by (auto simp: spaced_def nth_append less_Suc_eq)
qed

definition dedupe_inv :: "nat \<Rightarrow> u64 \<Rightarrow> push_service \<Rightarrow> bool" where
  "dedupe_inv ttl now s \<longleftrightarrow> ttl = unat (dispatch_dedupe_ttl_ms s) \<and> distinct (map fst (recent_dispatches s)) \<and>
     spaced ttl (deliveries s) \<and>
     (\<forall>(token, i, t) \<in> set (deliveries s). t \<le> now \<and>
        (unat now - ttl \<le> unat t \<longrightarrow>
           (\<exists>t'. map_of (recent_dispatches s) (dispatch_dedupe_key token i) = Some t' \<and> t \<le> t')))"

lemma forget_old_dispatches_inv:
  assumes inv: "dedupe_inv ttl now s" and later: "now \<le> t"
  shows "dedupe_inv ttl t (forget_old_dispatches t s)"
proof -
  have d: "distinct (map fst (recent_dispatches s))" and ttl: "ttl = unat (dispatch_dedupe_ttl_ms s)"
    using inv by (simp_all add: dedupe_inv_def)
  have keep: "\<exists>y. map_of (recent_dispatches (forget_old_dispatches t s)) k = Some y \<and> x \<le> y"
    if "unat t - ttl \<le> unat x" "map_of (recent_dispatches s) k = Some t'" "x \<le> t'" for x k t'
    using that ttl by (auto simp: forget_old_dispatches_def map_of_filter_value [OF d] word_le_nat_alt)
  have "now \<le> t" "unat now - ttl \<le> unat t - ttl"
    using later by (simp_all add: word_le_nat_alt)
  then show ?thesis
    using inv keep unfolding dedupe_inv_def
    by (fastforce simp: forget_old_dispatches_def distinct_map_filter)
qed

lemma dedupe_inv_cong:
  "recent_dispatches s' = recent_dispatches s \<Longrightarrow> dispatch_dedupe_ttl_ms s' = dispatch_dedupe_ttl_ms s \<Longrightarrow>
   deliveries s' = deliveries s \<Longrightarrow> dedupe_inv ttl now s' = dedupe_inv ttl now s"
  by (simp add: dedupe_inv_def)

lemma dedupe_inv_mark:
  assumes inv: "dedupe_inv ttl now s" and later: "now \<le> t"
    and fresh: "\<forall>t'. (token, i, t') \<in> set (deliveries s) \<longrightarrow> unat t' + ttl < unat t"
  shows "dedupe_inv ttl t ((mark_recent_dispatch t token i s)\<lparr>deliveries := deliveries s @ [(token, i, t)]\<rparr>)"
proof -
  have "dedupe_inv ttl t (forget_old_dispatches t s)"
    using inv later by (rule forget_old_dispatches_inv)
  moreover have "deliveries (forget_old_dispatches t s) = deliveries s"
    by (simp add: forget_old_dispatches_def)
  ultimately show ?thesis
    using fresh unfolding dedupe_inv_def mark_recent_dispatch_def Let_def
    by (auto simp: spaced_snoc distinct_update update_conv)
qed

lemma unchecked_delivery_old:
  assumes inv: "dedupe_inv ttl now s" and later: "now \<le> t"
    and unseen: "\<not> fst (was_recently_dispatched t token i s)" and d: "(token, i, t') \<in> set (deliveries s)"
  shows "unat t' + ttl < unat t"
proof -
  have inv': "dedupe_inv ttl t (forget_old_dispatches t s)"
    using inv later by (rule forget_old_dispatches_inv)
  have "(token, i, t') \<in> set (deliveries (forget_old_dispatches t s))"
    using d by (simp add: forget_old_dispatches_def)
  moreover have "map_of (recent_dispatches (forget_old_dispatches t s)) (dispatch_dedupe_key token i) = None"
    using unseen by (simp add: was_recently_dispatched_def Let_def)
  ultimately have "\<not> unat t - ttl \<le> unat t'"
    using inv' unfolding dedupe_inv_def by fastforce
  then show ?thesis
    by linarith
qed

lemma dedupe_inv_count [simp]: "dedupe_inv ttl now (count f s) = dedupe_inv ttl now s"
  by (rule dedupe_inv_cong) (simp_all add: count_def)

lemma dedupe_inv_later:
  assumes inv: "dedupe_inv ttl now s" and later: "now \<le> t"
  shows "dedupe_inv ttl t s"
proof -
  have "unat now - ttl \<le> unat t - ttl"
    using later by (simp add: word_le_nat_alt)
  then show ?thesis
    using inv later unfolding dedupe_inv_def by (fastforce intro: order_trans)
qed

lemma dedupe_inv_deliver:
  assumes inv: "dedupe_inv ttl now s" and send: "quiet_send send"
    and c: "now \<le> time_of_check net (dr_device_token r)"
    and m: "time_of_check net (dr_device_token r) \<le> time_of_mark net (dr_device_token r)"
  shows "dedupe_inv ttl (time_of_mark net (dr_device_token r)) (snd (deliver net (Some i) send r (stale, s)))"
proof -
  let ?token = "dr_device_token r"
  define tc where "tc = time_of_check net ?token"
  define tm where "tm = time_of_mark net ?token"
  define s1 where "s1 = forget_old_dispatches tc s"
  define s2 where "s2 = count (dc_attempts_update (\<lambda>n. n + 1)) s1"
  obtain out s3 where sent: "send ?token s2 = (out, s3)"
    by fastforce
  have s3: "recent_dispatches s3 = recent_dispatches s1" "dispatch_dedupe_ttl_ms s3 = dispatch_dedupe_ttl_ms s1"
      "deliveries s3 = deliveries s1"
    using spec [OF spec [OF send [unfolded quiet_send_def]], of ?token s2]
    by (simp_all add: sent Let_def) (simp_all add: s2_def count_def)
  have inv1: "dedupe_inv ttl tc s1"
    unfolding s1_def using inv c tc_def by (intro forget_old_dispatches_inv) auto
  then have inv3: "dedupe_inv ttl tc s3"
    using dedupe_inv_cong [of s3 s1] s3 by simp
  show ?thesis
  proof (cases "\<not> fst (was_recently_dispatched tc ?token i s) \<and> out = Inr SendDone")
    case False
    then have "dedupe_inv ttl tc (snd (deliver net (Some i) send r (stale, s)))"
      using inv1 inv3 sent
      by (auto simp: deliver_def was_recently_dispatched_def Let_def s1_def s2_def tc_def
          split: sum.splits send_outcome.splits)
    then show ?thesis
      using m dedupe_inv_later tc_def by blast
  next
    case True
    have fresh: "\<forall>t'. (?token, i, t') \<in> set (deliveries s3) \<longrightarrow> unat t' + ttl < unat tm"
    proof (intro allI impI)
      fix t' assume "(?token, i, t') \<in> set (deliveries s3)"
      then have "(?token, i, t') \<in> set (deliveries s)"
        by (simp add: s3 s1_def forget_old_dispatches_def)
      then have "unat t' + ttl < unat tc"
        using unchecked_delivery_old [OF inv] c True unfolding tc_def by blast
      then show "unat t' + ttl < unat tm"
        using m by (simp add: tc_def tm_def word_le_nat_alt)
    qed
    let ?s4 = "count (dc_sent_update (\<lambda>n. n + 1)) s3"
    have "dedupe_inv ttl tc ?s4" "deliveries ?s4 = deliveries s3"
      using inv3 by (simp, simp add: count_def)
    then have "dedupe_inv ttl tm ((mark_recent_dispatch tm ?token i ?s4)\<lparr>deliveries := deliveries ?s4 @ [(?token, i, tm)]\<rparr>)"
      using fresh m by (intro dedupe_inv_mark) (simp_all add: tc_def tm_def)
    then show ?thesis
      using True sent
      by (simp add: deliver_def was_recently_dispatched_def Let_def s1_def s2_def tc_def tm_def)
  qed
qed

lemma dedupe_inv_attempts:
  assumes "dedupe_inv ttl now s" "sorted (now # concat (map attempt_times attempts))"
  shows "\<exists>later. dedupe_inv ttl later (snd (attempts_run L attempts s))"
proof -
  have "\<exists>later. dedupe_inv ttl later
      (snd (fold (\<lambda>(net, i, message, r). deliver net (Some i) (send_message L net message) r) attempts (stale, s)))"
    for stale
    using assms
  proof (induction attempts arbitrary: now stale s)
    case (Cons a attempts)
    obtain net i message r where a: "a = (net, i, message, r)"
      by (cases a)
    let ?tm = "time_of_mark net (dr_device_token r)"
    obtain stale' s' where d: "deliver net (Some i) (send_message L net message) r (stale, s) = (stale', s')"
      by fastforce
    have "now \<le> time_of_check net (dr_device_token r)" "time_of_check net (dr_device_token r) \<le> ?tm"
        "sorted (?tm # concat (map attempt_times attempts))"
      using Cons.prems(2) by (simp_all add: a attempt_times_def)
    then have "dedupe_inv ttl ?tm s'"
      using dedupe_inv_deliver [OF Cons.prems(1) quiet_send_message, where r = r] d by (metis snd_conv)
    from Cons.IH [OF this \<open>sorted (?tm # _)\<close>] show ?case
      by (simp add: a d)
  qed auto
  then show ?thesis
    by (simp add: attempts_run_def)
qed


section \<open>The shape of the registry\<close>

definition route_ok :: "contextual_push_route \<Rightarrow> bool" where
  "route_ok route \<longleftrightarrow> peer_address route \<noteq> [] \<and> cr_aliases route \<noteq> [] \<and> distinct (cr_aliases route) \<and>
     [] \<notin> set (cr_aliases route)"

definition registration_ok :: "('addr, 'x) push_lib_scheme \<Rightarrow> device_registration \<Rightarrow> bool" where
  "registration_ok L r \<longleftrightarrow>
     dr_device_token r \<noteq> [] \<and> (dr_token_type r = str ''apns'' \<or> dr_token_type r = str ''fcm'') \<and>
     (dr_token_type r = str ''apns'' \<longrightarrow> byte_len (dr_device_token r) = 64 \<and> is_hex_string (dr_device_token r)) \<and>
     byte_len (dr_wallet_pubkey r) = 64 \<and> is_hex_string (dr_wallet_pubkey r) \<and> dr_wallet_address r \<noteq> [] \<and>
     dr_primary_address r \<noteq> Some [] \<and> [] \<notin> watched_addresses r \<and> [] \<notin> watch_pulse_reply_addresses r \<and>
     list_all route_ok (contextual_routes r) \<and> sorted (map peer_address (contextual_routes r)) \<and>
     distinct (map peer_address (contextual_routes r)) \<and>
     dr_aliases r = derived_contextual_registration_aliases L (dr_wallet_address r) (contextual_routes r)"

definition registry_ok :: "('addr, 'x) push_lib_scheme \<Rightarrow> push_service \<Rightarrow> bool" where
  "registry_ok L s \<longleftrightarrow> distinct (map fst (registrations s)) \<and>
     (\<forall>(token, r) \<in> set (registrations s). token = dr_device_token r \<and> registration_ok L r)"

subsection \<open>Normal forms\<close>

lemma in_update: "x \<in> set (AList.update k v al) \<Longrightarrow> x = (k, v) \<or> x \<in> set al"
  by (induction al) (auto split: if_splits)

lemma fold_add_new: "distinct xs \<Longrightarrow> distinct (fold add_new ys xs) \<and> set (fold add_new ys xs) = set xs \<union> set ys"
  by (induction ys arbitrary: xs) (auto simp: add_new_def)

lemma normalize_aliases_ok: "distinct (normalize_aliases vs)" "[] \<notin> set (normalize_aliases vs)"
proof -
  have "distinct (fold (\<lambda>v acc. if trim v = [] then acc else add_new (trim v) acc) vs acc) \<and>
      [] \<notin> set (fold (\<lambda>v acc. if trim v = [] then acc else add_new (trim v) acc) vs acc)"
    if "distinct acc" "[] \<notin> set acc" for acc
    using that by (induction vs arbitrary: acc) (auto simp: add_new_def)
  from this [of "[]"] show "distinct (normalize_aliases vs)" "[] \<notin> set (normalize_aliases vs)"
    by (simp_all add: normalize_aliases_def)
qed

lemma normalize_address_nonempty [simp]: "normalize_address L v \<noteq> Some []"
  by (simp add: normalize_address_def nonempty_def)

lemma normalize_addresses_nonempty [simp]: "[] \<notin> normalize_addresses L vs"
  by (auto simp: normalize_addresses_def map_filter_def normalize_address_def nonempty_def split: if_splits)

lemma normalize_optional_address_nonempty [simp]: "normalize_optional_address L v \<noteq> Some []"
  by (cases v) (simp_all add: normalize_optional_address_def)

definition route_map_ok :: "(rstr \<times> rstr list) list \<Rightarrow> bool" where
  "route_map_ok m \<longleftrightarrow> distinct (map fst m) \<and>
     (\<forall>(peer, aliases) \<in> set m. peer \<noteq> [] \<and> distinct aliases \<and> [] \<notin> set aliases)"

lemma add_route_ok:
  assumes "route_map_ok m"
  shows "route_map_ok (add_route L v m)"
proof (cases "normalize_address L (peer_address v)")
  case (Some peer)
  let ?old = "case map_of m peer of None \<Rightarrow> [] | Some e \<Rightarrow> e"
  have "peer \<noteq> []"
    using Some by auto
  moreover have "distinct ?old" "[] \<notin> set ?old"
    using assms by (auto simp: route_map_ok_def dest: map_of_SomeD split: option.split)
  ultimately show ?thesis
    using assms fold_add_new [of ?old "normalize_aliases (cr_aliases v)"] normalize_aliases_ok [of "cr_aliases v"]
    by (auto simp: add_route_def Some route_map_ok_def distinct_update dest!: in_update)
qed (use assms in \<open>simp add: add_route_def\<close>)

lemma normalize_contextual_routes_ok:
  "list_all route_ok (normalize_contextual_routes L vs)"
  "sorted (map peer_address (normalize_contextual_routes L vs))"
  "distinct (map peer_address (normalize_contextual_routes L vs))"
proof -
  have "route_map_ok (fold (add_route L) vs m)" if "route_map_ok m" for m
    using that by (induction vs arbitrary: m) (simp_all add: add_route_ok)
  from this [of "[]"] have m: "route_map_ok (fold (add_route L) vs [])"
    by (simp add: route_map_ok_def)
  show "list_all route_ok (normalize_contextual_routes L vs)"
    using m by (auto simp: normalize_contextual_routes_def route_map_ok_def route_ok_def list_all_iff)
  show "sorted (map peer_address (normalize_contextual_routes L vs))"
    by (simp add: normalize_contextual_routes_def)
  have "distinct (map peer_address (map (\<lambda>(peer, aliases). \<lparr>peer_address = peer, cr_aliases = aliases\<rparr>)
         (filter (\<lambda>(_, aliases). aliases \<noteq> []) (fold (add_route L) vs []))))"
    using m by (simp add: route_map_ok_def comp_def case_prod_beta distinct_map_filter)
  then show "distinct (map peer_address (normalize_contextual_routes L vs))"
    unfolding normalize_contextual_routes_def by (simp only: distinct_map set_sort distinct_sort)
qed

subsection \<open>The handlers\<close>

lemma registry_ok_cong: "registrations s' = registrations s \<Longrightarrow> registry_ok L s' = registry_ok L s"
  by (simp add: registry_ok_def)

lemma registry_ok_filter:
  "registry_ok L s \<Longrightarrow> registrations s' = filter P (registrations s) \<Longrightarrow> registry_ok L s'"
  by (auto simp: registry_ok_def distinct_map_filter)

lemma registry_ok_insert:
  "registry_ok L s \<Longrightarrow> registrations s' = AList.update (dr_device_token r) r (registrations s) \<Longrightarrow>
     registration_ok L r \<Longrightarrow> registry_ok L s'"
  by (auto simp: registry_ok_def distinct_update dest!: in_update)

lemma validate_auth_ok:
  assumes "validate_auth L now auth s = (Inr a, s')"
  shows "byte_len (va_wallet_pubkey a) = 64" "is_hex_string (va_wallet_pubkey a)" "va_wallet_address a \<noteq> []"
  using assms by (auto simp: validate_auth_def Let_def split: option.splits if_splits)

lemma authenticate_ok:
  assumes "authenticate L now token kind auth s = (Inr (t, ty, a), s')"
  shows "t \<noteq> []" "ty = str ''apns'' \<or> ty = str ''fcm''"
    "ty = str ''apns'' \<longrightarrow> byte_len t = 64 \<and> is_hex_string t"
    "byte_len (va_wallet_pubkey a) = 64" "is_hex_string (va_wallet_pubkey a)" "va_wallet_address a \<noteq> []"
proof -
  obtain v where v: "validate_auth L now auth s = (Inr a, s')" and t: "normalize_device_token L token ty = Inr t"
      "validate_token_and_type v t ty = Inr ()"
    using assms by (auto simp: authenticate_def Let_def abind_def split: sum.splits prod.splits)
  show "t \<noteq> []" "ty = str ''apns'' \<or> ty = str ''fcm''" "ty = str ''apns'' \<longrightarrow> byte_len t = 64 \<and> is_hex_string t"
    using t by (auto simp: normalize_device_token_def validate_token_and_type_def is_hex_string_def Let_def split: if_splits)
  show "byte_len (va_wallet_pubkey a) = 64" "is_hex_string (va_wallet_pubkey a)" "va_wallet_address a \<noteq> []"
    using validate_auth_ok [OF v] by simp_all
qed

lemma new_registration_token [simp]: "dr_device_token (new_registration L now created token ty auth q) = token"
  by (simp add: new_registration_def Let_def)

lemma push_register_ok:
  assumes inv: "registry_ok L s"
  shows "registry_ok L (snd (push_register L now auth_now w q s))"
proof (cases "authenticate L auth_now (prr_device_token q) (prr_token_type q) (prr_auth q) s")
  case (Pair out s1)
  note same = authenticate_keeps(1) [OF Pair]
  show ?thesis
  proof (cases out)
    case (Inl e)
    then show ?thesis
      using inv same by (simp add: push_register_def Pair registry_ok_def)
  next
    case (Inr v)
    obtain t ty a where v: "v = (t, ty, a)"
      by (cases v)
    define kept where "kept = (if prr_replace_wallet_devices q
        then filter (\<lambda>(t', r). t' = t \<or> \<not> same_wallet a r) (registrations s1) else registrations s1)"
    define s2 where "s2 = s1\<lparr>registrations := kept\<rparr>"
    have "registrations s2 = filter (\<lambda>(t', r). \<not> prr_replace_wallet_devices q \<or> t' = t \<or> \<not> same_wallet a r) (registrations s)"
      by (simp add: s2_def kept_def same)
    with inv have ok2: "registry_ok L s2"
      by (rule registry_ok_filter)
    define r where "r = new_registration L now
        (case map_of (registrations s1) t of
           None \<Rightarrow> now | Some r \<Rightarrow> if dr_wallet_pubkey r = va_wallet_pubkey a then dr_created_at_ms r else now) t ty a q"
    have "registrations (snd (push_register L now auth_now w q s)) = AList.update (dr_device_token r) r (registrations s2)"
      by (simp add: push_register_def Pair Inr v persist_api_keeps kept_def s2_def r_def)
    moreover have "registration_ok L r"
      using authenticate_ok [OF Pair [unfolded Inr v]]
      by (simp add: normalize_contextual_routes_ok r_def new_registration_def registration_ok_def Let_def)
    ultimately show ?thesis
      by (rule registry_ok_insert [OF ok2])
  qed
qed

lemma push_update_ok:
  assumes inv: "registry_ok L s"
  shows "registry_ok L (snd (push_update L now auth_now w u s))"
proof (cases "authenticate L auth_now (pur_device_token u) (pur_token_type u) (pur_auth u) s")
  case (Pair out s1)
  have inv1: "registry_ok L s1"
    using inv by (simp add: registry_ok_cong [OF authenticate_keeps(1) [OF Pair]])
  show ?thesis
  proof (cases "\<exists>t ty a r. out = Inr (t, ty, a) \<and> map_of (registrations s1) t = Some r \<and>
      dr_wallet_pubkey r = va_wallet_pubkey a")
    case False
    then have "snd (push_update L now auth_now w u s) = s1"
      by (cases out) (auto simp: push_update_def Pair split: option.splits)
    then show ?thesis
      using inv1 by simp
  next
    case True
    then obtain t ty a r where out: "out = Inr (t, ty, a)" and r: "map_of (registrations s1) t = Some r"
        "dr_wallet_pubkey r = va_wallet_pubkey a"
      by blast
    then have token: "t = dr_device_token r" "registration_ok L r"
      using inv1 by (auto simp: registry_ok_def dest: map_of_SomeD)
    then show ?thesis
      using authenticate_ok [OF Pair [unfolded out]] r
      by (intro registry_ok_insert [OF inv1, of _ "r\<lparr>dr_token_type := ty,
            dr_app_bundle_id := normalize_optional_bundle_id L (pur_app_bundle_id u),
            watched_addresses := normalize_addresses L (pur_watched_addresses u),
            watch_pulse_reply_addresses := normalize_addresses L (pur_watch_pulse_reply_addresses u),
            dr_primary_address := normalize_optional_address L (pur_primary_address u),
            dr_aliases := derived_contextual_registration_aliases L (va_wallet_address a)
              (normalize_contextual_routes L (pur_contextual_routes u)),
            contextual_routes := normalize_contextual_routes L (pur_contextual_routes u),
            dr_wallet_address := va_wallet_address a, dr_updated_at_ms := now\<rparr>"])
        (simp_all add: normalize_contextual_routes_ok push_update_def Pair out persist_api_keeps registration_ok_def Let_def)
  qed
qed

lemma push_unregister_ok:
  assumes inv: "registry_ok L s"
  shows "registry_ok L (snd (push_unregister L now w d s))"
proof (cases "authenticate L now (pun_device_token d) (pun_token_type d) (pun_auth d) s")
  case (Pair out s1)
  have inv1: "registry_ok L s1"
    using inv by (simp add: registry_ok_cong [OF authenticate_keeps(1) [OF Pair]])
  have "registrations (snd (push_unregister L now w d s)) = registrations s1 \<or>
      (\<exists>t. registrations (snd (push_unregister L now w d s)) = AList.delete t (registrations s1))"
    by (auto simp: push_unregister_def Pair persist_api_keeps split: sum.split option.split)
  then show ?thesis
    using inv1 registry_ok_cong registry_ok_filter by (metis AList.delete_eq)
qed

lemma deliver_registrations:
  assumes send: "quiet_send send"
  shows "registrations (snd (deliver net i send r (stale, s))) = registrations s"
proof -
  have "registrations s' = registrations x" if "send token x = (out, s')" for token x out s'
    using spec [OF spec [OF send [unfolded quiet_send_def]], of token x] by (simp add: that Let_def)
  then show ?thesis
    by (auto simp: deliver_def Let_def was_recently_dispatched_def forget_old_dispatches_def mark_recent_dispatch_def
        count_def split: option.split prod.split sum.split send_outcome.split)
qed

lemma deliver_all_registrations:
  assumes "quiet_send send"
  shows "registrations (snd (deliver_all net i send targets p)) = registrations (snd p)"
proof -
  have "registrations (snd (fold (deliver net i send) rs (stale, s))) = registrations s" for rs stale s
  proof (induction rs arbitrary: stale s)
    case (Cons r rs)
    obtain stale' s' where d: "deliver net i send r (stale, s) = (stale', s')"
      by fastforce
    then show ?case
      using Cons deliver_registrations [OF assms, of net i r stale s] by simp
  qed simp
  then show ?thesis
    by (cases p) (simp add: deliver_all_def count_def Let_def)
qed

lemma push_quiet_sends: "quiet_send (send_apns L net message mt)" "quiet_send (send_fcm L net data)"
  using quiet_send_message [of L net "ApnsMessage message mt"] quiet_send_message [of L net "FcmData data"] by simp_all

lemma dispatch_to_registrations:
  "\<exists>P. registrations (snd (dispatch_to L net i message mt data targets s)) = filter P (registrations s)"
proof -
  have remove: "registrations (snd (remove_stale_registrations net stale x)) =
      filter (\<lambda>(t, _). t \<notin> set stale) (registrations x)" for stale x
    by (cases "registry_write net") (simp_all add: remove_stale_registrations_def)
  define a where "a = (if ps_apns_client s = None then ([], s)
      else deliver_all net i (send_apns L net message mt) (targets (str ''apns'')) ([], s))"
  define b where "b = (if ps_fcm_client (snd a) = None then a
      else deliver_all net i (send_fcm L net data) (targets (str ''fcm'')) (fst a, snd a))"
  have "registrations (snd b) = registrations s"
    by (simp add: a_def b_def deliver_all_registrations push_quiet_sends)
  moreover have "snd (dispatch_to L net i message mt data targets s) =
      (if fst b = [] then snd b else snd (remove_stale_registrations net (fst b) (snd b)))"
    by (simp add: dispatch_to_def a_def b_def Let_def split_beta)
  ultimately show ?thesis
    by (metis remove filter_True)
qed

definition shrinks :: "push_service \<Rightarrow> push_service \<Rightarrow> bool" where
  "shrinks s s' \<longleftrightarrow> (\<exists>P. registrations s' = filter P (registrations s))"

lemma shrinks_refl: "registrations s' = registrations s \<Longrightarrow> shrinks s s'"
  unfolding shrinks_def by (rule exI [of _ "\<lambda>_. True"]) simp

lemma dispatch_to_shrinks: "registrations s1 = registrations s \<Longrightarrow>
    shrinks s (snd (dispatch_to L net i message mt data targets s1))"
  unfolding shrinks_def using dispatch_to_registrations by metis

lemma count_registrations [simp]: "registrations (count f s) = registrations s"
  by (simp add: count_def)

lemma dispatch_event_shrinks: "shrinks s (snd (dispatch_event L var net event s))"
  by (auto simp: dispatch_event_def Let_def intro: shrinks_refl dispatch_to_shrinks split: option.split sum.split)

lemma dispatch_pulse_reply_shrinks: "shrinks s (snd (dispatch_pulse_reply L net event s))"
  by (auto simp: dispatch_pulse_reply_def Let_def intro: shrinks_refl dispatch_to_shrinks split: option.split)

lemma validate_auth_keeps: "registrations (snd (validate_auth L now auth s)) = registrations s"
  by (auto simp: validate_auth_def Let_def split: option.split)

lemma dispatch_presence_shrinks: "shrinks s (snd (dispatch_presence L now net q s))"
  by (auto simp: dispatch_presence_def Let_def split_beta validate_auth_keeps
      intro!: shrinks_refl dispatch_to_shrinks split: sum.split)

subsection \<open>Reachable registries\<close>

text \<open>The requests and events that the service handles, at any times and with any outcome outside.\<close>

inductive push_step :: "('addr, 'x) push_lib_scheme \<Rightarrow> environment \<Rightarrow> push_service \<Rightarrow> push_service \<Rightarrow> bool" for L var where
  step_challenge: "push_step L var s (snd (push_create_challenge now nonce s))"
| step_register: "push_step L var s (snd (push_register L now auth_now w request s))"
| step_update: "push_step L var s (snd (push_update L now auth_now w update s))"
| step_unregister: "push_step L var s (snd (push_unregister L auth_now w unregister s))"
| step_event: "push_step L var s (snd (dispatch_event L var net event s))"
| step_presence: "push_step L var s (snd (dispatch_presence L now net presence s))"
| step_reply: "push_step L var s (snd (dispatch_pulse_reply L net reply s))"

text \<open>The service starts without a file of registrations, or with one of well-formed registrations.\<close>

definition push_start :: "('addr, 'x) push_lib_scheme \<Rightarrow> push_service \<Rightarrow> bool" where
  "push_start L s \<longleftrightarrow> (\<exists>config apns fcm file.
     push_from_context config apns fcm file = Ok s \<and>
     (file = NoRegistry \<or> (\<exists>rs. file = RegistrySnapshot rs \<and> list_all (registration_ok L) rs)))"

lemma registry_ok_start:
  assumes "push_start L s"
  shows "registry_ok L s"
proof -
  have fold_ok: "registry_ok L (s\<lparr>registrations := fold (\<lambda>r. AList.update (dr_device_token r) r) rs al\<rparr>)"
    if "registry_ok L (s\<lparr>registrations := al\<rparr>)" "list_all (registration_ok L) rs" for rs al
    using that
  proof (induction rs arbitrary: al)
    case (Cons r rs)
    have "registry_ok L (s\<lparr>registrations := AList.update (dr_device_token r) r al\<rparr>)"
      using Cons.prems(2) by (intro registry_ok_insert [OF Cons.prems(1), where r = r]) simp_all
    from Cons.IH [OF this] show ?case
      using Cons.prems by simp
  qed simp
  have empty: "registry_ok L (s\<lparr>registrations := []\<rparr>)"
    by (simp add: registry_ok_def)
  have "\<exists>rs. list_all (registration_ok L) rs \<and> registrations s = fold (\<lambda>r. AList.update (dr_device_token r) r) rs []"
    using assms by (fastforce simp: push_start_def push_from_context_def intro: exI [of _ "[]"])
  then obtain rs where "list_all (registration_ok L) rs"
      and rs: "registrations s = fold (\<lambda>r. AList.update (dr_device_token r) r) rs []"
    by blast
  then have "registry_ok L (s\<lparr>registrations := fold (\<lambda>r. AList.update (dr_device_token r) r) rs []\<rparr>)"
    using fold_ok [OF empty] by blast
  then show ?thesis
    by (simp add: registry_ok_def rs)
qed

interpretation push: invariant_system "push_start L" "push_step L var" "registry_ok L" for L var
proof
  fix s s'
  assume inv: "registry_ok L s" and step: "push_step L var s s'"
  have shrinks: "registry_ok L t" if "shrinks s t" for t
    using registry_ok_filter [OF inv] that by (auto simp: shrinks_def)
  have "registrations (snd (push_create_challenge now nonce s)) = registrations s" for now nonce
    by (simp add: push_create_challenge_def Let_def)
  with step show "registry_ok L s'"
    by (cases rule: push_step.cases)
      (auto intro: inv push_register_ok push_update_ok push_unregister_ok shrinks dispatch_event_shrinks
        dispatch_presence_shrinks dispatch_pulse_reply_shrinks shrinks_refl)
qed (rule registry_ok_start)

text \<open>
  C17. In every state the service can reach, the registry has one registration for each device,
  under its own token; the token fits its provider, the key and the address of the wallet are
  there, the routes are sorted by peer with one of each and their aliases distinct and not blank,
  and the aliases are those derived from the wallet and the routes.
\<close>

theorem push_registry_well_formed:
  assumes "reachable (push_start L) (push_step L var) s"
  shows "registry_ok L s"
  using assms by (rule push.invariant)

section \<open>Restart\<close>

lemma fold_update_map_of:
  assumes "distinct (map fst al)" "\<forall>(token, r) \<in> set al. token = dr_device_token r"
  shows "map_of (fold (\<lambda>r. AList.update (dr_device_token r) r) (map snd al) m) = map_of m ++ map_of al"
  using assms
proof (induction al arbitrary: m)
  case (Cons x al)
  obtain token r where x: "x = (token, r)"
    by (cases x)
  then have "token = dr_device_token r" "token \<notin> dom (map_of al)"
    using Cons.prems by (auto simp: dom_map_of_conv_image_fst)
  then show ?case
    using Cons by (auto simp: x update_conv' fun_eq_iff map_add_def split: option.split)
qed simp

lemma persist_api_written:
  "fst (persist_api w s) = Inr () \<Longrightarrow>
     registrations_path (snd (persist_api w s)) = RegistrySnapshot (map snd (registrations s))"
  by (cases w) (simp_all add: persist_api_def)

lemma persist_registrations_restart:
  assumes ok: "registry_ok L (snd (persist_api w s))" and written: "fst (persist_api w s) = Inr ()"
  shows "\<exists>loaded. load_registrations (registrations_path (snd (persist_api w s))) = Ok loaded \<and>
           map_of loaded = map_of (registrations (snd (persist_api w s)))"
proof -
  have "distinct (map fst (registrations s))" "\<forall>(token, r) \<in> set (registrations s). token = dr_device_token r"
    using ok by (auto simp: registry_ok_def persist_api_keeps)
  then show ?thesis
    using fold_update_map_of [of "registrations s" "[]"]
    by (simp add: persist_api_written [OF written] persist_api_keeps)
qed

lemma push_register_persists:
  "push_register L now auth_now w q s = (Inr (), s') \<Longrightarrow> \<exists>s1. persist_api w s1 = (Inr (), s')"
  unfolding push_register_def Let_def by (auto split: sum.splits prod.splits)

lemma push_update_persists:
  "push_update L now auth_now w u s = (Inr (), s') \<Longrightarrow> \<exists>s1. persist_api w s1 = (Inr (), s')"
  unfolding push_update_def Let_def by (auto split: sum.splits prod.splits option.splits if_splits)

lemma push_unregister_persists:
  "push_unregister L auth_now w d s = (Inr (), s') \<Longrightarrow> \<exists>s1. persist_api w s1 = (Inr (), s')"
  unfolding push_unregister_def by (auto split: sum.splits prod.splits option.splits if_splits)

text \<open>
  When the registration, the update or the removal of a device is answered with success, a
  service that starts from the file has the same registrations.
\<close>

theorem push_registry_restart:
  assumes reach: "reachable (push_start L) (push_step L var) s"
    and handled: "(Inr (), s') \<in> {push_register L now auth_now w q s, push_update L now auth_now w u s,
      push_unregister L auth_now w d s}"
  shows "\<exists>s''. push_from_context config apns fcm (registrations_path s') = Ok s'' \<and>
           map_of (registrations s'') = map_of (registrations s')"
proof -
  have inv: "registry_ok L s"
    using reach by (rule push.invariant)
  have ok: "registry_ok L s'"
    using handled push_register_ok [OF inv, of now auth_now w q] push_update_ok [OF inv, of now auth_now w u]
      push_unregister_ok [OF inv, of auth_now w d] by (auto dest: sym [of "(Inr (), s')"])
  obtain s1 where "persist_api w s1 = (Inr (), s')"
    using handled by (auto dest: sym [THEN push_register_persists] sym [THEN push_update_persists]
        sym [THEN push_unregister_persists])
  then show ?thesis
    using persist_registrations_restart [of L w s1] ok by (auto simp: push_from_context_def)
qed

end
