(* ===== verification/Push_Runs.thy ===== *)
theory Push_Runs
  imports Push_Safety
begin

text \<open>
  Runs of the push service: a wallet asks for a challenge and registers a device, an event is sent
  to it, another wallet tries to change it. They are the instances at which the properties of the
  service are applied.
\<close>

section \<open>A small service\<close>

definition example_push_lib :: "(addr_version \<times> bytes) push_lib" where
  "example_push_lib = kaspa_lib.extend example_lib
     (push_lib.fields (\<lambda>s. s) (\<lambda>bs. of_list (take 32 (bs @ replicate 32 0))) (\<lambda>_. None) (\<lambda>_. str ''kaspa:x'')
       (\<lambda>_. None))"

lemma example_push_lib_simps [simp, code]:
  "pl_unicode example_push_lib = (\<lambda>s. s)"
  "pl_sha256 example_push_lib = (\<lambda>bs. of_list (take 32 (bs @ replicate 32 0)))"
  "pl_json_from_slice example_push_lib = (\<lambda>_. None)"
  "pl_address_to_string example_push_lib = (\<lambda>_. str ''kaspa:x'')"
  "pl_decode_apns_error example_push_lib = (\<lambda>_. None)"
  by (simp_all add: example_push_lib_def kaspa_lib.defs push_lib.defs)

definition example_push_config :: push_config where
  "example_push_config = push_config_from_env example_push_lib (\<lambda>_. None)"

definition example_apns_client :: apns_client where
  "example_apns_client = \<lparr>apns_host = str ''https://api.push.apple.com'', apns_topic = str ''com.kbeam.app'',
     apns_token_cache = None\<rparr>"

definition example_push_service :: push_service where
  "example_push_service =
     (case push_from_context example_push_config (Inr example_apns_client) (Err ''disabled'') NoRegistry of
        Inr s \<Rightarrow> s | Inl _ \<Rightarrow> undefined)"

lemma example_push_start:
  "push_from_context example_push_config (Inr example_apns_client) (Err ''disabled'') NoRegistry =
     Ok example_push_service"
  by (simp add: example_push_service_def push_from_context_def)

definition key_a :: rstr where "key_a = replicate 64 97"
definition key_b :: rstr where "key_b = replicate 64 98"

definition example_auth :: "rstr \<Rightarrow> string \<Rightarrow> push_auth_request" where
  "example_auth key name =
     \<lparr>pa_wallet_pubkey = key, pa_wallet_address = str (''kaspa:'' @ name), pa_nonce = str ''n'', pa_timestamp_ms = 1000,
      pa_expires_at_ms = 121000, pa_signature = str ''not a signature''\<rparr>"

definition example_registration :: "rstr \<Rightarrow> string \<Rightarrow> rstr \<Rightarrow> push_registration_request" where
  "example_registration key name device =
     \<lparr>prr_device_token = device, prr_token_type = str ''apns'', prr_platform = str ''ios'', prr_app_bundle_id = None,
      prr_watched_addresses = [], prr_watch_pulse_reply_addresses = [], prr_primary_address = None,
      prr_contextual_routes = [\<lparr>peer_address = str ''kaspa:s'', cr_aliases = [str ''room'', str ''room '']\<rparr>],
      prr_replace_wallet_devices = False, prr_auth = Some (example_auth key name)\<rparr>"

definition challenged :: push_service where
  "challenged = snd (push_create_challenge 1000 (str ''n'') example_push_service)"

definition registered :: "unit api \<times> push_service" where
  "registered = push_register example_push_lib 2000 2000 RegistryWritten
     (example_registration key_a ''a'' key_a) challenged"

lemma example_push_service_eq:
  "example_push_service =
     \<lparr>ps_config = example_push_config, registrations = [], ps_challenges = [], ps_apns_client = Some example_apns_client,
      ps_fcm_client = None, recent_dispatches = [], dispatch_dedupe_ttl_ms = 900000,
      dispatch_counters = \<lparr>dc_events = 0, dc_targets = 0, dc_attempts = 0, dc_sent = 0, dc_invalid = 0,
        dc_failed = 0, dc_deduped = 0\<rparr>, registrations_path = NoRegistry, deliveries = []\<rparr>"
  by (simp add: example_push_service_def push_from_context_def example_push_config_def push_config_from_env_def
      read_env_bool_def)

lemma example_push_config_simps [simp]:
  "pc_challenge_ttl_ms example_push_config = 120000" "pc_challenge_skew_ms example_push_config = 15000"
  "apns_bundle_id example_push_config = None"
  by (simp_all add: example_push_config_def push_config_from_env_def read_env_u64_def read_env_string_def)

lemma challenged_simps [simp]:
  "ps_config challenged = example_push_config" "registrations challenged = []"
  "ps_challenges challenged = [(str ''n'', \<lparr>pce_issued_at_ms = 1000, pce_expires_at_ms = 121000\<rparr>)]"
  by (simp_all add: challenged_def push_create_challenge_def example_push_service_eq Let_def sat_add_def)

lemma letters:
  assumes "is_ascii_lowercase c" "is_ascii_hexdigit c" "0 < n"
  shows "trim (replicate n c) = replicate n c" "to_lowercase u (replicate n c) = replicate n c"
    "is_hex_string (replicate n c)" "byte_len (replicate n c) = n"
proof -
  have c: "97 \<le> c" "c \<le> 122"
    using assms(1) by (simp_all add: is_ascii_lowercase_def)
  then have "is_ascii (replicate n c)"
    by (simp add: is_ascii_def)
  then show "byte_len (replicate n c) = n" "to_lowercase u (replicate n c) = replicate n c"
    using c by (simp_all add: byte_len_ascii to_lowercase_def to_ascii_lowercase_def ascii_lower_def)
  show "trim (replicate n c) = replicate n c"
    using c by (intro trim_fixed) (auto simp: is_whitespace_def)
  show "is_hex_string (replicate n c)"
    using assms by (simp add: is_hex_string_def list_all_iff)
qed

lemma example_keys [simp]:
  "trim key_a = key_a" "to_lowercase (\<lambda>s. s) key_a = key_a" "is_hex_string key_a" "byte_len key_a = 64" "key_a \<noteq> []"
  "trim key_b = key_b" "to_lowercase (\<lambda>s. s) key_b = key_b" "is_hex_string key_b" "byte_len key_b = 64" "key_b \<noteq> []"
  "key_a \<noteq> key_b" "key_b \<noteq> key_a"
  unfolding key_a_def key_b_def
  by (subst letters | simp add: is_ascii_lowercase_def is_ascii_hexdigit_def replicate_eq_replicate)+

lemma example_addresses [simp]:
  "normalize_address example_push_lib (str ''kaspa:a'') = Some (str ''kaspa:a'')"
  "normalize_address example_push_lib (str ''kaspa:b'') = Some (str ''kaspa:b'')"
  "normalize_address example_push_lib (str ''kaspa:s'') = Some (str ''kaspa:s'')"
  by (simp_all add: normalize_address_def nonempty_def text_defs)

lemma example_texts [simp]:
  "trim (str ''n'') = str ''n''" "str ''n'' \<noteq> []" "trim (str ''not a signature'') \<noteq> []"
  by (simp_all add: text_defs)

lemma example_routes:
  "normalize_contextual_routes example_push_lib
     [\<lparr>peer_address = str ''kaspa:s'', cr_aliases = [str ''room'', str ''room '']\<rparr>] =
   [\<lparr>peer_address = str ''kaspa:s'', cr_aliases = [str ''room'']\<rparr>]"
proof -
  have "normalize_aliases [str ''room'', str ''room ''] = [str ''room'']"
    by (simp add: normalize_aliases_def add_new_def text_defs)
  then show ?thesis
    by (simp add: normalize_contextual_routes_def add_route_def add_new_def)
qed

lemma example_validate:
  assumes "key \<in> {key_a, key_b}" "name \<in> {''a'', ''b''}" "ps_config s = example_push_config"
    "ps_challenges s = [(str ''n'', \<lparr>pce_issued_at_ms = 1000, pce_expires_at_ms = 121000\<rparr>)]"
  shows "validate_auth example_push_lib 2000 (Some (example_auth key name)) s =
     (Inr \<lparr>va_wallet_pubkey = key, va_wallet_address = str (''kaspa:'' @ name)\<rparr>, s\<lparr>ps_challenges := []\<rparr>)"
proof -
  show ?thesis
    using assms by (auto simp: validate_auth_def example_auth_def Let_def sat_add_def sat_sub_def)
qed

lemma example_token: "normalize_token_type example_push_lib (str ''apns'') = str ''apns''"
  by (simp add: normalize_token_type_def text_defs)

lemma example_authenticate:
  assumes "key \<in> {key_a, key_b}" "name \<in> {''a'', ''b''}" "device \<in> {key_a, key_b}" "ps_config s = example_push_config"
    "ps_challenges s = [(str ''n'', \<lparr>pce_issued_at_ms = 1000, pce_expires_at_ms = 121000\<rparr>)]"
  shows "authenticate example_push_lib 2000 device (str ''apns'') (Some (example_auth key name)) s =
     (Inr (device, str ''apns'', \<lparr>va_wallet_pubkey = key, va_wallet_address = str (''kaspa:'' @ name)\<rparr>),
      s\<lparr>ps_challenges := []\<rparr>)"
  using assms(3) example_validate [OF assms(1,2,4,5)]
  by (auto simp: authenticate_def example_token normalize_device_token_def validate_token_and_type_def Let_def)

lemma registered_eq:
  "registered = (Inr (), challenged\<lparr>ps_challenges := [],
     registrations := [(key_a, new_registration example_push_lib 2000 2000 key_a (str ''apns'')
        \<lparr>va_wallet_pubkey = key_a, va_wallet_address = str ''kaspa:a''\<rparr> (example_registration key_a ''a'' key_a))],
     registrations_path := RegistrySnapshot [new_registration example_push_lib 2000 2000 key_a (str ''apns'')
        \<lparr>va_wallet_pubkey = key_a, va_wallet_address = str ''kaspa:a''\<rparr> (example_registration key_a ''a'' key_a)]\<rparr>)"
  using example_authenticate [of key_a "''a''" key_a challenged]
  by (simp add: registered_def push_register_def example_registration_def persist_api_def)

section \<open>The properties at work\<close>

lemma challenged_reachable:
  "reachable (push_start example_push_lib) (push_step example_push_lib (\<lambda>_. None)) challenged"
proof -
  have "push_start example_push_lib example_push_service"
    unfolding push_start_def using example_push_start by blast
  then show ?thesis
    unfolding challenged_def by (rule reachable_step [OF reachable_start]) (rule step_challenge)
qed

theorem any_signature_authenticates_witness:
  "fst (validate_auth example_push_lib 2000 (Some (example_auth key_a ''a'')) challenged) =
     Inr \<lparr>va_wallet_pubkey = key_a, va_wallet_address = str ''kaspa:a''\<rparr>"
proof -
  have "push_create_challenge 1000 (str ''n'') example_push_service =
      (\<lparr>pr_nonce = str ''n'', pr_issued_at_ms = 1000, pr_expires_at_ms = 121000\<rparr>, challenged)"
    by (simp add: challenged_def push_create_challenge_def example_push_service_eq Let_def sat_add_def)
  from any_signature_authenticates [OF this, of 2000 example_push_lib key_a "str ''kaspa:a''" "str ''kaspa:a''"
      "str ''not a signature''"]
  show ?thesis
    by (simp add: example_auth_def)
qed

theorem push_registry_well_formed_witness:
  "registry_ok example_push_lib (snd registered) \<and> map fst (registrations (snd registered)) = [key_a]"
proof -
  let ?start = "push_start example_push_lib" and ?step = "push_step example_push_lib (\<lambda>_. None)"
  have "reachable ?start ?step (snd registered)"
    unfolding registered_def by (rule reachable_step [OF challenged_reachable step_register])
  from push_registry_well_formed [OF this] show ?thesis
    by (simp add: registered_eq)
qed

theorem push_registry_restart_witness:
  "\<exists>s. push_from_context example_push_config (Inr example_apns_client) (Err ''disabled'')
         (registrations_path (snd registered)) = Ok s \<and>
       map_of (registrations s) = map_of (registrations (snd registered)) \<and> registrations s \<noteq> []"
proof -
  have "(Inr (), snd registered) = push_register example_push_lib 2000 2000 RegistryWritten
     (example_registration key_a ''a'' key_a) challenged"
    unfolding registered_def [symmetric] by (simp add: registered_eq)
  then have "(Inr (), snd registered) \<in> {push_register example_push_lib 2000 2000 RegistryWritten
     (example_registration key_a ''a'' key_a) challenged, push_update example_push_lib 2000 2000 RegistryWritten
     undefined challenged, push_unregister example_push_lib 2000 RegistryWritten undefined challenged}"
    by blast
  from push_registry_restart [OF challenged_reachable this, of example_push_config "Inr example_apns_client" "Err ''disabled''"]
  obtain s where s: "push_from_context example_push_config (Inr example_apns_client) (Err ''disabled'')
         (registrations_path (snd registered)) = Ok s"
      "map_of (registrations s) = map_of (registrations (snd registered))"
    by blast
  moreover from s(2) have "registrations s \<noteq> []"
    by (auto simp: registered_eq fun_eq_iff split: if_splits)
  ultimately show ?thesis
    by blast
qed

text \<open>Another key authenticates after the registration and names the device of the first.\<close>

definition rechallenged :: push_service where
  "rechallenged = snd (push_create_challenge 1000 (str ''n'') (snd registered))"

definition foreign_update :: push_update_request where
  "foreign_update =
     \<lparr>pur_device_token = key_a, pur_token_type = str ''apns'', pur_app_bundle_id = None, pur_watched_addresses = [],
      pur_watch_pulse_reply_addresses = [], pur_primary_address = None, pur_contextual_routes = [],
      pur_auth = Some (example_auth key_b ''b'')\<rparr>"

definition foreign_removal :: push_unregister_request where
  "foreign_removal =
     \<lparr>pun_device_token = key_a, pun_token_type = str ''apns'', pun_auth = Some (example_auth key_b ''b'')\<rparr>"

theorem foreign_registration_kept_witness:
  "fst (push_update example_push_lib 3000 2000 RegistryWritten foreign_update rechallenged) =
     Inl (unauthorized ''device token is bound to another wallet'') \<and>
   fst (push_unregister example_push_lib 2000 RegistryWritten foreign_removal rechallenged) =
     Inl (unauthorized ''device token is bound to another wallet'') \<and>
   map_of (registrations (snd (push_unregister example_push_lib 2000 RegistryWritten foreign_removal rechallenged))) key_a =
     map_of (registrations (snd registered)) key_a"
proof -
  have s: "ps_config rechallenged = example_push_config"
      "ps_challenges rechallenged = [(str ''n'', \<lparr>pce_issued_at_ms = 1000, pce_expires_at_ms = 121000\<rparr>)]"
      "registrations rechallenged = registrations (snd registered)"
    by (simp_all add: rechallenged_def push_create_challenge_def registered_eq Let_def sat_add_def)
  obtain r where r: "map_of (registrations rechallenged) key_a = Some r" "dr_wallet_pubkey r = key_a"
    by (simp add: s registered_eq new_registration_def Let_def)
  from foreign_registration_kept [OF r(1) example_authenticate [of key_b "''b''" key_a, OF _ _ _ s(1,2)],
      of foreign_update foreign_removal 3000 RegistryWritten]
  show ?thesis
    using r s(3) example_keys(11) by (simp add: foreign_update_def foreign_removal_def)
qed

text \<open>A message from a peer with a route: it goes to the device of the wallet with that route.\<close>

theorem contextual_push_one_wallet_witness:
  "\<exists>r. matching_registrations example_push_lib PushContextual (str ''kaspa:s'') None (Some (str ''room'')) (str ''apns'')
         (snd registered) = [r] \<and> dr_wallet_address r = str ''kaspa:a'' \<and>
       registration_allows_contextual_alias example_push_lib r (str ''kaspa:s'') (str ''room'')"
proof -
  let ?r = "new_registration example_push_lib 2000 2000 key_a (str ''apns'')
        \<lparr>va_wallet_pubkey = key_a, va_wallet_address = str ''kaspa:a''\<rparr> (example_registration key_a ''a'' key_a)"
  let ?m = "matching_registrations example_push_lib PushContextual (str ''kaspa:s'') None (Some (str ''room'')) (str ''apns'')
         (snd registered)"
  have room: "registration_allows_contextual_alias example_push_lib ?r (str ''kaspa:s'') (str ''room'')"
    by (simp add: registration_allows_contextual_alias_def new_registration_def example_registration_def example_routes
        Let_def)
  have "registrations (snd registered) = [(key_a, ?r)]" "apns_bundle_id (ps_config (snd registered)) = None"
    by (simp_all add: registered_eq)
  moreover have "dr_token_type ?r = str ''apns''" "dr_wallet_address ?r = str ''kaspa:a''" "dr_primary_address ?r = None"
    by (simp_all add: new_registration_def example_registration_def normalize_optional_address_def Let_def)
  moreover have "str ''kaspa:a'' \<noteq> str ''kaspa:s''"
    by (simp add: str_def)
  ultimately have m: "?m = [?r]"
    using room by (simp add: matching_registrations_def contextual_wallet_scope_def provider_matches_def event_matches_def
        bundle_matches_def registration_matches_address_def Let_def)
  have "?r \<in> set ?m"
    by (simp add: m)
  then have "registration_allows_contextual_alias example_push_lib ?r (str ''kaspa:s'') (str ''room'')"
    using contextual_push_one_wallet [of example_push_lib "str ''kaspa:s''" None "str ''room''" "snd registered"] by blast
  with m \<open>dr_wallet_address ?r = _\<close> show ?thesis
    by blast
qed

text \<open>The same event twice to a device, the second time when the first is forgotten.\<close>

definition example_net :: "u64 \<Rightarrow> push_net" where
  "example_net t =
     \<lparr>time_of_check = (\<lambda>_. t), time_of_send = (\<lambda>_. t), time_of_mark = (\<lambda>_. t + 10), apns_sign = (\<lambda>_. Ok (str ''jwt'')),
      apns_post = (\<lambda>_ _ _ _. HttpResponse 200 None), fcm_oauth = (\<lambda>_ _. Err ''none''),
      fcm_post = (\<lambda>_ _ _. TransportError), registry_write = RegistryWritten\<rparr>"

definition example_attempts :: "attempt list" where
  "example_attempts = map (\<lambda>t. (example_net t, str ''tx'', ApnsMessage JsonNull PushPayment,
     snd (hd (registrations (snd registered))))) [10, 500, 900021]"


end
