(* ===== verification/Board_Store.thy ===== *)
theory Board_Store
  imports Rust_Text Kv_Store
begin

text \<open>
  The partitions of the board (\<^verbatim>\<open>indexer-db/src/messages/board.rs\<close>): posts by identifier and by
  the time of their creation, the identifiers that clients choose, the replies of a post, and
  reactions, follows and reports under keys of text joined by bars. Values are the encoded records
  of the API. The lower case of text is a parameter.
\<close>

type_synonym uuid = "16 arr"

section \<open>Keys\<close>

record board_post_by_created_at_key =
  bpk_created_at_ms :: u64
  bpk_post_uuid :: uuid

definition bpk_bytes :: "board_post_by_created_at_key \<Rightarrow> bytes" where
  "bpk_bytes k = to_be_bytes (bpk_created_at_ms k) @ list_of (bpk_post_uuid k)"

definition bpk_from_bytes :: "bytes \<Rightarrow> board_post_by_created_at_key option" where
  "bpk_from_bytes bs =
     (if length bs = 24
      then Some \<lparr>bpk_created_at_ms = from_be_bytes (take 8 bs), bpk_post_uuid = of_list (drop 8 bs)\<rparr>
      else None)"

record board_reply_by_parent_created_at_key =
  brk_parent_post_uuid :: uuid
  brk_created_at_ms :: u64
  brk_reply_uuid :: uuid

definition brk_bytes :: "board_reply_by_parent_created_at_key \<Rightarrow> bytes" where
  "brk_bytes k =
     list_of (brk_parent_post_uuid k) @ to_be_bytes (brk_created_at_ms k) @ list_of (brk_reply_uuid k)"

definition brk_from_bytes :: "bytes \<Rightarrow> board_reply_by_parent_created_at_key option" where
  "brk_from_bytes bs =
     (if length bs = 40
      then Some \<lparr>brk_parent_post_uuid = of_list (take 16 bs), brk_created_at_ms = from_be_bytes (take 8 (drop 16 bs)),
        brk_reply_uuid = of_list (drop 24 bs)\<rparr>
      else None)"

section \<open>Posts\<close>

definition board_post_by_id_insert_wtx :: "rstr \<Rightarrow> bytes \<Rightarrow> wtx \<Rightarrow> wtx" where
  "board_post_by_id_insert_wtx post_id json_bytes w = wtx_insert PBoardPostById (utf8 post_id) json_bytes w"

definition board_post_by_id_get_rtx :: "db \<Rightarrow> rstr \<Rightarrow> bytes option" where
  "board_post_by_id_get_rtx rtx post_id = tget (rtx PBoardPostById) (utf8 post_id)"

definition board_post_by_created_at_insert_wtx :: "board_post_by_created_at_key \<Rightarrow> bytes \<Rightarrow> wtx \<Rightarrow> wtx" where
  "board_post_by_created_at_insert_wtx key json_bytes w = wtx_insert PBoardPostByCreatedAt (bpk_bytes key) json_bytes w"

text \<open>The entries with their key as bytes; a key of the wrong size panics when it is used.\<close>

definition board_post_by_created_at_iter_all :: "db \<Rightarrow> (bytes \<times> bytes) list" where
  "board_post_by_created_at_iter_all rtx = items (rtx PBoardPostByCreatedAt)"

definition board_client_generated_id_insert_wtx :: "rstr \<Rightarrow> rstr \<Rightarrow> wtx \<Rightarrow> wtx" where
  "board_client_generated_id_insert_wtx client_generated_id post_id w =
     wtx_insert PBoardClientGeneratedIdToPostId (utf8 client_generated_id) (utf8 post_id) w"

definition board_client_generated_id_get_rtx :: "db \<Rightarrow> rstr \<Rightarrow> bytes option" where
  "board_client_generated_id_get_rtx rtx client_generated_id =
     tget (rtx PBoardClientGeneratedIdToPostId) (utf8 client_generated_id)"

section \<open>Replies\<close>

definition board_reply_insert_wtx :: "board_reply_by_parent_created_at_key \<Rightarrow> wtx \<Rightarrow> wtx" where
  "board_reply_insert_wtx key w = wtx_insert PBoardReplyByParentCreatedAt (brk_bytes key) [] w"

definition get_by_parent_post_id :: "db \<Rightarrow> uuid \<Rightarrow> board_reply_by_parent_created_at_key res list" where
  "get_by_parent_post_id rtx parent_post_uuid =
     map (deref brk_from_bytes \<circ> fst)
       (trange (list_of parent_post_uuid @ replicate 8 0) (list_of parent_post_uuid @ replicate 8 255)
         (rtx PBoardReplyByParentCreatedAt))"

section \<open>Reactions\<close>

abbreviation bar :: rstr where "bar \<equiv> str ''|''"

definition reaction_key :: "(rstr \<Rightarrow> rstr) \<Rightarrow> rstr \<Rightarrow> rstr \<Rightarrow> rstr \<Rightarrow> rstr" where
  "reaction_key unicode post_id actor_address emoji =
     trim post_id @ bar @ to_lowercase unicode (trim actor_address) @ bar @ trim emoji"

definition post_prefix :: "rstr \<Rightarrow> rstr" where
  "post_prefix post_id = trim post_id @ bar"

definition board_reaction_insert_wtx :: "(rstr \<Rightarrow> rstr) \<Rightarrow> rstr \<Rightarrow> rstr \<Rightarrow> rstr \<Rightarrow> wtx \<Rightarrow> wtx" where
  "board_reaction_insert_wtx unicode post_id actor_address emoji w =
     wtx_insert PBoardReactionByPostActorEmoji (utf8 (reaction_key unicode post_id actor_address emoji)) [] w"

definition board_reaction_remove_wtx :: "(rstr \<Rightarrow> rstr) \<Rightarrow> rstr \<Rightarrow> rstr \<Rightarrow> rstr \<Rightarrow> wtx \<Rightarrow> wtx" where
  "board_reaction_remove_wtx unicode post_id actor_address emoji w =
     wtx_remove PBoardReactionByPostActorEmoji (utf8 (reaction_key unicode post_id actor_address emoji)) w"

definition board_reaction_contains_rtx :: "(rstr \<Rightarrow> rstr) \<Rightarrow> db \<Rightarrow> rstr \<Rightarrow> rstr \<Rightarrow> rstr \<Rightarrow> bool" where
  "board_reaction_contains_rtx unicode rtx post_id actor_address emoji \<longleftrightarrow>
     tget (rtx PBoardReactionByPostActorEmoji) (utf8 (reaction_key unicode post_id actor_address emoji)) \<noteq> None"

definition board_reaction_get_by_post_id :: "db \<Rightarrow> rstr \<Rightarrow> bytes list" where
  "board_reaction_get_by_post_id rtx post_id =
     map fst (tprefix (utf8 (post_prefix post_id)) (rtx PBoardReactionByPostActorEmoji))"

section \<open>Follows\<close>

definition follow_key :: "(rstr \<Rightarrow> rstr) \<Rightarrow> rstr \<Rightarrow> rstr \<Rightarrow> rstr" where
  "follow_key unicode first second =
     to_lowercase unicode (trim first) @ bar @ to_lowercase unicode (trim second)"

definition follow_prefix :: "(rstr \<Rightarrow> rstr) \<Rightarrow> rstr \<Rightarrow> rstr" where
  "follow_prefix unicode address = to_lowercase unicode (trim address) @ bar"

definition follow_by_follower_insert_wtx :: "(rstr \<Rightarrow> rstr) \<Rightarrow> rstr \<Rightarrow> rstr \<Rightarrow> bytes \<Rightarrow> wtx \<Rightarrow> wtx" where
  "follow_by_follower_insert_wtx unicode follower target json_bytes w =
     wtx_insert PBoardFollowByFollowerTarget (utf8 (follow_key unicode follower target)) json_bytes w"

definition follow_by_follower_remove_wtx :: "(rstr \<Rightarrow> rstr) \<Rightarrow> rstr \<Rightarrow> rstr \<Rightarrow> wtx \<Rightarrow> wtx" where
  "follow_by_follower_remove_wtx unicode follower target w =
     wtx_remove PBoardFollowByFollowerTarget (utf8 (follow_key unicode follower target)) w"

definition follow_by_follower_contains_rtx :: "(rstr \<Rightarrow> rstr) \<Rightarrow> db \<Rightarrow> rstr \<Rightarrow> rstr \<Rightarrow> bool" where
  "follow_by_follower_contains_rtx unicode rtx follower target \<longleftrightarrow>
     tget (rtx PBoardFollowByFollowerTarget) (utf8 (follow_key unicode follower target)) \<noteq> None"

definition get_by_follower :: "(rstr \<Rightarrow> rstr) \<Rightarrow> db \<Rightarrow> rstr \<Rightarrow> (bytes \<times> bytes) list" where
  "get_by_follower unicode rtx follower =
     tprefix (utf8 (follow_prefix unicode follower)) (rtx PBoardFollowByFollowerTarget)"

definition follow_by_target_insert_wtx :: "(rstr \<Rightarrow> rstr) \<Rightarrow> rstr \<Rightarrow> rstr \<Rightarrow> bytes \<Rightarrow> wtx \<Rightarrow> wtx" where
  "follow_by_target_insert_wtx unicode target follower json_bytes w =
     wtx_insert PBoardFollowByTargetFollower (utf8 (follow_key unicode target follower)) json_bytes w"

definition follow_by_target_remove_wtx :: "(rstr \<Rightarrow> rstr) \<Rightarrow> rstr \<Rightarrow> rstr \<Rightarrow> wtx \<Rightarrow> wtx" where
  "follow_by_target_remove_wtx unicode target follower w =
     wtx_remove PBoardFollowByTargetFollower (utf8 (follow_key unicode target follower)) w"

definition get_by_target :: "(rstr \<Rightarrow> rstr) \<Rightarrow> db \<Rightarrow> rstr \<Rightarrow> (bytes \<times> bytes) list" where
  "get_by_target unicode rtx target =
     tprefix (utf8 (follow_prefix unicode target)) (rtx PBoardFollowByTargetFollower)"

section \<open>Reports\<close>

definition report_key :: "(rstr \<Rightarrow> rstr) \<Rightarrow> rstr \<Rightarrow> rstr \<Rightarrow> rstr" where
  "report_key unicode post_id actor_address = trim post_id @ bar @ to_lowercase unicode (trim actor_address)"

definition board_report_insert_wtx :: "(rstr \<Rightarrow> rstr) \<Rightarrow> rstr \<Rightarrow> rstr \<Rightarrow> bytes \<Rightarrow> wtx \<Rightarrow> wtx" where
  "board_report_insert_wtx unicode post_id actor_address json_bytes w =
     wtx_insert PBoardReportByPostActor (utf8 (report_key unicode post_id actor_address)) json_bytes w"

definition board_report_get_rtx :: "(rstr \<Rightarrow> rstr) \<Rightarrow> db \<Rightarrow> rstr \<Rightarrow> rstr \<Rightarrow> bytes option" where
  "board_report_get_rtx unicode rtx post_id actor_address =
     tget (rtx PBoardReportByPostActor) (utf8 (report_key unicode post_id actor_address))"

definition board_report_get_by_post_id :: "db \<Rightarrow> rstr \<Rightarrow> (bytes \<times> bytes) list" where
  "board_report_get_by_post_id rtx post_id = tprefix (utf8 (post_prefix post_id)) (rtx PBoardReportByPostActor)"

section \<open>Layouts\<close>

lemma length_bpk_bytes [simp]: "length (bpk_bytes k) = 24"
  by (simp add: bpk_bytes_def)

lemma length_brk_bytes [simp]: "length (brk_bytes k) = 40"
  by (simp add: brk_bytes_def)

interpretation bpk: fixed_codec bpk_bytes bpk_from_bytes 24
proof
  fix bs :: bytes and k
  show "bpk_from_bytes (bpk_bytes k) = Some k"
    by (simp add: bpk_from_bytes_def) (simp add: bpk_bytes_def)
  show "bpk_from_bytes bs = Some k \<Longrightarrow> bpk_bytes k = bs"
    using concat_chunks [of "[8]" bs] by (auto simp: bpk_from_bytes_def bpk_bytes_def split: if_splits)
qed (simp_all add: bpk_from_bytes_def)

interpretation brk: time_index brk_bytes brk_from_bytes 40 "\<lambda>k. list_of (brk_parent_post_uuid k)"
  brk_created_at_ms "\<lambda>k. list_of (brk_reply_uuid k)" 16
proof
  fix bs :: bytes and k
  show "brk_from_bytes (brk_bytes k) = Some k"
    by (simp add: brk_from_bytes_def) (simp add: brk_bytes_def)
  show "brk_from_bytes bs = Some k \<Longrightarrow> brk_bytes k = bs"
    using concat_chunks [of "[16, 8]" bs] by (auto simp: brk_from_bytes_def brk_bytes_def split: if_splits)
qed (simp_all add: brk_from_bytes_def brk_bytes_def list_of_nonempty)

end
