(* ===== verification/Board_Data.thy ===== *)
theory Board_Data
  imports Board_Store Addresses Push_Dispatch
begin

text \<open>
  The data of the board (\<^verbatim>\<open>indexer/src/api/board.rs\<close>): requests, stored records and responses, the
  texts and times of the handlers, and the checks of a request with its signature. The crates for
  addresses, signatures, times, identifiers, JSON and URLs are parameters.
\<close>

section \<open>Requests and records\<close>

record board_attachment_payload =
  bat_id :: rstr
  bat_sort_index :: int
  bat_kind :: rstr
  bat_relay_file_id :: rstr
  bat_relay_download_url :: rstr
  bat_download_url :: rstr
  bat_mime_type :: rstr
  bat_file_name :: rstr
  bat_file_extension :: rstr
  bat_size_bytes :: "int option"
  bat_thumbnail_url :: "rstr option"
  bat_width :: "int option"
  bat_height :: "int option"
  bat_duration_ms :: "int option"
  bat_relay_profile_id :: "rstr option"
  bat_relay_access_owner :: "rstr option"
  bat_key :: rstr
  bat_sha256 :: rstr

record board_create_post_request =
  bcp_author_address :: rstr
  bcp_author_display_name :: rstr
  bcp_content_text :: rstr
  bcp_attachments :: "board_attachment_payload list"
  bcp_reply_to_post_id :: "rstr option"
  bcp_primary_link_url :: "rstr option"
  bcp_created_at :: rstr
  bcp_client_generated_id :: rstr
  bcp_signature :: rstr
  bcp_network :: rstr

record board_create_reaction_request =
  bcr_actor_address :: rstr
  bcr_emoji :: rstr
  bcr_created_at :: rstr
  bcr_client_generated_id :: rstr
  bcr_signature :: rstr
  bcr_network :: rstr

record board_create_follow_request =
  bcf_actor_address :: rstr
  bcf_actor_display_name :: rstr
  bcf_actor_avatar_url :: "rstr option"
  bcf_actor_avatar_file_id :: "rstr option"
  bcf_actor_avatar_file_extension :: "rstr option"
  bcf_target_address :: rstr
  bcf_target_display_name :: rstr
  bcf_target_avatar_url :: "rstr option"
  bcf_target_avatar_file_id :: "rstr option"
  bcf_target_avatar_file_extension :: "rstr option"
  bcf_follow :: bool
  bcf_created_at :: rstr
  bcf_client_generated_id :: rstr
  bcf_signature :: rstr
  bcf_network :: rstr

record board_create_report_request =
  bcx_actor_address :: rstr
  bcx_reason :: rstr
  bcx_created_at :: rstr
  bcx_client_generated_id :: rstr
  bcx_signature :: rstr
  bcx_network :: rstr

record board_author_response =
  bau_address :: rstr
  bau_display_name :: rstr
  bau_avatar_url :: "rstr option"
  bau_avatar_file_id :: "rstr option"
  bau_avatar_file_extension :: "rstr option"

record board_link_preview_response =
  blp_url :: rstr
  blp_title :: "rstr option"
  blp_subtitle :: "rstr option"
  blp_image_url :: "rstr option"

record board_reaction_summary_response =
  brs_emoji :: rstr
  brs_count :: int
  brs_includes_current_user :: bool

record board_post_response =
  bp_id :: rstr
  bp_author :: board_author_response
  bp_content_text :: rstr
  bp_attachments :: "board_attachment_payload list"
  bp_reply_to_post_id :: "rstr option"
  bp_primary_link_url :: "rstr option"
  bp_link_preview :: "board_link_preview_response option"
  bp_created_at :: rstr
  bp_expires_at :: "rstr option"
  bp_reply_count :: int
  bp_reaction_count :: int
  bp_visibility_state :: rstr
  bp_moderation_state :: rstr
  bp_revision_token :: "rstr option"
  bp_updated_at :: "rstr option"

record stored_board_follow_record =
  sbf_actor :: board_author_response
  sbf_target :: board_author_response
  sbf_created_at :: rstr

record stored_board_report_record =
  sbr_actor_address :: rstr
  sbr_reason :: rstr
  sbr_created_at :: rstr
  sbr_client_generated_id :: rstr

record board_post_detail_response =
  bd_post :: board_post_response
  bd_replies :: "board_post_response list"
  bd_reactions :: "board_reaction_summary_response list"
  bd_server_time :: rstr

record board_feed_response =
  bf_items :: "board_post_response list"
  bf_next_cursor :: "rstr option"
  bf_server_time :: rstr
  bf_feed_revision :: "rstr option"
  bf_page_digest :: "rstr option"
  bf_supports_changes_since_revision :: bool

record board_feed_change_response =
  bfc_operation :: rstr
  bfc_post_id :: rstr
  bfc_post :: "board_post_response option"

record board_feed_changes_response =
  bfcs_base_revision :: rstr
  bfcs_target_revision :: rstr
  bfcs_next_cursor :: "rstr option"
  bfcs_server_time :: rstr
  bfcs_requires_full_reload :: bool
  bfcs_changes :: "board_feed_change_response list"

record board_profile_connections_response =
  bpc_address :: rstr
  bpc_following :: "board_author_response list"
  bpc_followers :: "board_author_response list"
  bpc_following_count :: int
  bpc_follower_count :: int
  bpc_viewer_follows_author :: bool
  bpc_server_time :: rstr

record board_follow_mutation_response =
  bfm_target_address :: rstr
  bfm_actor_address :: rstr
  bfm_is_following :: bool
  bfm_following_count :: int
  bfm_follower_count :: int
  bfm_server_time :: rstr

record board_report_mutation_response =
  brm_post_id :: rstr
  brm_actor_address :: rstr
  brm_report_count :: int
  brm_moderation_state :: rstr
  brm_server_time :: rstr

section \<open>What the crates offer\<close>

text \<open>
  Encoding a record as JSON cannot fail; decoding can. A time is a value of the time crate; adding
  days is out of range for the last representable ones, which panics.
\<close>

record ('addr, 'time) board_lib = "'addr kaspa_lib" +
  bl_unicode :: "rstr \<Rightarrow> rstr"
  bl_sha256 :: "bytes \<Rightarrow> hash"
  bl_rpc_address :: "rstr \<Rightarrow> 'addr option"
  bl_hex_decode :: "bytes \<Rightarrow> bytes option"
  bl_xonly_public_key :: "bytes \<Rightarrow> bool"
  bl_schnorr_signature :: "bytes \<Rightarrow> bool"
  bl_schnorrsig_verify :: "bytes \<Rightarrow> bytes \<Rightarrow> bytes \<Rightarrow> bool"
  bl_parse_time :: "rstr \<Rightarrow> 'time option"
  bl_format_time :: "'time \<Rightarrow> rstr option"
  bl_unix_timestamp_nanos :: "'time \<Rightarrow> int"
  bl_plus_days :: "'time \<Rightarrow> int \<Rightarrow> 'time option"
  bl_uuid_string :: "uuid \<Rightarrow> rstr"
  bl_parse_uuid :: "rstr \<Rightarrow> uuid option"
  bl_json_to_vec :: "json \<Rightarrow> bytes"
  bl_post_to_vec :: "board_post_response \<Rightarrow> bytes"
  bl_post_from_slice :: "bytes \<Rightarrow> board_post_response option"
  bl_follow_to_vec :: "stored_board_follow_record \<Rightarrow> bytes"
  bl_follow_from_slice :: "bytes \<Rightarrow> stored_board_follow_record option"
  bl_report_to_vec :: "stored_board_report_record \<Rightarrow> bytes"
  bl_url_parse :: "rstr \<Rightarrow> (rstr option \<times> rstr) option"
  bl_header_value :: "rstr \<Rightarrow> bool"

section \<open>Errors\<close>

text \<open>The status of a failure depends on its text, so that the text is kept.\<close>

datatype board_error = BoardError rstr | BoardPanic

type_synonym 'a board = "board_error + 'a"

abbreviation bail :: "string \<Rightarrow> 'a board" where
  "bail text \<equiv> Inl (BoardError (str text))"

definition board_of :: "'a res \<Rightarrow> rstr \<Rightarrow> 'a board" where
  "board_of m text = (case m of Inr x \<Rightarrow> Inr x | Inl (Failure _) \<Rightarrow> Inl (BoardError text) | Inl (Panic _) \<Rightarrow> Inl BoardPanic)"

section \<open>Text\<close>

definition normalized_optional :: "rstr option \<Rightarrow> rstr option" where
  "normalized_optional v = Option.bind v (\<lambda>t. nonempty (trim t))"

definition normalized_or_fallback :: "rstr \<Rightarrow> rstr \<Rightarrow> rstr" where
  "normalized_or_fallback v fallback = (if trim v = [] then trim fallback else trim v)"

definition strip_text :: "rstr \<Rightarrow> rstr \<Rightarrow> rstr option" where
  "strip_text p s = (if prefix p s then Some (drop (length p) s) else None)"

definition trim_matches :: "rchar \<Rightarrow> rstr \<Rightarrow> rstr" where
  "trim_matches c s = rev (dropWhile ((=) c) (rev (dropWhile ((=) c) s)))"

definition display_url :: "rstr \<Rightarrow> rstr" where
  "display_url url =
     (case strip_text (str ''https://'') url of
        Some t \<Rightarrow> t
      | None \<Rightarrow> (case strip_text (str ''http://'') url of Some t \<Rightarrow> t | None \<Rightarrow> url))"

definition build_link_preview ::
    "('addr, 'time, 'x) board_lib_scheme \<Rightarrow> rstr option \<Rightarrow> board_link_preview_response option" where
  "build_link_preview L primary_link_url =
     (case primary_link_url of
        None \<Rightarrow> None
      | Some link \<Rightarrow>
          let url = trim link; parsed = bl_url_parse L url in
          if url = [] then None
          else Some \<lparr>blp_url = url, blp_title = Option.bind parsed fst,
                     blp_subtitle = Some (case parsed of Some (_, text) \<Rightarrow> display_url text | None \<Rightarrow> url),
                     blp_image_url = None\<rparr>)"

section \<open>Times\<close>

definition timestamp_string :: "('addr, 'time, 'x) board_lib_scheme \<Rightarrow> 'time \<Rightarrow> rstr board" where
  "timestamp_string L t = ok_or (BoardError (str ''format RFC3339 timestamp'')) (bl_format_time L t)"

text \<open>The division of integers rounds towards zero.\<close>

definition millis_of_nanos :: "int \<Rightarrow> int" where
  "millis_of_nanos n = (if n < 0 then - (- n div 1000000) else n div 1000000)"

definition parse_timestamp_ms :: "('addr, 'time, 'x) board_lib_scheme \<Rightarrow> rstr \<Rightarrow> u64 board" where
  "parse_timestamp_ms L v =
     (case bl_parse_time L (trim v) of
        None \<Rightarrow> bail ''invalid RFC3339 timestamp''
      | Some t \<Rightarrow>
          let millis = millis_of_nanos (bl_unix_timestamp_nanos L t) in
          if 0 \<le> millis \<and> millis < 2 ^ 64 then Inr (word_of_int millis)
          else bail ''timestamp must be >= unix epoch'')"

definition parse_requested_created_at :: "('addr, 'time, 'x) board_lib_scheme \<Rightarrow> 'time \<Rightarrow> rstr \<Rightarrow> 'time" where
  "parse_requested_created_at L now v =
     (case bl_parse_time L (trim v) of Some t \<Rightarrow> t | None \<Rightarrow> now)"

section \<open>Signed payloads\<close>

fun json_option :: "('a \<Rightarrow> json) \<Rightarrow> 'a option \<Rightarrow> json" where
  "json_option f None = JsonNull"
| "json_option f (Some x) = f x"

definition json_int :: "int \<Rightarrow> json" where
  "json_int i = JsonNumber (if 0 \<le> i then PosInt (word_of_int i) else NegInt i)"

definition json_fields :: "(string \<times> json) list \<Rightarrow> json" where
  "json_fields kvs = JsonObject (map (\<lambda>(k, v). (str k, v)) kvs)"

definition attachment_json :: "board_attachment_payload \<Rightarrow> json" where
  "attachment_json a = json_fields
     [(''id'', JsonString (bat_id a)), (''sortIndex'', json_int (bat_sort_index a)), (''type'', JsonString (bat_kind a)),
      (''relayFileId'', JsonString (bat_relay_file_id a)), (''relayDownloadUrl'', JsonString (bat_relay_download_url a)),
      (''downloadUrl'', JsonString (bat_download_url a)), (''mimeType'', JsonString (bat_mime_type a)),
      (''fileName'', JsonString (bat_file_name a)), (''fileExtension'', JsonString (bat_file_extension a)),
      (''sizeBytes'', json_option json_int (bat_size_bytes a)),
      (''thumbnailUrl'', json_option JsonString (bat_thumbnail_url a)),
      (''width'', json_option json_int (bat_width a)), (''height'', json_option json_int (bat_height a)),
      (''durationMs'', json_option json_int (bat_duration_ms a)),
      (''relayProfileId'', json_option JsonString (bat_relay_profile_id a)),
      (''relayAccessOwner'', json_option JsonString (bat_relay_access_owner a)),
      (''key'', JsonString (bat_key a)), (''sha256'', JsonString (bat_sha256 a))]"

definition post_signable :: "board_create_post_request \<Rightarrow> json" where
  "post_signable r = json_fields
     [(''authorAddress'', JsonString (bcp_author_address r)), (''authorDisplayName'', JsonString (bcp_author_display_name r)),
      (''contentText'', JsonString (bcp_content_text r)),
      (''attachments'', JsonArray (map attachment_json (bcp_attachments r))),
      (''replyToPostId'', json_option JsonString (bcp_reply_to_post_id r)),
      (''primaryLinkUrl'', json_option JsonString (bcp_primary_link_url r)),
      (''createdAt'', JsonString (bcp_created_at r)), (''clientGeneratedId'', JsonString (bcp_client_generated_id r)),
      (''network'', JsonString (bcp_network r))]"

definition reaction_signable :: "board_create_reaction_request \<Rightarrow> json" where
  "reaction_signable r = json_fields
     [(''actorAddress'', JsonString (bcr_actor_address r)), (''emoji'', JsonString (bcr_emoji r)),
      (''createdAt'', JsonString (bcr_created_at r)), (''clientGeneratedId'', JsonString (bcr_client_generated_id r)),
      (''network'', JsonString (bcr_network r))]"

definition follow_signable :: "board_create_follow_request \<Rightarrow> json" where
  "follow_signable r = json_fields
     [(''actorAddress'', JsonString (bcf_actor_address r)), (''actorDisplayName'', JsonString (bcf_actor_display_name r)),
      (''actorAvatarUrl'', json_option JsonString (bcf_actor_avatar_url r)),
      (''actorAvatarFileId'', json_option JsonString (bcf_actor_avatar_file_id r)),
      (''actorAvatarFileExtension'', json_option JsonString (bcf_actor_avatar_file_extension r)),
      (''targetAddress'', JsonString (bcf_target_address r)), (''targetDisplayName'', JsonString (bcf_target_display_name r)),
      (''targetAvatarUrl'', json_option JsonString (bcf_target_avatar_url r)),
      (''targetAvatarFileId'', json_option JsonString (bcf_target_avatar_file_id r)),
      (''targetAvatarFileExtension'', json_option JsonString (bcf_target_avatar_file_extension r)),
      (''follow'', JsonBool (bcf_follow r)), (''createdAt'', JsonString (bcf_created_at r)),
      (''clientGeneratedId'', JsonString (bcf_client_generated_id r)), (''network'', JsonString (bcf_network r))]"

definition report_signable :: "board_create_report_request \<Rightarrow> json" where
  "report_signable r = json_fields
     [(''actorAddress'', JsonString (bcx_actor_address r)), (''reason'', JsonString (bcx_reason r)),
      (''createdAt'', JsonString (bcx_created_at r)), (''clientGeneratedId'', JsonString (bcx_client_generated_id r)),
      (''network'', JsonString (bcx_network r))]"

primrec recursively_sorted_json :: "json \<Rightarrow> json" where
  "recursively_sorted_json JsonNull = JsonNull"
| "recursively_sorted_json (JsonBool b) = JsonBool b"
| "recursively_sorted_json (JsonNumber n) = JsonNumber n"
| "recursively_sorted_json (JsonString s) = JsonString s"
| "recursively_sorted_json (JsonArray vs) = JsonArray (map recursively_sorted_json vs)"
| "recursively_sorted_json (JsonObject m) = JsonObject (sort_key fst (map (map_prod id recursively_sorted_json) m))"

definition canonical_json_bytes :: "('addr, 'time, 'x) board_lib_scheme \<Rightarrow> json \<Rightarrow> bytes" where
  "canonical_json_bytes L v = bl_json_to_vec L (recursively_sorted_json v)"

definition decode_fixed_hex ::
    "('addr, 'time, 'x) board_lib_scheme \<Rightarrow> nat \<Rightarrow> rstr \<Rightarrow> string \<Rightarrow> bytes board" where
  "decode_fixed_hex L n v label =
     (let hex_text = trim v in
      if byte_len hex_text \<noteq> n * 2
      then Inl (BoardError (str label @ str '' must be '' @ decimal (n * 2) @ str '' hex characters''))
      else ok_or (BoardError (str ''decode '' @ str label @ str '' hex'')) (bl_hex_decode L (utf8 hex_text)))"

definition actor_payload ::
    "('addr, 'time, 'x) board_lib_scheme \<Rightarrow> rstr \<Rightarrow> rstr \<Rightarrow> address_payload board" where
  "actor_payload L field_name address_text =
     abind (ok_or (BoardError (field_name @ str '' is not a valid Kaspa address'')) (bl_rpc_address L address_text))
       (\<lambda>rpc_address. board_of (address_payload_from_address L rpc_address) (field_name @ str '' payload is invalid''))"

definition validate_board_actor_address ::
    "('addr, 'time, 'x) board_lib_scheme \<Rightarrow> string \<Rightarrow> rstr \<Rightarrow> unit board" where
  "validate_board_actor_address L field_name address =
     (if trim address = [] then Inl (BoardError (str field_name @ str '' is required''))
      else abind (actor_payload L (str field_name) (trim address)) (\<lambda>_. Inr ()))"

definition verify_board_signature ::
    "('addr, 'time, 'x) board_lib_scheme \<Rightarrow> rstr \<Rightarrow> bytes \<Rightarrow> rstr \<Rightarrow> unit board" where
  "verify_board_signature L address message_bytes signature_hex =
     abind (actor_payload L (trim address) (trim address)) (\<lambda>p.
     abind (ok_or (BoardError (str ''unsupported Kaspa address version for Pulse signature verification''))
              (version_try_from L (255 - inverse_version p))) (\<lambda>version.
     abind (require (version = PubKey)
              (BoardError (str ''Pulse signature verification currently requires a Schnorr public-key address''))) (\<lambda>_.
     let pubkey = take 32 (list_of (payload p)) in
     abind (require (bl_xonly_public_key L pubkey)
              (BoardError (str ''failed to parse x-only public key from Kaspa address''))) (\<lambda>_.
     abind (decode_fixed_hex L 64 (trim signature_hex) ''signature'') (\<lambda>signature_bytes.
     abind (require (bl_schnorr_signature L signature_bytes)
              (BoardError (str ''failed to parse Schnorr signature''))) (\<lambda>_.
     if bl_schnorrsig_verify L signature_bytes message_bytes pubkey then Inr ()
     else bail ''signature verification failed''))))))"

definition validate_network :: "('addr, 'time, 'x) board_lib_scheme \<Rightarrow> bool \<Rightarrow> rstr \<Rightarrow> unit board" where
  "validate_network L mainnet network_text =
     (let network = to_lowercase (bl_unicode L) (trim network_text);
          expected = str (if mainnet then ''mainnet'' else ''testnet'')
      in if network \<noteq> expected
         then Inl (BoardError (str ''network mismatch: expected '' @ expected @ str '', got '' @ trim network_text))
         else Inr ())"

section \<open>Checks of a request\<close>

definition validate_create_post_request ::
    "('addr, 'time, 'x) board_lib_scheme \<Rightarrow> bool \<Rightarrow> board_create_post_request \<Rightarrow> rstr option \<Rightarrow> unit board" where
  "validate_create_post_request L mainnet request forced_reply_to_post_id =
     abind (validate_board_actor_address L ''authorAddress'' (bcp_author_address request)) (\<lambda>_.
     if trim (bcp_signature request) = [] then bail ''signature is required''
     else abind (validate_network L mainnet (bcp_network request)) (\<lambda>_.
     if trim (bcp_content_text request) = [] \<and> normalized_optional (bcp_primary_link_url request) = None \<and>
        bcp_attachments request = []
     then bail ''post must include text, a link, or an attachment''
     else if trim (bcp_client_generated_id request) = [] then bail ''clientGeneratedId is required''
     else if 10000 < length (bcp_content_text request) then bail ''contentText is too long''
     else if 8 < length (bcp_attachments request) then bail ''too many attachments''
     else abind (case (normalized_optional forced_reply_to_post_id, normalized_optional (bcp_reply_to_post_id request)) of
            (Some forced_parent_id, Some request_parent_id) \<Rightarrow>
              if forced_parent_id \<noteq> request_parent_id
              then bail ''replyToPostId does not match the target board post'' else Inr ()
          | (None, Some _) \<Rightarrow> bail ''use /board/posts/:post_id/replies for replies''
          | _ \<Rightarrow> Inr ()) (\<lambda>_.
     verify_board_signature L (bcp_author_address request) (canonical_json_bytes L (post_signable request))
       (bcp_signature request))))"

definition validate_create_reaction_request ::
    "('addr, 'time, 'x) board_lib_scheme \<Rightarrow> bool \<Rightarrow> board_create_reaction_request \<Rightarrow> unit board" where
  "validate_create_reaction_request L mainnet request =
     abind (validate_board_actor_address L ''actorAddress'' (bcr_actor_address request)) (\<lambda>_.
     if trim (bcr_signature request) = [] then bail ''signature is required''
     else if trim (bcr_client_generated_id request) = [] then bail ''clientGeneratedId is required''
     else if trim (bcr_emoji request) = [] then bail ''emoji is required''
     else if 16 < length (trim (bcr_emoji request)) then bail ''emoji is too long''
     else abind (validate_network L mainnet (bcr_network request)) (\<lambda>_.
     verify_board_signature L (bcr_actor_address request) (canonical_json_bytes L (reaction_signable request))
       (bcr_signature request)))"

definition validate_create_follow_request ::
    "('addr, 'time, 'x) board_lib_scheme \<Rightarrow> bool \<Rightarrow> board_create_follow_request \<Rightarrow> rstr \<Rightarrow> unit board" where
  "validate_create_follow_request L mainnet request path_target_address =
     abind (validate_board_actor_address L ''actorAddress'' (bcf_actor_address request)) (\<lambda>_.
     abind (validate_board_actor_address L ''targetAddress'' (bcf_target_address request)) (\<lambda>_.
     abind (validate_board_actor_address L ''pathTargetAddress'' path_target_address) (\<lambda>_.
     let lower = (\<lambda>t. to_lowercase (bl_unicode L) (trim t)) in
     if lower (bcf_target_address request) \<noteq> lower path_target_address
     then bail ''targetAddress does not match the target board profile''
     else if lower (bcf_actor_address request) = lower (bcf_target_address request)
     then bail ''you cannot follow yourself''
     else if trim (bcf_signature request) = [] then bail ''signature is required''
     else if trim (bcf_client_generated_id request) = [] then bail ''clientGeneratedId is required''
     else abind (validate_network L mainnet (bcf_network request)) (\<lambda>_.
     verify_board_signature L (bcf_actor_address request) (canonical_json_bytes L (follow_signable request))
       (bcf_signature request)))))"

definition validate_create_report_request ::
    "('addr, 'time, 'x) board_lib_scheme \<Rightarrow> bool \<Rightarrow> board_create_report_request \<Rightarrow> unit board" where
  "validate_create_report_request L mainnet request =
     abind (validate_board_actor_address L ''actorAddress'' (bcx_actor_address request)) (\<lambda>_.
     if trim (bcx_signature request) = [] then bail ''signature is required''
     else if trim (bcx_client_generated_id request) = [] then bail ''clientGeneratedId is required''
     else if 120 < length (trim (bcx_reason request)) then bail ''reason is too long''
     else abind (validate_network L mainnet (bcx_network request)) (\<lambda>_.
     verify_board_signature L (bcx_actor_address request) (canonical_json_bytes L (report_signable request))
       (bcx_signature request)))"

section \<open>The status of an error\<close>

definition contains_text :: "rstr \<Rightarrow> rstr \<Rightarrow> bool" where
  "contains_text s pat \<longleftrightarrow> find_str pat s \<noteq> None"

definition status_for_board_error ::
    "('addr, 'time, 'x) board_lib_scheme \<Rightarrow> board_error \<Rightarrow> bool \<Rightarrow> status_code \<times> rstr" where
  "status_for_board_error L error allow_conflict =
     (case error of
        BoardPanic \<Rightarrow> (InternalServerError, str ''Task error'')
      | BoardError text \<Rightarrow>
          let lowered = to_lowercase (bl_unicode L) text in
          (if allow_conflict \<and> contains_text lowered (str ''write conflict'') then Conflict
           else if contains_text lowered (str ''not found'') then NotFound
           else BadRequest, text))"

end
