(* ===== verification/Board_Codec.thy ===== *)
theory Board_Codec
  imports Board_Data
begin

text \<open>
  A format for the stored records of the board that can be read back, an instance of what the JSON
  crate promises.
\<close>

section \<open>A format for records\<close>

type_synonym 'a codec = "('a \<Rightarrow> nat list) \<times> (nat list \<Rightarrow> ('a \<times> nat list) option)"

definition codec_ok :: "'a codec \<Rightarrow> bool" where
  "codec_ok c \<longleftrightarrow> (\<forall>x r. snd c (fst c x @ r) = Some (x, r))"

definition nat_codec :: "nat codec" where
  "nat_codec = (\<lambda>n. [n], \<lambda>ts. case ts of [] \<Rightarrow> None | n # r \<Rightarrow> Some (n, r))"

definition pair_codec :: "'a codec \<Rightarrow> 'b codec \<Rightarrow> ('a \<times> 'b) codec" where
  "pair_codec a b = (\<lambda>(x, y). fst a x @ fst b y,
     \<lambda>ts. Option.bind (snd a ts) (\<lambda>(x, r). map_option (\<lambda>(y, r'). ((x, y), r')) (snd b r)))"

definition iso_codec :: "('a \<Rightarrow> 'b) \<Rightarrow> ('b \<Rightarrow> 'a) \<Rightarrow> 'b codec \<Rightarrow> 'a codec" where
  "iso_codec f g c = (\<lambda>x. fst c (f x), \<lambda>ts. map_option (map_prod g id) (snd c ts))"

definition option_codec :: "'a codec \<Rightarrow> 'a option codec" where
  "option_codec c = (\<lambda>x. case x of None \<Rightarrow> [0] | Some y \<Rightarrow> 1 # fst c y,
     \<lambda>ts. case ts of [] \<Rightarrow> None
       | n # r \<Rightarrow> if n = 0 then Some (None, r) else map_option (map_prod Some id) (snd c r))"

primrec read_list :: "'a codec \<Rightarrow> nat \<Rightarrow> nat list \<Rightarrow> ('a list \<times> nat list) option" where
  "read_list c 0 ts = Some ([], ts)"
| "read_list c (Suc n) ts =
     Option.bind (snd c ts) (\<lambda>(x, r). map_option (\<lambda>(xs, r'). (x # xs, r')) (read_list c n r))"

definition list_codec :: "'a codec \<Rightarrow> 'a list codec" where
  "list_codec c = (\<lambda>xs. length xs # concat (map (fst c) xs),
     \<lambda>ts. case ts of [] \<Rightarrow> None | n # r \<Rightarrow> read_list c n r)"

lemma codec_ok_intros:
  "codec_ok nat_codec"
  "codec_ok a \<Longrightarrow> codec_ok b \<Longrightarrow> codec_ok (pair_codec a b)"
  "codec_ok c \<Longrightarrow> (\<And>x. g (f x) = x) \<Longrightarrow> codec_ok (iso_codec f g c)"
  "codec_ok c \<Longrightarrow> codec_ok (option_codec c)"
  by (auto simp: codec_ok_def nat_codec_def pair_codec_def iso_codec_def option_codec_def split: option.split)

lemma codec_ok_list: "codec_ok c \<Longrightarrow> codec_ok (list_codec c)"
proof -
  assume "codec_ok c"
  then have "read_list c (length xs) (concat (map (fst c) xs) @ r) = Some (xs, r)" for xs r
    by (induction xs) (simp_all add: codec_ok_def)
  then show "codec_ok (list_codec c)"
    by (simp add: codec_ok_def list_codec_def)
qed

definition text_codec :: "rstr codec" where "text_codec = list_codec nat_codec"

definition int_codec :: "int codec" where
  "int_codec = iso_codec (\<lambda>i. (if i < 0 then 1 else 0, nat \<bar>i\<bar>)) (\<lambda>(s, n). if s = 0 then int n else - int n)
     (pair_codec nat_codec nat_codec)"

definition author_codec :: "board_author_response codec" where
  "author_codec = iso_codec
     (\<lambda>a. (bau_address a, bau_display_name a, bau_avatar_url a, bau_avatar_file_id a, bau_avatar_file_extension a))
     (\<lambda>(a, b, c, d, e). \<lparr>bau_address = a, bau_display_name = b, bau_avatar_url = c, bau_avatar_file_id = d,
        bau_avatar_file_extension = e\<rparr>)
     (pair_codec text_codec (pair_codec text_codec (pair_codec (option_codec text_codec)
       (pair_codec (option_codec text_codec) (option_codec text_codec)))))"

definition preview_codec :: "board_link_preview_response codec" where
  "preview_codec = iso_codec (\<lambda>p. (blp_url p, blp_title p, blp_subtitle p, blp_image_url p))
     (\<lambda>(a, b, c, d). \<lparr>blp_url = a, blp_title = b, blp_subtitle = c, blp_image_url = d\<rparr>)
     (pair_codec text_codec (pair_codec (option_codec text_codec)
       (pair_codec (option_codec text_codec) (option_codec text_codec))))"

definition attachment_codec :: "board_attachment_payload codec" where
  "attachment_codec = iso_codec
     (\<lambda>a. (bat_id a, bat_sort_index a, bat_kind a, bat_relay_file_id a, bat_relay_download_url a, bat_download_url a,
        bat_mime_type a, bat_file_name a, bat_file_extension a, bat_size_bytes a, bat_thumbnail_url a, bat_width a,
        bat_height a, bat_duration_ms a, bat_relay_profile_id a, bat_relay_access_owner a, bat_key a, bat_sha256 a))
     (\<lambda>(a, b, c, d, e, f, g, h, i, j, k, l, m, n, p, q, r, s).
        \<lparr>bat_id = a, bat_sort_index = b, bat_kind = c, bat_relay_file_id = d, bat_relay_download_url = e,
         bat_download_url = f, bat_mime_type = g, bat_file_name = h, bat_file_extension = i, bat_size_bytes = j,
         bat_thumbnail_url = k, bat_width = l, bat_height = m, bat_duration_ms = n, bat_relay_profile_id = p,
         bat_relay_access_owner = q, bat_key = r, bat_sha256 = s\<rparr>)
     (pair_codec text_codec (pair_codec int_codec (pair_codec text_codec (pair_codec text_codec (pair_codec text_codec
     (pair_codec text_codec (pair_codec text_codec (pair_codec text_codec (pair_codec text_codec
     (pair_codec (option_codec int_codec) (pair_codec (option_codec text_codec) (pair_codec (option_codec int_codec)
     (pair_codec (option_codec int_codec) (pair_codec (option_codec int_codec) (pair_codec (option_codec text_codec)
     (pair_codec (option_codec text_codec) (pair_codec text_codec text_codec)))))))))))))))))"

definition post_codec :: "board_post_response codec" where
  "post_codec = iso_codec
     (\<lambda>p. (bp_id p, bp_author p, bp_content_text p, bp_attachments p, bp_reply_to_post_id p, bp_primary_link_url p,
        bp_link_preview p, bp_created_at p, bp_expires_at p, bp_reply_count p, bp_reaction_count p, bp_visibility_state p,
        bp_moderation_state p, bp_revision_token p, bp_updated_at p))
     (\<lambda>(a, b, c, d, e, f, g, h, i, j, k, l, m, n, p).
        \<lparr>bp_id = a, bp_author = b, bp_content_text = c, bp_attachments = d, bp_reply_to_post_id = e,
         bp_primary_link_url = f, bp_link_preview = g, bp_created_at = h, bp_expires_at = i, bp_reply_count = j,
         bp_reaction_count = k, bp_visibility_state = l, bp_moderation_state = m, bp_revision_token = n, bp_updated_at = p\<rparr>)
     (pair_codec text_codec (pair_codec author_codec (pair_codec text_codec (pair_codec (list_codec attachment_codec)
     (pair_codec (option_codec text_codec) (pair_codec (option_codec text_codec) (pair_codec (option_codec preview_codec)
     (pair_codec text_codec (pair_codec (option_codec text_codec) (pair_codec int_codec (pair_codec int_codec
     (pair_codec text_codec (pair_codec text_codec (pair_codec (option_codec text_codec) (option_codec text_codec)))))))))))))))"

definition follow_codec :: "stored_board_follow_record codec" where
  "follow_codec = iso_codec (\<lambda>f. (sbf_actor f, sbf_target f, sbf_created_at f))
     (\<lambda>(a, b, c). \<lparr>sbf_actor = a, sbf_target = b, sbf_created_at = c\<rparr>)
     (pair_codec author_codec (pair_codec author_codec text_codec))"

lemma codecs_ok: "codec_ok post_codec" "codec_ok follow_codec"
proof -
  have t: "codec_ok text_codec"
    unfolding text_codec_def by (intro codec_ok_list codec_ok_intros)
  have i: "codec_ok int_codec"
    unfolding int_codec_def by (intro codec_ok_intros) simp
  have author: "codec_ok author_codec"
    unfolding author_codec_def by (intro codec_ok_intros t) simp
  have preview: "codec_ok preview_codec"
    unfolding preview_codec_def by (intro codec_ok_intros t) simp
  have attachment: "codec_ok attachment_codec"
    unfolding attachment_codec_def by (intro codec_ok_intros t i) simp
  show "codec_ok post_codec"
    unfolding post_codec_def by (intro codec_ok_intros codec_ok_list t i author preview attachment) simp
  show "codec_ok follow_codec"
    unfolding follow_codec_def by (intro codec_ok_intros t author) simp
qed

text \<open>Numbers are written as bytes in unary.\<close>

definition unary_bytes :: "nat list \<Rightarrow> bytes" where
  "unary_bytes ts = concat (map (\<lambda>n. replicate n 1 @ [0]) ts)"

fun read_unary :: "nat \<Rightarrow> bytes \<Rightarrow> nat list" where
  "read_unary n [] = []"
| "read_unary n (b # bs) = (if b = 0 then n # read_unary 0 bs else read_unary (Suc n) bs)"

lemma read_unary_bytes: "read_unary 0 (unary_bytes ts) = ts"
proof -
  have one: "read_unary m (replicate n 1 @ 0 # bs) = (m + n) # read_unary 0 bs" for m n bs
    by (induction n arbitrary: m) simp_all
  show ?thesis
    by (induction ts) (simp_all add: unary_bytes_def one)
qed

definition to_vec :: "'a codec \<Rightarrow> 'a \<Rightarrow> bytes" where
  "to_vec c x = unary_bytes (fst c x)"

definition from_slice :: "'a codec \<Rightarrow> bytes \<Rightarrow> 'a option" where
  "from_slice c bs = map_option fst (snd c (read_unary 0 bs))"

lemma from_slice_to_vec: "codec_ok c \<Longrightarrow> from_slice c (to_vec c x) = Some x"
  by (simp add: from_slice_def to_vec_def read_unary_bytes codec_ok_def) (metis append_Nil2 fst_conv option.simps(9))

end
