(* ===== verification/Board_Api.thy ===== *)
theory Board_Api
  imports Board_Data
begin

text \<open>
  The handlers of the board (\<^verbatim>\<open>indexer/src/api/board.rs\<close>). A handler reads the database, prepares a
  write transaction and commits it; what others write between these points is part of its
  environment, as are the clock, the random identifier and whether the commit meets a conflict.
\<close>

record 'time board_env =
  be_uuid :: uuid
  be_now :: 'time
  be_touched :: 'time
  be_server_time :: 'time
  be_before_count :: "db \<Rightarrow> db"
  be_before_commit :: "db \<Rightarrow> db"
  be_conflict :: bool

section \<open>Revisions\<close>

definition board_post_updated_at :: "board_post_response \<Rightarrow> rstr" where
  "board_post_updated_at post =
     (case bp_updated_at post of
        None \<Rightarrow> bp_created_at post
      | Some t \<Rightarrow> if trim t = [] then bp_created_at post else t)"

definition board_post_updated_at_ms ::
    "('addr, 'time, 'x) board_lib_scheme \<Rightarrow> board_post_response \<Rightarrow> u64 board" where
  "board_post_updated_at_ms L post = parse_timestamp_ms L (board_post_updated_at post)"

definition revision_text ::
    "('addr, 'time, 'x) board_lib_scheme \<Rightarrow> u64 \<Rightarrow> board_post_response \<Rightarrow> rstr" where
  "revision_text L updated_at_ms post =
     str ''post-v1-'' @ decimal (unat updated_at_ms) @ str ''-'' @
     hex (list_of (bl_sha256 L (bl_post_to_vec L (post\<lparr>bp_revision_token := None\<rparr>))))"

definition board_post_revision_value ::
    "('addr, 'time, 'x) board_lib_scheme \<Rightarrow> board_post_response \<Rightarrow> rstr board" where
  "board_post_revision_value L post =
     (case normalized_optional (bp_revision_token post) of
        Some revision \<Rightarrow> Inr revision
      | None \<Rightarrow> abind (board_post_updated_at_ms L post) (\<lambda>ms. Inr (revision_text L ms post)))"

definition materialize_post_response_for_storage ::
    "('addr, 'time, 'x) board_lib_scheme \<Rightarrow> 'time \<Rightarrow> board_post_response \<Rightarrow> bool \<Rightarrow> board_post_response board" where
  "materialize_post_response_for_storage L now response touch_updated_at =
     abind (if touch_updated_at then timestamp_string L now
            else Inr (case normalized_optional (bp_updated_at response) of
                Some t \<Rightarrow> t | None \<Rightarrow> bp_created_at response)) (\<lambda>updated_at.
     let stored = response\<lparr>bp_revision_token := None, bp_updated_at := Some updated_at\<rparr> in
     abind (parse_timestamp_ms L updated_at) (\<lambda>ms.
     Inr (stored\<lparr>bp_revision_token := Some (revision_text L ms stored)\<rparr>)))"

section \<open>Posts\<close>

definition load_post_response ::
    "('addr, 'time, 'x) board_lib_scheme \<Rightarrow> rstr \<Rightarrow> db \<Rightarrow> board_post_response board" where
  "load_post_response L post_id rtx =
     (case board_post_by_id_get_rtx rtx (trim post_id) of
        None \<Rightarrow> Inl (BoardError (str ''board post '' @ trim post_id @ str '' not found''))
      | Some json_bytes \<Rightarrow>
          ok_or (BoardError (str ''decode board post response'')) (bl_post_from_slice L json_bytes))"

definition ensure_post_exists :: "rstr \<Rightarrow> db \<Rightarrow> unit board" where
  "ensure_post_exists post_id rtx =
     require (board_post_by_id_get_rtx rtx (trim post_id) \<noteq> None)
       (BoardError (str ''board post '' @ trim post_id @ str '' not found''))"

definition write_post_response_with_touch ::
    "('addr, 'time, 'x) board_lib_scheme \<Rightarrow> 'time \<Rightarrow> board_post_response \<Rightarrow> bool \<Rightarrow> wtx \<Rightarrow> wtx board" where
  "write_post_response_with_touch L now response touch_updated_at w =
     abind (materialize_post_response_for_storage L now response touch_updated_at) (\<lambda>stored.
     let json_bytes = bl_post_to_vec L stored;
         w1 = board_post_by_id_insert_wtx (bp_id stored) json_bytes w
     in if bp_reply_to_post_id stored \<noteq> None then Inr w1
        else
          abind (ok_or (BoardError (str ''board post id must be a UUID'')) (bl_parse_uuid L (trim (bp_id stored)))) (\<lambda>post_uuid.
          abind (parse_timestamp_ms L (bp_created_at stored)) (\<lambda>ms.
          Inr (board_post_by_created_at_insert_wtx \<lparr>bpk_created_at_ms = ms, bpk_post_uuid = post_uuid\<rparr> json_bytes w1))))"

definition I32_MAX :: int where "I32_MAX = 2 ^ 31 - 1"

definition sat_i32 :: "int \<Rightarrow> int" where
  "sat_i32 i = max (- (2 ^ 31)) (min I32_MAX i)"

definition update_post_reply_count ::
    "('addr, 'time, 'x) board_lib_scheme \<Rightarrow> 'time \<Rightarrow> db \<Rightarrow> rstr \<Rightarrow> int \<Rightarrow> wtx \<Rightarrow> wtx board" where
  "update_post_reply_count L now rtx post_id delta w =
     abind (load_post_response L post_id rtx) (\<lambda>post.
     write_post_response_with_touch L now (post\<lparr>bp_reply_count := sat_i32 (bp_reply_count post + delta)\<rparr>) True w)"

definition update_post_reaction_count ::
    "('addr, 'time, 'x) board_lib_scheme \<Rightarrow> 'time \<Rightarrow> db \<Rightarrow> rstr \<Rightarrow> int \<Rightarrow> wtx \<Rightarrow> wtx board" where
  "update_post_reaction_count L now rtx post_id new_count w =
     abind (load_post_response L post_id rtx) (\<lambda>post.
     write_post_response_with_touch L now (post\<lparr>bp_reaction_count := max new_count 0\<rparr>) True w)"

text \<open>The end of every change: the commit, with what others wrote before it.\<close>

definition board_commit :: "'time board_env \<Rightarrow> string \<Rightarrow> wtx \<Rightarrow> db \<Rightarrow> unit board \<times> db" where
  "board_commit env kind w d =
     (if be_conflict env then (Inl (BoardError (str ''board '' @ str kind @ str '' write conflict'')), be_before_commit env d)
      else (Inr (), commit w (be_before_commit env d)))"

definition existing_post ::
    "('addr, 'time, 'x) board_lib_scheme \<Rightarrow> rstr \<Rightarrow> db \<Rightarrow> board_post_response option board" where
  "existing_post L client_generated_id rtx =
     (case board_client_generated_id_get_rtx rtx (trim client_generated_id) of
        None \<Rightarrow> Inr None
      | Some id_bytes \<Rightarrow>
          abind (ok_or (BoardError (str ''decode existing board post id'')) (from_utf8 id_bytes)) (\<lambda>existing_post_id.
          (case board_post_by_id_get_rtx rtx existing_post_id of
             None \<Rightarrow> Inr None
           | Some json_bytes \<Rightarrow>
               abind (ok_or (BoardError (str ''decode existing board post'')) (bl_post_from_slice L json_bytes))
                 (\<lambda>p. Inr (Some p)))))"

definition new_post ::
    "('addr, 'time, 'x) board_lib_scheme \<Rightarrow> 'time board_env \<Rightarrow> board_create_post_request \<Rightarrow> rstr option \<Rightarrow>
     board_post_response board" where
  "new_post L env request reply_to =
     (let created_at = parse_requested_created_at L (be_now env) (bcp_created_at request) in
      case bl_plus_days L created_at 30 of
        None \<Rightarrow> Inl BoardPanic
      | Some expires_at \<Rightarrow>
          abind (timestamp_string L created_at) (\<lambda>created_at_string.
          abind (timestamp_string L expires_at) (\<lambda>expires_at_string.
          Inr \<lparr>bp_id = bl_uuid_string L (be_uuid env),
               bp_author = \<lparr>bau_address = trim (bcp_author_address request),
                 bau_display_name = normalized_or_fallback (bcp_author_display_name request) (bcp_author_address request),
                 bau_avatar_url = None, bau_avatar_file_id = None, bau_avatar_file_extension = None\<rparr>,
               bp_content_text = trim (bcp_content_text request), bp_attachments = bcp_attachments request,
               bp_reply_to_post_id = reply_to, bp_primary_link_url = normalized_optional (bcp_primary_link_url request),
               bp_link_preview = build_link_preview L (bcp_primary_link_url request),
               bp_created_at = created_at_string, bp_expires_at = Some expires_at_string,
               bp_reply_count = 0, bp_reaction_count = 0, bp_visibility_state = str ''visible'',
               bp_moderation_state = str ''none'', bp_revision_token = None, bp_updated_at = None\<rparr>)))"

text \<open>The writes of a new post; for a reply also the row under its parent and the parent itself.\<close>

definition post_writes ::
    "('addr, 'time, 'x) board_lib_scheme \<Rightarrow> 'time board_env \<Rightarrow> rstr \<Rightarrow> board_post_response \<Rightarrow> db \<Rightarrow> wtx board" where
  "post_writes L env client_generated_id post d =
     abind (write_post_response_with_touch L (be_touched env) post False (begin_wtx d)) (\<lambda>w.
     let w1 = board_client_generated_id_insert_wtx (trim client_generated_id) (bp_id post) w in
     case bp_reply_to_post_id post of
       None \<Rightarrow> Inr w1
     | Some parent_post_id \<Rightarrow>
         abind (ok_or (BoardError (str ''replyToPostId must be a valid board post id''))
                  (bl_parse_uuid L parent_post_id)) (\<lambda>parent_uuid.
         abind (parse_timestamp_ms L (bp_created_at post)) (\<lambda>ms.
         update_post_reply_count L (be_touched env) (be_before_count env d) parent_post_id 1
           (board_reply_insert_wtx
             \<lparr>brk_parent_post_uuid = parent_uuid, brk_created_at_ms = ms, brk_reply_uuid = be_uuid env\<rparr> w1))))"

text \<open>What is committed: the post that is there already, or a new one with its writes.\<close>

definition prepare_post ::
    "('addr, 'time, 'x) board_lib_scheme \<Rightarrow> bool \<Rightarrow> 'time board_env \<Rightarrow> board_create_post_request \<Rightarrow> rstr option \<Rightarrow> db \<Rightarrow>
     (board_post_response + board_post_response \<times> wtx) board" where
  "prepare_post L mainnet env request forced_reply_to_post_id d =
     abind (validate_create_post_request L mainnet request forced_reply_to_post_id) (\<lambda>_.
     abind (existing_post L (bcp_client_generated_id request) d) (\<lambda>existing.
     (case existing of
        Some p \<Rightarrow> Inr (Inl p)
      | None \<Rightarrow>
          let reply_to = normalized_optional forced_reply_to_post_id in
          abind (case reply_to of None \<Rightarrow> Inr () | Some parent \<Rightarrow> ensure_post_exists parent d) (\<lambda>_.
          abind (new_post L env request reply_to) (\<lambda>post.
          abind (post_writes L env (bcp_client_generated_id request) post d) (\<lambda>w. Inr (Inr (post, w))))))))"

definition create_post_record ::
    "('addr, 'time, 'x) board_lib_scheme \<Rightarrow> bool \<Rightarrow> 'time board_env \<Rightarrow> board_create_post_request \<Rightarrow> rstr option \<Rightarrow> db \<Rightarrow>
     board_post_response board \<times> db" where
  "create_post_record L mainnet env request forced_reply_to_post_id d =
     (case prepare_post L mainnet env request forced_reply_to_post_id d of
        Inl e \<Rightarrow> (Inl e, d)
      | Inr (Inl p) \<Rightarrow> (Inr p, d)
      | Inr (Inr (post, w)) \<Rightarrow>
          (case board_commit env ''post'' w (be_before_count env d) of
             (Inl e, d') \<Rightarrow> (Inl e, d')
           | (Inr _, d') \<Rightarrow> (load_post_response L (bp_id post) d', d')))"

section \<open>Reactions, reports, follows\<close>

definition count_reactions_for_post :: "db \<Rightarrow> rstr \<Rightarrow> int" where
  "count_reactions_for_post rtx post_id =
     fold (\<lambda>_ total. sat_i32 (total + 1)) (board_reaction_get_by_post_id rtx post_id) 0"

definition i32_of_len :: "nat \<Rightarrow> int" where
  "i32_of_len n = (if int n \<le> I32_MAX then int n else I32_MAX)"

definition count_reports_for_post :: "db \<Rightarrow> rstr \<Rightarrow> int" where
  "count_reports_for_post rtx post_id = i32_of_len (length (board_report_get_by_post_id rtx post_id))"

definition toggle_reaction_record ::
    "('addr, 'time, 'x) board_lib_scheme \<Rightarrow> bool \<Rightarrow> 'time board_env \<Rightarrow> rstr \<Rightarrow> board_create_reaction_request \<Rightarrow> db \<Rightarrow>
     unit board \<times> db" where
  "toggle_reaction_record L mainnet env post_id request d =
     (let id = trim post_id; actor = trim (bcr_actor_address request); emoji = trim (bcr_emoji request);
          had_existing_reaction = board_reaction_contains_rtx (bl_unicode L) d id actor emoji;
          current_reaction_count = count_reactions_for_post d id;
          new_reaction_count = sat_i32 (if had_existing_reaction then current_reaction_count - 1 else current_reaction_count + 1)
      in case abind (validate_create_reaction_request L mainnet request) (\<lambda>_.
              abind (ensure_post_exists id d) (\<lambda>_.
              update_post_reaction_count L (be_touched env) (be_before_count env d) id new_reaction_count
                ((if had_existing_reaction then board_reaction_remove_wtx else board_reaction_insert_wtx)
                   (bl_unicode L) id actor emoji (begin_wtx d)))) of
           Inl e \<Rightarrow> (Inl e, d)
         | Inr w \<Rightarrow> board_commit env ''reaction'' w (be_before_count env d))"

definition submit_report_record ::
    "('addr, 'time, 'x) board_lib_scheme \<Rightarrow> bool \<Rightarrow> 'time board_env \<Rightarrow> rstr \<Rightarrow> board_create_report_request \<Rightarrow> db \<Rightarrow>
     board_report_mutation_response board \<times> db" where
  "submit_report_record L mainnet env post_id request d =
     (let id = trim post_id; actor = trim (bcx_actor_address request);
          current_report_count = count_reports_for_post d id;
          report_count = (if board_report_get_rtx (bl_unicode L) d id actor \<noteq> None then current_report_count
             else sat_i32 (current_report_count + 1));
          state = str (if 0 < report_count then ''reported'' else ''none'')
      in case abind (validate_create_report_request L mainnet request) (\<lambda>_.
              abind (load_post_response L id d) (\<lambda>post.
              abind (timestamp_string L (parse_requested_created_at L (be_now env) (bcx_created_at request))) (\<lambda>created_at.
              let record_bytes = bl_report_to_vec L
                    \<lparr>sbr_actor_address = actor,
                     sbr_reason = (case normalized_optional (Some (bcx_reason request)) of
                         Some reason \<Rightarrow> reason | None \<Rightarrow> str ''user_report''),
                     sbr_created_at = created_at, sbr_client_generated_id = trim (bcx_client_generated_id request)\<rparr>
              in write_post_response_with_touch L (be_touched env) (post\<lparr>bp_moderation_state := state\<rparr>) True
                   (board_report_insert_wtx (bl_unicode L) id actor record_bytes (begin_wtx d))))) of
           Inl e \<Rightarrow> (Inl e, d)
         | Inr w \<Rightarrow>
             (case board_commit env ''report'' w d of
                (Inl e, d') \<Rightarrow> (Inl e, d')
              | (Inr _, d') \<Rightarrow>
                  (abind (timestamp_string L (be_server_time env)) (\<lambda>server_time.
                     Inr \<lparr>brm_post_id = id, brm_actor_address = actor, brm_report_count = report_count,
                          brm_moderation_state = state, brm_server_time = server_time\<rparr>), d')))"

definition lowered_viewer :: "('addr, 'time, 'x) board_lib_scheme \<Rightarrow> rstr option \<Rightarrow> rstr option" where
  "lowered_viewer L viewer = map_option (to_lowercase (bl_unicode L)) (normalized_optional viewer)"

definition build_profile_connections_response ::
    "('addr, 'time, 'x) board_lib_scheme \<Rightarrow> 'time \<Rightarrow> rstr \<Rightarrow> rstr option \<Rightarrow> db \<Rightarrow>
     board_profile_connections_response board" where
  "build_profile_connections_response L now address viewer_address rtx =
     abind (validate_board_actor_address L ''address'' address) (\<lambda>_.
     let wallet = to_lowercase (bl_unicode L) (trim address);
         following = List.map_filter (\<lambda>(_, v). map_option sbf_target (bl_follow_from_slice L v))
           (get_by_follower (bl_unicode L) rtx wallet);
         followers = List.map_filter (\<lambda>(_, v). map_option sbf_actor (bl_follow_from_slice L v))
           (get_by_target (bl_unicode L) rtx wallet);
         viewer_follows_author = (case lowered_viewer L viewer_address of
             None \<Rightarrow> False
           | Some viewer \<Rightarrow> viewer \<noteq> wallet \<and> follow_by_follower_contains_rtx (bl_unicode L) rtx viewer wallet)
     in abind (timestamp_string L now) (\<lambda>server_time.
        Inr \<lparr>bpc_address = wallet, bpc_following = following, bpc_followers = followers,
             bpc_following_count = i32_of_len (length following), bpc_follower_count = i32_of_len (length followers),
             bpc_viewer_follows_author = viewer_follows_author, bpc_server_time = server_time\<rparr>))"

definition follow_record ::
    "('addr, 'time, 'x) board_lib_scheme \<Rightarrow> rstr \<Rightarrow> rstr \<Rightarrow> board_create_follow_request \<Rightarrow> rstr \<Rightarrow> stored_board_follow_record" where
  "follow_record L actor target request created_at =
     \<lparr>sbf_actor = \<lparr>bau_address = actor, bau_display_name = normalized_or_fallback (bcf_actor_display_name request) actor,
        bau_avatar_url = normalized_optional (bcf_actor_avatar_url request),
        bau_avatar_file_id = normalized_optional (bcf_actor_avatar_file_id request),
        bau_avatar_file_extension = normalized_optional (bcf_actor_avatar_file_extension request)\<rparr>,
      sbf_target = \<lparr>bau_address = target, bau_display_name = normalized_or_fallback (bcf_target_display_name request) target,
        bau_avatar_url = normalized_optional (bcf_target_avatar_url request),
        bau_avatar_file_id = normalized_optional (bcf_target_avatar_file_id request),
        bau_avatar_file_extension = normalized_optional (bcf_target_avatar_file_extension request)\<rparr>,
      sbf_created_at = created_at\<rparr>"

definition follow_writes ::
    "(rstr \<Rightarrow> rstr) \<Rightarrow> bool \<Rightarrow> rstr \<Rightarrow> rstr \<Rightarrow> bytes \<Rightarrow> db \<Rightarrow> wtx" where
  "follow_writes unicode follow actor target record_bytes d =
     (if follow
      then follow_by_target_insert_wtx unicode target actor record_bytes
             (follow_by_follower_insert_wtx unicode actor target record_bytes (begin_wtx d))
      else follow_by_target_remove_wtx unicode target actor
             (follow_by_follower_remove_wtx unicode actor target (begin_wtx d)))"

definition apply_follow_state ::
    "('addr, 'time, 'x) board_lib_scheme \<Rightarrow> bool \<Rightarrow> 'time board_env \<Rightarrow> rstr \<Rightarrow> board_create_follow_request \<Rightarrow> db \<Rightarrow>
     board_follow_mutation_response board \<times> db" where
  "apply_follow_state L mainnet env path_target_address request d =
     (let actor = to_lowercase (bl_unicode L) (trim (bcf_actor_address request));
          target = to_lowercase (bl_unicode L) (trim path_target_address)
      in case abind (validate_create_follow_request L mainnet request path_target_address) (\<lambda>_.
              abind (timestamp_string L (parse_requested_created_at L (be_now env) (bcf_created_at request))) (\<lambda>created_at.
              Inr (follow_writes (bl_unicode L) (bcf_follow request) actor target
                (bl_follow_to_vec L (follow_record L actor target request created_at)) d))) of
           Inl e \<Rightarrow> (Inl e, d)
         | Inr w \<Rightarrow>
             (case board_commit env ''follow'' w d of
                (Inl e, d') \<Rightarrow> (Inl e, d')
              | (Inr _, d') \<Rightarrow>
                  (abind (build_profile_connections_response L (be_server_time env) target (Some actor) d') (\<lambda>c.
                     Inr \<lparr>bfm_target_address = target, bfm_actor_address = actor,
                          bfm_is_following = bpc_viewer_follows_author c, bfm_following_count = bpc_following_count c,
                          bfm_follower_count = bpc_follower_count c, bfm_server_time = bpc_server_time c\<rparr>), d')))"

section \<open>The detail of a post\<close>

fun add_reaction ::
    "('addr, 'time, 'x) board_lib_scheme \<Rightarrow> rstr option \<Rightarrow> rstr \<Rightarrow> (rstr \<times> int \<times> bool) list \<Rightarrow> (rstr \<times> int \<times> bool) list" where
  "add_reaction L viewer key counters =
     (let segments = splitn 3 124 key;
          actor_address = to_lowercase (bl_unicode L) (trim (if 1 < length segments then segments ! 1 else []));
          emoji = trim (if 2 < length segments then segments ! 2 else [])
      in if emoji = [] then counters
         else
           let (count, mine) = (case map_of counters emoji of Some c \<Rightarrow> c | None \<Rightarrow> (0, False))
           in AList.update emoji (sat_i32 (count + 1), mine \<or> viewer = Some actor_address) counters)"

definition build_reaction_summary ::
    "('addr, 'time, 'x) board_lib_scheme \<Rightarrow> db \<Rightarrow> rstr \<Rightarrow> rstr option \<Rightarrow> board_reaction_summary_response list board" where
  "build_reaction_summary L rtx post_id viewer =
     (if \<exists>k \<in> set (board_reaction_get_by_post_id rtx post_id). from_utf8 k = None
      then bail ''decode board reaction key''
      else Inr (map (\<lambda>(emoji, count, mine). \<lparr>brs_emoji = emoji, brs_count = count, brs_includes_current_user = mine\<rparr>)
        (sort_key (\<lambda>(emoji, count, _). - count) (sort_key fst
          (fold (add_reaction L viewer) (List.map_filter from_utf8 (board_reaction_get_by_post_id rtx post_id)) [])))))"

definition load_reply ::
    "('addr, 'time, 'x) board_lib_scheme \<Rightarrow> db \<Rightarrow> board_reply_by_parent_created_at_key res \<Rightarrow>
     board_post_response list \<Rightarrow> board_post_response list board" where
  "load_reply L rtx reply_key replies =
     abind (board_of reply_key []) (\<lambda>key.
     (case board_post_by_id_get_rtx rtx (bl_uuid_string L (brk_reply_uuid key)) of
        None \<Rightarrow> Inr replies
      | Some json_bytes \<Rightarrow>
          abind (ok_or (BoardError (str ''decode board reply from board_post_by_id'')) (bl_post_from_slice L json_bytes))
            (\<lambda>reply. Inr (replies @ [reply]))))"

fun load_replies ::
    "('addr, 'time, 'x) board_lib_scheme \<Rightarrow> db \<Rightarrow> board_reply_by_parent_created_at_key res list \<Rightarrow>
     board_post_response list \<Rightarrow> board_post_response list board" where
  "load_replies L rtx [] replies = Inr replies"
| "load_replies L rtx (k # ks) replies = abind (load_reply L rtx k replies) (load_replies L rtx ks)"

definition build_post_detail_response ::
    "('addr, 'time, 'x) board_lib_scheme \<Rightarrow> 'time \<Rightarrow> rstr \<Rightarrow> rstr option \<Rightarrow> db \<Rightarrow> board_post_detail_response board" where
  "build_post_detail_response L now post_id viewer_address rtx =
     abind (load_post_response L post_id rtx) (\<lambda>post.
     abind (ok_or (BoardError (str ''board post id is not a valid UUID'')) (bl_parse_uuid L (trim (bp_id post)))) (\<lambda>post_uuid.
     abind (load_replies L rtx (get_by_parent_post_id rtx post_uuid) []) (\<lambda>replies.
     abind (build_reaction_summary L rtx (bp_id post) (lowered_viewer L viewer_address)) (\<lambda>reactions.
     abind (timestamp_string L now) (\<lambda>server_time.
     Inr \<lparr>bd_post = post, bd_replies = replies, bd_reactions = reactions, bd_server_time = server_time\<rparr>)))))"

section \<open>The push event of a reply\<close>

definition pulse_reply_preview_text :: "board_post_response \<Rightarrow> rstr option" where
  "pulse_reply_preview_text reply_post =
     (if trim (bp_content_text reply_post) \<noteq> [] then Some (trim (bp_content_text reply_post))
      else if bp_attachments reply_post \<noteq> [] then Some (str ''Attachment'')
      else if bp_primary_link_url reply_post \<noteq> None then Some (str ''Link'') else None)"

definition build_pulse_reply_push_event ::
    "('addr, 'time, 'x) board_lib_scheme \<Rightarrow> board_post_response \<Rightarrow> board_post_response \<Rightarrow> pulse_reply_push_event option" where
  "build_pulse_reply_push_event L parent_post reply_post =
     (let parent_author_address = trim (bau_address (bp_author parent_post));
          reply_author_address = trim (bau_address (bp_author reply_post))
      in if parent_author_address = [] \<or> reply_author_address = [] \<or>
            eq_ignore_ascii_case parent_author_address reply_author_address
         then None
         else Some \<lparr>pre_reply_id = bp_id reply_post, pre_post_id = bp_id parent_post,
           pre_parent_author_address = parent_author_address, pre_actor_address = reply_author_address,
           pre_actor_display_name = bau_display_name (bp_author reply_post),
           pre_actor_avatar_url = bau_avatar_url (bp_author reply_post),
           pre_preview_text = pulse_reply_preview_text reply_post,
           pre_timestamp = (case parse_timestamp_ms L (bp_created_at reply_post) of Inr ms \<Rightarrow> ms | Inl _ \<Rightarrow> 0)\<rparr>)"

end
