(* ===== verification/Board_Feed.thy ===== *)
theory Board_Feed
  imports Board_Api
begin

text \<open>
  The feed of the board and its incremental changes, and the HTTP handlers
  (\<^verbatim>\<open>indexer/src/api/board.rs\<close>).
\<close>

section \<open>Pages\<close>

text \<open>The loop over the posts from the newest to the oldest.\<close>

fun feed_items ::
    "('addr, 'time, 'x) board_lib_scheme \<Rightarrow> nat \<Rightarrow> u64 option \<Rightarrow> (bytes \<times> bytes) list \<Rightarrow> board_post_response list \<Rightarrow>
     board_post_response list board" where
  "feed_items L limit cursor_ms [] found = Inr found"
| "feed_items L limit cursor_ms ((k, v) # entries) found =
     (case deref bpk_from_bytes k of
        Inl _ \<Rightarrow> Inl BoardPanic
      | Inr key \<Rightarrow>
          if (case cursor_ms of None \<Rightarrow> False | Some c \<Rightarrow> c \<le> bpk_created_at_ms key)
          then feed_items L limit cursor_ms entries found
          else case bl_post_from_slice L v of
              None \<Rightarrow> bail ''decode board post from feed''
            | Some post \<Rightarrow>
                if limit \<le> length found + 1 then Inr (found @ [post])
                else feed_items L limit cursor_ms entries (found @ [post]))"

fun author_items ::
    "('addr, 'time, 'x) board_lib_scheme \<Rightarrow> nat \<Rightarrow> rstr \<Rightarrow> (bytes \<times> bytes) list \<Rightarrow> board_post_response list \<Rightarrow>
     board_post_response list board" where
  "author_items L limit address [] found = Inr found"
| "author_items L limit address ((k, v) # entries) found =
     (case bl_post_from_slice L v of
        None \<Rightarrow> bail ''decode board post from author feed''
      | Some post \<Rightarrow>
          let found' = (if eq_ignore_ascii_case (trim (bau_address (bp_author post))) address
                        then found @ [post] else found)
          in if limit \<le> length found' then Inr found' else author_items L limit address entries found')"

fun digest_parts ::
    "('addr, 'time, 'x) board_lib_scheme \<Rightarrow> board_post_response list \<Rightarrow> bytes board" where
  "digest_parts L [] = Inr []"
| "digest_parts L (post # posts) =
     abind (board_post_revision_value L post) (\<lambda>revision.
     abind (digest_parts L posts) (\<lambda>rest. Inr (utf8 (bp_id post @ bar @ revision @ bar) @ rest)))"

definition board_feed_page_digest ::
    "('addr, 'time, 'x) board_lib_scheme \<Rightarrow> board_post_response list \<Rightarrow> rstr option \<Rightarrow> rstr board" where
  "board_feed_page_digest L posts next_cursor =
     abind (digest_parts L posts) (\<lambda>parts.
     Inr (hex (list_of (bl_sha256 L
       (utf8 (str ''pulse-feed-page-v1'') @ utf8 (case next_cursor of None \<Rightarrow> [] | Some c \<Rightarrow> c) @ parts)))))"

fun updated_times :: "('addr, 'time, 'x) board_lib_scheme \<Rightarrow> board_post_response list \<Rightarrow> u64 list board" where
  "updated_times L [] = Inr []"
| "updated_times L (post # posts) =
     abind (board_post_updated_at_ms L post) (\<lambda>ms. abind (updated_times L posts) (\<lambda>times. Inr (ms # times)))"

definition apply_feed_metadata ::
    "('addr, 'time, 'x) board_lib_scheme \<Rightarrow> board_feed_response \<Rightarrow> board_feed_response board" where
  "apply_feed_metadata L feed =
     abind (board_feed_page_digest L (bf_items feed) (bf_next_cursor feed)) (\<lambda>page_digest.
     abind (updated_times L (bf_items feed)) (\<lambda>times.
     let max_updated_at_ms = fold max times 0
     in Inr (feed\<lparr>bf_feed_revision :=
                 Some (str ''pulse-feed-v1-latest-'' @ decimal (unat max_updated_at_ms) @ str ''-'' @ page_digest),
               bf_page_digest := Some page_digest\<rparr>)))"

definition feed_revision_value :: "board_feed_response \<Rightarrow> rstr board" where
  "feed_revision_value feed = ok_or (BoardError (str ''feed revision missing'')) (bf_feed_revision feed)"

datatype board_feed_load_result = FeedNotModified rstr | FeedLoaded board_feed_response

definition next_cursor_of ::
    "('addr, 'time, 'x) board_lib_scheme \<Rightarrow> board_post_response list \<Rightarrow> rstr option" where
  "next_cursor_of L posts =
     (if posts = [] then None
      else case parse_timestamp_ms L (bp_created_at (List.last posts)) of
          Inl _ \<Rightarrow> None
        | Inr ms \<Rightarrow> Some (decimal (unat ms)))"

definition build_feed_response ::
    "('addr, 'time, 'x) board_lib_scheme \<Rightarrow> 'time \<Rightarrow> nat \<Rightarrow> u64 option \<Rightarrow> rstr option \<Rightarrow> db \<Rightarrow>
     board_feed_load_result board" where
  "build_feed_response L now limit cursor_ms if_none_match_revision rtx =
     abind (feed_items L limit cursor_ms (rev (board_post_by_created_at_iter_all rtx)) []) (\<lambda>posts.
     abind (timestamp_string L now) (\<lambda>server_time.
     abind (apply_feed_metadata L
        \<lparr>bf_items = posts, bf_next_cursor = next_cursor_of L posts, bf_server_time = server_time,
         bf_feed_revision = None, bf_page_digest = None, bf_supports_changes_since_revision = True\<rparr>) (\<lambda>response.
     abind (feed_revision_value response) (\<lambda>revision.
     Inr (if if_none_match_revision = Some revision then FeedNotModified revision else FeedLoaded response)))))"

section \<open>Changes\<close>

definition normalize_revision_value :: "rstr \<Rightarrow> rstr option" where
  "normalize_revision_value v =
     (let t = trim v in
      if t = [] then None
      else
        let stripped = trim (case strip_text (str ''W/'') t of
              Some s \<Rightarrow> s
            | None \<Rightarrow> (case strip_text (str ''w/'') t of Some s \<Rightarrow> s | None \<Rightarrow> t))
        in nonempty (trim (trim_matches 34 stripped)))"

text \<open>The number before the last hyphen.\<close>

definition parse_feed_revision_cutoff_ms :: "rstr \<Rightarrow> u64 option" where
  "parse_feed_revision_cutoff_ms revision =
     Option.bind (normalize_revision_value revision) (\<lambda>normalized.
       case rev (split_at ((=) 45) normalized) of
         _ # cutoff_ms # _ \<Rightarrow> parse_u64 cutoff_ms
       | _ \<Rightarrow> None)"

datatype board_feed_changes_load_result = ChangesNotModified rstr | ChangesLoaded board_feed_changes_response

definition changed_posts ::
    "('addr, 'time, 'x) board_lib_scheme \<Rightarrow> u64 \<Rightarrow> board_post_response list \<Rightarrow> board_feed_change_response list" where
  "changed_posts L base_cutoff_ms posts =
     map (\<lambda>post. \<lparr>bfc_operation = str ''upsert'', bfc_post_id = bp_id post, bfc_post = Some post\<rparr>)
       (filter (\<lambda>post. base_cutoff_ms < (case board_post_updated_at_ms L post of Inr ms \<Rightarrow> ms | Inl _ \<Rightarrow> 0)) posts)"

definition build_feed_changes_response ::
    "('addr, 'time, 'x) board_lib_scheme \<Rightarrow> 'time \<Rightarrow> nat \<Rightarrow> rstr \<Rightarrow> db \<Rightarrow> board_feed_changes_load_result board" where
  "build_feed_changes_response L now limit since_revision rtx =
     abind (build_feed_response L now limit None None rtx) (\<lambda>loaded.
     (case loaded of
        FeedNotModified _ \<Rightarrow> Inl BoardPanic
      | FeedLoaded current_feed \<Rightarrow>
          abind (feed_revision_value current_feed) (\<lambda>target_revision.
          let answer = (\<lambda>reload changes. ChangesLoaded
                \<lparr>bfcs_base_revision = since_revision, bfcs_target_revision = target_revision,
                 bfcs_next_cursor = bf_next_cursor current_feed, bfcs_server_time = bf_server_time current_feed,
                 bfcs_requires_full_reload = reload, bfcs_changes = changes\<rparr>)
          in Inr (if normalize_revision_value since_revision = Some target_revision
                  then ChangesNotModified target_revision
                  else case parse_feed_revision_cutoff_ms since_revision of
                      None \<Rightarrow> answer True []
                    | Some base_cutoff_ms \<Rightarrow>
                        let changes = changed_posts L base_cutoff_ms (bf_items current_feed)
                        in answer (changes = []) changes))))"

section \<open>Handlers\<close>

type_synonym 'a handled = "(status_code \<times> rstr) + 'a"

text \<open>An answer with the revision and whether changes are offered in its header.\<close>

datatype 'a board_reply = NotModified rstr bool | Answer rstr bool 'a

definition feed_transport_headers ::
    "('addr, 'time, 'x) board_lib_scheme \<Rightarrow> rstr \<Rightarrow> bool \<Rightarrow> (rstr \<times> bool) board" where
  "feed_transport_headers L revision supports_changes =
     (if bl_header_value L revision then Inr (revision, supports_changes)
      else bail ''encode Pulse feed revision header'')"

fun internal :: "'a board \<Rightarrow> 'a handled" where
  "internal (Inr x) = Inr x"
| "internal (Inl (BoardError text)) = Inl (InternalServerError, text)"
| "internal (Inl BoardPanic) = Inl (InternalServerError, str ''Task error'')"

definition client_error ::
    "('addr, 'time, 'x) board_lib_scheme \<Rightarrow> bool \<Rightarrow> 'a board \<Rightarrow> 'a handled" where
  "client_error L allow_conflict m =
     (case m of Inr x \<Rightarrow> Inr x | Inl e \<Rightarrow> Inl (status_for_board_error L e allow_conflict))"

definition clamp :: "nat \<Rightarrow> nat option \<Rightarrow> nat" where
  "clamp fallback limit = max 1 (min 100 (case limit of Some n \<Rightarrow> n | None \<Rightarrow> fallback))"

definition check_mode :: "('addr, 'time, 'x) board_lib_scheme \<Rightarrow> rstr option \<Rightarrow> unit handled" where
  "check_mode L mode =
     (let m = to_lowercase (bl_unicode L) (trim (case mode of Some t \<Rightarrow> t | None \<Rightarrow> str ''latest''))
      in require (m = str ''latest'') (BadRequest, str ''unsupported board feed mode: '' @ m))"

definition get_board_feed ::
    "('addr, 'time, 'x) board_lib_scheme \<Rightarrow> 'time \<Rightarrow> rstr option \<Rightarrow> nat option \<Rightarrow> rstr option \<Rightarrow> rstr option \<Rightarrow> db \<Rightarrow>
     board_feed_response board_reply handled" where
  "get_board_feed L now mode limit cursor if_none_match rtx =
     abind (check_mode L mode) (\<lambda>_.
     abind (internal (build_feed_response L now (clamp 25 limit) (Option.bind cursor parse_u64)
        (Option.bind if_none_match normalize_revision_value) rtx)) (\<lambda>loaded.
     (case loaded of
        FeedNotModified revision \<Rightarrow>
          abind (internal (feed_transport_headers L revision True)) (\<lambda>(etag, changes). Inr (NotModified etag changes))
      | FeedLoaded feed \<Rightarrow>
          abind (internal (feed_revision_value feed)) (\<lambda>revision.
          abind (internal (feed_transport_headers L revision (bf_supports_changes_since_revision feed)))
            (\<lambda>(etag, changes). Inr (Answer etag changes feed))))))"

definition get_board_feed_changes ::
    "('addr, 'time, 'x) board_lib_scheme \<Rightarrow> 'time \<Rightarrow> rstr option \<Rightarrow> nat option \<Rightarrow> rstr \<Rightarrow> db \<Rightarrow>
     board_feed_changes_response board_reply handled" where
  "get_board_feed_changes L now mode limit since_revision rtx =
     abind (check_mode L mode) (\<lambda>_.
     abind (ok_or (BadRequest, str ''sinceRevision is required'') (normalize_revision_value since_revision)) (\<lambda>since.
     abind (internal (build_feed_changes_response L now (clamp 25 limit) since rtx)) (\<lambda>loaded.
     (case loaded of
        ChangesNotModified revision \<Rightarrow>
          abind (internal (feed_transport_headers L revision True)) (\<lambda>(etag, changes). Inr (NotModified etag changes))
      | ChangesLoaded response \<Rightarrow>
          abind (internal (feed_transport_headers L (bfcs_target_revision response) True))
            (\<lambda>(etag, changes). Inr (Answer etag changes response))))))"

definition get_board_profile_feed ::
    "('addr, 'time, 'x) board_lib_scheme \<Rightarrow> 'time \<Rightarrow> rstr \<Rightarrow> nat option \<Rightarrow> db \<Rightarrow> board_feed_response handled" where
  "get_board_profile_feed L now address limit rtx =
     (let wallet = to_lowercase (bl_unicode L) (trim address) in
      client_error L False
        (abind (validate_board_actor_address L ''address'' wallet) (\<lambda>_.
         abind (author_items L (clamp 50 limit) wallet (rev (board_post_by_created_at_iter_all rtx)) []) (\<lambda>posts.
         abind (timestamp_string L now) (\<lambda>server_time.
         apply_feed_metadata L
           \<lparr>bf_items = posts, bf_next_cursor = None, bf_server_time = server_time, bf_feed_revision = None,
            bf_page_digest = None, bf_supports_changes_since_revision = False\<rparr>)))))"

definition get_board_profile_connections ::
    "('addr, 'time, 'x) board_lib_scheme \<Rightarrow> 'time \<Rightarrow> rstr \<Rightarrow> rstr option \<Rightarrow> db \<Rightarrow>
     board_profile_connections_response handled" where
  "get_board_profile_connections L now address viewer rtx =
     client_error L False
       (build_profile_connections_response L now (to_lowercase (bl_unicode L) (trim address)) viewer rtx)"

definition get_board_post_detail ::
    "('addr, 'time, 'x) board_lib_scheme \<Rightarrow> 'time \<Rightarrow> rstr \<Rightarrow> rstr option \<Rightarrow> db \<Rightarrow> board_post_detail_response handled" where
  "get_board_post_detail L now post_id viewer rtx =
     client_error L False (build_post_detail_response L now (trim post_id) viewer rtx)"

definition create_board_post ::
    "('addr, 'time, 'x) board_lib_scheme \<Rightarrow> bool \<Rightarrow> 'time board_env \<Rightarrow> board_create_post_request \<Rightarrow> db \<Rightarrow>
     board_post_response handled \<times> db" where
  "create_board_post L mainnet env request d =
     (let (r, d') = create_post_record L mainnet env request None d in (client_error L True r, d'))"

text \<open>A reply is answered with the detail of its parent; the author of the parent is notified.\<close>

definition reply_record ::
    "('addr, 'time, 'x) board_lib_scheme \<Rightarrow> bool \<Rightarrow> 'time board_env \<Rightarrow> rstr \<Rightarrow> board_create_post_request \<Rightarrow> db \<Rightarrow>
     (board_post_detail_response \<times> pulse_reply_push_event option) board \<times> db" where
  "reply_record L mainnet env parent_post_id request d =
     (case load_post_response L parent_post_id d of
        Inl e \<Rightarrow> (Inl e, d)
      | Inr parent_post \<Rightarrow>
          (case create_post_record L mainnet env request (Some parent_post_id) d of
             (Inl e, d') \<Rightarrow> (Inl e, d')
           | (Inr reply_post, d') \<Rightarrow>
               (abind (build_post_detail_response L (be_server_time env) parent_post_id (Some (bcp_author_address request)) d')
                  (\<lambda>detail. Inr (detail, build_pulse_reply_push_event L parent_post reply_post)), d')))"

definition create_board_reply ::
    "('addr, 'time, 'x) board_lib_scheme \<Rightarrow> ('paddr, 'y) push_lib_scheme \<Rightarrow> bool \<Rightarrow> 'time board_env \<Rightarrow> push_net \<Rightarrow> rstr \<Rightarrow>
     board_create_post_request \<Rightarrow> db \<times> push_service option \<Rightarrow>
     board_post_detail_response handled \<times> db \<times> push_service option" where
  "create_board_reply L P mainnet env net post_id request = (\<lambda>(d, push).
     (case reply_record L mainnet env (trim post_id) request d of
        (Inl e, d') \<Rightarrow> (Inl (status_for_board_error L e True), d', push)
      | (Inr (detail, event), d') \<Rightarrow>
          (Inr detail, d',
           case (push, event) of
             (Some service, Some ev) \<Rightarrow> Some (snd (dispatch_pulse_reply P net ev service))
           | _ \<Rightarrow> push)))"

definition toggle_board_reaction ::
    "('addr, 'time, 'x) board_lib_scheme \<Rightarrow> bool \<Rightarrow> 'time board_env \<Rightarrow> rstr \<Rightarrow> board_create_reaction_request \<Rightarrow> db \<Rightarrow>
     board_post_detail_response handled \<times> db" where
  "toggle_board_reaction L mainnet env post_id request d =
     (case toggle_reaction_record L mainnet env (trim post_id) request d of
        (Inl e, d') \<Rightarrow> (Inl (status_for_board_error L e False), d')
      | (Inr _, d') \<Rightarrow>
          (client_error L False (build_post_detail_response L (be_server_time env) (trim post_id)
             (Some (bcr_actor_address request)) d'), d'))"

definition set_board_follow_state ::
    "('addr, 'time, 'x) board_lib_scheme \<Rightarrow> bool \<Rightarrow> 'time board_env \<Rightarrow> rstr \<Rightarrow> board_create_follow_request \<Rightarrow> db \<Rightarrow>
     board_follow_mutation_response handled \<times> db" where
  "set_board_follow_state L mainnet env address request d =
     (let (r, d') = apply_follow_state L mainnet env (trim address) request d in (client_error L False r, d'))"

definition report_board_post ::
    "('addr, 'time, 'x) board_lib_scheme \<Rightarrow> bool \<Rightarrow> 'time board_env \<Rightarrow> rstr \<Rightarrow> board_create_report_request \<Rightarrow> db \<Rightarrow>
     board_report_mutation_response handled \<times> db" where
  "report_board_post L mainnet env post_id request d =
     (let (r, d') = submit_report_record L mainnet env (trim post_id) request d in (client_error L False r, d'))"

end
