(* ===== verification/Board_Access.thy ===== *)
theory Board_Access
  imports Board_Feed
begin

text \<open>
  What changes the board: only requests with a verified signature, and a post once for the
  identifier its client chose.
\<close>

section \<open>Commits\<close>

definition board_quiet :: "'time board_env \<Rightarrow> bool" where
  "board_quiet env \<longleftrightarrow> be_before_count env = (\<lambda>d. d) \<and> be_before_commit env = (\<lambda>d. d)"

lemma commit_simps [simp]:
  "commit (begin_wtx d0) d = d"
  "commit (wtx_insert p k v w) d = db_insert p k v (commit w d)"
  "commit (wtx_remove p k w) d = db_remove p k (commit w d)"
  by (simp_all add: commit_def begin_wtx_def wtx_insert_def wtx_remove_def wtx_write_def db_insert_def db_remove_def)

lemmas board_writes = board_post_by_id_insert_wtx_def board_post_by_created_at_insert_wtx_def
  board_client_generated_id_insert_wtx_def board_reply_insert_wtx_def board_reaction_insert_wtx_def
  board_reaction_remove_wtx_def follow_by_follower_insert_wtx_def follow_by_follower_remove_wtx_def
  follow_by_target_insert_wtx_def follow_by_target_remove_wtx_def board_report_insert_wtx_def

text \<open>The database with a post written, in both of its partitions when it is no reply.\<close>

definition feed_key :: "('addr, 'time, 'x) board_lib_scheme \<Rightarrow> board_post_response \<Rightarrow> board_post_by_created_at_key" where
  "feed_key L p =
     \<lparr>bpk_created_at_ms = (case parse_timestamp_ms L (bp_created_at p) of Inr ms \<Rightarrow> ms | Inl _ \<Rightarrow> 0),
      bpk_post_uuid = the (bl_parse_uuid L (trim (bp_id p)))\<rparr>"

definition store_post :: "('addr, 'time, 'x) board_lib_scheme \<Rightarrow> board_post_response \<Rightarrow> db \<Rightarrow> db" where
  "store_post L p d =
     (let d1 = db_insert PBoardPostById (utf8 (bp_id p)) (bl_post_to_vec L p) d
      in if bp_reply_to_post_id p = None then db_insert PBoardPostByCreatedAt (bpk_bytes (feed_key L p)) (bl_post_to_vec L p) d1
         else d1)"

definition storable :: "('addr, 'time, 'x) board_lib_scheme \<Rightarrow> board_post_response \<Rightarrow> bool" where
  "storable L p \<longleftrightarrow> (\<exists>updated ms. bp_updated_at p = Some updated \<and> parse_timestamp_ms L updated = Inr ms) \<and>
     (bp_reply_to_post_id p = None \<longrightarrow>
     bl_parse_uuid L (trim (bp_id p)) \<noteq> None \<and> (\<exists>ms. parse_timestamp_ms L (bp_created_at p) = Inr ms))"

lemma write_post_commit:
  assumes "write_post_response_with_touch L now p touch w = Inr w'"
  obtains stored where "materialize_post_response_for_storage L now p touch = Inr stored" "storable L stored"
    "\<And>d. commit w' d = store_post L stored (commit w d)"
proof -
  obtain stored where m: "materialize_post_response_for_storage L now p touch = Inr stored"
    using assms by (auto simp: write_post_response_with_touch_def)
  have "\<exists>updated ms. bp_updated_at stored = Some updated \<and> parse_timestamp_ms L updated = Inr ms"
    using m by (auto simp: materialize_post_response_for_storage_def Let_def)
  then have "storable L stored \<and> (\<forall>d. commit w' d = store_post L stored (commit w d))"
    using assms by (cases "bp_reply_to_post_id stored")
      (auto simp: write_post_response_with_touch_def m Let_def storable_def store_post_def feed_key_def board_writes)
  then show thesis
    using that m by blast
qed

lemma store_post_other [simp]:
  "q \<noteq> PBoardPostById \<Longrightarrow> q \<noteq> PBoardPostByCreatedAt \<Longrightarrow> store_post L p d q = d q"
  by (simp add: store_post_def Let_def)

text \<open>What is stored is the given post with its time of update and its revision.\<close>

lemma materialize_fields:
  assumes "materialize_post_response_for_storage L now p touch = Inr stored"
  shows "\<exists>updated revision. stored = p\<lparr>bp_updated_at := Some updated, bp_revision_token := Some revision\<rparr>"
  using assms by (auto simp: materialize_post_response_for_storage_def Let_def)

section \<open>Signatures\<close>

definition signed_by :: "('addr, 'time, 'x) board_lib_scheme \<Rightarrow> rstr \<Rightarrow> json \<Rightarrow> rstr \<Rightarrow> bool" where
  "signed_by L address message signature \<longleftrightarrow> (\<exists>p signature_bytes.
     actor_payload L (trim address) (trim address) = Inr p \<and>
     version_try_from L (255 - inverse_version p) = Some PubKey \<and>
     decode_fixed_hex L 64 (trim signature) ''signature'' = Inr signature_bytes \<and>
     bl_schnorrsig_verify L signature_bytes (canonical_json_bytes L message) (take 32 (list_of (payload p))))"

lemma verify_board_signature_signed:
  "verify_board_signature L address (canonical_json_bytes L message) signature = Inr u \<Longrightarrow>
     signed_by L address message signature"
  by (auto simp: verify_board_signature_def signed_by_def Let_def split: if_splits)

lemma validated_signed:
  "validate_create_post_request L mainnet post forced = Inr u \<Longrightarrow>
     signed_by L (bcp_author_address post) (post_signable post) (bcp_signature post)"
  "validate_create_reaction_request L mainnet reaction = Inr u \<Longrightarrow>
     signed_by L (bcr_actor_address reaction) (reaction_signable reaction) (bcr_signature reaction)"
  "validate_create_follow_request L mainnet follow path = Inr u \<Longrightarrow>
     signed_by L (bcf_actor_address follow) (follow_signable follow) (bcf_signature follow)"
  "validate_create_report_request L mainnet report = Inr u \<Longrightarrow>
     signed_by L (bcx_actor_address report) (report_signable report) (bcx_signature report)"
  by (auto simp: validate_create_post_request_def validate_create_reaction_request_def validate_create_follow_request_def
      validate_create_report_request_def Let_def verify_board_signature_signed split: if_splits)

lemma board_commit_fails:
  "board_quiet env \<Longrightarrow> board_commit env kind w d = (Inl e, d') \<Longrightarrow> d' = d"
  by (auto simp: board_commit_def board_quiet_def split: if_splits)

text \<open>
  C18. Without interference, a handler that changes the board was given a signature over the whole
  request, except the post in its path, that the key of the acting address verifies: for posts,
  reactions, follows and reports.
\<close>

theorem board_changes_signed:
  assumes "board_quiet env"
  shows "(snd (create_post_record L mainnet env post forced d) \<noteq> d \<longrightarrow>
            signed_by L (bcp_author_address post) (post_signable post) (bcp_signature post)) \<and>
         (snd (toggle_reaction_record L mainnet env post_id reaction d) \<noteq> d \<longrightarrow>
            signed_by L (bcr_actor_address reaction) (reaction_signable reaction) (bcr_signature reaction)) \<and>
         (snd (apply_follow_state L mainnet env path follow d) \<noteq> d \<longrightarrow>
            signed_by L (bcf_actor_address follow) (follow_signable follow) (bcf_signature follow)) \<and>
         (snd (submit_report_record L mainnet env post_id report d) \<noteq> d \<longrightarrow>
            signed_by L (bcx_actor_address report) (report_signable report) (bcx_signature report))"
proof (intro conjI impI)
  assume "snd (create_post_record L mainnet env post forced d) \<noteq> d"
  then show "signed_by L (bcp_author_address post) (post_signable post) (bcp_signature post)"
    by (cases "validate_create_post_request L mainnet post forced")
      (simp_all add: create_post_record_def prepare_post_def validated_signed)
next
  assume "snd (toggle_reaction_record L mainnet env post_id reaction d) \<noteq> d"
  then show "signed_by L (bcr_actor_address reaction) (reaction_signable reaction) (bcr_signature reaction)"
    by (cases "validate_create_reaction_request L mainnet reaction")
      (simp_all add: toggle_reaction_record_def validated_signed Let_def)
next
  assume "snd (apply_follow_state L mainnet env path follow d) \<noteq> d"
  then show "signed_by L (bcf_actor_address follow) (follow_signable follow) (bcf_signature follow)"
    by (cases "validate_create_follow_request L mainnet follow path")
      (simp_all add: apply_follow_state_def validated_signed Let_def)
next
  assume "snd (submit_report_record L mainnet env post_id report d) \<noteq> d"
  then show "signed_by L (bcx_actor_address report) (report_signable report) (bcx_signature report)"
    by (cases "validate_create_report_request L mainnet report")
      (simp_all add: submit_report_record_def validated_signed Let_def)
qed

section \<open>Repeated requests\<close>

lemma load_post_response_row:
  "load_post_response L post_id d = Inr p \<longleftrightarrow>
     (\<exists>v. tget (d PBoardPostById) (utf8 (trim post_id)) = Some v \<and> bl_post_from_slice L v = Some p)"
  by (auto simp: load_post_response_def board_post_by_id_get_rtx_def split: option.splits)

lemma update_counts_commit:
  assumes "update_post_reply_count L now rtx post_id delta w = Inr w'"
  obtains p stored where "load_post_response L post_id rtx = Inr p" "storable L stored"
    "materialize_post_response_for_storage L now (p\<lparr>bp_reply_count := sat_i32 (bp_reply_count p + delta)\<rparr>) True = Inr stored"
    "\<And>d. commit w' d = store_post L stored (commit w d)"
  using assms unfolding update_post_reply_count_def by (auto elim!: write_post_commit)

text \<open>The effect of the writes of a new post on the partition of the identifiers of clients.\<close>

lemma post_writes_client_id:
  assumes "post_writes L env cid post d = Inr w"
  shows "tget (commit w d' PBoardClientGeneratedIdToPostId) (utf8 (trim cid)) = Some (utf8 (bp_id post))"
proof -
  obtain w0 where w0: "write_post_response_with_touch L (be_touched env) post False (begin_wtx d) = Inr w0"
    using assms by (auto simp: post_writes_def)
  show ?thesis
  proof (cases "bp_reply_to_post_id post")
    case None
    then show ?thesis
      using assms by (auto simp: post_writes_def w0 board_writes)
  next
    case (Some parent)
    then obtain key where u: "update_post_reply_count L (be_touched env) (be_before_count env d) parent 1
        (board_reply_insert_wtx key (board_client_generated_id_insert_wtx (trim cid) (bp_id post) w0)) = Inr w"
      using assms by (auto simp: post_writes_def w0 Let_def)
    show ?thesis
      by (rule update_counts_commit [OF u]) (simp add: board_writes)
  qed
qed

lemma from_utf8_utf8_ascii: "is_ascii s \<Longrightarrow> from_utf8 (utf8 s) = Some s"
proof -
  assume s: "is_ascii s"
  have "\<forall>c \<in> set s. unat (word_of_nat c :: byte) = c"
    using s by (auto simp: is_ascii_def unat_of_nat)
  then show "from_utf8 (utf8 s) = Some s"
    using s from_utf8_ascii [of "map word_of_nat s"] by (auto simp: utf8_ascii is_ascii_def comp_def map_idI)
qed

definition uuid_texts_ok :: "('addr, 'time, 'x) board_lib_scheme \<Rightarrow> bool" where
  "uuid_texts_ok L \<longleftrightarrow> (\<forall>u. bl_parse_uuid L (bl_uuid_string L u) = Some u \<and> bl_uuid_string L u \<noteq> [] \<and>
     (\<forall>c \<in> set (bl_uuid_string L u). is_ascii_hexdigit c \<or> c = 45))"

lemma uuid_text:
  assumes "uuid_texts_ok L"
  shows "trim (bl_uuid_string L u) = bl_uuid_string L u" "is_ascii (bl_uuid_string L u)"
    "124 \<notin> set (bl_uuid_string L u)" "from_utf8 (utf8 (bl_uuid_string L u)) = Some (bl_uuid_string L u)"
proof -
  have c: "c \<in> set (bl_uuid_string L u) \<Longrightarrow> 45 \<le> c \<and> c \<le> 102" for c
    using spec [OF assms [unfolded uuid_texts_ok_def], of u] by (auto simp: is_ascii_hexdigit_def is_ascii_digit_def)
  then show "trim (bl_uuid_string L u) = bl_uuid_string L u"
    by (intro trim_fixed) (fastforce simp: is_whitespace_def)
  show ascii: "is_ascii (bl_uuid_string L u)"
    using c by (fastforce simp: is_ascii_def)
  show "124 \<notin> set (bl_uuid_string L u)"
    using c by fastforce
  show "from_utf8 (utf8 (bl_uuid_string L u)) = Some (bl_uuid_string L u)"
    using ascii by (rule from_utf8_utf8_ascii)
qed

lemma new_post_id: "new_post L env request reply_to = Inr post \<Longrightarrow> bp_id post = bl_uuid_string L (be_uuid env)"
  by (auto simp: new_post_def Let_def split: option.splits)

text \<open>How a request to create a post ends.\<close>

lemma create_post_cases:
  assumes "create_post_record L mainnet env request forced d = (out, d')"
  obtains (refused) e where "out = Inl e" "d' = d \<or> d' = be_before_commit env (be_before_count env d)"
  | (present) p where "out = Inr p" "d' = d" "existing_post L (bcp_client_generated_id request) d = Inr (Some p)"
  | (new) post w where "validate_create_post_request L mainnet request forced = Inr ()"
      "new_post L env request (normalized_optional forced) = Inr post"
      "post_writes L env (bcp_client_generated_id request) post d = Inr w"
      "d' = commit w (be_before_commit env (be_before_count env d))" "out = load_post_response L (bp_id post) d'"
proof (cases "prepare_post L mainnet env request forced d")
  case (Inl e)
  then show thesis
    using assms refused [of e] by (simp add: create_post_record_def)
next
  case (Inr r)
  show thesis
  proof (cases r)
    case p: (Inl p)
    then have "existing_post L (bcp_client_generated_id request) d = Inr (Some p)"
      using Inr by (auto simp: prepare_post_def Let_def split: option.splits)
    then show thesis
      using assms present [of p] by (simp add: create_post_record_def Inr p)
  next
    case w: (Inr pw)
    obtain post w where pw: "pw = (post, w)"
      by (cases pw)
    then have "validate_create_post_request L mainnet request forced = Inr ()"
        "new_post L env request (normalized_optional forced) = Inr post"
        "post_writes L env (bcp_client_generated_id request) post d = Inr w"
      using Inr w by (auto simp: prepare_post_def Let_def split: option.splits)
    then show thesis
      using assms refused new [of post w]
      by (cases "be_conflict env") (auto simp: create_post_record_def Inr w pw board_commit_def)
  qed
qed

text \<open>
  A request to create a post that repeats the identifier its client chose is answered with the
  post of the first, and changes nothing: whoever sends it, and whatever it contains, once it
  passes the checks.
\<close>

theorem repeated_post_is_first:
  assumes lib: "uuid_texts_ok L"
    and first: "create_post_record L mainnet env request forced d = (Inr p, d')"
    and same: "trim (bcp_client_generated_id again) = trim (bcp_client_generated_id request)"
    and valid: "validate_create_post_request L mainnet again forced' = Inr ()"
  shows "create_post_record L mainnet env' again forced' d' = (Inr p, d')"
proof -
  have "existing_post L (bcp_client_generated_id request) d' = Inr (Some p)"
    using first
  proof (cases rule: create_post_cases)
    case (present q)
    then show ?thesis
      by simp
  next
    case (new post w)
    have "board_client_generated_id_get_rtx d' (trim (bcp_client_generated_id request)) = Some (utf8 (bp_id post))"
      using post_writes_client_id [OF new(3)] by (simp add: board_client_generated_id_get_rtx_def new(4))
    then show ?thesis
      using new(5) [symmetric] uuid_text [OF lib, of "be_uuid env"] new_post_id [OF new(2)]
      by (auto simp: existing_post_def board_post_by_id_get_rtx_def load_post_response_row)
  qed auto
  then have "existing_post L (bcp_client_generated_id again) d' = Inr (Some p)"
    using same by (simp add: existing_post_def)
  then show ?thesis
    using valid by (simp add: create_post_record_def prepare_post_def)
qed

end
