(* ===== verification/Board_Counts.thy ===== *)
theory Board_Counts
  imports Board_Access
begin

text \<open>
  The board without interference: in every state that its handlers reach, the counters of a post
  are the numbers of its replies and reactions, and the feed has exactly the posts that are no
  replies, under the time of their creation.
\<close>

section \<open>Counting rows\<close>

lemma scan_length:
  "length (filter (\<lambda>e. P (fst e)) (items t)) = card {k. tget t k \<noteq> None \<and> P k}"
proof -
  let ?es = "filter (\<lambda>e. P (fst e)) (items t)"
  have "distinct (map fst ?es)"
    by (rule key_sorted_distinct, rule key_sorted_filter, rule items_sorted)
  then have "card (set (map fst ?es)) = length (map fst ?es)"
    by (rule distinct_card)
  moreover have "set (map fst ?es) = {k \<in> fst ` set (items t). P k}"
    by auto
  moreover have "{k \<in> fst ` set (items t). P k} = {k. tget t k \<noteq> None \<and> P k}"
    unfolding kv.entry_of_key ..
  ultimately show ?thesis
    by (simp only: length_map)
qed

lemma finite_keys: "finite {k. tget t k \<noteq> None \<and> P k}"
  unfolding kv.entry_of_key by (rule finite_subset [of _ "fst ` set (items t)"]) auto

lemma scan_length_put:
  "length (filter (\<lambda>e. P (fst e)) (items (tput k v t))) =
     length (filter (\<lambda>e. P (fst e)) (items t)) + (if P k \<and> tget t k = None then 1 else 0)"
proof -
  define S where "S = {k. tget t k \<noteq> None \<and> P k}"
  have S: "finite S" "k \<in> S \<longleftrightarrow> tget t k \<noteq> None \<and> P k"
    using finite_keys unfolding S_def by blast+
  have "{k'. tget (tput k v t) k' \<noteq> None \<and> P k'} = (if P k then insert k S else S)"
    by (auto simp: S_def)
  then show ?thesis
    unfolding scan_length S_def [symmetric] using S by (simp add: card_insert_if)
qed

lemma scan_length_del:
  "length (filter (\<lambda>e. P (fst e)) (items (tdel k t))) =
     length (filter (\<lambda>e. P (fst e)) (items t)) - (if P k \<and> tget t k \<noteq> None then 1 else 0)"
proof -
  define S where "S = {k. tget t k \<noteq> None \<and> P k}"
  have S: "k \<in> S \<longleftrightarrow> tget t k \<noteq> None \<and> P k"
    unfolding S_def by blast
  have "{k'. tget (tdel k t) k' \<noteq> None \<and> P k'} = S - {k}"
    by (auto simp: S_def)
  then show ?thesis
    unfolding scan_length S_def [symmetric] using S by (simp add: card_Diff_singleton_if)
qed

definition reply_rows :: "db \<Rightarrow> uuid \<Rightarrow> nat" where
  "reply_rows d u = length (get_by_parent_post_id d u)"

definition reaction_rows :: "db \<Rightarrow> rstr \<Rightarrow> nat" where
  "reaction_rows d post_id = length (board_reaction_get_by_post_id d post_id)"

definition in_replies :: "uuid \<Rightarrow> bytes \<Rightarrow> bool" where
  "in_replies u k \<longleftrightarrow> list_of u @ replicate 8 0 \<le> k \<and> k \<le> list_of u @ replicate 8 255"

lemma reply_rows_scan:
  "reply_rows d u = length (filter (\<lambda>e. in_replies u (fst e)) (items (d PBoardReplyByParentCreatedAt)))"
  by (simp add: reply_rows_def get_by_parent_post_id_def trange_def in_replies_def)

lemma reaction_rows_scan:
  "reaction_rows d post_id = length (filter (\<lambda>e. prefix (utf8 (post_prefix post_id)) (fst e))
     (items (d PBoardReactionByPostActorEmoji)))"
  by (simp add: reaction_rows_def board_reaction_get_by_post_id_def tprefix_def)

lemma to_be_bytes_0: "to_be_bytes (0 :: u64) = replicate 8 0"
proof -
  have "be_nat n 0 = replicate n 0" for n
    by (induction n) (simp_all add: replicate_append_same)
  then show ?thesis
    by (simp add: to_be_bytes_def)
qed

lemma in_replies_brk: "in_replies u (brk_bytes k) \<longleftrightarrow> brk_parent_post_uuid k = u \<and> brk_created_at_ms k \<noteq> - 1"
  using brk.in_window [of "list_of u" 0 k] by (auto simp: in_replies_def to_be_bytes_0)

lemma db_insert_items: "db_insert p k v d p = tput k v (d p)" "db_remove p k d p = tdel k (d p)"
  by (simp_all add: db_insert_def db_remove_def)

declare utf8_append [simp]

definition is_text :: "rstr \<Rightarrow> bool" where
  "is_text s \<longleftrightarrow> (\<forall>c \<in> set s. c < 0x110000)"

lemma utf8_char_head:
  assumes "c < 0x110000" "n < 0x80" "utf8_char c @ bs = word_of_nat n # bs'"
  shows "c = n \<and> bs = bs'"
proof -
  define h where "h = (if c < 0x80 then c else if c < 0x800 then 0xC0 + c div 64
      else if c < 0x10000 then 0xE0 + c div 4096 else 0xF0 + c div 262144)"
  have h: "h < 256" "h < 0x80 \<longleftrightarrow> c < 0x80"
    using assms(1) by (auto simp: h_def)
  have "(word_of_nat h :: byte) = word_of_nat n"
    using assms(3) by (auto simp: utf8_char_def h_def split: if_splits)
  then have "h = n"
    using h(1) assms(2) by (simp add: word_unat_eq_iff unat_of_nat)
  then show ?thesis
    using assms h by (auto simp: h_def utf8_char_def)
qed

lemma utf8_inject_ascii:
  "is_text s \<Longrightarrow> is_ascii t \<Longrightarrow> utf8 s = utf8 t \<Longrightarrow> s = t"
proof (induction t arbitrary: s)
  case Nil
  then show ?case
    by (cases s) (auto simp: utf8_def utf8_char_def split: if_splits)
next
  case (Cons n t)
  have t: "utf8 (n # t) = word_of_nat n # utf8 t" "n < 0x80" "is_ascii t"
    using Cons.prems(2) by (simp_all add: utf8_def utf8_char_def is_ascii_def)
  then obtain c s' where s: "s = c # s'"
    using Cons.prems(3) by (cases s) (auto simp: utf8_def)
  then have "utf8_char c @ utf8 s' = word_of_nat n # utf8 t" "c < 0x110000" "is_text s'"
    using Cons.prems t by (auto simp: utf8_def is_text_def)
  then have "c = n" "utf8 s' = utf8 t"
    using utf8_char_head t(2) by blast+
  then show ?case
    using Cons.IH [of s'] \<open>is_text s'\<close> t(3) by (simp add: s)
qed

text \<open>The rows of one post are not those of another: an identifier has no bar.\<close>

lemma prefix_bar:
  assumes "(124 :: byte) \<notin> set a" "124 \<notin> set b" "prefix (a @ [124]) (b @ [124] @ c)"
  shows "a = b"
  using assms
proof (induction a arbitrary: b)
  case Nil
  then show ?case
    by (cases b) auto
next
  case (Cons x a)
  then show ?case
    by (cases b) auto
qed

lemma prefix_post:
  assumes lib: "uuid_texts_ok L"
  shows "prefix (utf8 (post_prefix (bl_uuid_string L u))) (utf8 (reaction_key unicode (bl_uuid_string L u') actor emoji)) \<longleftrightarrow>
     u = u'"
proof -
  have bar: "utf8 bar = [124]"
    by (simp add: utf8_def utf8_char_def str_def)
  have no_bar: "(124 :: byte) \<notin> set (utf8 (bl_uuid_string L x))" for x
    using uuid_text(2,3) [OF lib, of x] by (auto simp: utf8_ascii is_ascii_def word_unat_eq_iff unat_of_nat)
  have "u = u'" if "utf8 (bl_uuid_string L u) = utf8 (bl_uuid_string L u')"
  proof -
    have "bl_uuid_string L u = bl_uuid_string L u'"
      using that uuid_text(4) [OF lib] by (metis option.inject)
    then show ?thesis
      using lib unfolding uuid_texts_ok_def by (metis option.inject)
  qed
  then show ?thesis
    using prefix_bar [OF no_bar no_bar, of u u'] uuid_text(1) [OF lib]
    by (auto simp: post_prefix_def reaction_key_def bar)
qed

section \<open>The invariant\<close>

text \<open>
  What the crates promise: identifiers are written in hexadecimal digits and hyphens and read back,
  an address is made of letters, digits and colons,
  stored posts and follows are read back, no time is as late as the last millisecond of 64 bits or
  written as the empty text, and visible characters make the value of a header.
\<close>

definition addresses_ok :: "('addr, 'time, 'x) board_lib_scheme \<Rightarrow> bool" where
  "addresses_ok L \<longleftrightarrow> (\<forall>s. bl_rpc_address L s \<noteq> None \<longrightarrow>
     (\<forall>c \<in> set s. is_ascii_lowercase c \<or> 65 \<le> c \<and> c \<le> 90 \<or> is_ascii_digit c \<or> c = 58))"

definition board_lib_ok :: "('addr, 'time, 'x) board_lib_scheme \<Rightarrow> bool" where
  "board_lib_ok L \<longleftrightarrow> uuid_texts_ok L \<and> addresses_ok L \<and> (\<forall>p. bl_post_from_slice L (bl_post_to_vec L p) = Some p) \<and>
     (\<forall>f. bl_follow_from_slice L (bl_follow_to_vec L f) = Some f) \<and>
     (\<forall>t. millis_of_nanos (bl_unix_timestamp_nanos L t) < 2 ^ 64 - 1) \<and> bl_parse_time L [] = None \<and>
     (\<forall>s. (\<forall>c \<in> set s. 32 < c \<and> c < 127) \<longrightarrow> bl_header_value L s)"

abbreviation post_row :: "('addr, 'time, 'x) board_lib_scheme \<Rightarrow> db \<Rightarrow> uuid \<Rightarrow> bytes option" where
  "post_row L d u \<equiv> tget (d PBoardPostById) (utf8 (bl_uuid_string L u))"

definition post_ok :: "('addr, 'time, 'x) board_lib_scheme \<Rightarrow> db \<Rightarrow> uuid \<Rightarrow> board_post_response \<Rightarrow> bool" where
  "post_ok L d u p \<longleftrightarrow> bp_id p = bl_uuid_string L u \<and> storable L p \<and>
     bp_reply_count p = i32_of_len (reply_rows d u) \<and> bp_reaction_count p = int (reaction_rows d (bp_id p)) \<and>
     (bp_reply_to_post_id p = None \<longrightarrow> tget (d PBoardPostByCreatedAt) (bpk_bytes (feed_key L p)) = Some (bl_post_to_vec L p))"

definition posts_ok :: "('addr, 'time, 'x) board_lib_scheme \<Rightarrow> db \<Rightarrow> bool" where
  "posts_ok L d \<longleftrightarrow> (\<forall>k v. tget (d PBoardPostById) k = Some v \<longrightarrow>
     (\<exists>u p. k = utf8 (bl_uuid_string L u) \<and> v = bl_post_to_vec L p \<and> post_ok L d u p))"

definition feed_rows_ok :: "('addr, 'time, 'x) board_lib_scheme \<Rightarrow> db \<Rightarrow> bool" where
  "feed_rows_ok L d \<longleftrightarrow> (\<forall>k v. tget (d PBoardPostByCreatedAt) k = Some v \<longrightarrow>
     (\<exists>u p. k = bpk_bytes (feed_key L p) \<and> v = bl_post_to_vec L p \<and> bp_id p = bl_uuid_string L u \<and>
        bp_reply_to_post_id p = None \<and> storable L p \<and> post_row L d u = Some v))"

text \<open>Replies and reactions belong to posts that are there.\<close>

definition rows_owned :: "('addr, 'time, 'x) board_lib_scheme \<Rightarrow> uuid set \<Rightarrow> db \<Rightarrow> bool" where
  "rows_owned L us d \<longleftrightarrow>
     (\<forall>k. tget (d PBoardReplyByParentCreatedAt) k \<noteq> None \<longrightarrow>
        (\<exists>key. k = brk_bytes key \<and> brk_parent_post_uuid key \<in> us \<and> brk_reply_uuid key \<in> us)) \<and>
     (\<forall>k. tget (d PBoardReactionByPostActorEmoji) k \<noteq> None \<longrightarrow>
        (\<exists>u actor emoji. k = utf8 (reaction_key (bl_unicode L) (bl_uuid_string L u) actor emoji) \<and> u \<in> us))"

definition board_ok :: "('addr, 'time, 'x) board_lib_scheme \<Rightarrow> db \<Rightarrow> bool" where
  "board_ok L d \<longleftrightarrow> posts_ok L d \<and> feed_rows_ok L d \<and> rows_owned L {u. post_row L d u \<noteq> None} d"

lemma uuid_text_inject:
  assumes "uuid_texts_ok L"
  shows "bl_uuid_string L u = bl_uuid_string L u' \<longleftrightarrow> u = u'"
    "utf8 (bl_uuid_string L u) = utf8 (bl_uuid_string L u') \<longleftrightarrow> u = u'"
  using assms uuid_text(4) [OF assms] unfolding uuid_texts_ok_def by (metis option.inject)+

lemma feed_key_uuid:
  assumes "uuid_texts_ok L" "bp_id p = bl_uuid_string L u"
  shows "bpk_post_uuid (feed_key L p) = u"
  using assms uuid_text(1) [OF assms(1)] by (simp add: feed_key_def uuid_texts_ok_def)

lemma scan_none: "(\<And>k. tget t k \<noteq> None \<Longrightarrow> \<not> P k) \<Longrightarrow> length (filter (\<lambda>e. P (fst e)) (items t)) = 0"
  using kv.scan_empty [of t "\<lambda>e. P (fst e)"] by fastforce

lemma no_rows_of_new_post:
  assumes lib: "uuid_texts_ok L" and owned: "rows_owned L us d" and new: "u \<notin> us"
  shows "reply_rows d u = 0" "reaction_rows d (bl_uuid_string L u) = 0"
proof -
  have "\<not> in_replies u k" if "tget (d PBoardReplyByParentCreatedAt) k \<noteq> None" for k
    using owned that new unfolding rows_owned_def by (metis in_replies_brk)
  then show "reply_rows d u = 0"
    unfolding reply_rows_scan by (rule scan_none)
  have "\<not> prefix (utf8 (post_prefix (bl_uuid_string L u))) k" if "tget (d PBoardReactionByPostActorEmoji) k \<noteq> None" for k
    using owned that new unfolding rows_owned_def by (metis prefix_post [OF lib])
  then show "reaction_rows d (bl_uuid_string L u) = 0"
    unfolding reaction_rows_scan by (rule scan_none)
qed

text \<open>What is read after a post is written.\<close>

lemma store_post_get:
  "tget (store_post L p d PBoardPostById) k =
     (if k = utf8 (bp_id p) then Some (bl_post_to_vec L p) else tget (d PBoardPostById) k)"
  "tget (store_post L p d PBoardPostByCreatedAt) k =
     (if k = bpk_bytes (feed_key L p) \<and> bp_reply_to_post_id p = None then Some (bl_post_to_vec L p)
      else tget (d PBoardPostByCreatedAt) k)"
  by (simp_all add: store_post_def Let_def)

lemma store_post_rows [simp]:
  "reply_rows (store_post L p d) u = reply_rows d u" "reaction_rows (store_post L p d) i = reaction_rows d i"
  by (simp_all add: reply_rows_scan reaction_rows_scan)

lemma feed_key_other:
  assumes "uuid_texts_ok L" "bp_id p = bl_uuid_string L u" "bp_id q = bl_uuid_string L u'" "u' \<noteq> u"
  shows "bpk_bytes (feed_key L q) \<noteq> bpk_bytes (feed_key L p)"
  using feed_key_uuid [OF assms(1,2)] feed_key_uuid [OF assms(1,3)] assms(4) by (metis bpk.enc_inject)

text \<open>
  A post is written: a new one, or one that is there with other counters, while rows of replies and
  reactions may have been changed for it alone.
\<close>

definition rewritten_for :: "('addr, 'time, 'x) board_lib_scheme \<Rightarrow> uuid \<Rightarrow> board_post_response \<Rightarrow> db \<Rightarrow> db \<Rightarrow> bool" where
  "rewritten_for L u p d d1 \<longleftrightarrow>
     d1 PBoardPostById = d PBoardPostById \<and> d1 PBoardPostByCreatedAt = d PBoardPostByCreatedAt \<and>
     rows_owned L (insert u {u. post_row L d u \<noteq> None}) d1 \<and>
     bp_id p = bl_uuid_string L u \<and> storable L p \<and> bp_reply_count p = i32_of_len (reply_rows d1 u) \<and>
     bp_reaction_count p = int (reaction_rows d1 (bp_id p)) \<and>
     (\<forall>q. post_row L d u = Some (bl_post_to_vec L q) \<longrightarrow>
        bp_reply_to_post_id q = bp_reply_to_post_id p \<and> bp_created_at q = bp_created_at p) \<and>
     (\<forall>u'. u' \<noteq> u \<and> post_row L d u' \<noteq> None \<longrightarrow>
        reply_rows d1 u' = reply_rows d u' \<and> reaction_rows d1 (bl_uuid_string L u') = reaction_rows d (bl_uuid_string L u'))"

lemma store_post_posts_ok:
  assumes texts: "uuid_texts_ok L" and ok: "posts_ok L d" and re: "rewritten_for L u p d d1"
  shows "posts_ok L (store_post L p d1)"
  unfolding posts_ok_def
proof (intro allI impI)
  let ?d = "store_post L p d1"
  have p: "bp_id p = bl_uuid_string L u" "post_ok L ?d u p"
    using re by (simp_all add: rewritten_for_def post_ok_def store_post_get)
  fix k v assume v: "tget (?d PBoardPostById) k = Some v"
  show "\<exists>u' q. k = utf8 (bl_uuid_string L u') \<and> v = bl_post_to_vec L q \<and> post_ok L ?d u' q"
  proof (cases "k = utf8 (bl_uuid_string L u)")
    case True
    then show ?thesis
      using v p by (intro exI [of _ u] exI [of _ p]) (simp add: store_post_get)
  next
    case False
    then have row: "tget (d PBoardPostById) k = Some v"
      using v re p(1) by (simp add: store_post_get rewritten_for_def)
    then obtain u' q where q: "k = utf8 (bl_uuid_string L u')" "v = bl_post_to_vec L q" "post_ok L d u' q"
      using ok unfolding posts_ok_def by blast
    then have "u' \<noteq> u"
      using False by auto
    then have "reply_rows d1 u' = reply_rows d u'" "reaction_rows d1 (bl_uuid_string L u') = reaction_rows d (bl_uuid_string L u')"
        "d1 PBoardPostByCreatedAt = d PBoardPostByCreatedAt" "bpk_bytes (feed_key L q) \<noteq> bpk_bytes (feed_key L p)"
      using re row q feed_key_other [OF texts p(1)] by (auto simp: rewritten_for_def post_ok_def)
    then have "post_ok L ?d u' q"
      using q(3) by (simp add: post_ok_def store_post_get)
    then show ?thesis
      using q by blast
  qed
qed

lemma store_post_feed_rows_ok:
  assumes texts: "uuid_texts_ok L" and ok: "feed_rows_ok L d" and re: "rewritten_for L u p d d1"
  shows "feed_rows_ok L (store_post L p d1)"
  unfolding feed_rows_ok_def
proof (intro allI impI)
  let ?d = "store_post L p d1"
  have p: "bp_id p = bl_uuid_string L u" "storable L p"
    using re by (simp_all add: rewritten_for_def)
  fix k v assume v: "tget (?d PBoardPostByCreatedAt) k = Some v"
  show "\<exists>u' q. k = bpk_bytes (feed_key L q) \<and> v = bl_post_to_vec L q \<and> bp_id q = bl_uuid_string L u' \<and>
      bp_reply_to_post_id q = None \<and> storable L q \<and> post_row L ?d u' = Some v"
  proof (cases "k = bpk_bytes (feed_key L p) \<and> bp_reply_to_post_id p = None")
    case True
    then show ?thesis
      using v p by (intro exI [of _ u] exI [of _ p]) (simp add: store_post_get)
  next
    case False
    then have row: "tget (d PBoardPostByCreatedAt) k = Some v"
      using v re by (simp add: store_post_get rewritten_for_def split: if_splits)
    then obtain u' q where q: "k = bpk_bytes (feed_key L q)" "v = bl_post_to_vec L q" "bp_id q = bl_uuid_string L u'"
        "bp_reply_to_post_id q = None" "storable L q" "post_row L d u' = Some v"
      using ok unfolding feed_rows_ok_def by blast
    have "u' \<noteq> u"
    proof
      assume "u' = u"
      then have "bp_reply_to_post_id q = bp_reply_to_post_id p" "bp_created_at q = bp_created_at p"
        using re q(2,6) unfolding rewritten_for_def by blast+
      then have "bp_reply_to_post_id p = None" "feed_key L q = feed_key L p"
        using q(3,4) p(1) \<open>u' = u\<close> by (simp_all add: feed_key_def)
      then show False
        using False q(1) by simp
    qed
    then have "post_row L ?d u' = Some v"
      using q(6) re p(1) by (simp add: store_post_get uuid_text_inject [OF texts] rewritten_for_def)
    then show ?thesis
      using q by blast
  qed
qed

lemma store_post_ok:
  assumes texts: "uuid_texts_ok L" and ok: "board_ok L d" and re: "rewritten_for L u p d d1"
  shows "board_ok L (store_post L p d1)"
proof -
  have "{u'. post_row L (store_post L p d1) u' \<noteq> None} = insert u {u. post_row L d u \<noteq> None}"
    using re by (auto simp: store_post_get uuid_text_inject [OF texts] rewritten_for_def)
  then have "rows_owned L {u'. post_row L (store_post L p d1) u' \<noteq> None} (store_post L p d1)"
    using re by (simp add: rows_owned_def rewritten_for_def)
  then show ?thesis
    using ok store_post_posts_ok [OF texts _ re] store_post_feed_rows_ok [OF texts _ re] unfolding board_ok_def by blast
qed


section \<open>Handlers keep the invariant\<close>

lemma board_ok_frame:
  assumes "d' PBoardPostById = d PBoardPostById" "d' PBoardPostByCreatedAt = d PBoardPostByCreatedAt"
    "d' PBoardReplyByParentCreatedAt = d PBoardReplyByParentCreatedAt"
    "d' PBoardReactionByPostActorEmoji = d PBoardReactionByPostActorEmoji"
  shows "board_ok L d' \<longleftrightarrow> board_ok L d"
  using assms
  by (simp add: board_ok_def posts_ok_def feed_rows_ok_def rows_owned_def post_ok_def reply_rows_scan reaction_rows_scan)

lemma board_lib_laws:
  assumes "board_lib_ok L"
  shows "uuid_texts_ok L" "bl_post_from_slice L (bl_post_to_vec L p) = Some p"
    "bl_post_to_vec L p = bl_post_to_vec L q \<longleftrightarrow> p = q"
  using assms unfolding board_lib_ok_def by (blast, blast, metis option.inject)

lemma stored_post_id:
  assumes ok: "board_ok L d" and scalar: "is_text s" and row: "tget (d PBoardPostById) (utf8 s) \<noteq> None"
    and lib: "board_lib_ok L"
  obtains u where "s = bl_uuid_string L u"
proof -
  obtain u where "utf8 s = utf8 (bl_uuid_string L u)"
    using ok row unfolding board_ok_def posts_ok_def by blast
  then have "s = bl_uuid_string L u"
    using utf8_inject_ascii [OF scalar] uuid_text(2) [OF board_lib_laws(1) [OF lib]] by blast
  then show thesis
    by (rule that)
qed

lemma loaded_post:
  assumes lib: "board_lib_ok L" and ok: "board_ok L d" and scalar: "is_text (trim post_id)"
    and load: "load_post_response L post_id d = Inr p"
  obtains u where "trim post_id = bl_uuid_string L u" "post_row L d u = Some (bl_post_to_vec L p)" "post_ok L d u p"
proof -
  obtain v where v: "tget (d PBoardPostById) (utf8 (trim post_id)) = Some v" "bl_post_from_slice L v = Some p"
    using load by (auto simp: load_post_response_row)
  then obtain u where u: "trim post_id = bl_uuid_string L u"
    using stored_post_id [OF ok scalar _ lib] by auto
  obtain u' q where q: "utf8 (trim post_id) = utf8 (bl_uuid_string L u')" "v = bl_post_to_vec L q" "post_ok L d u' q"
    using ok v(1) unfolding board_ok_def posts_ok_def by blast
  then have "u' = u" "q = p"
    using u v(2) board_lib_laws [OF lib] by (auto simp: uuid_text_inject)
  then show thesis
    using that [OF u] u v(1) q by simp
qed

text \<open>A stored post is written again with other counters, after a change of its rows.\<close>

lemma rewritten_post:
  assumes lib: "board_lib_ok L" and row: "post_row L d u = Some (bl_post_to_vec L p)" and ok: "post_ok L d u p"
    and q: "storable L q" "bp_id q = bp_id p" "bp_reply_to_post_id q = bp_reply_to_post_id p" "bp_created_at q = bp_created_at p"
    and same: "d1 PBoardPostById = d PBoardPostById" "d1 PBoardPostByCreatedAt = d PBoardPostByCreatedAt"
    and owned: "rows_owned L {u. post_row L d u \<noteq> None} d1"
    and counts: "bp_reply_count q = i32_of_len (reply_rows d1 u)" "bp_reaction_count q = int (reaction_rows d1 (bl_uuid_string L u))"
    and others: "\<And>u'. u' \<noteq> u \<Longrightarrow> reply_rows d1 u' = reply_rows d u'"
      "\<And>u'. u' \<noteq> u \<Longrightarrow> reaction_rows d1 (bl_uuid_string L u') = reaction_rows d (bl_uuid_string L u')"
  shows "rewritten_for L u q d d1"
proof -
  have "insert u {u. post_row L d u \<noteq> None} = {u. post_row L d u \<noteq> None}"
    using row by auto
  moreover have "bp_id q = bl_uuid_string L u"
    using ok q by (simp add: post_ok_def)
  ultimately show ?thesis
    using q same owned counts others row board_lib_laws(3) [OF lib] by (auto simp: rewritten_for_def)
qed

lemma new_post_rewritten:
  assumes lib: "board_lib_ok L" and ok: "board_ok L d" and new: "post_row L d u = None"
    and p: "bp_id p = bl_uuid_string L u" "storable L p" "bp_reply_count p = 0" "bp_reaction_count p = 0"
  shows "rewritten_for L u p d d"
proof -
  let ?us = "{u. post_row L d u \<noteq> None}"
  have owned: "rows_owned L ?us d" and "u \<notin> ?us"
    using ok new by (simp_all add: board_ok_def)
  then have "reply_rows d u = 0" "reaction_rows d (bl_uuid_string L u) = 0"
    using no_rows_of_new_post [OF board_lib_laws(1) [OF lib]] by blast+
  moreover have "rows_owned L (insert u ?us) d"
    using owned unfolding rows_owned_def by blast
  ultimately show ?thesis
    using p new by (simp add: rewritten_for_def i32_of_len_def I32_MAX_def)
qed

end
