(* ===== verification/Board_Steps.thy ===== *)
theory Board_Steps
  imports Board_Counts
begin

text \<open>
  The handlers of the board as a transition system, each run without interference, and what holds
  in every state they reach.
\<close>

section \<open>Handlers keep the invariant\<close>

text \<open>A row of a reply is added.\<close>

lemma reply_row_added:
  assumes key: "brk_parent_post_uuid key = u" "brk_created_at_ms key \<noteq> - 1"
    and new: "tget (d PBoardReplyByParentCreatedAt) (brk_bytes key) = None"
  shows "reply_rows (db_insert PBoardReplyByParentCreatedAt (brk_bytes key) [] d) u' =
     reply_rows d u' + (if u' = u then 1 else 0)"
    "reaction_rows (db_insert PBoardReplyByParentCreatedAt (brk_bytes key) [] d) i = reaction_rows d i"
  using key new by (auto simp: reply_rows_scan reaction_rows_scan db_insert_items scan_length_put in_replies_brk
      simp del: items_simps)

text \<open>A row of a reaction is added or removed.\<close>

lemma reaction_row_changed:
  assumes lib: "uuid_texts_ok L"
    and d1: "d1 = (if b then db_remove else (\<lambda>p k. db_insert p k [])) PBoardReactionByPostActorEmoji
       (utf8 (reaction_key unicode (bl_uuid_string L u) actor emoji)) d"
    and b: "b \<longleftrightarrow> board_reaction_contains_rtx unicode d (bl_uuid_string L u) actor emoji"
  shows "u' \<noteq> u \<Longrightarrow> reaction_rows d1 (bl_uuid_string L u') = reaction_rows d (bl_uuid_string L u')"
    "int (reaction_rows d1 (bl_uuid_string L u)) = int (reaction_rows d (bl_uuid_string L u)) + (if b then - 1 else 1)"
    "reply_rows d1 i = reply_rows d i"
proof -
  let ?k = "utf8 (reaction_key unicode (bl_uuid_string L u) actor emoji)"
  let ?t = "d PBoardReactionByPostActorEmoji"
  have k: "b \<longleftrightarrow> tget ?t ?k \<noteq> None"
    using b by (simp add: board_reaction_contains_rtx_def)
  have "{e. tget ?t e \<noteq> None \<and> prefix (utf8 (post_prefix (bl_uuid_string L u))) e} \<noteq> {}" if b
    using that k prefix_post [OF lib] by blast
  then have "0 < reaction_rows d (bl_uuid_string L u)" if b
    unfolding reaction_rows_scan scan_length using that finite_keys by (simp add: card_gt_0_iff)
  then show "u' \<noteq> u \<Longrightarrow> reaction_rows d1 (bl_uuid_string L u') = reaction_rows d (bl_uuid_string L u')"
    "int (reaction_rows d1 (bl_uuid_string L u)) = int (reaction_rows d (bl_uuid_string L u)) + (if b then - 1 else 1)"
    "reply_rows d1 i = reply_rows d i"
    using k by (auto simp: d1 reaction_rows_scan reply_rows_scan db_insert_items scan_length_put scan_length_del
        prefix_post [OF lib] of_nat_diff Suc_le_eq simp del: items_simps)
qed

lemma rows_owned_insert:
  assumes "rows_owned L us d"
  shows "brk_parent_post_uuid key \<in> us \<Longrightarrow> brk_reply_uuid key \<in> us \<Longrightarrow>
      rows_owned L us (db_insert PBoardReplyByParentCreatedAt (brk_bytes key) v d)"
    "u \<in> us \<Longrightarrow> rows_owned L us
      (db_insert PBoardReactionByPostActorEmoji (utf8 (reaction_key (bl_unicode L) (bl_uuid_string L u) actor emoji)) v d)"
    "rows_owned L us (db_remove PBoardReactionByPostActorEmoji k d)"
  using assms unfolding rows_owned_def by (auto simp: db_insert_items)

lemma sat_i32_count [simp]: "sat_i32 (i32_of_len n + 1) = i32_of_len (Suc n)"
  by (simp add: sat_i32_def i32_of_len_def I32_MAX_def)

lemma count_reactions_rows: "count_reactions_for_post d i = i32_of_len (reaction_rows d i)"
proof -
  have "fold (\<lambda>_ total. sat_i32 (total + 1)) xs (i32_of_len n) = i32_of_len (n + length xs)" for xs :: "bytes list" and n
    by (induction xs arbitrary: n) simp_all
  from this [of _ 0] show ?thesis
    by (simp add: count_reactions_for_post_def reaction_rows_def i32_of_len_def I32_MAX_def)
qed

lemma parse_timestamp_not_last:
  assumes "board_lib_ok L" "parse_timestamp_ms L s = Inr ms"
  shows "ms \<noteq> - 1"
proof -
  obtain t where t: "ms = word_of_int (millis_of_nanos (bl_unix_timestamp_nanos L t))"
      "0 \<le> millis_of_nanos (bl_unix_timestamp_nanos L t)"
    using assms(2) by (auto simp: parse_timestamp_ms_def Let_def split: option.splits if_splits)
  have "millis_of_nanos (bl_unix_timestamp_nanos L t) < 2 ^ 64 - 1"
    using assms(1) by (simp add: board_lib_ok_def)
  then have "uint ms < 2 ^ 64 - 1"
    using t by (simp add: uint_word_of_int)
  then show ?thesis
    by (auto simp: word_uint_eq_iff uint_word_ariths)
qed


lemma quiet_commit:
  assumes "board_quiet env"
  shows "board_commit env kind w d =
     (if be_conflict env then (Inl (BoardError (str ''board '' @ str kind @ str '' write conflict'')), d) else (Inr (), commit w d))"
    "be_before_count env d = d"
  using assms by (auto simp: board_quiet_def board_commit_def)

lemma toggle_reaction_ok:
  assumes lib: "board_lib_ok L" and quiet: "board_quiet env" and ok: "board_ok L d" and scalar: "is_text (trim post_id)"
    and bound: "int (reaction_rows d (trim post_id)) < I32_MAX"
  shows "board_ok L (snd (toggle_reaction_record L mainnet env post_id request d))"
proof -
  let ?key = "reaction_key (bl_unicode L) (trim post_id) (trim (bcr_actor_address request)) (trim (bcr_emoji request))"
  let ?b = "board_reaction_contains_rtx (bl_unicode L) d (trim post_id) (trim (bcr_actor_address request)) (trim (bcr_emoji request))"
  let ?new = "sat_i32 (if ?b then count_reactions_for_post d (trim post_id) - 1 else count_reactions_for_post d (trim post_id) + 1)"
  define w0 where "w0 = (if ?b then board_reaction_remove_wtx else board_reaction_insert_wtx)
    (bl_unicode L) (trim post_id) (trim (bcr_actor_address request)) (trim (bcr_emoji request)) (begin_wtx d)"
  define d1 where "d1 = (if ?b then db_remove else (\<lambda>p k. db_insert p k [])) PBoardReactionByPostActorEmoji (utf8 ?key) d"
  have w0: "commit w0 d = d1"
    by (simp add: w0_def d1_def board_writes)
  show ?thesis
  proof (cases "snd (toggle_reaction_record L mainnet env post_id request d) = d")
    case False
    then obtain w where w: "update_post_reaction_count L (be_touched env) d (trim post_id) ?new w0 = Inr w"
        "snd (toggle_reaction_record L mainnet env post_id request d) = commit w d"
      by (auto simp: toggle_reaction_record_def Let_def quiet_commit [OF quiet] w0_def [symmetric] split: sum.splits if_splits)
    then obtain p where p: "load_post_response L (trim post_id) d = Inr p"
        "write_post_response_with_touch L (be_touched env) (p\<lparr>bp_reaction_count := max ?new 0\<rparr>) True w0 = Inr w"
      by (auto simp: update_post_reaction_count_def)
    obtain u where u: "trim post_id = bl_uuid_string L u" "post_row L d u = Some (bl_post_to_vec L p)" "post_ok L d u p"
      using loaded_post [OF lib ok _ p(1)] scalar by auto
    obtain q where q: "materialize_post_response_for_storage L (be_touched env) (p\<lparr>bp_reaction_count := max ?new 0\<rparr>) True = Inr q"
        "commit w d = store_post L q d1" "storable L q"
      using write_post_commit [OF p(2)] w0 by metis
    note rows = reaction_row_changed [OF board_lib_laws(1) [OF lib] d1_def [unfolded u(1)]]
    have "rewritten_for L u q d d1"
    proof (rule rewritten_post [OF lib u(2,3)])
      show "bp_reaction_count q = int (reaction_rows d1 (bl_uuid_string L u))"
        using rows(2) [OF refl] bound materialize_fields [OF q(1)]
        by (auto simp: count_reactions_rows u(1) i32_of_len_def sat_i32_def I32_MAX_def)
      show "rows_owned L {u. post_row L d u \<noteq> None} d1"
        using ok u(2) by (auto simp: d1_def u(1) board_ok_def intro: rows_owned_insert)
    qed (use materialize_fields [OF q(1)] q(3) u(3) rows(1,3) in \<open>auto simp: d1_def post_ok_def\<close>)
    then show ?thesis
      unfolding w(2) q(2) by (rule store_post_ok [OF board_lib_laws(1) [OF lib] ok])
  qed (simp add: ok)
qed


lemma submit_report_ok:
  assumes lib: "board_lib_ok L" and quiet: "board_quiet env" and ok: "board_ok L d" and scalar: "is_text (trim post_id)"
  shows "board_ok L (snd (submit_report_record L mainnet env post_id request d))"
proof (cases "snd (submit_report_record L mainnet env post_id request d) = d")
  case False
  then obtain p state k v w where p: "load_post_response L (trim post_id) d = Inr p"
      "write_post_response_with_touch L (be_touched env) (p\<lparr>bp_moderation_state := state\<rparr>) True
        (wtx_insert PBoardReportByPostActor k v (begin_wtx d)) = Inr w"
      "snd (submit_report_record L mainnet env post_id request d) = commit w d"
    by (auto simp: submit_report_record_def Let_def quiet_commit [OF quiet] board_writes split: sum.splits if_splits)
  obtain u where u: "post_row L d u = Some (bl_post_to_vec L p)" "post_ok L d u p"
    using loaded_post [OF lib ok _ p(1)] scalar by auto
  define d1 where "d1 = db_insert PBoardReportByPostActor k v d"
  obtain q where q: "materialize_post_response_for_storage L (be_touched env) (p\<lparr>bp_moderation_state := state\<rparr>) True = Inr q"
      "commit w d = store_post L q d1" "storable L q"
    using write_post_commit [OF p(2)] by (metis commit_simps(1,2) d1_def)
  have rows: "reply_rows d1 i = reply_rows d i" "reaction_rows d1 j = reaction_rows d j" for i j
    by (simp_all add: d1_def reply_rows_scan reaction_rows_scan)
  have parts: "d1 PBoardPostById = d PBoardPostById" "d1 PBoardPostByCreatedAt = d PBoardPostByCreatedAt"
      "d1 PBoardReplyByParentCreatedAt = d PBoardReplyByParentCreatedAt"
      "d1 PBoardReactionByPostActorEmoji = d PBoardReactionByPostActorEmoji"
    by (simp_all add: d1_def)
  have "rewritten_for L u q d d1"
    by (rule rewritten_post [OF lib u])
      (use materialize_fields [OF q(1)] q(3) u(2) ok in \<open>auto simp: rows parts post_ok_def board_ok_def rows_owned_def\<close>)
  then show ?thesis
    unfolding p(3) q(2) by (rule store_post_ok [OF board_lib_laws(1) [OF lib] ok])
qed (simp add: ok)

lemma apply_follow_ok:
  assumes quiet: "board_quiet env" and ok: "board_ok L d"
  shows "board_ok L (snd (apply_follow_state L mainnet env target request d))"
proof -
  have "board_ok L (commit (follow_writes unicode follow actor other bs d) d)" for unicode follow actor other bs
    using ok by (subst board_ok_frame [of _ d]) (simp_all add: follow_writes_def board_writes)
  then show ?thesis
    using ok by (auto simp: apply_follow_state_def Let_def quiet_commit [OF quiet] split: sum.split)
qed

text \<open>The writes of a new post: the post itself, and for a reply the row and the counter of its parent.\<close>

lemma post_writes_effect:
  assumes quiet: "be_before_count env d = d" and w: "post_writes L env cid post d = Inr w"
  obtains (post) stored where "materialize_post_response_for_storage L (be_touched env) post False = Inr stored"
      "storable L stored" "bp_reply_to_post_id post = None"
      "\<And>e. commit w e = db_insert PBoardClientGeneratedIdToPostId (utf8 (trim cid)) (utf8 (bp_id post)) (store_post L stored e)"
  | (reply) stored parent_id parent_uuid ms parent parent'
    where "materialize_post_response_for_storage L (be_touched env) post False = Inr stored"
      "storable L stored" "bp_reply_to_post_id post = Some parent_id" "bl_parse_uuid L parent_id = Some parent_uuid"
      "parse_timestamp_ms L (bp_created_at post) = Inr ms" "load_post_response L parent_id d = Inr parent"
      "materialize_post_response_for_storage L (be_touched env)
         (parent\<lparr>bp_reply_count := sat_i32 (bp_reply_count parent + 1)\<rparr>) True = Inr parent'" "storable L parent'"
      "\<And>e. commit w e = store_post L parent'
         (db_insert PBoardReplyByParentCreatedAt
           (brk_bytes \<lparr>brk_parent_post_uuid = parent_uuid, brk_created_at_ms = ms, brk_reply_uuid = be_uuid env\<rparr>) []
           (db_insert PBoardClientGeneratedIdToPostId (utf8 (trim cid)) (utf8 (bp_id post)) (store_post L stored e)))"
proof -
  obtain w0 where w0: "write_post_response_with_touch L (be_touched env) post False (begin_wtx d) = Inr w0"
    using w by (auto simp: post_writes_def)
  obtain stored where stored: "materialize_post_response_for_storage L (be_touched env) post False = Inr stored"
      "storable L stored" "\<And>d'. commit w0 d' = store_post L stored d'"
    using write_post_commit [OF w0] by (metis commit_simps(1))
  show thesis
  proof (cases "bp_reply_to_post_id post")
    case None
    then show thesis
      using w stored by (intro post [of stored]) (auto simp: post_writes_def w0 board_writes)
  next
    case (Some parent_id)
    then obtain parent_uuid ms where k: "bl_parse_uuid L parent_id = Some parent_uuid"
        "parse_timestamp_ms L (bp_created_at post) = Inr ms"
        "update_post_reply_count L (be_touched env) d parent_id 1
           (board_reply_insert_wtx \<lparr>brk_parent_post_uuid = parent_uuid, brk_created_at_ms = ms, brk_reply_uuid = be_uuid env\<rparr>
             (board_client_generated_id_insert_wtx (trim cid) (bp_id post) w0)) = Inr w"
      using w by (auto simp: post_writes_def w0 Let_def quiet)
    show thesis
      by (rule update_counts_commit [OF k(3)], rule reply [OF stored(1,2) Some k(1,2)]) (auto simp: board_writes stored(3))
  qed
qed


lemma client_id_ok: "board_ok L d \<Longrightarrow> board_ok L (db_insert PBoardClientGeneratedIdToPostId k v d)"
  by (subst board_ok_frame [of _ d]) simp_all

lemma stored_post_ok:
  assumes lib: "board_lib_ok L" and ok: "board_ok L d" and row: "post_row L d u = Some (bl_post_to_vec L p)"
  shows "post_ok L d u p"
proof -
  obtain u' q where q: "utf8 (bl_uuid_string L u) = utf8 (bl_uuid_string L u')" "bl_post_to_vec L p = bl_post_to_vec L q"
      "post_ok L d u' q"
    using ok row unfolding board_ok_def posts_ok_def by blast
  then show ?thesis
    using board_lib_laws [OF lib] by (auto simp: uuid_text_inject)
qed

lemma reply_parent_ok:
  assumes lib: "board_lib_ok L" and ok: "board_ok L d" and row: "post_row L d pu = Some (bl_post_to_vec L parent)"
    and reply: "post_row L d u \<noteq> None" and ms: "ms \<noteq> - 1"
    and key: "key = \<lparr>brk_parent_post_uuid = pu, brk_created_at_ms = ms, brk_reply_uuid = u\<rparr>"
    and new_row: "tget (d PBoardReplyByParentCreatedAt) (brk_bytes key) = None"
    and q: "materialize_post_response_for_storage L now
      (parent\<lparr>bp_reply_count := sat_i32 (bp_reply_count parent + 1)\<rparr>) True = Inr q" "storable L q"
  shows "board_ok L (store_post L q (db_insert PBoardReplyByParentCreatedAt (brk_bytes key) [] d))"
proof -
  define d1 where "d1 = db_insert PBoardReplyByParentCreatedAt (brk_bytes key) [] d"
  have p: "post_ok L d pu parent"
    using lib ok row by (rule stored_post_ok)
  have rows: "reply_rows d1 i = reply_rows d i + (if i = pu then 1 else 0)" "reaction_rows d1 j = reaction_rows d j" for i j
    unfolding d1_def by (rule reply_row_added; use key ms new_row in simp)+
  have parts: "d1 PBoardPostById = d PBoardPostById" "d1 PBoardPostByCreatedAt = d PBoardPostByCreatedAt"
    by (simp_all add: d1_def)
  have "rows_owned L {u. post_row L d u \<noteq> None} d1"
    unfolding d1_def using ok row reply by (intro rows_owned_insert(1)) (simp_all add: key board_ok_def)
  then have "rewritten_for L pu q d d1"
    by (intro rewritten_post [OF lib row p]) (use materialize_fields [OF q(1)] q(2) p in \<open>auto simp: rows parts post_ok_def\<close>)
  then show ?thesis
    unfolding d1_def [symmetric] by (rule store_post_ok [OF board_lib_laws(1) [OF lib] ok])
qed

lemma new_reply_row:
  assumes ok: "board_ok L d" and new: "post_row L d (brk_reply_uuid key) = None"
  shows "tget (d PBoardReplyByParentCreatedAt) (brk_bytes key) = None"
proof (rule ccontr)
  assume "tget (d PBoardReplyByParentCreatedAt) (brk_bytes key) \<noteq> None"
  then obtain key' where "brk_bytes key = brk_bytes key'" "post_row L d (brk_reply_uuid key') \<noteq> None"
    using ok unfolding board_ok_def rows_owned_def by blast
  then show False
    using new brk.enc_inject by auto
qed

lemma create_post_ok:
  assumes lib: "board_lib_ok L" and quiet: "board_quiet env" and ok: "board_ok L d"
    and new_uuid: "post_row L d (be_uuid env) = None" and scalar: "\<And>s. forced = Some s \<Longrightarrow> is_text (trim s)"
  shows "board_ok L (snd (create_post_record L mainnet env request forced d))"
proof -
  obtain out d' where d': "create_post_record L mainnet env request forced d = (out, d')"
    by fastforce
  then have "board_ok L d'"
  proof (cases rule: create_post_cases)
    case (refused e)
    then show ?thesis
      using ok quiet by (auto simp: board_quiet_def)
  next
    case (present p)
    then show ?thesis
      using ok by simp
  next
    case (new post w)
    let ?cid = "bcp_client_generated_id request" and ?u = "be_uuid env"
    have fields: "bp_id post = bl_uuid_string L ?u" "bp_reply_count post = 0" "bp_reaction_count post = 0"
        "bp_reply_to_post_id post = normalized_optional forced"
      using new(2) by (auto simp: new_post_def Let_def split: option.splits)
    have d'': "d' = commit w d"
      using new(4) quiet by (simp add: board_quiet_def)
    have first: "board_ok L (store_post L stored d)"
      if "materialize_post_response_for_storage L (be_touched env) post False = Inr stored" "storable L stored" for stored
      using store_post_ok [OF board_lib_laws(1) [OF lib] ok new_post_rewritten [OF lib ok new_uuid]] that
        materialize_fields [OF that(1)] fields by auto
    show ?thesis
      using quiet_commit(2) [OF quiet] new(3)
    proof (cases rule: post_writes_effect)
      case (post stored)
      then show ?thesis
        using first [OF post(1,2)] by (simp add: d'' client_id_ok)
    next
      case (reply stored parent_id parent_uuid ms parent parent')
      let ?d2 = "db_insert PBoardClientGeneratedIdToPostId (utf8 (trim ?cid)) (utf8 (bp_id post)) (store_post L stored d)"
      have parent_id: "trim parent_id = parent_id" "is_text (trim parent_id)"
        using fields(4) reply(3) scalar by (auto simp: normalized_optional_def nonempty_def split: Option.bind_splits if_splits)
      then obtain pu where pu: "parent_id = bl_uuid_string L pu" "post_row L d pu = Some (bl_post_to_vec L parent)"
        using loaded_post [OF lib ok _ reply(6)] by metis
      then have "parent_uuid = pu" "pu \<noteq> ?u"
        using reply(4) new_uuid board_lib_laws(1) [OF lib] by (auto simp: uuid_texts_ok_def)
      moreover have "bp_id stored = bl_uuid_string L ?u"
        using materialize_fields [OF reply(1)] fields(1) by auto
      ultimately have rows: "post_row L ?d2 pu = Some (bl_post_to_vec L parent)" "post_row L ?d2 ?u \<noteq> None"
        using pu(2) board_lib_laws(1) [OF lib] by (simp_all add: store_post_get uuid_text_inject)
      show ?thesis
        unfolding d'' reply(9) \<open>parent_uuid = pu\<close>
        by (rule reply_parent_ok [OF lib client_id_ok [OF first [OF reply(1,2)]] rows parse_timestamp_not_last [OF lib reply(5)]
            refl _ reply(7,8)]) (simp add: new_reply_row [OF ok] new_uuid)
    qed
  qed
  then show ?thesis
    by (simp add: d')
qed


section \<open>The handlers as steps\<close>

text \<open>
  A request runs alone; the identifier of a new post is new, text is made of scalar values, and a
  post has less than \<open>2 ^ 31 - 1\<close> reactions before another.
\<close>

inductive board_step ::
    "('addr, 'time, 'x) board_lib_scheme \<Rightarrow> ('paddr, 'y) push_lib_scheme \<Rightarrow> bool \<Rightarrow> db \<Rightarrow> db \<Rightarrow> bool" for L P mainnet where
  step_post: "board_quiet env \<Longrightarrow> post_row L d (be_uuid env) = None \<Longrightarrow>
    board_step L P mainnet d (snd (create_board_post L mainnet env post d))"
| step_reply: "board_quiet env \<Longrightarrow> post_row L d (be_uuid env) = None \<Longrightarrow> is_text (trim post_id) \<Longrightarrow>
    board_step L P mainnet d (fst (snd (create_board_reply L P mainnet env net post_id post (d, push))))"
| step_reaction: "board_quiet env \<Longrightarrow> is_text (trim post_id) \<Longrightarrow> int (reaction_rows d (trim post_id)) < I32_MAX \<Longrightarrow>
    board_step L P mainnet d (snd (toggle_board_reaction L mainnet env post_id reaction d))"
| step_follow: "board_quiet env \<Longrightarrow>
    board_step L P mainnet d (snd (set_board_follow_state L mainnet env address follow d))"
| step_report: "board_quiet env \<Longrightarrow> is_text (trim post_id) \<Longrightarrow>
    board_step L P mainnet d (snd (report_board_post L mainnet env post_id report d))"

definition board_start :: "('addr, 'time, 'x) board_lib_scheme \<Rightarrow> db \<Rightarrow> bool" where
  "board_start L d \<longleftrightarrow> board_lib_ok L \<and>
     (\<forall>p \<in> {PBoardPostById, PBoardPostByCreatedAt, PBoardReplyByParentCreatedAt, PBoardReactionByPostActorEmoji,
        PBoardFollowByFollowerTarget, PBoardFollowByTargetFollower}. \<forall>k. tget (d p) k = None)"

lemma handler_databases:
  "snd (create_board_post L mainnet env post d) = snd (create_post_record L mainnet env post None d)"
  "fst (snd (create_board_reply L P mainnet env net post_id post (d, push))) =
     snd (reply_record L mainnet env (trim post_id) post d)"
  "snd (toggle_board_reaction L mainnet env post_id reaction d) =
     snd (toggle_reaction_record L mainnet env (trim post_id) reaction d)"
  "snd (set_board_follow_state L mainnet env address follow d) =
     snd (apply_follow_state L mainnet env (trim address) follow d)"
  "snd (report_board_post L mainnet env post_id report d) =
     snd (submit_report_record L mainnet env (trim post_id) report d)"
  by (auto simp: create_board_post_def create_board_reply_def toggle_board_reaction_def set_board_follow_state_def
      report_board_post_def split: prod.split sum.split)

lemma reply_record_database:
  "snd (reply_record L mainnet env parent_id post d) = d \<or>
   snd (reply_record L mainnet env parent_id post d) = snd (create_post_record L mainnet env post (Some parent_id) d)"
  by (auto simp: reply_record_def split: prod.split sum.split)

interpretation board: invariant_system "board_start L" "board_step L P mainnet" "\<lambda>d. board_lib_ok L \<and> board_ok L d"
  for L P mainnet
proof
  show "board_lib_ok L \<and> board_ok L d" if "board_start L d" for d
    using that by (simp add: board_start_def board_ok_def posts_ok_def feed_rows_ok_def rows_owned_def)
  fix d d' assume inv: "board_lib_ok L \<and> board_ok L d" and step: "board_step L P mainnet d d'"
  have reply: "board_ok L (snd (reply_record L mainnet env (trim post_id) post d))"
    if "board_quiet env" "post_row L d (be_uuid env) = None" "is_text (trim post_id)" for env post_id post
    using reply_record_database [of L mainnet env "trim post_id" post d] inv
      create_post_ok [of L env d "Some (trim post_id)" mainnet post] that by auto
  show "board_lib_ok L \<and> board_ok L d'"
    using step inv
    by cases (auto simp: handler_databases toggle_reaction_ok apply_follow_ok submit_report_ok intro: reply create_post_ok)
qed

lemma feed_has_posts:
  assumes lib: "board_lib_ok L" and ok: "board_ok L d"
  shows "(\<exists>(k, v) \<in> set (board_post_by_created_at_iter_all d). bl_post_from_slice L v = Some p) \<longleftrightarrow>
      bp_reply_to_post_id p = None \<and> (\<exists>u. load_post_response L (bl_uuid_string L u) d = Inr p)"
proof safe
  note laws = board_lib_laws [OF lib]
  fix k v assume v: "(k, v) \<in> set (board_post_by_created_at_iter_all d)" "bl_post_from_slice L v = Some p"
  then obtain u q where q: "v = bl_post_to_vec L q" "bp_reply_to_post_id q = None" "post_row L d u = Some v"
    using ok unfolding board_post_by_created_at_iter_all_def tget_items [symmetric] board_ok_def feed_rows_ok_def by blast
  then show "bp_reply_to_post_id p = None" "\<exists>u. load_post_response L (bl_uuid_string L u) d = Inr p"
    using v laws(2) uuid_text(1) [OF laws(1)] by (auto simp: load_post_response_row)
next
  note laws = board_lib_laws [OF lib]
  fix u assume p: "bp_reply_to_post_id p = None" "load_post_response L (bl_uuid_string L u) d = Inr p"
  have "is_text (trim (bl_uuid_string L u))"
    using uuid_text(1,2) [OF laws(1), of u] by (fastforce simp: is_text_def is_ascii_def)
  then obtain u' where "post_ok L d u' p"
    using loaded_post [OF lib ok _ p(2)] by blast
  then have "(bpk_bytes (feed_key L p), bl_post_to_vec L p) \<in> set (board_post_by_created_at_iter_all d)"
    using p(1) by (simp add: post_ok_def board_post_by_created_at_iter_all_def tget_items)
  then show "\<exists>(k, v) \<in> set (board_post_by_created_at_iter_all d). bl_post_from_slice L v = Some p"
    using laws(2) by fastforce
qed

text \<open>
  C19. In every state that the handlers reach when requests run one after another, the reply count
  of a stored post is the number of its replies up to the largest 32-bit number, its reaction count
  is the number of its reactions, and the feed has exactly the stored posts that are no replies,
  with the same content.
\<close>

theorem board_counters_exact:
  assumes "reachable (board_start L) (board_step L P mainnet) d"
  shows "(\<forall>post_id p. is_text (trim post_id) \<and> load_post_response L post_id d = Inr p \<longrightarrow>
            (\<exists>u. bl_parse_uuid L (trim post_id) = Some u \<and>
               bp_reply_count p = i32_of_len (length (get_by_parent_post_id d u)) \<and>
               bp_reaction_count p = int (length (board_reaction_get_by_post_id d post_id)))) \<and>
         {p. \<exists>(k, v) \<in> set (board_post_by_created_at_iter_all d). bl_post_from_slice L v = Some p} =
         {p. bp_reply_to_post_id p = None \<and> (\<exists>u. load_post_response L (bl_uuid_string L u) d = Inr p)}"
proof -
  have lib: "board_lib_ok L" and ok: "board_ok L d"
    using board.invariant [OF assms] by simp_all
  note laws = board_lib_laws [OF lib]
  have "\<exists>u. bl_parse_uuid L (trim post_id) = Some u \<and> bp_reply_count p = i32_of_len (length (get_by_parent_post_id d u)) \<and>
      bp_reaction_count p = int (length (board_reaction_get_by_post_id d post_id))"
    if p: "is_text (trim post_id)" "load_post_response L post_id d = Inr p" for post_id p
  proof -
    obtain u where u: "trim post_id = bl_uuid_string L u" "post_ok L d u p"
      using loaded_post [OF lib ok p] by blast
    have "board_reaction_get_by_post_id d post_id = board_reaction_get_by_post_id d (trim post_id)"
      by (simp add: board_reaction_get_by_post_id_def post_prefix_def)
    then show ?thesis
      using u laws(1) by (auto simp: post_ok_def reply_rows_def reaction_rows_def uuid_texts_ok_def)
  qed
  then show ?thesis
    using feed_has_posts [OF lib ok] by blast
qed

end
