(* ===== verification/Board_Follows.thy ===== *)
theory Board_Follows
  imports Board_Steps
begin

text \<open>
  Who follows whom: the two partitions of follows and the answers of the API refine one relation on
  addresses, which only signed requests change.
\<close>

section \<open>Handles\<close>

text \<open>
  A handle is the lower case of an address.
\<close>

definition handle :: "rstr \<Rightarrow> bool" where
  "handle s \<longleftrightarrow> s \<noteq> [] \<and> (\<forall>c \<in> set s. is_ascii_lowercase c \<or> is_ascii_digit c \<or> c = 58)"

definition handle_of :: "('addr, 'time, 'x) board_lib_scheme \<Rightarrow> rstr \<Rightarrow> rstr" where
  "handle_of L address = to_lowercase (bl_unicode L) (trim address)"

lemma handle_facts:
  assumes "handle s"
  shows "trim s = s" "to_lowercase u s = s" "124 \<notin> set s" "is_ascii s"
proof -
  have c: "48 \<le> c \<and> c \<le> 122 \<and> (c \<le> 58 \<or> 97 \<le> c)" if "c \<in> set s" for c
    using assms that by (fastforce simp: handle_def is_ascii_lowercase_def is_ascii_digit_def)
  then show "trim s = s"
    by (intro trim_fixed) (fastforce simp: is_whitespace_def)
  show "is_ascii s"
    using c by (fastforce simp: is_ascii_def)
  then show "to_lowercase u s = s"
    using c by (fastforce simp: to_lowercase_def to_ascii_lowercase_def ascii_lower_def intro!: map_idI)
  show "124 \<notin> set s"
    using c by fastforce
qed

lemma validated_handle:
  assumes "addresses_ok L" "validate_board_actor_address L field address = Inr u"
  shows "handle (handle_of L address)"
proof -
  have "bl_rpc_address L (trim address) \<noteq> None" "trim address \<noteq> []"
    using assms(2) by (auto simp: validate_board_actor_address_def actor_payload_def split: if_splits)
  then have "trim address \<noteq> [] \<and> (\<forall>c \<in> set (trim address). is_ascii_lowercase c \<or> 65 \<le> c \<and> c \<le> 90 \<or> is_ascii_digit c \<or> c = 58)"
    using assms(1) by (simp add: addresses_ok_def)
  moreover from this have "is_ascii (trim address)"
    by (fastforce simp: is_ascii_def is_ascii_lowercase_def is_ascii_digit_def)
  ultimately show ?thesis
    by (auto simp: handle_of_def handle_def to_lowercase_def to_ascii_lowercase_def ascii_lower_def
        is_ascii_lowercase_def is_ascii_digit_def)
qed

definition follow_row :: "rstr \<Rightarrow> rstr \<Rightarrow> bytes" where
  "follow_row a b = utf8 (a @ bar @ b)"

lemma follow_key_handles: "handle a \<Longrightarrow> handle b \<Longrightarrow> utf8 (follow_key u a b) = follow_row a b"
  by (simp add: follow_key_def follow_row_def handle_facts)

lemma bar_byte: "utf8 bar = [124]"
  by (simp add: utf8_def utf8_char_def str_def)

lemma no_bar_byte: "handle a \<Longrightarrow> (124 :: byte) \<notin> set (utf8 a)"
  using handle_facts(3,4) [of a] by (auto simp: utf8_ascii is_ascii_def word_unat_eq_iff unat_of_nat)

lemma utf8_handle_inject: "handle a \<Longrightarrow> handle b \<Longrightarrow> utf8 a = utf8 b \<longleftrightarrow> a = b"
  using from_utf8_utf8_ascii [OF handle_facts(4)] by (metis option.inject)

lemma follow_row_prefix:
  assumes "handle a" "handle a'"
  shows "prefix (utf8 (a @ bar)) (follow_row a' b) \<longleftrightarrow> a = a'"
  using prefix_bar [OF no_bar_byte no_bar_byte, OF assms] utf8_handle_inject [OF assms] by (auto simp: follow_row_def bar_byte)

lemma follow_row_inject:
  assumes "handle a" "handle a'" "handle b" "handle b'"
  shows "follow_row a b = follow_row a' b' \<longleftrightarrow> a = a' \<and> b = b'"
proof -
  have "a = a'" if "follow_row a b = follow_row a' b'"
    using follow_row_prefix [OF assms(1,2), of b'] follow_row_prefix [OF assms(1,1), of b] that by simp
  then show ?thesis
    using utf8_handle_inject [OF assms(3,4)] by (auto simp: follow_row_def)
qed

section \<open>The relation\<close>

definition follows_of :: "db \<Rightarrow> (rstr \<times> rstr) set" where
  "follows_of d = {(a, b). handle a \<and> handle b \<and> tget (d PBoardFollowByFollowerTarget) (follow_row a b) \<noteq> None}"

text \<open>The rows of both partitions are those of the relation, with records that can be read.\<close>

definition follow_rows ::
    "('addr, 'time, 'x) board_lib_scheme \<Rightarrow> (stored_board_follow_record \<Rightarrow> board_author_response) \<Rightarrow>
     (rstr \<times> rstr) set \<Rightarrow> table \<Rightarrow> bool" where
  "follow_rows L who S t \<longleftrightarrow>
     (\<forall>k v. tget t k = Some v \<longrightarrow>
        (\<exists>(a, b) \<in> S. k = follow_row a b \<and> (\<exists>r. v = bl_follow_to_vec L r \<and> bau_address (who r) = b))) \<and>
     (\<forall>(a, b) \<in> S. handle a \<and> handle b \<and> tget t (follow_row a b) \<noteq> None)"

definition follows_ok :: "('addr, 'time, 'x) board_lib_scheme \<Rightarrow> db \<Rightarrow> bool" where
  "follows_ok L d \<longleftrightarrow> (\<exists>S. follow_rows L sbf_target S (d PBoardFollowByFollowerTarget) \<and>
     follow_rows L sbf_actor (S\<inverse>) (d PBoardFollowByTargetFollower))"

lemma follow_rows_follows:
  assumes "follow_rows L sbf_target S (d PBoardFollowByFollowerTarget)"
  shows "follows_of d = S"
proof -
  have "(a, b) \<in> S" if h: "handle a" "handle b" and row: "tget (d PBoardFollowByFollowerTarget) (follow_row a b) \<noteq> None" for a b
  proof -
    obtain a' b' where "(a', b') \<in> S" "follow_row a b = follow_row a' b'" "handle a'" "handle b'"
      using assms row unfolding follow_rows_def by blast
    then show ?thesis
      using h by (simp add: follow_row_inject)
  qed
  then show ?thesis
    using assms unfolding follows_of_def follow_rows_def by blast
qed

lemma follow_rows_insert:
  assumes "follow_rows L who S t" "handle a" "handle b" "bau_address (who r) = b"
  shows "follow_rows L who (insert (a, b) S) (tput (follow_row a b) (bl_follow_to_vec L r) t)"
  using assms unfolding follow_rows_def by auto

lemma follow_rows_remove:
  assumes rows: "follow_rows L who S t" and h: "handle a" "handle b"
  shows "follow_rows L who (S - {(a, b)}) (tdel (follow_row a b) t)"
proof -
  have "follow_row a' b' \<noteq> follow_row a b" if "(a', b') \<in> S - {(a, b)}" for a' b'
    using that rows h by (auto simp: follow_rows_def follow_row_inject)
  then show ?thesis
    using rows unfolding follow_rows_def by (fastforce split: if_splits)
qed


section \<open>Changes of the relation\<close>

text \<open>
  The specification: a request signed by the key of its actor adds or removes one pair with the
  actor as the follower of another address; everything else keeps the relation.
\<close>

inductive follows_step ::
    "('addr, 'time, 'x) board_lib_scheme \<Rightarrow> (rstr \<times> rstr) set \<Rightarrow> (rstr \<times> rstr) set \<Rightarrow> bool" for L where
  keep: "follows_step L S S"
| change: "signed_by L (bcf_actor_address r) (follow_signable r) (bcf_signature r) \<Longrightarrow>
    a = handle_of L (bcf_actor_address r) \<Longrightarrow> b = handle_of L (bcf_target_address r) \<Longrightarrow> a \<noteq> b \<Longrightarrow>
    follows_step L S (if bcf_follow r then insert (a, b) S else S - {(a, b)})"

lemma follow_writes_parts:
  assumes "handle a" "handle b"
  shows "commit (follow_writes u follow a b bs d) d PBoardFollowByFollowerTarget =
      (if follow then tput (follow_row a b) bs else tdel (follow_row a b)) (d PBoardFollowByFollowerTarget)"
    "commit (follow_writes u follow a b bs d) d PBoardFollowByTargetFollower =
      (if follow then tput (follow_row b a) bs else tdel (follow_row b a)) (d PBoardFollowByTargetFollower)"
  using assms by (simp_all add: follow_writes_def board_writes follow_key_handles db_insert_items)

lemma follow_writes_follows:
  assumes ok: "follows_ok L d" and h: "handle a" "handle b"
    and r: "bau_address (sbf_actor r) = a" "bau_address (sbf_target r) = b"
    and d': "d' = commit (follow_writes u follow a b (bl_follow_to_vec L r) d) d"
  shows "follows_ok L d'" "follows_of d' = (if follow then insert (a, b) (follows_of d) else follows_of d - {(a, b)})"
proof -
  obtain S where S: "follow_rows L sbf_target S (d PBoardFollowByFollowerTarget)" "follow_rows L sbf_actor (S\<inverse>) (d PBoardFollowByTargetFollower)"
    using ok unfolding follows_ok_def by blast
  define S' where "S' = (if follow then insert (a, b) S else S - {(a, b)})"
  have "S'\<inverse> = (if follow then insert (b, a) (S\<inverse>) else S\<inverse> - {(b, a)})"
    by (auto simp: S'_def)
  then have "follow_rows L sbf_target S' (d' PBoardFollowByFollowerTarget)" "follow_rows L sbf_actor (S'\<inverse>) (d' PBoardFollowByTargetFollower)"
    using S h r by (simp_all add: S'_def d' follow_writes_parts follow_rows_insert follow_rows_remove)
  then show "follows_ok L d'" "follows_of d' = (if follow then insert (a, b) (follows_of d) else follows_of d - {(a, b)})"
    using follow_rows_follows [of L S d, OF S(1)] follow_rows_follows [of L S' d'] unfolding follows_ok_def S'_def by auto
qed

lemma apply_follow_follows:
  assumes "addresses_ok L" and quiet: "board_quiet env" and ok: "follows_ok L d"
    and d': "d' = snd (apply_follow_state L mainnet env path r d)"
  shows "follows_ok L d' \<and> follows_step L (follows_of d) (follows_of d')"
proof (cases "d' = d")
  case True
  then show ?thesis
    using ok follows_step.keep by simp
next
  case False
  let ?a = "handle_of L (bcf_actor_address r)" and ?b = "handle_of L path"
  have valid: "validate_create_follow_request L mainnet r path = Inr ()"
    using False by (cases "validate_create_follow_request L mainnet r path") (simp_all add: d' apply_follow_state_def Let_def)
  then obtain created_at where w: "d' = commit (follow_writes (bl_unicode L) (bcf_follow r) ?a ?b
      (bl_follow_to_vec L (follow_record L ?a ?b r created_at)) d) d"
    using False by (auto simp: d' apply_follow_state_def Let_def quiet_commit [OF quiet] handle_of_def split: sum.splits if_splits)
  have b: "?b = handle_of L (bcf_target_address r)" "?a \<noteq> ?b"
    using valid by (auto simp: validate_create_follow_request_def Let_def handle_of_def split: if_splits)
  have "handle ?a" "handle ?b"
    using valid assms(1) by (auto simp: validate_create_follow_request_def intro: validated_handle)
  then have "follows_ok L d'" "follows_of d' = (if bcf_follow r then insert (?a, ?b) (follows_of d) else follows_of d - {(?a, ?b)})"
    using follow_writes_follows [OF ok _ _ _ _ w] by (simp_all add: follow_record_def)
  then show ?thesis
    using follows_step.change [OF validated_signed(3) [OF valid] refl refl, of "follows_of d"] b by (auto split: if_splits)
qed


text \<open>The other handlers keep both partitions.\<close>

lemma write_post_other:
  assumes "write_post_response_with_touch L now p touch w = Inr w'" "q \<noteq> PBoardPostById" "q \<noteq> PBoardPostByCreatedAt"
  shows "commit w' d q = commit w d q"
  by (rule write_post_commit [OF assms(1)]) (simp add: assms)

lemma follows_kept:
  assumes quiet: "board_quiet env" and q: "q = PBoardFollowByFollowerTarget \<or> q = PBoardFollowByTargetFollower"
  shows "snd (create_post_record L mainnet env post forced d) q = d q"
    "snd (toggle_reaction_record L mainnet env post_id reaction d) q = d q"
    "snd (submit_report_record L mainnet env post_id report d) q = d q"
proof -
  obtain out d' where d': "create_post_record L mainnet env post forced d = (out, d')"
    by fastforce
  then have "d' q = d q"
  proof (cases rule: create_post_cases)
    case (new post w)
    then have "d' = commit w d"
      using quiet by (simp add: board_quiet_def)
    moreover have "commit w d q = d q"
      using quiet_commit(2) [OF quiet] new(3) by (cases rule: post_writes_effect) (use q in auto)
    ultimately show ?thesis
      by simp
  qed (use quiet in \<open>auto simp: board_quiet_def\<close>)
  then show "snd (create_post_record L mainnet env post forced d) q = d q"
    by (simp add: d')
  show "snd (toggle_reaction_record L mainnet env post_id reaction d) q = d q"
  proof (cases "snd (toggle_reaction_record L mainnet env post_id reaction d) = d")
    case False
    then obtain n w0 w where w: "update_post_reaction_count L (be_touched env) d (trim post_id) n w0 = Inr w"
        "commit w0 d q = d q" "snd (toggle_reaction_record L mainnet env post_id reaction d) = commit w d"
      using q by (auto simp: toggle_reaction_record_def Let_def quiet_commit [OF quiet] board_writes split: sum.splits if_splits)
    then show ?thesis
      using q write_post_other [where q = q] by (fastforce simp: update_post_reaction_count_def)
  qed simp
  show "snd (submit_report_record L mainnet env post_id report d) q = d q"
  proof (cases "snd (submit_report_record L mainnet env post_id report d) = d")
    case False
    then obtain p k v w where "write_post_response_with_touch L (be_touched env) p True
        (wtx_insert PBoardReportByPostActor k v (begin_wtx d)) = Inr w"
        "snd (submit_report_record L mainnet env post_id report d) = commit w d"
      by (auto simp: submit_report_record_def Let_def quiet_commit [OF quiet] board_writes split: sum.splits if_splits)
    then show ?thesis
      using q write_post_other [where q = q] by fastforce
  qed simp
qed

lemma follows_frame:
  assumes "d' PBoardFollowByFollowerTarget = d PBoardFollowByFollowerTarget"
    "d' PBoardFollowByTargetFollower = d PBoardFollowByTargetFollower"
  shows "follows_ok L d' \<longleftrightarrow> follows_ok L d" "follows_of d' = follows_of d"
  using assms by (simp_all add: follows_ok_def follows_of_def)

lemma board_step_follows:
  assumes "addresses_ok L" "follows_ok L d" "board_step L P mainnet d d'"
  shows "follows_ok L d' \<and> follows_step L (follows_of d) (follows_of d')"
proof -
  have same: ?thesis if "\<And>q. q = PBoardFollowByFollowerTarget \<or> q = PBoardFollowByTargetFollower \<Longrightarrow> d' q = d q"
    using that assms(2) follows_step.keep [of L "follows_of d"] by (simp add: follows_frame [of d' d])
  show ?thesis
    using assms(3)
  proof cases
    case (step_post env post)
    then show ?thesis
      by (intro same) (simp add: handler_databases follows_kept)
  next
    case (step_reply env post_id net post push)
    then show ?thesis
      using reply_record_database [of L mainnet env "trim post_id" post d]
      by (intro same) (auto simp: handler_databases follows_kept)
  next
    case (step_reaction env post_id reaction)
    then show ?thesis
      by (intro same) (simp add: handler_databases follows_kept)
  next
    case (step_follow env address follow)
    then show ?thesis
      using apply_follow_follows [OF assms(1) _ assms(2)] by (simp add: handler_databases)
  next
    case (step_report env post_id report)
    then show ?thesis
      by (intro same) (simp add: handler_databases follows_kept)
  qed
qed


section \<open>Refinement\<close>

interpretation follows: simulation "board_start L" "board_step L P mainnet" "\<lambda>d. board_lib_ok L \<and> follows_ok L d"
  follows_of "\<lambda>S. S = {}" "follows_step L" for L P mainnet
proof
  show "board_lib_ok L \<and> follows_ok L d" "follows_of d = {}" if "board_start L d" for d
    using that by (auto simp: board_start_def follows_ok_def follow_rows_def follows_of_def intro: exI [of _ "{}"])
  fix d d' assume "board_lib_ok L \<and> follows_ok L d" "board_step L P mainnet d d'"
  moreover from this have "addresses_ok L"
    by (simp add: board_lib_ok_def)
  ultimately show "board_lib_ok L \<and> follows_ok L d'" "follows_step L (follows_of d) (follows_of d')"
    using board_step_follows [of L d P mainnet d'] by simp_all
qed

text \<open>What a query by one side of the relation lists.\<close>

lemma follow_query:
  assumes lib: "board_lib_ok L" and rows: "follow_rows L who S t" and w: "handle w"
    and xs: "xs = List.map_filter (\<lambda>(_, v). map_option who (bl_follow_from_slice L v)) (tprefix (utf8 (w @ bar)) t)"
  shows "distinct (map bau_address xs)" "set (map bau_address xs) = {b. (w, b) \<in> S}"
proof -
  let ?es = "tprefix (utf8 (w @ bar)) t"
  define other where "other v = bau_address (who (the (bl_follow_from_slice L v)))" for v
  have e: "k = follow_row w (other v) \<and> (w, other v) \<in> S \<and> bl_follow_from_slice L v \<noteq> None" if "(k, v) \<in> set ?es" for k v
  proof -
    have "tget t k = Some v" "prefix (utf8 (w @ bar)) k"
      using that by (auto simp: tprefix_def tget_items)
    then obtain a b r where "(a, b) \<in> S" "k = follow_row a b" "v = bl_follow_to_vec L r" "bau_address (who r) = b" "handle a"
      using rows unfolding follow_rows_def by blast
    then show ?thesis
      using \<open>prefix (utf8 (w @ bar)) k\<close> follow_row_prefix [OF w] lib by (auto simp: other_def board_lib_ok_def)
  qed
  have "map bau_address (List.map_filter (\<lambda>(_, v). map_option who (bl_follow_from_slice L v)) es) = map (other \<circ> snd) es"
    if "\<forall>(k, v) \<in> set es. bl_follow_from_slice L v \<noteq> None" for es :: "(bytes \<times> bytes) list"
    using that by (induction es) (auto simp: List.map_filter_def other_def)
  then have bs: "map bau_address xs = map (other \<circ> snd) ?es"
    unfolding xs using e by blast
  have "map (follow_row w) (map (other \<circ> snd) ?es) = map fst ?es"
    using e by (auto simp: comp_def)
  moreover have "distinct (map fst ?es)"
    unfolding tprefix_def by (rule key_sorted_distinct, rule kv.scan_sorted)
  ultimately show "distinct (map bau_address xs)"
    unfolding bs by (metis distinct_map)
  have "b \<in> (other \<circ> snd) ` set ?es" if b: "(w, b) \<in> S" for b
  proof -
    have "handle b"
      using rows b by (auto simp: follow_rows_def)
    obtain v where "tget t (follow_row w b) = Some v"
      using rows b unfolding follow_rows_def by blast
    then have "(follow_row w b, v) \<in> set ?es"
      using follow_row_prefix [OF w w] by (simp add: tprefix_def tget_items)
    moreover from e [OF this] have "b = other v"
      using rows w \<open>handle b\<close> by (auto simp: follow_rows_def follow_row_inject)
    ultimately show ?thesis
      by force
  qed
  then show "set (map bau_address xs) = {b. (w, b) \<in> S}"
    unfolding bs using e by fastforce
qed


definition answers_relation :: "(rstr \<times> rstr) set \<Rightarrow> rstr \<Rightarrow> rstr \<Rightarrow> board_profile_connections_response \<Rightarrow> bool" where
  "answers_relation S me viewer c \<longleftrightarrow>
     distinct (map bau_address (bpc_following c)) \<and> set (map bau_address (bpc_following c)) = {b. (me, b) \<in> S} \<and>
     distinct (map bau_address (bpc_followers c)) \<and> set (map bau_address (bpc_followers c)) = {a. (a, me) \<in> S} \<and>
     bpc_following_count c = i32_of_len (card {b. (me, b) \<in> S}) \<and>
     bpc_follower_count c = i32_of_len (card {a. (a, me) \<in> S}) \<and>
     (bpc_viewer_follows_author c \<longleftrightarrow> viewer \<noteq> me \<and> (viewer, me) \<in> S)"

lemma connections_answer:
  assumes lib: "board_lib_ok L" and ok: "follows_ok L d" and viewer: "handle (handle_of L viewer)"
    and c: "build_profile_connections_response L now address (Some viewer) d = Inr c"
  shows "answers_relation (follows_of d) (handle_of L address) (handle_of L viewer) c"
proof -
  let ?me = "handle_of L address"
  obtain S where S: "follow_rows L sbf_target S (d PBoardFollowByFollowerTarget)"
      "follow_rows L sbf_actor (S\<inverse>) (d PBoardFollowByTargetFollower)"
    using ok unfolding follows_ok_def by blast
  have d: "follows_of d = S"
    using S(1) by (rule follow_rows_follows)
  have me: "handle ?me"
    using validated_handle [of L _ address] lib c by (auto simp: build_profile_connections_response_def board_lib_ok_def)
  then have prefix_me: "utf8 (follow_prefix (bl_unicode L) ?me) = utf8 (?me @ bar)"
    by (simp add: follow_prefix_def handle_facts)
  have v: "trim viewer \<noteq> []" "lowered_viewer L (Some viewer) = Some (handle_of L viewer)"
    using viewer by (auto simp: lowered_viewer_def normalized_optional_def nonempty_def handle_of_def handle_def
        to_lowercase_def to_ascii_lowercase_def is_ascii_def)
  let ?following = "List.map_filter (\<lambda>(_, v). map_option sbf_target (bl_follow_from_slice L v))
      (tprefix (utf8 (?me @ bar)) (d PBoardFollowByFollowerTarget))"
  let ?followers = "List.map_filter (\<lambda>(_, v). map_option sbf_actor (bl_follow_from_slice L v))
      (tprefix (utf8 (?me @ bar)) (d PBoardFollowByTargetFollower))"
  have "get_by_follower (bl_unicode L) d ?me = tprefix (utf8 (?me @ bar)) (d PBoardFollowByFollowerTarget)"
    "get_by_target (bl_unicode L) d ?me = tprefix (utf8 (?me @ bar)) (d PBoardFollowByTargetFollower)"
    "follow_by_follower_contains_rtx (bl_unicode L) d (handle_of L viewer) ?me \<longleftrightarrow>
      tget (d PBoardFollowByFollowerTarget) (follow_row (handle_of L viewer) ?me) \<noteq> None"
    unfolding get_by_follower_def get_by_target_def follow_by_follower_contains_rtx_def prefix_me
      follow_key_handles [OF viewer me] by simp_all
  then obtain server_time where "c = \<lparr>bpc_address = ?me, bpc_following = ?following, bpc_followers = ?followers,
      bpc_following_count = i32_of_len (length ?following), bpc_follower_count = i32_of_len (length ?followers),
      bpc_viewer_follows_author = (handle_of L viewer \<noteq> ?me \<and>
        tget (d PBoardFollowByFollowerTarget) (follow_row (handle_of L viewer) ?me) \<noteq> None),
      bpc_server_time = server_time\<rparr>"
    using c unfolding build_profile_connections_response_def Let_def v(2) handle_of_def [symmetric] by auto
  then have following: "bpc_following c = ?following" and followers: "bpc_followers c = ?followers"
    and counts: "bpc_following_count c = i32_of_len (length (map bau_address (bpc_following c)))"
      "bpc_follower_count c = i32_of_len (length (map bau_address (bpc_followers c)))"
    and follows: "bpc_viewer_follows_author c \<longleftrightarrow> handle_of L viewer \<noteq> ?me \<and>
      tget (d PBoardFollowByFollowerTarget) (follow_row (handle_of L viewer) ?me) \<noteq> None"
    by simp_all
  note sides = follow_query [OF lib S(1) me following] follow_query [OF lib S(2) me followers]
  moreover have "length (map bau_address (bpc_following c)) = card {b. (?me, b) \<in> S}"
    "length (map bau_address (bpc_followers c)) = card {a. (a, ?me) \<in> S}"
    using distinct_card [OF sides(1)] distinct_card [OF sides(3)] unfolding sides(2,4) by simp_all
  moreover have "(handle_of L viewer, ?me) \<in> S \<longleftrightarrow> tget (d PBoardFollowByFollowerTarget) (follow_row (handle_of L viewer) ?me) \<noteq> None"
    using d [symmetric] viewer me by (simp add: follows_of_def)
  ultimately show ?thesis
    unfolding answers_relation_def d counts follows by simp
qed

text \<open>
  C20. The follows of the board refine a relation between addresses: every state that the handlers
  reach stands for a relation that signed requests reach from the empty one, and the connections of
  a profile list exactly its pairs in that relation, once each and with their number, and say
  whether the viewer follows.
\<close>

theorem follows_refine_relation:
  assumes "reachable (board_start L) (board_step L P mainnet) d"
  shows "reachable (\<lambda>S. S = {}) (follows_step L) (follows_of d) \<and>
    (\<forall>now address viewer c. handle (handle_of L viewer) \<longrightarrow>
       build_profile_connections_response L now address (Some viewer) d = Inr c \<longrightarrow>
       answers_relation (follows_of d) (handle_of L address) (handle_of L viewer) c)"
  using follows.refines [OF assms] follows.invariant [OF assms] connections_answer [of L d] by blast

end
