(* ===== verification/Board_Pages.thy ===== *)
theory Board_Pages
  imports Board_Steps
begin

text \<open>
  Reading the feed page by page: a client asks for a page and then for the next one with the cursor
  of the last answer, until an answer has no cursor.
\<close>

section \<open>A reader\<close>

text \<open>The reader makes at most the given number of requests.\<close>

fun read_feed ::
    "('addr, 'time, 'x) board_lib_scheme \<Rightarrow> 'time \<Rightarrow> nat option \<Rightarrow> db \<Rightarrow> nat \<Rightarrow> rstr option \<Rightarrow>
     board_post_response list handled" where
  "read_feed L now limit d 0 cursor = Inr []"
| "read_feed L now limit d (Suc n) cursor =
     abind (get_board_feed L now None limit cursor None d) (\<lambda>reply.
       case reply of
         NotModified _ _ \<Rightarrow> Inr []
       | Answer _ _ feed \<Rightarrow>
           (case bf_next_cursor feed of
              None \<Rightarrow> Inr (bf_items feed)
            | Some c \<Rightarrow> abind (read_feed L now limit d n (Some c)) (\<lambda>rest. Inr (bf_items feed @ rest))))"

text \<open>The posts of the feed with their time, from the newest to the oldest.\<close>

definition entry_time :: "bytes \<Rightarrow> u64" where
  "entry_time k = bpk_created_at_ms (the (bpk_from_bytes k))"

definition feed_posts :: "('addr, 'time, 'x) board_lib_scheme \<Rightarrow> db \<Rightarrow> (u64 \<times> board_post_response) list" where
  "feed_posts L d = map (\<lambda>(k, v). (entry_time k, the (bl_post_from_slice L v))) (rev (board_post_by_created_at_iter_all d))"

definition before :: "u64 option \<Rightarrow> u64 \<Rightarrow> bool" where
  "before c ms \<longleftrightarrow> (case c of None \<Rightarrow> True | Some m \<Rightarrow> ms < m)"

section \<open>Rows of the feed\<close>

definition row_readable :: "('addr, 'time, 'x) board_lib_scheme \<Rightarrow> bytes \<times> bytes \<Rightarrow> bool" where
  "row_readable L e \<longleftrightarrow> (\<exists>p. fst e = bpk_bytes (feed_key L p) \<and> bl_post_from_slice L (snd e) = Some p \<and> storable L p \<and>
     bp_reply_to_post_id p = None)"

lemma rows_readable:
  assumes lib: "board_lib_ok L" and ok: "board_ok L d" and e: "e \<in> set (board_post_by_created_at_iter_all d)"
  shows "row_readable L e"
proof -
  have "tget (d PBoardPostByCreatedAt) (fst e) = Some (snd e)"
    using e by (simp add: board_post_by_created_at_iter_all_def tget_items)
  then show ?thesis
    using ok board_lib_laws(2) [OF lib] unfolding board_ok_def feed_rows_ok_def row_readable_def by fastforce
qed

lemma readable_time:
  assumes "row_readable L e"
  shows "bpk_from_bytes (fst e) \<noteq> None" "parse_timestamp_ms L (bp_created_at (the (bl_post_from_slice L (snd e)))) = Inr (entry_time (fst e))"
    "bl_post_from_slice L (snd e) \<noteq> None" "fst e = bpk_bytes (feed_key L (the (bl_post_from_slice L (snd e))))"
    "\<exists>updated ms. bp_updated_at (the (bl_post_from_slice L (snd e))) = Some updated \<and> parse_timestamp_ms L updated = Inr ms"
  using assms by (auto simp: row_readable_def storable_def entry_time_def bpk.dec_enc feed_key_def)

lemma entry_time_mono:
  assumes "bpk_from_bytes k \<noteq> None" "bpk_from_bytes k' \<noteq> None" "k < k'"
  shows "entry_time k \<le> entry_time k'"
proof -
  have "bpk_bytes x < bpk_bytes y \<Longrightarrow> bpk_created_at_ms x \<le> bpk_created_at_ms y" for x y
    by (auto simp: bpk_bytes_def less_append_same_length)
  moreover obtain x y where "k = bpk_bytes x" "k' = bpk_bytes y"
    using assms(1,2) bpk.dec_iff by blast
  ultimately show ?thesis
    using assms(3) by (simp add: entry_time_def bpk.dec_enc)
qed

lemma feed_items_page:
  assumes "\<forall>e \<in> set es. row_readable L e" "length found < n"
  shows "feed_items L n c es found =
    Inr (found @ map snd (take (n - length found) (filter (\<lambda>e. before c (fst e))
      (map (\<lambda>(k, v). (entry_time k, the (bl_post_from_slice L v))) es))))"
  using assms
proof (induction es arbitrary: found)
  case (Cons e es)
  obtain k v where e: "e = (k, v)"
    by (cases e)
  then obtain key p where k: "bpk_from_bytes k = Some key" "bl_post_from_slice L v = Some p" "entry_time k = bpk_created_at_ms key"
    using Cons.prems(1) readable_time [of L e] by (auto simp: entry_time_def)
  have skip: "(case c of None \<Rightarrow> False | Some c \<Rightarrow> c \<le> bpk_created_at_ms key) \<longleftrightarrow> \<not> before c (entry_time k)"
    by (auto simp: before_def k(3) split: option.split)
  show ?case
    using Cons.IH [of found] Cons.IH [of "found @ [p]"] Cons.prems
    by (auto simp: e k(1,2) skip deref_def unwrap_def take_Cons' Suc_diff_Suc)
qed simp


section \<open>One page\<close>

lemma readable_revision:
  assumes lib: "board_lib_ok L" and p: "bp_updated_at p = Some updated" "parse_timestamp_ms L updated = Inr ms"
  shows "board_post_updated_at_ms L p = Inr ms" "\<exists>r. board_post_revision_value L p = Inr r"
proof -
  have "trim updated \<noteq> []"
    using lib p(2) by (auto simp: parse_timestamp_ms_def board_lib_ok_def split: option.splits)
  then show "board_post_updated_at_ms L p = Inr ms"
    using p by (simp add: board_post_updated_at_ms_def board_post_updated_at_def)
  then show "\<exists>r. board_post_revision_value L p = Inr r"
    by (simp add: board_post_revision_value_def split: option.split)
qed

text \<open>Every post of a page has a time of update that can be read.\<close>

definition page_readable :: "('addr, 'time, 'x) board_lib_scheme \<Rightarrow> board_post_response list \<Rightarrow> bool" where
  "page_readable L ps \<longleftrightarrow> (\<forall>p \<in> set ps. \<exists>updated ms. bp_updated_at p = Some updated \<and> parse_timestamp_ms L updated = Inr ms)"

lemma feed_metadata_total:
  assumes lib: "board_lib_ok L" and ps: "page_readable L (bf_items feed)"
  obtains revision page_digest where "apply_feed_metadata L feed =
      Inr (feed\<lparr>bf_feed_revision := Some revision, bf_page_digest := Some page_digest\<rparr>)" "bl_header_value L revision"
proof -
  have "\<exists>bs. digest_parts L ps = Inr bs" "\<exists>ts. updated_times L ps = Inr ts" if "page_readable L ps" for ps
    using that by (induction ps) (fastforce simp: page_readable_def dest: readable_revision [OF lib])+
  then obtain bs ts where b: "digest_parts L (bf_items feed) = Inr bs" "updated_times L (bf_items feed) = Inr ts"
    using ps by blast
  let ?h = "hex (list_of (bl_sha256 L (utf8 (str ''pulse-feed-page-v1'') @
    utf8 (case bf_next_cursor feed of None \<Rightarrow> [] | Some c \<Rightarrow> c) @ bs)))"
  let ?r = "str ''pulse-feed-v1-latest-'' @ decimal (unat (fold max ts 0)) @ str ''-'' @ ?h"
  have "32 < c \<and> c < 127" if c: "c \<in> set ?r" for c
  proof -
    have "c \<in> set (str ''pulse-feed-v1-latest-'') \<or> is_ascii_digit c \<or> is_ascii_hexdigit c \<or> c = 45"
      using c decimal_digits hex_digits by (auto simp: str_def)
    then show ?thesis
      by (auto simp: str_def is_ascii_digit_def is_ascii_hexdigit_def)
  qed
  then have "bl_header_value L ?r"
    using lib unfolding board_lib_ok_def by blast
  then show thesis
    by (rule that [rotated]) (simp add: apply_feed_metadata_def board_feed_page_digest_def b)
qed

lemma check_mode_latest: "check_mode L None = Inr ()"
  by (simp add: check_mode_def text_defs)

definition feed_page :: "('addr, 'time, 'x) board_lib_scheme \<Rightarrow> nat option \<Rightarrow> db \<Rightarrow> u64 option \<Rightarrow> (u64 \<times> board_post_response) list" where
  "feed_page L limit d c = take (clamp 25 limit) (filter (\<lambda>e. before c (fst e)) (feed_posts L d))"

lemma get_feed_page:
  assumes lib: "board_lib_ok L" and ok: "board_ok L d" and now: "bl_format_time L now \<noteq> None"
  obtains etag changes feed where "get_board_feed L now None limit cursor None d = Inr (Answer etag changes feed)"
    "bf_items feed = map snd (feed_page L limit d (Option.bind cursor parse_u64))"
    "bf_next_cursor feed = next_cursor_of L (bf_items feed)"
proof -
  let ?c = "Option.bind cursor parse_u64"
  let ?ps = "map snd (feed_page L limit d ?c)"
  have rows: "\<forall>e \<in> set (rev (board_post_by_created_at_iter_all d)). row_readable L e"
    using rows_readable [OF lib ok] by simp
  have "0 < clamp 25 limit"
    by (simp add: clamp_def)
  then have page: "feed_items L (clamp 25 limit) ?c (rev (board_post_by_created_at_iter_all d)) [] = Inr ?ps"
    using feed_items_page [OF rows, of "[]" "clamp 25 limit" ?c] by (simp add: feed_page_def feed_posts_def)
  have "page_readable L (map snd (feed_posts L d))"
    using rows readable_time(5) by (fastforce simp: page_readable_def feed_posts_def)
  then have ps: "page_readable L ?ps"
    by (fastforce simp: page_readable_def feed_page_def dest!: in_set_takeD)
  obtain t where t: "timestamp_string L now = Inr t"
    using now by (auto simp: timestamp_string_def)
  define feed where "feed = \<lparr>bf_items = ?ps, bf_next_cursor = next_cursor_of L ?ps, bf_server_time = t,
     bf_feed_revision = None, bf_page_digest = None, bf_supports_changes_since_revision = True\<rparr>"
  obtain revision digest where m: "apply_feed_metadata L feed =
      Inr (feed\<lparr>bf_feed_revision := Some revision, bf_page_digest := Some digest\<rparr>)" "bl_header_value L revision"
  proof (rule feed_metadata_total [OF lib])
    show "page_readable L (bf_items feed)"
      using ps by (simp add: feed_def)
  qed blast
  show thesis
    by (rule that [of revision True "feed\<lparr>bf_feed_revision := Some revision, bf_page_digest := Some digest\<rparr>"])
      (use m page t in \<open>simp_all add: get_board_feed_def check_mode_latest build_feed_response_def feed_revision_value_def
        feed_transport_headers_def feed_def\<close>)
qed


section \<open>All pages\<close>

lemma feed_posts_sorted:
  assumes lib: "board_lib_ok L" and ok: "board_ok L d"
  shows "sorted_wrt (\<ge>) (map fst (feed_posts L d))"
proof -
  let ?es = "board_post_by_created_at_iter_all d"
  have "sorted_wrt (<) (map fst ?es)"
    by (simp add: board_post_by_created_at_iter_all_def)
  then have "sorted_wrt (\<lambda>e e'. fst e < fst e') ?es"
    by (simp add: sorted_wrt_map)
  then have "sorted_wrt (\<lambda>e e'. entry_time (fst e) \<le> entry_time (fst e')) ?es"
    by (rule sorted_wrt_mono_rel [rotated])
      (use readable_time(1) [OF rows_readable [OF lib ok]] in \<open>blast intro: entry_time_mono\<close>)
  then show ?thesis
    by (simp add: feed_posts_def rev_map sorted_wrt_rev sorted_wrt_map case_prod_unfold flip: rev_map)
qed

lemma feed_post_time:
  assumes lib: "board_lib_ok L" and ok: "board_ok L d" and e: "e \<in> set (feed_posts L d)"
  shows "parse_timestamp_ms L (bp_created_at (snd e)) = Inr (fst e)"
  using e readable_time(2) [OF rows_readable [OF lib ok]] by (auto simp: feed_posts_def)

lemma parse_u64_decimal: "parse_u64 (decimal (unat ms)) = Some ms"
proof -
  obtain c cs where c: "decimal (unat ms) = c # cs"
    by (cases "decimal (unat ms)") simp_all
  have "is_ascii_digit c" "list_all is_ascii_digit (decimal (unat ms))"
    using decimal_digits [of _ "unat ms"] by (simp_all add: c list_all_iff)
  then have "c \<noteq> 43" "list_all is_ascii_digit (c # cs)"
    by (auto simp: is_ascii_digit_def c)
  moreover have "decimal_value (c # cs) = unat ms"
    unfolding c [symmetric] by simp
  ultimately show ?thesis
    using unsigned_less [of ms, where ?'a = nat] unfolding parse_u64_def c by simp
qed

text \<open>A page has a cursor unless it is empty, the time of its last post.\<close>

lemma page_cursor:
  assumes "board_lib_ok L" "board_ok L d"
  shows "next_cursor_of L (map snd (feed_page L limit d c)) =
    (if feed_page L limit d c = [] then None else Some (decimal (unat (fst (List.last (feed_page L limit d c))))))"
proof (cases "feed_page L limit d c = []")
  case False
  then have "List.last (feed_page L limit d c) \<in> set (feed_page L limit d c)"
    by (rule last_in_set)
  then have "List.last (feed_page L limit d c) \<in> set (feed_posts L d)"
    by (auto simp: feed_page_def dest!: in_set_takeD)
  then show ?thesis
    using feed_post_time [OF assms] False by (simp add: next_cursor_of_def last_map)
qed (simp add: next_cursor_of_def)

text \<open>The reader in terms of pages.\<close>

lemma read_feed_page:
  assumes "board_lib_ok L" "board_ok L d" "bl_format_time L now \<noteq> None"
  shows "read_feed L now limit d (Suc n) cursor =
    (let page = feed_page L limit d (Option.bind cursor parse_u64) in
     if page = [] then Inr []
     else abind (read_feed L now limit d n (Some (decimal (unat (fst (List.last page)))))) (\<lambda>rest. Inr (map snd page @ rest)))"
  by (rule get_feed_page [OF assms, of limit cursor]) (simp add: page_cursor [OF assms(1,2)] Let_def)


lemma filter_below_last:
  fixes es :: "(u64 \<times> 'p) list"
  assumes "sorted_wrt (>) (map fst es)" "es \<noteq> []" "0 < n"
  shows "filter (\<lambda>e. fst e < fst (List.last (take n es))) es = drop n es"
  using assms
proof (induction es arbitrary: n)
  case (Cons e es)
  show ?case
  proof (cases "n = 1 \<or> es = []")
    case True
    then show ?thesis
      using Cons.prems by (auto simp: take_Cons' filter_id_conv)
  next
    case False
    then obtain m where m: "n = Suc m" "0 < m" "take m es \<noteq> []"
      using Cons.prems(3) by (cases n) auto
    then have "List.last (take m es) \<in> set es"
      by (meson in_set_takeD last_in_set)
    then have "\<not> fst e < fst (List.last (take m es))"
      using Cons.prems(1) by fastforce
    then show ?thesis
      using Cons.IH [of m] Cons.prems(1) m False by simp
  qed
qed simp

lemma strictly_sorted:
  fixes xs :: "'a :: linorder list"
  shows "sorted_wrt (\<ge>) xs \<Longrightarrow> distinct xs \<Longrightarrow> sorted_wrt (>) xs"
  by (induction xs) (auto simp: order.order_iff_strict)

lemma read_feed_rest:
  assumes lib: "board_lib_ok L" and ok: "board_ok L d" and now: "bl_format_time L now \<noteq> None"
    and times: "distinct (map fst (feed_posts L d))"
    and xs: "xs = filter (\<lambda>e. before (Option.bind cursor parse_u64) (fst e)) (feed_posts L d)" and n: "length xs < n"
  shows "read_feed L now limit d n cursor = Inr (map snd xs)"
  using xs n
proof (induction n arbitrary: xs cursor)
  case (Suc n)
  let ?k = "clamp 25 limit"
  let ?c = "Option.bind cursor parse_u64"
  have page: "feed_page L limit d ?c = take ?k xs" and k: "0 < ?k"
    by (simp_all add: feed_page_def Suc.prems clamp_def)
  show ?case
  proof (cases "xs = []")
    case True
    then show ?thesis
      by (simp add: read_feed_page [OF lib ok now] page Let_def del: read_feed.simps)
  next
    case False
    define m where "m = fst (List.last (take ?k xs))"
    have "take ?k xs \<noteq> []"
      using False k by simp
    then have "List.last (take ?k xs) \<in> set xs"
      by (rule in_set_takeD [OF last_in_set])
    then have "before ?c m"
      using Suc.prems(1) by (simp add: m_def)
    then have below: "before ?c ms \<and> ms < m \<longleftrightarrow> before (Some m) ms" for ms
      by (auto simp: before_def split: option.splits)
    have "sorted_wrt (>) (map fst xs)"
      using strictly_sorted [OF feed_posts_sorted [OF lib ok] times] Suc.prems(1)
      by (simp add: sorted_wrt_map sorted_wrt_filter)
    then have "drop ?k xs = filter (\<lambda>e. fst e < m) xs"
      unfolding m_def using False k by (rule filter_below_last [symmetric])
    also have "\<dots> = filter (\<lambda>e. before (Some m) (fst e)) (feed_posts L d)"
      unfolding Suc.prems(1) filter_filter below ..
    finally have rest: "drop ?k xs = filter (\<lambda>e. before (Some m) (fst e)) (feed_posts L d)" .
    have "length (drop ?k xs) < n"
      using Suc.prems(2) False k by (cases xs) auto
    then have "read_feed L now limit d n (Some (decimal (unat m))) = Inr (map snd (drop ?k xs))"
      by (intro Suc.IH) (simp_all add: parse_u64_decimal rest)
    then show ?thesis
      using False k unfolding m_def
      by (simp add: read_feed_page [OF lib ok now] page Let_def del: read_feed.simps flip: map_append)
  qed
qed simp

text \<open>
  C21. When no two posts of the feed were created in the same millisecond, a client that follows the
  cursors reads every post of the feed exactly once, from the newest to the oldest, with any page
  size and at most one request for each post and one more: in every state that the handlers reach.
\<close>

theorem feed_pages_complete:
  assumes "reachable (board_start L) (board_step L P mainnet) d" and "bl_format_time L now \<noteq> None"
    and "distinct (map fst (feed_posts L d))" and "length (feed_posts L d) < n"
  shows "read_feed L now limit d n None = Inr (map snd (feed_posts L d))"
  using board.invariant [OF assms(1)] assms(2-) by (intro read_feed_rest) (simp_all add: before_def)

section \<open>Posts of the same time\<close>

lemma read_feed_below:
  assumes lib: "board_lib_ok L" and ok: "board_ok L d" and now: "bl_format_time L now \<noteq> None"
    and c: "Option.bind cursor parse_u64 = Some m"
  shows "\<exists>ps. read_feed L now limit d n cursor = Inr ps \<and> (\<forall>p \<in> set ps. \<exists>ms. (ms, p) \<in> set (feed_posts L d) \<and> ms < m)"
  using c
proof (induction n arbitrary: cursor m)
  case (Suc n)
  let ?page = "feed_page L limit d (Some m)"
  have page: "(ms, p) \<in> set (feed_posts L d) \<and> ms < m" if "(ms, p) \<in> set ?page" for ms p
    using that by (auto simp: feed_page_def before_def dest!: in_set_takeD)
  show ?case
  proof (cases "?page = []")
    case True
    then show ?thesis
      by (simp add: read_feed_page [OF lib ok now] Suc.prems Let_def del: read_feed.simps)
  next
    case False
    let ?m = "fst (List.last ?page)"
    have "?m < m"
      using page [of ?m "snd (List.last ?page)"] last_in_set [OF False] by simp
    moreover obtain ps where "read_feed L now limit d n (Some (decimal (unat ?m))) = Inr ps"
        "\<forall>p \<in> set ps. \<exists>ms. (ms, p) \<in> set (feed_posts L d) \<and> ms < ?m"
      using Suc.IH [of "Some (decimal (unat ?m))" ?m] by (auto simp: parse_u64_decimal)
    ultimately show ?thesis
      using False page by (fastforce simp: read_feed_page [OF lib ok now] Suc.prems Let_def simp del: read_feed.simps)
  qed
qed simp

lemma feed_posts_distinct:
  assumes lib: "board_lib_ok L" and ok: "board_ok L d"
  shows "distinct (map snd (feed_posts L d))"
proof -
  let ?es = "board_post_by_created_at_iter_all d"
  have "map (bpk_bytes \<circ> feed_key L) (map snd (feed_posts L d)) = map fst (rev ?es)"
    using readable_time(4) [OF rows_readable [OF lib ok]] by (auto simp: feed_posts_def comp_def case_prod_unfold)
  moreover have "distinct (map fst ?es)"
    unfolding board_post_by_created_at_iter_all_def by (rule key_sorted_distinct, rule items_sorted)
  ultimately show ?thesis
    by (metis distinct_map distinct_rev rev_map)
qed

text \<open>
  C34. When the last post of the first page and the post after it were created in the same
  millisecond, a client that follows the cursors never sees the post after it, however often it
  asks: the cursor is a time, and a page begins below it.
\<close>

theorem feed_page_boundary_loses_post:
  assumes reach: "reachable (board_start L) (board_step L P mainnet) d" and now: "bl_format_time L now \<noteq> None"
    and feed: "feed_posts L d = xs @ [(ms, p), (ms, lost)] @ ys" and first_page: "length xs + 1 = clamp 25 limit"
  shows "\<exists>ps. read_feed L now limit d n None = Inr ps \<and> lost \<notin> set ps"
proof (cases n)
  case (Suc k)
  have lib: "board_lib_ok L" and ok: "board_ok L d"
    using board.invariant [OF reach] by simp_all
  have page: "feed_page L limit d None = xs @ [(ms, p)]"
    using first_page by (simp add: feed_page_def before_def feed flip: first_page)
  have lost: "lost \<notin> snd ` set (xs @ [(ms, p)])"
    using feed_posts_distinct [OF lib ok] by (auto simp: feed)
  obtain ps where ps: "read_feed L now limit d k (Some (decimal (unat ms))) = Inr ps"
      "\<forall>q \<in> set ps. \<exists>t. (t, q) \<in> set (feed_posts L d) \<and> t < ms"
    using read_feed_below [OF lib ok now, of "Some (decimal (unat ms))" ms limit k] by (auto simp: parse_u64_decimal)
  have "lost \<notin> set ps"
  proof
    assume "lost \<in> set ps"
    then obtain t where "(t, lost) \<in> set (feed_posts L d)" "t < ms"
      using ps(2) by blast
    moreover have "(ms, lost) \<in> set (feed_posts L d)"
      by (simp add: feed)
    ultimately show False
      using feed_posts_distinct [OF lib ok] inj_onD [of snd "set (feed_posts L d)" "(t, lost)" "(ms, lost)"]
      by (simp add: distinct_map)
  qed
  then show ?thesis
    using ps(1) lost by (auto simp: Suc read_feed_page [OF lib ok now] page Let_def simp del: read_feed.simps)
qed simp

end
