(* ===== verification/Board_Races.thy ===== *)
theory Board_Races
  imports Board_Steps
begin

text \<open>
  Where the board goes wrong: a signed reaction can be used again on any post, and of two replies
  that are written at the same time one is not counted.
\<close>

section \<open>Signatures without a post\<close>

lemma write_post_total:
  assumes p: "storable L p" and now: "timestamp_string L now = Inr t" "parse_timestamp_ms L t = Inr ms"
    and q: "bp_id q = bp_id p" "bp_reply_to_post_id q = bp_reply_to_post_id p" "bp_created_at q = bp_created_at p"
  obtains w' where "write_post_response_with_touch L now q True w = Inr w'"
proof -
  obtain stored where s: "materialize_post_response_for_storage L now q True = Inr stored"
    using now by (simp add: materialize_post_response_for_storage_def)
  then have "bp_id stored = bp_id p" "bp_reply_to_post_id stored = bp_reply_to_post_id p" "bp_created_at stored = bp_created_at p"
    using materialize_fields [OF s] q by auto
  then show thesis
    using that p s by (cases "bp_reply_to_post_id p") (auto simp: write_post_response_with_touch_def Let_def storable_def)
qed

lemma load_trim: "load_post_response L (trim post_id) d = load_post_response L post_id d"
  by (simp add: load_post_response_def split: option.split)

text \<open>
  C36. The signature of a reaction does not cover the post: once a reaction was accepted, the same
  request is accepted for every stored post, at any later time and from whoever sends it, and turns
  the reaction of its signer on that post on or off.
\<close>

theorem reaction_signature_replays:
  assumes lib: "board_lib_ok L"
    and accepted: "fst (toggle_reaction_record L mainnet env post_id request d) = Inr ()"
    and ok: "board_ok L d'" and quiet: "board_quiet env'" "\<not> be_conflict env'"
    and other: "is_text (trim other)" "load_post_response L other d' = Inr p"
    and now: "timestamp_string L (be_touched env') = Inr t" "parse_timestamp_ms L t = Inr ms"
  shows "fst (toggle_reaction_record L mainnet env' other request d') = Inr () \<and>
    (board_reaction_contains_rtx (bl_unicode L) (snd (toggle_reaction_record L mainnet env' other request d'))
       other (bcr_actor_address request) (bcr_emoji request) \<longleftrightarrow>
     \<not> board_reaction_contains_rtx (bl_unicode L) d' other (bcr_actor_address request) (bcr_emoji request))"
proof -
  have valid: "validate_create_reaction_request L mainnet request = Inr ()"
    using accepted by (cases "validate_create_reaction_request L mainnet request")
      (auto simp: toggle_reaction_record_def Let_def)
  obtain u where u: "trim other = bl_uuid_string L u" "post_row L d' u = Some (bl_post_to_vec L p)" "post_ok L d' u p"
    using loaded_post [OF lib ok other] by blast
  let ?b = "board_reaction_contains_rtx (bl_unicode L) d' (trim other) (trim (bcr_actor_address request)) (trim (bcr_emoji request))"
  let ?key = "reaction_key (bl_unicode L) (trim other) (trim (bcr_actor_address request)) (trim (bcr_emoji request))"
  define n where "n = sat_i32 (if ?b then count_reactions_for_post d' (trim other) - 1 else count_reactions_for_post d' (trim other) + 1)"
  define w0 where "w0 = (if ?b then board_reaction_remove_wtx else board_reaction_insert_wtx)
    (bl_unicode L) (trim other) (trim (bcr_actor_address request)) (trim (bcr_emoji request)) (begin_wtx d')"
  obtain w where w: "write_post_response_with_touch L (be_touched env') (p\<lparr>bp_reaction_count := max n 0\<rparr>) True w0 = Inr w"
    using write_post_total [OF _ now, of p "p\<lparr>bp_reaction_count := max n 0\<rparr>"] u(3) by (auto simp: post_ok_def)
  have update: "update_post_reaction_count L (be_touched env') d' (trim other) n w0 = Inr w"
    using w other(2) by (simp add: update_post_reaction_count_def load_trim)
  have "ensure_post_exists (trim other) d' = Inr ()"
    using u(1,2) uuid_text(1) [OF board_lib_laws(1) [OF lib]] by (simp add: ensure_post_exists_def board_post_by_id_get_rtx_def)
  then have "toggle_reaction_record L mainnet env' other request d' = (Inr (), commit w d')"
    using valid update quiet(2)
    by (simp add: toggle_reaction_record_def Let_def quiet_commit [OF quiet(1)] n_def [symmetric] w0_def [symmetric])
  moreover have "commit w d' PBoardReactionByPostActorEmoji = commit w0 d' PBoardReactionByPostActorEmoji"
    by (rule write_post_commit [OF w]) simp
  ultimately show ?thesis
    by (auto simp: board_reaction_contains_rtx_def reaction_key_def w0_def board_writes)
qed


section \<open>Replies at the same time\<close>

text \<open>A new reply to a stored post, with what others wrote before its commit.\<close>

lemma reply_run:
  assumes lib: "board_lib_ok L" and ok: "board_ok L d" and parent: "is_text (trim parent)" "load_post_response L parent d = Inr p"
    and before: "be_before_count env d = d"
    and run: "create_post_record L mainnet env request (Some parent) d = (Inr r, d')"
    and new: "existing_post L (bcp_client_generated_id request) d = Inr None"
  obtains u ms stored p' k v where "trim parent = bl_uuid_string L u" "ms \<noteq> - 1"
    "materialize_post_response_for_storage L (be_touched env) (p\<lparr>bp_reply_count := sat_i32 (bp_reply_count p + 1)\<rparr>) True = Inr p'"
    "bp_id stored = bl_uuid_string L (be_uuid env)"
    "d' = store_post L p' (db_insert PBoardReplyByParentCreatedAt
       (brk_bytes \<lparr>brk_parent_post_uuid = u, brk_created_at_ms = ms, brk_reply_uuid = be_uuid env\<rparr>) []
       (db_insert PBoardClientGeneratedIdToPostId k v (store_post L stored (be_before_commit env d))))"
proof -
  obtain u where u: "trim parent = bl_uuid_string L u"
    using loaded_post [OF lib ok parent] by blast
  have texts: "bl_uuid_string L u \<noteq> []" "bl_parse_uuid L (bl_uuid_string L u) = Some u"
    using board_lib_laws(1) [OF lib] by (simp_all add: uuid_texts_ok_def)
  then have forced: "normalized_optional (Some parent) = Some (bl_uuid_string L u)"
    using u by (simp add: normalized_optional_def nonempty_def)
  show thesis
    using run
  proof (cases rule: create_post_cases)
    case (new post w)
    have post: "bp_id post = bl_uuid_string L (be_uuid env)" "bp_reply_to_post_id post = Some (bl_uuid_string L u)"
      using new(2) forced by (auto simp: new_post_def Let_def split: option.splits)
    show thesis
      using before new(3)
    proof (cases rule: post_writes_effect)
      case (reply stored parent_id parent_uuid ms q p')
      then have "parent_id = bl_uuid_string L u" "parent_uuid = u"
        using post(2) texts by auto
      moreover have "q = p"
        using reply(6) parent(2) \<open>parent_id = bl_uuid_string L u\<close> load_trim [of L parent d] by (simp add: u)
      ultimately show thesis
        using that [OF u parse_timestamp_not_last [OF lib reply(5)], of p' stored] reply(7,9) new(4) before post(1)
          materialize_fields [OF reply(1)] by auto
    qed (use post in simp)
  qed (use new in auto)
qed

lemma reply_rows_other: "reply_rows (db_insert PBoardClientGeneratedIdToPostId k v d) u = reply_rows d u"
  by (simp add: reply_rows_scan)

text \<open>
  C35. A reply that is committed between the moment another reply to the same post reads the counter
  of the post and its commit is lost from the counter: two replies are stored and the counter is
  one more than before. No conflict is reported, as nothing that was written is read in the
  transaction.
\<close>

theorem concurrent_replies_counted_once:
  assumes lib: "board_lib_ok L" and ok: "board_ok L d" and parent: "is_text (trim parent)" "load_post_response L parent d = Inr p"
    and fresh: "post_row L d (be_uuid a) = None" "post_row L d (be_uuid b) = None" "be_uuid a \<noteq> be_uuid b"
    and new: "existing_post L (bcp_client_generated_id first) d = Inr None"
      "existing_post L (bcp_client_generated_id second) d = Inr None"
    and b: "board_quiet b" "create_post_record L mainnet b second (Some parent) d = (Inr rb, db)"
    and a: "be_before_count a = (\<lambda>d. d)" "be_before_commit a = (\<lambda>d. snd (create_post_record L mainnet b second (Some parent) d))"
      "create_post_record L mainnet a first (Some parent) d = (Inr ra, d')"
  shows "\<exists>u p'. bl_parse_uuid L (trim parent) = Some u \<and> load_post_response L parent d' = Inr p' \<and>
    bp_reply_count p' = sat_i32 (bp_reply_count p + 1) \<and>
    length (get_by_parent_post_id d' u) = length (get_by_parent_post_id d u) + 2"
proof -
  have quiet: "be_before_count b d = d" "be_before_commit b d = d" "be_before_commit a d = db"
    using b a(2) by (simp_all add: board_quiet_def)
  obtain u ms stored p' k v where B: "trim parent = bl_uuid_string L u" "ms \<noteq> - 1"
    "db = store_post L p' (db_insert PBoardReplyByParentCreatedAt
       (brk_bytes \<lparr>brk_parent_post_uuid = u, brk_created_at_ms = ms, brk_reply_uuid = be_uuid b\<rparr>) []
       (db_insert PBoardClientGeneratedIdToPostId k v (store_post L stored d)))"
    using reply_run [OF lib ok parent quiet(1) b(2) new(2)] quiet(2) by metis
  have "be_before_count a d = d"
    by (simp add: a(1))
  then obtain u' ms' stored' q k' v' where A: "trim parent = bl_uuid_string L u'" "ms' \<noteq> - 1"
    "materialize_post_response_for_storage L (be_touched a) (p\<lparr>bp_reply_count := sat_i32 (bp_reply_count p + 1)\<rparr>) True = Inr q"
    "d' = store_post L q (db_insert PBoardReplyByParentCreatedAt
       (brk_bytes \<lparr>brk_parent_post_uuid = u', brk_created_at_ms = ms', brk_reply_uuid = be_uuid a\<rparr>) []
       (db_insert PBoardClientGeneratedIdToPostId k' v' (store_post L stored' db)))"
    using reply_run [OF lib ok parent _ a(3) new(1)] quiet(3) by metis
  note laws = board_lib_laws [OF lib]
  have u': "u' = u"
    using A(1) B(1) uuid_text_inject(1) [OF laws(1)] by simp
  have "post_ok L d u p"
    using loaded_post [OF lib ok parent] B(1) uuid_text_inject(1) [OF laws(1)] by metis
  then have q: "bp_id q = bl_uuid_string L u" "bp_reply_count q = sat_i32 (bp_reply_count p + 1)"
    using materialize_fields [OF A(3)] by (auto simp: post_ok_def)
  let ?ka = "\<lparr>brk_parent_post_uuid = u, brk_created_at_ms = ms', brk_reply_uuid = be_uuid a\<rparr>"
  let ?kb = "\<lparr>brk_parent_post_uuid = u, brk_created_at_ms = ms, brk_reply_uuid = be_uuid b\<rparr>"
  have rows: "tget (d PBoardReplyByParentCreatedAt) (brk_bytes ?ka) = None" "tget (d PBoardReplyByParentCreatedAt) (brk_bytes ?kb) = None"
    using new_reply_row [OF ok] fresh by simp_all
  have "reply_rows db u = reply_rows d u + 1"
    unfolding B(3) store_post_rows by (subst reply_row_added(1)) (use B(2) rows in \<open>simp_all add: reply_rows_other\<close>)
  moreover have "reply_rows d' u = reply_rows db u + 1"
    unfolding A(4) u' store_post_rows
    by (subst reply_row_added(1)) (use A(2) rows fresh(3) in \<open>simp_all add: reply_rows_other B(3) brk.enc_inject\<close>)
  moreover have "load_post_response L parent d' = Inr q"
    using q(1) laws(2) by (simp add: load_post_response_row A(4) B(1) store_post_get)
  moreover have "bl_parse_uuid L (trim parent) = Some u"
    using laws(1) by (simp add: B(1) uuid_texts_ok_def)
  ultimately show ?thesis
    using q(2) by (auto simp: reply_rows_def)
qed

end
