(* ===== verification/Board_Examples.thy ===== *)
theory Board_Examples
  imports Push_Runs Board_Codec Board_Follows Board_Pages Board_Races
begin

text \<open>
  A small instance of the crates, and runs of the board on it: the instances at which the properties
  of the board are applied.
\<close>

section \<open>An instance of the crates\<close>

definition hex_value :: "rchar \<Rightarrow> nat" where
  "hex_value c = (if c < 97 then c - 48 else c - 87)"

fun unhex :: "rstr \<Rightarrow> bytes" where
  "unhex (a # b # s) = word_of_nat (16 * hex_value a + hex_value b) # unhex s"
| "unhex _ = []"

text \<open>
  An address stands for the key of its last character, a signature begins with the key, and a time
  is a number of milliseconds in decimal notation.
\<close>

definition example_board_lib :: "(addr_version \<times> bytes, 32 word) board_lib" where
  "example_board_lib = kaspa_lib.extend example_lib
     (board_lib.fields (\<lambda>s. s) (\<lambda>bs. of_list (take 32 (bs @ replicate 32 0)))
       (\<lambda>s. if handle s then Some (PubKey, replicate 32 (word_of_nat (List.last s))) else None)
       (\<lambda>bs. Some (unhex (map unat bs))) (\<lambda>_. True) (\<lambda>_. True) (\<lambda>signature _ key. take 32 signature = key)
       (\<lambda>s. if s \<noteq> [] \<and> list_all is_ascii_digit s then Some (word_of_nat (decimal_value s)) else None)
       (\<lambda>t. Some (decimal (unat t))) (\<lambda>t. uint t * 1000000) (\<lambda>t days. Some (t + word_of_int (86400000 * days)))
       (\<lambda>u. hex (list_of u)) (\<lambda>s. if length s = 32 then Some (of_list (unhex s)) else None)
       (\<lambda>_. []) (to_vec post_codec) (from_slice post_codec) (to_vec follow_codec) (from_slice follow_codec) (\<lambda>_. [])
       (\<lambda>_. None) (\<lambda>_. True))"

lemma example_board_lib_simps [simp]:
  "bl_unicode example_board_lib = (\<lambda>s. s)"
  "bl_rpc_address example_board_lib =
     (\<lambda>s. if handle s then Some (PubKey, replicate 32 (word_of_nat (List.last s))) else None)"
  "bl_hex_decode example_board_lib = (\<lambda>bs. Some (unhex (map unat bs)))"
  "bl_xonly_public_key example_board_lib = (\<lambda>_. True)"
  "bl_schnorr_signature example_board_lib = (\<lambda>_. True)"
  "bl_schnorrsig_verify example_board_lib = (\<lambda>signature _ key. take 32 signature = key)"
  "bl_parse_time example_board_lib =
     (\<lambda>s. if s \<noteq> [] \<and> list_all is_ascii_digit s then Some (word_of_nat (decimal_value s)) else None)"
  "bl_format_time example_board_lib = (\<lambda>t. Some (decimal (unat t)))"
  "bl_unix_timestamp_nanos example_board_lib = (\<lambda>t. uint t * 1000000)"
  "bl_plus_days example_board_lib = (\<lambda>t days. Some (t + word_of_int (86400000 * days)))"
  "bl_uuid_string example_board_lib = (\<lambda>u. hex (list_of u))"
  "bl_parse_uuid example_board_lib = (\<lambda>s. if length s = 32 then Some (of_list (unhex s)) else None)"
  "bl_post_to_vec example_board_lib = to_vec post_codec" "bl_post_from_slice example_board_lib = from_slice post_codec"
  "bl_follow_to_vec example_board_lib = to_vec follow_codec" "bl_follow_from_slice example_board_lib = from_slice follow_codec"
  "bl_url_parse example_board_lib = (\<lambda>_. None)" "bl_header_value example_board_lib = (\<lambda>_. True)"
  "from_script example_board_lib = from_script example_lib" "class_version example_board_lib = class_version example_lib"
  "version_as_u8 example_board_lib = version_as_u8 example_lib" "version_try_from example_board_lib = version_try_from example_lib"
  "pay_to_address_script example_board_lib = pay_to_address_script example_lib"
  by (simp_all add: example_board_lib_def kaspa_lib.defs board_lib.defs)

lemma unhex_hex [simp]: "unhex (hex bs) = bs"
proof -
  have "word_of_nat (16 * hex_value (hex_digit (unat b div 16)) + hex_value (hex_digit (unat b mod 16))) = b" for b :: byte
  proof -
    have "unat b div 16 < 16" "unat b mod 16 < 16"
      using unsigned_less [of b, where ?'a = nat] by simp_all
    moreover have "hex_value (hex_digit n) = n" if "n < 16" for n
      using that by (simp add: hex_value_def hex_digit_def)
    ultimately show ?thesis
      by simp
  qed
  then show ?thesis
    by (induction bs) (simp_all add: hex_def)
qed

lemma example_board_lib_ok: "board_lib_ok example_board_lib"
proof -
  have "uuid_texts_ok example_board_lib"
    using hex_digits by (auto simp: uuid_texts_ok_def list_of_nonempty simp flip: length_greater_0_conv)
  moreover have "addresses_ok example_board_lib"
    by (auto simp: addresses_ok_def handle_def)
  moreover have "millis_of_nanos (uint t * 1000000) < 2 ^ 64 - 1" for t :: "32 word"
    using uint_lt2p [of t] by (simp add: millis_of_nanos_def)
  ultimately show ?thesis
    by (simp add: board_lib_ok_def from_slice_to_vec codecs_ok)
qed


section \<open>Requests\<close>

definition wallet :: "rchar \<Rightarrow> rstr" where
  "wallet c = str ''kaspa:'' @ [c]"

definition sign_as :: "rchar \<Rightarrow> rstr" where
  "sign_as c = hex (replicate 64 (word_of_nat c))"

lemma hex_text:
  "trim (hex bs) = hex bs" "is_ascii (hex bs)" "unhex (map unat (utf8 (hex bs))) = bs"
proof -
  have c: "48 \<le> c \<and> c \<le> 102" if "c \<in> set (hex bs)" for c
    using hex_digits [OF that] by (auto simp: is_ascii_hexdigit_def is_ascii_digit_def)
  then show "trim (hex bs) = hex bs"
    by (intro trim_fixed) (fastforce simp: is_whitespace_def)
  show ascii: "is_ascii (hex bs)"
    using c by (fastforce simp: is_ascii_def)
  have "map unat (utf8 (hex bs)) = hex bs"
    unfolding utf8_ascii [OF ascii] using c by (fastforce simp: unat_of_nat intro!: map_idI)
  then show "unhex (map unat (utf8 (hex bs))) = bs"
    by simp
qed

lemma wallet_handle:
  assumes "is_ascii_lowercase c"
  shows "handle (wallet c)" "trim (wallet c) = wallet c" "to_lowercase u (wallet c) = wallet c" "wallet c \<noteq> []"
    "List.last (wallet c) = c"
proof -
  show "handle (wallet c)"
    using assms by (auto simp: handle_def wallet_def str_def is_ascii_lowercase_def)
  then show "trim (wallet c) = wallet c" "to_lowercase u (wallet c) = wallet c"
    by (simp_all add: handle_facts)
qed (simp_all add: wallet_def)

lemma example_actor:
  assumes "is_ascii_lowercase c"
  shows "actor_payload example_board_lib field (wallet c) =
      Inr \<lparr>inverse_version = 255, payload = of_list (replicate 32 (word_of_nat c))\<rparr>"
    "validate_board_actor_address example_board_lib name (wallet c) = Inr ()"
    "verify_board_signature example_board_lib (wallet c) message (sign_as c) = Inr ()"
proof -
  show payload: "actor_payload example_board_lib field (wallet c) =
      Inr \<lparr>inverse_version = 255, payload = of_list (replicate 32 (word_of_nat c))\<rparr>" for field
    using wallet_handle [OF assms]
    by (simp add: actor_payload_def address_payload_from_address_def address_payload_from_script_def example_lib_def slice_def
        Let_def board_of_def)
  show "validate_board_actor_address example_board_lib name (wallet c) = Inr ()"
    using wallet_handle [OF assms] by (simp add: validate_board_actor_address_def payload)
  have "version_try_from example_lib (255 - 255) = Some PubKey"
    by (simp add: example_lib_def)
  then show "verify_board_signature example_board_lib (wallet c) message (sign_as c) = Inr ()"
    using wallet_handle [OF assms]
    by (simp add: verify_board_signature_def payload sign_as_def decode_fixed_hex_def hex_text byte_len_ascii Let_def)
qed

definition example_post :: "rchar \<Rightarrow> string \<Rightarrow> string \<Rightarrow> 32 word \<Rightarrow> board_create_post_request" where
  "example_post c client_id content t =
     \<lparr>bcp_author_address = wallet c, bcp_author_display_name = [], bcp_content_text = str content, bcp_attachments = [],
      bcp_reply_to_post_id = None, bcp_primary_link_url = None, bcp_created_at = decimal (unat t),
      bcp_client_generated_id = str client_id, bcp_signature = sign_as c, bcp_network = str ''mainnet''\<rparr>"

definition example_env :: "uuid \<Rightarrow> 32 word board_env" where
  "example_env u = \<lparr>be_uuid = u, be_now = 7, be_touched = 8, be_server_time = 9, be_before_count = (\<lambda>d. d),
     be_before_commit = (\<lambda>d. d), be_conflict = False\<rparr>"

lemma example_env_simps [simp]:
  "be_uuid (example_env u) = u" "be_now (example_env u) = 7" "be_touched (example_env u) = 8"
  "be_server_time (example_env u) = 9" "be_before_count (example_env u) = (\<lambda>d. d)"
  "be_before_commit (example_env u) = (\<lambda>d. d)" "\<not> be_conflict (example_env u)" "board_quiet (example_env u)"
  by (simp_all add: example_env_def board_quiet_def)

lemma sign_as_text: "trim (sign_as c) = sign_as c" "sign_as c \<noteq> []"
  by (simp_all add: sign_as_def hex_text flip: length_greater_0_conv)

lemma mainnet_text: "validate_network example_board_lib True (str ''mainnet'') = Inr ()"
  by (simp add: validate_network_def text_defs)

lemma example_post_valid:
  assumes c: "is_ascii_lowercase c" and texts: "trim (str content) \<noteq> []" "length content \<le> 10000" "trim (str client_id) \<noteq> []"
    and forced: "\<And>s. forced = Some s \<Longrightarrow> trim s \<noteq> []"
  shows "validate_create_post_request example_board_lib True (example_post c client_id content t) forced = Inr ()"
proof -
  have "length (str content) \<le> 10000"
    using texts(2) by (simp add: str_def)
  then show ?thesis
    using texts(1,3) by (auto simp: validate_create_post_request_def example_post_def example_actor [OF c] sign_as_text mainnet_text
        normalized_optional_def split: option.split)
qed

lemma decimal_text: "trim (decimal n) = decimal n" "list_all is_ascii_digit (decimal n)"
proof -
  show "list_all is_ascii_digit (decimal n)"
    using decimal_digits by (auto simp: list_all_iff)
  have "48 \<le> c \<and> c \<le> 57" if "c \<in> set (decimal n)" for c
    using decimal_digits [OF that] by (simp add: is_ascii_digit_def)
  then show "trim (decimal n) = decimal n"
    by (intro trim_fixed) (fastforce simp: is_whitespace_def)
qed

lemma example_time:
  "parse_timestamp_ms example_board_lib (decimal (unat t)) = Inr (ucast t)" for t :: "32 word"
proof -
  have "millis_of_nanos (uint t * 1000000) = uint t" "uint t < 2 ^ 64"
    using uint_lt2p [of t] by (simp_all add: millis_of_nanos_def)
  then show ?thesis
    by (simp add: parse_timestamp_ms_def decimal_text Let_def)
qed


section \<open>Posts\<close>

abbreviation "BL \<equiv> example_board_lib"

definition unstored_post :: "uuid \<Rightarrow> rchar \<Rightarrow> string \<Rightarrow> 32 word \<Rightarrow> rstr option \<Rightarrow> board_post_response" where
  "unstored_post u c content t reply_to =
     \<lparr>bp_id = hex (list_of u), bp_author = \<lparr>bau_address = wallet c, bau_display_name = wallet c, bau_avatar_url = None,
        bau_avatar_file_id = None, bau_avatar_file_extension = None\<rparr>,
      bp_content_text = trim (str content), bp_attachments = [], bp_reply_to_post_id = reply_to, bp_primary_link_url = None,
      bp_link_preview = None, bp_created_at = decimal (unat t), bp_expires_at = Some (decimal (unat (t + 2592000000))),
      bp_reply_count = 0, bp_reaction_count = 0, bp_visibility_state = str ''visible'', bp_moderation_state = str ''none'',
      bp_revision_token = None, bp_updated_at = None\<rparr>"

definition stamp :: "32 word \<Rightarrow> board_post_response \<Rightarrow> board_post_response" where
  "stamp t p = (let q = p\<lparr>bp_revision_token := None, bp_updated_at := Some (decimal (unat t))\<rparr>
     in q\<lparr>bp_revision_token := Some (revision_text BL (ucast t) q)\<rparr>)"

definition stored_post :: "uuid \<Rightarrow> rchar \<Rightarrow> string \<Rightarrow> 32 word \<Rightarrow> rstr option \<Rightarrow> board_post_response" where
  "stored_post u c content t reply_to = stamp t (unstored_post u c content t reply_to)"

lemma stamp_simps [simp]:
  "bp_id (stamp t p) = bp_id p" "bp_reply_to_post_id (stamp t p) = bp_reply_to_post_id p"
  "bp_created_at (stamp t p) = bp_created_at p" "bp_reply_count (stamp t p) = bp_reply_count p"
  "bp_reaction_count (stamp t p) = bp_reaction_count p"
  by (simp_all add: stamp_def Let_def)

lemma unstored_post_simps [simp]:
  "bp_id (unstored_post u c content t r) = hex (list_of u)" "bp_reply_to_post_id (unstored_post u c content t r) = r"
  "bp_created_at (unstored_post u c content t r) = decimal (unat t)" "bp_reply_count (unstored_post u c content t r) = 0"
  "bp_reaction_count (unstored_post u c content t r) = 0"
  by (simp_all add: unstored_post_def)

lemma stored_post_simps [simp]:
  "bp_id (stored_post u c content t r) = hex (list_of u)" "bp_reply_to_post_id (stored_post u c content t r) = r"
  "bp_created_at (stored_post u c content t r) = decimal (unat t)" "bp_reply_count (stored_post u c content t r) = 0"
  "bp_reaction_count (stored_post u c content t r) = 0"
  by (simp_all add: stored_post_def)

lemma trim_Nil: "trim [] = []"
  by (simp add: trim_def trim_start_def trim_end_def)

lemma example_new_post:
  assumes "is_ascii_lowercase c"
  shows "new_post BL env (example_post c cid content t) r =
    Inr (unstored_post (be_uuid env) c content t r)"
  using wallet_handle [OF assms]
  by (simp add: new_post_def example_post_def parse_requested_created_at_def decimal_text timestamp_string_def
      unstored_post_def normalized_or_fallback_def normalized_optional_def build_link_preview_def trim_Nil Let_def)

lemma materialize_touched: "materialize_post_response_for_storage BL t p True = Inr (stamp t p)"
  by (simp add: materialize_post_response_for_storage_def timestamp_string_def example_time stamp_def Let_def)

lemma materialize_new:
  "materialize_post_response_for_storage BL now (unstored_post u c content t r) False = Inr (stored_post u c content t r)"
proof -
  have "normalized_optional (bp_updated_at (unstored_post u c content t r)) = None"
    by (simp add: unstored_post_def normalized_optional_def)
  then show ?thesis
    by (simp add: materialize_post_response_for_storage_def example_time stored_post_def stamp_def Let_def)
qed

lemma example_feed_key:
  "bp_id p = hex (list_of u) \<Longrightarrow> bp_created_at p = decimal (unat t) \<Longrightarrow>
     feed_key BL p = \<lparr>bpk_created_at_ms = ucast t, bpk_post_uuid = u\<rparr>" for t :: "32 word"
  by (simp add: feed_key_def example_time hex_text)

lemma write_commit:
  assumes "materialize_post_response_for_storage BL now p touch = Inr q" "bp_id q = hex (list_of (u :: uuid))"
    "bp_created_at q = decimal (unat (t :: 32 word))"
  obtains w' where "write_post_response_with_touch BL now p touch w = Inr w'" "\<And>d. commit w' d = store_post BL q (commit w d)"
proof -
  obtain w' where w': "write_post_response_with_touch BL now p touch w = Inr w'"
    using assms by (cases "bp_reply_to_post_id q")
      (auto simp: write_post_response_with_touch_def Let_def hex_text example_time)
  show thesis
    by (rule write_post_commit [OF w']) (use that [OF w'] assms(1) in auto)
qed

lemma example_create:
  assumes c: "is_ascii_lowercase c" and texts: "trim (str content) \<noteq> []" "length content \<le> 10000" "trim (str cid) \<noteq> []"
    and new: "existing_post BL (str cid) d = Inr None"
    and env: "be_before_count env = (\<lambda>d. d)" "\<not> be_conflict env"
  shows "create_post_record BL True env (example_post c cid content t) None d =
    (Inr (stored_post (be_uuid env) c content t None),
     db_insert PBoardClientGeneratedIdToPostId (utf8 (trim (str cid))) (utf8 (hex (list_of (be_uuid env))))
       (store_post BL (stored_post (be_uuid env) c content t None) (be_before_commit env d)))"
proof -
  obtain w where w: "write_post_response_with_touch BL (be_touched env) (unstored_post (be_uuid env) c content t None) False
      (begin_wtx d) = Inr w" "\<And>e. commit w e = store_post BL (stored_post (be_uuid env) c content t None) e"
    by (rule write_commit [OF materialize_new [of "be_touched env" "be_uuid env" c content t None], of "be_uuid env" t "begin_wtx d"]) auto
  have cid: "bcp_client_generated_id (example_post c cid content t) = str cid"
    by (simp add: example_post_def)
  have valid: "validate_create_post_request BL True (example_post c cid content t) None = Inr ()"
    by (rule example_post_valid [OF c texts]) simp
  show ?thesis
    using env
    by (simp add: create_post_record_def prepare_post_def valid cid new normalized_optional_def
        example_new_post [OF c] post_writes_def w(1) board_commit_def board_writes w(2) load_post_response_row hex_text store_post_get
        from_slice_to_vec codecs_ok)
qed


lemma example_reply:
  assumes c: "is_ascii_lowercase c" and texts: "trim (str content) \<noteq> []" "length content \<le> 10000" "trim (str cid) \<noteq> []"
    and new: "existing_post BL (str cid) d = Inr None" and env: "be_before_count env = (\<lambda>d. d)" "\<not> be_conflict env"
    and parent: "load_post_response BL (hex (list_of pu)) d = Inr p" "bp_id p = hex (list_of pu)"
      "bp_created_at p = decimal (unat (t0 :: 32 word))" and u: "pu \<noteq> be_uuid env"
  shows "create_post_record BL True env (example_post c cid content t) (Some (hex (list_of pu))) d =
    (Inr (stored_post (be_uuid env) c content t (Some (hex (list_of pu)))),
     store_post BL (stamp (be_touched env) (p\<lparr>bp_reply_count := sat_i32 (bp_reply_count p + 1)\<rparr>))
       (db_insert PBoardReplyByParentCreatedAt
         (brk_bytes \<lparr>brk_parent_post_uuid = pu, brk_created_at_ms = ucast t, brk_reply_uuid = be_uuid env\<rparr>) []
         (db_insert PBoardClientGeneratedIdToPostId (utf8 (trim (str cid))) (utf8 (hex (list_of (be_uuid env))))
           (store_post BL (stored_post (be_uuid env) c content t (Some (hex (list_of pu)))) (be_before_commit env d)))))"
proof -
  let ?parent = "hex (list_of pu)" and ?q = "p\<lparr>bp_reply_count := sat_i32 (bp_reply_count p + 1)\<rparr>"
  let ?w1 = "\<lambda>w. board_reply_insert_wtx \<lparr>brk_parent_post_uuid = pu, brk_created_at_ms = ucast t, brk_reply_uuid = be_uuid env\<rparr>
    (board_client_generated_id_insert_wtx (trim (str cid)) (hex (list_of (be_uuid env))) w)"
  have valid: "validate_create_post_request BL True (example_post c cid content t) (Some ?parent) = Inr ()"
    by (rule example_post_valid [OF c texts]) (auto simp: hex_text list_of_nonempty simp flip: length_greater_0_conv)
  have parent_text: "normalized_optional (Some ?parent) = Some ?parent"
    by (simp add: normalized_optional_def nonempty_def hex_text flip: length_greater_0_conv)
  have exists: "ensure_post_exists ?parent d = Inr ()"
    using parent(1) by (auto simp: ensure_post_exists_def load_post_response_row board_post_by_id_get_rtx_def)
  obtain w where w: "write_post_response_with_touch BL (be_touched env) (unstored_post (be_uuid env) c content t (Some ?parent)) False
      (begin_wtx d) = Inr w" "\<And>e. commit w e = store_post BL (stored_post (be_uuid env) c content t (Some ?parent)) e"
    by (rule write_commit [OF materialize_new [of "be_touched env" "be_uuid env" c content t "Some ?parent"],
          of "be_uuid env" t "begin_wtx d"]) auto
  obtain w' where w': "write_post_response_with_touch BL (be_touched env) ?q True (?w1 w) = Inr w'"
      "\<And>e. commit w' e = store_post BL (stamp (be_touched env) ?q) (commit (?w1 w) e)"
    by (rule write_commit [OF materialize_touched [of "be_touched env" ?q], of pu t0 "?w1 w"]) (use parent in auto)
  have cid: "bcp_client_generated_id (example_post c cid content t) = str cid"
    by (simp add: example_post_def)
  have writes: "post_writes BL env (str cid) (unstored_post (be_uuid env) c content t (Some ?parent)) d = Inr w'"
    using env(1) by (simp add: post_writes_def w(1) example_time update_post_reply_count_def parent(1) w'(1))
  have prepared: "prepare_post BL True env (example_post c cid content t) (Some ?parent) d =
      Inr (Inr (unstored_post (be_uuid env) c content t (Some ?parent), w'))"
    by (simp add: prepare_post_def valid cid new parent_text exists example_new_post [OF c] writes)
  have ne: "utf8 (hex (list_of (be_uuid env))) \<noteq> utf8 (hex (list_of pu))"
    using u uuid_text_inject(2) [OF board_lib_laws(1) [OF example_board_lib_ok]] by simp
  show ?thesis
    using env parent(2) ne
    by (simp add: create_post_record_def prepared board_commit_def w'(2) w(2) board_writes load_post_response_row hex_text
        store_post_get from_slice_to_vec codecs_ok)
qed

end
