(* ===== verification/Board_Runs.thy ===== *)
theory Board_Runs
  imports Board_Examples
begin

text \<open>Runs of the board, at which its properties are applied.\<close>

section \<open>Two posts\<close>

definition empty_board :: db where "empty_board = (\<lambda>_. tempty)"

definition id1 :: uuid where "id1 = of_list (replicate 16 1)"
definition id2 :: uuid where "id2 = of_list (replicate 16 2)"
definition id3 :: uuid where "id3 = of_list (replicate 16 3)"

abbreviation "hi \<equiv> example_post 97 ''x'' ''hi'' 5"
abbreviation "stored_hi \<equiv> stored_post id1 97 ''hi'' 5 None"
abbreviation "ho t \<equiv> example_post 98 ''y'' ''ho'' t"
abbreviation "stored_ho t \<equiv> stored_post id2 98 ''ho'' t None"

definition one_post :: db where
  "one_post = snd (create_board_post BL True (example_env id1) hi empty_board)"

definition two_posts :: "32 word \<Rightarrow> db" where
  "two_posts t = snd (create_board_post BL True (example_env id2) (ho t) one_post)"

lemma ids: "id1 \<noteq> id2" "id1 \<noteq> id3" "id2 \<noteq> id3" "list_of id1 = replicate 16 1" "list_of id2 = replicate 16 2"
    "list_of id3 = replicate 16 3"
  by (simp_all add: id1_def id2_def id3_def list_of_of_list_exact flip: list_of_eq_iff)

lemma example_letters [simp]: "is_ascii_lowercase 97" "is_ascii_lowercase 98" "is_ascii_lowercase 99"
  by (simp_all add: is_ascii_lowercase_def)

lemma example_words [simp]:
  "trim (str ''x'') = str ''x''" "trim (str ''y'') = str ''y''" "trim (str ''z'') = str ''z''" "trim (str ''hi'') = str ''hi''"
  "trim (str ''ho'') = str ''ho''" "str ''x'' \<noteq> []" "str ''y'' \<noteq> []" "str ''z'' \<noteq> []" "str ''hi'' \<noteq> []" "str ''ho'' \<noteq> []"
  by (simp_all add: text_defs)

lemma client_ids [simp]:
  "utf8 (str ''y'') \<noteq> utf8 (str ''x'')" "utf8 (str ''z'') \<noteq> utf8 (str ''x'')" "utf8 (str ''z'') \<noteq> utf8 (str ''y'')"
  by (simp_all add: utf8_def utf8_char_def str_def)

lemma one_post_eq:
  "create_post_record BL True (example_env id1) hi None empty_board = (Inr stored_hi, one_post)"
  "one_post = db_insert PBoardClientGeneratedIdToPostId (utf8 (str ''x'')) (utf8 (hex (list_of id1)))
     (store_post BL stored_hi empty_board)"
proof -
  have "existing_post BL (str ''x'') empty_board = Inr None"
    by (simp add: existing_post_def board_client_generated_id_get_rtx_def empty_board_def)
  note run = example_create [of 97 "''hi''" "''x''" empty_board "example_env id1" 5, OF _ _ _ _ this]
  show "one_post = db_insert PBoardClientGeneratedIdToPostId (utf8 (str ''x'')) (utf8 (hex (list_of id1)))
     (store_post BL stored_hi empty_board)"
    by (simp add: one_post_def handler_databases run)
  then show "create_post_record BL True (example_env id1) hi None empty_board = (Inr stored_hi, one_post)"
    by (simp add: run)
qed

lemma new_client_id: "existing_post BL (str ''y'') one_post = Inr None" "existing_post BL (str ''z'') one_post = Inr None"
  by (simp_all add: existing_post_def board_client_generated_id_get_rtx_def one_post_eq(2) empty_board_def)

lemma two_posts_eq:
  "two_posts t = db_insert PBoardClientGeneratedIdToPostId (utf8 (str ''y'')) (utf8 (hex (list_of id2)))
     (store_post BL (stored_ho t) one_post)"
  using example_create [of 98 "''ho''" "''y''" one_post "example_env id2" t, OF _ _ _ _ new_client_id(1)]
  by (simp add: two_posts_def handler_databases)

lemma no_post:
  "tget (empty_board PBoardPostById) (utf8 (hex (list_of u))) = None"
  "u \<noteq> id1 \<Longrightarrow> tget (one_post PBoardPostById) (utf8 (hex (list_of u))) = None" for u :: uuid
  using uuid_text_inject(2) [OF board_lib_laws(1) [OF example_board_lib_ok]]
  by (simp_all add: empty_board_def one_post_eq(2) store_post_get)

lemma empty_board_reachable: "reachable (board_start BL) (board_step BL P True) empty_board"
  by (rule reachable_start) (simp add: board_start_def example_board_lib_ok empty_board_def)

lemma one_post_reachable: "reachable (board_start BL) (board_step BL P True) one_post"
  unfolding one_post_def
  by (rule reachable_step [OF empty_board_reachable]) (rule step_post; simp add: no_post)

lemma two_posts_reachable: "reachable (board_start BL) (board_step BL P True) (two_posts t)"
  unfolding two_posts_def
  by (rule reachable_step [OF one_post_reachable]) (rule step_post; simp add: no_post ids(1) [symmetric])

lemma load_hi: "load_post_response BL (hex (list_of id1)) one_post = Inr stored_hi"
  by (simp add: load_post_response_row one_post_eq(2) store_post_get hex_text from_slice_to_vec codecs_ok)

section \<open>Access\<close>

theorem board_changes_signed_witness:
  "signed_by BL (wallet 97) (post_signable hi) (sign_as 97)"
proof -
  have "post_row BL one_post id1 \<noteq> post_row BL empty_board id1"
    by (simp add: one_post_eq(2) store_post_get empty_board_def)
  then have "snd (create_post_record BL True (example_env id1) hi None empty_board) \<noteq> empty_board"
    by (auto simp: one_post_eq(1))
  then show ?thesis
    using board_changes_signed [of "example_env id1" BL True hi None empty_board] by (simp add: example_post_def)
qed

theorem repeated_post_is_first_witness:
  "create_post_record BL True (example_env id2) (example_post 98 ''x'' ''ho'' 6) None one_post = (Inr stored_hi, one_post)"
proof (rule repeated_post_is_first [OF board_lib_laws(1) [OF example_board_lib_ok] one_post_eq(1)])
  show "validate_create_post_request BL True (example_post 98 ''x'' ''ho'' 6) None = Inr ()"
    by (rule example_post_valid) simp_all
qed (simp add: example_post_def)


section \<open>Pages\<close>

lemma two_posts_feed:
  assumes "t = 5 \<or> t = 6"
  shows "feed_posts BL (two_posts t) = [(ucast t, stored_ho t), (5, stored_hi)]"
proof -
  let ?k1 = "bpk_bytes \<lparr>bpk_created_at_ms = 5, bpk_post_uuid = id1\<rparr>"
  let ?k2 = "bpk_bytes \<lparr>bpk_created_at_ms = ucast t, bpk_post_uuid = id2\<rparr>"
  have "replicate 16 (1 :: byte) < replicate 16 2"
    by (simp add: eval_nat_numeral)
  then have less: "?k1 < ?k2"
    using assms by (auto simp: bpk_bytes_def less_append_same_length ids)
  have keys: "feed_key BL stored_hi = \<lparr>bpk_created_at_ms = 5, bpk_post_uuid = id1\<rparr>"
    "feed_key BL (stored_ho t) = \<lparr>bpk_created_at_ms = ucast t, bpk_post_uuid = id2\<rparr>"
    using example_feed_key [of stored_hi id1 5] example_feed_key [of "stored_ho t" id2 t] by simp_all
  have "board_post_by_created_at_iter_all (two_posts t) =
      [(?k1, to_vec post_codec stored_hi), (?k2, to_vec post_codec (stored_ho t))]"
    using less by (simp add: board_post_by_created_at_iter_all_def two_posts_eq one_post_eq(2) store_post_def keys Let_def
        db_insert_def empty_board_def)
  then show ?thesis
    by (simp add: feed_posts_def entry_time_def bpk.dec_enc from_slice_to_vec codecs_ok)
qed

theorem feed_pages_complete_witness:
  "read_feed BL 7 (Some 1) (two_posts 6) 3 None = Inr [stored_ho 6, stored_hi]"
  using feed_pages_complete [OF two_posts_reachable [of example_push_lib 6], of 7 3 "Some 1"] by (simp add: two_posts_feed)

theorem feed_page_boundary_loses_post_witness:
  "\<exists>ps. read_feed BL 7 (Some 1) (two_posts 5) 9 None = Inr ps \<and> stored_hi \<notin> set ps"
  by (rule feed_page_boundary_loses_post [OF two_posts_reachable [of example_push_lib 5], of 7 "[]" 5 "stored_ho 5" stored_hi "[]"])
    (simp_all add: two_posts_feed clamp_def)

section \<open>Replies\<close>

abbreviation "answer \<equiv> example_post 99 ''z'' ''ho'' 6"

definition replied :: db where
  "replied = fst (snd (create_board_reply BL example_push_lib True (example_env id3) (example_net 0) (hex (list_of id1)) answer
     (one_post, None)))"

lemma replied_eq:
  "create_post_record BL True (example_env id3) answer (Some (hex (list_of id1))) one_post =
     (Inr (stored_post id3 99 ''ho'' 6 (Some (hex (list_of id1)))), replied)"
  "replied = store_post BL (stamp 8 (stored_hi\<lparr>bp_reply_count := 1\<rparr>))
     (db_insert PBoardReplyByParentCreatedAt
       (brk_bytes \<lparr>brk_parent_post_uuid = id1, brk_created_at_ms = 6, brk_reply_uuid = id3\<rparr>) []
       (db_insert PBoardClientGeneratedIdToPostId (utf8 (str ''z'')) (utf8 (hex (list_of id3)))
         (store_post BL (stored_post id3 99 ''ho'' 6 (Some (hex (list_of id1)))) one_post)))"
proof -
  have "sat_i32 1 = 1"
    by (simp add: sat_i32_def I32_MAX_def)
  then have run: "create_post_record BL True (example_env id3) answer (Some (hex (list_of id1))) one_post =
    (Inr (stored_post id3 99 ''ho'' 6 (Some (hex (list_of id1)))),
     store_post BL (stamp 8 (stored_hi\<lparr>bp_reply_count := 1\<rparr>))
      (db_insert PBoardReplyByParentCreatedAt
       (brk_bytes \<lparr>brk_parent_post_uuid = id1, brk_created_at_ms = 6, brk_reply_uuid = id3\<rparr>) []
       (db_insert PBoardClientGeneratedIdToPostId (utf8 (str ''z'')) (utf8 (hex (list_of id3)))
         (store_post BL (stored_post id3 99 ''ho'' 6 (Some (hex (list_of id1)))) one_post))))"
    using example_reply [of 99 "''ho''" "''z''" one_post "example_env id3" id1 stored_hi 5 6] new_client_id(2) load_hi ids(2) by simp
  then show "replied = store_post BL (stamp 8 (stored_hi\<lparr>bp_reply_count := 1\<rparr>))
      (db_insert PBoardReplyByParentCreatedAt
       (brk_bytes \<lparr>brk_parent_post_uuid = id1, brk_created_at_ms = 6, brk_reply_uuid = id3\<rparr>) []
       (db_insert PBoardClientGeneratedIdToPostId (utf8 (str ''z'')) (utf8 (hex (list_of id3)))
         (store_post BL (stored_post id3 99 ''ho'' 6 (Some (hex (list_of id1)))) one_post)))"
    by (simp add: replied_def handler_databases hex_text reply_record_def load_hi)
  then show "create_post_record BL True (example_env id3) answer (Some (hex (list_of id1))) one_post =
     (Inr (stored_post id3 99 ''ho'' 6 (Some (hex (list_of id1)))), replied)"
    using run by simp
qed

lemma hex_is_text: "is_text (hex bs)"
  using hex_text(2) [of bs] by (fastforce simp: is_text_def is_ascii_def)

lemma replied_reachable: "reachable (board_start BL) (board_step BL example_push_lib True) replied"
  unfolding replied_def
  by (rule reachable_step [OF one_post_reachable])
    (rule step_reply; simp add: no_post ids(2) [symmetric] hex_text hex_is_text)

theorem board_counters_exact_witness:
  "\<exists>p. load_post_response BL (hex (list_of id1)) replied = Inr p \<and> bp_reply_count p = 1 \<and>
     i32_of_len (length (get_by_parent_post_id replied id1)) = 1"
proof -
  have load: "load_post_response BL (hex (list_of id1)) replied = Inr (stamp 8 (stored_hi\<lparr>bp_reply_count := 1\<rparr>))"
    by (simp add: load_post_response_row replied_eq(2) store_post_get hex_text from_slice_to_vec codecs_ok)
  moreover have "is_text (trim (hex (list_of id1)))"
    by (simp add: hex_text hex_is_text)
  moreover have "bl_parse_uuid BL (trim (hex (list_of id1))) = Some id1"
    by (simp add: hex_text)
  ultimately show ?thesis
    using board_counters_exact [OF replied_reachable] by fastforce
qed


lemma board_ok_reached: "reachable (board_start BL) (board_step BL example_push_lib True) d \<Longrightarrow> board_ok BL d"
  using board.invariant [of BL example_push_lib True d] by simp

theorem concurrent_replies_counted_once_witness:
  "\<exists>d' p'. d' = snd (create_post_record BL True
       ((example_env id2)\<lparr>be_before_commit :=
          (\<lambda>d. snd (create_post_record BL True (example_env id3) answer (Some (hex (list_of id1))) d))\<rparr>)
       (ho 6) (Some (hex (list_of id1))) one_post) \<and>
     load_post_response BL (hex (list_of id1)) d' = Inr p' \<and> bp_reply_count p' = 1 \<and>
     length (get_by_parent_post_id d' id1) = length (get_by_parent_post_id one_post id1) + 2"
proof -
  let ?parent = "hex (list_of id1)"
  let ?env = "(example_env id2)\<lparr>be_before_commit :=
    (\<lambda>d. snd (create_post_record BL True (example_env id3) answer (Some ?parent) d))\<rparr>"
  obtain r d' where run: "create_post_record BL True ?env (ho 6) (Some ?parent) one_post = (Inr r, d')"
    using example_reply [of 98 "''ho''" "''y''" one_post ?env id1 stored_hi 5 6] new_client_id(1) load_hi ids(1) by simp
  have "\<exists>u p'. bl_parse_uuid BL (trim ?parent) = Some u \<and> load_post_response BL ?parent d' = Inr p' \<and>
      bp_reply_count p' = sat_i32 (bp_reply_count stored_hi + 1) \<and>
      length (get_by_parent_post_id d' u) = length (get_by_parent_post_id one_post u) + 2"
    by (rule concurrent_replies_counted_once [OF example_board_lib_ok board_ok_reached [OF one_post_reachable] _ load_hi _ _ _ _ _ _
          replied_eq(1) _ _ run])
      (use no_post ids(1-3) new_client_id in \<open>auto simp: hex_text hex_is_text example_post_def\<close>)
  then show ?thesis
    by (auto simp: run hex_text sat_i32_def I32_MAX_def)
qed

section \<open>Reactions\<close>

definition example_reaction :: "rchar \<Rightarrow> board_create_reaction_request" where
  "example_reaction c = \<lparr>bcr_actor_address = wallet c, bcr_emoji = str ''+'', bcr_created_at = [], bcr_client_generated_id = str ''x'',
     bcr_signature = sign_as c, bcr_network = str ''mainnet''\<rparr>"

lemma example_reaction_valid:
  "is_ascii_lowercase c \<Longrightarrow> validate_create_reaction_request BL True (example_reaction c) = Inr ()"
proof -
  have "trim (str ''+'') = str ''+''" "str ''+'' \<noteq> []" "length (str ''+'') = 1"
    by (simp_all add: text_defs)
  then show "is_ascii_lowercase c \<Longrightarrow> validate_create_reaction_request BL True (example_reaction c) = Inr ()"
    by (simp add: validate_create_reaction_request_def example_reaction_def example_actor sign_as_text mainnet_text)
qed

lemma reaction_accepted:
  "fst (toggle_reaction_record BL True (example_env u) (hex (list_of id1)) (example_reaction 97) (two_posts 5)) = Inr ()"
proof -
  have load: "load_post_response BL (hex (list_of id1)) (two_posts 5) = Inr stored_hi"
    using ids(1) uuid_text_inject(2) [OF board_lib_laws(1) [OF example_board_lib_ok], of id1 id2]
    by (simp add: load_post_response_row two_posts_eq one_post_eq(2) store_post_get hex_text from_slice_to_vec codecs_ok)
  then have "ensure_post_exists (hex (list_of id1)) (two_posts 5) = Inr ()"
    by (auto simp: ensure_post_exists_def load_post_response_row board_post_by_id_get_rtx_def)
  moreover have "update_post_reaction_count BL 8 (two_posts 5) (hex (list_of id1)) n w \<noteq> Inl e" for n w e
    by (rule write_commit [OF materialize_touched [of 8 "stored_hi\<lparr>bp_reaction_count := max n 0\<rparr>"], of id1 5 w])
      (auto simp: update_post_reaction_count_def load)
  ultimately show ?thesis
    by (auto simp: toggle_reaction_record_def Let_def hex_text example_reaction_valid board_commit_def split: sum.split)
qed

theorem reaction_signature_replays_witness:
  "fst (toggle_reaction_record BL True (example_env id3) (hex (list_of id2)) (example_reaction 97) (two_posts 5)) = Inr () \<and>
   board_reaction_contains_rtx (\<lambda>s. s)
     (snd (toggle_reaction_record BL True (example_env id3) (hex (list_of id2)) (example_reaction 97) (two_posts 5)))
     (hex (list_of id2)) (wallet 97) (str ''+'')"
proof -
  have load: "load_post_response BL (hex (list_of id2)) (two_posts 5) = Inr (stored_ho 5)"
    by (simp add: load_post_response_row two_posts_eq store_post_get hex_text from_slice_to_vec codecs_ok)
  have "\<not> board_reaction_contains_rtx (\<lambda>s. s) (two_posts 5) (hex (list_of id2)) (wallet 97) (str ''+'')"
    by (simp add: board_reaction_contains_rtx_def two_posts_eq one_post_eq(2) empty_board_def)
  then show ?thesis
    using reaction_signature_replays [OF example_board_lib_ok reaction_accepted board_ok_reached [OF two_posts_reachable] _ _ _ load,
        of "example_env id3" "decimal (unat (8 :: 32 word))" 8] example_time [of 8]
    by (simp add: hex_text hex_is_text timestamp_string_def example_reaction_def)
qed

section \<open>Follows\<close>

definition example_follow :: "rchar \<Rightarrow> rchar \<Rightarrow> board_create_follow_request" where
  "example_follow a b =
     \<lparr>bcf_actor_address = wallet a, bcf_actor_display_name = [], bcf_actor_avatar_url = None, bcf_actor_avatar_file_id = None,
      bcf_actor_avatar_file_extension = None, bcf_target_address = wallet b, bcf_target_display_name = [],
      bcf_target_avatar_url = None, bcf_target_avatar_file_id = None, bcf_target_avatar_file_extension = None,
      bcf_follow = True, bcf_created_at = [], bcf_client_generated_id = str ''x'', bcf_signature = sign_as a,
      bcf_network = str ''mainnet''\<rparr>"

definition followed :: db where
  "followed = snd (set_board_follow_state BL True (example_env id1) (wallet 98) (example_follow 97 98) empty_board)"

lemma handle_of_wallet: "is_ascii_lowercase c \<Longrightarrow> handle_of BL (wallet c) = wallet c"
  by (simp add: handle_of_def wallet_handle)

lemma followed_reachable: "reachable (board_start BL) (board_step BL example_push_lib True) followed"
  unfolding followed_def by (rule reachable_step [OF empty_board_reachable]) (rule step_follow; simp)

lemma followed_follows: "(wallet 97, wallet 98) \<in> follows_of followed"
proof -
  have "wallet 97 \<noteq> wallet 98"
    by (simp add: wallet_def)
  then have valid: "validate_create_follow_request BL True (example_follow 97 98) (wallet 98) = Inr ()"
    by (simp add: validate_create_follow_request_def example_follow_def example_actor wallet_handle sign_as_text mainnet_text Let_def)
  have eq: "followed = commit (follow_writes (\<lambda>s. s) True (wallet 97) (wallet 98)
      (to_vec follow_codec (follow_record BL (wallet 97) (wallet 98) (example_follow 97 98) (decimal 7))) empty_board) empty_board"
    using valid by (simp add: followed_def handler_databases wallet_handle apply_follow_state_def timestamp_string_def
        parse_requested_created_at_def trim_Nil board_commit_def Let_def example_follow_def)
  have "tget (followed PBoardFollowByFollowerTarget) (follow_row (wallet 97) (wallet 98)) \<noteq> None"
    unfolding eq by (subst follow_writes_parts(1)) (simp_all add: wallet_handle)
  then show ?thesis
    by (simp add: follows_of_def wallet_handle)
qed

theorem follows_refine_relation_witness:
  "reachable (\<lambda>S. S = {}) (follows_step BL) (follows_of followed) \<and> (wallet 97, wallet 98) \<in> follows_of followed \<and>
   (\<exists>c. build_profile_connections_response BL 7 (wallet 98) (Some (wallet 97)) followed = Inr c \<and>
      answers_relation (follows_of followed) (wallet 98) (wallet 97) c)"
proof -
  obtain c where "build_profile_connections_response BL 7 (wallet 98) (Some (wallet 97)) followed = Inr c"
    by (simp add: build_profile_connections_response_def example_actor timestamp_string_def Let_def)
  then show ?thesis
    using follows_refine_relation [OF followed_reachable] followed_follows wallet_handle(1) handle_of_wallet
    by (metis example_letters(1,2))
qed

end
