(* ===== verification/Api_Queries.thy ===== *)
theory Api_Queries
  imports Rust_Text Messages Acceptance
begin

text \<open>
  The queries of the REST API (\<^verbatim>\<open>indexer/src/api/v1\<close>): handshakes, payments, contextual messages and
  self stashes, from a block time on and up to a limit. Address texts and the hexadecimal decoder of
  the crates are parameters. Of the text of an error only the constant beginning is kept, and the
  context that is put before the error of an address conversion is left out.
\<close>

record 'addr api_lib = "'addr kaspa_lib" +
  al_unicode :: "rstr \<Rightarrow> rstr"
  al_rpc_address :: "rstr \<Rightarrow> 'addr option"
  al_address_to_string :: "'addr \<Rightarrow> rstr"
  al_hex_decode :: "bytes \<Rightarrow> bytes option"

section \<open>What the handlers share\<close>

definition query_limit :: "nat \<Rightarrow> nat option \<Rightarrow> nat" where
  "query_limit fallback limit = min (case limit of Some n \<Rightarrow> n | None \<Rightarrow> fallback) 50"

definition query_cursor :: "u64 option \<Rightarrow> u64" where
  "query_cursor block_time = (case block_time of Some t \<Rightarrow> t | None \<Rightarrow> 0)"

definition query_address :: "('addr, 'x) api_lib_scheme \<Rightarrow> rstr \<Rightarrow> address_payload api" where
  "query_address L address =
     abind (ok_or (ApiError BadRequest ''Invalid address'') (al_rpc_address L address)) (\<lambda>rpc_address.
     api_of (ApiError BadRequest ''Invalid address payload'') (address_payload_from_address L rpc_address))"

text \<open>The answer of the blocking task: an error is reported with its text, a panic as an error of the task.\<close>

fun task_answer :: "'a res \<Rightarrow> 'a api" where
  "task_answer (Inr x) = Inr x"
| "task_answer (Inl (Failure e)) = Inl (ApiError InternalServerError e)"
| "task_answer (Inl (Panic e)) = Inl (ApiError InternalServerError ''Task error'')"

text \<open>
  The loop over the entries of a query: those with a transaction that was seen are skipped, and no
  entry is read after the last that is wanted.
\<close>

fun collect_new :: "('k \<Rightarrow> hash) \<Rightarrow> ('k \<Rightarrow> 'r res) \<Rightarrow> nat \<Rightarrow> hash list \<Rightarrow> 'k res list \<Rightarrow> 'r list res" where
  "collect_new tx_id row 0 seen entries = Ok []"
| "collect_new tx_id row (Suc n) seen [] = Ok []"
| "collect_new tx_id row (Suc n) seen (Inl e # entries) = Inl e"
| "collect_new tx_id row (Suc n) seen (Inr k # entries) =
     (if tx_id k \<in> set seen then collect_new tx_id row (Suc n) seen entries
      else rbind (row k) (\<lambda>r. rbind (collect_new tx_id row n (tx_id k # seen) entries) (\<lambda>rs. Ok (r # rs))))"

definition acceptance_fields :: "db \<Rightarrow> hash \<Rightarrow> (rstr option \<times> u64 option) res" where
  "acceptance_fields rtx tx_id =
     rbind (acceptance_by_tx_id_rtx tx_id rtx) (\<lambda>acceptance.
     Ok (map_option (\<lambda>header. hex (list_of (accepting_block_hash header))) acceptance, map_option accepting_daa acceptance))"

definition address_text :: "('addr, 'x) api_lib_scheme \<Rightarrow> address_payload \<Rightarrow> rstr option res" where
  "address_text L a = rbind (to_rpc_address L a) (\<lambda>addr. Ok (map_option (al_address_to_string L) addr))"

definition receiver_text :: "('addr, 'x) api_lib_scheme \<Rightarrow> address_payload \<Rightarrow> rstr res" where
  "receiver_text L a =
     rbind (address_text L a) (\<lambda>address.
     (case address of
        Some t \<Rightarrow> Ok t
      | None \<Rightarrow> Err ''Database consistency error: receiver address has EMPTY_VERSION''))"

definition or_empty :: "rstr option \<Rightarrow> rstr" where
  "or_empty v = (case v of Some t \<Rightarrow> t | None \<Rightarrow> [])"

section \<open>Handshakes\<close>

record handshake_response =
  hr_tx_id :: rstr
  hr_sender :: rstr
  hr_receiver :: rstr
  hr_block_time :: u64
  hr_accepting_block :: "rstr option"
  hr_accepting_daa_score :: "u64 option"
  hr_message_payload :: rstr

definition handshake_payload :: "db \<Rightarrow> hash \<Rightarrow> rstr res" where
  "handshake_payload rtx tx_id =
     (case tx_id_to_handshake_get_rtx rtx tx_id of
        Some payload_bytes \<Rightarrow> Ok (hex payload_bytes)
      | None \<Rightarrow> Err ''Missing handshake payload'')"

definition handshake_sender_row ::
    "('addr, 'x) api_lib_scheme \<Rightarrow> db \<Rightarrow> handshake_key_by_sender \<Rightarrow> handshake_response res" where
  "handshake_sender_row L rtx handshake =
     rbind (address_text L (hks_sender handshake)) (\<lambda>sender.
     rbind (receiver_text L (hks_receiver handshake)) (\<lambda>receiver.
     rbind (acceptance_fields rtx (hks_tx_id handshake)) (\<lambda>(accepting_block, accepting_daa_score).
     rbind (handshake_payload rtx (hks_tx_id handshake)) (\<lambda>message_payload.
     Ok \<lparr>hr_tx_id = hex (list_of (hks_tx_id handshake)), hr_sender = or_empty sender, hr_receiver = receiver,
         hr_block_time = hks_block_time handshake, hr_accepting_block = accepting_block,
         hr_accepting_daa_score = accepting_daa_score, hr_message_payload = message_payload\<rparr>))))"

definition get_handshakes_by_sender ::
    "('addr, 'x) api_lib_scheme \<Rightarrow> nat option \<Rightarrow> u64 option \<Rightarrow> rstr \<Rightarrow> db \<Rightarrow> handshake_response list api" where
  "get_handshakes_by_sender L limit block_time address rtx =
     abind (query_address L address) (\<lambda>sender.
     task_answer (collect_new hks_tx_id (handshake_sender_row L rtx) (query_limit 10 limit) []
       (iter_by_sender_from_block_time_rtx rtx sender (query_cursor block_time))))"

definition handshake_receiver_row ::
    "('addr, 'x) api_lib_scheme \<Rightarrow> db \<Rightarrow> handshake_key_by_receiver \<times> address_payload \<Rightarrow> handshake_response res" where
  "handshake_receiver_row L rtx = (\<lambda>(handshake, sender_payload).
     rbind (address_text L sender_payload) (\<lambda>sender.
     rbind (receiver_text L (hkr_receiver handshake)) (\<lambda>receiver.
     rbind (acceptance_fields rtx (hkr_tx_id handshake)) (\<lambda>(accepting_block, accepting_daa_score).
     rbind (handshake_payload rtx (hkr_tx_id handshake)) (\<lambda>message_payload.
     Ok \<lparr>hr_tx_id = hex (list_of (hkr_tx_id handshake)), hr_sender = or_empty sender, hr_receiver = receiver,
         hr_block_time = hkr_block_time handshake, hr_accepting_block = accepting_block,
         hr_accepting_daa_score = accepting_daa_score, hr_message_payload = message_payload\<rparr>)))))"

definition get_handshakes_by_receiver ::
    "('addr, 'x) api_lib_scheme \<Rightarrow> nat option \<Rightarrow> u64 option \<Rightarrow> rstr \<Rightarrow> db \<Rightarrow> handshake_response list api" where
  "get_handshakes_by_receiver L limit block_time address rtx =
     abind (query_address L address) (\<lambda>receiver.
     task_answer (collect_new (hkr_tx_id \<circ> fst) (handshake_receiver_row L rtx) (query_limit 10 limit) []
       (iter_by_receiver_from_block_time_rtx rtx receiver (query_cursor block_time))))"

section \<open>Payments\<close>

record payment_response =
  pyr_tx_id :: rstr
  pyr_sender :: "rstr option"
  pyr_receiver :: rstr
  pyr_block_time :: u64
  pyr_amount :: u64
  pyr_message :: rstr
  pyr_accepting_block :: "rstr option"
  pyr_accepting_daa_score :: "u64 option"

definition payment_data :: "db \<Rightarrow> hash \<Rightarrow> bytes res" where
  "payment_data rtx tx_id =
     rbind (tx_id_to_payment_get_rtx rtx (list_of tx_id)) (\<lambda>found.
     (case found of
        Some data \<Rightarrow> Ok data
      | None \<Rightarrow> Err ''Payment data inconsistency''))"

definition payment_sender_row ::
    "('addr, 'x) api_lib_scheme \<Rightarrow> db \<Rightarrow> rstr \<Rightarrow> payment_key_by_sender \<Rightarrow> payment_response res" where
  "payment_sender_row L rtx address key =
     rbind (payment_data rtx (pks_tx_id key)) (\<lambda>data.
     rbind (acceptance_fields rtx (pks_tx_id key)) (\<lambda>(accepting_block, accepting_daa_score).
     rbind (receiver_text L (pks_receiver key)) (\<lambda>receiver_address.
     rbind (payment_amount data) (\<lambda>amount.
     rbind (payment_sealed_hex data) (\<lambda>sealed_hex.
     Ok \<lparr>pyr_tx_id = hex (list_of (pks_tx_id key)), pyr_sender = Some address, pyr_receiver = receiver_address,
         pyr_block_time = pks_block_time key, pyr_amount = amount, pyr_message = hex sealed_hex,
         pyr_accepting_block = accepting_block, pyr_accepting_daa_score = accepting_daa_score\<rparr>)))))"

definition get_payments_by_sender ::
    "('addr, 'x) api_lib_scheme \<Rightarrow> nat option \<Rightarrow> u64 option \<Rightarrow> rstr \<Rightarrow> db \<Rightarrow> payment_response list api" where
  "get_payments_by_sender L limit block_time address rtx =
     abind (query_address L address) (\<lambda>sender.
     task_answer (collect_new pks_tx_id (payment_sender_row L rtx address) (query_limit 10 limit) []
       (get_by_sender_from_block_time rtx sender (query_cursor block_time))))"

definition payment_receiver_row ::
    "('addr, 'x) api_lib_scheme \<Rightarrow> db \<Rightarrow> payment_key_by_receiver \<times> address_payload \<Rightarrow> payment_response res" where
  "payment_receiver_row L rtx = (\<lambda>(key, sender_payload).
     rbind (payment_data rtx (pkr_tx_id key)) (\<lambda>data.
     rbind (acceptance_fields rtx (pkr_tx_id key)) (\<lambda>(accepting_block, accepting_daa_score).
     rbind (address_text L sender_payload) (\<lambda>sender_address.
     rbind (receiver_text L (pkr_receiver key)) (\<lambda>receiver_address.
     rbind (payment_amount data) (\<lambda>amount.
     rbind (payment_sealed_hex data) (\<lambda>sealed_hex.
     Ok \<lparr>pyr_tx_id = hex (list_of (pkr_tx_id key)), pyr_sender = sender_address, pyr_receiver = receiver_address,
         pyr_block_time = pkr_block_time key, pyr_amount = amount, pyr_message = hex sealed_hex,
         pyr_accepting_block = accepting_block, pyr_accepting_daa_score = accepting_daa_score\<rparr>)))))))"

definition get_payments_by_receiver ::
    "('addr, 'x) api_lib_scheme \<Rightarrow> nat option \<Rightarrow> u64 option \<Rightarrow> rstr \<Rightarrow> db \<Rightarrow> payment_response list api" where
  "get_payments_by_receiver L limit block_time address rtx =
     abind (query_address L address) (\<lambda>receiver.
     task_answer (collect_new (pkr_tx_id \<circ> fst) (payment_receiver_row L rtx) (query_limit 10 limit) []
       (get_by_receiver_from_block_time rtx receiver (query_cursor block_time))))"

section \<open>Contextual messages\<close>

record contextual_message_response =
  cmr_tx_id :: rstr
  cmr_sender :: rstr
  cmr_alias :: rstr
  cmr_block_time :: u64
  cmr_accepting_block :: "rstr option"
  cmr_accepting_daa_score :: "u64 option"
  cmr_message_payload :: rstr

text \<open>Hexadecimal text is decoded into the beginning of an array of zeros.\<close>

definition decode_into :: "('addr, 'x) api_lib_scheme \<Rightarrow> nat \<Rightarrow> rstr \<Rightarrow> bytes option" where
  "decode_into L n text = map_option (\<lambda>bs. bs @ replicate (n - length bs) 0) (al_hex_decode L (utf8 text))"

definition contextual_row ::
    "('addr, 'x) api_lib_scheme \<Rightarrow> db \<Rightarrow> rstr \<Rightarrow> contextual_message_by_sender_key \<Rightarrow> contextual_message_response res" where
  "contextual_row L rtx alias message_key =
     rbind (address_text L (cmk_sender message_key)) (\<lambda>sender.
     rbind (acceptance_fields rtx (cmk_tx_id message_key)) (\<lambda>(accepting_block, accepting_daa_score).
     rbind (unwrap ''Message not found'' (tx_id_to_contextual_get_rtx rtx (cmk_tx_id message_key))) (\<lambda>sealed_hex.
     Ok \<lparr>cmr_tx_id = hex (list_of (cmk_tx_id message_key)), cmr_sender = or_empty sender, cmr_alias = alias,
         cmr_block_time = cmk_block_time message_key, cmr_accepting_block = accepting_block,
         cmr_accepting_daa_score = accepting_daa_score, cmr_message_payload = hex sealed_hex\<rparr>)))"

definition get_contextual_messages_by_sender ::
    "('addr, 'x) api_lib_scheme \<Rightarrow> nat option \<Rightarrow> u64 option \<Rightarrow> rstr \<Rightarrow> rstr \<Rightarrow> db \<Rightarrow>
     contextual_message_response list api" where
  "get_contextual_messages_by_sender L limit block_time address alias rtx =
     abind (query_address L address) (\<lambda>sender.
     if 32 < byte_len alias then Inl (ApiError BadRequest ''Alias hex length cannot exceed 32 characters'')
     else abind (ok_or (ApiError BadRequest ''Invalid alias hex'') (decode_into L 16 alias)) (\<lambda>alias_bytes.
     task_answer (collect_new cmk_tx_id (contextual_row L rtx alias) (query_limit 10 limit) []
       (get_by_sender_alias_from_block_time rtx sender (of_list alias_bytes) (query_cursor block_time)))))"

section \<open>Self stashes\<close>

record self_stash_response =
  ssr_tx_id :: rstr
  ssr_owner :: "rstr option"
  ssr_scope :: rstr
  ssr_block_time :: u64
  ssr_accepting_block :: "rstr option"
  ssr_accepting_daa_score :: "u64 option"
  ssr_stashed_data :: rstr

definition decode_scope_hex :: "('addr, 'x) api_lib_scheme \<Rightarrow> rstr \<Rightarrow> bytes api" where
  "decode_scope_hex L scope_hex =
     (if 510 < byte_len scope_hex then Inl (ApiError BadRequest ''Scope hex length cannot exceed 510 characters'')
      else ok_or (ApiError BadRequest ''Invalid scope hex'') (decode_into L 255 scope_hex))"

definition stash_data :: "db \<Rightarrow> hash \<Rightarrow> bytes res" where
  "stash_data rtx tx_id =
     (case tx_id_to_self_stash_get_rtx rtx tx_id of Some stash \<Rightarrow> Ok stash | None \<Rightarrow> Err ''Self stash not found'')"

definition self_stash_owner_row ::
    "('addr, 'x) api_lib_scheme \<Rightarrow> db \<Rightarrow> rstr \<Rightarrow> self_stash_key_by_owner \<Rightarrow> self_stash_response res" where
  "self_stash_owner_row L rtx scope key =
     rbind (address_text L (sso_owner key)) (\<lambda>owner.
     rbind (acceptance_fields rtx (sso_tx_id key)) (\<lambda>(accepting_block, accepting_daa_score).
     rbind (stash_data rtx (sso_tx_id key)) (\<lambda>stash.
     Ok \<lparr>ssr_tx_id = hex (list_of (sso_tx_id key)), ssr_owner = owner, ssr_scope = scope,
         ssr_block_time = sso_block_time key, ssr_accepting_block = accepting_block,
         ssr_accepting_daa_score = accepting_daa_score, ssr_stashed_data = hex stash\<rparr>)))"

definition get_self_stash_by_owner ::
    "('addr, 'x) api_lib_scheme \<Rightarrow> nat option \<Rightarrow> u64 option \<Rightarrow> rstr \<Rightarrow> rstr \<Rightarrow> db \<Rightarrow> self_stash_response list api" where
  "get_self_stash_by_owner L limit block_time scope owner_address rtx =
     abind (query_address L owner_address) (\<lambda>owner.
     abind (decode_scope_hex L scope) (\<lambda>scope_bytes.
     task_answer (collect_new sso_tx_id (self_stash_owner_row L rtx scope) (query_limit 10 limit) []
       (iter_by_owner_and_scope_from_block_time_rtx rtx scope_bytes owner (query_cursor block_time)))))"

definition has_text :: "('addr, 'x) api_lib_scheme \<Rightarrow> rstr \<Rightarrow> rstr option \<Rightarrow> bool" where
  "has_text L query v \<longleftrightarrow>
     (case v of None \<Rightarrow> False | Some t \<Rightarrow> find_str query (to_lowercase (al_unicode L) t) \<noteq> None)"

text \<open>
  The loop over the stashes of a scope, with the messages found so far in order. An entry that does
  not match the query is skipped; the loop ends after the entry that fills the limit, so that a
  limit of zero still answers with one.
\<close>

fun scope_loop ::
    "('addr, 'x) api_lib_scheme \<Rightarrow> db \<Rightarrow> rstr \<Rightarrow> rstr option \<Rightarrow> nat \<Rightarrow> hash list \<Rightarrow> self_stash_response list \<Rightarrow>
     self_stash_key_by_scope res list \<Rightarrow> self_stash_response list res" where
  "scope_loop L rtx scope query limit seen messages [] = Ok messages"
| "scope_loop L rtx scope query limit seen messages (Inl e # entries) = Inl e"
| "scope_loop L rtx scope query limit seen messages (Inr key # entries) =
     (if sss_tx_id key \<in> set seen then scope_loop L rtx scope query limit seen messages entries
      else
        let seen' = sss_tx_id key # seen in
        rbind (address_text L (sss_owner key)) (\<lambda>owner.
        rbind (stash_data rtx (sss_tx_id key)) (\<lambda>stash.
        if (case query of None \<Rightarrow> False | Some q \<Rightarrow> \<not> has_text L q owner \<and> \<not> has_text L q (from_utf8 stash))
        then scope_loop L rtx scope query limit seen' messages entries
        else
          rbind (acceptance_fields rtx (sss_tx_id key)) (\<lambda>(accepting_block, accepting_daa_score).
          let messages' = messages @
                [\<lparr>ssr_tx_id = hex (list_of (sss_tx_id key)), ssr_owner = owner, ssr_scope = scope,
                  ssr_block_time = sss_block_time key, ssr_accepting_block = accepting_block,
                  ssr_accepting_daa_score = accepting_daa_score, ssr_stashed_data = hex stash\<rparr>]
          in if limit \<le> length messages' then Ok messages'
             else scope_loop L rtx scope query limit seen' messages' entries))))"

definition get_self_stash_by_scope ::
    "('addr, 'x) api_lib_scheme \<Rightarrow> nat option \<Rightarrow> u64 option \<Rightarrow> rstr \<Rightarrow> rstr option \<Rightarrow> db \<Rightarrow> self_stash_response list api" where
  "get_self_stash_by_scope L limit block_time scope q rtx =
     abind (decode_scope_hex L scope) (\<lambda>scope_bytes.
     let query = Option.bind q (\<lambda>v. let t = to_lowercase (al_unicode L) (trim v) in if t = [] then None else Some t)
     in task_answer (scope_loop L rtx scope query (query_limit 20 limit) [] []
          (iter_by_scope_from_block_time_rtx rtx scope_bytes (query_cursor block_time))))"

end
