(* ===== verification/Api_Answers.thy ===== *)
theory Api_Answers
  imports Api_Queries
begin

text \<open>
  What the queries of the API answer: in a database whose messages are complete, the first messages
  of the window in the order of time, each transaction once, with their stored payload.
\<close>

section \<open>The loop\<close>

text \<open>The entries with a transaction that was not seen before.\<close>

fun new_entries :: "('k \<Rightarrow> hash) \<Rightarrow> hash list \<Rightarrow> 'k list \<Rightarrow> 'k list" where
  "new_entries tx_id seen [] = []"
| "new_entries tx_id seen (k # ks) =
     (if tx_id k \<in> set seen then new_entries tx_id seen ks else k # new_entries tx_id (tx_id k # seen) ks)"

lemma new_entries_ids: "tx_id ` set (new_entries tx_id seen ks) = tx_id ` set ks - set seen"
  by (induction ks arbitrary: seen) auto

lemma new_entries_subset: "k \<in> set (new_entries tx_id seen ks) \<Longrightarrow> k \<in> set ks"
  by (induction ks arbitrary: seen) (auto split: if_splits)

lemma new_entries_distinct: "distinct (map tx_id (new_entries tx_id seen ks))"
  by (induction ks arbitrary: seen) (simp_all add: new_entries_ids)

lemma collect_new_total:
  assumes "\<forall>k \<in> set ks. \<exists>r. row k = Ok r \<and> fits k r"
  shows "\<exists>rs. collect_new tx_id row n seen (map Ok ks) = Ok rs \<and> list_all2 fits (take n (new_entries tx_id seen ks)) rs"
  using assms
proof (induction ks arbitrary: n seen)
  case Nil
  then show ?case
    by (cases n) auto
next
  case (Cons k ks)
  show ?case
  proof (cases n)
    case 0
    then show ?thesis
      by simp
  next
    case (Suc m)
    obtain r where "row k = Ok r" "fits k r"
      using Cons.prems by auto
    moreover obtain rs where "collect_new tx_id row m (tx_id k # seen) (map Ok ks) = Ok rs"
        "list_all2 fits (take m (new_entries tx_id (tx_id k # seen) ks)) rs"
      using Cons.IH [of m "tx_id k # seen"] Cons.prems by auto
    ultimately show ?thesis
      using Cons.IH [of n seen] Cons.prems Suc by auto
  qed
qed

section \<open>Complete messages\<close>

text \<open>
  Every address of a key has a version that the address crate knows, those of receivers are not
  empty, the payload of every key is stored, and the acceptance of its transaction can be read.
\<close>

definition known_address :: "('addr, 'x) api_lib_scheme \<Rightarrow> address_payload \<Rightarrow> bool" where
  "known_address L a \<longleftrightarrow> inverse_version a = EMPTY_VERSION \<or> version_try_from L (255 - inverse_version a) \<noteq> None"

definition known_receiver :: "('addr, 'x) api_lib_scheme \<Rightarrow> address_payload \<Rightarrow> bool" where
  "known_receiver L a \<longleftrightarrow> inverse_version a \<noteq> EMPTY_VERSION \<and> version_try_from L (255 - inverse_version a) \<noteq> None"

definition complete_tx :: "db \<Rightarrow> part \<Rightarrow> hash \<Rightarrow> bool" where
  "complete_tx d p tx_id \<longleftrightarrow> tget (d p) (list_of tx_id) \<noteq> None \<and> is_ok (acceptance_by_tx_id_rtx tx_id d)"

definition complete_messages :: "('addr, 'x) api_lib_scheme \<Rightarrow> db \<Rightarrow> bool" where
  "complete_messages L d \<longleftrightarrow> wf_message_indexes d \<and>
     (\<forall>k. tget (d PHandshakeBySender) (hks_bytes k) \<noteq> None \<longrightarrow>
        known_address L (hks_sender k) \<and> known_receiver L (hks_receiver k) \<and> complete_tx d PTxIdToHandshake (hks_tx_id k)) \<and>
     (\<forall>k v. tget (d PHandshakeByReceiver) (hkr_bytes k) = Some v \<longrightarrow>
        known_address L (addr_of v) \<and> known_receiver L (hkr_receiver k) \<and> complete_tx d PTxIdToHandshake (hkr_tx_id k)) \<and>
     (\<forall>k. tget (d PPaymentBySender) (pks_bytes k) \<noteq> None \<longrightarrow>
        known_receiver L (pks_receiver k) \<and> complete_tx d PTxIdToPayment (pks_tx_id k)) \<and>
     (\<forall>k v. tget (d PPaymentByReceiver) (pkr_bytes k) = Some v \<longrightarrow>
        known_address L (addr_of v) \<and> known_receiver L (pkr_receiver k) \<and> complete_tx d PTxIdToPayment (pkr_tx_id k)) \<and>
     (\<forall>k v. tget (d PTxIdToPayment) k = Some v \<longrightarrow> 8 \<le> length v) \<and>
     (\<forall>k. tget (d PContextualMessageBySender) (cmk_bytes k) \<noteq> None \<longrightarrow>
        known_address L (cmk_sender k) \<and> complete_tx d PTxIdToContextualMessage (cmk_tx_id k)) \<and>
     (\<forall>k. tget (d PSelfStashByOwner) (sso_bytes k) \<noteq> None \<longrightarrow>
        known_address L (sso_owner k) \<and> complete_tx d PTxIdToSelfStash (sso_tx_id k)) \<and>
     (\<forall>k. tget (d PSelfStashByScope) (sss_bytes k) \<noteq> None \<longrightarrow>
        known_address L (sss_owner k) \<and> complete_tx d PTxIdToSelfStash (sss_tx_id k))"

lemma complete_indexes: "complete_messages L d \<Longrightarrow> wf_message_indexes d"
  by (simp add: complete_messages_def)

lemma complete_scope:
  assumes "complete_messages L d" "tget (d PSelfStashByScope) (sss_bytes k) \<noteq> None"
  shows "known_address L (sss_owner k) \<and> complete_tx d PTxIdToSelfStash (sss_tx_id k)"
  using assms by (simp add: complete_messages_def)

lemma address_text_known:
  "known_address L a \<Longrightarrow> \<exists>t. address_text L a = Ok t" "known_receiver L a \<Longrightarrow> \<exists>t. receiver_text L a = Ok t"
  by (auto simp: known_address_def known_receiver_def address_text_def receiver_text_def to_rpc_address_def)

lemma complete_tx_reads:
  assumes "complete_tx d p tx_id"
  shows "\<exists>f. acceptance_fields d tx_id = Ok f" "\<exists>v. tget (d p) (list_of tx_id) = Some v"
proof -
  obtain a where "acceptance_by_tx_id_rtx tx_id d = Ok a"
    using assms by (cases "acceptance_by_tx_id_rtx tx_id d") (simp_all add: complete_tx_def)
  then show "\<exists>f. acceptance_fields d tx_id = Ok f"
    by (simp add: acceptance_fields_def)
  show "\<exists>v. tget (d p) (list_of tx_id) = Some v"
    using assms by (simp add: complete_tx_def)
qed

section \<open>Answers\<close>

text \<open>
  The answer has the first rows of the window, a row for each transaction, and each fits the entry
  it was read from.
\<close>

definition answers ::
    "('k \<Rightarrow> hash) \<Rightarrow> ('k \<Rightarrow> u64) \<Rightarrow> ('k \<Rightarrow> bool) \<Rightarrow> u64 \<Rightarrow> nat \<Rightarrow> ('k \<Rightarrow> 'r \<Rightarrow> bool) \<Rightarrow> 'r list api \<Rightarrow> bool" where
  "answers tx_id time P cursor n fits out \<longleftrightarrow>
     (\<exists>ks rs. out = Inr rs \<and> is_window P time cursor ks \<and> list_all2 fits (take n (new_entries tx_id [] ks)) rs)"

definition answers_matching ::
    "('k \<Rightarrow> hash) \<Rightarrow> ('k \<Rightarrow> u64) \<Rightarrow> ('k \<Rightarrow> bool) \<Rightarrow> ('k \<Rightarrow> bool) \<Rightarrow> u64 \<Rightarrow> nat \<Rightarrow> ('k \<Rightarrow> 'r \<Rightarrow> bool) \<Rightarrow> 'r list api \<Rightarrow> bool" where
  "answers_matching tx_id time P Q cursor n fits out \<longleftrightarrow>
     (\<exists>ks rs. out = Inr rs \<and> is_window P time cursor ks \<and> list_all2 fits (take n (filter Q (new_entries tx_id [] ks))) rs)"

lemma collect_answers:
  assumes "entries = map Ok ks" "is_window P time cursor ks" "\<And>k. P k \<Longrightarrow> \<exists>r. row k = Ok r \<and> fits k r"
  shows "answers tx_id time P cursor n fits (task_answer (collect_new tx_id row n [] entries))"
proof -
  have "\<forall>k \<in> set ks. \<exists>r. row k = Ok r \<and> fits k r"
    using assms(2,3) by (auto simp: is_window_def)
  from collect_new_total [OF this, of tx_id n "[]"] show ?thesis
    using assms(1,2) by (auto simp: answers_def)
qed

text \<open>The entries of the queries by receiver carry the sender, read from the value of the row.\<close>

lemma collect_new_map:
  "collect_new (tx_id \<circ> fst) row n seen (map (\<lambda>k. Ok (k, s k)) ks) = collect_new tx_id (\<lambda>k. row (k, s k)) n seen (map Ok ks)"
  by (induction tx_id "\<lambda>k. row (k, s k)" n seen "map (Ok :: _ \<Rightarrow> _ res) ks" arbitrary: ks rule: collect_new.induct) auto


definition fits_handshake :: "db \<Rightarrow> ('k \<Rightarrow> hash) \<Rightarrow> ('k \<Rightarrow> u64) \<Rightarrow> 'k \<Rightarrow> handshake_response \<Rightarrow> bool" where
  "fits_handshake d tx_id time k r \<longleftrightarrow> hr_tx_id r = hex (list_of (tx_id k)) \<and> hr_block_time r = time k \<and>
     (\<exists>v. tget (d PTxIdToHandshake) (list_of (tx_id k)) = Some v \<and> hr_message_payload r = hex v)"

definition fits_payment :: "db \<Rightarrow> ('k \<Rightarrow> hash) \<Rightarrow> ('k \<Rightarrow> u64) \<Rightarrow> 'k \<Rightarrow> payment_response \<Rightarrow> bool" where
  "fits_payment d tx_id time k r \<longleftrightarrow> pyr_tx_id r = hex (list_of (tx_id k)) \<and> pyr_block_time r = time k \<and>
     (\<exists>v. tget (d PTxIdToPayment) (list_of (tx_id k)) = Some v \<and> pyr_message r = hex (drop 8 v) \<and>
        pyr_amount r = from_le_bytes (take 8 v))"

definition fits_contextual :: "db \<Rightarrow> contextual_message_by_sender_key \<Rightarrow> contextual_message_response \<Rightarrow> bool" where
  "fits_contextual d k r \<longleftrightarrow> cmr_tx_id r = hex (list_of (cmk_tx_id k)) \<and> cmr_block_time r = cmk_block_time k \<and>
     (\<exists>v. tget (d PTxIdToContextualMessage) (list_of (cmk_tx_id k)) = Some v \<and> cmr_message_payload r = hex v)"

definition fits_stash :: "db \<Rightarrow> ('k \<Rightarrow> hash) \<Rightarrow> ('k \<Rightarrow> u64) \<Rightarrow> 'k \<Rightarrow> self_stash_response \<Rightarrow> bool" where
  "fits_stash d tx_id time k r \<longleftrightarrow> ssr_tx_id r = hex (list_of (tx_id k)) \<and> ssr_block_time r = time k \<and>
     (\<exists>v. tget (d PTxIdToSelfStash) (list_of (tx_id k)) = Some v \<and> ssr_stashed_data r = hex v)"

lemma handshake_answers:
  assumes ok: "complete_messages L d" and a: "query_address L address = Inr a"
  shows "answers hks_tx_id hks_block_time (\<lambda>k. tget (d PHandshakeBySender) (hks_bytes k) \<noteq> None \<and> hks_sender k = a)
      (query_cursor t) (query_limit 10 n) (fits_handshake d hks_tx_id hks_block_time) (get_handshakes_by_sender L n t address d)"
    "answers hkr_tx_id hkr_block_time (\<lambda>k. tget (d PHandshakeByReceiver) (hkr_bytes k) \<noteq> None \<and> hkr_receiver k = a)
      (query_cursor t) (query_limit 10 n) (fits_handshake d hkr_tx_id hkr_block_time) (get_handshakes_by_receiver L n t address d)"
proof -
  have wf: "wf_message_indexes d"
    using ok by (simp add: complete_messages_def)
  have row: "\<exists>r. handshake_sender_row L d k = Ok r \<and> fits_handshake d hks_tx_id hks_block_time k r"
    if "tget (d PHandshakeBySender) (hks_bytes k) \<noteq> None" for k
  proof -
    have k: "known_address L (hks_sender k)" "known_receiver L (hks_receiver k)" "complete_tx d PTxIdToHandshake (hks_tx_id k)"
      using ok that by (simp_all add: complete_messages_def)
    show ?thesis
      using address_text_known(1) [OF k(1)] address_text_known(2) [OF k(2)] complete_tx_reads [OF k(3)]
      by (auto simp: handshake_sender_row_def handshake_payload_def tx_id_to_handshake_get_rtx_def fits_handshake_def)
  qed
  obtain ks where "iter_by_sender_from_block_time_rtx d a (query_cursor t) = map Ok ks"
      "is_window (\<lambda>k. tget (d PHandshakeBySender) (hks_bytes k) \<noteq> None \<and> hks_sender k = a) hks_block_time (query_cursor t) ks"
    using handshakes_by_sender_window [OF wf] by blast
  then show "answers hks_tx_id hks_block_time (\<lambda>k. tget (d PHandshakeBySender) (hks_bytes k) \<noteq> None \<and> hks_sender k = a)
      (query_cursor t) (query_limit 10 n) (fits_handshake d hks_tx_id hks_block_time) (get_handshakes_by_sender L n t address d)"
    unfolding get_handshakes_by_sender_def a abind_simps by (rule collect_answers) (use row in blast)
  let ?s = "\<lambda>k. the (addr_from_bytes (the (tget (d PHandshakeByReceiver) (hkr_bytes k))))"
  have row': "\<exists>r. handshake_receiver_row L d (k, ?s k) = Ok r \<and> fits_handshake d hkr_tx_id hkr_block_time k r"
    if stored: "tget (d PHandshakeByReceiver) (hkr_bytes k) \<noteq> None" for k
  proof -
    obtain v where v: "tget (d PHandshakeByReceiver) (hkr_bytes k) = Some v"
      using stored by blast
    then have k: "known_address L (addr_of v)" "known_receiver L (hkr_receiver k)" "complete_tx d PTxIdToHandshake (hkr_tx_id k)"
        "length v = 34"
      using ok wf by (simp_all add: complete_messages_def wf_message_indexes_def)
    show ?thesis
      using address_text_known(1) [OF k(1)] address_text_known(2) [OF k(2)] complete_tx_reads [OF k(3)] k(4)
      by (auto simp: handshake_receiver_row_def handshake_payload_def tx_id_to_handshake_get_rtx_def fits_handshake_def v
          addr_from_bytes_def)
  qed
  obtain ks where "iter_by_receiver_from_block_time_rtx d a (query_cursor t) = map (\<lambda>k. Ok (k, ?s k)) ks"
      "is_window (\<lambda>k. tget (d PHandshakeByReceiver) (hkr_bytes k) \<noteq> None \<and> hkr_receiver k = a) hkr_block_time (query_cursor t) ks"
    using handshakes_by_receiver_window [OF wf] by blast
  then show "answers hkr_tx_id hkr_block_time (\<lambda>k. tget (d PHandshakeByReceiver) (hkr_bytes k) \<noteq> None \<and> hkr_receiver k = a)
      (query_cursor t) (query_limit 10 n) (fits_handshake d hkr_tx_id hkr_block_time) (get_handshakes_by_receiver L n t address d)"
    unfolding get_handshakes_by_receiver_def a abind_simps
    by (simp only: collect_new_map) (rule collect_answers [OF refl], assumption, use row' in blast)
qed


lemma payment_answers:
  assumes ok: "complete_messages L d" and a: "query_address L address = Inr a"
  shows "answers pks_tx_id pks_block_time (\<lambda>k. tget (d PPaymentBySender) (pks_bytes k) \<noteq> None \<and> pks_sender k = a)
      (query_cursor t) (query_limit 10 n) (fits_payment d pks_tx_id pks_block_time) (get_payments_by_sender L n t address d)"
    "answers pkr_tx_id pkr_block_time (\<lambda>k. tget (d PPaymentByReceiver) (pkr_bytes k) \<noteq> None \<and> pkr_receiver k = a)
      (query_cursor t) (query_limit 10 n) (fits_payment d pkr_tx_id pkr_block_time) (get_payments_by_receiver L n t address d)"
proof -
  have wf: "wf_message_indexes d" and amounts: "\<And>k v. tget (d PTxIdToPayment) k = Some v \<Longrightarrow> \<not> length v < 8"
    using ok unfolding complete_messages_def by (blast, fastforce)
  have row: "\<exists>r. payment_sender_row L d address k = Ok r \<and> fits_payment d pks_tx_id pks_block_time k r"
    if "tget (d PPaymentBySender) (pks_bytes k) \<noteq> None" for k
  proof -
    have k: "known_receiver L (pks_receiver k)" "complete_tx d PTxIdToPayment (pks_tx_id k)"
      using ok that by (simp_all add: complete_messages_def)
    obtain v where v: "tget (d PTxIdToPayment) (list_of (pks_tx_id k)) = Some v"
      using complete_tx_reads(2) [OF k(2)] by blast
    show ?thesis
      using address_text_known(2) [OF k(1)] complete_tx_reads(1) [OF k(2)] v amounts [OF v]
      by (auto simp: payment_sender_row_def payment_data_def tx_id_to_payment_get_rtx_def payment_amount_def
          payment_sealed_hex_def fits_payment_def)
  qed
  obtain ks where "get_by_sender_from_block_time d a (query_cursor t) = map Ok ks"
      "is_window (\<lambda>k. tget (d PPaymentBySender) (pks_bytes k) \<noteq> None \<and> pks_sender k = a) pks_block_time (query_cursor t) ks"
    using payments_by_sender_window [OF wf] by blast
  then show "answers pks_tx_id pks_block_time (\<lambda>k. tget (d PPaymentBySender) (pks_bytes k) \<noteq> None \<and> pks_sender k = a)
      (query_cursor t) (query_limit 10 n) (fits_payment d pks_tx_id pks_block_time) (get_payments_by_sender L n t address d)"
    unfolding get_payments_by_sender_def a abind_simps by (rule collect_answers) (use row in blast)
  let ?s = "\<lambda>k. the (addr_from_bytes (the (tget (d PPaymentByReceiver) (pkr_bytes k))))"
  have row': "\<exists>r. payment_receiver_row L d (k, ?s k) = Ok r \<and> fits_payment d pkr_tx_id pkr_block_time k r"
    if stored: "tget (d PPaymentByReceiver) (pkr_bytes k) \<noteq> None" for k
  proof -
    obtain v where v: "tget (d PPaymentByReceiver) (pkr_bytes k) = Some v"
      using stored by blast
    then have k: "known_address L (addr_of v)" "known_receiver L (pkr_receiver k)" "complete_tx d PTxIdToPayment (pkr_tx_id k)"
        "length v = 34"
      using ok wf by (simp_all add: complete_messages_def wf_message_indexes_def)
    obtain data where data: "tget (d PTxIdToPayment) (list_of (pkr_tx_id k)) = Some data"
      using complete_tx_reads(2) [OF k(3)] by blast
    show ?thesis
      using address_text_known(1) [OF k(1)] address_text_known(2) [OF k(2)] complete_tx_reads(1) [OF k(3)] k(4) data amounts [OF data]
      by (auto simp: payment_receiver_row_def payment_data_def tx_id_to_payment_get_rtx_def payment_amount_def
          payment_sealed_hex_def fits_payment_def v addr_from_bytes_def)
  qed
  obtain ks where "get_by_receiver_from_block_time d a (query_cursor t) = map (\<lambda>k. Ok (k, ?s k)) ks"
      "is_window (\<lambda>k. tget (d PPaymentByReceiver) (pkr_bytes k) \<noteq> None \<and> pkr_receiver k = a) pkr_block_time (query_cursor t) ks"
    using payments_by_receiver_window [OF wf] by blast
  then show "answers pkr_tx_id pkr_block_time (\<lambda>k. tget (d PPaymentByReceiver) (pkr_bytes k) \<noteq> None \<and> pkr_receiver k = a)
      (query_cursor t) (query_limit 10 n) (fits_payment d pkr_tx_id pkr_block_time) (get_payments_by_receiver L n t address d)"
    unfolding get_payments_by_receiver_def a abind_simps
    by (simp only: collect_new_map) (rule collect_answers [OF refl], assumption, use row' in blast)
qed

lemma contextual_answers:
  assumes ok: "complete_messages L d" and a: "query_address L address = Inr a"
    and al: "byte_len alias \<le> 32" "decode_into L 16 alias = Some bs"
  shows "answers cmk_tx_id cmk_block_time
      (\<lambda>k. tget (d PContextualMessageBySender) (cmk_bytes k) \<noteq> None \<and> cmk_sender k = a \<and> cmk_alias k = of_list bs)
      (query_cursor t) (query_limit 10 n) (fits_contextual d) (get_contextual_messages_by_sender L n t address alias d)"
proof -
  have row: "\<exists>r. contextual_row L d alias k = Ok r \<and> fits_contextual d k r"
    if "tget (d PContextualMessageBySender) (cmk_bytes k) \<noteq> None" for k
  proof -
    have k: "known_address L (cmk_sender k)" "complete_tx d PTxIdToContextualMessage (cmk_tx_id k)"
      using ok that by (simp_all add: complete_messages_def)
    show ?thesis
      using address_text_known(1) [OF k(1)] complete_tx_reads [OF k(2)]
      by (auto simp: contextual_row_def tx_id_to_contextual_get_rtx_def fits_contextual_def)
  qed
  obtain ks where "get_by_sender_alias_from_block_time d a (of_list bs) (query_cursor t) = map Ok ks"
      "is_window (\<lambda>k. tget (d PContextualMessageBySender) (cmk_bytes k) \<noteq> None \<and> cmk_sender k = a \<and> cmk_alias k = of_list bs)
        cmk_block_time (query_cursor t) ks"
    using contextual_by_sender_window [OF complete_indexes [OF ok]] by blast
  then have "answers cmk_tx_id cmk_block_time
      (\<lambda>k. tget (d PContextualMessageBySender) (cmk_bytes k) \<noteq> None \<and> cmk_sender k = a \<and> cmk_alias k = of_list bs)
      (query_cursor t) (query_limit 10 n) (fits_contextual d)
      (task_answer (collect_new cmk_tx_id (contextual_row L d alias) (query_limit 10 n) []
        (get_by_sender_alias_from_block_time d a (of_list bs) (query_cursor t))))"
    by (rule collect_answers) (use row in blast)
  then show ?thesis
    using al by (simp add: get_contextual_messages_by_sender_def a not_less)
qed

lemma stash_answers:
  assumes ok: "complete_messages L d" and a: "query_address L address = Inr a" and scope: "decode_scope_hex L scope = Inr bs"
  shows "answers sso_tx_id sso_block_time
      (\<lambda>k. tget (d PSelfStashByOwner) (sso_bytes k) \<noteq> None \<and> sso_owner k = a \<and> sso_scope k = self_stash_scope_from bs)
      (query_cursor t) (query_limit 10 n) (fits_stash d sso_tx_id sso_block_time) (get_self_stash_by_owner L n t scope address d)"
proof -
  have row: "\<exists>r. self_stash_owner_row L d scope k = Ok r \<and> fits_stash d sso_tx_id sso_block_time k r"
    if "tget (d PSelfStashByOwner) (sso_bytes k) \<noteq> None" for k
  proof -
    have k: "known_address L (sso_owner k)" "complete_tx d PTxIdToSelfStash (sso_tx_id k)"
      using ok that by (simp_all add: complete_messages_def)
    show ?thesis
      using address_text_known(1) [OF k(1)] complete_tx_reads [OF k(2)]
      by (auto simp: self_stash_owner_row_def stash_data_def tx_id_to_self_stash_get_rtx_def fits_stash_def)
  qed
  obtain ks where "iter_by_owner_and_scope_from_block_time_rtx d bs a (query_cursor t) = map Ok ks"
      "is_window (\<lambda>k. tget (d PSelfStashByOwner) (sso_bytes k) \<noteq> None \<and> sso_owner k = a \<and> sso_scope k = self_stash_scope_from bs)
        sso_block_time (query_cursor t) ks"
    using stashes_by_owner_window [OF complete_indexes [OF ok]] by blast
  then have "answers sso_tx_id sso_block_time
      (\<lambda>k. tget (d PSelfStashByOwner) (sso_bytes k) \<noteq> None \<and> sso_owner k = a \<and> sso_scope k = self_stash_scope_from bs)
      (query_cursor t) (query_limit 10 n) (fits_stash d sso_tx_id sso_block_time)
      (task_answer (collect_new sso_tx_id (self_stash_owner_row L d scope) (query_limit 10 n) []
        (iter_by_owner_and_scope_from_block_time_rtx d bs a (query_cursor t))))"
    by (rule collect_answers) (use row in blast)
  then show ?thesis
    by (simp add: get_self_stash_by_owner_def a scope)
qed

text \<open>A search in a scope finds the text in the address of the owner or in the stashed text.\<close>

definition search_text :: "('addr, 'x) api_lib_scheme \<Rightarrow> rstr option \<Rightarrow> rstr option" where
  "search_text L q = Option.bind q (\<lambda>v. let t = to_lowercase (al_unicode L) (trim v) in if t = [] then None else Some t)"

definition stash_found :: "('addr, 'x) api_lib_scheme \<Rightarrow> db \<Rightarrow> rstr option \<Rightarrow> self_stash_key_by_scope \<Rightarrow> bool" where
  "stash_found L d query k \<longleftrightarrow>
     (case query of
        None \<Rightarrow> True
      | Some q \<Rightarrow> (\<exists>t. address_text L (sss_owner k) = Ok t \<and> has_text L q t) \<or>
          (\<exists>v. tget (d PTxIdToSelfStash) (list_of (sss_tx_id k)) = Some v \<and> has_text L q (from_utf8 v)))"

lemma scope_loop_found:
  assumes "\<forall>k \<in> set ks. known_address L (sss_owner k) \<and> complete_tx d PTxIdToSelfStash (sss_tx_id k)"
  shows "\<exists>rs. scope_loop L d scope query n seen ms (map Ok ks) = Ok (ms @ rs) \<and>
     list_all2 (fits_stash d sss_tx_id sss_block_time)
       (take (max 1 (n - length ms)) (filter (stash_found L d query) (new_entries sss_tx_id seen ks))) rs"
  using assms
proof (induction ks arbitrary: seen ms)
  case (Cons k ks)
  obtain t f v where k: "address_text L (sss_owner k) = Ok t" "acceptance_fields d (sss_tx_id k) = Ok f"
      "tget (d PTxIdToSelfStash) (list_of (sss_tx_id k)) = Some v"
    using Cons.prems address_text_known(1) complete_tx_reads by (metis list.set_intros(1))
  have stash: "stash_data d (sss_tx_id k) = Ok v"
    using k(3) by (simp add: stash_data_def tx_id_to_self_stash_get_rtx_def)
  have found: "(case query of None \<Rightarrow> False | Some q \<Rightarrow> \<not> has_text L q t \<and> \<not> has_text L q (from_utf8 v)) \<longleftrightarrow> \<not> stash_found L d query k"
    using k by (auto simp: stash_found_def split: option.splits)
  note IH = Cons.IH [OF ballI [OF bspec [OF Cons.prems [unfolded list.set]], OF insertI2]]
  obtain block daa where f: "f = (block, daa)"
    by (cases f)
  let ?r = "\<lparr>ssr_tx_id = hex (list_of (sss_tx_id k)), ssr_owner = t, ssr_scope = scope,
      ssr_block_time = sss_block_time k, ssr_accepting_block = block, ssr_accepting_daa_score = daa, ssr_stashed_data = hex v\<rparr>"
  have fit: "fits_stash d sss_tx_id sss_block_time k ?r"
    using k(3) by (simp add: fits_stash_def)
  show ?case
  proof (cases "sss_tx_id k \<in> set seen \<or> \<not> stash_found L d query k")
    case True
    then show ?thesis
      using IH [of seen ms] IH [of "sss_tx_id k # seen" ms] by (auto simp: k stash found)
  next
    case False
    then have first: "scope_loop L d scope query n seen ms (map Ok (k # ks)) =
        (if n \<le> Suc (length ms) then Ok (ms @ [?r])
         else scope_loop L d scope query n (sss_tx_id k # seen) (ms @ [?r]) (map Ok ks))"
      by (simp add: k stash found f)
    have many: "max 1 (n - length ms) = Suc (if n \<le> Suc (length ms) then 0 else max 1 (n - Suc (length ms)))"
      by auto
    show ?thesis
      unfolding first many using False IH [of "sss_tx_id k # seen" "ms @ [?r]"] fit by auto
  qed
qed simp

lemma scope_answers:
  assumes ok: "complete_messages L d" and scope: "decode_scope_hex L scope = Inr bs"
  shows "answers_matching sss_tx_id sss_block_time
      (\<lambda>k. tget (d PSelfStashByScope) (sss_bytes k) \<noteq> None \<and> sss_scope k = self_stash_scope_from bs) (stash_found L d (search_text L q))
      (query_cursor t) (max 1 (query_limit 20 n)) (fits_stash d sss_tx_id sss_block_time) (get_self_stash_by_scope L n t scope q d)"
proof -
  obtain ks where ks: "iter_by_scope_from_block_time_rtx d bs (query_cursor t) = map Ok ks"
      "is_window (\<lambda>k. tget (d PSelfStashByScope) (sss_bytes k) \<noteq> None \<and> sss_scope k = self_stash_scope_from bs) sss_block_time
        (query_cursor t) ks"
    using stashes_by_scope_window [OF complete_indexes [OF ok]] by blast
  then have "\<forall>k \<in> set ks. tget (d PSelfStashByScope) (sss_bytes k) \<noteq> None"
    by (simp add: is_window_def)
  then have "\<forall>k \<in> set ks. known_address L (sss_owner k) \<and> complete_tx d PTxIdToSelfStash (sss_tx_id k)"
    using complete_scope [OF ok] by blast
  from scope_loop_found [OF this, of scope "search_text L q" "query_limit 20 n" "[]" "[]"] show ?thesis
    using ks by (auto simp: answers_matching_def get_self_stash_by_scope_def scope search_text_def)
qed

text \<open>
  C22. When the stored messages are complete, every query by an address answers with the messages of
  its window in the order of time, up to the limit, each transaction once, and each with the stored
  payload: handshakes and payments by sender and by receiver, contextual messages of an alias and
  self stashes of a scope. A search in a scope answers with the stashes that match it, with at least
  one even where the limit is zero. No query fails.
\<close>

theorem message_queries_answer:
  assumes ok: "complete_messages L d" and a: "query_address L address = Inr a"
  shows
    "answers hks_tx_id hks_block_time (\<lambda>k. tget (d PHandshakeBySender) (hks_bytes k) \<noteq> None \<and> hks_sender k = a)
       (query_cursor t) (query_limit 10 n) (fits_handshake d hks_tx_id hks_block_time) (get_handshakes_by_sender L n t address d) \<and>
     answers hkr_tx_id hkr_block_time (\<lambda>k. tget (d PHandshakeByReceiver) (hkr_bytes k) \<noteq> None \<and> hkr_receiver k = a)
       (query_cursor t) (query_limit 10 n) (fits_handshake d hkr_tx_id hkr_block_time) (get_handshakes_by_receiver L n t address d) \<and>
     answers pks_tx_id pks_block_time (\<lambda>k. tget (d PPaymentBySender) (pks_bytes k) \<noteq> None \<and> pks_sender k = a)
       (query_cursor t) (query_limit 10 n) (fits_payment d pks_tx_id pks_block_time) (get_payments_by_sender L n t address d) \<and>
     answers pkr_tx_id pkr_block_time (\<lambda>k. tget (d PPaymentByReceiver) (pkr_bytes k) \<noteq> None \<and> pkr_receiver k = a)
       (query_cursor t) (query_limit 10 n) (fits_payment d pkr_tx_id pkr_block_time) (get_payments_by_receiver L n t address d) \<and>
     (\<forall>alias bs. byte_len alias \<le> 32 \<longrightarrow> decode_into L 16 alias = Some bs \<longrightarrow>
        answers cmk_tx_id cmk_block_time
          (\<lambda>k. tget (d PContextualMessageBySender) (cmk_bytes k) \<noteq> None \<and> cmk_sender k = a \<and> cmk_alias k = of_list bs)
          (query_cursor t) (query_limit 10 n) (fits_contextual d) (get_contextual_messages_by_sender L n t address alias d)) \<and>
     (\<forall>scope bs. decode_scope_hex L scope = Inr bs \<longrightarrow>
        answers sso_tx_id sso_block_time
          (\<lambda>k. tget (d PSelfStashByOwner) (sso_bytes k) \<noteq> None \<and> sso_owner k = a \<and> sso_scope k = self_stash_scope_from bs)
          (query_cursor t) (query_limit 10 n) (fits_stash d sso_tx_id sso_block_time) (get_self_stash_by_owner L n t scope address d)) \<and>
     (\<forall>scope bs q. decode_scope_hex L scope = Inr bs \<longrightarrow>
        answers_matching sss_tx_id sss_block_time
          (\<lambda>k. tget (d PSelfStashByScope) (sss_bytes k) \<noteq> None \<and> sss_scope k = self_stash_scope_from bs)
          (stash_found L d (search_text L q)) (query_cursor t) (max 1 (query_limit 20 n)) (fits_stash d sss_tx_id sss_block_time)
          (get_self_stash_by_scope L n t scope q d))"
  by (intro conjI allI impI handshake_answers [OF ok a] payment_answers [OF ok a] contextual_answers [OF ok a] stash_answers [OF ok a]
      scope_answers [OF ok])

end
