(* ===== verification/Api_Paging.thy ===== *)
theory Api_Paging
  imports Api_Answers Block_Messages
begin

text \<open>Reading handshakes page by page, and the instances at which the queries are applied.\<close>

section \<open>Pages\<close>

text \<open>A client that continues from the block time of the last handshake it got.\<close>

fun read_handshakes ::
    "('addr, 'x) api_lib_scheme \<Rightarrow> rstr \<Rightarrow> nat option \<Rightarrow> db \<Rightarrow> nat \<Rightarrow> u64 \<Rightarrow> handshake_response list api" where
  "read_handshakes L address limit d 0 t = Inr []"
| "read_handshakes L address limit d (Suc m) t =
     abind (get_handshakes_by_receiver L limit (Some t) address d) (\<lambda>page.
     if page = [] then Inr []
     else abind (read_handshakes L address limit d m (hr_block_time (List.last page))) (\<lambda>rest. Inr (page @ rest)))"

lemma new_entries_append:
  "\<exists>seen'. new_entries tx_id seen (xs @ ys) = new_entries tx_id seen xs @ new_entries tx_id seen' ys"
  by (induction xs arbitrary: seen) auto

lemma length_new_entries: "length (new_entries tx_id [] xs) = card (tx_id ` set xs)"
proof -
  have "card (set (map tx_id (new_entries tx_id [] xs))) = length (map tx_id (new_entries tx_id [] xs))"
    by (rule distinct_card) (rule new_entries_distinct)
  then show ?thesis
    by (simp add: new_entries_ids)
qed

text \<open>A window begins with the entries of its first time.\<close>

lemma window_starts:
  assumes "is_window P time t ks"
  shows "ks = filter (\<lambda>k. time k = t) ks @ filter (\<lambda>k. t < time k) ks"
proof -
  have "ks = filter (\<lambda>k. time k = t) ks @ filter (\<lambda>k. t < time k) ks"
    if "sorted (map time ks)" "\<forall>k \<in> set ks. t \<le> time k" for ks
    using that
  proof (induction ks)
    case (Cons k ks)
    show ?case
    proof (cases "time k = t")
      case True
      then show ?thesis
        using Cons by simp
    next
      case False
      then have "t < time k" "\<forall>x \<in> set ks. t < time x"
        using Cons.prems by force+
      then show ?thesis
        by (auto simp: filter_empty_conv filter_id_conv)
    qed
  qed simp
  then show ?thesis
    using assms by (auto simp: is_window_def)
qed

lemma first_page_of_time:
  assumes w: "is_window P time t ks" and t: "t \<noteq> - 1" and n: "n \<le> card (tx_id ` {k. P k \<and> time k = t})"
  shows "\<forall>k \<in> set (take n (new_entries tx_id [] ks)). time k = t" "length (take n (new_entries tx_id [] ks)) = n"
proof -
  define xs ys where "xs = filter (\<lambda>k. time k = t) ks" and "ys = filter (\<lambda>k. t < time k) ks"
  have ks: "ks = xs @ ys"
    unfolding xs_def ys_def by (rule window_starts [OF w])
  have "set xs = {k. P k \<and> time k = t}"
    using w t by (auto simp: xs_def is_window_def)
  then have len: "n \<le> length (new_entries tx_id [] xs)"
    using n by (simp only: length_new_entries)
  obtain seen where "new_entries tx_id [] ks = new_entries tx_id [] xs @ new_entries tx_id seen ys"
    unfolding ks using new_entries_append [of tx_id "[]" xs ys] by blast
  then have take_n: "take n (new_entries tx_id [] ks) = take n (new_entries tx_id [] xs)"
    using len by simp
  show "length (take n (new_entries tx_id [] ks)) = n"
    unfolding take_n using len by simp
  have "time k = t" if "k \<in> set (take n (new_entries tx_id [] xs))" for k
    using new_entries_subset [OF in_set_takeD [OF that]] by (simp add: xs_def)
  then show "\<forall>k \<in> set (take n (new_entries tx_id [] ks)). time k = t"
    unfolding take_n by blast
qed

text \<open>
  When as many transactions with handshakes to a receiver are stored at one block time as a page
  holds, which is at most 50, a client that continues from the block time of the last handshake of
  a page gets the same page again and again, and never a later handshake.
\<close>

theorem handshake_pages_stall:
  assumes ok: "complete_messages L d" and a: "query_address L address = Inr a" and t: "t \<noteq> - 1"
    and many: "0 < query_limit 10 limit"
      "query_limit 10 limit \<le> card (hkr_tx_id ` {k. tget (d PHandshakeByReceiver) (hkr_bytes k) \<noteq> None \<and> hkr_receiver k = a \<and>
         hkr_block_time k = t})"
  shows "\<exists>page. get_handshakes_by_receiver L limit (Some t) address d = Inr page \<and> page \<noteq> [] \<and>
     (\<forall>r \<in> set page. hr_block_time r = t) \<and>
     (\<forall>m. read_handshakes L address limit d m t = Inr (concat (replicate m page)))"
proof -
  let ?P = "\<lambda>k. tget (d PHandshakeByReceiver) (hkr_bytes k) \<noteq> None \<and> hkr_receiver k = a"
  let ?n = "query_limit 10 limit"
  have "answers hkr_tx_id hkr_block_time ?P t ?n (fits_handshake d hkr_tx_id hkr_block_time)
      (get_handshakes_by_receiver L limit (Some t) address d)"
    using handshake_answers(2) [OF ok a, of "Some t" limit] by (simp add: query_cursor_def)
  then obtain ks page where page: "get_handshakes_by_receiver L limit (Some t) address d = Inr page"
      "is_window ?P hkr_block_time t ks"
      "list_all2 (fits_handshake d hkr_tx_id hkr_block_time) (take ?n (new_entries hkr_tx_id [] ks)) page"
    unfolding answers_def by blast
  have "?n \<le> card (hkr_tx_id ` {k. ?P k \<and> hkr_block_time k = t})"
    using many(2) by (simp add: conj_assoc)
  note first = first_page_of_time [OF page(2) t this]
  have "length page = ?n"
    using first(2) list_all2_lengthD [OF page(3)] by simp
  then have nonempty: "page \<noteq> []"
    using many(1) by auto
  have "\<exists>k \<in> set (take ?n (new_entries hkr_tx_id [] ks)). fits_handshake d hkr_tx_id hkr_block_time k r" if "r \<in> set page" for r
    using page(3) that by (metis in_set_conv_nth list_all2_conv_all_nth)
  then have times: "\<forall>r \<in> set page. hr_block_time r = t"
    using first(1) by (fastforce simp: fits_handshake_def)
  then have "hr_block_time (List.last page) = t"
    using nonempty by simp
  then have "read_handshakes L address limit d m t = Inr (concat (replicate m page))" for m
    by (induction m) (simp_all add: page(1) nonempty)
  then show ?thesis
    using page(1) nonempty times by blast
qed


section \<open>An instance\<close>

definition example_api_lib :: "(addr_version \<times> bytes) api_lib" where
  "example_api_lib = kaspa_lib.extend example_lib
     (api_lib.fields (\<lambda>s. s) (\<lambda>_. Some (PubKey, replicate 32 7)) (\<lambda>_. str ''kaspa:x'') Some)"

definition example_receiver :: address_payload where
  "example_receiver = \<lparr>inverse_version = 255, payload = of_list (replicate 32 7)\<rparr>"

definition handshake_at :: "u64 \<Rightarrow> byte \<Rightarrow> handshake_key_by_receiver" where
  "handshake_at t n = \<lparr>hkr_receiver = example_receiver, hkr_block_time = t, hkr_block_hash = of_list [n], hkr_version = 2,
     hkr_tx_id = of_list [n]\<rparr>"

definition store_handshake :: "u64 \<Rightarrow> byte \<Rightarrow> db \<Rightarrow> db" where
  "store_handshake t n d = tx_id_to_handshake_insert (of_list [n]) [n]
     (db_insert PHandshakeByReceiver (hkr_bytes (handshake_at t n)) (addr_bytes example_receiver) d)"

definition two_handshakes :: db where
  "two_handshakes = store_handshake 6 2 (store_handshake 5 1 (\<lambda>_. tempty))"

lemma example_api_lib_simps [simp]:
  "version_try_from example_api_lib = version_try_from example_lib" "al_rpc_address example_api_lib = (\<lambda>_. Some (PubKey, replicate 32 7))"
  "al_address_to_string example_api_lib = (\<lambda>_. str ''kaspa:x'')" "pay_to_address_script example_api_lib = pay_to_address_script example_lib"
  "from_script example_api_lib = from_script example_lib" "class_version example_api_lib = class_version example_lib"
  "version_as_u8 example_api_lib = version_as_u8 example_lib"
  by (simp_all add: example_api_lib_def kaspa_lib.defs api_lib.defs)

lemma handshake_at_simps [simp]:
  "hkr_receiver (handshake_at t n) = example_receiver" "hkr_block_time (handshake_at t n) = t"
  "hkr_tx_id (handshake_at t n) = of_list [n]"
  by (simp_all add: handshake_at_def)

lemma example_query_address: "query_address example_api_lib s = Inr example_receiver"
  by (simp add: query_address_def address_payload_from_address_def address_payload_from_script_def example_lib_def slice_def
      example_receiver_def Let_def)

lemma handshake_keys: "hkr_bytes (handshake_at t n) = hkr_bytes k \<longleftrightarrow> k = handshake_at t n"
  using hs_receiver.enc_inject by auto

lemma two_handshakes_rows:
  "tget (two_handshakes PHandshakeByReceiver) (hkr_bytes k) \<noteq> None \<longleftrightarrow> k = handshake_at 5 1 \<or> k = handshake_at 6 2"
  by (auto simp: two_handshakes_def store_handshake_def tx_id_to_handshake_insert_def hs_receiver.enc_inject)

lemma two_handshakes_keys:
  "{k. (tget (two_handshakes PHandshakeByReceiver) (hkr_bytes k) \<noteq> None \<and> hkr_receiver k = example_receiver) \<and> Q (hkr_block_time k)} =
     (if Q 5 then {handshake_at 5 1} else {}) \<union> (if Q 6 then {handshake_at 6 2} else {})"
  unfolding two_handshakes_rows by (auto split: if_splits)

lemma two_handshakes_complete: "complete_messages example_api_lib two_handshakes"
proof -
  have known: "known_address example_api_lib example_receiver" "known_receiver example_api_lib example_receiver"
    by (simp_all add: known_address_def known_receiver_def example_receiver_def example_lib_def EMPTY_VERSION_def)
  have "is_ok (acceptance_by_tx_id_rtx tx_id two_handshakes)" for tx_id
    by (simp add: acceptance_by_tx_id_rtx_def two_handshakes_def store_handshake_def tx_id_to_handshake_insert_def tprefix_def)
  then have tx: "complete_tx two_handshakes PTxIdToHandshake (of_list [1])" "complete_tx two_handshakes PTxIdToHandshake (of_list [2])"
    by (simp_all add: complete_tx_def two_handshakes_def store_handshake_def tx_id_to_handshake_insert_def)
  have row: "v = addr_bytes example_receiver \<and> (k = handshake_at 5 1 \<or> k = handshake_at 6 2)"
    if "tget (two_handshakes PHandshakeByReceiver) (hkr_bytes k) = Some v" for k v
    using that by (auto simp: two_handshakes_def store_handshake_def tx_id_to_handshake_insert_def hs_receiver.enc_inject
        split: if_splits)
  have others: "two_handshakes p = tempty" if "p \<noteq> PHandshakeByReceiver" "p \<noteq> PTxIdToHandshake" for p
    using that by (simp add: two_handshakes_def store_handshake_def tx_id_to_handshake_insert_def)
  have wf: "length b = 107 \<and> length v = 34" if "tget (two_handshakes PHandshakeByReceiver) b = Some v" for b v
    using that by (auto simp: two_handshakes_def store_handshake_def tx_id_to_handshake_insert_def split: if_splits)
  have hkr: "known_address example_api_lib (addr_of v) \<and> known_receiver example_api_lib (hkr_receiver k) \<and>
      complete_tx two_handshakes PTxIdToHandshake (hkr_tx_id k)"
    if "tget (two_handshakes PHandshakeByReceiver) (hkr_bytes k) = Some v" for k v
  proof -
    have "hkr_receiver k = example_receiver" "hkr_tx_id k = of_list [1] \<or> hkr_tx_id k = of_list [2]"
      "addr_of v = example_receiver"
      using row [OF that] by auto
    then show ?thesis
      using known tx by auto
  qed
  have "wf_message_indexes two_handshakes"
    using wf by (simp add: wf_message_indexes_def others)
  then show ?thesis
    using hkr by (simp add: complete_messages_def others)
qed

theorem message_queries_answer_witness:
  "\<exists>rs. get_handshakes_by_receiver example_api_lib None None [] two_handshakes = Inr rs \<and> length rs = 2"
proof -
  obtain ks rs where rs: "get_handshakes_by_receiver example_api_lib None None [] two_handshakes = Inr rs"
      "is_window (\<lambda>k. tget (two_handshakes PHandshakeByReceiver) (hkr_bytes k) \<noteq> None \<and> hkr_receiver k = example_receiver)
        hkr_block_time 0 ks"
      "length (take 10 (new_entries hkr_tx_id [] ks)) = length rs"
    using message_queries_answer [OF two_handshakes_complete example_query_address, of None None "[]"]
    by (auto simp: answers_def query_cursor_def query_limit_def dest: list_all2_lengthD)
  have "set ks = {handshake_at 5 1, handshake_at 6 2}"
    using rs(2) two_handshakes_keys [of "\<lambda>t. 0 \<le> t \<and> t \<noteq> - 1"] by (simp add: is_window_def insert_commute)
  then have "card (hkr_tx_id ` set ks) = 2"
    by (simp add: card_insert_if)
  then show ?thesis
    using rs(1,3) by (simp add: length_new_entries)
qed

theorem handshake_pages_stall_witness:
  "\<exists>page. page \<noteq> [] \<and> read_handshakes example_api_lib [] (Some 1) two_handshakes 9 5 = Inr (concat (replicate 9 page)) \<and>
     (\<forall>r \<in> set page. hr_block_time r = 5)"
proof -
  have keys: "{k. tget (two_handshakes PHandshakeByReceiver) (hkr_bytes k) \<noteq> None \<and> hkr_receiver k = example_receiver \<and>
      hkr_block_time k = 5} = {handshake_at 5 1}"
    using two_handshakes_keys [of "\<lambda>t. t = 5"] by (simp add: conj_assoc)
  have "query_limit 10 (Some 1) = 1"
    by (simp add: query_limit_def)
  then obtain page where "page \<noteq> []" "\<forall>r \<in> set page. hr_block_time r = 5"
      "\<forall>m. read_handshakes example_api_lib [] (Some 1) two_handshakes m 5 = Inr (concat (replicate m page))"
    using handshake_pages_stall [OF two_handshakes_complete example_query_address, of 5 "Some 1" "[]", unfolded keys] by auto
  then show ?thesis
    by blast
qed

end
