(* ===== verification/Tool_Keys.thy ===== *)
theory Tool_Keys
  imports Rust_Text "HOL-Library.Word"
begin

unbundle bit_operations_syntax

text \<open>
  The keys of the command line tools (\<^verbatim>\<open>indexer/src/bin\<close>): a wallet is derived from a mnemonic
  along a path of the standard BIP 32. The crates for hashes and for the curve are parameters. The
  addition of keys is the byte arithmetic of the source, and is shown to be addition modulo the order
  of the curve.
\<close>

section \<open>The crates\<close>

text \<open>
  A secret key is 32 bytes, a public key 33 in its compressed form. The point that two keys share
  has its two coordinates one after the other. An address has the payload of its text.
\<close>

record tool_lib =
  tl_sha256 :: "bytes \<Rightarrow> hash"
  tl_hmac_sha256 :: "bytes \<Rightarrow> bytes \<Rightarrow> hash"
  tl_hmac_sha512 :: "bytes \<Rightarrow> bytes \<Rightarrow> 64 arr"
  tl_pbkdf2_sha512 :: "bytes \<Rightarrow> bytes \<Rightarrow> nat \<Rightarrow> 64 arr"
  tl_nfkd :: "rstr \<Rightarrow> rstr"
  tl_hex_decode :: "bytes \<Rightarrow> bytes option"
  tl_base64 :: "bytes \<Rightarrow> rstr"
  tl_secret_key :: "hash \<Rightarrow> bool"
  tl_public_key :: "hash \<Rightarrow> 33 arr"
  tl_parse_public_key :: "bytes \<Rightarrow> 33 arr option"
  tl_shared_secret_point :: "33 arr \<Rightarrow> hash \<Rightarrow> 64 arr"
  tl_seal :: "bytes \<Rightarrow> bytes \<Rightarrow> bytes \<Rightarrow> bytes option"
  tl_open :: "bytes \<Rightarrow> bytes \<Rightarrow> bytes \<Rightarrow> bytes option"
  tl_address_payload :: "rstr \<Rightarrow> bytes option"
  tl_address_text :: "string \<Rightarrow> hash \<Rightarrow> rstr"

section \<open>Addition modulo the order of the curve\<close>

definition SECP256K1_N :: bytes where
  "SECP256K1_N =
     [0xFF, 0xFF, 0xFF, 0xFF, 0xFF, 0xFF, 0xFF, 0xFF,
      0xFF, 0xFF, 0xFF, 0xFF, 0xFF, 0xFF, 0xFF, 0xFE,
      0xBA, 0xAE, 0xDC, 0xE6, 0xAF, 0x48, 0xA0, 0x3B,
      0xBF, 0xD2, 0x5E, 0x8C, 0xD0, 0x36, 0x41, 0x41]"

text \<open>The loops run from the last byte to the first, with a carry of 16 bits and a signed difference.\<close>

fun add_bytes :: "bytes \<Rightarrow> bytes \<Rightarrow> bytes \<times> 16 word" where
  "add_bytes (a # as) (b # bs) =
     (let (result, carry) = add_bytes as bs;
          sum = ucast a + ucast b + carry :: 16 word
      in (ucast (sum AND 0xFF) # result, drop_bit 8 sum))"
| "add_bytes _ _ = ([], 0)"

fun sub_bytes :: "bytes \<Rightarrow> bytes \<Rightarrow> bytes \<times> int" where
  "sub_bytes (a # as) (b # bs) =
     (let (result, borrow) = sub_bytes as bs;
          v = uint a - uint b - borrow
      in if v < 0 then (word_of_int (v + 256) # result, 1) else (word_of_int v # result, 0))"
| "sub_bytes _ _ = ([], 0)"

fun bytes_ge :: "bytes \<Rightarrow> bytes \<Rightarrow> bool" where
  "bytes_ge (l # ls) (r # rs) = (if r < l then True else if l < r then False else bytes_ge ls rs)"
| "bytes_ge _ _ = True"

definition add_mod_n :: "hash \<Rightarrow> hash \<Rightarrow> hash" where
  "add_mod_n lhs rhs =
     (let (result, carry) = add_bytes (list_of lhs) (list_of rhs)
      in of_list
        (if 0 < (ucast carry :: byte) \<or> bytes_ge result SECP256K1_N then fst (sub_bytes result SECP256K1_N) else result))"

text \<open>What the loops compute.\<close>

lemma of_be_nat_Cons: "of_be_nat (b # bs) = unat b * 256 ^ length bs + of_be_nat bs"
proof (induction bs rule: rev_induct)
  case (snoc x xs)
  have "of_be_nat (b # xs @ [x]) = of_be_nat (b # xs) * 256 + unat x"
    using of_be_nat_snoc [of "b # xs" x] by simp
  then show ?case
    by (simp add: snoc of_be_nat_snoc algebra_simps)
qed (simp add: of_be_nat_def)

lemma byte_sum:
  fixes a b :: byte and c :: "16 word"
  assumes "unat c \<le> 1"
  defines "s \<equiv> ucast a + ucast b + c :: 16 word"
  shows "unat (ucast (s AND 0xFF) :: byte) + 256 * unat (drop_bit 8 s) = unat a + unat b + unat c" "unat (drop_bit 8 s) \<le> 1"
proof -
  have bounds: "unat a < 256" "unat b < 256"
    using unsigned_less [of a, where ?'a = nat] unsigned_less [of b, where ?'a = nat] by simp_all
  have s: "unat s = unat a + unat b + unat c"
    using bounds assms(1) by (simp add: s_def unat_word_ariths unsigned_ucast_eq take_bit_nat_eq_self)
  have low: "unat (ucast (s AND 0xFF) :: byte) = unat s mod 256"
  proof -
    have "s AND 0xFF = take_bit 8 s"
      by (simp add: take_bit_eq_mask mask_eq_exp_minus_1)
    then show ?thesis
      by (simp add: unsigned_ucast_eq take_bit_eq_mod unat_mod)
  qed
  have high: "unat (drop_bit 8 s) = unat s div 256"
    by (simp add: drop_bit_eq_div unat_div)
  show "unat (ucast (s AND 0xFF) :: byte) + 256 * unat (drop_bit 8 s) = unat a + unat b + unat c" "unat (drop_bit 8 s) \<le> 1"
    unfolding low high s using bounds assms(1) by simp_all
qed

lemma add_bytes_value:
  assumes "length as = length bs"
  shows "length (fst (add_bytes as bs)) = length as \<and> unat (snd (add_bytes as bs)) \<le> 1 \<and>
    of_be_nat (fst (add_bytes as bs)) + unat (snd (add_bytes as bs)) * 256 ^ length as = of_be_nat as + of_be_nat bs"
  using assms
proof (induction as bs rule: list_induct2)
  case (Cons a as b bs)
  obtain rs c where r: "add_bytes as bs = (rs, c)"
    by fastforce
  then have IH: "length rs = length as" "unat c \<le> 1" "of_be_nat rs + unat c * 256 ^ length as = of_be_nat as + of_be_nat bs"
    using Cons.IH by simp_all
  define s :: "16 word" where "s = ucast a + ucast b + c"
  note sum = byte_sum [OF IH(2), of a b, folded s_def]
  have step: "add_bytes (a # as) (b # bs) = (ucast (s AND 0xFF) # rs, drop_bit 8 s)"
    by (simp add: r s_def Let_def)
  have "of_be_nat (fst (add_bytes (a # as) (b # bs))) + unat (snd (add_bytes (a # as) (b # bs))) * 256 ^ length (a # as) =
      (unat (ucast (s AND 0xFF) :: byte) + 256 * unat (drop_bit 8 s)) * 256 ^ length as + of_be_nat rs"
    unfolding step by (simp add: of_be_nat_Cons IH(1) algebra_simps)
  also have "\<dots> = of_be_nat (a # as) + of_be_nat (b # bs)"
    unfolding sum(1) using IH(3) Cons.hyps by (simp add: of_be_nat_Cons algebra_simps)
  finally show ?case
    using IH(1) sum(2) unfolding step by simp
qed (simp add: of_be_nat_def)

lemma uint_word_of_int_byte: "0 \<le> v \<Longrightarrow> v < 256 \<Longrightarrow> uint (word_of_int v :: byte) = v"
  by (simp add: uint_word_of_int)

lemma sub_bytes_value:
  assumes "length as = length bs"
  shows "length (fst (sub_bytes as bs)) = length as \<and> snd (sub_bytes as bs) \<in> {0, 1} \<and>
    int (of_be_nat (fst (sub_bytes as bs))) = int (of_be_nat as) - int (of_be_nat bs) + snd (sub_bytes as bs) * 256 ^ length as"
  using assms
proof (induction as bs rule: list_induct2)
  case (Cons a as b bs)
  obtain rs c where r: "sub_bytes as bs = (rs, c)"
    by fastforce
  then have IH: "length rs = length as" "c \<in> {0, 1}"
      "int (of_be_nat rs) = int (of_be_nat as) - int (of_be_nat bs) + c * 256 ^ length as"
    using Cons.IH by simp_all
  define v where "v = uint a - uint b - c"
  define w where "w = (if v < 0 then v + 256 else v)"
  define d :: int where "d = (if v < 0 then 1 else 0)"
  have step: "sub_bytes (a # as) (b # bs) = (word_of_int w # rs, d)"
    by (simp add: r v_def w_def d_def)
  have w: "w = uint a - uint b - c + 256 * d"
    by (simp add: w_def v_def d_def)
  have "uint a < 256" "uint b < 256"
    using uint_lt2p [of a] uint_lt2p [of b] by simp_all
  then have "0 \<le> w \<and> w < 256"
    using IH(2) uint_ge_0 [of a] uint_ge_0 [of b] unfolding w_def v_def by (elim insertE emptyE; simp split: if_split; linarith)
  then have digit: "uint (word_of_int w :: byte) = w"
    by (intro uint_word_of_int_byte) simp_all
  have ints: "int (of_be_nat (x # xs)) = uint x * 256 ^ length xs + int (of_be_nat xs)" for x xs
    by (simp add: of_be_nat_Cons)
  have "int (of_be_nat (word_of_int w # rs)) = w * 256 ^ length as + int (of_be_nat rs)"
    unfolding ints digit IH(1) ..
  also have "\<dots> = int (of_be_nat (a # as)) - int (of_be_nat (b # bs)) + d * 256 ^ length (a # as)"
    unfolding ints IH(3) w using Cons.hyps by (simp add: algebra_simps)
  finally show ?case
    unfolding step by (simp add: IH(1) d_def)
qed (simp add: of_be_nat_def)

lemma bytes_ge_value:
  assumes "length as = length bs"
  shows "bytes_ge as bs \<longleftrightarrow> of_be_nat bs \<le> of_be_nat as"
  using assms
proof (induction as bs rule: list_induct2)
  case (Cons a as b bs)
  have less: "of_be_nat as < 256 ^ length as" "of_be_nat bs < 256 ^ length as"
    using of_be_nat_lt [of as] of_be_nat_lt [of bs] Cons.hyps by simp_all
  have step: "x * 256 ^ length as + v < y * 256 ^ length as + w" if "x < y" "v < 256 ^ length as" for x y v w :: nat
  proof -
    have "x * 256 ^ length as + v < Suc x * 256 ^ length as"
      using that(2) by simp
    also have "\<dots> \<le> y * 256 ^ length as"
      using that(1) by (intro mult_le_mono1) simp
    finally show ?thesis
      by simp
  qed
  consider "b < a" | "a < b" | "a = b"
    by fastforce
  then show ?case
  proof cases
    case 1
    then show ?thesis
      using step [of "unat b" "unat a"] less Cons.hyps by (simp add: of_be_nat_Cons word_less_nat_alt less_imp_le)
  next
    case 2
    then show ?thesis
      using step [of "unat a" "unat b"] less Cons.hyps by (simp add: of_be_nat_Cons word_less_nat_alt not_le)
  next
    case 3
    then show ?thesis
      using Cons by (simp add: of_be_nat_Cons)
  qed
qed (simp add: of_be_nat_def)

definition curve_order :: nat where
  "curve_order = 0xFFFFFFFFFFFFFFFFFFFFFFFFFFFFFFFEBAAEDCE6AF48A03BBFD25E8CD0364141"

lemma SECP256K1_N_value: "of_be_nat SECP256K1_N = curve_order" "length SECP256K1_N = 32"
  by (simp_all add: SECP256K1_N_def of_be_nat_Cons curve_order_def) (simp add: of_be_nat_def)

text \<open>So the addition of keys is the addition modulo the order of the curve.\<close>

lemma add_mod_n_adds:
  assumes "of_be_nat (list_of a) < curve_order" "of_be_nat (list_of b) < curve_order"
  shows "of_be_nat (list_of (add_mod_n a b)) = (of_be_nat (list_of a) + of_be_nat (list_of b)) mod curve_order"
proof -
  let ?sum = "of_be_nat (list_of a) + of_be_nat (list_of b)"
  obtain rs c where r: "add_bytes (list_of a) (list_of b) = (rs, c)"
    by fastforce
  then have rs: "length rs = 32" "unat c \<le> 1" "of_be_nat rs + unat c * 256 ^ 32 = ?sum"
    using add_bytes_value [of "list_of a" "list_of b"] by simp_all
  have small: "curve_order < 256 ^ 32"
    by (simp add: curve_order_def)
  have below: "of_be_nat rs < 256 ^ 32"
    using of_be_nat_lt [of rs] rs(1) by simp
  have carry: "0 < (ucast c :: byte) \<longleftrightarrow> unat c = 1"
    using rs(2) by (auto simp: word_less_nat_alt unsigned_ucast_eq take_bit_nat_eq_self)
  have cond: "0 < (ucast c :: byte) \<or> bytes_ge rs SECP256K1_N \<longleftrightarrow> curve_order \<le> ?sum"
    unfolding carry using bytes_ge_value [of rs SECP256K1_N] rs small by (auto simp: SECP256K1_N_value)
  show ?thesis
  proof (cases "curve_order \<le> ?sum")
    case True
    define out borrow where "out = fst (sub_bytes rs SECP256K1_N)" and "borrow = snd (sub_bytes rs SECP256K1_N)"
    have out: "length out = 32" "borrow \<in> {0, 1}" "int (of_be_nat out) = int (of_be_nat rs) - int curve_order + borrow * 256 ^ 32"
      using sub_bytes_value [of rs SECP256K1_N] rs(1) by (simp_all add: out_def borrow_def SECP256K1_N_value)
    have "of_be_nat out < 256 ^ 32"
      using of_be_nat_lt [of out] out(1) by simp
    then have "of_be_nat out = ?sum - curve_order"
      using out(2,3) rs(2,3) below True assms small by (auto simp: le_Suc_eq)
    moreover have "add_mod_n a b = of_list out"
      unfolding add_mod_n_def r using cond True by (simp add: out_def)
    moreover have "?sum mod curve_order = ?sum - curve_order"
      using True assms by (simp add: le_mod_geq)
    ultimately show ?thesis
      using out(1) by simp
  next
    case False
    have zero: "unat c = 0"
      using False rs(3) small by (cases "unat c") auto
    have "add_mod_n a b = of_list rs"
      unfolding add_mod_n_def r using cond False by simp
    then show ?thesis
      using False rs zero by simp
  qed
qed


section \<open>Derivation of keys\<close>

record derived_key =
  dk_key :: hash
  dk_chain_code :: hash

definition HARDENED_OFFSET :: u32 where
  "HARDENED_OFFSET = 0x80000000"

definition split_key :: "64 arr \<Rightarrow> hash \<times> hash" where
  "split_key output = (of_list (take 32 (list_of output)), of_list (drop 32 (list_of output)))"

definition mnemonic_to_seed :: "('x) tool_lib_scheme \<Rightarrow> rstr \<Rightarrow> rstr \<Rightarrow> 64 arr" where
  "mnemonic_to_seed L mnemonic passphrase =
     (let normalized_mnemonic = tl_nfkd L mnemonic;
          normalized_salt = tl_nfkd L (str ''mnemonic'' @ passphrase)
      in tl_pbkdf2_sha512 L (utf8 normalized_mnemonic) (utf8 normalized_salt) 2048)"

definition derive_master_key :: "('x) tool_lib_scheme \<Rightarrow> bytes \<Rightarrow> derived_key" where
  "derive_master_key L seed =
     (let (key, chain_code) = split_key (tl_hmac_sha512 L (utf8 (str ''Bitcoin seed'')) seed)
      in \<lparr>dk_key = key, dk_chain_code = chain_code\<rparr>)"

definition child_data :: "('x) tool_lib_scheme \<Rightarrow> hash \<Rightarrow> u32 \<Rightarrow> bytes res" where
  "child_data L key index =
     (if HARDENED_OFFSET \<le> index then Ok (0 # list_of key @ to_be_bytes index)
      else if tl_secret_key L key then Ok (list_of (tl_public_key L key) @ to_be_bytes index)
      else Err ''parse parent private key'')"

definition derive_child_key :: "('x) tool_lib_scheme \<Rightarrow> derived_key \<Rightarrow> u32 \<Rightarrow> derived_key res" where
  "derive_child_key L parent index =
     rbind (child_data L (dk_key parent) index) (\<lambda>data.
     let (il, ir) = split_key (tl_hmac_sha512 L (list_of (dk_chain_code parent)) data)
     in Ok \<lparr>dk_key = add_mod_n il (dk_key parent), dk_chain_code = ir\<rparr>)"

text \<open>The path \<^verbatim>\<open>m/44'/111111'/account'/0/index\<close>.\<close>

definition derive_leaf :: "('x) tool_lib_scheme \<Rightarrow> rstr \<Rightarrow> u32 \<Rightarrow> u32 \<Rightarrow> derived_key res" where
  "derive_leaf L mnemonic account_index address_index =
     (let seed = mnemonic_to_seed L mnemonic [];
          master = derive_master_key L (list_of seed) in
      rbind (derive_child_key L master (44 OR HARDENED_OFFSET)) (\<lambda>purpose.
      rbind (derive_child_key L purpose (111111 OR HARDENED_OFFSET)) (\<lambda>coin_type.
      rbind (derive_child_key L coin_type (account_index OR HARDENED_OFFSET)) (\<lambda>account.
      rbind (derive_child_key L account 0) (\<lambda>change.
      derive_child_key L change address_index)))))"

definition parse_network :: "rstr \<Rightarrow> string res" where
  "parse_network network =
     (let n = to_ascii_lowercase (trim network) in
      if n \<in> str ` {''mainnet'', ''main''} then Ok ''mainnet''
      else if n \<in> str ` {''testnet'', ''testnet11'', ''test''} then Ok ''testnet''
      else if n \<in> str ` {''devnet'', ''dev''} then Ok ''devnet''
      else if n \<in> str ` {''simnet'', ''sim''} then Ok ''simnet''
      else Err ''unsupported network'')"

text \<open>The 32 bytes of a public key without its sign.\<close>

definition xonly :: "33 arr \<Rightarrow> hash" where
  "xonly public_key = of_list (drop 1 (list_of public_key))"

record wallet_identity =
  wi_network :: rstr
  wi_derivation_path :: rstr
  wi_account_index :: u32
  wi_address_index :: u32
  wi_address :: rstr
  wi_private_key :: hash
  wi_xonly_public_key :: hash
  wi_compressed_public_key :: "33 arr"

definition derivation_path :: "u32 \<Rightarrow> u32 \<Rightarrow> rstr" where
  "derivation_path account_index address_index =
     str ''m/44'' @ [39] @ str ''/111111'' @ [39] @ str ''/'' @ decimal (unat account_index) @ [39] @ str ''/0/'' @
     decimal (unat address_index)"

definition derive_wallet_identity ::
    "('x) tool_lib_scheme \<Rightarrow> rstr \<Rightarrow> rstr \<Rightarrow> u32 \<Rightarrow> u32 \<Rightarrow> wallet_identity res" where
  "derive_wallet_identity L mnemonic network account_index address_index =
     rbind (derive_leaf L mnemonic account_index address_index) (\<lambda>leaf.
     if \<not> tl_secret_key L (dk_key leaf) then Err ''parse derived private key''
     else
       let public_key = tl_public_key L (dk_key leaf);
           xonly_public_key = xonly public_key in
       rbind (parse_network network) (\<lambda>rpc_network.
       Ok \<lparr>wi_network = to_ascii_lowercase (trim network), wi_derivation_path = derivation_path account_index address_index,
           wi_account_index = account_index, wi_address_index = address_index,
           wi_address = tl_address_text L rpc_network xonly_public_key, wi_private_key = dk_key leaf,
           wi_xonly_public_key = xonly_public_key, wi_compressed_public_key = public_key\<rparr>))"

text \<open>
  The reference: the derivation of private keys in BIP 32, with the key as a number. A key is not
  valid when the left half of the hash is not below the order of the curve or the sum is zero.
\<close>

definition ckd_priv :: "('x) tool_lib_scheme \<Rightarrow> nat \<times> hash \<Rightarrow> u32 \<Rightarrow> (nat \<times> hash) option" where
  "ckd_priv L = (\<lambda>(k, c) i.
     let key = of_list (be_nat 32 k) :: hash;
         data = (if HARDENED_OFFSET \<le> i then 0 # be_nat 32 k else list_of (tl_public_key L key)) @ to_be_bytes i;
         I = list_of (tl_hmac_sha512 L (list_of c) data);
         n = of_be_nat (take 32 I)
     in if n < curve_order \<and> (n + k) mod curve_order \<noteq> 0 then Some ((n + k) mod curve_order, of_list (drop 32 I)) else None)"

fun ckd_path :: "('x) tool_lib_scheme \<Rightarrow> nat \<times> hash \<Rightarrow> u32 list \<Rightarrow> (nat \<times> hash) option" where
  "ckd_path L k [] = Some k"
| "ckd_path L k (i # path) = Option.bind (ckd_priv L k i) (\<lambda>k'. ckd_path L k' path)"

text \<open>A secret key is accepted when it is a number from one up to the order of the curve.\<close>

definition secret_keys_ok :: "('x) tool_lib_scheme \<Rightarrow> bool" where
  "secret_keys_ok L \<longleftrightarrow> (\<forall>k. tl_secret_key L k \<longleftrightarrow> 0 < of_be_nat (list_of k) \<and> of_be_nat (list_of k) < curve_order)"

definition key_number :: "derived_key \<Rightarrow> nat \<times> hash" where
  "key_number d = (of_be_nat (list_of (dk_key d)), dk_chain_code d)"

lemma key_number_bytes [simp]: "be_nat 32 (of_be_nat (list_of (k :: hash))) = list_of k"
  using be_nat_of_be_nat [of "list_of k"] by simp


definition valid_number :: "nat \<times> hash \<Rightarrow> bool" where
  "valid_number k \<longleftrightarrow> 0 < fst k \<and> fst k < curve_order"

lemma derive_child_key_ckd:
  assumes L: "secret_keys_ok L" and parent: "valid_number (key_number parent)" and k: "ckd_priv L (key_number parent) i = Some k"
  shows "\<exists>child. derive_child_key L parent i = Ok child \<and> key_number child = k \<and> valid_number k"
proof -
  define data where "data = (if HARDENED_OFFSET \<le> i then 0 # list_of (dk_key parent) else list_of (tl_public_key L (dk_key parent))) @
      to_be_bytes i"
  define I where "I = list_of (tl_hmac_sha512 L (list_of (dk_chain_code parent)) data)"
  let ?n = "of_be_nat (take 32 I)" and ?m = "of_be_nat (list_of (dk_key parent))"
  have I: "length I = 64"
    by (simp add: I_def)
  have k': "?n < curve_order" "(?n + ?m) mod curve_order \<noteq> 0" "k = ((?n + ?m) mod curve_order, of_list (drop 32 I))"
    using k [unfolded ckd_priv_def key_number_def Let_def prod.case key_number_bytes of_list_list_of, folded data_def, folded I_def]
    by (simp_all split: if_splits)
  have m: "0 < ?m" "?m < curve_order"
    using parent by (simp_all add: valid_number_def key_number_def)
  have "child_data L (dk_key parent) i = Ok data"
    using L m by (simp add: child_data_def data_def secret_keys_ok_def)
  moreover have "split_key (tl_hmac_sha512 L (list_of (dk_chain_code parent)) data) = (of_list (take 32 I), of_list (drop 32 I))"
    by (simp add: split_key_def I_def)
  ultimately have "derive_child_key L parent i =
      Ok \<lparr>dk_key = add_mod_n (of_list (take 32 I)) (dk_key parent), dk_chain_code = of_list (drop 32 I)\<rparr>"
    by (simp add: derive_child_key_def)
  moreover have "of_be_nat (list_of (add_mod_n (of_list (take 32 I)) (dk_key parent))) = (?n + ?m) mod curve_order"
    using add_mod_n_adds [of "of_list (take 32 I)" "dk_key parent"] k'(1) m(2) I by simp
  ultimately show ?thesis
    using k'(2,3) by (simp add: key_number_def valid_number_def curve_order_def)
qed

lemma secret_key_number: "secret_keys_ok L \<Longrightarrow> key_number d = k \<Longrightarrow> valid_number k \<Longrightarrow> tl_secret_key L (dk_key d)"
  unfolding secret_keys_ok_def valid_number_def key_number_def by (metis fst_conv)

lemma rbind_Ok_right: "rbind m Ok = m"
  by (cases m) simp_all

lemma derive_path_ckd:
  assumes "secret_keys_ok L" "valid_number (key_number d)" "ckd_path L (key_number d) path = Some k"
  shows "\<exists>leaf. rfold (\<lambda>i d. derive_child_key L d i) path d = Ok leaf \<and> key_number leaf = k \<and> valid_number k"
  using assms(2,3)
proof (induction path arbitrary: d)
  case (Cons i path)
  obtain k' where k': "ckd_priv L (key_number d) i = Some k'" "ckd_path L k' path = Some k"
    using Cons.prems(2) by (auto simp: bind_eq_Some_conv)
  obtain child where "derive_child_key L d i = Ok child" "key_number child = k'" "valid_number k'"
    using derive_child_key_ckd [OF assms(1) Cons.prems(1) k'(1)] by blast
  then show ?case
    using Cons.IH [of child] k'(2) by simp
qed simp

lemma derive_leaf_path:
  "derive_leaf L mnemonic account_index address_index =
     rfold (\<lambda>i d. derive_child_key L d i)
       [44 OR HARDENED_OFFSET, 111111 OR HARDENED_OFFSET, account_index OR HARDENED_OFFSET, 0, address_index]
       (derive_master_key L (list_of (mnemonic_to_seed L mnemonic [])))"
  unfolding derive_leaf_def Let_def rfold.simps rbind_Ok_right ..

text \<open>
  C24. When every key on the path of a wallet is valid in the sense of BIP 32, the derivation gives
  the key and the chain code of BIP 32.
\<close>

theorem derive_leaf_is_bip32:
  assumes L: "secret_keys_ok L"
    and master: "valid_number (key_number (derive_master_key L (list_of (mnemonic_to_seed L mnemonic []))))"
    and path: "ckd_path L (key_number (derive_master_key L (list_of (mnemonic_to_seed L mnemonic []))))
      [44 OR HARDENED_OFFSET, 111111 OR HARDENED_OFFSET, account_index OR HARDENED_OFFSET, 0, address_index] = Some k"
  shows "\<exists>leaf. derive_leaf L mnemonic account_index address_index = Ok leaf \<and> key_number leaf = k \<and> tl_secret_key L (dk_key leaf)"
proof -
  obtain leaf where leaf: "derive_leaf L mnemonic account_index address_index = Ok leaf" "key_number leaf = k" "valid_number k"
    unfolding derive_leaf_path using derive_path_ckd [OF L master path] by blast
  have "tl_secret_key L (dk_key leaf)"
    using secret_key_number [OF L] leaf(2,3) by blast
  then show ?thesis
    using leaf by blast
qed

end
