(* ===== verification/Tool_Crypto.thy ===== *)
theory Tool_Crypto
  imports Tool_Keys
begin

text \<open>
  The tool \<^verbatim>\<open>openclaw_kbeam_crypto\<close>: the aliases of two wallets, encryption of a message for an
  address and decryption, and the command line. What a tool prints is its result; of the text of an
  error the parts that quote a value are left out.
\<close>

section \<open>Command lines\<close>

text \<open>A tool stops with an error or with an exit code; help ends it with the code zero.\<close>

datatype cli_stop = CliError string | CliExit nat

type_synonym 'a cli = "cli_stop + 'a"

definition env_value :: "environment \<Rightarrow> string \<Rightarrow> rstr option" where
  "env_value var key =
     Option.bind (var key) (\<lambda>v. let t = trim v in if t = [] then None else Some t)"

definition parse_u32 :: "rstr \<Rightarrow> u32 option" where
  "parse_u32 s =
     (let digits = (case s of c # cs \<Rightarrow> if c = 43 then cs else s | [] \<Rightarrow> [])
      in if digits \<noteq> [] \<and> list_all is_ascii_digit digits \<and> decimal_value digits < 2 ^ 32
         then Some (word_of_nat (decimal_value digits)) else None)"

definition env_u32 :: "environment \<Rightarrow> string \<Rightarrow> u32 option" where
  "env_u32 var key = Option.bind (env_value var key) parse_u32"

definition tool_normalized_optional :: "rstr option \<Rightarrow> rstr option" where
  "tool_normalized_optional v = Option.bind v (\<lambda>inner. let t = trim inner in if t = [] then None else Some t)"

definition required_arg_value :: "rstr option \<Rightarrow> rstr cli" where
  "required_arg_value v =
     (case v of
        None \<Rightarrow> Inl (CliError ''missing value'')
      | Some t \<Rightarrow> if trim t = [] then Inl (CliError ''empty value'') else Inr (trim t))"

definition required_option :: "rstr option \<Rightarrow> string \<Rightarrow> rstr cli" where
  "required_option v message = ok_or (CliError message) (tool_normalized_optional v)"

text \<open>
  The loop over the flags. A flag takes the argument after it, or is a switch; the table of a tool
  says what each does to the settings read so far.
\<close>

datatype 's flag = TakesValue "rstr \<Rightarrow> 's \<Rightarrow> 's cli" | Switch "'s \<Rightarrow> 's" | Help | Unknown

fun read_flags :: "(rstr \<Rightarrow> 's flag) \<Rightarrow> rstr list \<Rightarrow> 's \<Rightarrow> 's cli" where
  "read_flags table [] s = Inr s"
| "read_flags table (flag # args) s =
     (case table flag of
        TakesValue f \<Rightarrow>
          (case args of
             [] \<Rightarrow> abind (required_arg_value None) (\<lambda>t. f t s)
           | v # rest \<Rightarrow> abind (required_arg_value (Some v)) (\<lambda>t. abind (f t s) (read_flags table rest)))
      | Switch f \<Rightarrow> read_flags table args (f s)
      | Help \<Rightarrow> Inl (CliExit 0)
      | Unknown \<Rightarrow> Inl (CliError ''unknown argument''))"

definition parse_index :: "string \<Rightarrow> rstr \<Rightarrow> u32 cli" where
  "parse_index message t = ok_or (CliError message) (parse_u32 t)"

definition is_help :: "rstr \<Rightarrow> bool" where
  "is_help flag \<longleftrightarrow> flag = str ''--help'' \<or> flag = str ''-h''"

section \<open>Commands\<close>

datatype crypto_command =
    DeriveWallet rstr rstr u32 u32
  | DeriveMyAlias rstr rstr
  | DeriveTheirAlias rstr rstr
  | Encrypt rstr rstr rstr
  | Decrypt rstr rstr

record crypto_flags =
  cf_mnemonic :: "rstr option"
  cf_network :: rstr
  cf_account_index :: u32
  cf_address_index :: u32
  cf_private_key_hex :: "rstr option"
  cf_address :: "rstr option"
  cf_message :: "rstr option"

definition derive_wallet_flag :: "rstr \<Rightarrow> crypto_flags flag" where
  "derive_wallet_flag flag =
     (if flag = str ''--mnemonic'' then TakesValue (\<lambda>t s. Inr (s\<lparr>cf_mnemonic := Some t\<rparr>))
      else if flag = str ''--network'' then TakesValue (\<lambda>t s. Inr (s\<lparr>cf_network := t\<rparr>))
      else if flag = str ''--account-index''
      then TakesValue (\<lambda>t s. abind (parse_index ''parse --account-index'' t) (\<lambda>n. Inr (s\<lparr>cf_account_index := n\<rparr>)))
      else if flag = str ''--address-index''
      then TakesValue (\<lambda>t s. abind (parse_index ''parse --address-index'' t) (\<lambda>n. Inr (s\<lparr>cf_address_index := n\<rparr>)))
      else if is_help flag then Help else Unknown)"

definition private_key_flag :: "string \<Rightarrow> rstr \<Rightarrow> crypto_flags flag" where
  "private_key_flag address_flag flag =
     (if flag = str ''--private-key-hex'' then TakesValue (\<lambda>t s. Inr (s\<lparr>cf_private_key_hex := Some t\<rparr>))
      else if flag = str address_flag then TakesValue (\<lambda>t s. Inr (s\<lparr>cf_address := Some t\<rparr>))
      else if is_help flag then Help else Unknown)"

definition encrypt_flag :: "rstr \<Rightarrow> crypto_flags flag" where
  "encrypt_flag flag =
     (if flag = str ''--message'' then TakesValue (\<lambda>t s. Inr (s\<lparr>cf_message := Some t\<rparr>))
      else private_key_flag ''--recipient-address'' flag)"

definition decrypt_flag :: "rstr \<Rightarrow> crypto_flags flag" where
  "decrypt_flag flag =
     (if flag = str ''--private-key-hex'' then TakesValue (\<lambda>t s. Inr (s\<lparr>cf_private_key_hex := Some t\<rparr>))
      else if flag = str ''--encrypted-hex'' then TakesValue (\<lambda>t s. Inr (s\<lparr>cf_message := Some t\<rparr>))
      else if is_help flag then Help else Unknown)"

definition crypto_defaults :: "environment \<Rightarrow> crypto_flags" where
  "crypto_defaults var =
     \<lparr>cf_mnemonic = env_value var ''OPENCLAW_KBEAM_MNEMONIC'',
      cf_network = (case env_value var ''OPENCLAW_KBEAM_NETWORK'' of Some n \<Rightarrow> n | None \<Rightarrow> str ''mainnet''),
      cf_account_index = (case env_u32 var ''OPENCLAW_KBEAM_ACCOUNT_INDEX'' of Some n \<Rightarrow> n | None \<Rightarrow> 0),
      cf_address_index = (case env_u32 var ''OPENCLAW_KBEAM_ADDRESS_INDEX'' of Some n \<Rightarrow> n | None \<Rightarrow> 0),
      cf_private_key_hex = env_value var ''OPENCLAW_KBEAM_PRIVATE_KEY_HEX'', cf_address = None, cf_message = None\<rparr>"

definition crypto_from_args :: "environment \<Rightarrow> rstr list \<Rightarrow> crypto_command cli" where
  "crypto_from_args var args =
     (case args of
        [] \<Rightarrow> Inl (CliExit 2)
      | name # rest \<Rightarrow>
          if name = str ''derive-wallet'' then
            abind (read_flags derive_wallet_flag rest (crypto_defaults var)) (\<lambda>s.
            abind (required_option (cf_mnemonic s) ''missing mnemonic for derive-wallet'') (\<lambda>mnemonic.
            Inr (DeriveWallet mnemonic (cf_network s) (cf_account_index s) (cf_address_index s))))
          else if name = str ''derive-my-alias'' \<or> name = str ''derive-their-alias'' then
            abind (read_flags (private_key_flag ''--their-address'') rest (crypto_defaults var)) (\<lambda>s.
            abind (required_option (cf_private_key_hex s) ''missing private key hex'') (\<lambda>private_key_hex.
            abind (required_option (cf_address s) ''missing --their-address'') (\<lambda>their_address.
            Inr (if name = str ''derive-my-alias'' then DeriveMyAlias private_key_hex their_address
                 else DeriveTheirAlias private_key_hex their_address))))
          else if name = str ''encrypt'' then
            abind (read_flags encrypt_flag rest (crypto_defaults var)) (\<lambda>s.
            abind (required_option (cf_private_key_hex s) ''missing private key for encrypt'') (\<lambda>private_key_hex.
            abind (required_option (cf_address s) ''missing --recipient-address for encrypt'') (\<lambda>recipient_address.
            abind (required_option (cf_message s) ''missing --message for encrypt'') (\<lambda>message.
            Inr (Encrypt private_key_hex recipient_address message)))))
          else if name = str ''decrypt'' then
            abind (read_flags decrypt_flag rest (crypto_defaults var)) (\<lambda>s.
            abind (required_option (cf_private_key_hex s) ''missing private key for decrypt'') (\<lambda>private_key_hex.
            abind (required_option (cf_message s) ''missing --encrypted-hex for decrypt'') (\<lambda>encrypted_hex.
            Inr (Decrypt private_key_hex encrypted_hex))))
          else if is_help name then Inl (CliExit 0)
          else Inl (CliError ''unknown command''))"

section \<open>Secrets\<close>

definition tool_decode_fixed_hex :: "('x) tool_lib_scheme \<Rightarrow> rstr \<Rightarrow> ('n::len) arr res" where
  "tool_decode_fixed_hex L v =
     (let t = trim v in
      if byte_len t \<noteq> LENGTH('n) * 2 then Err ''must be hex characters''
      else (case tl_hex_decode L (utf8 t) of None \<Rightarrow> Err ''decode hex'' | Some bs \<Rightarrow> Ok (of_list bs)))"

definition decode_hex_dynamic :: "('x) tool_lib_scheme \<Rightarrow> rstr \<Rightarrow> bytes res" where
  "decode_hex_dynamic L v =
     (let t = trim v in
      if t = [] \<or> byte_len t mod 2 \<noteq> 0 then Err ''must be non-empty even-length hex''
      else (case tl_hex_decode L (utf8 t) of None \<Rightarrow> Err ''decode hex'' | Some bs \<Rightarrow> Ok bs))"

definition xonly_pubkey_from_address :: "('x) tool_lib_scheme \<Rightarrow> rstr \<Rightarrow> hash res" where
  "xonly_pubkey_from_address L address =
     (case tl_address_payload L address of
        None \<Rightarrow> Err ''parse address''
      | Some payload \<Rightarrow>
          if length payload \<noteq> 32 then Err ''address payload must be 32 bytes x-only pubkey'' else Ok (of_list payload))"

definition compressed_pubkey_from_xonly :: "hash \<Rightarrow> 33 arr" where
  "compressed_pubkey_from_xonly xonly_pubkey = of_list (0x02 # list_of xonly_pubkey)"

definition xonly_public_key_from_private_key :: "('x) tool_lib_scheme \<Rightarrow> hash \<Rightarrow> hash res" where
  "xonly_public_key_from_private_key L private_key =
     (if tl_secret_key L private_key then Ok (xonly (tl_public_key L private_key)) else Err ''parse private key'')"

text \<open>The secret is read from the shared point at the indices 1 to 32.\<close>

definition derive_shared_secret_from_public_key :: "('x) tool_lib_scheme \<Rightarrow> hash \<Rightarrow> bytes \<Rightarrow> hash res" where
  "derive_shared_secret_from_public_key L private_key public_key_bytes =
     (case tl_parse_public_key L public_key_bytes of
        None \<Rightarrow> Err ''parse public key''
      | Some public_key \<Rightarrow>
          if \<not> tl_secret_key L private_key then Err ''parse secret key''
          else Ok (of_list (take 32 (drop 1 (list_of (tl_shared_secret_point L public_key private_key))))))"

definition derive_shared_secret :: "('x) tool_lib_scheme \<Rightarrow> hash \<Rightarrow> hash \<Rightarrow> hash res" where
  "derive_shared_secret L private_key xonly_pubkey =
     derive_shared_secret_from_public_key L private_key (list_of (compressed_pubkey_from_xonly xonly_pubkey))"

text \<open>The loop of HKDF adds one block after the other; the counter of a byte must not overflow.\<close>

function hkdf_expand ::
    "('x) tool_lib_scheme \<Rightarrow> hash \<Rightarrow> bytes \<Rightarrow> nat \<Rightarrow> bytes \<Rightarrow> byte \<Rightarrow> bytes \<Rightarrow> bytes res" where
  "hkdf_expand L prk info output_len previous counter output =
     (if output_len \<le> length output then Ok (take output_len output)
      else
        let block = list_of (tl_hmac_sha256 L (list_of prk) (previous @ info @ [counter]))
        in if counter = 255 then Err ''HKDF counter overflow''
           else hkdf_expand L prk info output_len block (counter + 1) (output @ block))"
  by auto

lemma byte_Suc:
  assumes "b \<noteq> (255 :: byte)"
  shows "unat (b + 1) = Suc (unat b)" "unat b < 255"
proof -
  have "(255 :: byte) = - 1"
    by simp
  then have "b + 1 \<noteq> 0"
    using assms by (simp only: eq_neg_iff_add_eq_0 [symmetric]) simp
  then show "unat (b + 1) = Suc (unat b)"
    using unatSuc [of b] by (simp add: add.commute)
  then show "unat b < 255"
    using unsigned_less [of "b + 1", where ?'a = nat] by simp
qed

termination hkdf_expand
  by (relation "measure (\<lambda>(L, prk, info, n, previous, counter, output). 255 - unat counter)")
    (auto simp: byte_Suc dest: byte_Suc(2) intro: diff_less_mono2)

declare hkdf_expand.simps [simp del]

definition hkdf_sha256 :: "('x) tool_lib_scheme \<Rightarrow> bytes \<Rightarrow> bytes \<Rightarrow> nat \<Rightarrow> bytes res" where
  "hkdf_sha256 L ikm info output_len =
     (let prk = tl_hmac_sha256 L (replicate 32 0) ikm in hkdf_expand L prk info output_len [] 1 [])"

section \<open>Aliases, encryption and decryption\<close>

definition derive_alias_with_context :: "('x) tool_lib_scheme \<Rightarrow> hash \<Rightarrow> rstr \<Rightarrow> hash \<Rightarrow> rstr res" where
  "derive_alias_with_context L private_key their_address context_pubkey =
     rbind (xonly_pubkey_from_address L their_address) (\<lambda>their_xonly.
     rbind (derive_shared_secret L private_key their_xonly) (\<lambda>shared_secret.
     let info = utf8 (str ''chat'') @ list_of shared_secret @ list_of context_pubkey in
     rbind (hkdf_sha256 L (list_of shared_secret) info 6) (\<lambda>alias.
     Ok (hex alias))))"

definition derive_my_alias :: "('x) tool_lib_scheme \<Rightarrow> rstr \<Rightarrow> rstr \<Rightarrow> rstr res" where
  "derive_my_alias L private_key_hex their_address =
     rbind (tool_decode_fixed_hex L private_key_hex) (\<lambda>private_key.
     rbind (xonly_public_key_from_private_key L private_key) (\<lambda>my_xonly.
     derive_alias_with_context L private_key their_address my_xonly))"

definition derive_their_alias :: "('x) tool_lib_scheme \<Rightarrow> rstr \<Rightarrow> rstr \<Rightarrow> rstr res" where
  "derive_their_alias L private_key_hex their_address =
     rbind (tool_decode_fixed_hex L private_key_hex) (\<lambda>private_key.
     rbind (xonly_pubkey_from_address L their_address) (\<lambda>their_xonly.
     derive_alias_with_context L private_key their_address their_xonly))"

definition derive_ephemeral_secret :: "('x) tool_lib_scheme \<Rightarrow> rstr \<Rightarrow> rstr \<Rightarrow> rstr \<Rightarrow> hash" where
  "derive_ephemeral_secret L private_key_hex recipient_address message =
     (let candidate = tl_sha256 L (utf8 (str ''kbeam-contextual-ephemeral-v1'') @ utf8 (trim private_key_hex) @
            utf8 (trim recipient_address) @ utf8 message)
      in if list_all (\<lambda>b. b = 0) (list_of candidate) then of_list ((list_of candidate)[31 := 1]) else candidate)"

definition encrypt_for_recipient :: "('x) tool_lib_scheme \<Rightarrow> rstr \<Rightarrow> rstr \<Rightarrow> rstr \<Rightarrow> bytes res" where
  "encrypt_for_recipient L private_key_hex recipient_address message =
     rbind (xonly_pubkey_from_address L recipient_address) (\<lambda>recipient_xonly.
     let recipient_public_key = compressed_pubkey_from_xonly recipient_xonly;
         ephemeral_secret = derive_ephemeral_secret L private_key_hex recipient_address message in
     if \<not> tl_secret_key L ephemeral_secret then Err ''build deterministic ephemeral secret key''
     else
       let ephemeral_public_key = list_of (tl_public_key L ephemeral_secret) in
       rbind (derive_shared_secret_from_public_key L ephemeral_secret (list_of recipient_public_key)) (\<lambda>shared_secret.
       rbind (hkdf_sha256 L (list_of shared_secret) [] 32) (\<lambda>key.
       let nonce_seed = tl_sha256 L (utf8 (str ''kbeam-contextual-nonce-v1'') @ ephemeral_public_key @ utf8 message);
           nonce_bytes = take 12 (list_of nonce_seed) in
       (case tl_seal L key nonce_bytes (utf8 message) of
          None \<Rightarrow> Err ''encrypt plaintext for recipient''
        | Some encrypted \<Rightarrow> Ok (nonce_bytes @ ephemeral_public_key @ encrypted)))))"

definition decrypt_encrypted_hex :: "('x) tool_lib_scheme \<Rightarrow> rstr \<Rightarrow> rstr \<Rightarrow> rstr res" where
  "decrypt_encrypted_hex L private_key_hex encrypted_hex =
     rbind (tool_decode_fixed_hex L private_key_hex) (\<lambda>private_key.
     rbind (decode_hex_dynamic L encrypted_hex) (\<lambda>encrypted_bytes.
     if length encrypted_bytes \<le> 45 then Err ''encrypted payload too short''
     else
       let nonce = take 12 encrypted_bytes;
           key_tag = encrypted_bytes ! 12;
           public_key_len = (if key_tag = 0x02 \<or> key_tag = 0x03 then 33 else 32) in
       if length encrypted_bytes < 12 + public_key_len + 16 then Err ''encrypted payload missing public key or auth tag''
       else
         let ephemeral_public_key = take public_key_len (drop 12 encrypted_bytes);
             ciphertext = drop (12 + public_key_len) encrypted_bytes in
         rbind (derive_shared_secret_from_public_key L private_key ephemeral_public_key) (\<lambda>shared_secret.
         rbind (hkdf_sha256 L (list_of shared_secret) [] 32) (\<lambda>key.
         (case tl_open L key nonce ciphertext of
            None \<Rightarrow> Err ''decrypt payload''
          | Some plaintext \<Rightarrow>
              (case from_utf8 plaintext of None \<Rightarrow> Err ''decode plaintext as UTF-8'' | Some t \<Rightarrow> Ok t))))))"

record encrypt_output =
  eo_recipient_address :: rstr
  eo_their_alias :: rstr
  eo_encrypted_hex :: rstr
  eo_encrypted_base64 :: rstr
  eo_contextual_payload :: rstr

datatype crypto_output = WalletOutput wallet_identity | AliasOutput rstr | EncryptOutput encrypt_output | DecryptOutput rstr

fun run_command :: "('x) tool_lib_scheme \<Rightarrow> crypto_command \<Rightarrow> crypto_output res" where
  "run_command L (DeriveWallet mnemonic network account_index address_index) =
     rbind (derive_wallet_identity L mnemonic network account_index address_index) (\<lambda>identity. Ok (WalletOutput identity))"
| "run_command L (DeriveMyAlias private_key_hex their_address) =
     rbind (derive_my_alias L private_key_hex their_address) (\<lambda>alias. Ok (AliasOutput alias))"
| "run_command L (DeriveTheirAlias private_key_hex their_address) =
     rbind (derive_their_alias L private_key_hex their_address) (\<lambda>alias. Ok (AliasOutput alias))"
| "run_command L (Encrypt private_key_hex recipient_address message) =
     rbind (derive_their_alias L private_key_hex recipient_address) (\<lambda>their_alias.
     rbind (encrypt_for_recipient L private_key_hex recipient_address message) (\<lambda>encrypted_bytes.
     let encrypted_base64 = tl_base64 L encrypted_bytes
     in Ok (EncryptOutput
       \<lparr>eo_recipient_address = recipient_address, eo_their_alias = their_alias, eo_encrypted_hex = hex encrypted_bytes,
        eo_encrypted_base64 = encrypted_base64,
        eo_contextual_payload = str ''ciph_msg:1:comm:'' @ their_alias @ str '':'' @ encrypted_base64\<rparr>)))"
| "run_command L (Decrypt private_key_hex encrypted_hex) =
     rbind (decrypt_encrypted_hex L private_key_hex encrypted_hex) (\<lambda>plaintext. Ok (DecryptOutput plaintext))"

end
