(* ===== verification/Tool_Send.thy ===== *)
theory Tool_Send
  imports Tool_Crypto Addresses "HOL-Library.Product_Lexorder" "HOL-Library.Log_Nat"
begin

text \<open>
  The tools that send messages (\<^verbatim>\<open>openclaw_kbeam_send\<close> and \<^verbatim>\<open>openclaw_kbeam_send_handshake\<close>): the
  fee, the choice of the outputs to spend, and the handlers that build, sign and submit a
  transaction. The node, the signature and the calculation of masses are parameters.
\<close>

section \<open>Floating point numbers\<close>

text \<open>
  A finite number is a rational that is rounded to 53 binary digits after every operation. Numbers
  below the smallest normal one are not rounded and large ones do not become infinite: the sources
  clamp both.
\<close>

datatype f64 = Finite rat | NotFinite

definition round_even :: "rat \<Rightarrow> int" where
  "round_even x = (let f = \<lfloor>x\<rfloor>; d = x - of_int f in if d < 1 / 2 \<or> d = 1 / 2 \<and> even f then f else f + 1)"

definition ulp :: "rat \<Rightarrow> rat" where
  "ulp x = 2 ^ (floorlog 2 (nat \<lfloor>x\<rfloor>) - 1) / 2 ^ 52"

definition round53 :: "rat \<Rightarrow> rat" where
  "round53 x = of_int (round_even (x / ulp x)) * ulp x"

definition round_f64 :: "rat \<Rightarrow> rat" where
  "round_f64 x = (if 1 \<le> x then round53 x else if 1 / 2 ^ 1022 \<le> x then round53 (x * 2 ^ 1022) / 2 ^ 1022 else x)"

text \<open>\<^verbatim>\<open>f64::round\<close>: halves go away from zero.\<close>

definition round_away :: "rat \<Rightarrow> int" where
  "round_away x = (if 0 \<le> x then \<lfloor>x + 1 / 2\<rfloor> else - \<lfloor>1 / 2 - x\<rfloor>)"

definition as_u64 :: "int \<Rightarrow> u64" where
  "as_u64 i = (if i < 0 then 0 else if 2 ^ 64 \<le> i then - 1 else word_of_int i)"

section \<open>Fees\<close>

definition FEE_BUFFER_SOMPI :: u64 where "FEE_BUFFER_SOMPI = 3"
definition MINIMUM_RELAY_FEE :: u64 where "MINIMUM_RELAY_FEE = 1000"
definition HANDSHAKE_AMOUNT_SOMPI :: u64 where "HANDSHAKE_AMOUNT_SOMPI = 20000000"
definition DUST_THRESHOLD_SOMPI :: u64 where "DUST_THRESHOLD_SOMPI = 10000"

lemmas fee_constants = FEE_BUFFER_SOMPI_def MINIMUM_RELAY_FEE_def HANDSHAKE_AMOUNT_SOMPI_def DUST_THRESHOLD_SOMPI_def

definition normalize_fee_multiplier :: "f64 \<Rightarrow> rat" where
  "normalize_fee_multiplier v =
     (case v of
        NotFinite \<Rightarrow> 1
      | Finite x \<Rightarrow> min (max (round_f64 (of_int (round_away (round_f64 (x * 20))) / 20)) 1) 5)"

definition proactive_fee_boost_multiplier :: "u64 option \<Rightarrow> rat option" where
  "proactive_fee_boost_multiplier mempool_size_hint =
     Option.bind mempool_size_hint (\<lambda>n. if n < 1000 then None else Some (round_f64 (1 + round_f64 (30 / 100))))"

definition congestion_multiplier :: "u64 option \<Rightarrow> rat" where
  "congestion_multiplier mempool_size_hint =
     (case mempool_size_hint of
        None \<Rightarrow> 1
      | Some n \<Rightarrow>
          if n \<le> 999 then 1 else if n \<le> 4999 then round_f64 (11 / 10) else if n \<le> 14999 then 5 / 4
          else if n \<le> 49999 then 3 / 2 else if n \<le> 99999 then 2 else 5 / 2)"

record fee_decision =
  fd_multiplier :: rat
  fd_reason :: rstr

definition fee_decision_of :: "u64 option \<Rightarrow> f64 option \<Rightarrow> fee_decision" where
  "fee_decision_of mempool_size_hint override_multiplier =
     (case override_multiplier of
        Some multiplier \<Rightarrow> \<lparr>fd_multiplier = normalize_fee_multiplier multiplier, fd_reason = str ''manual_override''\<rparr>
      | None \<Rightarrow>
          let congestion = congestion_multiplier mempool_size_hint;
              proactive = proactive_fee_boost_multiplier mempool_size_hint;
              multiplier1 = (if 1 < congestion then congestion else 1);
              reasons1 = (if 1 < congestion then [str ''congestion''] else []);
              multiplier2 = (case proactive of Some p \<Rightarrow> if multiplier1 < p then p else multiplier1 | None \<Rightarrow> multiplier1);
              reasons2 = (if proactive = None then reasons1 else reasons1 @ [str ''proactive_mempool_boost''])
          in \<lparr>fd_multiplier = normalize_fee_multiplier (Finite multiplier2),
              fd_reason = (case reasons2 of [] \<Rightarrow> str ''base'' | [r] \<Rightarrow> r | r # r' # _ \<Rightarrow> r @ str ''+'' @ r')\<rparr>)"

definition adjusted_fee :: "u64 \<Rightarrow> f64 \<Rightarrow> u64" where
  "adjusted_fee base_fee fee_multiplier =
     (let normalized_multiplier = (case fee_multiplier of Finite m \<Rightarrow> max m 1 | NotFinite \<Rightarrow> 1);
          scaled_double = round_f64 (round_f64 (of_nat (unat base_fee)) * normalized_multiplier);
          bounded_scaled = min scaled_double (round_f64 (of_nat (unat (- 1 - FEE_BUFFER_SOMPI))));
          scaled = as_u64 \<lceil>bounded_scaled\<rceil>
      in sat_add scaled FEE_BUFFER_SOMPI)"

section \<open>Transactions\<close>

record selected_utxo =
  su_tx_id :: hash
  su_index :: u32
  su_amount :: u64

record send_tx =
  sx_inputs :: "(hash \<times> u32) list"
  sx_outputs :: "(u64 \<times> script_public_key) list"
  sx_payload :: bytes

text \<open>The masses the consensus crate computes for a transaction, and the largest of them.\<close>

record masses =
  ms_compute_mass :: u64
  ms_transient_mass :: u64
  ms_storage_mass :: u64
  ms_max :: u64

type_synonym mass_calculator = "send_tx \<Rightarrow> selected_utxo list \<Rightarrow> masses option"

record estimated_transaction =
  et_tx :: send_tx
  et_output_amount :: u64
  et_change_amount :: u64
  et_fee :: u64
  et_total_input_amount :: u64
  et_masses :: masses

definition build_estimation_transaction_with_outputs ::
    "selected_utxo list \<Rightarrow> (u64 \<times> script_public_key) list \<Rightarrow> bytes \<Rightarrow> send_tx" where
  "build_estimation_transaction_with_outputs selected outputs payload_bytes =
     \<lparr>sx_inputs = map (\<lambda>u. (su_tx_id u, su_index u)) selected, sx_outputs = outputs, sx_payload = payload_bytes\<rparr>"

definition build_estimation_transaction ::
    "selected_utxo list \<Rightarrow> script_public_key \<Rightarrow> bytes \<Rightarrow> u64 \<Rightarrow> send_tx" where
  "build_estimation_transaction selected sender_spk payload_bytes output_amount =
     build_estimation_transaction_with_outputs selected [(output_amount, sender_spk)] payload_bytes"

text \<open>The loops that look for a fee that its own transaction requires make at most six rounds.\<close>

fun contextual_rounds ::
    "nat \<Rightarrow> u64 \<Rightarrow> selected_utxo list \<Rightarrow> u64 \<Rightarrow> script_public_key \<Rightarrow> bytes \<Rightarrow> mass_calculator \<Rightarrow> f64 \<Rightarrow>
     estimated_transaction option res" where
  "contextual_rounds 0 fee selected total_input sender_spk payload_bytes calc fee_multiplier =
     Err ''could not stabilize fee estimation for contextual self-spend''"
| "contextual_rounds (Suc n) fee selected total_input sender_spk payload_bytes calc fee_multiplier =
     (if total_input \<le> fee then Ok None
      else
        let output_amount = total_input - fee in
        if output_amount = 0 then Ok None
        else
          let tx = build_estimation_transaction selected sender_spk payload_bytes output_amount in
          (case calc tx selected of
             None \<Rightarrow> Err ''calculate contextual mass''
           | Some masses \<Rightarrow>
               let required_fee = adjusted_fee (max (ms_max masses) MINIMUM_RELAY_FEE) fee_multiplier in
               if required_fee = fee
               then Ok (Some \<lparr>et_tx = tx, et_output_amount = output_amount, et_change_amount = 0, et_fee = fee,
                              et_total_input_amount = total_input, et_masses = masses\<rparr>)
               else contextual_rounds n required_fee selected total_input sender_spk payload_bytes calc fee_multiplier))"

definition try_estimate_contextual_self_spend ::
    "script_public_key \<Rightarrow> bytes \<Rightarrow> mass_calculator \<Rightarrow> f64 \<Rightarrow> selected_utxo list \<Rightarrow> u64 \<Rightarrow> estimated_transaction option res" where
  "try_estimate_contextual_self_spend sender_spk payload_bytes calc fee_multiplier selected total_input =
     contextual_rounds 6 MINIMUM_RELAY_FEE selected total_input sender_spk payload_bytes calc fee_multiplier"

fun response_rounds ::
    "nat \<Rightarrow> u64 \<Rightarrow> selected_utxo list \<Rightarrow> u64 \<Rightarrow> script_public_key \<Rightarrow> script_public_key \<Rightarrow> bytes \<Rightarrow> mass_calculator \<Rightarrow>
     f64 \<Rightarrow> estimated_transaction option res" where
  "response_rounds 0 fee selected total_input sender_spk recipient_spk payload_bytes calc fee_multiplier =
     Err ''could not stabilize fee estimation for handshake response''"
| "response_rounds (Suc n) fee selected total_input sender_spk recipient_spk payload_bytes calc fee_multiplier =
     (if total_input \<le> HANDSHAKE_AMOUNT_SOMPI + fee then Ok None
      else
        let change = total_input - HANDSHAKE_AMOUNT_SOMPI - fee;
            outputs = (HANDSHAKE_AMOUNT_SOMPI, recipient_spk) # (if DUST_THRESHOLD_SOMPI < change then [(change, sender_spk)] else []);
            tx = build_estimation_transaction_with_outputs selected outputs payload_bytes in
        (case calc tx selected of
           None \<Rightarrow> Err ''calculate contextual mass''
         | Some masses \<Rightarrow>
             let required_fee = adjusted_fee (max (ms_max masses) MINIMUM_RELAY_FEE) fee_multiplier in
             if required_fee = fee
             then Ok (Some \<lparr>et_tx = tx, et_output_amount = HANDSHAKE_AMOUNT_SOMPI, et_change_amount = 0, et_fee = fee,
                            et_total_input_amount = total_input, et_masses = masses\<rparr>)
             else response_rounds n required_fee selected total_input sender_spk recipient_spk payload_bytes calc fee_multiplier))"

definition try_estimate_handshake_response ::
    "script_public_key \<Rightarrow> script_public_key \<Rightarrow> bytes \<Rightarrow> mass_calculator \<Rightarrow> f64 \<Rightarrow> selected_utxo list \<Rightarrow> u64 \<Rightarrow>
     estimated_transaction option res" where
  "try_estimate_handshake_response sender_spk recipient_spk payload_bytes calc fee_multiplier selected total_input =
     response_rounds 6 MINIMUM_RELAY_FEE selected total_input sender_spk recipient_spk payload_bytes calc fee_multiplier"

text \<open>The outputs are added one after the other until their amount is enough.\<close>

fun select_utxos ::
    "(selected_utxo list \<Rightarrow> u64 \<Rightarrow> estimated_transaction option res) \<Rightarrow> string \<Rightarrow> selected_utxo list \<Rightarrow> u64 \<Rightarrow>
     selected_utxo list \<Rightarrow> estimated_transaction res" where
  "select_utxos estimate message selected total_input [] = Err message"
| "select_utxos estimate message selected total_input (u # spendable) =
     (if 2 ^ 64 \<le> unat total_input + unat (su_amount u) then Err ''selected UTXO amount overflow''
      else
        rbind (estimate (selected @ [u]) (total_input + su_amount u)) (\<lambda>estimated.
        (case estimated of
           Some e \<Rightarrow> Ok e
         | None \<Rightarrow> select_utxos estimate message (selected @ [u]) (total_input + su_amount u) spendable)))"

definition estimate_contextual_self_spend ::
    "selected_utxo list \<Rightarrow> script_public_key \<Rightarrow> bytes \<Rightarrow> mass_calculator \<Rightarrow> f64 \<Rightarrow> estimated_transaction res" where
  "estimate_contextual_self_spend spendable sender_spk payload_bytes calc fee_multiplier =
     select_utxos (try_estimate_contextual_self_spend sender_spk payload_bytes calc fee_multiplier)
       ''insufficient funds to send contextual payload'' [] 0 spendable"

definition estimate_handshake_response ::
    "selected_utxo list \<Rightarrow> script_public_key \<Rightarrow> script_public_key \<Rightarrow> bytes \<Rightarrow> mass_calculator \<Rightarrow> f64 \<Rightarrow>
     estimated_transaction res" where
  "estimate_handshake_response spendable sender_spk recipient_spk payload_bytes calc fee_multiplier =
     select_utxos (try_estimate_handshake_response sender_spk recipient_spk payload_bytes calc fee_multiplier)
       ''insufficient funds to send handshake response'' [] 0 spendable"

text \<open>The tool for handshakes counts a change below the dust threshold as a part of the fee.\<close>

record handshake_selection =
  hse_total_input_amount :: u64
  hse_fee :: u64
  hse_change_amount :: u64
  hse_outputs :: "(u64 \<times> script_public_key) list"

definition build_handshake_selection ::
    "u64 \<Rightarrow> u64 \<Rightarrow> script_public_key \<Rightarrow> script_public_key \<Rightarrow> handshake_selection option" where
  "build_handshake_selection total_input fee sender_spk recipient_spk =
     (if 2 ^ 64 \<le> unat HANDSHAKE_AMOUNT_SOMPI + unat fee then None
      else
        let required = HANDSHAKE_AMOUNT_SOMPI + fee in
        if total_input \<le> required then None
        else
          let change_amount = total_input - required;
              effective_change = (if DUST_THRESHOLD_SOMPI < change_amount then change_amount else 0);
              outputs = (HANDSHAKE_AMOUNT_SOMPI, recipient_spk) #
                (if DUST_THRESHOLD_SOMPI < change_amount then [(change_amount, sender_spk)] else [])
          in Some \<lparr>hse_total_input_amount = total_input,
                   hse_fee = (if effective_change = 0 then total_input - HANDSHAKE_AMOUNT_SOMPI else fee),
                   hse_change_amount = effective_change, hse_outputs = outputs\<rparr>)"

fun handshake_rounds ::
    "nat \<Rightarrow> u64 \<Rightarrow> selected_utxo list \<Rightarrow> u64 \<Rightarrow> script_public_key \<Rightarrow> script_public_key \<Rightarrow> bytes \<Rightarrow> mass_calculator \<Rightarrow>
     estimated_transaction option res" where
  "handshake_rounds 0 fee selected total_input sender_spk recipient_spk payload_bytes calc =
     Err ''could not stabilize fee estimation for handshake''"
| "handshake_rounds (Suc n) fee selected total_input sender_spk recipient_spk payload_bytes calc =
     (case build_handshake_selection total_input fee sender_spk recipient_spk of
        None \<Rightarrow> Ok None
      | Some selection \<Rightarrow>
          let tx = build_estimation_transaction_with_outputs selected (hse_outputs selection) payload_bytes in
          (case calc tx selected of
             None \<Rightarrow> Err ''calculate contextual mass''
           | Some masses \<Rightarrow>
               let required_fee = max (ms_max masses) MINIMUM_RELAY_FEE + FEE_BUFFER_SOMPI in
               if required_fee = hse_fee selection
               then Ok (Some \<lparr>et_tx = tx, et_output_amount = HANDSHAKE_AMOUNT_SOMPI,
                              et_change_amount = hse_change_amount selection, et_fee = hse_fee selection,
                              et_total_input_amount = hse_total_input_amount selection, et_masses = masses\<rparr>)
               else handshake_rounds n required_fee selected total_input sender_spk recipient_spk payload_bytes calc))"

definition try_estimate_handshake_transaction ::
    "script_public_key \<Rightarrow> script_public_key \<Rightarrow> bytes \<Rightarrow> mass_calculator \<Rightarrow> selected_utxo list \<Rightarrow> u64 \<Rightarrow>
     estimated_transaction option res" where
  "try_estimate_handshake_transaction sender_spk recipient_spk payload_bytes calc selected total_input =
     handshake_rounds 6 MINIMUM_RELAY_FEE selected total_input sender_spk recipient_spk payload_bytes calc"

definition estimate_handshake_transaction ::
    "selected_utxo list \<Rightarrow> script_public_key \<Rightarrow> script_public_key \<Rightarrow> bytes \<Rightarrow> mass_calculator \<Rightarrow> estimated_transaction res" where
  "estimate_handshake_transaction spendable sender_spk recipient_spk payload_bytes calc =
     select_utxos (try_estimate_handshake_transaction sender_spk recipient_spk payload_bytes calc)
       ''insufficient funds to send handshake'' [] 0 spendable"

end
