(* ===== verification/Tool_Messages.thy ===== *)
theory Tool_Messages
  imports Tool_Crypto Protocol
begin

text \<open>
  What the cryptographic tool promises: the expansion of keys is that of RFC 5869, a message that is
  encrypted for an address is one the indexer recognises and its recipient decrypts, and both sides
  agree on the alias. The last two need keys of an even sign, since the secret is read one byte too
  far.
\<close>

section \<open>Text and its bytes\<close>

definition valid_text :: "rstr \<Rightarrow> bool" where
  "valid_text s \<longleftrightarrow> (\<forall>c \<in> set s. c < 0x110000 \<and> \<not> (0xD800 \<le> c \<and> c \<le> 0xDFFF))"

lemma unat_byte [simp]: "n < 256 \<Longrightarrow> unat (word_of_nat n :: byte) = n"
  by (simp add: unsigned_of_nat take_bit_nat_eq_self)

lemma continuation_iff: "continuation b \<longleftrightarrow> 0x80 \<le> unat b \<and> unat b \<le> 0xBF"
  by (simp add: continuation_def word_le_nat_alt)

lemma digits64:
  fixes c :: nat
  shows "c = c div 4096 * 4096 + c div 64 mod 64 * 64 + c mod 64"
    "c = c div 262144 * 262144 + c div 4096 mod 64 * 4096 + c div 64 mod 64 * 64 + c mod 64"
proof -
  have quotients: "c div 4096 = c div 64 div 64" "c div 262144 = c div 64 div 64 div 64"
    by (simp_all flip: div_mult2_eq)
  have "c = c div 64 * 64 + c mod 64" "c div 64 = c div 64 div 64 * 64 + c div 64 mod 64"
      "c div 64 div 64 = c div 64 div 64 div 64 * 64 + c div 64 div 64 mod 64"
    by (simp_all only: div_mult_mod_eq)
  then show "c = c div 4096 * 4096 + c div 64 mod 64 * 64 + c mod 64"
      "c = c div 262144 * 262144 + c div 4096 mod 64 * 4096 + c div 64 mod 64 * 64 + c mod 64"
    unfolding quotients by linarith+
qed

lemma from_utf8_two:
  assumes "unat b = 0xC0 + x" "2 \<le> x" "x < 32" "unat b1 = 0x80 + y" "y < 64"
  shows "from_utf8 (b # b1 # bs) = map_option (Cons (x * 64 + y)) (from_utf8 bs)"
  using assms by (simp add: continuation_iff)

lemma from_utf8_three:
  assumes "unat b = 0xE0 + x" "x < 16" "unat b1 = 0x80 + y" "y < 64" "unat b2 = 0x80 + z" "z < 64"
    "x = 0 \<Longrightarrow> 32 \<le> y" "x = 13 \<Longrightarrow> y < 32"
  shows "from_utf8 (b # b1 # b2 # bs) = map_option (Cons (x * 4096 + y * 64 + z)) (from_utf8 bs)"
  using assms by (auto simp: continuation_iff word_le_nat_alt)

lemma from_utf8_four:
  assumes "unat b = 0xF0 + w" "w < 5" "unat b1 = 0x80 + x" "x < 64" "unat b2 = 0x80 + y" "y < 64" "unat b3 = 0x80 + z" "z < 64"
    "w = 0 \<Longrightarrow> 16 \<le> x" "w = 4 \<Longrightarrow> x < 16"
  shows "from_utf8 (b # b1 # b2 # b3 # bs) = map_option (Cons (w * 262144 + x * 4096 + y * 64 + z)) (from_utf8 bs)"
  using assms by (auto simp: continuation_iff word_le_nat_alt)

lemma from_utf8_char:
  assumes "c < 0x110000" "\<not> (0xD800 \<le> c \<and> c \<le> 0xDFFF)"
  shows "from_utf8 (utf8_char c @ bs) = map_option (Cons c) (from_utf8 bs)"
proof -
  consider "c < 0x80" | "0x80 \<le> c" "c < 0x800" | "0x800 \<le> c" "c < 0x10000" | "0x10000 \<le> c"
    by linarith
  then show ?thesis
  proof cases
    case 1
    then show ?thesis by (simp add: utf8_char_def)
  next
    case 2
    define x y where "x = c div 64" and "y = c mod 64"
    have c: "c = x * 64 + y" and bounds: "y < 64"
      by (simp_all add: x_def y_def)
    have x: "2 \<le> x" "x < 32"
      using 2 c bounds by linarith+
    have "utf8_char c = [word_of_nat (0xC0 + x), word_of_nat (0x80 + y)]"
      using 2 by (simp add: utf8_char_def x_def y_def)
    then show ?thesis
      using from_utf8_two [of "word_of_nat (0xC0 + x)" x "word_of_nat (0x80 + y)" y bs] x bounds
      by (simp add: c del: of_nat_add)
  next
    case 3
    define x y z where "x = c div 4096" and "y = c div 64 mod 64" and "z = c mod 64"
    have c: "c = x * 4096 + y * 64 + z" and bounds: "y < 64" "z < 64"
      using digits64(1) [of c] by (simp_all add: x_def y_def z_def)
    have x: "x < 16" "x = 0 \<Longrightarrow> 32 \<le> y" "x = 13 \<Longrightarrow> y < 32"
      using 3 assms(2) c bounds by linarith+
    have "utf8_char c = [word_of_nat (0xE0 + x), word_of_nat (0x80 + y), word_of_nat (0x80 + z)]"
      using 3 by (simp add: utf8_char_def x_def y_def z_def)
    then show ?thesis
      using from_utf8_three [of "word_of_nat (0xE0 + x)" x "word_of_nat (0x80 + y)" y "word_of_nat (0x80 + z)" z bs] x bounds
      by (simp add: c del: of_nat_add)
  next
    case 4
    define w x y z where "w = c div 262144" and "x = c div 4096 mod 64" and "y = c div 64 mod 64" and "z = c mod 64"
    have c: "c = w * 262144 + x * 4096 + y * 64 + z" and bounds: "x < 64" "y < 64" "z < 64"
      using digits64(2) [of c] by (simp_all add: w_def x_def y_def z_def)
    have w: "w < 5" "w = 0 \<Longrightarrow> 16 \<le> x" "w = 4 \<Longrightarrow> x < 16"
      using 4 assms(1) c bounds by linarith+
    have "utf8_char c = [word_of_nat (0xF0 + w), word_of_nat (0x80 + x), word_of_nat (0x80 + y), word_of_nat (0x80 + z)]"
      using 4 by (simp add: utf8_char_def w_def x_def y_def z_def)
    then show ?thesis
      using from_utf8_four [of "word_of_nat (0xF0 + w)" w "word_of_nat (0x80 + x)" x "word_of_nat (0x80 + y)" y
          "word_of_nat (0x80 + z)" z bs] w bounds
      by (simp add: c del: of_nat_add)
  qed
qed

lemma from_utf8_utf8: "valid_text s \<Longrightarrow> from_utf8 (utf8 s) = Some s"
  by (induction s) (simp_all add: valid_text_def utf8_def from_utf8_char)

section \<open>HKDF\<close>

text \<open>The blocks of RFC 5869: each is the hash of the one before it, the context and its number.\<close>

fun hkdf_block :: "('x) tool_lib_scheme \<Rightarrow> hash \<Rightarrow> bytes \<Rightarrow> nat \<Rightarrow> bytes" where
  "hkdf_block L prk info 0 = []"
| "hkdf_block L prk info (Suc n) =
     list_of (tl_hmac_sha256 L (list_of prk) (hkdf_block L prk info n @ info @ [word_of_nat (Suc n)]))"

definition hkdf_blocks :: "('x) tool_lib_scheme \<Rightarrow> hash \<Rightarrow> bytes \<Rightarrow> nat \<Rightarrow> bytes" where
  "hkdf_blocks L prk info n = concat (map (hkdf_block L prk info) [1..<Suc n])"

lemma hkdf_blocks_Suc: "hkdf_blocks L prk info (Suc n) = hkdf_blocks L prk info n @ hkdf_block L prk info (Suc n)"
  by (simp add: hkdf_blocks_def del: hkdf_block.simps)

lemma length_hkdf_blocks [simp]: "length (hkdf_blocks L prk info n) = 32 * n"
  by (induction n) (simp_all add: hkdf_blocks_Suc hkdf_blocks_def)

lemma hkdf_blocks_take: "k \<le> 32 * m \<Longrightarrow> take k (hkdf_blocks L prk info (m + i)) = take k (hkdf_blocks L prk info m)"
  by (induction i) (simp_all add: hkdf_blocks_Suc)

lemma hkdf_expand_blocks:
  assumes "m \<le> 254"
  shows "hkdf_expand L prk info n (hkdf_block L prk info m) (word_of_nat (Suc m)) (hkdf_blocks L prk info m) =
    (if n \<le> 32 * 254 then Ok (take n (hkdf_blocks L prk info 254)) else Err ''HKDF counter overflow'')"
  using assms
proof (induction "254 - m" arbitrary: m)
  case 0
  then have "m = 254"
    by simp
  then show ?case
    by (simp add: hkdf_expand.simps)
next
  case (Suc d)
  have "n \<le> 32 * m \<Longrightarrow> take n (hkdf_blocks L prk info m) = take n (hkdf_blocks L prk info 254)"
    using hkdf_blocks_take [of n m L prk info "254 - m"] Suc.prems by simp
  moreover have "(word_of_nat (Suc m) :: byte) \<noteq> 255"
    using Suc.prems Suc.hyps(2) by (simp add: word_unat_eq_iff del: of_nat_Suc)
  moreover have "hkdf_expand L prk info n (hkdf_block L prk info (Suc m)) (word_of_nat (Suc (Suc m))) (hkdf_blocks L prk info (Suc m)) =
    (if n \<le> 32 * 254 then Ok (take n (hkdf_blocks L prk info 254)) else Err ''HKDF counter overflow'')"
    by (rule Suc.hyps(1)) (use Suc.hyps(2) Suc.prems in simp_all)
  ultimately show ?case
    using Suc.prems by (subst hkdf_expand.simps) (simp add: hkdf_blocks_Suc add.commute)
qed

lemma hkdf_sha256_is_rfc5869:
  "hkdf_sha256 L ikm info n =
     (if n \<le> 32 * 254 then Ok (take n (hkdf_blocks L (tl_hmac_sha256 L (replicate 32 0) ikm) info 254))
      else Err ''HKDF counter overflow'')"
  using hkdf_expand_blocks [of 0 L "tl_hmac_sha256 L (replicate 32 0) ikm" info n] by (simp add: hkdf_sha256_def hkdf_blocks_def Let_def)

lemma hkdf_sha256_total: "n \<le> 8128 \<Longrightarrow> \<exists>k. hkdf_sha256 L ikm info n = Ok k \<and> length k = n"
  by (simp add: hkdf_sha256_is_rfc5869)


section \<open>Two wallets\<close>

text \<open>
  What the crates promise. Hexadecimal text is decoded to the bytes it was made of. Two secret keys
  share one point, whichever side computes it; a public key is serialised with its sign, 2 or 3, and
  parsed again. A sealed text is 16 bytes longer than the plain one and can be opened.
\<close>

definition crates_ok :: "('x) tool_lib_scheme \<Rightarrow> bool" where
  "crates_ok L \<longleftrightarrow>
     (\<forall>bs. tl_hex_decode L (utf8 (hex bs)) = Some bs) \<and>
     (\<forall>a b. tl_secret_key L a \<longrightarrow> tl_secret_key L b \<longrightarrow>
        tl_shared_secret_point L (tl_public_key L a) b = tl_shared_secret_point L (tl_public_key L b) a) \<and>
     (\<forall>a. tl_secret_key L a \<longrightarrow> tl_parse_public_key L (list_of (tl_public_key L a)) = Some (tl_public_key L a) \<and>
        hd (list_of (tl_public_key L a)) \<in> {2, 3}) \<and>
     (\<forall>k n m. length k = 32 \<longrightarrow> length n = 12 \<longrightarrow> length m < 2 ^ 37 \<longrightarrow>
        (\<exists>c. tl_seal L k n m = Some c \<and> length c = length m + 16 \<and> tl_open L k n c = Some m))"

lemma crates_okD:
  assumes "crates_ok L"
  shows "tl_hex_decode L (utf8 (hex bs)) = Some bs"
    "tl_secret_key L a \<Longrightarrow> tl_secret_key L b \<Longrightarrow>
      tl_shared_secret_point L (tl_public_key L a) b = tl_shared_secret_point L (tl_public_key L b) a"
    "tl_secret_key L a \<Longrightarrow> tl_parse_public_key L (list_of (tl_public_key L a)) = Some (tl_public_key L a)"
    "tl_secret_key L a \<Longrightarrow> hd (list_of (tl_public_key L a)) = 2 \<or> hd (list_of (tl_public_key L a)) = 3"
    "length k = 32 \<Longrightarrow> length n = 12 \<Longrightarrow> length m < 2 ^ 37 \<Longrightarrow>
      \<exists>c. tl_seal L k n m = Some c \<and> length c = length m + 16 \<and> tl_open L k n c = Some m"
  using assms unfolding crates_ok_def by blast+

definition even_key :: "('x) tool_lib_scheme \<Rightarrow> hash \<Rightarrow> bool" where
  "even_key L k \<longleftrightarrow> tl_secret_key L k \<and> hd (list_of (tl_public_key L k)) = 2"

definition address_of_key :: "('x) tool_lib_scheme \<Rightarrow> hash \<Rightarrow> rstr \<Rightarrow> bool" where
  "address_of_key L k address \<longleftrightarrow> tl_address_payload L address = Some (list_of (xonly (tl_public_key L k)))"

lemma list_of_xonly: "list_of (xonly p) = drop 1 (list_of p)"
  by (simp add: xonly_def)

lemma compressed_xonly: "hd (list_of p) = 2 \<Longrightarrow> compressed_pubkey_from_xonly (xonly p) = p"
proof -
  assume "hd (list_of p) = 2"
  then have "2 # drop 1 (list_of p) = list_of p"
    by (cases "list_of p") simp_all
  then show ?thesis
    by (simp add: compressed_pubkey_from_xonly_def list_of_xonly)
qed

lemma hex_no_space: "c \<in> set (hex bs) \<Longrightarrow> \<not> is_whitespace c \<and> c < 128 \<and> c \<noteq> 58"
  using hex_digits [of c bs] by (auto simp: is_ascii_hexdigit_def is_ascii_digit_def is_whitespace_def)

lemma hex_trimmed [simp]: "trim (hex bs) = hex bs" "byte_len (hex bs) = 2 * length bs"
proof -
  show "trim (hex bs) = hex bs"
    by (rule trim_fixed) (use hex_no_space in blast)
  have "is_ascii (hex bs)"
    using hex_no_space by (auto simp: is_ascii_def)
  then show "byte_len (hex bs) = 2 * length bs"
    by (simp add: byte_len_ascii)
qed

lemma hex_decoded:
  assumes "crates_ok L"
  shows "tool_decode_fixed_hex L (hex (list_of (k :: 'n::len arr))) = Ok k"
    "bs \<noteq> [] \<Longrightarrow> decode_hex_dynamic L (hex bs) = Ok bs"
proof -
  note decoded = crates_okD(1) [OF assms]
  then show "tool_decode_fixed_hex L (hex (list_of (k :: 'n::len arr))) = Ok k"
    by (simp add: tool_decode_fixed_hex_def)
  have "hex bs = [] \<longleftrightarrow> bs = []"
    by (metis length_hex length_0_conv mult_is_0 zero_neq_numeral)
  then show "bs \<noteq> [] \<Longrightarrow> decode_hex_dynamic L (hex bs) = Ok bs"
    by (simp add: decode_hex_dynamic_def decoded)
qed

lemma secret_of_public_key:
  assumes "crates_ok L" "tl_secret_key L a" "tl_secret_key L b"
  shows "derive_shared_secret_from_public_key L a (list_of (tl_public_key L b)) =
    Ok (of_list (take 32 (drop 1 (list_of (tl_shared_secret_point L (tl_public_key L b) a)))))"
  using assms(2,3) crates_okD(3) [OF assms(1,3)] by (simp add: derive_shared_secret_from_public_key_def)

lemma secret_agreement:
  assumes "crates_ok L" "tl_secret_key L a" "tl_secret_key L b"
  shows "derive_shared_secret_from_public_key L a (list_of (tl_public_key L b)) =
    derive_shared_secret_from_public_key L b (list_of (tl_public_key L a))"
  unfolding secret_of_public_key [OF assms] secret_of_public_key [OF assms(1,3,2)] crates_okD(2) [OF assms] ..

lemma xonly_of_address:
  assumes "address_of_key L k address"
  shows "xonly_pubkey_from_address L address = Ok (xonly (tl_public_key L k))"
  using assms by (simp add: address_of_key_def xonly_pubkey_from_address_def)

lemma alias_of_secret:
  assumes L: "crates_ok L" and a: "tl_secret_key L a" and b: "even_key L b" "address_of_key L b address"
    and s: "derive_shared_secret_from_public_key L a (list_of (tl_public_key L b)) = Ok s"
  shows "derive_alias_with_context L a address c =
    Ok (hex (take 6 (hkdf_blocks L (tl_hmac_sha256 L (replicate 32 0) (list_of s)) (utf8 (str ''chat'') @ list_of s @ list_of c) 254)))"
  using xonly_of_address [OF b(2)] b(1) s
  by (simp add: derive_alias_with_context_def derive_shared_secret_def even_key_def compressed_xonly hkdf_sha256_is_rfc5869 Let_def)

text \<open>The alias to which one side sends is the one for which the other side watches.\<close>

lemma aliases_agree:
  assumes L: "crates_ok L" and a: "even_key L a" "address_of_key L a address_a" and b: "even_key L b" "address_of_key L b address_b"
  shows "\<exists>alias. derive_their_alias L (hex (list_of a)) address_b = Ok alias \<and>
    derive_my_alias L (hex (list_of b)) address_a = Ok alias \<and> (\<exists>bs. alias = hex bs \<and> length bs = 6)"
proof -
  have secrets: "tl_secret_key L a" "tl_secret_key L b"
    using a(1) b(1) by (simp_all add: even_key_def)
  obtain s where s: "derive_shared_secret_from_public_key L a (list_of (tl_public_key L b)) = Ok s"
      "derive_shared_secret_from_public_key L b (list_of (tl_public_key L a)) = Ok s"
    using secret_of_public_key [OF L secrets] secret_agreement [OF L secrets] by simp
  show ?thesis
    using alias_of_secret [OF L secrets(1) b s(1)] alias_of_secret [OF L secrets(2) a s(2)] xonly_of_address [OF b(2)] secrets
    by (auto simp: derive_their_alias_def derive_my_alias_def hex_decoded [OF L] xonly_public_key_from_private_key_def)
qed


lemma decrypt_encrypted:
  assumes L: "crates_ok L" and b: "even_key L b" "address_of_key L b address"
    and m: "valid_text m" "length (utf8 m) < 2 ^ 37" and e: "tl_secret_key L (derive_ephemeral_secret L key address m)"
  shows "\<exists>c. encrypt_for_recipient L key address m = Ok c \<and> decrypt_encrypted_hex L (hex (list_of b)) (hex c) = Ok m"
proof -
  let ?e = "derive_ephemeral_secret L key address m"
  define P where "P = list_of (tl_public_key L ?e)"
  have secret: "tl_secret_key L b"
    using b(1) by (simp add: even_key_def)
  obtain s where s: "derive_shared_secret_from_public_key L ?e (list_of (tl_public_key L b)) = Ok s"
      "derive_shared_secret_from_public_key L b P = Ok s"
    using secret_of_public_key [OF L e secret] secret_agreement [OF L e secret] by (simp add: P_def)
  obtain k where k: "hkdf_sha256 L (list_of s) [] 32 = Ok k" "length k = 32"
    using hkdf_sha256_total [of 32 L "list_of s" "[]"] by auto
  define nonce where "nonce = take 12 (list_of (tl_sha256 L (utf8 (str ''kbeam-contextual-nonce-v1'') @ P @ utf8 m)))"
  obtain c where c: "tl_seal L k nonce (utf8 m) = Some c" "length c = length (utf8 m) + 16" "tl_open L k nonce c = Some (utf8 m)"
    using crates_okD(5) [OF L k(2) _ m(2), of nonce] by (auto simp: nonce_def)
  have P: "length P = 33" "hd P = 2 \<or> hd P = 3"
    using crates_okD(4) [OF L e] by (simp_all add: P_def)
  have nonce: "length nonce = 12"
    by (simp add: nonce_def)
  have "encrypt_for_recipient L key address m = Ok (nonce @ P @ c)"
    using e b(1) s(1) k(1) c(1)
    by (simp add: encrypt_for_recipient_def xonly_of_address [OF b(2)] even_key_def compressed_xonly Let_def P_def [symmetric]
        nonce_def [symmetric])
  moreover have tag: "(nonce @ P @ c) ! 12 = hd P"
    using P(1) nonce by (simp add: nth_append hd_conv_nth flip: length_greater_0_conv)
  have "decode_hex_dynamic L (hex (nonce @ P @ c)) = Ok (nonce @ P @ c)"
    using P(1) by (intro hex_decoded(2) [OF L]) auto
  then have "decrypt_encrypted_hex L (hex (list_of b)) (hex (nonce @ P @ c)) = Ok m"
    using P nonce s(2) k(1) c(2,3) from_utf8_utf8 [OF m(1)]
    by (elim disjE) (simp_all add: decrypt_encrypted_hex_def hex_decoded(1) [OF L] tag Let_def del: rbind_Inr_iff)
  ultimately show ?thesis
    by blast
qed

lemma tool_payload_parsed:
  assumes "length bs = 6"
  shows "parse_sealed_operation (utf8 (str ''ciph_msg:1:comm:'' @ hex bs @ str '':'' @ t)) =
    Some (ContextualMessageV1 \<lparr>cm_alias = utf8 (hex bs), cm_sealed_hex = utf8 t\<rparr>)"
proof -
  have literals: "utf8 (str ''ciph_msg:1:comm:'') = PROTOCOL_PREFIX @ VERSION_1_PART @ ascii ''comm:''" "utf8 (str '':'') = [colon]"
    by (simp_all add: literals utf8_def str_def utf8_char_def)
  have no_colon: "colon \<notin> set (utf8 (hex bs))"
  proof -
    have ascii: "is_ascii (hex bs)" and colon: "colon = word_of_nat 58"
      using hex_no_space by (auto simp: is_ascii_def colon_def)
    have "False" if "c \<in> set (hex bs)" "(word_of_nat 58 :: byte) = word_of_nat c" for c
      using arg_cong [OF that(2), of unat] hex_no_space [OF that(1)] by simp
    then show ?thesis
      unfolding colon utf8_ascii [OF ascii] set_map image_iff by blast
  qed
  have "utf8 (str ''ciph_msg:1:comm:'' @ hex bs @ str '':'' @ t) =
      PROTOCOL_PREFIX @ VERSION_1_PART @ ascii ''comm:'' @ (utf8 (hex bs) @ colon # utf8 t)"
    by (simp only: utf8_append literals append_assoc append_Cons append_Nil)
  then show ?thesis
    using position_append [OF no_colon] by (simp only: parse_versioned parse_v1_simps parse_comm_def) simp
qed


text \<open>
  A message that the tool encrypts for an address is a contextual message to the indexer, with
  the alias for which the recipient watches, and the recipient decrypts it to the same text. Both
  public keys have an even sign.
\<close>

theorem tool_message_arrives:
  assumes L: "crates_ok L" and a: "even_key L a" "address_of_key L a address_a" and b: "even_key L b" "address_of_key L b address_b"
    and m: "valid_text m" "length (utf8 m) < 2 ^ 37"
    and e: "tl_secret_key L (derive_ephemeral_secret L (hex (list_of a)) address_b m)"
  shows "\<exists>out. run_command L (Encrypt (hex (list_of a)) address_b m) = Ok (EncryptOutput out) \<and>
    parse_sealed_operation (utf8 (eo_contextual_payload out)) =
      Some (ContextualMessageV1 \<lparr>cm_alias = utf8 (eo_their_alias out), cm_sealed_hex = utf8 (eo_encrypted_base64 out)\<rparr>) \<and>
    run_command L (DeriveMyAlias (hex (list_of b)) address_a) = Ok (AliasOutput (eo_their_alias out)) \<and>
    run_command L (Decrypt (hex (list_of b)) (eo_encrypted_hex out)) = Ok (DecryptOutput m)"
proof -
  obtain bs where al: "derive_their_alias L (hex (list_of a)) address_b = Ok (hex bs)"
      "derive_my_alias L (hex (list_of b)) address_a = Ok (hex bs)" "length bs = 6"
    using aliases_agree [OF L a b] by auto
  obtain c where c: "encrypt_for_recipient L (hex (list_of a)) address_b m = Ok c"
      "decrypt_encrypted_hex L (hex (list_of b)) (hex c) = Ok m"
    using decrypt_encrypted [OF L b m e] by blast
  show ?thesis
    using al c tool_payload_parsed [OF al(3), of "tl_base64 L c"] by (simp add: Let_def)
qed


end
