(* ===== verification/Tool_Submit.thy ===== *)
theory Tool_Submit
  imports Tool_Send Tool_Messages
begin

text \<open>
  The rest of the tools that send: command lines, the connection to a node, the outputs a wallet can
  spend, and the handlers that build, sign and submit a transaction. The node is a parameter whose
  calls change a state that is passed on.
\<close>

section \<open>Numbers and hexadecimal text\<close>

text \<open>The text of a floating point number, as \<^verbatim>\<open>f64::from_str\<close> reads it.\<close>

definition sign_and_rest :: "rstr \<Rightarrow> bool \<times> rstr" where
  "sign_and_rest s = (case s of c # cs \<Rightarrow> if c = 45 then (True, cs) else if c = 43 then (False, cs) else (False, s) | [] \<Rightarrow> (False, []))"

definition parse_exponent :: "rstr \<Rightarrow> int option" where
  "parse_exponent s =
     (case s of
        [] \<Rightarrow> Some 0
      | c # cs \<Rightarrow>
          let (negative, digits) = sign_and_rest cs in
          if (c = 101 \<or> c = 69) \<and> digits \<noteq> [] \<and> list_all is_ascii_digit digits
          then Some (if negative then - int (decimal_value digits) else int (decimal_value digits)) else None)"

definition f64_of_rat :: "bool \<Rightarrow> rat \<Rightarrow> f64" where
  "f64_of_rat negative v =
     (if 2 ^ 1024 - 2 ^ 970 \<le> v then NotFinite else Finite (if negative then - round_f64 v else round_f64 v))"

definition parse_f64 :: "rstr \<Rightarrow> f64 option" where
  "parse_f64 s =
     (let (negative, t) = sign_and_rest s in
      if to_ascii_lowercase t \<in> str ` {''inf'', ''infinity'', ''nan''} then Some NotFinite
      else
        let whole = takeWhile is_ascii_digit t;
            rest = dropWhile is_ascii_digit t;
            (fraction, rest') =
              (case rest of
                 c # cs \<Rightarrow> if c = 46 then (takeWhile is_ascii_digit cs, dropWhile is_ascii_digit cs) else ([], rest)
               | [] \<Rightarrow> ([], []))
        in if whole = [] \<and> fraction = [] then None
           else map_option (\<lambda>e. f64_of_rat negative
                (of_nat (decimal_value (whole @ fraction)) * power_int 10 (e - int (length fraction)))) (parse_exponent rest'))"

definition env_f64 :: "environment \<Rightarrow> string \<Rightarrow> f64 option" where
  "env_f64 var key = Option.bind (env_value var key) parse_f64"

text \<open>\<^verbatim>\<open>u8::from_str_radix\<close> on two bytes: a plus sign may come first.\<close>

definition nibble :: "byte \<Rightarrow> nat option" where
  "nibble b =
     (let n = unat b in
      if 48 \<le> n \<and> n \<le> 57 then Some (n - 48) else if 97 \<le> n \<and> n \<le> 102 then Some (n - 87)
      else if 65 \<le> n \<and> n \<le> 70 then Some (n - 55) else None)"

definition radix_pair :: "byte \<Rightarrow> byte \<Rightarrow> byte option" where
  "radix_pair a b =
     (if a = 43 then map_option word_of_nat (nibble b)
      else Option.bind (nibble a) (\<lambda>x. map_option (\<lambda>y. word_of_nat (16 * x + y)) (nibble b)))"

text \<open>The text is cut after every second byte, which panics inside a character.\<close>

fun hex_pairs :: "bytes \<Rightarrow> bytes res" where
  "hex_pairs (a # b # rest) =
     (if rest \<noteq> [] \<and> continuation (hd rest) then Panics ''byte index is not a char boundary''
      else
        (case radix_pair a b of
           None \<Rightarrow> Err ''decode hex payload''
         | Some v \<Rightarrow> rbind (hex_pairs rest) (\<lambda>decoded. Ok (v # decoded))))"
| "hex_pairs _ = Ok []"

definition decode_hex_payload :: "rstr \<Rightarrow> bytes res" where
  "decode_hex_payload v =
     (let normalized = trim v in
      if byte_len normalized mod 2 \<noteq> 0 then Err ''hex payload has odd length'' else hex_pairs (utf8 normalized))"

section \<open>Command lines\<close>

record send_config =
  sc_mnemonic :: rstr
  sc_network :: rstr
  sc_account_index :: u32
  sc_address_index :: u32
  sc_sender_address :: "rstr option"
  sc_recipient_address :: "rstr option"
  sc_contextual_payload :: "rstr option"
  sc_handshake_encrypted_hex :: "rstr option"
  sc_node_url :: "rstr option"
  sc_fee_multiplier :: "f64 option"

record send_flags =
  sf_mnemonic :: "rstr option"
  sf_network :: rstr
  sf_account_index :: u32
  sf_address_index :: u32
  sf_sender_address :: "rstr option"
  sf_recipient_address :: "rstr option"
  sf_contextual_payload :: "rstr option"
  sf_handshake_encrypted_hex :: "rstr option"
  sf_node_url :: "rstr option"
  sf_fee_multiplier :: "f64 option"
  sf_alias :: "rstr option"
  sf_conversation_id :: "rstr option"
  sf_is_response :: bool

text \<open>The flags that the two sending tools share, and those of each.\<close>

definition wallet_flag :: "rstr \<Rightarrow> send_flags flag" where
  "wallet_flag flag =
     (if flag = str ''--mnemonic'' then TakesValue (\<lambda>t s. Inr (s\<lparr>sf_mnemonic := Some t\<rparr>))
      else if flag = str ''--network'' then TakesValue (\<lambda>t s. Inr (s\<lparr>sf_network := t\<rparr>))
      else if flag = str ''--account-index''
      then TakesValue (\<lambda>t s. abind (parse_index ''parse --account-index'' t) (\<lambda>n. Inr (s\<lparr>sf_account_index := n\<rparr>)))
      else if flag = str ''--address-index''
      then TakesValue (\<lambda>t s. abind (parse_index ''parse --address-index'' t) (\<lambda>n. Inr (s\<lparr>sf_address_index := n\<rparr>)))
      else if flag = str ''--sender-address'' then TakesValue (\<lambda>t s. Inr (s\<lparr>sf_sender_address := Some t\<rparr>))
      else if flag = str ''--recipient-address'' then TakesValue (\<lambda>t s. Inr (s\<lparr>sf_recipient_address := Some t\<rparr>))
      else if flag = str ''--node-url'' then TakesValue (\<lambda>t s. Inr (s\<lparr>sf_node_url := Some t\<rparr>))
      else if is_help flag then Help else Unknown)"

definition send_flag :: "rstr \<Rightarrow> send_flags flag" where
  "send_flag flag =
     (if flag = str ''--contextual-payload'' then TakesValue (\<lambda>t s. Inr (s\<lparr>sf_contextual_payload := Some t\<rparr>))
      else if flag = str ''--handshake-encrypted-hex'' then TakesValue (\<lambda>t s. Inr (s\<lparr>sf_handshake_encrypted_hex := Some t\<rparr>))
      else if flag = str ''--fee-multiplier''
      then TakesValue (\<lambda>t s. abind (ok_or (CliError ''parse --fee-multiplier'') (parse_f64 t)) (\<lambda>m. Inr (s\<lparr>sf_fee_multiplier := Some m\<rparr>)))
      else wallet_flag flag)"

definition handshake_flag :: "rstr \<Rightarrow> send_flags flag" where
  "handshake_flag flag =
     (if flag = str ''--alias'' then TakesValue (\<lambda>t s. Inr (s\<lparr>sf_alias := Some t\<rparr>))
      else if flag = str ''--conversation-id'' then TakesValue (\<lambda>t s. Inr (s\<lparr>sf_conversation_id := Some t\<rparr>))
      else if flag = str ''--is-response'' then Switch (\<lambda>s. s\<lparr>sf_is_response := True\<rparr>)
      else wallet_flag flag)"

definition send_defaults :: "environment \<Rightarrow> send_flags" where
  "send_defaults var =
     \<lparr>sf_mnemonic = env_value var ''OPENCLAW_KBEAM_MNEMONIC'',
      sf_network = (case env_value var ''OPENCLAW_KBEAM_NETWORK'' of Some n \<Rightarrow> n | None \<Rightarrow> str ''mainnet''),
      sf_account_index = (case env_u32 var ''OPENCLAW_KBEAM_ACCOUNT_INDEX'' of Some n \<Rightarrow> n | None \<Rightarrow> 0),
      sf_address_index = (case env_u32 var ''OPENCLAW_KBEAM_ADDRESS_INDEX'' of Some n \<Rightarrow> n | None \<Rightarrow> 0),
      sf_sender_address = None, sf_recipient_address = None, sf_contextual_payload = None, sf_handshake_encrypted_hex = None,
      sf_node_url = env_value var ''OPENCLAW_KBEAM_NODE_URL'', sf_fee_multiplier = env_f64 var ''OPENCLAW_KBEAM_FEE_MULTIPLIER'',
      sf_alias = None, sf_conversation_id = env_value var ''OPENCLAW_KBEAM_CONVERSATION_ID'', sf_is_response = False\<rparr>"

definition send_from_args :: "environment \<Rightarrow> rstr list \<Rightarrow> send_config cli" where
  "send_from_args var args =
     abind (read_flags send_flag args (send_defaults var)) (\<lambda>s.
     let contextual_payload = tool_normalized_optional (sf_contextual_payload s);
         handshake_encrypted_hex = tool_normalized_optional (sf_handshake_encrypted_hex s);
         recipient_address = tool_normalized_optional (sf_recipient_address s) in
     if contextual_payload \<noteq> None \<and> handshake_encrypted_hex \<noteq> None
     then Inl (CliError ''choose either --contextual-payload or --handshake-encrypted-hex'')
     else if contextual_payload = None \<and> handshake_encrypted_hex = None
     then Inl (CliError ''missing send mode (--contextual-payload or --handshake-encrypted-hex)'')
     else if handshake_encrypted_hex \<noteq> None \<and> recipient_address = None
     then Inl (CliError ''--recipient-address is required with --handshake-encrypted-hex'')
     else
       abind (required_option (sf_mnemonic s) ''missing mnemonic (--mnemonic or OPENCLAW_KBEAM_MNEMONIC)'') (\<lambda>mnemonic.
       Inr \<lparr>sc_mnemonic = mnemonic, sc_network = sf_network s, sc_account_index = sf_account_index s,
            sc_address_index = sf_address_index s, sc_sender_address = tool_normalized_optional (sf_sender_address s),
            sc_recipient_address = recipient_address, sc_contextual_payload = contextual_payload,
            sc_handshake_encrypted_hex = handshake_encrypted_hex,
            sc_node_url = tool_normalized_optional (sf_node_url s), sc_fee_multiplier = sf_fee_multiplier s\<rparr>))"

record handshake_config =
  hc_mnemonic :: rstr
  hc_network :: rstr
  hc_account_index :: u32
  hc_address_index :: u32
  hc_sender_address :: "rstr option"
  hc_recipient_address :: rstr
  hc_alias :: rstr
  hc_conversation_id :: rstr
  hc_is_response :: bool
  hc_node_url :: "rstr option"

text \<open>Without a conversation the first twelve characters of a random identifier name it.\<close>

definition generate_conversation_id :: "rstr \<Rightarrow> rstr" where
  "generate_conversation_id uuid = take 12 uuid"

definition handshake_from_args :: "environment \<Rightarrow> rstr \<Rightarrow> rstr list \<Rightarrow> handshake_config cli" where
  "handshake_from_args var uuid args =
     abind (read_flags handshake_flag args (send_defaults var)) (\<lambda>s.
     abind (required_option (sf_mnemonic s) ''missing mnemonic (--mnemonic or OPENCLAW_KBEAM_MNEMONIC)'') (\<lambda>mnemonic.
     abind (required_option (sf_recipient_address s) ''missing --recipient-address'') (\<lambda>recipient_address.
     abind (required_option (sf_alias s) ''missing --alias'') (\<lambda>own_alias.
     Inr \<lparr>hc_mnemonic = mnemonic, hc_network = sf_network s, hc_account_index = sf_account_index s,
          hc_address_index = sf_address_index s, hc_sender_address = tool_normalized_optional (sf_sender_address s),
          hc_recipient_address = recipient_address, hc_alias = own_alias,
          hc_conversation_id =
            (case tool_normalized_optional (sf_conversation_id s) of Some c \<Rightarrow> c | None \<Rightarrow> generate_conversation_id uuid),
          hc_is_response = sf_is_response s, hc_node_url = tool_normalized_optional (sf_node_url s)\<rparr>))))"

definition info_flag :: "rstr \<Rightarrow> send_flags flag" where
  "info_flag flag =
     (if flag = str ''--network'' then TakesValue (\<lambda>t s. Inr (s\<lparr>sf_network := t\<rparr>))
      else if flag = str ''--node-url'' then TakesValue (\<lambda>t s. Inr (s\<lparr>sf_node_url := Some t\<rparr>))
      else if is_help flag then Help else Unknown)"

definition info_from_args :: "environment \<Rightarrow> rstr list \<Rightarrow> (rstr \<times> rstr option) cli" where
  "info_from_args var args =
     abind (read_flags info_flag args (send_defaults var)) (\<lambda>s. Inr (sf_network s, tool_normalized_optional (sf_node_url s)))"

section \<open>The node\<close>

record rpc_client_options =
  rc_node_url :: "rstr option"
  rc_resolver :: bool
  rc_network :: string
  rc_suffix :: "nat option"

record node_info =
  ni_server_version :: rstr
  ni_is_synced :: bool
  ni_is_utxo_indexed :: bool
  ni_mempool_size :: u64
  ni_p2p_id :: rstr

text \<open>
  The calls of a client, which return a result and the next state of the world; the script that pays
  to the text of an address, its normal form, the signature of all inputs and the text of a value.
\<close>

type_synonym ('w, 'a) io = "'w \<Rightarrow> 'a res \<times> 'w"

record 'w tool_node =
  tn_new :: "rpc_client_options \<Rightarrow> ('w, unit) io"
  tn_connect :: "('w, unit) io"
  tn_is_connected :: "'w \<Rightarrow> bool \<times> 'w"
  tn_get_info :: "('w, node_info) io"
  tn_get_utxos :: "rstr \<Rightarrow> 'w \<Rightarrow> (rstr + selected_utxo list) \<times> 'w"
  tn_submit :: "send_tx \<Rightarrow> ('w, rstr) io"
  tn_disconnect :: "('w, unit) io"
  tn_script :: "rstr \<Rightarrow> script_public_key option"
  tn_normal :: "rstr \<Rightarrow> rstr option"
  tn_masses :: "string \<Rightarrow> mass_calculator"
  tn_sign :: "send_tx \<Rightarrow> selected_utxo list \<Rightarrow> hash \<Rightarrow> send_tx option"
  tn_json :: "json \<Rightarrow> rstr"

definition io_bind :: "('w, 'a) io \<Rightarrow> ('a \<Rightarrow> ('w, 'b) io) \<Rightarrow> ('w, 'b) io" where
  "io_bind f g w = (case f w of (Inl e, w') \<Rightarrow> (Inl e, w') | (Inr x, w') \<Rightarrow> g x w')"

definition io_pure :: "'a res \<Rightarrow> ('w, 'a) io" where
  "io_pure r w = (r, w)"

definition create_rpc_client :: "rstr option \<Rightarrow> string \<Rightarrow> rpc_client_options" where
  "create_rpc_client node_url network_type =
     \<lparr>rc_node_url = node_url, rc_resolver = (node_url = None), rc_network = network_type,
      rc_suffix = (if network_type = ''mainnet'' then None else Some 10)\<rparr>"

fun connection_polls :: "('w, 'y) tool_node_scheme \<Rightarrow> nat \<Rightarrow> ('w, unit) io" where
  "connection_polls N 0 w = (Err ''wRPC client did not become connected in time'', w)"
| "connection_polls N (Suc n) w =
     (case tn_is_connected N w of (ready, w') \<Rightarrow> if ready then (Ok (), w') else connection_polls N n w')"

definition wait_for_rpc_connection :: "('w, 'y) tool_node_scheme \<Rightarrow> ('w, unit) io" where
  "wait_for_rpc_connection N = connection_polls N 40"

definition fetch_mempool_size_hint :: "('w, 'y) tool_node_scheme \<Rightarrow> ('w, u64 option) io" where
  "fetch_mempool_size_hint N w =
     (case tn_get_info N w of (r, w') \<Rightarrow> (Ok (case r of Inr info \<Rightarrow> Some (ni_mempool_size info) | Inl _ \<Rightarrow> None), w'))"

text \<open>The message of the last error is part of the error that is returned.\<close>

fun fetch_tries :: "('w, 'y) tool_node_scheme \<Rightarrow> rstr \<Rightarrow> nat \<Rightarrow> ('w, selected_utxo list) io" where
  "fetch_tries N sender_address 0 w = (Err ''fetch UTXOs: not connected'', w)"
| "fetch_tries N sender_address (Suc n) w =
     (case tn_get_utxos N sender_address w of
        (Inr utxos, w') \<Rightarrow> (Ok utxos, w')
      | (Inl message, w') \<Rightarrow>
          if find_str (str ''not connected'') (to_ascii_lowercase message) \<noteq> None then fetch_tries N sender_address n w'
          else (Err ''fetch UTXOs'', w'))"

definition fetch_utxos_with_retry :: "('w, 'y) tool_node_scheme \<Rightarrow> rstr \<Rightarrow> ('w, selected_utxo list) io" where
  "fetch_utxos_with_retry N sender_address = fetch_tries N sender_address 5"

text \<open>Outputs of an amount are sorted from the largest, those of one amount by their index.\<close>

definition spendable_utxos :: "selected_utxo list \<Rightarrow> selected_utxo list" where
  "spendable_utxos utxos =
     sort_key (\<lambda>u. (2 ^ 64 - unat (su_amount u), unat (su_index u))) (filter (\<lambda>u. 0 < su_amount u) utxos)"

section \<open>Sending\<close>

text \<open>What both tools report; the one for handshakes reports the change, and neither a multiplier nor a hint.\<close>

record send_output =
  so_sender_address :: rstr
  so_tx_id :: rstr
  so_selected_input_count :: nat
  so_total_input_amount :: u64
  so_output_amount :: u64
  so_change_amount :: u64
  so_fee :: u64
  so_fee_multiplier :: rat
  so_fee_reason :: rstr
  so_mempool_size_hint :: "u64 option"
  so_masses :: masses

text \<open>
  What the handlers do once the script and the payload are known: fetch, choose, sign and submit. The
  estimate takes the outputs that can be spent.
\<close>

definition sign_and_submit ::
    "('w, 'y) tool_node_scheme \<Rightarrow> hash \<Rightarrow> rstr \<Rightarrow> (selected_utxo list \<Rightarrow> estimated_transaction res) \<Rightarrow>
     ('w, estimated_transaction \<times> rstr) io" where
  "sign_and_submit N private_key sender_address estimate =
     io_bind (fetch_utxos_with_retry N sender_address) (\<lambda>utxos.
     let spendable = spendable_utxos utxos in
     if spendable = [] then io_pure (Err ''no spendable UTXOs'')
     else
       io_bind (io_pure (estimate spendable)) (\<lambda>estimated.
       (case tn_sign N (et_tx estimated) (take (length (sx_inputs (et_tx estimated))) spendable) private_key of
          None \<Rightarrow> io_pure (Err ''sign transaction'')
        | Some signed_tx \<Rightarrow> io_bind (tn_submit N signed_tx) (\<lambda>tx_id. io_pure (Ok (estimated, tx_id))))))"

definition script_of :: "('w, 'y) tool_node_scheme \<Rightarrow> string \<Rightarrow> rstr \<Rightarrow> script_public_key res" where
  "script_of N message address = (case tn_script N address of None \<Rightarrow> Err message | Some s \<Rightarrow> Ok s)"

definition send_contextual_message ::
    "('w, 'y) tool_node_scheme \<Rightarrow> hash \<Rightarrow> rstr \<Rightarrow> bytes \<Rightarrow> string \<Rightarrow> fee_decision \<Rightarrow> u64 option \<Rightarrow> ('w, send_output) io" where
  "send_contextual_message N private_key sender_address payload_bytes network decision mempool_size_hint =
     io_bind (io_pure (script_of N ''parse sender address'' sender_address)) (\<lambda>sender_spk.
     io_bind (sign_and_submit N private_key sender_address (\<lambda>spendable.
        estimate_contextual_self_spend spendable sender_spk payload_bytes (tn_masses N network) (Finite (fd_multiplier decision))))
       (\<lambda>(estimated, tx_id). io_pure (Ok
         \<lparr>so_sender_address = sender_address, so_tx_id = tx_id, so_selected_input_count = length (sx_inputs (et_tx estimated)),
          so_total_input_amount = et_total_input_amount estimated, so_output_amount = et_output_amount estimated,
          so_change_amount = 0, so_fee = et_fee estimated, so_fee_multiplier = fd_multiplier decision,
          so_fee_reason = fd_reason decision, so_mempool_size_hint = mempool_size_hint, so_masses = et_masses estimated\<rparr>)))"

definition send_handshake_response ::
    "('w, 'y) tool_node_scheme \<Rightarrow> hash \<Rightarrow> rstr \<Rightarrow> rstr \<Rightarrow> rstr \<Rightarrow> string \<Rightarrow> fee_decision \<Rightarrow> u64 option \<Rightarrow>
     ('w, send_output) io" where
  "send_handshake_response N private_key sender_address recipient_address encrypted_hex network decision mempool_size_hint =
     io_bind (io_pure (script_of N ''parse sender address'' sender_address)) (\<lambda>sender_spk.
     io_bind (io_pure (script_of N ''parse recipient address'' recipient_address)) (\<lambda>recipient_spk.
     io_bind (io_pure (decode_hex_payload encrypted_hex)) (\<lambda>encrypted_bytes.
     let payload_bytes = ascii ''ciph_msg:1:handshake:'' @ encrypted_bytes in
     io_bind (sign_and_submit N private_key sender_address (\<lambda>spendable.
        estimate_handshake_response spendable sender_spk recipient_spk payload_bytes (tn_masses N network)
          (Finite (fd_multiplier decision))))
       (\<lambda>(estimated, tx_id). io_pure (Ok
         \<lparr>so_sender_address = sender_address, so_tx_id = tx_id, so_selected_input_count = length (sx_inputs (et_tx estimated)),
          so_total_input_amount = et_total_input_amount estimated, so_output_amount = HANDSHAKE_AMOUNT_SOMPI,
          so_change_amount = 0, so_fee = et_fee estimated, so_fee_multiplier = fd_multiplier decision,
          so_fee_reason = fd_reason decision, so_mempool_size_hint = mempool_size_hint, so_masses = et_masses estimated\<rparr>)))))"

section \<open>Handshakes\<close>

definition handshake_json :: "rstr \<Rightarrow> u64 \<Rightarrow> rstr \<Rightarrow> rstr \<Rightarrow> bool \<Rightarrow> json" where
  "handshake_json own_alias timestamp conversation_id recipient_address is_response =
     (let response = (if is_response then JsonBool True else JsonNull) in
      JsonObject (map (\<lambda>(k, v). (str k, v))
        [(''type'', JsonString (str ''handshake'')), (''alias'', JsonString own_alias),
         (''timestamp'', JsonNumber (PosInt timestamp)), (''conversationId'', JsonString conversation_id),
         (''conversation_id'', JsonString conversation_id), (''version'', JsonNumber (PosInt 1)),
         (''recipientAddress'', JsonString recipient_address), (''recipient_address'', JsonString recipient_address),
         (''sendToRecipient'', JsonBool True), (''send_to_recipient'', JsonBool True),
         (''isResponse'', response), (''is_response'', response)]))"

definition build_handshake_payload ::
    "('x) tool_lib_scheme \<Rightarrow> (json \<Rightarrow> rstr) \<Rightarrow> u64 \<Rightarrow> hash \<Rightarrow> rstr \<Rightarrow> rstr \<Rightarrow> rstr \<Rightarrow> bool \<Rightarrow> bytes res" where
  "build_handshake_payload L to_json timestamp private_key recipient_address own_alias conversation_id is_response =
     (let plaintext = to_json (handshake_json own_alias timestamp conversation_id recipient_address is_response);
          private_key_hex = hex (list_of private_key) in
      rbind (encrypt_for_recipient L private_key_hex recipient_address plaintext) (\<lambda>encrypted.
      rbind (decode_hex_dynamic L (hex encrypted)) (\<lambda>encrypted_bytes.
      Ok (ascii ''ciph_msg:1:handshake:'' @ encrypted_bytes))))"

definition send_handshake ::
    "('x) tool_lib_scheme \<Rightarrow> ('w, 'y) tool_node_scheme \<Rightarrow> u64 \<Rightarrow> hash \<Rightarrow> rstr \<Rightarrow> rstr \<Rightarrow> rstr \<Rightarrow> rstr \<Rightarrow> bool \<Rightarrow> string \<Rightarrow>
     ('w, send_output) io" where
  "send_handshake L N timestamp private_key sender_address recipient_address own_alias conversation_id is_response network =
     io_bind (io_pure (script_of N ''parse sender address'' sender_address)) (\<lambda>sender_spk.
     io_bind (io_pure (script_of N ''parse recipient address'' recipient_address)) (\<lambda>recipient_spk.
     io_bind (io_pure (build_handshake_payload L (tn_json N) timestamp private_key recipient_address own_alias conversation_id
         is_response)) (\<lambda>payload_bytes.
     io_bind (sign_and_submit N private_key sender_address (\<lambda>spendable.
        estimate_handshake_transaction spendable sender_spk recipient_spk payload_bytes (tn_masses N network)))
       (\<lambda>(estimated, tx_id). io_pure (Ok
         \<lparr>so_sender_address = sender_address, so_tx_id = tx_id, so_selected_input_count = length (sx_inputs (et_tx estimated)),
          so_total_input_amount = et_total_input_amount estimated, so_output_amount = HANDSHAKE_AMOUNT_SOMPI,
          so_change_amount = et_change_amount estimated, so_fee = et_fee estimated, so_fee_multiplier = 1,
          so_fee_reason = [], so_mempool_size_hint = None, so_masses = et_masses estimated\<rparr>)))))"

section \<open>The programs\<close>

definition tool_normalize_address :: "('w, 'y) tool_node_scheme \<Rightarrow> rstr \<Rightarrow> rstr res" where
  "tool_normalize_address N address = (case tn_normal N address of None \<Rightarrow> Err ''parse address'' | Some t \<Rightarrow> Ok t)"

text \<open>A sender that is named must be the wallet that is derived.\<close>

definition checked_sender :: "('w, 'y) tool_node_scheme \<Rightarrow> rstr option \<Rightarrow> rstr \<Rightarrow> rstr res" where
  "checked_sender N expected_sender address =
     (case expected_sender of
        None \<Rightarrow> Ok address
      | Some expected \<Rightarrow>
          rbind (tool_normalize_address N expected) (\<lambda>normalized_expected.
          rbind (tool_normalize_address N address) (\<lambda>normalized_actual.
          if normalized_expected \<noteq> normalized_actual then Err ''derived wallet address does not match expected sender address''
          else Ok expected)))"

definition open_client :: "('w, 'y) tool_node_scheme \<Rightarrow> rstr option \<Rightarrow> rstr \<Rightarrow> ('w, unit) io" where
  "open_client N node_url network =
     io_bind (io_pure (parse_network network)) (\<lambda>network_type.
     io_bind (tn_new N (create_rpc_client node_url network_type)) (\<lambda>_.
     io_bind (tn_connect N) (\<lambda>_.
     wait_for_rpc_connection N)))"

text \<open>After sending the client is disconnected whatever the result; an error of the result comes first.\<close>

definition then_disconnect :: "('w, 'y) tool_node_scheme \<Rightarrow> ('w, 'a) io \<Rightarrow> ('w, 'a) io" where
  "then_disconnect N send w =
     (case send w of (send_result, w') \<Rightarrow>
     (case tn_disconnect N w' of (disconnect_result, w'') \<Rightarrow>
        (rbind send_result (\<lambda>out. rbind disconnect_result (\<lambda>_. Ok out)), w'')))"

definition required_ref :: "rstr option \<Rightarrow> string \<Rightarrow> rstr res" where
  "required_ref v message = (case v of None \<Rightarrow> Err message | Some t \<Rightarrow> Ok t)"

definition send_main :: "('x) tool_lib_scheme \<Rightarrow> ('w, 'y) tool_node_scheme \<Rightarrow> send_config \<Rightarrow> ('w, send_output) io" where
  "send_main L N config =
     io_bind (io_pure (derive_wallet_identity L (sc_mnemonic config) (sc_network config) (sc_account_index config)
         (sc_address_index config))) (\<lambda>identity.
     io_bind (io_pure (checked_sender N (sc_sender_address config) (wi_address identity))) (\<lambda>sender_address.
     io_bind (open_client N (sc_node_url config) (sc_network config)) (\<lambda>_.
     io_bind (fetch_mempool_size_hint N) (\<lambda>mempool_size_hint.
     let decision = fee_decision_of mempool_size_hint (sc_fee_multiplier config) in
     (case sc_contextual_payload config of
        Some contextual_payload \<Rightarrow>
          io_bind (io_pure (parse_network (sc_network config))) (\<lambda>network.
          then_disconnect N (send_contextual_message N (wi_private_key identity) sender_address (utf8 contextual_payload) network
            decision mempool_size_hint))
      | None \<Rightarrow>
          io_bind (io_pure (required_ref (sc_recipient_address config) ''missing --recipient-address for handshake send''))
            (\<lambda>recipient_address.
          io_bind (io_pure (required_ref (sc_handshake_encrypted_hex config)
              ''missing --handshake-encrypted-hex for handshake send'')) (\<lambda>encrypted_hex.
          io_bind (io_pure (parse_network (sc_network config))) (\<lambda>network.
          then_disconnect N (send_handshake_response N (wi_private_key identity) sender_address recipient_address encrypted_hex
            network decision mempool_size_hint)))))))))"

definition handshake_main ::
    "('x) tool_lib_scheme \<Rightarrow> ('w, 'y) tool_node_scheme \<Rightarrow> u64 \<Rightarrow> handshake_config \<Rightarrow> ('w, send_output) io" where
  "handshake_main L N timestamp config =
     io_bind (io_pure (derive_wallet_identity L (hc_mnemonic config) (hc_network config) (hc_account_index config)
         (hc_address_index config))) (\<lambda>identity.
     io_bind (io_pure (checked_sender N (hc_sender_address config) (wi_address identity))) (\<lambda>sender_address.
     io_bind (open_client N (hc_node_url config) (hc_network config)) (\<lambda>_.
     io_bind (io_pure (parse_network (hc_network config))) (\<lambda>network.
     then_disconnect N (send_handshake L N timestamp (wi_private_key identity) sender_address (hc_recipient_address config)
       (hc_alias config) (hc_conversation_id config) (hc_is_response config) network)))))"

record info_output =
  io_node_url :: "rstr option"
  io_network :: rstr
  io_info :: node_info

definition info_main :: "('w, 'y) tool_node_scheme \<Rightarrow> rstr \<times> rstr option \<Rightarrow> ('w, info_output) io" where
  "info_main N = (\<lambda>(network, node_url).
     io_bind (open_client N node_url network) (\<lambda>_.
     io_bind (tn_get_info N) (\<lambda>info.
     io_bind (tn_disconnect N) (\<lambda>_.
     io_pure (Ok \<lparr>io_node_url = node_url, io_network = network, io_info = info\<rparr>)))))"

end
