(* ===== verification/Tool_Import.thy ===== *)
theory Tool_Import
  imports Tool_Submit Board_Api
begin

text \<open>
  The tools that post to the board (\<^verbatim>\<open>pulse_import_post\<close> and \<^verbatim>\<open>pulse_smoke_post\<close>): command lines,
  identities, the text of an imported item, signed requests, and the file that remembers what was
  imported. Files, the clock, identifiers and the answer of the indexer are parameters.
\<close>

section \<open>Command lines\<close>

text \<open>The settings of both tools; the last three are those of the smoke test.\<close>

record pulse_config =
  pc_indexer_url :: rstr
  pc_author_address :: "rstr option"
  pc_author_display_name :: rstr
  pc_private_key_hex :: "rstr option"
  pc_mnemonic :: "rstr option"
  pc_network :: rstr
  pc_input_file :: "rstr option"
  pc_state_file :: "rstr option"
  pc_allow_duplicates :: bool
  pc_dry_run :: bool
  pc_content_text :: rstr
  pc_primary_link_url :: "rstr option"
  pc_reply_to_post_id :: "rstr option"

definition author_flag :: "rstr \<Rightarrow> pulse_config flag" where
  "author_flag flag =
     (if flag = str ''--indexer-url'' then TakesValue (\<lambda>t s. Inr (s\<lparr>pc_indexer_url := t\<rparr>))
      else if flag = str ''--author-address'' then TakesValue (\<lambda>t s. Inr (s\<lparr>pc_author_address := Some t\<rparr>))
      else if flag = str ''--author-display-name'' then TakesValue (\<lambda>t s. Inr (s\<lparr>pc_author_display_name := t\<rparr>))
      else if flag = str ''--private-key-hex'' then TakesValue (\<lambda>t s. Inr (s\<lparr>pc_private_key_hex := Some t\<rparr>))
      else if flag = str ''--mnemonic'' then TakesValue (\<lambda>t s. Inr (s\<lparr>pc_mnemonic := Some t\<rparr>))
      else if flag = str ''--network'' then TakesValue (\<lambda>t s. Inr (s\<lparr>pc_network := t\<rparr>))
      else if flag = str ''--dry-run'' then Switch (\<lambda>s. s\<lparr>pc_dry_run := True\<rparr>)
      else if is_help flag then Help else Unknown)"

definition import_flag :: "rstr \<Rightarrow> pulse_config flag" where
  "import_flag flag =
     (if flag = str ''--input-file'' then TakesValue (\<lambda>t s. Inr (s\<lparr>pc_input_file := Some t\<rparr>))
      else if flag = str ''--state-file'' then TakesValue (\<lambda>t s. Inr (s\<lparr>pc_state_file := Some t\<rparr>))
      else if flag = str ''--allow-duplicates'' then Switch (\<lambda>s. s\<lparr>pc_allow_duplicates := True\<rparr>)
      else author_flag flag)"

definition smoke_flag :: "rstr \<Rightarrow> pulse_config flag" where
  "smoke_flag flag =
     (if flag = str ''--content'' then TakesValue (\<lambda>t s. Inr (s\<lparr>pc_content_text := t\<rparr>))
      else if flag = str ''--link'' then TakesValue (\<lambda>t s. Inr (s\<lparr>pc_primary_link_url := Some t\<rparr>))
      else if flag = str ''--reply-to-post-id'' then TakesValue (\<lambda>t s. Inr (s\<lparr>pc_reply_to_post_id := Some t\<rparr>))
      else author_flag flag)"

definition env_or :: "environment \<Rightarrow> string \<Rightarrow> string \<Rightarrow> rstr" where
  "env_or var key fallback = (case env_value var key of Some v \<Rightarrow> v | None \<Rightarrow> str fallback)"

definition import_defaults :: "environment \<Rightarrow> pulse_config" where
  "import_defaults var =
     \<lparr>pc_indexer_url = env_or var ''PULSE_IMPORT_INDEXER_URL'' ''https://indexer.kbeam.cloud'',
      pc_author_address = env_value var ''PULSE_IMPORT_AUTHOR_ADDRESS'',
      pc_author_display_name = env_or var ''PULSE_IMPORT_AUTHOR_DISPLAY_NAME'' ''OpenClaw on Pulse'',
      pc_private_key_hex = env_value var ''PULSE_IMPORT_PRIVATE_KEY_HEX'', pc_mnemonic = env_value var ''PULSE_IMPORT_MNEMONIC'',
      pc_network = env_or var ''PULSE_IMPORT_NETWORK'' ''mainnet'', pc_input_file = env_value var ''PULSE_IMPORT_INPUT_FILE'',
      pc_state_file = env_value var ''PULSE_IMPORT_STATE_FILE'', pc_allow_duplicates = False, pc_dry_run = False,
      pc_content_text = [], pc_primary_link_url = None, pc_reply_to_post_id = None\<rparr>"

definition smoke_defaults :: "environment \<Rightarrow> pulse_config" where
  "smoke_defaults var =
     \<lparr>pc_indexer_url = env_or var ''PULSE_POST_INDEXER_URL'' ''https://indexer.kbeam.cloud'',
      pc_author_address = env_value var ''PULSE_POST_AUTHOR_ADDRESS'',
      pc_author_display_name = env_or var ''PULSE_POST_AUTHOR_DISPLAY_NAME'' ''Pulse Smoke Test'',
      pc_private_key_hex = env_value var ''PULSE_POST_PRIVATE_KEY_HEX'', pc_mnemonic = env_value var ''PULSE_POST_MNEMONIC'',
      pc_network = env_or var ''PULSE_POST_NETWORK'' ''mainnet'', pc_input_file = None, pc_state_file = None,
      pc_allow_duplicates = False, pc_dry_run = False, pc_content_text = env_or var ''PULSE_POST_CONTENT'' [],
      pc_primary_link_url = env_value var ''PULSE_POST_LINK'', pc_reply_to_post_id = env_value var ''PULSE_POST_REPLY_TO''\<rparr>"

definition normalized_config :: "pulse_config \<Rightarrow> pulse_config" where
  "normalized_config s = s
     \<lparr>pc_author_address := tool_normalized_optional (pc_author_address s),
      pc_author_display_name := trim (pc_author_display_name s),
      pc_private_key_hex := tool_normalized_optional (pc_private_key_hex s),
      pc_mnemonic := tool_normalized_optional (pc_mnemonic s),
      pc_primary_link_url := tool_normalized_optional (pc_primary_link_url s),
      pc_reply_to_post_id := tool_normalized_optional (pc_reply_to_post_id s)\<rparr>"

definition has_signing_material :: "pulse_config \<Rightarrow> unit cli" where
  "has_signing_material s =
     require (pc_private_key_hex s \<noteq> None \<or> pc_mnemonic s \<noteq> None)
       (CliError ''missing signing material (--private-key-hex / --mnemonic or matching env vars)'')"

definition import_from_args :: "environment \<Rightarrow> rstr list \<Rightarrow> pulse_config cli" where
  "import_from_args var args =
     abind (read_flags import_flag args (import_defaults var)) (\<lambda>s.
     abind (has_signing_material s) (\<lambda>_. Inr (normalized_config s)))"

definition text_or_empty :: "rstr option \<Rightarrow> rstr" where
  "text_or_empty v = (case v of Some t \<Rightarrow> t | None \<Rightarrow> [])"

definition smoke_from_args :: "environment \<Rightarrow> rstr list \<Rightarrow> pulse_config cli" where
  "smoke_from_args var args =
     abind (read_flags smoke_flag args (smoke_defaults var)) (\<lambda>s.
     abind (require (\<not> (trim (pc_content_text s) = [] \<and> trim (text_or_empty (pc_primary_link_url s)) = []))
              (CliError ''provide --content or --link (or PULSE_POST_CONTENT / PULSE_POST_LINK)'')) (\<lambda>_.
     abind (has_signing_material s) (\<lambda>_. Inr (normalized_config s))))"

section \<open>Imported items\<close>

record normalized_import_item =
  ii_source_key :: rstr
  ii_source_label :: "rstr option"
  ii_external_item_id :: rstr
  ii_external_author_id :: "rstr option"
  ii_external_author_name :: rstr
  ii_external_author_url :: "rstr option"
  ii_title :: "rstr option"
  ii_body_text :: "rstr option"
  ii_primary_url :: "rstr option"
  ii_canonical_source_url :: "rstr option"
  ii_published_at :: "rstr option"
  ii_tags :: "rstr list"
  ii_source_metadata :: "json option"

definition validate_import_item :: "normalized_import_item \<Rightarrow> unit res" where
  "validate_import_item item =
     (if trim (ii_source_key item) = [] then Err ''normalized import item is missing sourceKey''
      else if trim (ii_external_item_id item) = [] then Err ''normalized import item is missing externalItemId''
      else if trim (ii_external_author_name item) = [] then Err ''normalized import item is missing externalAuthorName''
      else if trim (text_or_empty (ii_title item)) = [] \<and> trim (text_or_empty (ii_body_text item)) = [] \<and>
        trim (text_or_empty (ii_primary_url item)) = [] \<and> trim (text_or_empty (ii_canonical_source_url item)) = []
      then Err ''normalized import item must contain title, bodyText, primaryUrl, or canonicalSourceUrl''
      else Ok ())"

definition is_ascii_alphanumeric :: "rchar \<Rightarrow> bool" where
  "is_ascii_alphanumeric c \<longleftrightarrow> is_ascii_digit c \<or> is_ascii_lowercase c \<or> 65 \<le> c \<and> c \<le> 90"

definition ascii_upper :: "rchar \<Rightarrow> rchar" where
  "ascii_upper c = (if is_ascii_lowercase c then c - 32 else c)"

fun join_text :: "rstr \<Rightarrow> rstr list \<Rightarrow> rstr" where
  "join_text sep [] = []"
| "join_text sep [t] = t"
| "join_text sep (t # u # ts) = t @ sep @ join_text sep (u # ts)"

text \<open>The parts of a key hold ASCII letters and digits only, so that the first is put in upper case as ASCII.\<close>

definition title_case_source_key :: "rstr \<Rightarrow> rstr" where
  "title_case_source_key source_key =
     join_text (str '' '')
       (map (\<lambda>part. ascii_upper (hd part) # tl part)
         (filter (\<lambda>part. part \<noteq> []) (split_at (\<lambda>c. \<not> is_ascii_alphanumeric c) source_key)))"

definition import_source_label :: "normalized_import_item \<Rightarrow> rstr" where
  "import_source_label item =
     (case tool_normalized_optional (ii_source_label item) of
        Some label \<Rightarrow> label
      | None \<Rightarrow> title_case_source_key (ii_source_key item))"

definition preferred_primary_url :: "normalized_import_item \<Rightarrow> rstr option" where
  "preferred_primary_url item =
     (case tool_normalized_optional (ii_canonical_source_url item) of
        Some url \<Rightarrow> Some url
      | None \<Rightarrow> tool_normalized_optional (ii_primary_url item))"

definition import_dedupe_key :: "normalized_import_item \<Rightarrow> rstr" where
  "import_dedupe_key item =
     to_ascii_lowercase (trim (ii_source_key item)) @ str ''::'' @ to_ascii_lowercase (trim (ii_external_item_id item))"

text \<open>The title and the text unless it repeats the title, and where the item comes from.\<close>

definition build_import_content :: "normalized_import_item \<Rightarrow> rstr" where
  "build_import_content item =
     (let title = trim (text_or_empty (ii_title item));
          body = trim (text_or_empty (ii_body_text item));
          sections1 = (if title = [] then [] else [title]);
          sections2 = (if body \<noteq> [] \<and> (sections1 = [] \<or> trim (List.last sections1) \<noteq> body) then sections1 @ [body] else sections1);
          rendered_tags = filter (\<lambda>t. t \<noteq> []) (map trim (ii_tags item));
          attribution = [str ''Imported from '' @ import_source_label item, str ''Author: '' @ trim (ii_external_author_name item)] @
            (case tool_normalized_optional (ii_published_at item) of Some t \<Rightarrow> [str ''Published: '' @ t] | None \<Rightarrow> []) @
            (if rendered_tags = [] then [] else [str ''Tags: '' @ join_text (str '', '') rendered_tags])
      in join_text [10, 10] (sections2 @ [join_text [10] attribution]))"

section \<open>Identities and signatures\<close>

record derived_identity =
  di_author_address :: rstr
  di_private_key_hex :: rstr

definition kaspa_address_from_private_key :: "('x) tool_lib_scheme \<Rightarrow> rstr \<Rightarrow> rstr \<Rightarrow> rstr res" where
  "kaspa_address_from_private_key L private_key_hex network =
     rbind (tool_decode_fixed_hex L (trim private_key_hex)) (\<lambda>secret_key.
     if \<not> tl_secret_key L secret_key then Err ''parse private key''
     else rbind (parse_network network) (\<lambda>rpc_network. Ok (tl_address_text L rpc_network (xonly (tl_public_key L secret_key)))))"

definition derive_identity_from_mnemonic :: "('x) tool_lib_scheme \<Rightarrow> rstr \<Rightarrow> rstr option \<Rightarrow> rstr \<Rightarrow> derived_identity res" where
  "derive_identity_from_mnemonic L mnemonic override_address network =
     rbind (derive_leaf L mnemonic 0 0) (\<lambda>leaf.
     let private_key_hex = hex (list_of (dk_key leaf)) in
     rbind (kaspa_address_from_private_key L private_key_hex network) (\<lambda>derived_address.
     Ok \<lparr>di_author_address = (case override_address of Some a \<Rightarrow> a | None \<Rightarrow> derived_address),
         di_private_key_hex = private_key_hex\<rparr>))"

definition resolve_identity :: "('x) tool_lib_scheme \<Rightarrow> pulse_config \<Rightarrow> derived_identity res" where
  "resolve_identity L config =
     (case (pc_private_key_hex config, pc_mnemonic config) of
        (Some private_key_hex, _) \<Rightarrow>
          (case pc_author_address config of
             None \<Rightarrow> Err ''missing author address''
           | Some author_address \<Rightarrow> Ok \<lparr>di_author_address = author_address, di_private_key_hex = private_key_hex\<rparr>)
      | (None, Some mnemonic) \<Rightarrow> derive_identity_from_mnemonic L mnemonic (pc_author_address config) (pc_network config)
      | (None, None) \<Rightarrow> Err ''missing signing material'')"

type_synonym schnorr_sign = "hash \<Rightarrow> bytes \<Rightarrow> 64 arr option"

definition sign_raw_message :: "('x) tool_lib_scheme \<Rightarrow> schnorr_sign \<Rightarrow> rstr \<Rightarrow> bytes \<Rightarrow> rstr res" where
  "sign_raw_message L sign private_key_hex message_bytes =
     rbind (tool_decode_fixed_hex L (trim private_key_hex)) (\<lambda>secret_key.
     if \<not> tl_secret_key L secret_key then Err ''parse private key''
     else (case sign secret_key message_bytes of
         None \<Rightarrow> Err ''failed to create Schnorr signature'' | Some signature \<Rightarrow> Ok (hex (list_of signature))))"

text \<open>
  The request and what is signed have the same fields but for the signature, and no attachments; the
  payload that is signed is the one of the board.
\<close>

definition signed_request ::
    "('x) tool_lib_scheme \<Rightarrow> ('addr, 'time, 'y) board_lib_scheme \<Rightarrow> schnorr_sign \<Rightarrow> rstr \<Rightarrow> board_create_post_request \<Rightarrow>
     board_create_post_request res" where
  "signed_request L B sign private_key_hex signable =
     rbind (sign_raw_message L sign private_key_hex (canonical_json_bytes B (post_signable signable))) (\<lambda>signature.
     Ok (signable\<lparr>bcp_signature := signature\<rparr>))"

definition import_request ::
    "('x) tool_lib_scheme \<Rightarrow> ('addr, 'time, 'y) board_lib_scheme \<Rightarrow> schnorr_sign \<Rightarrow> rstr \<Rightarrow> rstr \<Rightarrow> pulse_config \<Rightarrow>
     normalized_import_item \<Rightarrow> derived_identity \<Rightarrow> board_create_post_request res" where
  "import_request L B sign created_at uuid config item identity =
     signed_request L B sign (di_private_key_hex identity)
       \<lparr>bcp_author_address = di_author_address identity, bcp_author_display_name = pc_author_display_name config,
        bcp_content_text = build_import_content item, bcp_attachments = [], bcp_reply_to_post_id = None,
        bcp_primary_link_url = preferred_primary_url item, bcp_created_at = created_at,
        bcp_client_generated_id = to_lowercase (bl_unicode B) uuid, bcp_signature = [], bcp_network = trim (pc_network config)\<rparr>"

definition smoke_request ::
    "('x) tool_lib_scheme \<Rightarrow> ('addr, 'time, 'y) board_lib_scheme \<Rightarrow> schnorr_sign \<Rightarrow> rstr \<Rightarrow> rstr \<Rightarrow> pulse_config \<Rightarrow>
     board_create_post_request res" where
  "smoke_request L B sign created_at uuid config =
     rbind (resolve_identity L config) (\<lambda>identity.
     signed_request L B sign (di_private_key_hex identity)
       \<lparr>bcp_author_address = di_author_address identity, bcp_author_display_name = pc_author_display_name config,
        bcp_content_text = trim (pc_content_text config), bcp_attachments = [], bcp_reply_to_post_id = pc_reply_to_post_id config,
        bcp_primary_link_url = pc_primary_link_url config, bcp_created_at = created_at,
        bcp_client_generated_id = to_lowercase (bl_unicode B) uuid, bcp_signature = [], bcp_network = trim (pc_network config)\<rparr>)"

section \<open>Runs\<close>

record import_state_entry =
  se_source_key :: rstr
  se_external_item_id :: rstr
  se_source_label :: rstr
  se_external_author_name :: rstr
  se_primary_url :: "rstr option"
  se_canonical_source_url :: "rstr option"
  se_pulse_post_id :: "rstr option"
  se_publisher_address :: rstr
  se_imported_at :: rstr

type_synonym import_state = "rstr \<rightharpoonup> import_state_entry"

text \<open>
  Reading looks at the state of the world; the clock, identifiers, writing (with the directories of
  the file) and requests change it. The file of the imports is read and decoded, or encoded and
  written, in one step.
\<close>

record 'w tool_world =
  tw_exists :: "rstr \<Rightarrow> 'w \<Rightarrow> bool"
  tw_read :: "rstr \<Rightarrow> 'w \<Rightarrow> rstr res"
  tw_stdin :: "'w \<Rightarrow> rstr res"
  tw_read_state :: "rstr \<Rightarrow> 'w \<Rightarrow> import_state res"
  tw_write_state :: "rstr \<Rightarrow> import_state \<Rightarrow> ('w, unit) io"
  tw_now :: "('w, rstr) io"
  tw_uuid :: "('w, rstr) io"
  tw_post :: "rstr \<Rightarrow> board_create_post_request \<Rightarrow> 'w \<Rightarrow> http_outcome \<times> 'w"
  tw_item_from_str :: "rstr \<Rightarrow> normalized_import_item option"
  tw_json_from_str :: "rstr \<Rightarrow> json option"

definition load_import_item :: "('w, 'z) tool_world_scheme \<Rightarrow> pulse_config \<Rightarrow> 'w \<Rightarrow> normalized_import_item res" where
  "load_import_item W config w =
     rbind (case pc_input_file config of Some path \<Rightarrow> tw_read W path w | None \<Rightarrow> tw_stdin W w) (\<lambda>raw.
     (case tw_item_from_str W raw of
        None \<Rightarrow> Err ''decode normalized import item JSON''
      | Some item \<Rightarrow> rbind (validate_import_item item) (\<lambda>_. Ok item)))"

definition load_state :: "('w, 'z) tool_world_scheme \<Rightarrow> rstr option \<Rightarrow> 'w \<Rightarrow> import_state res" where
  "load_state W state_file w =
     (case state_file of
        None \<Rightarrow> Ok Map.empty
      | Some path \<Rightarrow>
          if \<not> tw_exists W path w then Ok Map.empty
          else tw_read_state W path w)"

definition save_state :: "('w, 'z) tool_world_scheme \<Rightarrow> rstr option \<Rightarrow> import_state \<Rightarrow> ('w, unit) io" where
  "save_state W state_file s =
     (case state_file of None \<Rightarrow> io_pure (Ok ()) | Some path \<Rightarrow> tw_write_state W path s)"

definition extract_post_id_from_response :: "('w, 'z) tool_world_scheme \<Rightarrow> rstr \<Rightarrow> rstr option" where
  "extract_post_id_from_response W body =
     Option.bind (tw_json_from_str W body) (\<lambda>v.
     (case Option.bind (json_get v (str ''id'')) as_str of
        Some post_id \<Rightarrow> Some post_id
      | None \<Rightarrow> Option.bind (json_get v (str ''post'')) (\<lambda>post. Option.bind (json_get post (str ''id'')) as_str)))"

definition post_url :: "rstr \<Rightarrow> rstr" where
  "post_url indexer_url = rev (dropWhile ((=) 47) (rev indexer_url)) @ str ''/board/posts''"

definition post_request :: "('w, 'z) tool_world_scheme \<Rightarrow> rstr \<Rightarrow> board_create_post_request \<Rightarrow> ('w, rstr) io" where
  "post_request W indexer_url request w =
     (case tw_post W (post_url indexer_url) request w of
        (TransportError, w') \<Rightarrow> (Err ''send request'', w')
      | (HttpResponse status None, w') \<Rightarrow> (Err ''read response body'', w')
      | (HttpResponse status (Some body), w') \<Rightarrow> (if is_success status then Ok body else Err ''post failed with status'', w'))"

datatype import_outcome = SkippedDuplicate import_state_entry | DryRun board_create_post_request | Posted board_create_post_request

definition import_main ::
    "('x) tool_lib_scheme \<Rightarrow> ('addr, 'time, 'y) board_lib_scheme \<Rightarrow> schnorr_sign \<Rightarrow> ('w, 'z) tool_world_scheme \<Rightarrow> pulse_config \<Rightarrow>
     ('w, import_outcome) io" where
  "import_main L B sign W config w =
     (case (load_import_item W config w, resolve_identity L config, load_state W (pc_state_file config) w) of
        (Inl e, _, _) \<Rightarrow> (Inl e, w)
      | (Inr item, Inl e, _) \<Rightarrow> (Inl e, w)
      | (Inr item, Inr identity, Inl e) \<Rightarrow> (Inl e, w)
      | (Inr item, Inr identity, Inr state) \<Rightarrow>
          let dedupe_key = import_dedupe_key item in
          (case (if pc_allow_duplicates config then None else state dedupe_key) of
             Some existing \<Rightarrow> (Ok (SkippedDuplicate existing), w)
           | None \<Rightarrow>
               io_bind (tw_now W) (\<lambda>created_at.
               io_bind (tw_uuid W) (\<lambda>uuid.
               io_bind (io_pure (import_request L B sign created_at uuid config item identity)) (\<lambda>request.
               if pc_dry_run config then io_pure (Ok (DryRun request))
               else
                 io_bind (post_request W (pc_indexer_url config) request) (\<lambda>body.
                 io_bind (tw_now W) (\<lambda>imported_at.
                 let entry = \<lparr>se_source_key = ii_source_key item, se_external_item_id = ii_external_item_id item,
                       se_source_label = import_source_label item, se_external_author_name = ii_external_author_name item,
                       se_primary_url = tool_normalized_optional (ii_primary_url item),
                       se_canonical_source_url = tool_normalized_optional (ii_canonical_source_url item),
                       se_pulse_post_id = extract_post_id_from_response W body,
                       se_publisher_address = di_author_address identity, se_imported_at = imported_at\<rparr> in
                 io_bind (save_state W (pc_state_file config) (state(dedupe_key \<mapsto> entry))) (\<lambda>_.
                 io_pure (Ok (Posted request)))))))) w))"

definition smoke_main ::
    "('x) tool_lib_scheme \<Rightarrow> ('addr, 'time, 'y) board_lib_scheme \<Rightarrow> schnorr_sign \<Rightarrow> ('w, 'z) tool_world_scheme \<Rightarrow> pulse_config \<Rightarrow>
     ('w, import_outcome) io" where
  "smoke_main L B sign W config =
     io_bind (tw_now W) (\<lambda>created_at.
     io_bind (tw_uuid W) (\<lambda>uuid.
     io_bind (io_pure (smoke_request L B sign created_at uuid config)) (\<lambda>request.
     if pc_dry_run config then io_pure (Ok (DryRun request))
     else io_bind (post_request W (pc_indexer_url config) request) (\<lambda>_. io_pure (Ok (Posted request))))))"

end
