(* ===== verification/Tool_Funds.thy ===== *)
theory Tool_Funds
  imports Tool_Send
begin

text \<open>
  What the sending tools do with the funds of a wallet: the amounts of a transaction balance, its
  fee covers its mass, and a change below the dust threshold stops the tool for handshakes.
\<close>

section \<open>Fees cover masses\<close>

lemma round_even_ge: "of_int k \<le> x \<Longrightarrow> k \<le> round_even x"
  by (auto simp: round_even_def Let_def le_floor_iff intro: add_increasing2)

lemma round53_ge:
  assumes x: "1 \<le> x" "of_nat n \<le> x" and n: "n \<le> 2 ^ 53"
  shows "of_nat n \<le> round53 x"
proof -
  define k where "k = floorlog 2 (nat \<lfloor>x\<rfloor>) - 1"
  define u :: rat where "u = 2 ^ k / 2 ^ 52"
  have u: "0 < u" "ulp x = u"
    by (simp_all add: u_def ulp_def k_def)
  have "2 ^ k \<le> nat \<lfloor>x\<rfloor>"
    using floorlog_bounds [of "nat \<lfloor>x\<rfloor>" 2] x(1) by (simp add: k_def)
  then have "(2 :: int) ^ k \<le> \<lfloor>x\<rfloor>"
    using x(1) by (simp add: le_nat_iff)
  then have lower: "2 ^ k \<le> x"
    by (simp add: le_floor_iff)
  have *: "of_int m * u \<le> round53 x" if "of_int m * u \<le> x" for m
  proof -
    have "of_int m \<le> x / u"
      using that u(1) by (simp add: pos_le_divide_eq)
    then have "of_int m \<le> (of_int (round_even (x / u)) :: rat)"
      using round_even_ge by (simp only: of_int_le_iff)
    then show ?thesis
      using u by (simp add: round53_def)
  qed
  show ?thesis
  proof (cases "k \<le> 52")
    case True
    then have "(2 :: rat) ^ (52 - k) * 2 ^ k = 2 ^ 52"
      by (simp only: power_add [symmetric] le_add_diff_inverse2)
    moreover have "of_int (int n * 2 ^ (52 - k)) * u = of_nat n * ((2 ^ (52 - k) * 2 ^ k) / 2 ^ 52)"
      by (simp only: u_def of_int_mult of_int_of_nat_eq of_int_power of_int_numeral times_divide_eq_right mult.assoc)
    ultimately have "(of_nat n :: rat) = of_int (int n * 2 ^ (52 - k)) * u"
      by simp
    then show ?thesis
      using * [of "int n * 2 ^ (52 - k)"] x(2) by (simp only:)
  next
    case False
    have "of_nat n \<le> (of_nat (2 ^ 53) :: rat)"
      using n by (simp only: of_nat_le_iff)
    also have "\<dots> \<le> 2 ^ k"
      using power_increasing [of 53 k "2 :: rat"] False by simp
    also have "\<dots> = of_int (2 ^ 52) * u"
      by (simp add: u_def)
    also have "\<dots> \<le> round53 x"
      using lower by (intro *) (simp add: u_def)
    finally show ?thesis .
  qed
qed

lemma round_f64_ge: "of_nat n \<le> x \<Longrightarrow> n \<le> 2 ^ 53 \<Longrightarrow> 1 \<le> n \<Longrightarrow> of_nat n \<le> round_f64 x"
proof -
  assume a: "of_nat n \<le> x" "n \<le> 2 ^ 53" "1 \<le> n"
  have "(1 :: rat) \<le> of_nat n"
    using of_nat_mono [OF a(3), where ?'a = rat] by simp
  then have "1 \<le> x"
    using a(1) by linarith
  then show ?thesis
    using round53_ge [OF _ a(1,2)] by (simp add: round_f64_def)
qed

lemma unat_as_u64_ge: "int n \<le> i \<Longrightarrow> n < 2 ^ 64 \<Longrightarrow> n \<le> unat (as_u64 i)"
proof -
  assume "int n \<le> i" "n < 2 ^ 64"
  moreover have "unat (- 1 :: u64) = 2 ^ 64 - 1"
    by (simp add: unsigned_minus_1_eq_mask mask_eq_exp_minus_1)
  moreover have "unat (word_of_int i :: u64) = nat i" if "0 \<le> i" "i < 2 ^ 64"
    using that by (simp add: unsigned_of_int take_bit_int_eq_self)
  ultimately show ?thesis
    by (auto simp: as_u64_def)
qed

lemma scaled_ge:
  assumes n: "1 \<le> n" "n \<le> 2 ^ 53" and v: "1 \<le> v"
  shows "int n \<le> \<lceil>min (round_f64 (round_f64 (of_nat n) * v)) (round_f64 (of_nat (2 ^ 64 - 4)))\<rceil>"
proof -
  have b: "of_nat n \<le> round_f64 (of_nat n)"
    by (rule round_f64_ge) (use n in simp_all)
  then have "(0 :: rat) \<le> round_f64 (of_nat n)"
    using of_nat_0_le_iff order_trans by blast
  then have "(of_nat n :: rat) * 1 \<le> round_f64 (of_nat n) * v"
    by (intro mult_mono) (use b v in auto)
  then have "of_nat n \<le> round_f64 (round_f64 (of_nat n) * v)"
    by (intro round_f64_ge) (use n in simp_all)
  moreover have "of_nat n \<le> round_f64 (of_nat (2 ^ 64 - 4))"
    using n by (intro round_f64_ge of_nat_mono) simp_all
  ultimately have "of_int (int n) \<le> min (round_f64 (round_f64 (of_nat n) * v)) (round_f64 (of_nat (2 ^ 64 - 4)))"
    by simp
  then have "(of_int (int n) :: rat) \<le> of_int \<lceil>min (round_f64 (round_f64 (of_nat n) * v)) (round_f64 (of_nat (2 ^ 64 - 4)))\<rceil>"
    by (rule order_trans) (rule le_of_int_ceiling)
  then show ?thesis
    by (simp only: of_int_le_iff)
qed

lemma adjusted_fee_ge:
  assumes base: "1 \<le> unat base" "unat base \<le> 2 ^ 53"
  shows "unat base + 3 \<le> unat (adjusted_fee base m)"
proof -
  define v where "v = (case m of Finite r \<Rightarrow> max r 1 | NotFinite \<Rightarrow> 1)"
  define n where "n = unat base"
  have v: "1 \<le> v"
    by (simp add: v_def split: f64.splits)
  have top: "unat (- 1 - FEE_BUFFER_SOMPI) = 2 ^ 64 - 4"
    by (simp add: FEE_BUFFER_SOMPI_def)
  define scaled where "scaled = as_u64 \<lceil>min (round_f64 (round_f64 (of_nat n) * v)) (round_f64 (of_nat (2 ^ 64 - 4)))\<rceil>"
  have "n \<le> unat scaled"
    using scaled_ge [OF base v, folded n_def] base unfolding scaled_def by (intro unat_as_u64_ge) (simp_all add: n_def)
  moreover have "adjusted_fee base m = sat_add scaled FEE_BUFFER_SOMPI"
    unfolding adjusted_fee_def Let_def v_def [symmetric] top n_def [symmetric] scaled_def ..
  ultimately show ?thesis
    using base by (simp add: FEE_BUFFER_SOMPI_def n_def)
qed


text \<open>A whole multiplier does not round: the fee is the multiple of the mass and the buffer.\<close>

lemma round_even_of_int [simp]: "round_even (of_int i) = i"
  by (simp add: round_even_def)

lemma as_u64_of_nat: "n < 2 ^ 64 \<Longrightarrow> as_u64 (int n) = of_nat n"
  by (simp add: as_u64_def)

lemma unat_of_nat_u64: "n < 2 ^ 64 \<Longrightarrow> unat (of_nat n :: u64) = n"
  by (simp add: unat_of_nat)

lemma round53_of_nat: "1 \<le> n \<Longrightarrow> n < 2 ^ 53 \<Longrightarrow> round53 (of_nat n) = of_nat n"
proof -
  assume n: "1 \<le> n" "n < 2 ^ 53"
  define k where "k = floorlog 2 n - 1"
  have "2 ^ k \<le> n"
    using floorlog_bounds [of n 2] n by (simp add: k_def)
  then have "(2 :: nat) ^ k < 2 ^ 53"
    using n by linarith
  then have "k \<le> 52"
    by (simp only: power_strict_increasing_iff)
  then have e: "(2 :: rat) ^ (52 - k) * 2 ^ k = 2 ^ 52"
    by (simp only: power_add [symmetric] le_add_diff_inverse2)
  have u: "ulp (of_nat n) = 2 ^ k / 2 ^ 52"
    by (simp add: ulp_def k_def)
  have "of_nat n / ulp (of_nat n) = of_nat n * (2 ^ 52 / 2 ^ k)"
    unfolding u by simp
  also have "\<dots> = of_int (int n * 2 ^ (52 - k))"
    unfolding e [symmetric] by simp
  finally have "round_even (of_nat n / ulp (of_nat n)) = int n * 2 ^ (52 - k)"
    by (simp only: round_even_of_int)
  then have "round53 (of_nat n) = of_nat n * (2 ^ (52 - k) * 2 ^ k) / 2 ^ 52"
    by (simp add: round53_def u)
  then show ?thesis
    unfolding e by simp
qed

lemma round_f64_of_nat: "1 \<le> n \<Longrightarrow> n < 2 ^ 53 \<Longrightarrow> round_f64 (of_nat n) = of_nat n"
  by (simp add: round_f64_def round53_of_nat)

lemma adjusted_fee_whole:
  assumes "1 \<le> unat base" "1 \<le> k" "unat base * k < 2 ^ 53"
  shows "unat (adjusted_fee base (Finite (of_nat k))) = unat base * k + 3"
proof -
  obtain n where n_def: "n = unat base"
    by simp
  then have n: "1 \<le> n" "1 \<le> n * k" "n \<le> n * k" "n * k < 2 ^ 53" "n < 2 ^ 53"
    using assms le_less_trans [of n "n * k" "2 ^ 53"] by simp_all
  have "round_f64 (round_f64 (of_nat n) * of_nat k) = (of_nat (n * k) :: rat)"
    using round_f64_of_nat [of n] round_f64_of_nat [of "n * k"] n by simp
  moreover have "max (of_nat k) 1 = (of_nat k :: rat)"
    using assms(2) by simp
  moreover have "of_nat (n * k) \<le> round_f64 (of_nat (2 ^ 64 - 4))"
    using n by (intro round_f64_ge of_nat_mono) simp_all
  moreover have "unat (- 1 - FEE_BUFFER_SOMPI) = 2 ^ 64 - 4"
    by (simp add: FEE_BUFFER_SOMPI_def)
  ultimately have "adjusted_fee base (Finite (of_nat k)) = sat_add (as_u64 \<lceil>of_nat (n * k) :: rat\<rceil>) FEE_BUFFER_SOMPI"
    unfolding adjusted_fee_def Let_def f64.case n_def [symmetric] by (simp only: min.absorb1)
  also have "\<lceil>of_nat (n * k) :: rat\<rceil> = int (n * k)"
    by (rule ceiling_of_nat)
  also have "as_u64 (int (n * k)) = of_nat (n * k)"
    using n by (intro as_u64_of_nat) simp
  finally have "adjusted_fee base (Finite (of_nat k)) = sat_add (of_nat (n * k)) FEE_BUFFER_SOMPI" .
  moreover have "unat (of_nat (n * k) :: u64) = n * k"
    using n by (intro unat_of_nat_u64) simp
  ultimately show ?thesis
    using n by (simp add: FEE_BUFFER_SOMPI_def n_def [symmetric])
qed

section \<open>Amounts balance\<close>

definition total_in :: "selected_utxo list \<Rightarrow> nat" where
  "total_in us = sum_list (map (\<lambda>u. unat (su_amount u)) us)"

definition total_out :: "send_tx \<Rightarrow> nat" where
  "total_out tx = sum_list (map (\<lambda>(amount, _). unat amount) (sx_outputs tx))"

definition spends :: "selected_utxo list \<Rightarrow> send_tx \<Rightarrow> bool" where
  "spends us tx \<longleftrightarrow> sx_inputs tx = map (\<lambda>u. (su_tx_id u, su_index u)) us"

lemma spends_build [simp]: "spends us (build_estimation_transaction_with_outputs us outputs payload_bytes)"
    "sx_outputs (build_estimation_transaction_with_outputs us outputs payload_bytes) = outputs"
    "sx_payload (build_estimation_transaction_with_outputs us outputs payload_bytes) = payload_bytes"
  by (simp_all add: spends_def build_estimation_transaction_with_outputs_def)

text \<open>The selection ends at the first prefix for which there is an estimate.\<close>

lemma select_utxos_Ok:
  assumes "select_utxos estimate message selected total_input spendable = Ok e" "unat total_input = total_in selected"
  shows "\<exists>us rest v. spendable = us @ rest \<and> us \<noteq> [] \<and> estimate (selected @ us) v = Ok (Some e) \<and> unat v = total_in (selected @ us)"
  using assms
proof (induction spendable arbitrary: selected total_input)
  case (Cons u spendable)
  have fits: "unat total_input + unat (su_amount u) < 2 ^ 64"
    using Cons.prems(1) by (auto split: if_splits)
  then have sum: "unat (total_input + su_amount u) = total_in (selected @ [u])"
    using Cons.prems(2) by (simp add: unat_word_ariths total_in_def)
  obtain out where out: "estimate (selected @ [u]) (total_input + su_amount u) = Ok out"
    using Cons.prems(1) fits by auto
  show ?case
  proof (cases out)
    case None
    then obtain us rest v where "spendable = us @ rest" "estimate (selected @ [u] @ us) v = Ok (Some e)"
        "unat v = total_in (selected @ [u] @ us)"
      using Cons.IH [of "selected @ [u]" "total_input + su_amount u"] Cons.prems(1) fits out sum by auto
    then show ?thesis
      by (intro exI [of _ "u # us"] exI [of _ rest] exI [of _ v]) simp
  next
    case (Some e')
    then have "e' = e"
      using Cons.prems(1) fits out by simp
    then show ?thesis
      using Some out sum by (intro exI [of _ "[u]"] exI [of _ spendable]) auto
  qed
qed simp

text \<open>A fee that is found is the one its transaction requires, and the outputs are what is left.\<close>

definition fee_covers :: "estimated_transaction \<Rightarrow> bool" where
  "fee_covers e \<longleftrightarrow> (let base = max (ms_max (et_masses e)) MINIMUM_RELAY_FEE in
     unat base \<le> 2 ^ 53 \<longrightarrow> unat base + 3 \<le> unat (et_fee e))"

lemma fee_covers_adjusted:
  assumes "et_fee e = adjusted_fee (max (ms_max (et_masses e)) MINIMUM_RELAY_FEE) m"
  shows "fee_covers e"
proof -
  let ?base = "max (ms_max (et_masses e)) MINIMUM_RELAY_FEE"
  have "MINIMUM_RELAY_FEE \<le> ?base"
    by simp
  then have "1 \<le> unat ?base"
    unfolding word_le_nat_alt by (simp add: MINIMUM_RELAY_FEE_def)
  then show ?thesis
    using adjusted_fee_ge [of ?base m] assms by (simp add: fee_covers_def Let_def)
qed

lemma contextual_rounds_Ok:
  assumes "contextual_rounds n fee us total_input sender_spk payload_bytes calc m = Ok (Some e)"
  shows "spends us (et_tx e) \<and> sx_payload (et_tx e) = payload_bytes \<and> sx_outputs (et_tx e) = [(et_output_amount e, sender_spk)] \<and>
    total_out (et_tx e) + unat (et_fee e) = unat total_input \<and> fee_covers e"
  using assms
proof (induction n arbitrary: fee)
  case (Suc n)
  have less: "fee < total_input"
    using Suc.prems by (auto split: if_splits)
  define tx where "tx = build_estimation_transaction us sender_spk payload_bytes (total_input - fee)"
  obtain ms where ms: "calc tx us = Some ms"
    using Suc.prems less by (auto simp: tx_def Let_def split: if_splits option.splits)
  let ?req = "adjusted_fee (max (ms_max ms) MINIMUM_RELAY_FEE) m"
  show ?case
  proof (cases "?req = fee")
    case True
    then have e: "e = \<lparr>et_tx = tx, et_output_amount = total_input - fee, et_change_amount = 0, et_fee = fee,
        et_total_input_amount = total_input, et_masses = ms\<rparr>"
      using Suc.prems less ms by (simp add: tx_def [symmetric] Let_def split: if_splits)
    have "unat (total_input - fee) + unat fee = unat total_input"
      using less by (simp add: unat_sub word_le_nat_alt word_less_nat_alt)
    moreover have "fee_covers e"
      using True by (intro fee_covers_adjusted [of e m]) (simp add: e)
    ultimately show ?thesis
      by (simp add: e tx_def build_estimation_transaction_def total_out_def)
  next
    case False
    then show ?thesis
      using Suc.prems less ms by (intro Suc.IH) (simp add: tx_def [symmetric] Let_def split: if_splits)
  qed
qed simp

text \<open>A change that is not more than dust is left to the miner and not counted.\<close>

lemma response_rounds_Ok:
  assumes "response_rounds n fee us total_input sender_spk recipient_spk payload_bytes calc m = Ok (Some e)"
    and "unat (et_fee e) + 20000000 < 2 ^ 64"
  shows "spends us (et_tx e) \<and> sx_payload (et_tx e) = payload_bytes \<and> (\<exists>rest. sx_outputs (et_tx e) = (HANDSHAKE_AMOUNT_SOMPI, recipient_spk) # rest) \<and>
    total_out (et_tx e) + unat (et_fee e) \<le> unat total_input \<and>
    unat total_input \<le> total_out (et_tx e) + unat (et_fee e) + 10000 \<and> fee_covers e"
  using assms(1)
proof (induction n arbitrary: fee)
  case (Suc n)
  have less: "HANDSHAKE_AMOUNT_SOMPI + fee < total_input"
    using Suc.prems by (auto split: if_splits)
  define change where "change = total_input - HANDSHAKE_AMOUNT_SOMPI - fee"
  define tx where "tx = build_estimation_transaction_with_outputs us
    ((HANDSHAKE_AMOUNT_SOMPI, recipient_spk) # (if DUST_THRESHOLD_SOMPI < change then [(change, sender_spk)] else [])) payload_bytes"
  obtain ms where ms: "calc tx us = Some ms"
    using Suc.prems less by (auto simp: tx_def change_def Let_def split: if_splits option.splits)
  let ?req = "adjusted_fee (max (ms_max ms) MINIMUM_RELAY_FEE) m"
  have step: "(if ?req = fee then Ok (Some \<lparr>et_tx = tx, et_output_amount = HANDSHAKE_AMOUNT_SOMPI, et_change_amount = 0,
      et_fee = fee, et_total_input_amount = total_input, et_masses = ms\<rparr>)
    else response_rounds n ?req us total_input sender_spk recipient_spk payload_bytes calc m) = Ok (Some e)"
    using Suc.prems less ms unfolding response_rounds.simps tx_def change_def Let_def
    by (simp only: linorder_not_le [symmetric] if_False option.case simp_thms)
  show ?case
  proof (cases "?req = fee")
    case True
    then have e: "e = \<lparr>et_tx = tx, et_output_amount = HANDSHAKE_AMOUNT_SOMPI, et_change_amount = 0, et_fee = fee,
        et_total_input_amount = total_input, et_masses = ms\<rparr>"
      using step by simp
    have "unat change + 20000000 + unat fee = unat total_input"
      using less assms(2) unfolding change_def e HANDSHAKE_AMOUNT_SOMPI_def
      by (simp add: unat_sub_if' word_less_nat_alt unat_word_ariths split: if_splits)
    moreover have "fee_covers e"
      using True by (intro fee_covers_adjusted [of e m]) (simp add: e)
    ultimately show ?thesis
      by (auto simp: e tx_def total_out_def fee_constants word_less_nat_alt)
  next
    case False
    then show ?thesis
      using step by (intro Suc.IH) simp
  qed
qed simp

text \<open>The tool for handshakes counts such a change as a part of the fee.\<close>

lemma build_handshake_selection_Some:
  assumes "build_handshake_selection total_input fee sender_spk recipient_spk = Some s"
  shows "\<exists>rest. hse_outputs s = (HANDSHAKE_AMOUNT_SOMPI, recipient_spk) # rest"
    "sum_list (map (\<lambda>(amount, _). unat amount) (hse_outputs s)) + unat (hse_fee s) = unat total_input"
proof -
  have ok: "20000000 + unat fee < 2 ^ 64" "HANDSHAKE_AMOUNT_SOMPI + fee < total_input"
    using assms by (auto simp: build_handshake_selection_def Let_def HANDSHAKE_AMOUNT_SOMPI_def split: if_splits)
  then have "20000000 + unat fee < unat total_input"
    by (simp add: word_less_nat_alt unat_word_ariths HANDSHAKE_AMOUNT_SOMPI_def)
  then have "unat (total_input - (HANDSHAKE_AMOUNT_SOMPI + fee)) = unat total_input - (20000000 + unat fee)"
      "unat (total_input - HANDSHAKE_AMOUNT_SOMPI) = unat total_input - 20000000"
    using ok by (simp_all add: unat_sub_if' unat_word_ariths HANDSHAKE_AMOUNT_SOMPI_def)
  then show "\<exists>rest. hse_outputs s = (HANDSHAKE_AMOUNT_SOMPI, recipient_spk) # rest"
      "sum_list (map (\<lambda>(amount, _). unat amount) (hse_outputs s)) + unat (hse_fee s) = unat total_input"
    using assms ok \<open>20000000 + unat fee < unat total_input\<close>
    by (auto simp: build_handshake_selection_def Let_def fee_constants split: if_splits)
qed

lemma handshake_rounds_Ok:
  assumes "handshake_rounds n fee us total_input sender_spk recipient_spk payload_bytes calc = Ok (Some e)"
  shows "spends us (et_tx e) \<and> sx_payload (et_tx e) = payload_bytes \<and> (\<exists>rest. sx_outputs (et_tx e) = (HANDSHAKE_AMOUNT_SOMPI, recipient_spk) # rest) \<and>
    total_out (et_tx e) + unat (et_fee e) = unat total_input \<and> fee_covers e"
  using assms
proof (induction n arbitrary: fee)
  case (Suc n)
  obtain s where s: "build_handshake_selection total_input fee sender_spk recipient_spk = Some s"
    using Suc.prems by (auto split: option.splits)
  define tx where "tx = build_estimation_transaction_with_outputs us (hse_outputs s) payload_bytes"
  obtain ms where ms: "calc tx us = Some ms"
    using Suc.prems s by (auto simp: tx_def Let_def split: if_splits option.splits)
  let ?req = "max (ms_max ms) MINIMUM_RELAY_FEE + FEE_BUFFER_SOMPI"
  show ?case
  proof (cases "?req = hse_fee s")
    case True
    then have e: "e = \<lparr>et_tx = tx, et_output_amount = HANDSHAKE_AMOUNT_SOMPI, et_change_amount = hse_change_amount s,
        et_fee = hse_fee s, et_total_input_amount = hse_total_input_amount s, et_masses = ms\<rparr>"
      using Suc.prems s ms by (simp add: tx_def [symmetric] Let_def)
    moreover have "fee_covers e"
      using True [symmetric] by (simp add: e fee_covers_def Let_def unat_word_ariths FEE_BUFFER_SOMPI_def)
    ultimately show ?thesis
      using build_handshake_selection_Some [OF s] by (simp add: tx_def total_out_def)
  next
    case False
    then show ?thesis
      using Suc.prems s ms by (intro Suc.IH) (simp add: tx_def [symmetric] Let_def)
  qed
qed simp

text \<open>
  The inputs are a first part of the outputs that can be spent, without gaps, and what the
  transaction pays and its fee are what the inputs hold, up to the given slack.
\<close>

definition balanced :: "selected_utxo list \<Rightarrow> bytes \<Rightarrow> nat \<Rightarrow> estimated_transaction \<Rightarrow> bool" where
  "balanced spendable payload_bytes slack e \<longleftrightarrow>
     (\<exists>us rest. spendable = us @ rest \<and> spends us (et_tx e) \<and> sx_payload (et_tx e) = payload_bytes \<and>
        total_out (et_tx e) + unat (et_fee e) \<le> total_in us \<and>
        total_in us \<le> total_out (et_tx e) + unat (et_fee e) + slack \<and> fee_covers e)"

text \<open>
  The contract between the selection of outputs and an estimate: what the estimate returns for a
  selection and its amount balances. An estimate may need a bound on its fee.
\<close>

locale utxo_estimate =
  fixes estimate :: "selected_utxo list \<Rightarrow> u64 \<Rightarrow> estimated_transaction option res"
    and payload_bytes :: bytes and slack :: nat and fits :: "u64 \<Rightarrow> bool"
  assumes estimated: "estimate us v = Ok (Some e) \<Longrightarrow> fits (et_fee e) \<Longrightarrow>
    spends us (et_tx e) \<and> sx_payload (et_tx e) = payload_bytes \<and>
    total_out (et_tx e) + unat (et_fee e) \<le> unat v \<and> unat v \<le> total_out (et_tx e) + unat (et_fee e) + slack \<and> fee_covers e"
begin

lemma selection_balanced:
  assumes "select_utxos estimate message [] 0 spendable = Ok e" "fits (et_fee e)"
  shows "balanced spendable payload_bytes slack e"
proof -
  obtain us rest v where "spendable = us @ rest" "estimate us v = Ok (Some e)" "unat v = total_in us"
    using select_utxos_Ok [OF assms(1)] by (auto simp: total_in_def)
  then show ?thesis
    using estimated [of us v e] assms(2) unfolding balanced_def by (intro exI [of _ us] exI [of _ rest]) simp
qed

end

interpretation contextual: utxo_estimate "try_estimate_contextual_self_spend sender_spk payload_bytes calc m" payload_bytes 0 "\<lambda>_. True"
  for sender_spk payload_bytes calc m
  by unfold_locales (unfold try_estimate_contextual_self_spend_def, drule contextual_rounds_Ok, simp)

interpretation response: utxo_estimate "try_estimate_handshake_response sender_spk recipient_spk payload_bytes calc m" payload_bytes 10000
    "\<lambda>fee. unat fee + 20000000 < 2 ^ 64"
  for sender_spk recipient_spk payload_bytes calc m
  by unfold_locales (unfold try_estimate_handshake_response_def, drule (1) response_rounds_Ok, simp)

interpretation handshake: utxo_estimate "try_estimate_handshake_transaction sender_spk recipient_spk payload_bytes calc" payload_bytes 0 "\<lambda>_. True"
  for sender_spk recipient_spk payload_bytes calc
  by unfold_locales (unfold try_estimate_handshake_transaction_def, drule handshake_rounds_Ok, simp)

text \<open>
  C25. The transactions that the sending tools build balance: their inputs are the first of the
  outputs of the wallet that can be spent, the payload is the given one, and a message to oneself
  and a handshake pay exactly what the inputs hold less the fee, while the response to a handshake
  may give up to 10000 sompi more to the miner than the fee it reports (as long as the fee and the
  amount fit in 64 bits). For masses of at most \<^verbatim>\<open>2 ^ 53\<close> the fee is at least the mass (or the
  minimum) and the buffer, whatever multiplier is used, rounding of floating point numbers included.
\<close>

theorem sent_amounts_balance:
  "(estimate_contextual_self_spend spendable sender_spk payload_bytes calc m = Ok e \<longrightarrow>
      balanced spendable payload_bytes 0 e) \<and>
   (estimate_handshake_response spendable sender_spk recipient_spk payload_bytes calc m = Ok e \<longrightarrow>
      unat (et_fee e) + 20000000 < 2 ^ 64 \<longrightarrow> balanced spendable payload_bytes 10000 e) \<and>
   (estimate_handshake_transaction spendable sender_spk recipient_spk payload_bytes calc = Ok e \<longrightarrow>
      balanced spendable payload_bytes 0 e)"
  unfolding estimate_contextual_self_spend_def estimate_handshake_response_def estimate_handshake_transaction_def
  by (intro conjI impI; elim contextual.selection_balanced response.selection_balanced handshake.selection_balanced) simp_all

section \<open>Change below the dust threshold\<close>

definition required_fee :: "masses \<Rightarrow> u64" where
  "required_fee ms = max (ms_max ms) MINIMUM_RELAY_FEE + FEE_BUFFER_SOMPI"

lemma dust_change_rounds:
  assumes one: "calc (build_estimation_transaction_with_outputs us [(HANDSHAKE_AMOUNT_SOMPI, recipient_spk)] payload_bytes) us = Some ms"
    and two: "\<And>change. \<exists>ms'. calc (build_estimation_transaction_with_outputs us
        [(HANDSHAKE_AMOUNT_SOMPI, recipient_spk), (change, sender_spk)] payload_bytes) us = Some ms' \<and>
      required_fee ms \<le> required_fee ms' \<and> unat HANDSHAKE_AMOUNT_SOMPI + unat (required_fee ms') < unat v"
    and dust: "unat v \<le> unat HANDSHAKE_AMOUNT_SOMPI + unat (required_fee ms) + unat DUST_THRESHOLD_SOMPI"
    and min: "unat MINIMUM_RELAY_FEE < unat (required_fee ms)"
    and fee: "fee = MINIMUM_RELAY_FEE \<or> required_fee ms \<le> fee \<and> unat HANDSHAKE_AMOUNT_SOMPI + unat fee < unat v"
  shows "handshake_rounds n fee us v sender_spk recipient_spk payload_bytes calc = Err ''could not stabilize fee estimation for handshake''"
  using fee
proof (induction n arbitrary: fee)
  case (Suc n)
  have big: "unat HANDSHAKE_AMOUNT_SOMPI + unat (required_fee ms) < unat v"
    using two [of 0] by (force simp: word_le_nat_alt)
  have req: "unat HANDSHAKE_AMOUNT_SOMPI + unat fee < unat v"
    using Suc.prems big min by auto
  then have sums: "unat (HANDSHAKE_AMOUNT_SOMPI + fee) = unat HANDSHAKE_AMOUNT_SOMPI + unat fee"
    using unsigned_less [of v, where ?'a = nat] by (simp add: unat_word_ariths)
  then have change: "unat (v - (HANDSHAKE_AMOUNT_SOMPI + fee)) = unat v - (unat HANDSHAKE_AMOUNT_SOMPI + unat fee)"
      "unat (v - HANDSHAKE_AMOUNT_SOMPI) = unat v - unat HANDSHAKE_AMOUNT_SOMPI"
    using req by (simp_all add: unat_sub_if' )
  show ?case
  proof (cases "DUST_THRESHOLD_SOMPI < v - (HANDSHAKE_AMOUNT_SOMPI + fee)")
    case True
    then have "fee = MINIMUM_RELAY_FEE"
      using Suc.prems dust req change by (auto simp: word_less_nat_alt word_le_nat_alt)
    obtain ms' where ms': "calc (build_estimation_transaction_with_outputs us
        [(HANDSHAKE_AMOUNT_SOMPI, recipient_spk), (v - (HANDSHAKE_AMOUNT_SOMPI + fee), sender_spk)] payload_bytes) us = Some ms'"
      "required_fee ms \<le> required_fee ms'" "unat HANDSHAKE_AMOUNT_SOMPI + unat (required_fee ms') < unat v"
      using two by blast
    then have "required_fee ms' \<noteq> fee"
      using min \<open>fee = MINIMUM_RELAY_FEE\<close> by (auto simp: word_le_nat_alt)
    moreover have "build_handshake_selection v fee sender_spk recipient_spk =
        Some \<lparr>hse_total_input_amount = v, hse_fee = fee, hse_change_amount = v - (HANDSHAKE_AMOUNT_SOMPI + fee),
          hse_outputs = [(HANDSHAKE_AMOUNT_SOMPI, recipient_spk), (v - (HANDSHAKE_AMOUNT_SOMPI + fee), sender_spk)]\<rparr>"
      using True req sums unsigned_less [of v, where ?'a = nat] by (auto simp: build_handshake_selection_def Let_def word_le_nat_alt)
    ultimately show ?thesis
      using ms' Suc.IH [of "required_fee ms'"] by (simp add: Let_def required_fee_def)
  next
    case False
    have "required_fee ms \<noteq> v - HANDSHAKE_AMOUNT_SOMPI"
      using big change by auto
    moreover have "build_handshake_selection v fee sender_spk recipient_spk =
        Some \<lparr>hse_total_input_amount = v, hse_fee = v - HANDSHAKE_AMOUNT_SOMPI, hse_change_amount = 0,
          hse_outputs = [(HANDSHAKE_AMOUNT_SOMPI, recipient_spk)]\<rparr>"
      using False req sums unsigned_less [of v, where ?'a = nat] by (auto simp: build_handshake_selection_def Let_def word_le_nat_alt)
    ultimately show ?thesis
      using one big Suc.IH [of "required_fee ms"] by (simp add: Let_def required_fee_def)
  qed
qed simp


text \<open>The masses grow with the number of outputs and the length of the payload.\<close>

definition example_masses :: mass_calculator where
  "example_masses tx us =
     (let n = of_nat (1000 + 500 * length (sx_outputs tx) + 4 * length (sx_payload tx))
      in Some \<lparr>ms_compute_mass = n, ms_transient_mass = n, ms_storage_mass = 0, ms_max = n\<rparr>)"

definition example_utxo :: "u32 \<Rightarrow> u64 \<Rightarrow> selected_utxo" where
  "example_utxo i amount = \<lparr>su_tx_id = of_list [], su_index = i, su_amount = amount\<rparr>"


abbreviation example_spk :: script_public_key where
  "example_spk \<equiv> \<lparr>spk_version = 0, spk_script = []\<rparr>"

lemma example_adjusted_fee: "adjusted_fee 1508 (Finite 2) = 3019" "adjusted_fee 2008 (Finite 2) = 4019"
  using adjusted_fee_whole [of 1508 2] adjusted_fee_whole [of 2008 2] by (simp_all add: word_unat_eq_iff)

lemmas example_send_simps = example_masses_def example_adjusted_fee example_utxo_def fee_constants Let_def
  build_estimation_transaction_def build_estimation_transaction_with_outputs_def build_handshake_selection_def
  estimate_contextual_self_spend_def try_estimate_contextual_self_spend_def
  estimate_handshake_response_def try_estimate_handshake_response_def
  estimate_handshake_transaction_def try_estimate_handshake_transaction_def

lemma map_sum_Ok: "map_sum id f r = Ok y \<Longrightarrow> (\<And>x. r = Ok x \<Longrightarrow> f x = y \<Longrightarrow> thesis) \<Longrightarrow> thesis"
  by (cases r) auto

lemma six_rounds: "(6 :: nat) = Suc (Suc 4)"
  by simp

lemma example_fees:
  "map_sum id et_fee (estimate_contextual_self_spend [example_utxo 0 3000, example_utxo 1 2000] example_spk [1, 2]
     example_masses (Finite 2)) = Ok 3019"
  "map_sum id et_fee (estimate_handshake_response [example_utxo 0 30000000] example_spk example_spk [1, 2]
     example_masses (Finite 2)) = Ok 4019"
  "map_sum id et_fee (estimate_handshake_transaction [example_utxo 0 30000000] example_spk example_spk [1, 2] example_masses) = Ok 2011"
  unfolding six_rounds example_send_simps
  by (simp_all add: example_send_simps del: Suc_numeral)

text \<open>One output of 3000 sompi does not cover the fee of 3019 sompi, two do.\<close>

theorem sent_amounts_balance_witness:
  "\<exists>e e' e''.
     estimate_contextual_self_spend [example_utxo 0 3000, example_utxo 1 2000] example_spk [1, 2] example_masses (Finite 2) = Ok e \<and>
     estimate_handshake_response [example_utxo 0 30000000] example_spk example_spk [1, 2] example_masses (Finite 2) = Ok e' \<and>
     estimate_handshake_transaction [example_utxo 0 30000000] example_spk example_spk [1, 2] example_masses = Ok e'' \<and>
     et_fee e = 3019 \<and> et_fee e' = 4019 \<and> et_fee e'' = 2011 \<and>
     balanced [example_utxo 0 3000, example_utxo 1 2000] [1, 2] 0 e \<and>
     balanced [example_utxo 0 30000000] [1, 2] 10000 e' \<and> balanced [example_utxo 0 30000000] [1, 2] 0 e''"
proof -
  obtain e where e: "estimate_contextual_self_spend [example_utxo 0 3000, example_utxo 1 2000] example_spk [1, 2]
      example_masses (Finite 2) = Ok e" "et_fee e = 3019"
    using example_fees(1) by (rule map_sum_Ok)
  obtain e' where e': "estimate_handshake_response [example_utxo 0 30000000] example_spk example_spk [1, 2]
      example_masses (Finite 2) = Ok e'" "et_fee e' = 4019"
    using example_fees(2) by (rule map_sum_Ok)
  obtain e'' where e'': "estimate_handshake_transaction [example_utxo 0 30000000] example_spk example_spk [1, 2]
      example_masses = Ok e''" "et_fee e'' = 2011"
    using example_fees(3) by (rule map_sum_Ok)
  show ?thesis
    using e e' e'' sent_amounts_balance [of "[example_utxo 0 3000, example_utxo 1 2000]" example_spk "[1, 2]" example_masses "Finite 2" e]
      sent_amounts_balance [of "[example_utxo 0 30000000]" example_spk "[1, 2]" example_masses "Finite 2" e' example_spk]
      sent_amounts_balance [of "[example_utxo 0 30000000]" example_spk "[1, 2]" example_masses "Finite 2" e'' example_spk]
    by (intro exI [of _ e] exI [of _ e'] exI [of _ e'']) simp
qed

end
