(* ===== verification/Tool_Runs.thy ===== *)
theory Tool_Runs
  imports Tool_Messages Board_Examples
begin

text \<open>Crates for the command line tools, and runs of the tools with them.\<close>

section \<open>An instance\<close>

text \<open>Toy crates with the properties of the real ones: the sign of a point is the parity of its key.\<close>

definition sign_of :: "bytes \<Rightarrow> byte" where
  "sign_of key = (if odd (unat (List.last key)) then 3 else 2)"

definition example_tool_lib :: tool_lib where
  "example_tool_lib =
     \<lparr>tl_sha256 = (\<lambda>_. of_list [1]), tl_hmac_sha256 = (\<lambda>_ _. of_list []),
      tl_hmac_sha512 = (\<lambda>_ _. of_list (replicate 31 0 @ [1])), tl_pbkdf2_sha512 = (\<lambda>_ _ _. of_list []), tl_nfkd = (\<lambda>s. s),
      tl_hex_decode = (\<lambda>bs. Some (unhex (map unat bs))), tl_base64 = (\<lambda>_. []),
      tl_secret_key = (\<lambda>k. 0 < of_be_nat (list_of k) \<and> of_be_nat (list_of k) < curve_order),
      tl_public_key = (\<lambda>k. of_list (sign_of (list_of k) # list_of k)),
      tl_parse_public_key = (\<lambda>bs. if length bs = 33 \<and> (hd bs = 2 \<or> hd bs = 3) then Some (of_list bs) else None),
      tl_shared_secret_point = (\<lambda>P k. of_list (map2 (+) (drop 1 (list_of P)) (list_of k) @
        replicate 32 (if hd (list_of P) = sign_of (drop 1 (list_of P)) then 0 else 255))),
      tl_seal = (\<lambda>_ _ m. Some (m @ replicate 16 0)), tl_open = (\<lambda>_ _ c. Some (take (length c - 16) c)),
      tl_address_payload = (\<lambda>s. Some (map word_of_nat s)), tl_address_text = (\<lambda>_ x. map unat (list_of x))\<rparr>"

lemma map2_add_commute: "map2 (+) xs ys = map2 (+) ys (xs :: bytes)"
  by (induction xs ys rule: list_induct2') (simp_all add: add.commute)

lemma example_crates: "crates_ok example_tool_lib"
proof -
  have "take (length m + 16 - 16) (m @ replicate 16 0) = m" for m :: bytes
    by simp
  then show ?thesis
    unfolding crates_ok_def by (auto simp: example_tool_lib_def hex_text sign_of_def map2_add_commute)
qed


definition key_one :: hash where "key_one = of_list [1]"
definition key_two :: hash where "key_two = of_list [2]"
definition key_odd :: hash where "key_odd = of_list (replicate 31 0 @ [1])"

definition tool_address :: "hash \<Rightarrow> rstr" where
  "tool_address k = map unat (list_of k)"

lemmas tool_keys = key_one_def key_two_def key_odd_def

lemma example_tool_simps [simp]:
  "tl_secret_key example_tool_lib k \<longleftrightarrow> 0 < of_be_nat (list_of k) \<and> of_be_nat (list_of k) < curve_order"
  "list_of (tl_public_key example_tool_lib k) = sign_of (list_of k) # list_of k"
  "tl_address_payload example_tool_lib s = Some (map word_of_nat s)"
  "tl_sha256 example_tool_lib bs = key_one"
  by (simp_all add: example_tool_lib_def key_one_def)

lemma zeros_value: "foldl (\<lambda>a b. a * 256 + unat b) v (replicate n (0 :: byte)) = v * 256 ^ n"
  by (induction n arbitrary: v) simp_all

lemma example_key_values: "of_be_nat (list_of key_one) = 256 ^ 31" "of_be_nat (list_of key_two) = 2 * 256 ^ 31"
  "of_be_nat (list_of key_odd) = 1"
  by (simp_all add: tool_keys of_be_nat_def zeros_value)

lemma example_signs: "sign_of (list_of key_one) = 2" "sign_of (list_of key_two) = 2" "sign_of (list_of key_odd) = 3"
  by (simp_all add: tool_keys sign_of_def)

lemma example_wallets:
  "even_key example_tool_lib key_one" "even_key example_tool_lib key_two" "address_of_key example_tool_lib k (tool_address k)"
  by (simp_all add: even_key_def example_signs example_key_values curve_order_def address_of_key_def list_of_xonly tool_address_def
      comp_def)

lemma example_ephemeral: "tl_secret_key example_tool_lib (derive_ephemeral_secret example_tool_lib key address m)"
  by (simp add: derive_ephemeral_secret_def example_key_values curve_order_def) (simp add: key_one_def)

theorem tool_message_arrives_witness:
  "\<exists>out. run_command example_tool_lib (Encrypt (hex (list_of key_one)) (tool_address key_two) (str ''hi'')) = Ok (EncryptOutput out) \<and>
     run_command example_tool_lib (DeriveMyAlias (hex (list_of key_two)) (tool_address key_one)) = Ok (AliasOutput (eo_their_alias out)) \<and>
     run_command example_tool_lib (Decrypt (hex (list_of key_two)) (eo_encrypted_hex out)) = Ok (DecryptOutput (str ''hi''))"
proof -
  have "valid_text (str ''hi'')" "length (utf8 (str ''hi'')) < 2 ^ 37"
    by (simp_all add: valid_text_def str_def utf8_def utf8_char_def)
  then show ?thesis
    using tool_message_arrives [OF example_crates example_wallets(1,3,2,3), of "str ''hi''"] example_ephemeral by blast
qed



lemma example_ckd:
  assumes "k + 1 < curve_order"
  shows "ckd_priv example_tool_lib (k, c) i = Some (k + 1, of_list [])"
proof -
  define I :: "64 arr" where "I = of_list (replicate 31 0 @ [1])"
  have I: "tl_hmac_sha512 example_tool_lib key data = I" for key data
    by (simp add: example_tool_lib_def I_def)
  have "take 32 (list_of I) = list_of key_odd" "drop 32 (list_of I) = replicate 32 0"
    by (simp_all add: I_def key_odd_def)
  moreover have "(of_list (replicate 32 0) :: hash) = of_list []"
    by (simp flip: list_of_eq_iff)
  ultimately show ?thesis
    using assms by (simp add: ckd_priv_def Let_def I example_key_values)
qed

lemma example_master: "key_number (derive_master_key example_tool_lib seed) = (1, of_list [])"
proof -
  define I :: "64 arr" where "I = of_list (replicate 31 0 @ [1])"
  have I: "tl_hmac_sha512 example_tool_lib key data = I" for key data
    by (simp add: example_tool_lib_def I_def)
  have "split_key I = (key_odd, of_list [])"
    by (simp add: split_key_def I_def key_odd_def flip: list_of_eq_iff)
  then show ?thesis
    by (simp add: derive_master_key_def key_number_def I example_key_values)
qed

theorem derive_leaf_is_bip32_witness:
  "\<exists>leaf. derive_leaf example_tool_lib [] 0 0 = Ok leaf \<and> key_number leaf = (6, of_list [])"
proof -
  have "secret_keys_ok example_tool_lib"
    by (simp add: secret_keys_ok_def)
  moreover have "ckd_path example_tool_lib (1, of_list []) [i1, i2, i3, i4, i5] = Some (6, of_list [])" for i1 i2 i3 i4 i5
    by (simp add: example_ckd curve_order_def)
  ultimately show ?thesis
    using derive_leaf_is_bip32 [of example_tool_lib "[]" 0 0 "(6, of_list [])"]
    by (auto simp: example_master valid_number_def curve_order_def)
qed

lemma example_leaf: "\<exists>leaf. derive_leaf example_tool_lib mnemonic 0 0 = Ok leaf \<and> tl_secret_key example_tool_lib (dk_key leaf)"
proof -
  let ?d = "derive_master_key example_tool_lib (list_of (mnemonic_to_seed example_tool_lib mnemonic []))"
  have L: "secret_keys_ok example_tool_lib"
    by (simp add: secret_keys_ok_def)
  have master: "valid_number (key_number ?d)"
    by (simp add: example_master valid_number_def curve_order_def)
  have path: "ckd_path example_tool_lib (key_number ?d) [44 OR HARDENED_OFFSET, 111111 OR HARDENED_OFFSET, 0 OR HARDENED_OFFSET, 0, 0] =
      Some (6, of_list [])"
    by (simp add: example_master example_ckd curve_order_def)
  show ?thesis
    unfolding derive_leaf_path using derive_path_ckd [OF L master path] secret_key_number [OF L] by blast
qed

end
