(* ===== verification/Tool_Sent.thy ===== *)
theory Tool_Sent
  imports Tool_Submit Tool_Funds Tool_Runs
begin

text \<open>
  What the sending tools submit to the node: a transaction over the largest outputs of the wallet,
  whose payload the indexer recognises.
\<close>

section \<open>Submitted transactions\<close>

lemma io_bind_Ok: "io_bind f g w = (Ok y, w') \<longleftrightarrow> (\<exists>x w1. f w = (Ok x, w1) \<and> g x w1 = (Ok y, w'))"
  by (auto simp: io_bind_def split: prod.splits sum.splits)

lemma io_pure_Ok [simp]: "io_pure r w = (Ok y, w') \<longleftrightarrow> r = Ok y \<and> w' = w"
  by (auto simp: io_pure_def)

text \<open>Signing fills in the signatures and leaves what the model has of a transaction as it is.\<close>

definition signing_ok :: "('w, 'y) tool_node_scheme \<Rightarrow> bool" where
  "signing_ok N \<longleftrightarrow> (\<forall>tx us key signed_tx. tn_sign N tx us key = Some signed_tx \<longrightarrow> signed_tx = tx)"

lemma signing_okD: "signing_ok N \<Longrightarrow> tn_sign N tx us key = Some signed_tx \<Longrightarrow> signed_tx = tx"
  unfolding signing_ok_def by blast

lemma sign_and_submit_Ok:
  assumes "sign_and_submit N key sender estimate w = (Ok (e, tx_id), w')" "signing_ok N"
  shows "\<exists>utxos w1. fetch_utxos_with_retry N sender w = (Ok utxos, w1) \<and> estimate (spendable_utxos utxos) = Ok e \<and>
    tn_submit N (et_tx e) w1 = (Ok tx_id, w')"
proof -
  obtain utxos w1 where f: "fetch_utxos_with_retry N sender w = (Ok utxos, w1)" "estimate (spendable_utxos utxos) = Ok e"
      and s: "(case tn_sign N (et_tx e) (take (length (sx_inputs (et_tx e))) (spendable_utxos utxos)) key of
         None \<Rightarrow> io_pure (Err ''sign transaction'')
       | Some signed_tx \<Rightarrow> io_bind (tn_submit N signed_tx) (\<lambda>tx_id. io_pure (Ok (e, tx_id)))) w1 = (Ok (e, tx_id), w')"
    using assms(1) by (auto simp: sign_and_submit_def io_bind_Ok Let_def split: if_splits option.splits)
  then have "tn_submit N (et_tx e) w1 = (Ok tx_id, w')"
    using signing_okD [OF assms(2)] by (auto simp: io_bind_Ok split: option.splits)
  with f show ?thesis
    by blast
qed

lemma spendable_utxos_sorted:
  "sorted_wrt (\<lambda>u v. su_amount v \<le> su_amount u) (spendable_utxos utxos)"
proof -
  have "sorted_wrt (\<lambda>u v. (2 ^ 64 - unat (su_amount u), unat (su_index u)) \<le> (2 ^ 64 - unat (su_amount v), unat (su_index v)))
      (spendable_utxos utxos)"
    using sorted_sort_key [of "\<lambda>u. (2 ^ 64 - unat (su_amount u), unat (su_index u))" "filter (\<lambda>u. 0 < su_amount u) utxos"]
    by (simp only: spendable_utxos_def sorted_map)
  then show ?thesis
  proof (rule sorted_wrt_mono_rel [rotated])
    fix u v :: selected_utxo
    assume "(2 ^ 64 - unat (su_amount u), unat (su_index u)) \<le> (2 ^ 64 - unat (su_amount v), unat (su_index v))"
    then have "2 ^ 64 - unat (su_amount u) \<le> 2 ^ 64 - unat (su_amount v)"
      by (auto simp: less_eq_prod_def)
    then show "su_amount v \<le> su_amount u"
      using unsigned_less [of "su_amount v", where ?'a = nat] by (simp add: word_le_nat_alt)
  qed
qed

section \<open>Handshakes\<close>

lemma handshake_payload_parsed:
  "parse_sealed_operation (ascii ''ciph_msg:1:handshake:'' @ sealed) = Some (SealedHandshakeV2 \<lparr>hk2_sealed_hex = sealed\<rparr>)"
proof -
  have "ascii ''ciph_msg:1:handshake:'' = PROTOCOL_PREFIX @ VERSION_1_PART @ ascii ''handshake:''"
    by (simp add: PROTOCOL_PREFIX_def VERSION_1_PART_def ascii_def)
  then show ?thesis
    by (simp only: append_assoc parse_versioned parse_v1_simps)
qed

lemma build_handshake_payload_Ok:
  assumes L: "crates_ok L" and b: "even_key L b" "address_of_key L b recipient"
    and m: "valid_text m" "length (utf8 m) < 2 ^ 37"
    and e: "tl_secret_key L (derive_ephemeral_secret L (hex (list_of key)) recipient m)"
    and "m = to_json (handshake_json own_alias now conversation recipient response)"
  shows "\<exists>sealed. build_handshake_payload L to_json now key recipient own_alias conversation response =
      Ok (ascii ''ciph_msg:1:handshake:'' @ sealed) \<and> decrypt_encrypted_hex L (hex (list_of b)) (hex sealed) = Ok m"
proof -
  obtain c where c: "encrypt_for_recipient L (hex (list_of key)) recipient m = Ok c"
      "decrypt_encrypted_hex L (hex (list_of b)) (hex c) = Ok m"
    using decrypt_encrypted [OF L b m e] by blast
  then have "c \<noteq> []"
    by (auto simp: decrypt_encrypted_hex_def hex_decoded(1) [OF L] decode_hex_dynamic_def hex_def trim_def trim_start_def trim_end_def)
  then show ?thesis
    using c assms(7) hex_decoded(2) [OF L] by (auto simp: build_handshake_payload_def Let_def)
qed


text \<open>A node with one output for every wallet, on which the example wallets exchange a handshake.\<close>

definition constant_masses :: mass_calculator where
  "constant_masses tx us = Some \<lparr>ms_compute_mass = 2000, ms_transient_mass = 2000, ms_storage_mass = 0, ms_max = 2000\<rparr>"

definition example_tool_node :: "unit tool_node" where
  "example_tool_node =
     \<lparr>tn_new = (\<lambda>_ w. (Ok (), w)), tn_connect = (\<lambda>w. (Ok (), w)), tn_is_connected = (\<lambda>w. (True, w)),
      tn_get_info = (\<lambda>w. (Err ''no info'', w)), tn_get_utxos = (\<lambda>_ w. (Inr [example_utxo 0 0, example_utxo 1 30000000], w)),
      tn_submit = (\<lambda>_ w. (Ok (str ''accepted''), w)), tn_disconnect = (\<lambda>w. (Ok (), w)), tn_script = (\<lambda>_. Some example_spk),
      tn_normal = Some, tn_masses = (\<lambda>_. constant_masses), tn_sign = (\<lambda>tx _ _. Some tx), tn_json = (\<lambda>_. str ''hello'')\<rparr>"

lemma example_node_simps [simp]:
  "tn_json example_tool_node v = str ''hello''" "tn_masses example_tool_node network = constant_masses"
  "tn_script example_tool_node address = Some example_spk" "tn_sign example_tool_node tx us key = Some tx"
  "tn_submit example_tool_node tx w = (Ok (str ''accepted''), w)"
  by (simp_all add: example_tool_node_def)

lemma example_spendable: "spendable_utxos [example_utxo 0 0, example_utxo 1 30000000] = [example_utxo 1 30000000]"
  by (simp add: spendable_utxos_def example_utxo_def)

lemma example_fetched: "fetch_utxos_with_retry example_tool_node sender w = (Ok [example_utxo 0 0, example_utxo 1 30000000], w)"
  by (simp add: fetch_utxos_with_retry_def numeral_eq_Suc example_tool_node_def)

lemma constant_estimate:
  "map_sum id et_fee (estimate_handshake_transaction [example_utxo 1 30000000] example_spk example_spk payload_bytes constant_masses) =
    Ok 2003"
  unfolding six_rounds example_send_simps constant_masses_def
  by (simp add: example_send_simps del: Suc_numeral)

lemma example_handshake_sent:
  assumes "build_handshake_payload L (\<lambda>_. str ''hello'') now key recipient own_alias conversation response = Ok payload_bytes"
  shows "\<exists>out. send_handshake L example_tool_node now key sender recipient own_alias conversation response network w = (Ok out, w)"
proof -
  obtain e where "estimate_handshake_transaction [example_utxo 1 30000000] example_spk example_spk payload_bytes constant_masses = Ok e"
    using constant_estimate [of payload_bytes] by (rule map_sum_Ok)
  moreover have "tn_json example_tool_node = (\<lambda>_. str ''hello'')"
    by (simp add: fun_eq_iff)
  ultimately show ?thesis
    using assms by (simp add: send_handshake_def sign_and_submit_def io_bind_def io_pure_def script_of_def example_fetched
        example_spendable Let_def)
qed


end
