(* ===== verification/Tool_Posts.thy ===== *)
theory Tool_Posts
  imports Tool_Import Tool_Sent
begin

text \<open>
  What the tools that post promise: the board accepts an imported item, an item is imported once, and
  the replies of the smoke test are never accepted.
\<close>

section \<open>Accepted requests\<close>

text \<open>
  What the crates promise to both sides: hexadecimal text is decoded to its bytes, the text of an
  address is parsed to the script that pays to its key, and a Schnorr signature is verified with the
  key that made it.
\<close>

definition pays_to_key :: "('addr, 'time, 'y) board_lib_scheme \<Rightarrow> rstr \<Rightarrow> hash \<Rightarrow> bool" where
  "pays_to_key B address key \<longleftrightarrow>
     (\<exists>a. bl_rpc_address B address = Some a \<and> from_script B (pay_to_address_script B a) = PubKeyScript \<and>
        spk_version (pay_to_address_script B a) \<le> class_version B PubKeyScript \<and>
        spk_script (pay_to_address_script B a) = 0x20 # list_of key @ [0xAC])"

definition post_crates_ok ::
    "('x) tool_lib_scheme \<Rightarrow> ('addr, 'time, 'y) board_lib_scheme \<Rightarrow> schnorr_sign \<Rightarrow> bool" where
  "post_crates_ok L B sign \<longleftrightarrow>
     (\<forall>bs. tl_hex_decode L (utf8 (hex bs)) = Some bs \<and> bl_hex_decode B (utf8 (hex bs)) = Some bs) \<and>
     (\<forall>network key. trim (tl_address_text L network key) = tl_address_text L network key \<and> tl_address_text L network key \<noteq> []) \<and>
     (\<forall>network key. tl_secret_key L key \<longrightarrow> pays_to_key B (tl_address_text L network (xonly (tl_public_key L key))) (xonly (tl_public_key L key))) \<and>
     (\<forall>key. tl_secret_key L key \<longrightarrow> bl_xonly_public_key B (list_of (xonly (tl_public_key L key)))) \<and>
     (\<forall>key message. tl_secret_key L key \<longrightarrow> (\<exists>signature. sign key message = Some signature \<and> bl_schnorr_signature B (list_of signature) \<and>
        bl_schnorrsig_verify B (list_of signature) message (list_of (xonly (tl_public_key L key)))))"

lemma post_crates_okD:
  assumes "post_crates_ok L B sign"
  shows "tl_hex_decode L (utf8 (hex bs)) = Some bs" "bl_hex_decode B (utf8 (hex bs)) = Some bs"
    "trim (tl_address_text L network k) = tl_address_text L network k" "tl_address_text L network k \<noteq> []"
    "tl_secret_key L key \<Longrightarrow> pays_to_key B (tl_address_text L network (xonly (tl_public_key L key))) (xonly (tl_public_key L key))"
    "tl_secret_key L key \<Longrightarrow> bl_xonly_public_key B (list_of (xonly (tl_public_key L key)))"
    "tl_secret_key L key \<Longrightarrow> \<exists>signature. sign key message = Some signature \<and> bl_schnorr_signature B (list_of signature) \<and>
      bl_schnorrsig_verify B (list_of signature) message (list_of (xonly (tl_public_key L key)))"
  using assms unfolding post_crates_ok_def by blast+

lemma actor_payload_of_key:
  assumes "pays_to_key B address key"
  shows "actor_payload B field address = Inr \<lparr>inverse_version = 255 - version_as_u8 B PubKey, payload = of_list (list_of key)\<rparr>"
proof -
  obtain a where a: "bl_rpc_address B address = Some a" "from_script B (pay_to_address_script B a) = PubKeyScript"
      "spk_version (pay_to_address_script B a) \<le> class_version B PubKeyScript"
      "spk_script (pay_to_address_script B a) = 0x20 # list_of key @ [0xAC]"
    using assms by (auto simp: pays_to_key_def)
  then show ?thesis
    by (simp add: actor_payload_def address_payload_from_address_def address_payload_from_script_def slice_def board_of_def Let_def)
qed

lemma trim_not_Nil: "c \<in> set s \<Longrightarrow> \<not> is_whitespace c \<Longrightarrow> trim s \<noteq> []"
proof
  assume c: "c \<in> set s" "\<not> is_whitespace c" and "trim s = []"
  then have "\<forall>d \<in> set (dropWhile is_whitespace s). is_whitespace d"
    by (simp add: trim_def trim_end_def trim_start_def)
  moreover have "c \<in> set (dropWhile is_whitespace s)"
    using c set_takeWhileD [of c is_whitespace s] by (metis Un_iff set_append takeWhile_dropWhile_id)
  ultimately show False
    using c by blast
qed

lemma hex_not_Nil: "bs \<noteq> [] \<Longrightarrow> trim (hex bs) \<noteq> []"
  by (metis length_hex length_0_conv mult_is_0 zero_neq_numeral hex_trimmed(1))

lemma join_text_set: "t \<in> set ts \<Longrightarrow> set t \<subseteq> set (join_text sep ts)"
  by (induction sep ts rule: join_text.induct) auto

lemma build_import_content_not_blank: "trim (build_import_content item) \<noteq> []"
proof -
  have content: "\<exists>sections attribution. build_import_content item =
      join_text [10, 10] (sections @ [join_text [10] ((str ''Imported from '' @ import_source_label item) # attribution)])"
    unfolding build_import_content_def Let_def append_Cons by (intro exI) (rule refl)
  then obtain sections attribution where c: "build_import_content item =
      join_text [10, 10] (sections @ [join_text [10] ((str ''Imported from '' @ import_source_label item) # attribution)])"
    by blast
  have "73 \<in> set (str ''Imported from '')"
    by (simp add: str_def)
  then have "73 \<in> set (join_text [10] ((str ''Imported from '' @ import_source_label item) # attribution))"
    using join_text_set [of "str ''Imported from '' @ import_source_label item"
        "(str ''Imported from '' @ import_source_label item) # attribution"] by auto
  then have "73 \<in> set (build_import_content item)"
    unfolding c using join_text_set [of _ "sections @ [join_text [10] ((str ''Imported from '' @ import_source_label item) # attribution)]"]
    by auto
  then show ?thesis
    by (rule trim_not_Nil) (simp add: is_whitespace_def)
qed

lemma mnemonic_identity:
  assumes L: "post_crates_ok L B sign" and id: "derive_identity_from_mnemonic L mnemonic None network = Ok identity"
  shows "\<exists>key rpc_network. tl_secret_key L key \<and> di_private_key_hex identity = hex (list_of key) \<and>
    di_author_address identity = tl_address_text L rpc_network (xonly (tl_public_key L key))"
proof -
  obtain leaf where leaf: "derive_leaf L mnemonic 0 0 = Ok leaf"
    using id by (auto simp: derive_identity_from_mnemonic_def)
  moreover obtain rpc_network where "parse_network network = Ok rpc_network" "tl_secret_key L (dk_key leaf)"
    using id leaf post_crates_okD(1) [OF L]
    by (auto simp: derive_identity_from_mnemonic_def kaspa_address_from_private_key_def tool_decode_fixed_hex_def Let_def split: if_splits)
  ultimately show ?thesis
    using id post_crates_okD(1) [OF L]
    by (intro exI [of _ "dk_key leaf"] exI [of _ rpc_network])
      (auto simp: derive_identity_from_mnemonic_def kaspa_address_from_private_key_def tool_decode_fixed_hex_def Let_def)
qed

lemma signed_request_verified:
  assumes L: "post_crates_ok L B sign" and V: "kaspa_versions_ok B" and key: "tl_secret_key L key"
  shows "\<exists>signature. signed_request L B sign (hex (list_of key)) r = Ok (r\<lparr>bcp_signature := signature\<rparr>) \<and> trim signature \<noteq> [] \<and>
    verify_board_signature B (tl_address_text L network (xonly (tl_public_key L key))) (canonical_json_bytes B (post_signable r)) signature = Inr ()"
proof -
  let ?m = "canonical_json_bytes B (post_signable r)" and ?x = "xonly (tl_public_key L key)"
  let ?address = "tl_address_text L network ?x"
  obtain signature where s: "sign key ?m = Some signature" "bl_schnorr_signature B (list_of signature)"
      "bl_schnorrsig_verify B (list_of signature) ?m (list_of ?x)"
    using post_crates_okD(7) [OF L key] by blast
  have "signed_request L B sign (hex (list_of key)) r = Ok (r\<lparr>bcp_signature := hex (list_of signature)\<rparr>)"
    using s(1) key post_crates_okD(1) [OF L] by (simp add: signed_request_def sign_raw_message_def tool_decode_fixed_hex_def)
  moreover have "actor_payload B ?address ?address = Inr \<lparr>inverse_version = 255 - version_as_u8 B PubKey, payload = of_list (list_of ?x)\<rparr>"
    by (rule actor_payload_of_key) (rule post_crates_okD(5) [OF L key])
  then have "verify_board_signature B ?address ?m (hex (list_of signature)) = Inr ()"
    using s V post_crates_okD(2,3) [OF L] post_crates_okD(6) [OF L key]
    by (simp add: verify_board_signature_def kaspa_versions_ok_def decode_fixed_hex_def Let_def)
  moreover have "trim (hex (list_of signature)) \<noteq> []"
    by (intro hex_not_Nil) simp
  ultimately show ?thesis
    by (intro exI [of _ "hex (list_of signature)"] conjI)
qed


section \<open>Imports\<close>

text \<open>What is written to the file of the imports is read from it.\<close>

definition state_file_ok :: "('w, 'z) tool_world_scheme \<Rightarrow> bool" where
  "state_file_ok W \<longleftrightarrow> (\<forall>path s w w'. tw_write_state W path s w = (Ok (), w') \<longrightarrow>
     tw_exists W path w' \<and> tw_read_state W path w' = Ok s)"

lemma state_file_okD: "state_file_ok W \<Longrightarrow> tw_write_state W path s w = (Ok (), w') \<Longrightarrow> load_state W (Some path) w' = Ok s"
  unfolding state_file_ok_def load_state_def by (simp; blast)

lemma import_main_Posted:
  assumes "import_main L B sign W config w = (Ok (Posted r), w')" "pc_state_file config = Some path"
  shows "\<exists>item s entry w1. load_import_item W config w = Ok item \<and>
    tw_write_state W path (s(import_dedupe_key item \<mapsto> entry)) w1 = (Ok (), w') \<and>
    se_external_item_id entry = ii_external_item_id item"
proof -
  obtain item identity s where i: "load_import_item W config w = Ok item" "resolve_identity L config = Ok identity"
      "load_state W (pc_state_file config) w = Ok s"
    using assms(1) by (auto simp: import_main_def split: sum.splits)
  then show ?thesis
    using assms
    by (auto simp: import_main_def io_bind_Ok save_state_def Let_def split: option.splits if_splits)
      (intro exI conjI, assumption, simp)+
qed


section \<open>The smoke test\<close>

text \<open>
  A reply of the smoke test is never accepted: it is sent to the path for posts, whose handler
  refuses every request that names a post it replies to, and the board stays as it is.
\<close>

theorem smoke_reply_rejected:
  assumes "smoke_request L B sign created_at uuid config = Ok r" "pc_reply_to_post_id config = Some parent" "trim parent \<noteq> []"
  shows "\<exists>e. create_post_record B mainnet env r None d = (Inl e, d)"
proof -
  have "bcp_reply_to_post_id r = Some parent"
    using assms(1,2) by (auto simp: smoke_request_def signed_request_def)
  then have "\<exists>e. validate_create_post_request B mainnet r None = Inl e"
    using assms(3)
    by (cases "validate_create_post_request B mainnet r None")
      (auto simp: validate_create_post_request_def normalized_optional_def nonempty_def split: if_splits)
  then show ?thesis
    by (auto simp: create_post_record_def prepare_post_def)
qed

section \<open>An instance\<close>

text \<open>The text of an address spells the bytes of its key, and a signature begins with the key.\<close>

definition post_tool_lib :: tool_lib where
  "post_tool_lib = example_tool_lib\<lparr>tl_address_text := \<lambda>_ x. map (\<lambda>b. 0x4000 + unat b) (list_of x)\<rparr>"

definition post_board_lib :: "(addr_version \<times> bytes, 32 word) board_lib" where
  "post_board_lib = example_board_lib
     \<lparr>bl_rpc_address := \<lambda>s. Some (PubKey, map (\<lambda>c. word_of_nat (c - 0x4000)) s)\<rparr>"

definition post_sign :: schnorr_sign where
  "post_sign key message = Some (of_list (list_of (xonly (tl_public_key post_tool_lib key))))"

lemma post_lib_simps [simp]:
  "tl_hex_decode post_tool_lib = (\<lambda>bs. Some (unhex (map unat bs)))" "tl_secret_key post_tool_lib = tl_secret_key example_tool_lib"
  "tl_public_key post_tool_lib = tl_public_key example_tool_lib"
  "tl_address_text post_tool_lib network x = map (\<lambda>b. 0x4000 + unat b) (list_of x)"
  "bl_hex_decode post_board_lib = (\<lambda>bs. Some (unhex (map unat bs)))" "bl_unicode post_board_lib = (\<lambda>s. s)"
  "bl_rpc_address post_board_lib s = Some (PubKey, map (\<lambda>c. word_of_nat (c - 0x4000)) s)"
  "bl_xonly_public_key post_board_lib = (\<lambda>_. True)" "bl_schnorr_signature post_board_lib = (\<lambda>_. True)"
  "bl_schnorrsig_verify post_board_lib = (\<lambda>signature _ key. take 32 signature = key)"
  "from_script post_board_lib = from_script example_lib" "class_version post_board_lib = class_version example_lib"
  "version_as_u8 post_board_lib = version_as_u8 example_lib" "version_try_from post_board_lib = version_try_from example_lib"
  "pay_to_address_script post_board_lib = pay_to_address_script example_lib"
  by (simp_all add: post_tool_lib_def post_board_lib_def example_tool_lib_def)

lemma post_example_crates: "post_crates_ok post_tool_lib post_board_lib post_sign" "kaspa_versions_ok post_board_lib"
proof -
  have trimmed: "trim (map (\<lambda>b :: byte. 0x4000 + unat b) bs) = map (\<lambda>b. 0x4000 + unat b) bs" for bs
    by (rule trim_fixed) (auto simp: is_whitespace_def)
  show "post_crates_ok post_tool_lib post_board_lib post_sign"
    unfolding post_crates_ok_def pays_to_key_def
    by (auto simp: trimmed hex_text example_lib_def post_sign_def comp_def)
  show "kaspa_versions_ok post_board_lib"
    using example_lib_ok(1) by (simp add: kaspa_versions_ok_def)
qed

lemma post_leaf: "derive_leaf post_tool_lib mnemonic 0 0 = derive_leaf example_tool_lib mnemonic 0 0"
proof -
  have "derive_child_key post_tool_lib = derive_child_key example_tool_lib" "derive_master_key post_tool_lib = derive_master_key example_tool_lib"
      "mnemonic_to_seed post_tool_lib = mnemonic_to_seed example_tool_lib"
    by (simp_all add: fun_eq_iff derive_child_key_def child_data_def derive_master_key_def mnemonic_to_seed_def post_tool_lib_def)
  then show ?thesis
    by (simp add: derive_leaf_def)
qed

definition example_item :: normalized_import_item where
  "example_item =
     \<lparr>ii_source_key = str ''news'', ii_source_label = None, ii_external_item_id = str ''7'', ii_external_author_id = None,
      ii_external_author_name = str ''ann'', ii_external_author_url = None, ii_title = Some (str ''hi''), ii_body_text = None,
      ii_primary_url = None, ii_canonical_source_url = None, ii_published_at = None, ii_tags = [], ii_source_metadata = None\<rparr>"

definition example_pulse_config :: pulse_config where
  "example_pulse_config =
     \<lparr>pc_indexer_url = [], pc_author_address = None, pc_author_display_name = [], pc_private_key_hex = None, pc_mnemonic = Some [],
      pc_network = str ''mainnet'', pc_input_file = None, pc_state_file = Some (str ''s''), pc_allow_duplicates = False,
      pc_dry_run = False, pc_content_text = [], pc_primary_link_url = None, pc_reply_to_post_id = None\<rparr>"

lemma example_resolved: "\<exists>identity. resolve_identity post_tool_lib example_pulse_config = Ok identity"
proof -
  obtain leaf where leaf: "derive_leaf post_tool_lib [] 0 0 = Ok leaf" "tl_secret_key example_tool_lib (dk_key leaf)"
    using example_leaf [of "[]"] by (auto simp: post_leaf)
  moreover have "parse_network (str ''mainnet'') = Ok ''mainnet''"
    by (simp add: parse_network_def text_defs to_ascii_lowercase_def ascii_lower_def)
  ultimately show ?thesis
    by (simp add: resolve_identity_def example_pulse_config_def derive_identity_from_mnemonic_def kaspa_address_from_private_key_def
        tool_decode_fixed_hex_def hex_text Let_def)
qed

lemma example_content: "length (build_import_content example_item) \<le> 10000"
  by (simp add: build_import_content_def example_item_def text_or_empty_def import_source_label_def tool_normalized_optional_def
      title_case_source_key_def is_ascii_alphanumeric_def is_ascii_lowercase_def is_ascii_digit_def ascii_upper_def text_defs Let_def)


text \<open>A world that is the file of the imports, if there is one, and whose input is the example item.\<close>

definition example_tool_world :: "import_state option tool_world" where
  "example_tool_world =
     \<lparr>tw_exists = (\<lambda>_ w. w \<noteq> None), tw_read = (\<lambda>_ _. Err ''no file''), tw_stdin = (\<lambda>_. Ok []),
      tw_read_state = (\<lambda>_ w. case w of Some s \<Rightarrow> Ok s | None \<Rightarrow> Err ''no file''), tw_write_state = (\<lambda>_ s _. (Ok (), Some s)),
      tw_now = (\<lambda>w. (Ok (str ''now''), w)), tw_uuid = (\<lambda>w. (Ok (str ''u''), w)),
      tw_post = (\<lambda>_ _ w. (HttpResponse 200 (Some []), w)), tw_item_from_str = (\<lambda>_. Some example_item),
      tw_json_from_str = (\<lambda>_. None)\<rparr>"

lemma example_loaded: "load_import_item example_tool_world example_pulse_config w = Ok example_item"
  by (simp add: load_import_item_def example_tool_world_def example_pulse_config_def validate_import_item_def example_item_def
      text_or_empty_def text_defs)

lemma example_key:
  assumes "resolve_identity post_tool_lib example_pulse_config = Ok identity"
  shows "\<exists>key. tl_secret_key post_tool_lib key \<and> di_private_key_hex identity = hex (list_of key)"
proof -
  have "derive_identity_from_mnemonic post_tool_lib [] None (str ''mainnet'') = Ok identity"
    using assms by (simp add: resolve_identity_def example_pulse_config_def)
  then show ?thesis
    using mnemonic_identity [OF post_example_crates(1)] by blast
qed

lemma example_posted:
  assumes "resolve_identity post_tool_lib example_pulse_config = Ok identity"
  shows "\<exists>r w. import_main post_tool_lib post_board_lib post_sign example_tool_world example_pulse_config None = (Ok (Posted r), w)"
proof -
  obtain key where "tl_secret_key post_tool_lib key" "di_private_key_hex identity = hex (list_of key)"
    using example_key [OF assms] by blast
  then obtain r where "import_request post_tool_lib post_board_lib post_sign (str ''now'') (str ''u'') example_pulse_config example_item identity = Ok r"
    using signed_request_verified [OF post_example_crates] unfolding import_request_def by metis
  moreover have "load_state example_tool_world (pc_state_file example_pulse_config) None = Ok Map.empty"
    by (simp add: load_state_def example_tool_world_def example_pulse_config_def)
  moreover have "\<not> pc_dry_run example_pulse_config"
    by (simp add: example_pulse_config_def)
  ultimately show ?thesis
    using assms example_loaded [of None]
    by (simp add: import_main_def io_bind_def io_pure_def example_tool_world_def save_state_def post_request_def is_success_def Let_def
        split: option.splits)
qed


definition example_reply_config :: pulse_config where
  "example_reply_config = example_pulse_config\<lparr>pc_content_text := str ''hi'', pc_reply_to_post_id := Some (str ''p'')\<rparr>"

theorem smoke_reply_rejected_witness:
  "\<exists>r. smoke_request post_tool_lib post_board_lib post_sign (str ''now'') (str ''u'') example_reply_config = Ok r \<and>
     (\<forall>env d. \<exists>e. create_post_record post_board_lib True env r None d = (Inl e, d))"
proof -
  obtain identity where identity: "resolve_identity post_tool_lib example_pulse_config = Ok identity"
    using example_resolved by blast
  then have resolved: "resolve_identity post_tool_lib example_reply_config = Ok identity"
    by (simp add: resolve_identity_def example_reply_config_def example_pulse_config_def)
  moreover obtain key where key: "tl_secret_key post_tool_lib key" "di_private_key_hex identity = hex (list_of key)"
    using example_key [OF identity] by blast
  moreover have "\<exists>r. signed_request post_tool_lib post_board_lib post_sign (hex (list_of key)) x = Ok r" for x
    using signed_request_verified [OF post_example_crates key(1), of x] by blast
  ultimately obtain r where r: "smoke_request post_tool_lib post_board_lib post_sign (str ''now'') (str ''u'') example_reply_config = Ok r"
    by (simp add: smoke_request_def) blast
  have "pc_reply_to_post_id example_reply_config = Some (str ''p'')" "trim (str ''p'') \<noteq> []"
    by (simp_all add: example_reply_config_def text_defs)
  then show ?thesis
    using smoke_reply_rejected [OF r] r by blast
qed

end
