(* ===== verification/Spec2Isabelle.thy ===== *)
theory Spec2Isabelle
  imports Protocol Addresses Migration Chain_Acceptance Chain_Sync Gap_Filler Ticker Data_Source Start_Up Gift_Limits Board_Runs Api_Paging Tool_Posts
begin

text \<open>
  A verification of the Kasia indexer.

  \<^bold>\<open>The program.\<close> The indexer follows a Kaspa node, finds the messages of the Kasia
  protocol in the payloads of transactions, stores them in a key-value store and answers
  queries about them. The data source (\<^verbatim>\<open>indexer-actors/src/data_source.rs\<close>) owns the RPC
  connection: it forwards notifications to the block processor and to the virtual chain
  processor, and answers their requests. The block processor
  (\<^verbatim>\<open>block_processor.rs\<close>) parses the transactions of new blocks, stores their messages and starts
  a gap filler (\<^verbatim>\<open>block_gap_filler.rs\<close>) for each range of blocks it missed. The virtual chain
  processor (\<^verbatim>\<open>virtual_chain_processor.rs\<close>) records which chain block accepts a message and
  asks for the senders that a transaction does not tell; a syncer
  (\<^verbatim>\<open>virtual_chain_syncer.rs\<close>) fetches the chain it missed. The periodic processor
  (\<^verbatim>\<open>periodic_processor.rs\<close>) prunes and reports on the triggers of a ticker (\<^verbatim>\<open>ticker.rs\<close>).
  Two services stand beside the indexer: the gift service (\<^verbatim>\<open>indexer/src/gift.rs\<close>) pays a new
  wallet once, and the push service (\<^verbatim>\<open>indexer/src/push.rs\<close>) keeps the devices of wallets and
  notifies them of messages that the block processor reports. The board
  (\<^verbatim>\<open>indexer/src/api/board.rs\<close> over \<^verbatim>\<open>indexer-db/src/messages/board.rs\<close>) is a public feed of signed
  posts with replies, reactions, follows and reports, in partitions of the same store. The REST API
  (\<^verbatim>\<open>indexer/src/api/v1\<close>) answers queries for the stored messages from a block time on. Six command
  line tools (\<^verbatim>\<open>indexer/src/bin\<close>) are clients: they derive wallets and encrypt messages, send them in
  transactions, and post to the board.

  \<^bold>\<open>The theories\<close>, in the order of the code that calls:
  \<^item> \<^verbatim>\<open>Prelude\<close>: bytes, fixed-size arrays, results, folds that can fail, byte order, and
    transition systems with their invariants. \<^verbatim>\<open>Kv_Store\<close>: the store the database crate offers:
    a sorted map of byte strings per partition, write transactions that read their own writes
    and may conflict, prefix and range queries.
  \<^item> \<^verbatim>\<open>Protocol\<close> (\<^verbatim>\<open>protocol/src\<close>): the sealed operations and their parser; parsing inverts the
    wire format, and what is rejected is characterised.
  \<^item> \<^verbatim>\<open>Addresses\<close>, \<^verbatim>\<open>Metadata\<close>, \<^verbatim>\<open>Headers\<close>, \<^verbatim>\<open>Migration\<close>, \<^verbatim>\<open>Acceptance\<close>, \<^verbatim>\<open>Messages\<close>
    (\<^verbatim>\<open>indexer-db/src\<close>): the keys and values of each partition as bytes, their operations, and the
    migration from the first version of the database.
  \<^item> \<^verbatim>\<open>Metrics\<close>, \<^verbatim>\<open>Node\<close>: the counters, and what the node sends.
  \<^item> \<^verbatim>\<open>Block_Processor\<close> has the definitions of the block processor; \<^verbatim>\<open>Block_Messages\<close> shows that
    the messages of a block are found by every query of their kind, \<^verbatim>\<open>Block_Gaps\<close> that missed
    ranges are recorded, filled and closed, and that a shutdown ends the loop.
  \<^item> \<^verbatim>\<open>Virtual_Chain\<close> has the definitions of the virtual chain processor; \<^verbatim>\<open>Resolution\<close> shows
    that a sender resolved later gives the rows of a sender known at once,
    \<^verbatim>\<open>Chain_Acceptance\<close> that the accepting block is recorded and missing senders are requested.
  \<^item> \<^verbatim>\<open>Chain_Sync\<close> composes the processor with its syncers over their channels, as a step
    relation; \<^verbatim>\<open>Gap_Filler\<close> composes the gap filler with the block processor; \<^verbatim>\<open>Periodic\<close> and
    \<^verbatim>\<open>Ticker\<close> do the same for the maintenance jobs; \<^verbatim>\<open>Data_Source\<close> has the data source.
    \<^verbatim>\<open>Start_Up\<close> (\<^verbatim>\<open>indexer/src/main.rs\<close>) has the configuration, what a start reads from the database and
    who is told to stop; it shows which blocks a restarted chain processor knows.
  \<^item> \<^verbatim>\<open>Rust_Text\<close>: text, UTF-8, JSON, environment variables, HTTP answers and errors of the
    services. \<^verbatim>\<open>Gift_Attest\<close> and \<^verbatim>\<open>Gift_Service\<close> have the definitions of the gift service;
    \<^verbatim>\<open>Gift_Claims\<close> shows that claims which run together are paid once, \<^verbatim>\<open>Gift_Runs\<close> follows
    single claims and two races, \<^verbatim>\<open>Gift_Limits\<close> is about the rate limit and the challenges.
  \<^item> \<^verbatim>\<open>Push_Registry\<close> and \<^verbatim>\<open>Push_Dispatch\<close> have the definitions of the push service;
    \<^verbatim>\<open>Push_Matching\<close> shows who receives a message and who may change a registration,
    \<^verbatim>\<open>Push_Safety\<close> that duplicates are suppressed, that the registry is well formed in every
    reachable state, and what a restart finds; \<^verbatim>\<open>Push_Runs\<close> has runs of the service.
  \<^item> \<^verbatim>\<open>Board_Store\<close>, \<^verbatim>\<open>Board_Data\<close>, \<^verbatim>\<open>Board_Api\<close> and \<^verbatim>\<open>Board_Feed\<close> have the partitions, the data with the
    checks of signatures, the handlers and the feed of the board; \<^verbatim>\<open>Board_Access\<close> shows that only signed
    requests change the board and that a repeated post is answered with the first.
    \<^verbatim>\<open>Board_Counts\<close> and \<^verbatim>\<open>Board_Steps\<close> make the handlers a transition system in which the counters of
    posts are exact; \<^verbatim>\<open>Board_Follows\<close> shows that the follows refine a relation between addresses;
    \<^verbatim>\<open>Board_Pages\<close> reads the feed page by page; \<^verbatim>\<open>Board_Races\<close> has replayed reactions and replies at the
    same time. \<^verbatim>\<open>Board_Codec\<close>, \<^verbatim>\<open>Board_Examples\<close> and \<^verbatim>\<open>Board_Runs\<close> have an instance of the crates and runs.
  \<^item> \<^verbatim>\<open>Api_Queries\<close> (\<^verbatim>\<open>indexer/src/api/v1\<close>) has the handlers that answer queries for messages;
    \<^verbatim>\<open>Api_Answers\<close> shows what they answer, \<^verbatim>\<open>Api_Paging\<close> what a client gets that reads page by page.
  \<^item> \<^verbatim>\<open>Tool_Keys\<close>, \<^verbatim>\<open>Tool_Crypto\<close>, \<^verbatim>\<open>Tool_Send\<close>, \<^verbatim>\<open>Tool_Submit\<close> and \<^verbatim>\<open>Tool_Import\<close> have the command line
    tools: keys, encryption, fees and the choice of outputs, sending, and posting. The derivation of
    keys is shown to be that of BIP 32 in \<^verbatim>\<open>Tool_Keys\<close>; \<^verbatim>\<open>Tool_Messages\<close> shows that messages arrive
    and when they do not, \<^verbatim>\<open>Tool_Funds\<close> that amounts balance, \<^verbatim>\<open>Tool_Sent\<close> that a handshake reaches the
    indexer and its recipient, and \<^verbatim>\<open>Tool_Posts\<close> that the board accepts an imported item and an item is
    posted once. \<^verbatim>\<open>Tool_Runs\<close> has an instance of the crates.

  \<^bold>\<open>Decisions.\<close>
  \<^item> A byte string is a list of 8-bit words, a hash an array of 32 of them; integers have the
    width of the source, and wrap around as a release build does.
  \<^item> An error returned and a panic are the two faults of a result; a send that waits for ever is
    the value \<open>None\<close>.
  \<^item> A transaction body that is retried is given the interference of other writers at each
    conflict, as an explicit list; no fuel is needed, since the list is finite.
  \<^item> The Kaspa crates (script classes, address encoding, hashing) are the parameters
    \<open>kaspa_lib\<close> and \<open>node_lib\<close>; the RPC client is \<open>ds_env\<close>.
  \<^item> An insertion-ordered map is an association list; so is a hash map, whose order is not used.
  \<^item> What the services read outside (the clock, random values, files, providers, attestation) is
    an argument of each step. A gift claim runs in stages between which others run; a handler of
    the push service is one step.
  \<^item> A handler of the board reads, prepares a write transaction and commits it; what others write
    between these points is a part of its environment \<open>board_env\<close>.
  \<^item> The tools pass on a state of the world that the node, the files and the clock change. A floating
    point number is a rational rounded to 53 binary digits after each operation. A function that
    several tools have in the same form is modelled once.
  \<^item> Channels are lists; the choice of \<^verbatim>\<open>select!\<close> is the order of the inputs, arbitrary.
  \<^item> Logging, clocks of warnings, and estimates of sizes are left out.

  \<^bold>\<open>Not modelled.\<close> The routes of the REST API and its handlers that only call the push and the
  gift service; the construction of actors and channels, which only wires what is modelled; signal
  handlers and logging; help texts and the printing of results.
\<close>

end
